(* ===== verification/Prelude.thy ===== *)
theory Prelude
  imports Main "HOL-Library.Char_ord" "HOL-Library.List_Lexorder" "HOL-Library.Product_Lexorder"
begin

text \<open>
  Shared vocabulary of the development.

  \<^item> Python values: \<open>str\<close> is a \<open>string\<close> whose characters are the bytes of the UTF-8
    encoding (so \<open>len(s.encode())\<close> is \<open>length\<close>), a timestamp is an integer number of
    microseconds (the ISO text the code stores is ordered the same way), \<open>None\<close> is
    \<open>None\<close> of \<open>option\<close>, \<open>a or b\<close> on optional values is \<open>py_or\<close>.
  \<^item> SQLite tables are lists of row records.  \<open>fetchone\<close>, \<open>sql_update\<close>,
    \<open>sql_delete\<close> and \<open>rowcount\<close> are the statement forms the ledger uses.
  \<^item> A transaction body maps a store to an error or to a value with the new store.
  \<^item> A method that runs several transactions is a state/error function \<open>('s, 'e, 'a) io\<close>
    whose state survives an exception.
\<close>

section \<open>Names and collections of facts\<close>

named_theorems sql_simps \<open>equations of the SQL statement forms\<close>
named_theorems io_simps \<open>equations of the state and error combinators\<close>
named_theorems keep_rules \<open>preservation lemmas of the component invariants\<close>

type_synonym timestamp = int

definition microseconds_per_minute :: int where
  "microseconds_per_minute = 60 * 1000000"

definition minutes :: "int \<Rightarrow> int" where
  "minutes n = n * microseconds_per_minute"

definition days :: "int \<Rightarrow> int" where
  "days n = n * (24 * 60 * microseconds_per_minute)"

section \<open>Optional values\<close>

text \<open>SQL \<open>COALESCE(?, column)\<close> on a nullable column, and on a column that is never null.\<close>

definition coalesce :: "'a option \<Rightarrow> 'a option \<Rightarrow> 'a option" where
  "coalesce x y = (case x of None \<Rightarrow> y | Some a \<Rightarrow> Some a)"

definition coalesce_to :: "'a option \<Rightarrow> 'a \<Rightarrow> 'a" where
  "coalesce_to x y = (case x of None \<Rightarrow> y | Some a \<Rightarrow> a)"

text \<open>Python truthiness of an optional string, and \<open>x or y\<close> on optional strings.\<close>

definition truthy :: "string option \<Rightarrow> bool" where
  "truthy x = (case x of None \<Rightarrow> False | Some s \<Rightarrow> s \<noteq> [])"

definition py_or :: "string option \<Rightarrow> string option \<Rightarrow> string option" where
  "py_or x y = (if truthy x then x else y)"

definition str_or :: "string option \<Rightarrow> string \<Rightarrow> string" where
  "str_or x y = (case x of None \<Rightarrow> y | Some s \<Rightarrow> if s = [] then y else s)"

lemma coalesce_simps [simp]:
  "coalesce None y = y" "coalesce (Some a) y = Some a" "coalesce x x = x"
  "coalesce_to None b = b" "coalesce_to (Some a) b = a"
  by (auto simp: coalesce_def coalesce_to_def split: option.splits)

lemma coalesce_eq_None [simp]: "coalesce x y = None \<longleftrightarrow> x = None \<and> y = None"
  by (auto simp: coalesce_def split: option.splits)

lemma truthy_simps [simp]:
  "\<not> truthy None" "truthy (Some s) \<longleftrightarrow> s \<noteq> []"
  by (simp_all add: truthy_def)

lemma py_or_simps [simp]:
  "py_or None y = y" "s \<noteq> [] \<Longrightarrow> py_or (Some s) y = Some s"
  by (simp_all add: py_or_def)


section \<open>SQL statement forms over lists of rows\<close>

definition fetchone :: "('r \<Rightarrow> bool) \<Rightarrow> 'r list \<Rightarrow> 'r option" where
  "fetchone P t = List.find P t"

definition sql_update :: "('r \<Rightarrow> bool) \<Rightarrow> ('r \<Rightarrow> 'r) \<Rightarrow> 'r list \<Rightarrow> 'r list" where
  "sql_update P f t = map (\<lambda>r. if P r then f r else r) t"

definition sql_delete :: "('r \<Rightarrow> bool) \<Rightarrow> 'r list \<Rightarrow> 'r list" where
  "sql_delete P t = filter (\<lambda>r. \<not> P r) t"

definition rowcount :: "('r \<Rightarrow> bool) \<Rightarrow> 'r list \<Rightarrow> nat" where
  "rowcount P t = length (filter P t)"

definition exists_row :: "('r \<Rightarrow> bool) \<Rightarrow> 'r list \<Rightarrow> bool" where
  "exists_row P t = list_ex P t"

definition order_by :: "('r \<Rightarrow> 'k::linorder) \<Rightarrow> 'r list \<Rightarrow> 'r list" where
  "order_by k t = sort_key k t"

definition sql_sum :: "('r \<Rightarrow> nat) \<Rightarrow> 'r list \<Rightarrow> nat" where
  "sql_sum f t = sum_list (map f t)"

lemma fetchone_Nil [simp]: "fetchone P [] = None"
  by (simp add: fetchone_def)

lemma fetchone_Cons [simp]:
  "fetchone P (r # t) = (if P r then Some r else fetchone P t)"
  by (simp add: fetchone_def)

lemma fetchone_append [simp]:
  "fetchone P (t @ u) = (case fetchone P t of None \<Rightarrow> fetchone P u | Some r \<Rightarrow> Some r)"
  by (induction t) auto

lemma fetchone_None: "fetchone P t = None \<longleftrightarrow> (\<forall>r\<in>set t. \<not> P r)"
  by (induction t) auto

lemma fetchone_SomeD: "fetchone P t = Some r \<Longrightarrow> r \<in> set t \<and> P r"
  by (induction t) (auto split: if_splits)

lemma fetchone_Some_ex: "r \<in> set t \<Longrightarrow> P r \<Longrightarrow> \<exists>r'. fetchone P t = Some r'"
  by (induction t) auto

lemma fetchone_unique:
  "r \<in> set t \<Longrightarrow> P r \<Longrightarrow> (\<And>x. x \<in> set t \<Longrightarrow> P x \<Longrightarrow> x = r) \<Longrightarrow> fetchone P t = Some r"
  by (metis fetchone_SomeD fetchone_Some_ex)

text \<open>A lookup by a column whose values are distinct finds the one row that holds the key.\<close>

lemma fetchone_key:
  "distinct (map k t) \<Longrightarrow> fetchone (\<lambda>r. k r = x) t = Some r \<longleftrightarrow> r \<in> set t \<and> k r = x"
proof (induction t)
  case (Cons a t)
  then show ?case by (auto simp: image_iff)
qed simp

lemma fetchone_key_in: "fetchone (\<lambda>r. k r = x) t \<noteq> None \<longleftrightarrow> x \<in> k ` set t"
  by (induction t) auto

lemma fetchone_key_None: "fetchone (\<lambda>r. k r = x) t = None \<longleftrightarrow> x \<notin> k ` set t"
  by (induction t) auto

lemma fetchone_update [sql_simps]:
  "(\<And>r. P (f r) = P r) \<Longrightarrow>
   fetchone P (sql_update Q f t) = map_option (\<lambda>r. if Q r then f r else r) (fetchone P t)"
  by (induction t) (auto simp: sql_update_def)

lemma fetchone_update_matched:
  "(\<And>x. P x \<Longrightarrow> P (f x)) \<Longrightarrow> fetchone P (sql_update P f t) = map_option f (fetchone P t)"
  by (induction t) (auto simp: sql_update_def)

lemma sql_update_simps [simp]:
  "sql_update P f [] = []"
  "sql_update P f (r # t) = (if P r then f r else r) # sql_update P f t"
  "sql_update P f (t @ u) = sql_update P f t @ sql_update P f u"
  "length (sql_update P f t) = length t"
  by (simp_all add: sql_update_def)

lemma set_sql_update: "set (sql_update P f t) = (\<lambda>r. if P r then f r else r) ` set t"
  by (simp add: sql_update_def)

text \<open>An update that does not write a column leaves the list of its values as it was.\<close>

lemma map_sql_update [sql_simps]:
  "(\<And>r. k (f r) = k r) \<Longrightarrow> map k (sql_update P f t) = map k t"
  by (induction t) auto

lemma image_sql_update [sql_simps]:
  "(\<And>r. k (f r) = k r) \<Longrightarrow> k ` set (sql_update P f t) = k ` set t"
  by (metis list.set_map map_sql_update)

lemma map_sql_update_matched:
  "(\<And>r. r \<in> set t \<Longrightarrow> P r \<Longrightarrow> k (f r) = k r) \<Longrightarrow> map k (sql_update P f t) = map k t"
  by (induction t) auto

lemma sql_update_unmatched: "\<forall>r\<in>set t. \<not> P r \<Longrightarrow> sql_update P f t = t"
  by (induction t) auto

lemma sql_delete_simps [simp]:
  "sql_delete P [] = []"
  "sql_delete P (r # t) = (if P r then sql_delete P t else r # sql_delete P t)"
  "sql_delete P (t @ u) = sql_delete P t @ sql_delete P u"
  "set (sql_delete P t) = {r \<in> set t. \<not> P r}"
  by (simp_all add: sql_delete_def)

lemma distinct_sql_delete: "distinct (map k t) \<Longrightarrow> distinct (map k (sql_delete P t))"
  by (simp add: sql_delete_def distinct_map_filter)

lemma image_sql_delete: "k ` set t \<subseteq> S \<Longrightarrow> k ` set (sql_delete P t) \<subseteq> S"
  by auto

lemma length_sql_delete: "length (sql_delete P t) \<le> length t"
  by (simp add: sql_delete_def)

lemma fetchone_delete_other [sql_simps]:
  "(\<And>r. P r \<Longrightarrow> \<not> Q r) \<Longrightarrow> fetchone P (sql_delete Q t) = fetchone P t"
  by (induction t) auto

lemma fetchone_delete_same [simp]: "fetchone P (sql_delete P t) = None"
  by (simp add: fetchone_None)

lemma rowcount_simps [simp]:
  "rowcount P [] = 0"
  "rowcount P (r # t) = (if P r then Suc (rowcount P t) else rowcount P t)"
  by (simp_all add: rowcount_def)

lemma rowcount_0: "rowcount P t = 0 \<longleftrightarrow> (\<forall>r\<in>set t. \<not> P r)"
  by (induction t) auto

lemma rowcount_key_le_1: "distinct (map k t) \<Longrightarrow> rowcount (\<lambda>r. k r = x) t \<le> 1"
proof (induction t)
  case (Cons a t)
  then show ?case
    by (cases "k a = x") (auto simp: rowcount_0 image_iff)
qed simp

lemma rowcount_key:
  "distinct (map k t) \<Longrightarrow> rowcount (\<lambda>r. k r = x) t = (if x \<in> k ` set t then 1 else 0)"
proof (induction t)
  case (Cons a t)
  then show ?case
    by (cases "k a = x") (auto simp: rowcount_0 image_iff)
qed simp

lemma exists_row_iff [simp]: "exists_row P t \<longleftrightarrow> (\<exists>r\<in>set t. P r)"
  by (induction t) (auto simp: exists_row_def)

lemma exists_row_key: "exists_row (\<lambda>r. k r = x) t \<longleftrightarrow> x \<in> k ` set t"
  by auto

lemma distinct_key_unique:
  "distinct (map k t) \<Longrightarrow> x \<in> set t \<Longrightarrow> y \<in> set t \<Longrightarrow> k x = k y \<Longrightarrow> x = y"
  by (metis distinct_map inj_onD)

lemma order_by_simps [simp]:
  "set (order_by k t) = set t" "length (order_by k t) = length t"
  "sorted (map k (order_by k t))"
  by (simp_all add: order_by_def)

lemma distinct_order_by [simp]: "distinct (map k (order_by h t)) \<longleftrightarrow> distinct (map k t)"
  by (metis order_by_def distinct_map distinct_sort set_sort)

lemma sql_sum_simps [simp]:
  "sql_sum f [] = 0" "sql_sum f (r # t) = f r + sql_sum f t"
  "sql_sum f (t @ u) = sql_sum f t + sql_sum f u"
  by (simp_all add: sql_sum_def)

text \<open>The head of a list sorted by a key has the least key.\<close>

lemma order_by_hd_le:
  "order_by k t = r # rs \<Longrightarrow> r' \<in> set t \<Longrightarrow> k r \<le> k r'"
proof -
  assume eq: "order_by k t = r # rs" and mem: "r' \<in> set t"
  have "sorted (map k (order_by k t))" by simp
  with eq have "\<forall>x\<in>set rs. k r \<le> k x" by simp
  moreover have "r' \<in> set (r # rs)" using eq mem by (metis order_by_simps(1))
  ultimately show ?thesis by auto
qed

lemma order_by_empty [simp]: "order_by k [] = []"
  by (simp add: order_by_def)

lemma order_by_Nil [simp]: "order_by k t = [] \<longleftrightarrow> t = []"
  by (metis length_0_conv order_by_simps(2))

section \<open>Transactions and methods\<close>

text \<open>
  A method's result: the exception or the value, and the state it leaves.  A transaction body
  that raises is rolled back, so its state is not part of its result.
\<close>

type_synonym ('s, 'e, 'a) body = "'s \<Rightarrow> 'e + ('a \<times> 's)"
type_synonym ('s, 'e, 'a) io = "'s \<Rightarrow> ('e + 'a) \<times> 's"

definition ret :: "'a \<Rightarrow> ('s, 'e, 'a) io" where
  "ret x = (\<lambda>s. (Inr x, s))"

definition raise :: "'e \<Rightarrow> ('s, 'e, 'a) io" where
  "raise e = (\<lambda>s. (Inl e, s))"

definition andThen :: "('s, 'e, 'a) io \<Rightarrow> ('a \<Rightarrow> ('s, 'e, 'b) io) \<Rightarrow> ('s, 'e, 'b) io" where
  "andThen m k = (\<lambda>s. case m s of (Inl e, s') \<Rightarrow> (Inl e, s') | (Inr x, s') \<Rightarrow> k x s')"

definition catch :: "('s, 'e, 'a) io \<Rightarrow> ('e \<Rightarrow> ('s, 'e, 'a) io) \<Rightarrow> ('s, 'e, 'a) io" where
  "catch m h = (\<lambda>s. case m s of (Inl e, s') \<Rightarrow> h e s' | (Inr x, s') \<Rightarrow> (Inr x, s'))"

definition reading :: "('s \<Rightarrow> 'a) \<Rightarrow> ('s, 'e, 'a) io" where
  "reading f = (\<lambda>s. (Inr (f s), s))"

definition try_finally :: "('s, 'e, 'a) io \<Rightarrow> ('s \<Rightarrow> 's) \<Rightarrow> ('s, 'e, 'a) io" where
  "try_finally m f = (\<lambda>s. (fst (m s), f (snd (m s))))"

text \<open>A call whose exception the caller looks at, and a value or exception computed without effects.\<close>

definition attempt :: "('s, 'e, 'a) io \<Rightarrow> ('s, 'e, 'e + 'a) io" where
  "attempt m s = (Inr (fst (m s)), snd (m s))"

definition lift_sum :: "'e + 'a \<Rightarrow> ('s, 'e, 'a) io" where
  "lift_sum x = (case x of Inl e \<Rightarrow> raise e | Inr a \<Rightarrow> ret a)"

fun for_each :: "('b \<Rightarrow> ('s, 'e, unit) io) \<Rightarrow> 'b list \<Rightarrow> ('s, 'e, unit) io" where
  "for_each f [] = ret ()"
| "for_each f (x # xs) = andThen (f x) (\<lambda>_. for_each f xs)"

lemma io_basic [io_simps]:
  "ret x s = (Inr x, s)" "raise e s = (Inl e, s)" "reading f s = (Inr (f s), s)"
  by (simp_all add: ret_def raise_def reading_def)

lemma andThen_apply [io_simps]:
  "andThen m k s = (case fst (m s) of Inl e \<Rightarrow> (Inl e, snd (m s)) | Inr x \<Rightarrow> k x (snd (m s)))"
  by (auto simp: andThen_def split: prod.splits sum.splits)

lemma catch_apply [io_simps]:
  "catch m h s = (case fst (m s) of Inl e \<Rightarrow> h e (snd (m s)) | Inr x \<Rightarrow> (Inr x, snd (m s)))"
  by (auto simp: catch_def split: prod.splits sum.splits)

lemma lift_sum_apply [io_simps]: "lift_sum x s = (x, s)"
  by (simp add: lift_sum_def io_basic split: sum.splits)

lemma andThen_Inr: "m s = (Inr x, s') \<Longrightarrow> andThen m k s = k x s'"
  by (simp add: andThen_def)

lemma andThen_Inl: "m s = (Inl e, s') \<Longrightarrow> andThen m k s = (Inl e, s')"
  by (simp add: andThen_def)

lemma snd_andThen_ret: "snd (andThen m (\<lambda>_. ret y) s) = snd (m s)"
  by (simp add: andThen_def ret_def split: prod.splits sum.splits)

lemma andThen_reading: "andThen (reading f) k s = k (f s) s"
  by (simp add: andThen_def reading_def)

lemma andThen_ret: "andThen (ret x) k = k x"
  by (rule ext) (simp add: andThen_def ret_def)

lemma andThen_InrE:
  assumes "andThen m k s = (Inr x, s')"
  obtains y s1 where "m s = (Inr y, s1)" "k y s1 = (Inr x, s')"
  using assms by (auto simp: andThen_def split: prod.splits sum.splits)

lemma catch_raising: "catch m h s = (Inr x, s') \<Longrightarrow> (\<And>e s1. fst (h e s1) \<noteq> Inr x) \<Longrightarrow> m s = (Inr x, s')"
  by (auto simp: catch_def split: prod.splits sum.splits) (metis fst_conv)

lemma andThen_assoc: "andThen m (\<lambda>x. andThen (n x) k) = andThen (andThen m n) k"
  by (rule ext) (auto simp: andThen_def split: prod.splits sum.splits)

text \<open>A postcondition passes through a sequence when it holds after every part of it.\<close>

lemma andThen_post:
  assumes "P (snd (m s))" "\<And>x. fst (m s) = Inr x \<Longrightarrow> P (snd (k x (snd (m s))))"
  shows "P (snd (andThen m k s))"
  using assms by (cases "m s", cases "fst (m s)") (auto simp: andThen_def)

text \<open>
  \<open>keeps R m\<close>: whatever the method returns or raises, the states before and after are
  related by \<open>R\<close>.  For a reflexive and transitive \<open>R\<close> it passes through every combinator,
  so a method keeps what each of its calls keeps.
\<close>

definition keeps :: "('s \<Rightarrow> 's \<Rightarrow> bool) \<Rightarrow> ('s, 'e, 'a) io \<Rightarrow> bool" where
  "keeps R m \<longleftrightarrow> (\<forall>s. R s (snd (m s)))"

lemma keepsI: "(\<And>s. R s (snd (m s))) \<Longrightarrow> keeps R m"
  by (simp add: keeps_def)

lemma keepsD: "keeps R m \<Longrightarrow> R s (snd (m s))"
  by (simp add: keeps_def)

lemma keeps_mono: "keeps R m \<Longrightarrow> (\<And>s s'. R s s' \<Longrightarrow> R' s s') \<Longrightarrow> keeps R' m"
  by (simp add: keeps_def)

section \<open>Interfaces: kept relations and invariants of step systems\<close>

locale kept_relation =
  fixes R :: "'s \<Rightarrow> 's \<Rightarrow> bool"
  assumes kept_refl: "R s s"
    and kept_trans: "R s t \<Longrightarrow> R t u \<Longrightarrow> R s u"
begin

lemma keeps_ret: "keeps R (ret x)" and keeps_raise: "keeps R (raise e)"
  and keeps_reading: "keeps R (reading f)"
  by (simp_all add: keeps_def io_simps kept_refl)

lemma keeps_andThen:
  assumes "keeps R m" and "\<And>x. keeps R (k x)"
  shows "keeps R (andThen m k)"
proof (rule keepsI)
  fix s
  have a: "R s (snd (m s))" using assms(1) by (rule keepsD)
  show "R s (snd (andThen m k s))"
  proof (cases "fst (m s)")
    case (Inl e)
    then show ?thesis using a by (simp add: io_simps)
  next
    case (Inr x)
    have "R (snd (m s)) (snd (k x (snd (m s))))" using assms(2) by (rule keepsD)
    with Inr a show ?thesis by (auto simp: io_simps intro: kept_trans)
  qed
qed

lemma keeps_catch:
  assumes "keeps R m" and "\<And>e. keeps R (h e)"
  shows "keeps R (catch m h)"
proof (rule keepsI)
  fix s
  have a: "R s (snd (m s))" using assms(1) by (rule keepsD)
  show "R s (snd (catch m h s))"
  proof (cases "fst (m s)")
    case (Inr x)
    then show ?thesis using a by (simp add: io_simps)
  next
    case (Inl e)
    have "R (snd (m s)) (snd (h e (snd (m s))))" using assms(2) by (rule keepsD)
    with Inl a show ?thesis by (auto simp: io_simps intro: kept_trans)
  qed
qed

lemma keeps_if: "keeps R a \<Longrightarrow> keeps R b \<Longrightarrow> keeps R (if c then a else b)"
  by simp

lemma keeps_finally: "keeps R m \<Longrightarrow> (\<And>s. R s (f s)) \<Longrightarrow> keeps R (try_finally m f)"
  unfolding keeps_def try_finally_def by (auto intro: kept_trans)

lemma keeps_for_each: "(\<And>x. keeps R (f x)) \<Longrightarrow> keeps R (for_each f xs)"
  by (induction xs) (simp_all add: keeps_ret keeps_andThen)

lemma keeps_attempt: "keeps R m \<Longrightarrow> keeps R (attempt m)" and keeps_lift_sum: "keeps R (lift_sum y)"
  by (simp_all add: keeps_def attempt_def io_simps kept_refl)

lemmas keeps_rules = keeps_ret keeps_raise keeps_reading keeps_andThen keeps_catch keeps_for_each
  keeps_attempt keeps_lift_sum

end

locale invariant_system =
  fixes init :: "'s \<Rightarrow> bool"
    and step :: "'s \<Rightarrow> 's \<Rightarrow> bool"
    and inv :: "'s \<Rightarrow> bool"
  assumes inv_init: "init s \<Longrightarrow> inv s"
    and inv_step: "inv s \<Longrightarrow> step s t \<Longrightarrow> inv t"
begin

lemma inv_steps: "step\<^sup>*\<^sup>* s t \<Longrightarrow> inv s \<Longrightarrow> inv t"
  by (induction rule: rtranclp_induct) (auto intro: inv_step)

lemma inv_reachable: "init s \<Longrightarrow> step\<^sup>*\<^sup>* s t \<Longrightarrow> inv t"
  by (blast intro: inv_init inv_steps)

end

end
