(* ===== verification/Sdk_Models.thy ===== *)
theory Sdk_Models
  imports Prelude
begin

text \<open>
  The shared Pydantic models of \<open>packages/gg-sdk/gg/sdk\<close>: the enumerations as datatypes with
  their wire values, the frozen models as records.  Field names carry a prefix for the model they
  belong to.  Pydantic's own serialisation is library code and appears as parameters where a
  component stores it.
\<close>

section \<open>domain.py\<close>

datatype ConversationStatus = CS_IDLE | CS_RUNNING | CS_FINISHED | CS_ERROR | CS_CANCELLED

datatype MessageDeliveryStatus = MD_ACCEPTED | MD_DELIVERED | MD_FAILED | MD_UNKNOWN

datatype EventKind = EK_MESSAGE | EK_ACTION | EK_OBSERVATION | EK_STATUS | EK_ERROR

text \<open>
  Event payloads are JSON objects.  The code reads string entries by key and otherwise passes the
  payload on, so a payload is an association list from keys to JSON values.
\<close>

datatype json = JNull | JBool bool | JInt int | JStr string | JList "json list"
  | JObj "(string \<times> json) list"

type_synonym payload = "(string \<times> json) list"

record Event =
  e_id :: string
  e_seq :: int
  e_kind :: EventKind
  e_payload :: payload
  e_created_at :: timestamp

record ConversationRecord =
  cr_id :: string
  cr_status :: ConversationStatus
  cr_working_dir :: string
  cr_created_at :: timestamp

record MessageReceipt =
  mr_id :: string
  mr_content :: string
  mr_status :: MessageDeliveryStatus
  mr_detail :: "string option"
  mr_created_at :: timestamp
  mr_updated_at :: timestamp

fun ConversationStatus_value :: "ConversationStatus \<Rightarrow> string" where
  "ConversationStatus_value CS_IDLE = ''idle''"
| "ConversationStatus_value CS_RUNNING = ''running''"
| "ConversationStatus_value CS_FINISHED = ''finished''"
| "ConversationStatus_value CS_ERROR = ''error''"
| "ConversationStatus_value CS_CANCELLED = ''cancelled''"

fun MessageDeliveryStatus_value :: "MessageDeliveryStatus \<Rightarrow> string" where
  "MessageDeliveryStatus_value MD_ACCEPTED = ''accepted''"
| "MessageDeliveryStatus_value MD_DELIVERED = ''delivered_to_pi''"
| "MessageDeliveryStatus_value MD_FAILED = ''failed''"
| "MessageDeliveryStatus_value MD_UNKNOWN = ''unknown''"

section \<open>agent_backend.py\<close>

definition DEFAULT_PI_MODEL :: string where
  "DEFAULT_PI_MODEL = ''z-ai/glm-5.3-flashx''"

definition PI_MODEL_CATALOG :: "string list" where
  "PI_MODEL_CATALOG = [DEFAULT_PI_MODEL, ''anthropic/claude-sonnet-4.5'']"

section \<open>tasks.py\<close>

datatype TaskState = TS_QUEUED | TS_STARTING | TS_RUNNING | TS_IDLE | TS_SLEEPING
  | TS_FINALIZING | TS_COMPLETED | TS_FAILED | TS_CANCELLED

record CreateTaskRequest =
  ct_repository :: "string option"
  ct_prompt :: string
  ct_idempotency_key :: string
  ct_base_ref :: "string option"
  ct_retry_of :: "string option"
  ct_model :: string

record TaskRecord =
  tr_owner_id :: "string option"
  tr_id :: string
  tr_seq :: nat
  tr_state :: TaskState
  tr_idempotency_key :: string
  tr_repository :: "string option"
  tr_prompt :: string
  tr_base_ref :: "string option"
  tr_base_sha :: "string option"
  tr_retry_of :: "string option"
  tr_model :: string
  tr_created_at :: timestamp
  tr_updated_at :: timestamp
  tr_agent_outcome :: "string option"
  tr_outcome_detail :: "string option"
  tr_check_status :: "string option"
  tr_sandbox_cleanup_status :: "string option"
  tr_payload_expired :: bool
  tr_workspace_expired :: bool
  tr_workspace_last_activity_at :: "timestamp option"

section \<open>task\_execution.py\<close>

datatype TaskExecutionPhase = TP_ACCEPTED | TP_PREPARING | TP_RUNNING_AGENT | TP_RUNNING_CHECKS
  | TP_COMPLETED | TP_FAILED

datatype AgentOutcome = AO_SUCCEEDED | AO_FAILED | AO_CANCELLED | AO_TIMEOUT | AO_NO_CHANGES
  | AO_NOT_RUN

datatype CheckOutcome = CO_PASSED | CO_FAILED | CO_NOT_RUN | CO_TIMEOUT

fun AgentOutcome_value :: "AgentOutcome \<Rightarrow> string" where
  "AgentOutcome_value AO_SUCCEEDED = ''succeeded''"
| "AgentOutcome_value AO_FAILED = ''failed''"
| "AgentOutcome_value AO_CANCELLED = ''cancelled''"
| "AgentOutcome_value AO_TIMEOUT = ''timeout''"
| "AgentOutcome_value AO_NO_CHANGES = ''no_changes''"
| "AgentOutcome_value AO_NOT_RUN = ''not_run''"

fun CheckOutcome_value :: "CheckOutcome \<Rightarrow> string" where
  "CheckOutcome_value CO_PASSED = ''passed''"
| "CheckOutcome_value CO_FAILED = ''failed''"
| "CheckOutcome_value CO_NOT_RUN = ''not_run''"
| "CheckOutcome_value CO_TIMEOUT = ''timeout''"

record CommandCapture =
  cc_command :: string
  cc_exit_code :: "int option"
  cc_duration_ms :: int
  cc_stdout :: string
  cc_stderr :: string
  cc_stdout_truncated :: bool
  cc_stderr_truncated :: bool
  cc_timed_out :: bool

record TaskResultManifest =
  tm_task_id :: string
  tm_execution_id :: string
  tm_repository :: "string option"
  tm_task_branch :: "string option"
  tm_base_ref :: "string option"
  tm_base_sha :: "string option"
  tm_head_sha :: "string option"
  tm_changed_files :: "string list"
  tm_patch :: "string option"
  tm_patch_truncated :: bool
  tm_bootstrap :: "CommandCapture option"
  tm_check :: "CommandCapture option"
  tm_check_outcome :: CheckOutcome
  tm_agent_outcome :: AgentOutcome
  tm_conversation_id :: "string option"
  tm_outcome_detail :: "string option"
  tm_completed_at :: "timestamp option"

record StartTaskExecutionRequest =
  sx_task_id :: string
  sx_repository :: "string option"
  sx_prompt :: string
  sx_base_ref :: "string option"
  sx_base_sha :: "string option"
  sx_task_branch :: "string option"
  sx_start_key :: string
  sx_deadline_at :: timestamp
  sx_model :: string

record TaskExecutionRecord =
  xr_execution_id :: string
  xr_task_id :: string
  xr_model :: string
  xr_repository :: "string option"
  xr_start_key :: string
  xr_phase :: TaskExecutionPhase
  xr_task_branch :: "string option"
  xr_base_ref :: "string option"
  xr_deadline_at :: timestamp
  xr_conversation_id :: "string option"
  xr_manifest_path :: "string option"
  xr_outcome_detail :: "string option"
  xr_created_at :: timestamp
  xr_updated_at :: timestamp

section \<open>publication.py and task\_supervision.py\<close>

datatype PublicationState = PS_PENDING | PS_PUSHED | PS_CREATING | PS_PUBLISHED | PS_SKIPPED
  | PS_FAILED

record PublicationRecord =
  pr_task_id :: string
  pr_repository :: string
  pr_task_branch :: string
  pr_base_ref :: string
  pr_task_marker :: string
  pr_state :: PublicationState
  pr_commit_sha :: "string option"
  pr_check_outcome :: CheckOutcome
  pr_agent_outcome :: AgentOutcome
  pr_pr_number :: "int option"
  pr_pr_url :: "string option"
  pr_pr_draft :: "bool option"
  pr_pr_author :: "string option"
  pr_pr_state :: "string option"
  pr_detail :: "string option"
  pr_created_at :: timestamp
  pr_updated_at :: timestamp

record RetryTaskRequest =
  rt_idempotency_key :: string
  rt_base_ref :: "string option"

record TaskResultRecord =
  rr_task_id :: string
  rr_state :: TaskState
  rr_execution_id :: "string option"
  rr_manifest :: "TaskResultManifest option"
  rr_publication :: "PublicationRecord option"
  rr_evidence_complete :: bool
  rr_evidence_detail :: "string option"
  rr_sandbox_cleanup_status :: "string option"
  rr_outcome_detail :: "string option"
  rr_check_status :: "string option"
  rr_retry_of :: "string option"
  rr_prior_task_branch :: "string option"
  rr_prior_pr_url :: "string option"
  rr_workspace_available :: bool
  rr_workspace_expires_at :: "timestamp option"
  rr_workspace_expired :: bool
  rr_updated_at :: timestamp

end
