(* ===== verification/Sqlite_Db.thy ===== *)
theory Sqlite_Db
  imports Sdk_Models
begin

text \<open>
  \<open>backend/gg/runtime/sqlite_db.py\<close>: write transactions under \<open>BEGIN IMMEDIATE\<close>, the
  authorizer that keeps a transaction body away from the revision row, and the revision counter
  that every committed write advances.  A body that raises is rolled back.  The exceptions of the
  control plane are one datatype, so that a handler can test them the way \<open>except\<close> clauses do.
\<close>

section \<open>Exceptions of the control plane\<close>

datatype error =
    KeyError string
  | ValueError string
  | RuntimeError string
  | AssertionError
  | AttributeError
  | ValidationError
  | IntegrityError string
  | NotAuthorized
  | PublicationIdentityError string
  | SupervisionIdentityError string
  | TaskConflictError TaskRecord
  | TaskValidationError string
  | TaskControlError string
  | StoragePressureError string
  | PersistenceUnavailable
  | ModalLifecycleError string
  | CredentialUnavailableError string
  | AmbiguousProviderStateError string
  | SandboxNotFoundError string
  | ConflictingSandboxesError string
  | RepositoryAccessError string
  | HTTPStatusError int "string option"
  | HTTPTransportError string
  | ProviderError string

text \<open>The subclass tests used by the \<open>except\<close> clauses.\<close>

fun is_ModalLifecycleError :: "error \<Rightarrow> bool" where
  "is_ModalLifecycleError (ModalLifecycleError _) = True"
| "is_ModalLifecycleError (CredentialUnavailableError _) = True"
| "is_ModalLifecycleError (AmbiguousProviderStateError _) = True"
| "is_ModalLifecycleError (SandboxNotFoundError _) = True"
| "is_ModalLifecycleError (ConflictingSandboxesError _) = True"
| "is_ModalLifecycleError _ = False"

section \<open>The authorizer\<close>

datatype sql_action = SQLITE_TRANSACTION | SQLITE_SAVEPOINT | SQLITE_ATTACH | SQLITE_DETACH
  | SQLITE_PRAGMA | SQLITE_ALTER_TABLE | SQLITE_READ | SQLITE_INSERT | SQLITE_UPDATE | SQLITE_DELETE

datatype sql_verdict = SQLITE_DENY | SQLITE_OK

definition authorize_write ::
  "sql_action \<Rightarrow> string option \<Rightarrow> string option \<Rightarrow> sql_verdict" where
  "authorize_write action tbl column =
     (if action \<in> {SQLITE_TRANSACTION, SQLITE_SAVEPOINT, SQLITE_ATTACH, SQLITE_DETACH, SQLITE_PRAGMA}
      then SQLITE_DENY
      else if action = SQLITE_ALTER_TABLE \<and> column = Some ''runtime_metadata'' then SQLITE_DENY
      else if tbl = Some ''runtime_metadata'' \<and> action \<noteq> SQLITE_READ then SQLITE_DENY
      else SQLITE_OK)"

section \<open>Revisioned write transactions\<close>

record metadata =
  revision :: nat

text \<open>
  \<open>SQLiteDB.write\<close>.  A body cannot touch \<open>runtime_metadata\<close> (the authorizer raises), so a
  body that would change the revision fails; one that returns commits with the next revision.
\<close>

definition db_write ::
  "('b metadata_scheme, error, 'a) body \<Rightarrow> ('b metadata_scheme, error, 'a) io" where
  "db_write f = (\<lambda>d. case f d of
     Inl e \<Rightarrow> (Inl e, d)
   | Inr (x, d') \<Rightarrow>
       if revision d' \<noteq> revision d then (Inl NotAuthorized, d)
       else (Inr x, d'\<lparr>revision := revision d' + 1\<rparr>))"

text \<open>\<open>write(skip_unchanged=True)\<close>: the body also reports the connection's \<open>total_changes\<close>.\<close>

definition db_write_skip ::
  "('b metadata_scheme, error, 'a \<times> nat) body \<Rightarrow> ('b metadata_scheme, error, 'a) io" where
  "db_write_skip f = (\<lambda>d. case f d of
     Inl e \<Rightarrow> (Inl e, d)
   | Inr ((x, changes), d') \<Rightarrow>
       if revision d' \<noteq> revision d then (Inl NotAuthorized, d)
       else if changes = 0 then (Inr x, d')
       else (Inr x, d'\<lparr>revision := revision d' + 1\<rparr>))"

lemma db_write_ok:
  "f d = Inr (x, d') \<Longrightarrow> revision d' = revision d \<Longrightarrow>
   db_write f d = (Inr x, d'\<lparr>revision := Suc (revision d)\<rparr>)"
  by (simp add: db_write_def)

lemma db_write_error: "f d = Inl e \<Longrightarrow> db_write f d = (Inl e, d)"
  by (simp add: db_write_def)

text \<open>
  What a transaction leaves: either the database as it was, or the body's result with the next
  revision.  Every invariant that ignores the revision passes through this rule.
\<close>

lemma db_write_cases:
  obtains (rolled_back) e where "db_write f d = (Inl e, d)"
  | (committed) x d' where "f d = Inr (x, d')" "revision d' = revision d"
      "db_write f d = (Inr x, d'\<lparr>revision := Suc (revision d)\<rparr>)"
proof (cases "f d")
  case (Inl e)
  then show ?thesis using rolled_back by (simp add: db_write_def)
next
  case (Inr p)
  obtain x d' where p: "p = (x, d')" by (cases p)
  show ?thesis
  proof (cases "revision d' = revision d")
    case True
    then show ?thesis using committed [of x d'] Inr p by (simp add: db_write_def)
  next
    case False
    then show ?thesis using rolled_back [of NotAuthorized] Inr p by (simp add: db_write_def)
  qed
qed

lemma db_write_skip_cases:
  obtains (rolled_back) e where "db_write_skip f d = (Inl e, d)"
  | (unchanged) x d' where "f d = Inr ((x, 0), d')" "revision d' = revision d"
      "db_write_skip f d = (Inr x, d')"
  | (committed) x n d' where "f d = Inr ((x, Suc n), d')" "revision d' = revision d"
      "db_write_skip f d = (Inr x, d'\<lparr>revision := Suc (revision d)\<rparr>)"
proof (cases "f d")
  case (Inl e)
  then show ?thesis using rolled_back by (simp add: db_write_skip_def)
next
  case (Inr p)
  obtain x n d' where p: "p = ((x, n), d')" by (metis prod.exhaust)
  show ?thesis
  proof (cases "revision d' = revision d")
    case True
    then show ?thesis using unchanged [of x d'] committed [of x "n - 1" d'] Inr p
      by (cases n) (simp_all add: db_write_skip_def)
  next
    case False
    then show ?thesis using rolled_back [of NotAuthorized] Inr p by (simp add: db_write_skip_def)
  qed
qed

lemma db_write_revision:
  "revision (snd (db_write f d)) =
     (case fst (db_write f d) of Inl _ \<Rightarrow> revision d | Inr _ \<Rightarrow> Suc (revision d))"
  by (rule db_write_cases [of f d]) auto

section \<open>Relations kept by transactions\<close>

text \<open>
  A reflexive and transitive relation that does not read the revision is kept by a transaction as
  soon as it holds between the database and what a successful body makes of it.
\<close>

locale transactional_relation = kept_relation R
  for R :: "'b metadata_scheme \<Rightarrow> 'b metadata_scheme \<Rightarrow> bool" +
  assumes revision_blind: "R d (d\<lparr>revision := n\<rparr>)"
begin

lemma keeps_db_write:
  assumes "\<And>d x d'. f d = Inr (x, d') \<Longrightarrow> R d d'"
  shows "keeps R (db_write f)"
proof (rule keepsI)
  fix d
  show "R d (snd (db_write f d))"
    by (rule db_write_cases [of f d])
      (auto intro: kept_refl kept_trans [OF _ revision_blind] dest: assms)
qed

lemma keeps_db_write_skip:
  assumes "\<And>d x d'. f d = Inr (x, d') \<Longrightarrow> R d d'"
  shows "keeps R (db_write_skip f)"
proof (rule keepsI)
  fix d
  show "R d (snd (db_write_skip f d))"
    by (rule db_write_skip_cases [of f d])
      (auto intro: kept_refl kept_trans [OF _ revision_blind] dest: assms)
qed

end

end
