(* ===== verification/Evidence.thy ===== *)
theory Evidence
  imports Sqlite_Db
begin

text \<open>
  The truncation half of \<open>backend/gg/runtime/storage.py\<close>: bounded text, event and manifest
  evidence.  Texts are UTF-8 byte strings.  The length of the JSON text Pydantic produces for an
  event is the parameter \<open>event_bytes\<close>.
\<close>

section \<open>UTF-8 decoding with errors ignored\<close>

definition is_cont :: "char \<Rightarrow> bool" where
  "is_cont c \<longleftrightarrow> 128 \<le> (of_char c :: nat) \<and> (of_char c :: nat) < 192"

definition utf8_width :: "char \<Rightarrow> nat" where
  "utf8_width c = (let n = (of_char c :: nat) in
     if n < 128 then 1 else if n < 194 then 0 else if n < 224 then 2
     else if n < 240 then 3 else if n < 245 then 4 else 0)"

text \<open>\<open>bytes.decode("utf-8", errors="ignore")\<close>, kept as bytes: whole sequences stay, the rest goes.\<close>

function utf8_ignore :: "string \<Rightarrow> string" where
  "utf8_ignore [] = []"
| "utf8_ignore (c # cs) =
     (let k = utf8_width c - 1 in
      if utf8_width c \<noteq> 0 \<and> k \<le> length cs \<and> list_all is_cont (take k cs)
      then c # take k cs @ utf8_ignore (drop k cs)
      else utf8_ignore cs)"
  by pat_completeness auto
termination
  by (relation "measure length") auto

lemma length_utf8_ignore: "length (utf8_ignore s) \<le> length s"
proof (induction s rule: utf8_ignore.induct)
  case (2 c cs)
  then show ?case by (fastforce simp: Let_def)
qed simp

text \<open>Number of code points (\<open>len(text)\<close>): the bytes that are not continuation bytes.\<close>

definition py_len :: "string \<Rightarrow> nat" where
  "py_len s = length (filter (\<lambda>c. \<not> is_cont c) s)"

section \<open>Bounded text\<close>

definition TRUNCATION_SUFFIX :: string where
  "TRUNCATION_SUFFIX = CHR 0x0A # ''[truncated by storage policy]''"

definition truncate_text :: "string \<Rightarrow> nat \<Rightarrow> string \<times> bool" where
  "truncate_text text limit =
     (if length text \<le> limit then (text, False)
      else (utf8_ignore (take (limit - 64) text) @ TRUNCATION_SUFFIX, True))"

lemma length_suffix: "length TRUNCATION_SUFFIX = 30"
  by (simp add: TRUNCATION_SUFFIX_def)

lemma truncate_text_flag: "snd (truncate_text s n) \<longleftrightarrow> n < length s"
  by (simp add: truncate_text_def)

lemma truncate_text_le: "64 \<le> n \<Longrightarrow> length (fst (truncate_text s n)) \<le> n"
proof -
  assume n: "64 \<le> n"
  have "length (utf8_ignore (take (n - 64) s)) \<le> n - 64"
    using length_utf8_ignore [of "take (n - 64) s"] by simp
  then show ?thesis using n by (auto simp: truncate_text_def length_suffix)
qed

section \<open>Bounded event evidence\<close>

definition event_stub :: "string \<Rightarrow> timestamp \<Rightarrow> Event \<Rightarrow> payload \<Rightarrow> Event" where
  "event_stub new_id now event body =
     \<lparr>e_id = new_id, e_seq = e_seq event, e_kind = e_kind event, e_payload = body,
      e_created_at = now\<rparr>"

fun json_is_str :: "json \<Rightarrow> bool" where
  "json_is_str (JStr _) = True"
| "json_is_str _ = False"

fun json_str :: "json \<Rightarrow> string" where
  "json_str (JStr s) = s"
| "json_str _ = []"

text \<open>
  The keys the loop visits: the string entries by decreasing length (Python's stable sort with
  \<open>reverse=True\<close>); other entries are skipped by the loop's \<open>continue\<close>.
\<close>

definition truncation_keys :: "payload \<Rightarrow> string list" where
  "truncation_keys p = map fst (sort_key (\<lambda>e. - int (py_len (json_str (snd e))))
     (filter (\<lambda>e. json_is_str (snd e)) p))"

definition set_payload_key :: "string \<Rightarrow> string \<Rightarrow> payload \<Rightarrow> payload" where
  "set_payload_key k v p = map (\<lambda>e. if fst e = k then (k, JStr v) else e) p"

definition payload_text :: "payload \<Rightarrow> string \<Rightarrow> string" where
  "payload_text p k = (case map_of p k of Some v \<Rightarrow> json_str v | None \<Rightarrow> [])"

fun truncate_loop ::
  "(Event \<Rightarrow> nat) \<Rightarrow> Event \<Rightarrow> nat \<Rightarrow> payload \<Rightarrow> string list \<Rightarrow> Event option" where
  "truncate_loop event_bytes event remaining p [] = None"
| "truncate_loop event_bytes event remaining p (k # ks) =
     (let p' = set_payload_key k
                 (fst (truncate_text (payload_text p k) (max 256 (remaining div 4)))) p;
          candidate = event\<lparr>e_payload := p'\<rparr>
      in if event_bytes candidate \<le> remaining then Some candidate
         else truncate_loop event_bytes event remaining p' ks)"

definition truncate_event_json ::
  "(Event \<Rightarrow> nat) \<Rightarrow> string \<Rightarrow> timestamp \<Rightarrow> Event \<Rightarrow> nat \<Rightarrow> nat \<Rightarrow> Event \<times> bool" where
  "truncate_event_json event_bytes new_id now event max_task_log_bytes current_log_bytes =
     (let remaining = max_task_log_bytes - current_log_bytes in
      if remaining = 0 then
        (event_stub new_id now event
           [(''storage'', JStr ''event omitted; per-task log cap reached'')], True)
      else if event_bytes event \<le> remaining then (event, False)
      else case truncate_loop event_bytes event remaining (e_payload event)
                  (truncation_keys (e_payload event)) of
        Some candidate \<Rightarrow> (candidate, True)
      | None \<Rightarrow>
          (event_stub new_id now event
             [(''storage'', JStr ''event truncated''),
              (''detail'', JStr ''[truncated by storage policy]'')], True))"

section \<open>Bounded manifests\<close>

definition truncate_manifest :: "TaskResultManifest \<Rightarrow> nat \<Rightarrow> TaskResultManifest \<times> bool" where
  "truncate_manifest manifest max_bytes =
     (case tm_patch manifest of
        Some patch \<Rightarrow>
          (let (patch', patch_truncated) = truncate_text patch (max 4096 (max_bytes div 2));
               truncated = (False \<or> patch_truncated)
           in (manifest\<lparr>tm_patch := Some patch', tm_patch_truncated := patch_truncated \<or> truncated\<rparr>,
               truncated))
      | None \<Rightarrow>
          (manifest\<lparr>tm_patch := None, tm_patch_truncated := tm_patch_truncated manifest \<or> False\<rparr>,
           False))"

lemma truncate_loop_fits:
  "truncate_loop event_bytes event n p ks = Some c \<Longrightarrow>
   event_bytes c \<le> n \<and> e_seq c = e_seq event \<and> e_kind c = e_kind event \<and> e_id c = e_id event"
  by (induction ks arbitrary: p) (auto simp: Let_def split: if_splits)

lemma truncate_event_identity:
  "e_seq (fst (truncate_event_json eb i t ev m c)) = e_seq ev \<and>
   e_kind (fst (truncate_event_json eb i t ev m c)) = e_kind ev"
  by (auto simp: truncate_event_json_def Let_def event_stub_def dest: truncate_loop_fits
      split: option.splits)

end
