(* ===== verification/Ledger.thy ===== *)
theory Ledger
  imports Evidence
begin

text \<open>
  \<open>backend/gg/runtime/ledger.py\<close>: the durable task ledger.  Every table of the schema in
  \<open>sqlite_migrations.py\<close> that the ledger owns is a list of row records of the database
  record; every method of \<open>TaskLedger\<close> is one definition with the statements of its transaction
  in the source's order.  The clock (\<open>_utcnow_iso\<close>) and the fresh identifiers (\<open>uuid4\<close>) are
  arguments.  Columns that hold JSON keep the model object that was serialised into them.
\<close>

section \<open>Constants and row types\<close>

definition SETTLED_SUCCESS_OUTCOMES :: "string list" where
  "SETTLED_SUCCESS_OUTCOMES = [''published'', ''no_changes'', ''checks_passed'', ''checks_not_run'']"

definition TERMINAL_TASK_STATES :: "TaskState list" where
  "TERMINAL_TASK_STATES = [TS_COMPLETED, TS_FAILED, TS_CANCELLED]"

definition is_terminal :: "TaskState \<Rightarrow> bool" where
  "is_terminal s \<longleftrightarrow> s \<in> set TERMINAL_TASK_STATES"

datatype SandboxProviderState = SP_CREATING | SP_RUNNING | SP_STOPPED | SP_UNKNOWN

datatype ReservationPhase = RP_STARTING | RP_RUNNING | RP_FINALIZING | RP_TERMINATION_PENDING
  | RP_UNRESOLVED_CREATION

record task_row =
  t_id :: string
  t_seq :: nat
  t_state :: TaskState
  t_idempotency_key :: string
  t_owner_id :: "string option"
  t_repository :: string
  t_prompt :: string
  t_base_ref :: "string option"
  t_base_sha :: "string option"
  t_retry_of :: "string option"
  t_model :: string
  t_created_at :: timestamp
  t_updated_at :: timestamp
  t_outcome_detail :: "string option"
  t_check_status :: "string option"
  t_sandbox_cleanup_status :: "string option"
  t_payload_expired :: bool
  t_workspace_expired :: bool
  t_workspace_last_activity_at :: "timestamp option"

record ReservationRecord =
  rv_task_id :: string
  rv_phase :: ReservationPhase
  rv_condition :: "string option"
  rv_reserved_at :: timestamp
  rv_updated_at :: timestamp

record SupervisionRecord =
  sv_task_id :: string
  sv_execution_id :: string
  sv_task_branch :: string
  sv_start_key :: string
  sv_conversation_id :: "string option"
  sv_cancel_requested :: bool
  sv_tail_gap_possible :: bool
  sv_created_at :: timestamp
  sv_updated_at :: timestamp

record TaskResultArchive =
  ta_task_id :: string
  ta_execution_id :: "string option"
  ta_manifest :: "TaskResultManifest option"
  ta_evidence_complete :: bool
  ta_evidence_detail :: "string option"
  ta_archived_at :: "timestamp option"

record SandboxCreationRecord =
  sc_task_id :: string
  sc_deployment :: string
  sc_sandbox_name :: string
  sc_tags_json :: string
  sc_session_api_key :: string
  sc_credential_version :: "int option"
  sc_provider_id :: "string option"
  sc_provider_state :: SandboxProviderState
  sc_detail :: "string option"
  sc_created_at :: timestamp
  sc_updated_at :: timestamp

record receipt_row =
  mm_task_id :: string
  mm_receipt :: MessageReceipt

record identity_row =
  ei_task_id :: string
  ei_source_id :: string
  ei_source_seq :: int
  ei_cursor_seq :: nat

record event_copy_row =
  ec_task_id :: string
  ec_cursor_seq :: nat
  ec_source_id :: string
  ec_source_seq :: int
  ec_event :: Event
  ec_created_at :: timestamp

record source_cursor_row =
  es_task_id :: string
  es_source_id :: string
  es_source_seq :: int

text \<open>The JSON object \<open>remote_effect_json\<close> keeps four columns of the publication row.\<close>

record remote_effect =
  re_pr_number :: "int option"
  re_pr_url :: "string option"
  re_pr_state :: "string option"
  re_state :: PublicationState

record tombstone_row =
  tb_task_id :: string
  tb_remote_effect :: "remote_effect option"
  tb_expires_at :: timestamp

record idempotency_row =
  id_task_id :: string
  id_owner_id :: "string option"
  id_idempotency_key :: string
  id_seq :: nat
  id_terminal_state :: TaskState
  id_model :: string
  id_created_at :: timestamp
  id_updated_at :: timestamp

record database = metadata +
  task_seq :: nat
  tasks :: "task_row list"
  task_reservations :: "ReservationRecord list"
  sandbox_creations :: "SandboxCreationRecord list"
  task_supervisions :: "SupervisionRecord list"
  publication_intents :: "PublicationRecord list"
  task_message_receipts :: "receipt_row list"
  task_event_counters :: "(string \<times> nat) list"
  task_event_identities :: "identity_row list"
  task_event_copies :: "event_copy_row list"
  task_results :: "TaskResultArchive list"
  retention_tombstones :: "tombstone_row list"
  task_idempotency :: "idempotency_row list"
  task_event_source_cursors :: "source_cursor_row list"

type_synonym 'a tx = "(database, error, 'a) body"
type_synonym 'a ledger_op = "(database, error, 'a) io"

text \<open>The database \<open>initialize\<close> leaves: every table empty, the counter and the revision zero.\<close>

definition empty_database :: database where
  "empty_database = \<lparr>revision = 0, task_seq = 0, tasks = [], task_reservations = [],
     sandbox_creations = [], task_supervisions = [], publication_intents = [],
     task_message_receipts = [], task_event_counters = [], task_event_identities = [],
     task_event_copies = [], task_results = [], retention_tombstones = [], task_idempotency = [],
     task_event_source_cursors = []\<rparr>"

section \<open>Row conversions\<close>

text \<open>
  \<open>_row_to_record\<close>.  The agent outcome comes from the join with \<open>task_results\<close>
  (\<open>json_extract(manifest_json, '$.agent_outcome')\<close>) in the queries that have it.
\<close>

definition row_to_record :: "task_row \<Rightarrow> string option \<Rightarrow> TaskRecord" where
  "row_to_record row agent_outcome =
     \<lparr>tr_owner_id = t_owner_id row, tr_id = t_id row, tr_seq = t_seq row, tr_state = t_state row,
      tr_idempotency_key = t_idempotency_key row,
      tr_repository = (if t_repository row = [] then None else Some (t_repository row)),
      tr_prompt = t_prompt row, tr_base_ref = t_base_ref row, tr_base_sha = t_base_sha row,
      tr_retry_of = t_retry_of row, tr_model = t_model row, tr_created_at = t_created_at row,
      tr_updated_at = t_updated_at row, tr_agent_outcome = agent_outcome,
      tr_outcome_detail = t_outcome_detail row, tr_check_status = t_check_status row,
      tr_sandbox_cleanup_status = t_sandbox_cleanup_status row,
      tr_payload_expired = t_payload_expired row, tr_workspace_expired = t_workspace_expired row,
      tr_workspace_last_activity_at = t_workspace_last_activity_at row\<rparr>"

text \<open>\<open>_record_from_tombstone\<close>: what is left of a task whose row was purged.\<close>

definition record_from_tombstone :: "idempotency_row \<Rightarrow> TaskRecord" where
  "record_from_tombstone row =
     \<lparr>tr_owner_id = id_owner_id row, tr_id = id_task_id row, tr_seq = id_seq row,
      tr_state = id_terminal_state row, tr_idempotency_key = id_idempotency_key row,
      tr_repository = None, tr_prompt = [], tr_base_ref = None, tr_base_sha = None,
      tr_retry_of = None, tr_model = id_model row, tr_created_at = id_created_at row,
      tr_updated_at = id_updated_at row, tr_agent_outcome = None, tr_outcome_detail = None,
      tr_check_status = None, tr_sandbox_cleanup_status = None, tr_payload_expired = True,
      tr_workspace_expired = False, tr_workspace_last_activity_at = None\<rparr>"

section \<open>Admission\<close>

definition owner_scope :: "string option \<Rightarrow> string option \<Rightarrow> bool" where
  "owner_scope owner column = (case owner of None \<Rightarrow> column = None | Some u \<Rightarrow> column = Some u)"

text \<open>The constraints of the \<open>tasks\<close> table that an insert can violate.\<close>

definition insert_task :: "task_row \<Rightarrow> database \<Rightarrow> error + database" where
  "insert_task r d =
     (if t_id r \<in> t_id ` set (tasks d) then Inl (IntegrityError ''tasks.id'')
      else if t_seq r \<in> t_seq ` set (tasks d) then Inl (IntegrityError ''tasks.seq'')
      else if exists_row (\<lambda>x. t_owner_id x = t_owner_id r \<and>
                              t_idempotency_key x = t_idempotency_key r) (tasks d)
      then Inl (IntegrityError ''tasks.idempotency_key'')
      else Inr (d\<lparr>tasks := tasks d @ [r]\<rparr>))"

definition new_task_row ::
  "string \<Rightarrow> timestamp \<Rightarrow> nat \<Rightarrow> string \<Rightarrow> string option \<Rightarrow> string option \<Rightarrow> string \<Rightarrow>
   string option \<Rightarrow> string option \<Rightarrow> string \<Rightarrow> task_row" where
  "new_task_row task_id now seq idempotency_key owner_id repository prompt base_ref retry_of model =
     \<lparr>t_id = task_id, t_seq = seq, t_state = TS_QUEUED, t_idempotency_key = idempotency_key,
      t_owner_id = owner_id, t_repository = str_or repository [], t_prompt = prompt,
      t_base_ref = base_ref, t_base_sha = None, t_retry_of = retry_of, t_model = model,
      t_created_at = now, t_updated_at = now, t_outcome_detail = None, t_check_status = None,
      t_sandbox_cleanup_status = None, t_payload_expired = False, t_workspace_expired = False,
      t_workspace_last_activity_at = None\<rparr>"

definition new_task_record ::
  "string \<Rightarrow> timestamp \<Rightarrow> nat \<Rightarrow> string \<Rightarrow> string option \<Rightarrow> string option \<Rightarrow> string \<Rightarrow>
   string option \<Rightarrow> string option \<Rightarrow> string \<Rightarrow> TaskRecord" where
  "new_task_record task_id now seq idempotency_key owner_id repository prompt base_ref retry_of model =
     \<lparr>tr_owner_id = owner_id, tr_id = task_id, tr_seq = seq, tr_state = TS_QUEUED,
      tr_idempotency_key = idempotency_key, tr_repository = repository, tr_prompt = prompt,
      tr_base_ref = base_ref, tr_base_sha = None, tr_retry_of = retry_of, tr_model = model,
      tr_created_at = now, tr_updated_at = now, tr_agent_outcome = None, tr_outcome_detail = None,
      tr_check_status = None, tr_sandbox_cleanup_status = None, tr_payload_expired = False,
      tr_workspace_expired = False, tr_workspace_last_activity_at = None\<rparr>"

definition submit ::
  "string \<Rightarrow> timestamp \<Rightarrow> string \<Rightarrow> string option \<Rightarrow> string \<Rightarrow> string option \<Rightarrow> string option \<Rightarrow>
   string \<Rightarrow> string option \<Rightarrow> (TaskRecord \<times> bool) ledger_op" where
  "submit task_id now idempotency_key repository prompt base_ref retry_of model owner_id =
     db_write (\<lambda>d.
       case fetchone (\<lambda>r. t_idempotency_key r = idempotency_key \<and>
                          owner_scope owner_id (t_owner_id r)) (tasks d) of
         Some existing \<Rightarrow> Inr ((row_to_record existing None, False), d)
       | None \<Rightarrow>
         (case fetchone (\<lambda>r. id_idempotency_key r = idempotency_key \<and>
                             owner_scope owner_id (id_owner_id r)) (task_idempotency d) of
            Some retired \<Rightarrow> Inr ((record_from_tombstone retired, False), d)
          | None \<Rightarrow>
              (let seq = task_seq d + 1;
                   d1 = d\<lparr>task_seq := seq\<rparr>
               in case insert_task
                         (new_task_row task_id now seq idempotency_key owner_id repository prompt
                            base_ref retry_of model) d1 of
                    Inl e \<Rightarrow> Inl e
                  | Inr d2 \<Rightarrow>
                      Inr ((new_task_record task_id now seq idempotency_key owner_id repository
                              prompt base_ref retry_of model, True), d2))))"

definition record_base_sha :: "timestamp \<Rightarrow> string \<Rightarrow> string option \<Rightarrow> TaskRecord ledger_op" where
  "record_base_sha now task_id base_sha = db_write (\<lambda>d.
     let d' = d\<lparr>tasks := sql_update (\<lambda>r. t_id r = task_id)
                  (\<lambda>r. r\<lparr>t_base_sha := base_sha, t_updated_at := now\<rparr>) (tasks d)\<rparr>
     in if rowcount (\<lambda>r. t_id r = task_id) (tasks d) \<noteq> 1 then Inl (KeyError (''no task '' @ task_id))
        else case fetchone (\<lambda>r. t_id r = task_id) (tasks d') of
               None \<Rightarrow> Inl AssertionError
             | Some row \<Rightarrow> Inr (row_to_record row None, d'))"

section \<open>Reads of tasks\<close>

definition joined_outcome :: "database \<Rightarrow> task_row \<Rightarrow> string option" where
  "joined_outcome d row =
     (case fetchone (\<lambda>r. ta_task_id r = t_id row) (task_results d) of
        None \<Rightarrow> None
      | Some a \<Rightarrow> map_option (\<lambda>m. AgentOutcome_value (tm_agent_outcome m)) (ta_manifest a))"

definition get_task :: "string \<Rightarrow> string option \<Rightarrow> database \<Rightarrow> TaskRecord option" where
  "get_task task_id owner_id d =
     map_option (\<lambda>row. row_to_record row (joined_outcome d row))
       (case owner_id of
          None \<Rightarrow> fetchone (\<lambda>r. t_id r = task_id) (tasks d)
        | Some u \<Rightarrow> fetchone (\<lambda>r. t_id r = task_id \<and> t_owner_id r = Some u) (tasks d))"

definition list_tasks :: "string option \<Rightarrow> database \<Rightarrow> TaskRecord list" where
  "list_tasks owner_id d =
     map (\<lambda>row. row_to_record row (joined_outcome d row))
       (order_by t_seq (case owner_id of
          None \<Rightarrow> tasks d
        | Some u \<Rightarrow> filter (\<lambda>r. t_owner_id r = Some u) (tasks d)))"

definition count_queued :: "database \<Rightarrow> nat" where
  "count_queued d = rowcount (\<lambda>r. t_state r = TS_QUEUED) (tasks d)"

definition sleeping_workspace_candidates ::
  "timestamp \<Rightarrow> nat \<Rightarrow> nat \<Rightarrow> database \<Rightarrow> error + TaskRecord list" where
  "sleeping_workspace_candidates before after_seq limit d =
     (if \<not> (1 \<le> limit \<and> limit \<le> 200)
      then Inl (ValueError ''candidate limit must be between 1 and 200'')
      else Inr (map (\<lambda>r. row_to_record r None)
        (take limit (order_by t_seq
           (filter (\<lambda>r. t_state r = TS_SLEEPING \<and> \<not> t_workspace_expired r \<and>
                        coalesce_to (t_workspace_last_activity_at r) (t_updated_at r) \<le> before \<and>
                        t_seq r > after_seq) (tasks d))))))"


section \<open>Reservations\<close>

definition reservation_of :: "string \<Rightarrow> database \<Rightarrow> ReservationRecord option" where
  "reservation_of task_id d = fetchone (\<lambda>r. rv_task_id r = task_id) (task_reservations d)"

text \<open>The queued tasks without a reservation, oldest first: the \<open>SELECT\<close> of \<open>reserve_next\<close>.\<close>

definition queue_order :: "database \<Rightarrow> task_row list" where
  "queue_order d = order_by t_seq (filter (\<lambda>r. t_state r = TS_QUEUED \<and>
     \<not> exists_row (\<lambda>v. rv_task_id v = t_id r) (task_reservations d)) (tasks d))"

text \<open>The insert, the update and the final read of \<open>reserve_next\<close> for the selected row.\<close>

definition claim_task :: "timestamp \<Rightarrow> task_row \<Rightarrow> TaskRecord option tx" where
  "claim_task now row d =
     (let d1 = d\<lparr>task_reservations := task_reservations d @
                [\<lparr>rv_task_id = t_id row, rv_phase = RP_STARTING, rv_condition = None,
                  rv_reserved_at = now, rv_updated_at = now\<rparr>]\<rparr>;
          d2 = d1\<lparr>tasks := sql_update (\<lambda>r. t_id r = t_id row)
                (\<lambda>r. r\<lparr>t_state := TS_STARTING, t_updated_at := now\<rparr>) (tasks d1)\<rparr>
      in case fetchone (\<lambda>r. t_id r = t_id row) (tasks d2) of
           None \<Rightarrow> Inl AssertionError
         | Some claimed \<Rightarrow> Inr (Some (row_to_record claimed None), d2))"

definition reserve_next :: "timestamp \<Rightarrow> int \<Rightarrow> TaskRecord option ledger_op" where
  "reserve_next now capacity =
     (if \<not> (1 \<le> capacity \<and> capacity \<le> 10)
      then raise (ValueError ''reservation capacity must be between 1 and 10'')
      else db_write (\<lambda>d.
        if capacity \<le> int (length (task_reservations d)) then Inr (None, d)
        else case queue_order d of
          [] \<Rightarrow> Inr (None, d)
        | row # _ \<Rightarrow> claim_task now row d))"

definition list_reservations :: "database \<Rightarrow> ReservationRecord list" where
  "list_reservations d = order_by (\<lambda>r. (rv_reserved_at r, rv_task_id r)) (task_reservations d)"

definition get_reservation :: "string \<Rightarrow> database \<Rightarrow> ReservationRecord option" where
  "get_reservation task_id d = reservation_of task_id d"

definition task_state_is_terminal :: "database \<Rightarrow> string \<Rightarrow> bool" where
  "task_state_is_terminal d task_id =
     (case fetchone (\<lambda>r. t_id r = task_id) (tasks d) of
        None \<Rightarrow> False
      | Some row \<Rightarrow> is_terminal (t_state row))"

definition update_reservation ::
  "timestamp \<Rightarrow> string \<Rightarrow> ReservationPhase \<Rightarrow> string option \<Rightarrow> TaskState option \<Rightarrow>
   ReservationRecord ledger_op" where
  "update_reservation now task_id phase condition task_state = db_write (\<lambda>d.
     let d1 = d\<lparr>task_reservations := sql_update (\<lambda>r. rv_task_id r = task_id)
                 (\<lambda>r. r\<lparr>rv_phase := phase, rv_condition := condition, rv_updated_at := now\<rparr>)
                 (task_reservations d)\<rparr>
     in if rowcount (\<lambda>r. rv_task_id r = task_id) (task_reservations d) \<noteq> 1
        then Inl (KeyError (''no reservation for task '' @ task_id))
        else
          (let d2 = (case task_state of
                 None \<Rightarrow> d1
               | Some st \<Rightarrow>
                   if task_state_is_terminal d1 task_id then d1
                   else d1\<lparr>tasks := sql_update (\<lambda>r. t_id r = task_id)
                          (\<lambda>r. r\<lparr>t_state := st, t_updated_at := now\<rparr>) (tasks d1)\<rparr>)
           in case fetchone (\<lambda>r. rv_task_id r = task_id) (task_reservations d2) of
                None \<Rightarrow> Inl AssertionError
              | Some row \<Rightarrow> Inr (row, d2)))"

definition release_reservation :: "timestamp \<Rightarrow> string \<Rightarrow> string \<Rightarrow> unit ledger_op" where
  "release_reservation now task_id cleanup_status = db_write (\<lambda>d. Inr ((),
     d\<lparr>task_reservations := sql_delete (\<lambda>r. rv_task_id r = task_id) (task_reservations d),
       tasks := sql_update (\<lambda>r. t_id r = task_id)
         (\<lambda>r. r\<lparr>t_sandbox_cleanup_status := Some cleanup_status, t_updated_at := now\<rparr>) (tasks d)\<rparr>))"

definition lost_state :: "TaskState \<Rightarrow> string option \<Rightarrow> TaskState" where
  "lost_state current outcome =
     (if current = TS_CANCELLED then TS_CANCELLED
      else if current = TS_COMPLETED \<or>
              (case outcome of None \<Rightarrow> False | Some v \<Rightarrow> v \<in> set SETTLED_SUCCESS_OUTCOMES)
      then TS_COMPLETED
      else TS_FAILED)"

definition mark_sandbox_lost :: "timestamp \<Rightarrow> string \<Rightarrow> string \<Rightarrow> unit ledger_op" where
  "mark_sandbox_lost now task_id detail = db_write (\<lambda>d.
     case fetchone (\<lambda>r. t_id r = task_id) (tasks d) of
       None \<Rightarrow> Inr ((), d)
     | Some row \<Rightarrow>
         (let next_state = lost_state (t_state row) (t_outcome_detail row)
          in Inr ((), d\<lparr>tasks := sql_update (\<lambda>r. t_id r = task_id)
               (\<lambda>r. r\<lparr>t_state := next_state,
                       t_outcome_detail := coalesce (t_outcome_detail r) (Some detail),
                       t_sandbox_cleanup_status := Some ''confirmed_absent'',
                       t_updated_at := now\<rparr>) (tasks d),
              task_reservations := sql_delete (\<lambda>r. rv_task_id r = task_id) (task_reservations d)\<rparr>)))"

definition settles :: "task_row \<Rightarrow> bool" where
  "settles r \<longleftrightarrow> t_sandbox_cleanup_status r = Some ''confirmed_absent'' \<and>
     (case t_outcome_detail r of None \<Rightarrow> False | Some v \<Rightarrow> v \<in> set SETTLED_SUCCESS_OUTCOMES) \<and>
     t_state r \<notin> {TS_COMPLETED, TS_CANCELLED}"

definition settle_successful_tasks :: "timestamp \<Rightarrow> unit ledger_op" where
  "settle_successful_tasks now = db_write (\<lambda>d. Inr ((),
     d\<lparr>tasks := sql_update settles (\<lambda>r. r\<lparr>t_state := TS_COMPLETED, t_updated_at := now\<rparr>) (tasks d)\<rparr>))"

section \<open>Sandbox creations\<close>

definition require_payload :: "string \<Rightarrow> database \<Rightarrow> error option" where
  "require_payload task_id d =
     (case fetchone (\<lambda>r. t_id r = task_id) (tasks d) of
        None \<Rightarrow> Some (KeyError (''no active task payload '' @ task_id))
      | Some row \<Rightarrow> if t_payload_expired row
                    then Some (KeyError (''no active task payload '' @ task_id)) else None)"

text \<open>\<open>UNIQUE(deployment, sandbox_name)\<close> and \<open>CHECK (credential_version > 0)\<close> of the schema.\<close>

definition insert_creation :: "SandboxCreationRecord \<Rightarrow> database \<Rightarrow> error + database" where
  "insert_creation r d =
     (if exists_row (\<lambda>x. sc_deployment x = sc_deployment r \<and>
                          sc_sandbox_name x = sc_sandbox_name r) (sandbox_creations d)
      then Inl (IntegrityError ''sandbox_creations.deployment, sandbox_creations.sandbox_name'')
      else if (case sc_credential_version r of None \<Rightarrow> False | Some v \<Rightarrow> v \<le> 0)
      then Inl (IntegrityError ''credential_version > 0'')
      else Inr (d\<lparr>sandbox_creations := sandbox_creations d @ [r]\<rparr>))"

definition begin_sandbox_creation ::
  "timestamp \<Rightarrow> string \<Rightarrow> string \<Rightarrow> string \<Rightarrow> string \<Rightarrow> string \<Rightarrow> int option \<Rightarrow>
   (SandboxCreationRecord \<times> bool) ledger_op" where
  "begin_sandbox_creation now task_id deployment sandbox_name tags_json session_api_key
     credential_version = db_write (\<lambda>d.
     case require_payload task_id d of
       Some e \<Rightarrow> Inl e
     | None \<Rightarrow>
       (case fetchone (\<lambda>r. sc_task_id r = task_id) (sandbox_creations d) of
          Some existing \<Rightarrow>
            if (sc_deployment existing, sc_sandbox_name existing, sc_tags_json existing,
                sc_session_api_key existing) \<noteq> (deployment, sandbox_name, tags_json, session_api_key)
            then Inl (RuntimeError ''sandbox creation identity does not match task'')
            else Inr ((existing, False), d)
        | None \<Rightarrow>
            (case insert_creation
                \<lparr>sc_task_id = task_id, sc_deployment = deployment, sc_sandbox_name = sandbox_name,
                 sc_tags_json = tags_json, sc_session_api_key = session_api_key,
                 sc_credential_version = credential_version, sc_provider_id = None,
                 sc_provider_state = SP_CREATING, sc_detail = None, sc_created_at = now,
                 sc_updated_at = now\<rparr> d of
               Inl e \<Rightarrow> Inl e
             | Inr d' \<Rightarrow>
                 (case fetchone (\<lambda>r. sc_task_id r = task_id) (sandbox_creations d') of
                    None \<Rightarrow> Inl AssertionError
                  | Some row \<Rightarrow> Inr ((row, True), d')))))"

definition get_sandbox_creation :: "string \<Rightarrow> database \<Rightarrow> SandboxCreationRecord option" where
  "get_sandbox_creation task_id d = fetchone (\<lambda>r. sc_task_id r = task_id) (sandbox_creations d)"

definition set_sandbox_credential_version ::
  "string \<Rightarrow> int option \<Rightarrow> SandboxCreationRecord ledger_op" where
  "set_sandbox_credential_version task_id version =
     andThen (db_write (\<lambda>d.
       let d' = d\<lparr>sandbox_creations := sql_update (\<lambda>r. sc_task_id r = task_id)
                   (\<lambda>r. r\<lparr>sc_credential_version := version\<rparr>) (sandbox_creations d)\<rparr>;
           row = fetchone (\<lambda>r. sc_task_id r = task_id) (sandbox_creations d')
       in if row \<noteq> None \<and> (case version of None \<Rightarrow> False | Some v \<Rightarrow> v \<le> 0)
          then Inl (IntegrityError ''credential_version > 0'')
          else Inr (row, d')))
     (\<lambda>row. case row of None \<Rightarrow> raise (KeyError task_id) | Some r \<Rightarrow> ret r)"

text \<open>The \<open>WHERE\<close> clause of the update: only a row whose identity, state or detail changes.\<close>

definition creation_changes ::
  "string \<Rightarrow> string option \<Rightarrow> SandboxProviderState \<Rightarrow> string option \<Rightarrow> SandboxCreationRecord \<Rightarrow> bool" where
  "creation_changes task_id provider_id provider_state detail r \<longleftrightarrow>
     sc_task_id r = task_id \<and>
     (sc_provider_id r \<noteq> coalesce provider_id (sc_provider_id r) \<or>
      sc_provider_state r \<noteq> provider_state \<or> sc_detail r \<noteq> detail)"

definition update_sandbox_creation ::
  "timestamp \<Rightarrow> string \<Rightarrow> string option \<Rightarrow> SandboxProviderState \<Rightarrow> string option \<Rightarrow>
   SandboxCreationRecord ledger_op" where
  "update_sandbox_creation now task_id provider_id provider_state detail =
     andThen (db_write_skip (\<lambda>d.
       let P = creation_changes task_id provider_id provider_state detail;
           d' = d\<lparr>sandbox_creations := sql_update P
                   (\<lambda>r. r\<lparr>sc_provider_id := coalesce provider_id (sc_provider_id r),
                           sc_provider_state := provider_state, sc_detail := detail,
                           sc_updated_at := now\<rparr>) (sandbox_creations d)\<rparr>
       in Inr ((fetchone (\<lambda>r. sc_task_id r = task_id) (sandbox_creations d'),
                rowcount P (sandbox_creations d)), d')))
     (\<lambda>row. case row of
         None \<Rightarrow> raise (KeyError (''no sandbox creation intent for task '' @ task_id))
       | Some r \<Rightarrow> ret r)"

definition reset_sandbox_for_wake :: "timestamp \<Rightarrow> string \<Rightarrow> unit ledger_op" where
  "reset_sandbox_for_wake now task_id = db_write (\<lambda>d. Inr ((),
     d\<lparr>sandbox_creations := sql_update
         (\<lambda>r. sc_task_id r = task_id \<and> sc_provider_state r = SP_STOPPED)
         (\<lambda>r. r\<lparr>sc_provider_id := None, sc_provider_state := SP_CREATING, sc_detail := None,
                 sc_updated_at := now\<rparr>) (sandbox_creations d)\<rparr>))"

section \<open>Publication intents\<close>

definition begin_publication ::
  "timestamp \<Rightarrow> string \<Rightarrow> string \<Rightarrow> string \<Rightarrow> string \<Rightarrow> string \<Rightarrow> string option \<Rightarrow> CheckOutcome \<Rightarrow>
   AgentOutcome \<Rightarrow> PublicationState \<Rightarrow> string option \<Rightarrow> (PublicationRecord \<times> bool) ledger_op" where
  "begin_publication now task_id repository task_branch base_ref task_marker commit_sha
     check_outcome agent_outcome state detail = db_write (\<lambda>d.
     case require_payload task_id d of
       Some e \<Rightarrow> Inl e
     | None \<Rightarrow>
       (case fetchone (\<lambda>r. pr_task_id r = task_id) (publication_intents d) of
          Some record \<Rightarrow>
            if pr_repository record \<noteq> repository \<or> pr_task_branch record \<noteq> task_branch \<or>
               pr_base_ref record \<noteq> base_ref \<or> pr_task_marker record \<noteq> task_marker
            then Inl (PublicationIdentityError
                   (''existing publication identity does not match task '' @ task_id))
            else if pr_commit_sha record \<noteq> None \<and> commit_sha \<noteq> None \<and>
                    pr_commit_sha record \<noteq> commit_sha
            then Inl (PublicationIdentityError
                   (''existing publication commit does not match task '' @ task_id))
            else Inr ((record, False), d)
        | None \<Rightarrow>
            (let d' = d\<lparr>publication_intents := publication_intents d @
                  [\<lparr>pr_task_id = task_id, pr_repository = repository, pr_task_branch = task_branch,
                    pr_base_ref = base_ref, pr_task_marker = task_marker, pr_state = state,
                    pr_commit_sha = commit_sha, pr_check_outcome = check_outcome,
                    pr_agent_outcome = agent_outcome, pr_pr_number = None, pr_pr_url = None,
                    pr_pr_draft = None, pr_pr_author = None, pr_pr_state = None,
                    pr_detail = detail, pr_created_at = now, pr_updated_at = now\<rparr>]\<rparr>
             in case fetchone (\<lambda>r. pr_task_id r = task_id) (publication_intents d') of
                  None \<Rightarrow> Inl AssertionError
                | Some row \<Rightarrow> Inr ((row, True), d'))))"

definition get_publication :: "string \<Rightarrow> database \<Rightarrow> PublicationRecord option" where
  "get_publication task_id d = fetchone (\<lambda>r. pr_task_id r = task_id) (publication_intents d)"

definition update_publication ::
  "timestamp \<Rightarrow> string \<Rightarrow> PublicationState \<Rightarrow> string option \<Rightarrow> int option \<Rightarrow> string option \<Rightarrow>
   bool option \<Rightarrow> string option \<Rightarrow> string option \<Rightarrow> string option \<Rightarrow> string option \<Rightarrow>
   string option \<Rightarrow> CheckOutcome option \<Rightarrow> AgentOutcome option \<Rightarrow> PublicationRecord ledger_op" where
  "update_publication now task_id state commit_sha pr_number pr_url pr_draft pr_author remote_state
     detail check_status outcome_detail check_outcome agent_outcome = db_write (\<lambda>d.
     case fetchone (\<lambda>r. pr_task_id r = task_id) (publication_intents d) of
       None \<Rightarrow> Inl (KeyError (''no publication intent for task '' @ task_id))
     | Some current \<Rightarrow>
         (let draft_value = (case pr_draft of None \<Rightarrow> pr_pr_draft current | Some b \<Rightarrow> Some b);
              d1 = d\<lparr>publication_intents := sql_update (\<lambda>r. pr_task_id r = task_id)
                 (\<lambda>r. r\<lparr>pr_state := state, pr_commit_sha := coalesce commit_sha (pr_commit_sha r),
                         pr_pr_number := coalesce pr_number (pr_pr_number r),
                         pr_pr_url := coalesce pr_url (pr_pr_url r), pr_pr_draft := draft_value,
                         pr_pr_author := coalesce pr_author (pr_pr_author r),
                         pr_pr_state := coalesce remote_state (pr_pr_state r), pr_detail := detail,
                         pr_check_outcome := coalesce_to check_outcome (pr_check_outcome r),
                         pr_agent_outcome := coalesce_to agent_outcome (pr_agent_outcome r),
                         pr_updated_at := now\<rparr>) (publication_intents d)\<rparr>;
              d2 = (if check_status \<noteq> None \<or> outcome_detail \<noteq> None
                    then d1\<lparr>tasks := sql_update (\<lambda>r. t_id r = task_id)
                      (\<lambda>r. r\<lparr>t_check_status := coalesce check_status (t_check_status r),
                              t_outcome_detail := coalesce outcome_detail (t_outcome_detail r),
                              t_updated_at := now\<rparr>) (tasks d1)\<rparr>
                    else d1)
          in case fetchone (\<lambda>r. pr_task_id r = task_id) (publication_intents d2) of
               None \<Rightarrow> Inl AssertionError
             | Some row \<Rightarrow> Inr (row, d2)))"


section \<open>Supervision records\<close>

definition begin_supervision ::
  "timestamp \<Rightarrow> string \<Rightarrow> string \<Rightarrow> string \<Rightarrow> string \<Rightarrow> string option \<Rightarrow>
   (SupervisionRecord \<times> bool) ledger_op" where
  "begin_supervision now task_id execution_id task_branch start_key conversation_id = db_write (\<lambda>d.
     case require_payload task_id d of
       Some e \<Rightarrow> Inl e
     | None \<Rightarrow>
       (case fetchone (\<lambda>r. sv_task_id r = task_id \<or> sv_start_key r = start_key)
               (task_supervisions d) of
          Some record \<Rightarrow>
            if sv_task_id record \<noteq> task_id \<or> sv_start_key record \<noteq> start_key \<or>
               sv_execution_id record \<noteq> execution_id \<or> sv_task_branch record \<noteq> task_branch
            then Inl (SupervisionIdentityError ''start_key already bound to a different task'')
            else Inr ((record, False), d)
        | None \<Rightarrow>
            (let d' = d\<lparr>task_supervisions := task_supervisions d @
                  [\<lparr>sv_task_id = task_id, sv_execution_id = execution_id,
                    sv_task_branch = task_branch, sv_start_key = start_key,
                    sv_conversation_id = conversation_id, sv_cancel_requested = False,
                    sv_tail_gap_possible = False, sv_created_at = now, sv_updated_at = now\<rparr>]\<rparr>
             in case fetchone (\<lambda>r. sv_task_id r = task_id) (task_supervisions d') of
                  None \<Rightarrow> Inl AssertionError
                | Some row \<Rightarrow> Inr ((row, True), d'))))"

definition get_supervision :: "string \<Rightarrow> database \<Rightarrow> SupervisionRecord option" where
  "get_supervision task_id d = fetchone (\<lambda>r. sv_task_id r = task_id) (task_supervisions d)"

definition update_supervision ::
  "timestamp \<Rightarrow> string \<Rightarrow> string option \<Rightarrow> string option \<Rightarrow> string option \<Rightarrow> bool option \<Rightarrow>
   bool option \<Rightarrow> SupervisionRecord ledger_op" where
  "update_supervision now task_id execution_id start_key conversation_id cancel_requested
     tail_gap_possible = db_write (\<lambda>d.
     case fetchone (\<lambda>r. sv_task_id r = task_id) (task_supervisions d) of
       None \<Rightarrow> Inl (KeyError (''no supervision record for task '' @ task_id))
     | Some current \<Rightarrow>
         (let execution = str_or execution_id (sv_execution_id current);
              key = str_or start_key (sv_start_key current);
              conversation = (case conversation_id of None \<Rightarrow> sv_conversation_id current
                                                    | Some c \<Rightarrow> Some c);
              cancel = coalesce_to cancel_requested (sv_cancel_requested current);
              tail = coalesce_to tail_gap_possible (sv_tail_gap_possible current)
          in if exists_row (\<lambda>r. sv_task_id r \<noteq> task_id \<and> sv_start_key r = key) (task_supervisions d)
             then Inl (IntegrityError ''task_supervisions.start_key'')
             else
               (let d' = d\<lparr>task_supervisions := sql_update (\<lambda>r. sv_task_id r = task_id)
                     (\<lambda>r. r\<lparr>sv_execution_id := execution, sv_start_key := key,
                             sv_conversation_id := conversation, sv_cancel_requested := cancel,
                             sv_tail_gap_possible := tail, sv_updated_at := now\<rparr>)
                     (task_supervisions d)\<rparr>
                in case fetchone (\<lambda>r. sv_task_id r = task_id) (task_supervisions d') of
                     None \<Rightarrow> Inl AssertionError
                   | Some row \<Rightarrow> Inr (row, d'))))"

section \<open>Copied events\<close>

definition counter_value :: "string \<Rightarrow> database \<Rightarrow> nat" where
  "counter_value task_id d =
     (case fetchone (\<lambda>r. fst r = task_id) (task_event_counters d) of None \<Rightarrow> 0 | Some r \<Rightarrow> snd r)"

text \<open>\<open>INSERT ... (?, 0) ON CONFLICT DO NOTHING\<close>, then \<open>value + 1\<close> with \<open>RETURNING\<close>.\<close>

definition bump_event_counter :: "string \<Rightarrow> database \<Rightarrow> nat \<times> database" where
  "bump_event_counter task_id d =
     (let t1 = (if exists_row (\<lambda>r. fst r = task_id) (task_event_counters d)
                then task_event_counters d else task_event_counters d @ [(task_id, 0)]);
          t2 = sql_update (\<lambda>r. fst r = task_id) (\<lambda>r. (fst r, snd r + 1)) t1;
          d' = d\<lparr>task_event_counters := t2\<rparr>
      in (counter_value task_id d', d'))"

definition insert_task_event ::
  "timestamp \<Rightarrow> string \<Rightarrow> string \<Rightarrow> int \<Rightarrow> Event \<Rightarrow> nat option tx" where
  "insert_task_event now task_id source_id source_seq event d =
     (case fetchone (\<lambda>r. ei_task_id r = task_id \<and> ei_source_id r = source_id \<and>
                         ei_source_seq r = source_seq) (task_event_identities d) of
        Some _ \<Rightarrow> Inr (None, d)
      | None \<Rightarrow>
        (case require_payload task_id d of
           Some e \<Rightarrow> Inl e
         | None \<Rightarrow>
           (let (cursor, d1) = bump_event_counter task_id d
            in if exists_row (\<lambda>r. ei_task_id r = task_id \<and> ei_cursor_seq r = cursor)
                    (task_event_identities d1)
               then Inl (IntegrityError ''task_event_identities.cursor_seq'')
               else if exists_row (\<lambda>r. ec_task_id r = task_id \<and>
                         (ec_cursor_seq r = cursor \<or>
                          ec_source_id r = source_id \<and> ec_source_seq r = source_seq))
                         (task_event_copies d1)
               then Inl (IntegrityError ''task_event_copies'')
               else Inr (Some cursor,
                 d1\<lparr>task_event_identities := task_event_identities d1 @
                      [\<lparr>ei_task_id = task_id, ei_source_id = source_id,
                        ei_source_seq = source_seq, ei_cursor_seq = cursor\<rparr>],
                    task_event_copies := task_event_copies d1 @
                      [\<lparr>ec_task_id = task_id, ec_cursor_seq = cursor, ec_source_id = source_id,
                        ec_source_seq = source_seq, ec_event = event, ec_created_at = now\<rparr>]\<rparr>))))"

definition copy_task_event ::
  "timestamp \<Rightarrow> string \<Rightarrow> string \<Rightarrow> int \<Rightarrow> Event \<Rightarrow> Event option \<Rightarrow> nat option ledger_op" where
  "copy_task_event now task_id source_id source_seq event event_json =
     db_write (insert_task_event now task_id source_id source_seq (coalesce_to event_json event))"

definition event_source_cursor :: "string \<Rightarrow> string \<Rightarrow> database \<Rightarrow> int" where
  "event_source_cursor task_id source_id d =
     (case fetchone (\<lambda>r. es_task_id r = task_id \<and> es_source_id r = source_id)
             (task_event_source_cursors d) of
        None \<Rightarrow> 0
      | Some r \<Rightarrow> es_source_seq r)"

fun page_ordered :: "Event list \<Rightarrow> bool" where
  "page_ordered [] = True"
| "page_ordered [e] = (0 < e_seq e)"
| "page_ordered (e # e' # es) = (0 < e_seq e \<and> e_seq e < e_seq e' \<and> page_ordered (e' # es))"

definition task_log_bytes :: "(Event \<Rightarrow> nat) \<Rightarrow> string \<Rightarrow> database \<Rightarrow> nat" where
  "task_log_bytes event_bytes task_id d =
     sql_sum (\<lambda>r. event_bytes (ec_event r)) (filter (\<lambda>r. ec_task_id r = task_id) (task_event_copies d))"

text \<open>
  The loop of \<open>copy_task_event_page\<close>: the running byte count, the events inserted so far.
  \<open>fresh seq\<close> is the identifier of the stub event made for source event \<open>seq\<close>, if one is.
\<close>

fun copy_events ::
  "(Event \<Rightarrow> nat) \<Rightarrow> (int \<Rightarrow> string) \<Rightarrow> timestamp \<Rightarrow> string \<Rightarrow> string \<Rightarrow> nat option \<Rightarrow> nat \<Rightarrow>
   Event list \<Rightarrow> (nat \<times> Event) list tx" where
  "copy_events event_bytes fresh now task_id source_id max_log_bytes log_bytes [] d = Inr ([], d)"
| "copy_events event_bytes fresh now task_id source_id max_log_bytes log_bytes (event # events) d =
     (let payload = (case max_log_bytes of
              None \<Rightarrow> event
            | Some m \<Rightarrow> fst (truncate_event_json event_bytes (fresh (e_seq event)) now event m log_bytes))
      in case insert_task_event now task_id source_id (e_seq event) payload d of
           Inl e \<Rightarrow> Inl e
         | Inr (None, d') \<Rightarrow>
             copy_events event_bytes fresh now task_id source_id max_log_bytes log_bytes events d'
         | Inr (Some cursor, d') \<Rightarrow>
             (case copy_events event_bytes fresh now task_id source_id max_log_bytes
                     (log_bytes + event_bytes payload) events d' of
                Inl e \<Rightarrow> Inl e
              | Inr (inserted, d'') \<Rightarrow> Inr ((cursor, payload) # inserted, d'')))"

definition upsert_source_cursor :: "string \<Rightarrow> string \<Rightarrow> int \<Rightarrow> database \<Rightarrow> database" where
  "upsert_source_cursor task_id source_id seq d =
     (let P = (\<lambda>r. es_task_id r = task_id \<and> es_source_id r = source_id)
      in if exists_row P (task_event_source_cursors d)
         then d\<lparr>task_event_source_cursors := sql_update P
                (\<lambda>r. r\<lparr>es_source_seq := max (es_source_seq r) seq\<rparr>) (task_event_source_cursors d)\<rparr>
         else d\<lparr>task_event_source_cursors := task_event_source_cursors d @
                [\<lparr>es_task_id = task_id, es_source_id = source_id, es_source_seq = seq\<rparr>]\<rparr>)"

definition copy_task_event_page ::
  "(Event \<Rightarrow> nat) \<Rightarrow> (int \<Rightarrow> string) \<Rightarrow> timestamp \<Rightarrow> string \<Rightarrow> string \<Rightarrow> Event list \<Rightarrow> nat option \<Rightarrow>
   (nat \<times> Event) list ledger_op" where
  "copy_task_event_page event_bytes fresh now task_id source_id events max_log_bytes =
     (if events = [] then ret []
      else if length events > 200 \<or> \<not> page_ordered events
      then raise (ValueError ''event page must contain at most 200 ordered source events'')
      else db_write (\<lambda>d.
        case require_payload task_id d of
          Some e \<Rightarrow> Inl e
        | None \<Rightarrow>
          (case copy_events event_bytes fresh now task_id source_id max_log_bytes
                  (task_log_bytes event_bytes task_id d) events d of
             Inl e \<Rightarrow> Inl e
           | Inr (inserted, d') \<Rightarrow>
               Inr (inserted, upsert_source_cursor task_id source_id (e_seq (last events)) d'))))"

definition list_task_events ::
  "string \<Rightarrow> nat \<Rightarrow> database \<Rightarrow> (nat \<times> string \<times> int \<times> Event) list" where
  "list_task_events task_id after_cursor d =
     map (\<lambda>r. (ec_cursor_seq r, ec_source_id r, ec_source_seq r, ec_event r))
       (order_by ec_cursor_seq
          (filter (\<lambda>r. ec_task_id r = task_id \<and> after_cursor < ec_cursor_seq r) (task_event_copies d)))"

section \<open>Message receipts and results\<close>

definition save_task_message_receipt :: "string \<Rightarrow> MessageReceipt \<Rightarrow> unit ledger_op" where
  "save_task_message_receipt task_id receipt = db_write (\<lambda>d.
     case require_payload task_id d of
       Some e \<Rightarrow> Inl e
     | None \<Rightarrow>
       (let P = (\<lambda>r. mm_task_id r = task_id \<and> mr_id (mm_receipt r) = mr_id receipt);
            Q = (\<lambda>r. P r \<and> mr_content (mm_receipt r) = mr_content receipt)
        in if \<not> exists_row P (task_message_receipts d)
           then Inr ((), d\<lparr>task_message_receipts := task_message_receipts d @
                        [\<lparr>mm_task_id = task_id, mm_receipt = receipt\<rparr>]\<rparr>)
           else if rowcount Q (task_message_receipts d) \<noteq> 1
           then Inl (RuntimeError ''message id already belongs to another message'')
           else Inr ((), d\<lparr>task_message_receipts := sql_update Q
                  (\<lambda>r. r\<lparr>mm_receipt := (mm_receipt r)\<lparr>mr_content := mr_content receipt,
                           mr_status := mr_status receipt, mr_detail := mr_detail receipt,
                           mr_updated_at := mr_updated_at receipt\<rparr>\<rparr>) (task_message_receipts d)\<rparr>)))"

definition get_task_message_receipt :: "string \<Rightarrow> string \<Rightarrow> database \<Rightarrow> MessageReceipt option" where
  "get_task_message_receipt task_id message_id d =
     map_option mm_receipt (fetchone (\<lambda>r. mm_task_id r = task_id \<and> mr_id (mm_receipt r) = message_id)
       (task_message_receipts d))"

definition list_task_message_receipts :: "string \<Rightarrow> database \<Rightarrow> MessageReceipt list" where
  "list_task_message_receipts task_id d =
     map mm_receipt (order_by (\<lambda>r. (mr_created_at (mm_receipt r), mr_id (mm_receipt r)))
       (filter (\<lambda>r. mm_task_id r = task_id) (task_message_receipts d)))"

definition list_accepted_task_messages :: "string \<Rightarrow> database \<Rightarrow> MessageReceipt list" where
  "list_accepted_task_messages task_id d =
     filter (\<lambda>m. mr_status m = MD_ACCEPTED) (list_task_message_receipts task_id d)"

definition archive_task_result ::
  "timestamp \<Rightarrow> string \<Rightarrow> string option \<Rightarrow> TaskResultManifest option \<Rightarrow> bool \<Rightarrow> string option \<Rightarrow>
   TaskResultArchive ledger_op" where
  "archive_task_result now task_id execution_id manifest evidence_complete evidence_detail =
     db_write (\<lambda>d.
     case require_payload task_id d of
       Some e \<Rightarrow> Inl e
     | None \<Rightarrow>
       (let row = \<lparr>ta_task_id = task_id, ta_execution_id = execution_id, ta_manifest = manifest,
                   ta_evidence_complete = evidence_complete, ta_evidence_detail = evidence_detail,
                   ta_archived_at = Some now\<rparr>;
            d' = (if exists_row (\<lambda>r. ta_task_id r = task_id) (task_results d)
                  then d\<lparr>task_results := sql_update (\<lambda>r. ta_task_id r = task_id) (\<lambda>_. row)
                          (task_results d)\<rparr>
                  else d\<lparr>task_results := task_results d @ [row]\<rparr>)
        in case fetchone (\<lambda>r. ta_task_id r = task_id) (task_results d') of
             None \<Rightarrow> Inl AssertionError
           | Some r \<Rightarrow> Inr (r, d')))"

definition get_task_result :: "string \<Rightarrow> database \<Rightarrow> TaskResultArchive option" where
  "get_task_result task_id d = fetchone (\<lambda>r. ta_task_id r = task_id) (task_results d)"


section \<open>Cancellation, completion and workspaces\<close>

definition cancel_queued_task :: "timestamp \<Rightarrow> string \<Rightarrow> TaskRecord option ledger_op" where
  "cancel_queued_task now task_id = db_write (\<lambda>d.
     case fetchone (\<lambda>r. t_id r = task_id) (tasks d) of
       None \<Rightarrow> Inr (None, d)
     | Some row \<Rightarrow>
         if t_state row \<noteq> TS_QUEUED then Inr (Some (row_to_record row None), d)
         else
           (let d' = d\<lparr>tasks := sql_update (\<lambda>r. t_id r = task_id)
                  (\<lambda>r. r\<lparr>t_state := TS_CANCELLED,
                          t_outcome_detail := Some ''cancelled_before_allocation'',
                          t_updated_at := now\<rparr>) (tasks d)\<rparr>
            in case fetchone (\<lambda>r. t_id r = task_id) (tasks d') of
                 None \<Rightarrow> Inl AssertionError
               | Some updated \<Rightarrow> Inr (Some (row_to_record updated None), d')))"

definition request_task_cancel :: "timestamp \<Rightarrow> string \<Rightarrow> SupervisionRecord option ledger_op" where
  "request_task_cancel now task_id =
     andThen (reading (get_supervision task_id)) (\<lambda>supervision.
       case supervision of
         None \<Rightarrow> ret None
       | Some _ \<Rightarrow>
           andThen (update_supervision now task_id None None None (Some True) None)
             (\<lambda>r. ret (Some r)))"

definition finish_task ::
  "timestamp \<Rightarrow> string \<Rightarrow> TaskState \<Rightarrow> string option \<Rightarrow> string option \<Rightarrow> TaskRecord ledger_op" where
  "finish_task now task_id state outcome_detail check_status =
     andThen (db_write (\<lambda>d.
       let d' = d\<lparr>tasks := sql_update (\<lambda>r. t_id r = task_id)
             (\<lambda>r. r\<lparr>t_state := state,
                     t_outcome_detail := coalesce outcome_detail (t_outcome_detail r),
                     t_check_status := coalesce check_status (t_check_status r),
                     t_updated_at := now,
                     t_workspace_last_activity_at :=
                       (if state = TS_SLEEPING then t_workspace_last_activity_at r else Some now)\<rparr>)
             (tasks d)\<rparr>
       in Inr (fetchone (\<lambda>r. t_id r = task_id) (tasks d'), d')))
     (\<lambda>row. case row of
         None \<Rightarrow> raise (KeyError (''no task '' @ task_id))
       | Some r \<Rightarrow> ret (row_to_record r None))"

definition queue_workspace_message :: "timestamp \<Rightarrow> string \<Rightarrow> unit ledger_op" where
  "queue_workspace_message now task_id = db_write (\<lambda>d. Inr ((),
     d\<lparr>tasks := sql_update (\<lambda>r. t_id r = task_id \<and> t_state r = TS_SLEEPING)
         (\<lambda>r. r\<lparr>t_state := TS_QUEUED, t_updated_at := now\<rparr>) (tasks d)\<rparr>))"

definition touch_workspace :: "timestamp \<Rightarrow> timestamp \<Rightarrow> string \<Rightarrow> unit ledger_op" where
  "touch_workspace now later task_id = db_write (\<lambda>d. Inr ((),
     d\<lparr>tasks := sql_update (\<lambda>r. t_id r = task_id)
         (\<lambda>r. r\<lparr>t_updated_at := now, t_workspace_last_activity_at := Some later\<rparr>) (tasks d)\<rparr>))"

definition try_mark_sleeping :: "timestamp \<Rightarrow> string \<Rightarrow> bool ledger_op" where
  "try_mark_sleeping now task_id = db_write (\<lambda>d.
     if exists_row (\<lambda>r. mm_task_id r = task_id \<and> mr_status (mm_receipt r) = MD_ACCEPTED)
          (task_message_receipts d)
     then Inr (False, d)
     else
       (let P = (\<lambda>r. t_id r = task_id \<and> t_state r = TS_IDLE)
        in Inr (rowcount P (tasks d) = 1,
             d\<lparr>tasks := sql_update P (\<lambda>r. r\<lparr>t_state := TS_SLEEPING, t_updated_at := now\<rparr>)
                 (tasks d)\<rparr>)))"

definition expire_workspace :: "string \<Rightarrow> unit ledger_op" where
  "expire_workspace task_id = db_write (\<lambda>d. Inr ((),
     d\<lparr>tasks := sql_update (\<lambda>r. t_id r = task_id \<and> t_state r = TS_SLEEPING)
         (\<lambda>r. r\<lparr>t_workspace_expired := True\<rparr>) (tasks d)\<rparr>))"

section \<open>Evidence accounting\<close>

definition receipt_bytes :: "receipt_row \<Rightarrow> nat" where
  "receipt_bytes r = length (mr_content (mm_receipt r)) +
     length (coalesce_to (mr_detail (mm_receipt r)) [])"

definition count_task_log_bytes :: "(Event \<Rightarrow> nat) \<Rightarrow> string \<Rightarrow> database \<Rightarrow> nat" where
  "count_task_log_bytes event_bytes task_id d =
     task_log_bytes event_bytes task_id d +
     sql_sum receipt_bytes (filter (\<lambda>r. mm_task_id r = task_id) (task_message_receipts d))"

definition archive_bytes :: "(TaskResultManifest \<Rightarrow> nat) \<Rightarrow> TaskResultArchive \<Rightarrow> nat" where
  "archive_bytes manifest_bytes r = (case ta_manifest r of None \<Rightarrow> 0 | Some m \<Rightarrow> manifest_bytes m)"

definition count_task_artifact_bytes ::
  "(TaskResultManifest \<Rightarrow> nat) \<Rightarrow> string \<Rightarrow> database \<Rightarrow> nat" where
  "count_task_artifact_bytes manifest_bytes task_id d =
     (case fetchone (\<lambda>r. ta_task_id r = task_id) (task_results d) of
        None \<Rightarrow> 0
      | Some r \<Rightarrow> archive_bytes manifest_bytes r)"

definition count_total_evidence_bytes ::
  "(Event \<Rightarrow> nat) \<Rightarrow> (TaskResultManifest \<Rightarrow> nat) \<Rightarrow> database \<Rightarrow> nat" where
  "count_total_evidence_bytes event_bytes manifest_bytes d =
     sql_sum (\<lambda>r. event_bytes (ec_event r)) (task_event_copies d) +
     sql_sum receipt_bytes (task_message_receipts d) +
     sql_sum (archive_bytes manifest_bytes) (task_results d)"

definition protected_task_ids :: "database \<Rightarrow> string set" where
  "protected_task_ids d = set (map rv_task_id (list_reservations d))"

section \<open>Retention\<close>

definition reserved :: "string \<Rightarrow> database \<Rightarrow> bool" where
  "reserved task_id d \<longleftrightarrow> exists_row (\<lambda>r. rv_task_id r = task_id) (task_reservations d)"

definition expirable :: "timestamp \<Rightarrow> database \<Rightarrow> task_row \<Rightarrow> bool" where
  "expirable before d r \<longleftrightarrow> t_state r \<in> {TS_COMPLETED, TS_FAILED, TS_CANCELLED} \<and>
     \<not> t_payload_expired r \<and> t_updated_at r < before \<and> \<not> reserved (t_id r) d"

definition remote_of :: "PublicationRecord \<Rightarrow> remote_effect" where
  "remote_of p = \<lparr>re_pr_number = pr_pr_number p, re_pr_url = pr_pr_url p,
     re_pr_state = pr_pr_state p, re_state = pr_state p\<rparr>"

definition delete_children :: "string \<Rightarrow> database \<Rightarrow> database" where
  "delete_children task_id d =
     d\<lparr>task_event_copies := sql_delete (\<lambda>r. ec_task_id r = task_id) (task_event_copies d),
       task_message_receipts := sql_delete (\<lambda>r. mm_task_id r = task_id) (task_message_receipts d),
       task_results := sql_delete (\<lambda>r. ta_task_id r = task_id) (task_results d),
       task_supervisions := sql_delete (\<lambda>r. sv_task_id r = task_id) (task_supervisions d),
       sandbox_creations := sql_delete (\<lambda>r. sc_task_id r = task_id) (sandbox_creations d),
       publication_intents := sql_delete (\<lambda>r. pr_task_id r = task_id) (publication_intents d)\<rparr>"

definition expired_row :: "task_row \<Rightarrow> task_row" where
  "expired_row r = r\<lparr>t_payload_expired := True, t_prompt := [], t_repository := [],
     t_base_ref := None, t_base_sha := None, t_retry_of := None, t_outcome_detail := None,
     t_check_status := None\<rparr>"

definition retire_row :: "task_row \<Rightarrow> idempotency_row" where
  "retire_row row = \<lparr>id_task_id = t_id row, id_owner_id = t_owner_id row,
     id_idempotency_key = t_idempotency_key row, id_seq = t_seq row,
     id_terminal_state = t_state row, id_model = t_model row,
     id_created_at = t_created_at row, id_updated_at = t_updated_at row\<rparr>"

definition idempotency_clash :: "idempotency_row \<Rightarrow> database \<Rightarrow> bool" where
  "idempotency_clash r d \<longleftrightarrow> exists_row (\<lambda>x. id_task_id x = id_task_id r \<or> id_seq x = id_seq r \<or>
     (id_owner_id x = id_owner_id r \<and> id_idempotency_key x = id_idempotency_key r)) (task_idempotency d)"

fun expire_rows :: "timestamp \<Rightarrow> task_row list \<Rightarrow> database \<Rightarrow> error + database" where
  "expire_rows expires [] d = Inr d"
| "expire_rows expires (row # rows) d =
     (if exists_row (\<lambda>r. tb_task_id r = t_id row) (retention_tombstones d)
      then Inl (IntegrityError ''retention_tombstones.task_id'')
      else if idempotency_clash (retire_row row) d
      then Inl (IntegrityError ''task_idempotency'')
      else
        (let remote = map_option remote_of
               (fetchone (\<lambda>r. pr_task_id r = t_id row) (publication_intents d));
             d1 = d\<lparr>retention_tombstones := retention_tombstones d @
                     [\<lparr>tb_task_id = t_id row, tb_remote_effect = remote, tb_expires_at = expires\<rparr>],
                    task_idempotency := task_idempotency d @ [retire_row row]\<rparr>;
             d2 = delete_children (t_id row) d1
         in expire_rows expires rows
              (d2\<lparr>tasks := sql_update (\<lambda>r. t_id r = t_id row) expired_row (tasks d2)\<rparr>)))"

definition expire_terminal_payloads ::
  "timestamp \<Rightarrow> timestamp \<Rightarrow> int \<Rightarrow> nat ledger_op" where
  "expire_terminal_payloads now before tombstone_retention = db_write (\<lambda>d.
     let rows = filter (expirable before d) (tasks d)
     in case expire_rows (now + tombstone_retention) rows d of
          Inl e \<Rightarrow> Inl e
        | Inr d' \<Rightarrow> Inr (length rows, d'))"

text \<open>The tables whose \<open>REFERENCES tasks(id)\<close> blocks the deletion of a task row.\<close>

definition has_children :: "string \<Rightarrow> database \<Rightarrow> bool" where
  "has_children task_id d \<longleftrightarrow>
     reserved task_id d \<or>
     exists_row (\<lambda>r. sc_task_id r = task_id) (sandbox_creations d) \<or>
     exists_row (\<lambda>r. sv_task_id r = task_id) (task_supervisions d) \<or>
     exists_row (\<lambda>r. pr_task_id r = task_id) (publication_intents d) \<or>
     exists_row (\<lambda>r. mm_task_id r = task_id) (task_message_receipts d) \<or>
     exists_row (\<lambda>r. ec_task_id r = task_id) (task_event_copies d) \<or>
     exists_row (\<lambda>r. ta_task_id r = task_id) (task_results d)"

fun purge_rows :: "string list \<Rightarrow> database \<Rightarrow> error + database" where
  "purge_rows [] d = Inr d"
| "purge_rows (task_id # ids) d =
     (let d1 = d\<lparr>retention_tombstones :=
                  sql_delete (\<lambda>r. tb_task_id r = task_id) (retention_tombstones d)\<rparr>;
          P = (\<lambda>r. t_id r = task_id \<and> t_payload_expired r)
      in if exists_row P (tasks d1) \<and> has_children task_id d1
         then Inl (IntegrityError ''FOREIGN KEY constraint failed'')
         else purge_rows ids (d1\<lparr>tasks := sql_delete P (tasks d1)\<rparr>))"

definition purge_expired_tombstones :: "timestamp \<Rightarrow> nat ledger_op" where
  "purge_expired_tombstones before = db_write (\<lambda>d.
     let ids = map tb_task_id (filter (\<lambda>r. tb_expires_at r < before \<and> \<not> reserved (tb_task_id r) d)
                 (retention_tombstones d))
     in case purge_rows ids d of
          Inl e \<Rightarrow> Inl e
        | Inr d' \<Rightarrow> Inr (length ids, d'))"

end
