(* ===== verification/Ledger_Inv.thy ===== *)
theory Ledger_Inv
  imports Ledger
begin

text \<open>
  The integrity invariant of the ledger and its preservation.  \<open>keys_ok\<close> is the uniqueness the
  schema declares, \<open>refs_ok\<close> its foreign keys, \<open>retired_ok\<close> how expired payloads, tombstones
  and retired idempotency keys agree, \<open>events_ok\<close> how copied events, their identities and the
  cursor counters agree.  The second half gives one preservation lemma per kind of write; the
  operations' lemmas apply them.
\<close>

section \<open>The invariant\<close>

definition keys_ok :: "database \<Rightarrow> bool" where
  "keys_ok d \<longleftrightarrow>
     distinct (map t_id (tasks d)) \<and> distinct (map t_seq (tasks d)) \<and>
     distinct (map (\<lambda>r. (t_owner_id r, t_idempotency_key r)) (tasks d)) \<and>
     distinct (map rv_task_id (task_reservations d)) \<and>
     distinct (map sc_task_id (sandbox_creations d)) \<and>
     distinct (map sv_task_id (task_supervisions d)) \<and>
     distinct (map sv_start_key (task_supervisions d)) \<and>
     distinct (map pr_task_id (publication_intents d)) \<and>
     distinct (map (\<lambda>r. (mm_task_id r, mr_id (mm_receipt r))) (task_message_receipts d)) \<and>
     distinct (map ta_task_id (task_results d)) \<and>
     distinct (map tb_task_id (retention_tombstones d)) \<and>
     distinct (map id_task_id (task_idempotency d)) \<and> distinct (map id_seq (task_idempotency d)) \<and>
     distinct (map (\<lambda>r. (id_owner_id r, id_idempotency_key r)) (task_idempotency d))"

definition seqs_ok :: "database \<Rightarrow> bool" where
  "seqs_ok d \<longleftrightarrow> (\<forall>r\<in>set (tasks d). 0 < t_seq r \<and> t_seq r \<le> task_seq d) \<and>
     (\<forall>r\<in>set (task_idempotency d). 0 < id_seq r \<and> id_seq r \<le> task_seq d)"

definition refs_ok :: "database \<Rightarrow> bool" where
  "refs_ok d \<longleftrightarrow>
     rv_task_id ` set (task_reservations d) \<subseteq> t_id ` set (tasks d) \<and>
     sc_task_id ` set (sandbox_creations d) \<subseteq> t_id ` set (tasks d) \<and>
     sv_task_id ` set (task_supervisions d) \<subseteq> t_id ` set (tasks d) \<and>
     pr_task_id ` set (publication_intents d) \<subseteq> t_id ` set (tasks d) \<and>
     mm_task_id ` set (task_message_receipts d) \<subseteq> t_id ` set (tasks d) \<and>
     ec_task_id ` set (task_event_copies d) \<subseteq> t_id ` set (tasks d) \<and>
     ta_task_id ` set (task_results d) \<subseteq> t_id ` set (tasks d)"

text \<open>The identifiers of tasks that own evidence or identities besides a reservation.\<close>

definition owning :: "database \<Rightarrow> string set" where
  "owning d = sc_task_id ` set (sandbox_creations d) \<union> sv_task_id ` set (task_supervisions d) \<union>
     pr_task_id ` set (publication_intents d) \<union> mm_task_id ` set (task_message_receipts d) \<union>
     ec_task_id ` set (task_event_copies d) \<union> ta_task_id ` set (task_results d)"

definition same_identity :: "task_row \<Rightarrow> idempotency_row \<Rightarrow> bool" where
  "same_identity t i \<longleftrightarrow> id_task_id i = t_id t \<and> id_seq i = t_seq t \<and>
     id_owner_id i = t_owner_id t \<and> id_idempotency_key i = t_idempotency_key t"

definition touches_identity :: "task_row \<Rightarrow> idempotency_row \<Rightarrow> bool" where
  "touches_identity t i \<longleftrightarrow> id_task_id i = t_id t \<or> id_seq i = t_seq t \<or>
     (id_owner_id i = t_owner_id t \<and> id_idempotency_key i = t_idempotency_key t)"

definition retired_ok :: "database \<Rightarrow> bool" where
  "retired_ok d \<longleftrightarrow>
     (\<forall>t\<in>set (tasks d). t_payload_expired t \<longrightarrow>
        t_id t \<in> id_task_id ` set (task_idempotency d) \<and> t_id t \<notin> owning d) \<and>
     (\<forall>t\<in>set (tasks d). \<forall>i\<in>set (task_idempotency d).
        touches_identity t i \<longrightarrow> t_payload_expired t \<and> same_identity t i) \<and>
     tb_task_id ` set (retention_tombstones d) \<subseteq> id_task_id ` set (task_idempotency d)"

definition identity_key :: "identity_row \<Rightarrow> string \<times> string \<times> int" where
  "identity_key r = (ei_task_id r, ei_source_id r, ei_source_seq r)"

definition events_ok :: "database \<Rightarrow> bool" where
  "events_ok d \<longleftrightarrow>
     distinct (map fst (task_event_counters d)) \<and>
     distinct (map identity_key (task_event_identities d)) \<and>
     distinct (map (\<lambda>r. (ei_task_id r, ei_cursor_seq r)) (task_event_identities d)) \<and>
     distinct (map (\<lambda>r. (ec_task_id r, ec_cursor_seq r)) (task_event_copies d)) \<and>
     (\<forall>r\<in>set (task_event_identities d).
        0 < ei_cursor_seq r \<and> ei_cursor_seq r \<le> counter_value (ei_task_id r) d) \<and>
     (\<forall>c\<in>set (task_event_copies d). \<exists>i\<in>set (task_event_identities d).
        ei_task_id i = ec_task_id c \<and> ei_cursor_seq i = ec_cursor_seq c \<and>
        ei_source_id i = ec_source_id c \<and> ei_source_seq i = ec_source_seq c) \<and>
     distinct (map (\<lambda>r. (es_task_id r, es_source_id r)) (task_event_source_cursors d))"

definition ledger_inv :: "database \<Rightarrow> bool" where
  "ledger_inv d \<longleftrightarrow> keys_ok d \<and> seqs_ok d \<and> refs_ok d \<and> retired_ok d \<and> events_ok d"

lemmas inv_defs = ledger_inv_def keys_ok_def seqs_ok_def refs_ok_def retired_ok_def events_ok_def

lemma ledger_inv_revision [simp]: "ledger_inv (d\<lparr>revision := n\<rparr>) = ledger_inv d"
  by (simp add: inv_defs owning_def counter_value_def)

lemma ledger_inv_empty: "ledger_inv empty_database"
  by (simp add: inv_defs empty_database_def)

lemma inv_task_ids: "ledger_inv d \<Longrightarrow> distinct (map t_id (tasks d))"
  by (simp add: inv_defs)

section \<open>Preservation by kinds of writes\<close>

text \<open>The columns that carry a task's identity.\<close>

definition task_key :: "task_row \<Rightarrow> string \<times> nat \<times> string option \<times> string \<times> bool" where
  "task_key r = (t_id r, t_seq r, t_owner_id r, t_idempotency_key r, t_payload_expired r)"

lemma task_key_eq:
  "task_key (f r) = task_key r \<longleftrightarrow> t_id (f r) = t_id r \<and> t_seq (f r) = t_seq r \<and>
     t_owner_id (f r) = t_owner_id r \<and> t_idempotency_key (f r) = t_idempotency_key r \<and>
     t_payload_expired (f r) = t_payload_expired r"
  by (simp add: task_key_def)

lemma inv_update_tasks:
  assumes "ledger_inv d" and "\<And>r. task_key (f r) = task_key r"
  shows "ledger_inv (d\<lparr>tasks := sql_update P f (tasks d)\<rparr>)"
proof -
  define g where "g = (\<lambda>r. if P r then f r else r)"
  have t: "sql_update P f (tasks d) = map g (tasks d)" by (simp add: sql_update_def g_def)
  have k [simp]: "t_id (g r) = t_id r" "t_seq (g r) = t_seq r" "t_owner_id (g r) = t_owner_id r"
    "t_idempotency_key (g r) = t_idempotency_key r" "t_payload_expired (g r) = t_payload_expired r" for r
    using assms(2) [of r] by (simp_all add: task_key_def g_def)
  have c [simp]: "t_id \<circ> g = t_id" "t_seq \<circ> g = t_seq"
    "(\<lambda>r. (t_owner_id r, t_idempotency_key r)) \<circ> g = (\<lambda>r. (t_owner_id r, t_idempotency_key r))"
    by (simp_all add: fun_eq_iff)
  have i: "touches_identity (g x) = touches_identity x" "same_identity (g x) = same_identity x" for x
    by (simp_all add: fun_eq_iff touches_identity_def same_identity_def)
  from assms(1) show ?thesis
    by (simp add: inv_defs t i owning_def counter_value_def image_image)
qed

lemma inv_set_reservations:
  assumes "ledger_inv d" and "distinct (map rv_task_id t)"
    and "rv_task_id ` set t \<subseteq> t_id ` set (tasks d)"
  shows "ledger_inv (d\<lparr>task_reservations := t\<rparr>)"
  using assms by (simp add: inv_defs owning_def counter_value_def)

lemma inv_update_reservations:
  assumes "ledger_inv d" and "\<And>r. rv_task_id (f r) = rv_task_id r"
  shows "ledger_inv (d\<lparr>task_reservations := sql_update P f (task_reservations d)\<rparr>)"
  using assms by (intro inv_set_reservations) (simp_all add: sql_simps inv_defs)

lemma inv_delete_reservations:
  assumes "ledger_inv d"
  shows "ledger_inv (d\<lparr>task_reservations := sql_delete P (task_reservations d)\<rparr>)"
  using assms
  by (intro inv_set_reservations) (auto simp: inv_defs distinct_sql_delete)

text \<open>A task whose payload is still there.\<close>

definition live_task :: "string \<Rightarrow> database \<Rightarrow> bool" where
  "live_task task_id d \<longleftrightarrow> (\<exists>t\<in>set (tasks d). t_id t = task_id \<and> \<not> t_payload_expired t)"

lemma require_payload_live:
  "require_payload task_id d = None \<Longrightarrow> live_task task_id d"
  by (auto simp: require_payload_def live_task_def split: option.splits if_splits
      dest!: fetchone_SomeD)

lemma live_not_expired:
  "ledger_inv d \<Longrightarrow> live_task task_id d \<Longrightarrow> t \<in> set (tasks d) \<Longrightarrow> t_payload_expired t \<Longrightarrow>
   t_id t \<noteq> task_id"
proof
  assume inv: "ledger_inv d" and live: "live_task task_id d" and t: "t \<in> set (tasks d)"
    and exp: "t_payload_expired t" and eq: "t_id t = task_id"
  from live obtain u where "u \<in> set (tasks d)" "t_id u = task_id" "\<not> t_payload_expired u"
    by (auto simp: live_task_def)
  with inv_task_ids [OF inv] t eq have "t = u"
    by (metis distinct_map inj_onD)
  with exp \<open>\<not> t_payload_expired u\<close> show False by simp
qed

lemma live_in_tasks: "live_task task_id d \<Longrightarrow> task_id \<in> t_id ` set (tasks d)"
  by (auto simp: live_task_def)

text \<open>
  A change of the evidence tables that keeps their keys unique and adds rows of live tasks only.
\<close>

lemma inv_evidence:
  assumes inv: "ledger_inv d"
    and keys: "distinct (map sc_task_id sc)" "distinct (map sv_task_id sv)"
      "distinct (map sv_start_key sv)" "distinct (map pr_task_id pb)"
      "distinct (map (\<lambda>r. (mm_task_id r, mr_id (mm_receipt r))) mm)" "distinct (map ta_task_id ta)"
    and own: "sc_task_id ` set sc \<union> sv_task_id ` set sv \<union> pr_task_id ` set pb \<union>
      mm_task_id ` set mm \<union> ta_task_id ` set ta \<subseteq> owning d \<union> {x. live_task x d}"
  shows "ledger_inv (d\<lparr>sandbox_creations := sc, task_supervisions := sv, publication_intents := pb,
     task_message_receipts := mm, task_results := ta\<rparr>)" (is "ledger_inv ?d")
proof -
  have sub: "owning d \<union> {x. live_task x d} \<subseteq> t_id ` set (tasks d)"
    using inv live_in_tasks by (auto simp: inv_defs owning_def)
  have "keys_ok ?d" using inv keys by (simp add: inv_defs)
  moreover have "seqs_ok ?d" using inv by (simp add: inv_defs)
  moreover have "refs_ok ?d"
  proof -
    have "ec_task_id ` set (task_event_copies d) \<subseteq> t_id ` set (tasks d)"
      "rv_task_id ` set (task_reservations d) \<subseteq> t_id ` set (tasks d)"
      using inv by (simp_all add: inv_defs)
    then show ?thesis using subset_trans [OF own sub] by (simp add: refs_ok_def)
  qed
  moreover have "retired_ok ?d"
  proof -
    have "owning ?d \<subseteq> owning d \<union> {x. live_task x d}"
      using own by (auto simp: owning_def)
    moreover have "t_id t \<notin> owning d \<union> {x. live_task x d}"
      if "t \<in> set (tasks d)" "t_payload_expired t" for t
      using that inv live_not_expired [OF inv _ that] by (auto simp: inv_defs)
    ultimately have "\<forall>t\<in>set (tasks d). t_payload_expired t \<longrightarrow> t_id t \<notin> owning ?d"
      by blast
    moreover have "retired_ok d" using inv by (simp add: ledger_inv_def)
    ultimately show ?thesis by (simp add: retired_ok_def)
  qed
  moreover have "events_ok ?d" using inv by (simp add: inv_defs counter_value_def)
  ultimately show ?thesis by (simp add: ledger_inv_def)
qed


lemma own_sub:
  "sc_task_id ` set (sandbox_creations d) \<subseteq> owning d \<union> L"
  "sv_task_id ` set (task_supervisions d) \<subseteq> owning d \<union> L"
  "pr_task_id ` set (publication_intents d) \<subseteq> owning d \<union> L"
  "mm_task_id ` set (task_message_receipts d) \<subseteq> owning d \<union> L"
  "ta_task_id ` set (task_results d) \<subseteq> owning d \<union> L"
  "ec_task_id ` set (task_event_copies d) \<subseteq> owning d \<union> L"
  by (auto simp: owning_def)

lemma evidence_keys:
  assumes "ledger_inv d"
  shows "distinct (map sc_task_id (sandbox_creations d))" "distinct (map sv_task_id (task_supervisions d))"
    "distinct (map sv_start_key (task_supervisions d))" "distinct (map pr_task_id (publication_intents d))"
    "distinct (map (\<lambda>r. (mm_task_id r, mr_id (mm_receipt r))) (task_message_receipts d))"
    "distinct (map ta_task_id (task_results d))" "distinct (map rv_task_id (task_reservations d))"
  using assms by (simp_all add: inv_defs)

lemma inv_set_creations:
  assumes "ledger_inv d" "distinct (map sc_task_id t)"
    "sc_task_id ` set t \<subseteq> owning d \<union> {x. live_task x d}"
  shows "ledger_inv (d\<lparr>sandbox_creations := t\<rparr>)"
  using inv_evidence [of d t "task_supervisions d" "publication_intents d" "task_message_receipts d" "task_results d"]
    assms evidence_keys [OF assms(1)] own_sub [of d] by simp

lemma inv_set_supervisions:
  assumes "ledger_inv d" "distinct (map sv_task_id t)" "distinct (map sv_start_key t)"
    "sv_task_id ` set t \<subseteq> owning d \<union> {x. live_task x d}"
  shows "ledger_inv (d\<lparr>task_supervisions := t\<rparr>)"
  using inv_evidence [of d "sandbox_creations d" t "publication_intents d" "task_message_receipts d" "task_results d"]
    assms evidence_keys [OF assms(1)] own_sub [of d] by simp

lemma inv_set_publications:
  assumes "ledger_inv d" "distinct (map pr_task_id t)"
    "pr_task_id ` set t \<subseteq> owning d \<union> {x. live_task x d}"
  shows "ledger_inv (d\<lparr>publication_intents := t\<rparr>)"
  using inv_evidence [of d "sandbox_creations d" "task_supervisions d" t "task_message_receipts d" "task_results d"]
    assms evidence_keys [OF assms(1)] own_sub [of d] by simp

lemma inv_set_receipts:
  assumes "ledger_inv d" "distinct (map (\<lambda>r. (mm_task_id r, mr_id (mm_receipt r))) t)"
    "mm_task_id ` set t \<subseteq> owning d \<union> {x. live_task x d}"
  shows "ledger_inv (d\<lparr>task_message_receipts := t\<rparr>)"
  using inv_evidence [of d "sandbox_creations d" "task_supervisions d" "publication_intents d" t "task_results d"]
    assms evidence_keys [OF assms(1)] own_sub [of d] by simp

lemma inv_set_results:
  assumes "ledger_inv d" "distinct (map ta_task_id t)"
    "ta_task_id ` set t \<subseteq> owning d \<union> {x. live_task x d}"
  shows "ledger_inv (d\<lparr>task_results := t\<rparr>)"
  using inv_evidence [of d "sandbox_creations d" "task_supervisions d" "publication_intents d" "task_message_receipts d" t]
    assms evidence_keys [OF assms(1)] own_sub [of d] by simp

lemma inv_set_source_cursors:
  assumes "ledger_inv d" "distinct (map (\<lambda>r. (es_task_id r, es_source_id r)) t)"
  shows "ledger_inv (d\<lparr>task_event_source_cursors := t\<rparr>)"
  using assms by (simp add: inv_defs owning_def counter_value_def)


section \<open>Every operation keeps the invariant\<close>

definition inv_rel :: "database \<Rightarrow> database \<Rightarrow> bool" where
  "inv_rel d d' \<longleftrightarrow> (ledger_inv d \<longrightarrow> ledger_inv d')"

interpretation inv_kept: transactional_relation inv_rel
  by unfold_locales (simp_all add: inv_rel_def)

lemma inv_db_write:
  assumes "\<And>d x d'. f d = Inr (x, d') \<Longrightarrow> ledger_inv d \<Longrightarrow> ledger_inv d'"
  shows "keeps inv_rel (db_write f)"
  using assms by (intro inv_kept.keeps_db_write) (auto simp: inv_rel_def)

lemma inv_db_write_skip:
  assumes "\<And>d x d'. f d = Inr (x, d') \<Longrightarrow> ledger_inv d \<Longrightarrow> ledger_inv d'"
  shows "keeps inv_rel (db_write_skip f)"
  using assms by (intro inv_kept.keeps_db_write_skip) (auto simp: inv_rel_def)

lemma task_key_update [simp]:
  "task_key (r\<lparr>t_state := a\<rparr>) = task_key r" "task_key (r\<lparr>t_updated_at := b\<rparr>) = task_key r"
  "task_key (r\<lparr>t_outcome_detail := c\<rparr>) = task_key r" "task_key (r\<lparr>t_check_status := c\<rparr>) = task_key r"
  "task_key (r\<lparr>t_sandbox_cleanup_status := c\<rparr>) = task_key r" "task_key (r\<lparr>t_base_sha := c\<rparr>) = task_key r"
  "task_key (r\<lparr>t_workspace_expired := e\<rparr>) = task_key r"
  "task_key (r\<lparr>t_workspace_last_activity_at := w\<rparr>) = task_key r"
  by (simp_all add: task_key_def)

lemma record_base_sha_inv [keep_rules]: "keeps inv_rel (record_base_sha now i sha)"
  unfolding record_base_sha_def
  by (rule inv_db_write)
    (auto simp: Let_def inv_update_tasks split: if_splits option.splits)

lemma settle_successful_tasks_inv [keep_rules]: "keeps inv_rel (settle_successful_tasks now)"
  unfolding settle_successful_tasks_def by (rule inv_db_write) (auto simp: inv_update_tasks)

lemma cancel_queued_task_inv [keep_rules]: "keeps inv_rel (cancel_queued_task now i)"
  unfolding cancel_queued_task_def
  by (rule inv_db_write) (auto simp: Let_def inv_update_tasks split: if_splits option.splits)

lemma finish_task_inv [keep_rules]: "keeps inv_rel (finish_task now i st od cs)"
  unfolding finish_task_def
  by (rule inv_kept.keeps_andThen, rule inv_db_write)
    (auto simp: Let_def inv_update_tasks inv_kept.keeps_rules split: option.splits)

lemma queue_workspace_message_inv [keep_rules]: "keeps inv_rel (queue_workspace_message now i)"
  unfolding queue_workspace_message_def by (rule inv_db_write) (auto simp: inv_update_tasks)

lemma touch_workspace_inv [keep_rules]: "keeps inv_rel (touch_workspace now later i)"
  unfolding touch_workspace_def by (rule inv_db_write) (auto simp: inv_update_tasks)

lemma try_mark_sleeping_inv [keep_rules]: "keeps inv_rel (try_mark_sleeping now i)"
  unfolding try_mark_sleeping_def
  by (rule inv_db_write) (auto simp: Let_def inv_update_tasks split: if_splits)

lemma expire_workspace_inv [keep_rules]: "keeps inv_rel (expire_workspace i)"
  unfolding expire_workspace_def by (rule inv_db_write) (auto simp: inv_update_tasks)

text \<open>Reservations.\<close>

lemma inv_insert_reservation:
  assumes "ledger_inv d" "rv_task_id r \<in> t_id ` set (tasks d)"
    "rv_task_id r \<notin> rv_task_id ` set (task_reservations d)"
  shows "ledger_inv (d\<lparr>task_reservations := task_reservations d @ [r]\<rparr>)"
  using assms by (intro inv_set_reservations) (auto simp: inv_defs)

lemma queue_order_hd:
  "queue_order d = row # rest \<Longrightarrow>
   row \<in> set (tasks d) \<and> t_state row = TS_QUEUED \<and>
   t_id row \<notin> rv_task_id ` set (task_reservations d)"
proof -
  assume "queue_order d = row # rest"
  then have "row \<in> set (queue_order d)" by simp
  then show ?thesis by (auto simp: queue_order_def)
qed

lemma claim_task_inv:
  assumes "ledger_inv d" "queue_order d = row # rest" "claim_task now row d = Inr (x, d')"
  shows "ledger_inv d'"
proof -
  have "ledger_inv (d\<lparr>task_reservations := task_reservations d @
      [\<lparr>rv_task_id = t_id row, rv_phase = RP_STARTING, rv_condition = None,
        rv_reserved_at = now, rv_updated_at = now\<rparr>]\<rparr>)"
    using assms(1) queue_order_hd [OF assms(2)] by (intro inv_insert_reservation) auto
  from inv_update_tasks [OF this] assms(3) show ?thesis
    by (auto simp: claim_task_def Let_def split: option.splits)
qed

lemma reserve_next_inv [keep_rules]: "keeps inv_rel (reserve_next now cap)"
  unfolding reserve_next_def
  by (intro inv_kept.keeps_if inv_kept.keeps_raise inv_db_write)
    (auto split: if_splits list.splits dest: claim_task_inv)

lemma update_reservation_inv [keep_rules]: "keeps inv_rel (update_reservation now i ph c st)"
  unfolding update_reservation_def
proof (rule inv_db_write, goal_cases)
  case (1 d x d')
  let ?d1 = "d\<lparr>task_reservations := sql_update (\<lambda>r. rv_task_id r = i)
     (\<lambda>r. r\<lparr>rv_phase := ph, rv_condition := c, rv_updated_at := now\<rparr>) (task_reservations d)\<rparr>"
  have "ledger_inv ?d1" using 1(2) by (rule inv_update_reservations) simp
  then show ?case using 1 inv_update_tasks [of ?d1]
    by (auto simp: Let_def split: if_splits option.splits)
qed

lemma release_reservation_inv [keep_rules]: "keeps inv_rel (release_reservation now i c)"
  unfolding release_reservation_def
proof (rule inv_db_write, goal_cases)
  case (1 d x d')
  from inv_update_tasks [OF inv_delete_reservations [OF 1(2)]] 1(1) show ?case by auto
qed

lemma mark_sandbox_lost_inv [keep_rules]: "keeps inv_rel (mark_sandbox_lost now i det)"
  unfolding mark_sandbox_lost_def
proof (rule inv_db_write, goal_cases)
  case (1 d x d')
  show ?case
  proof (cases "fetchone (\<lambda>r. t_id r = i) (tasks d)")
    case None
    with 1 show ?thesis by simp
  next
    case (Some row)
    have "ledger_inv (d\<lparr>tasks := sql_update (\<lambda>r. t_id r = i)
        (\<lambda>r. r\<lparr>t_state := lost_state (t_state row) (t_outcome_detail row),
         t_outcome_detail := coalesce (t_outcome_detail r) (Some det),
         t_sandbox_cleanup_status := Some ''confirmed_absent'', t_updated_at := now\<rparr>) (tasks d),
       task_reservations := sql_delete (\<lambda>r. rv_task_id r = i) (task_reservations d)\<rparr>)"
      using inv_delete_reservations [OF inv_update_tasks [OF 1(2)]] by simp
    with 1 Some show ?thesis by (auto simp: Let_def)
  qed
qed


text \<open>Admission: the identifier \<open>uuid4\<close> returns is not one of a task that was already retired.\<close>

lemma owner_scope_eq [simp]: "owner_scope u c \<longleftrightarrow> c = u"
  by (cases u) (auto simp: owner_scope_def)

lemma inv_insert_task:
  assumes inv: "ledger_inv d" and fresh: "t_id r \<notin> id_task_id ` set (task_idempotency d)"
    and seq: "t_seq r = Suc (task_seq d)" and new: "\<not> t_payload_expired r"
    and key: "fetchone (\<lambda>i. id_idempotency_key i = t_idempotency_key r \<and> id_owner_id i = t_owner_id r)
      (task_idempotency d) = None"
    and ins: "insert_task r (d\<lparr>task_seq := Suc (task_seq d)\<rparr>) = Inr d'"
  shows "ledger_inv d'"
proof -
  have d': "d' = d\<lparr>task_seq := Suc (task_seq d), tasks := tasks d @ [r]\<rparr>"
    and ids: "t_id r \<notin> t_id ` set (tasks d)"
    and ks: "(t_owner_id r, t_idempotency_key r) \<notin>
      (\<lambda>x. (t_owner_id x, t_idempotency_key x)) ` set (tasks d)"
    using ins by (auto simp: insert_task_def split: if_splits)
  have sq: "t_seq r \<notin> t_seq ` set (tasks d)" "\<And>i. i \<in> set (task_idempotency d) \<Longrightarrow> id_seq i \<noteq> t_seq r"
    using inv seq by (auto simp: inv_defs)
  have tch: "\<not> touches_identity r i" if "i \<in> set (task_idempotency d)" for i
    using that key sq(2) [OF that] fresh by (auto simp: touches_identity_def fetchone_None image_iff)
  have "keys_ok d'" using inv ids ks sq(1) d' by (simp add: inv_defs)
  moreover have "seqs_ok d'" using inv seq d' by (auto simp: inv_defs)
  moreover have "refs_ok d'" using inv d' by (auto simp: inv_defs)
  moreover have "retired_ok d'"
    using inv new tch d' by (auto simp: inv_defs owning_def)
  moreover have "events_ok d'" using inv d' by (simp add: inv_defs counter_value_def)
  ultimately show ?thesis by (simp add: ledger_inv_def)
qed

lemma submit_inv:
  assumes inv: "ledger_inv d" and fresh: "i \<notin> id_task_id ` set (task_idempotency d)"
  shows "ledger_inv (snd (submit i now k repo p br ro m u d))"
proof -
  let ?row = "new_task_row i now (Suc (task_seq d)) k u repo p br ro m"
  have "ledger_inv d'" if "insert_task ?row (d\<lparr>task_seq := Suc (task_seq d)\<rparr>) = Inr d'"
    "fetchone (\<lambda>r. id_idempotency_key r = k \<and> id_owner_id r = u) (task_idempotency d) = None" for d'
    using that by (intro inv_insert_task [OF inv, of ?row]) (simp_all add: new_task_row_def fresh)
  with inv show ?thesis
    unfolding submit_def db_write_def
    by (simp add: Let_def split: option.split sum.split)
qed

text \<open>Sandbox creations.\<close>

lemma inv_update_creations:
  assumes "ledger_inv d" "\<And>r. sc_task_id (f r) = sc_task_id r"
  shows "ledger_inv (d\<lparr>sandbox_creations := sql_update P f (sandbox_creations d)\<rparr>)"
  using assms evidence_keys(1) [OF assms(1)] own_sub(1) [of d]
  by (intro inv_set_creations) (simp_all add: sql_simps)

lemma begin_sandbox_creation_inv [keep_rules]:
  "keeps inv_rel (begin_sandbox_creation now i dep n tg k v)"
  unfolding begin_sandbox_creation_def
proof (rule inv_db_write, goal_cases)
  case (1 d x d')
  have "ledger_inv (d\<lparr>sandbox_creations := sandbox_creations d @ [r]\<rparr>)"
    if "sc_task_id r = i" "fetchone (\<lambda>r. sc_task_id r = i) (sandbox_creations d) = None" "live_task i d" for r
    using that 1(2) evidence_keys(1) [OF 1(2)] own_sub(1) [of d]
    by (intro inv_set_creations) (auto simp: fetchone_key_None)
  with 1 show ?case
    by (auto simp: insert_creation_def split: if_splits option.splits sum.splits
        dest: require_payload_live)
qed

lemma set_sandbox_credential_version_inv [keep_rules]:
  "keeps inv_rel (set_sandbox_credential_version i v)"
  unfolding set_sandbox_credential_version_def
  by (rule inv_kept.keeps_andThen, rule inv_db_write)
    (auto simp: Let_def inv_update_creations inv_kept.keeps_rules split: if_splits option.splits)

lemma update_sandbox_creation_inv [keep_rules]:
  "keeps inv_rel (update_sandbox_creation now i pid st det)"
  unfolding update_sandbox_creation_def
  by (rule inv_kept.keeps_andThen, rule inv_db_write_skip)
    (auto simp: Let_def inv_update_creations inv_kept.keeps_rules split: option.splits)

lemma reset_sandbox_for_wake_inv [keep_rules]: "keeps inv_rel (reset_sandbox_for_wake now i)"
  unfolding reset_sandbox_for_wake_def by (rule inv_db_write) (auto simp: inv_update_creations)

text \<open>Publication intents.\<close>

lemma begin_publication_inv [keep_rules]:
  "keeps inv_rel (begin_publication now i repo tb br tm cs co ao st det)"
  unfolding begin_publication_def
proof (rule inv_db_write, goal_cases)
  case (1 d x d')
  have "ledger_inv (d\<lparr>publication_intents := publication_intents d @ [r]\<rparr>)"
    if "pr_task_id r = i" "fetchone (\<lambda>r. pr_task_id r = i) (publication_intents d) = None" "live_task i d" for r
    using that 1(2) evidence_keys(4) [OF 1(2)] own_sub(3) [of d]
    by (intro inv_set_publications) (auto simp: fetchone_key_None)
  with 1 show ?case
    by (auto simp: Let_def split: if_splits option.splits dest: require_payload_live)
qed

lemma update_publication_inv [keep_rules]:
  "keeps inv_rel (update_publication now i st cs pn pu pd pa ps det chk od co ao)"
  unfolding update_publication_def
proof (rule inv_db_write, goal_cases)
  case (1 d x d')
  have p: "ledger_inv (d\<lparr>publication_intents := sql_update P f (publication_intents d)\<rparr>)"
    if "\<And>r. pr_task_id (f r) = pr_task_id r" for P f
    using that 1(2) evidence_keys(4) [OF 1(2)] own_sub(3) [of d]
    by (intro inv_set_publications) (simp_all add: sql_simps)
  have "ledger_inv (d\<lparr>publication_intents := sql_update P f (publication_intents d),
      tasks := sql_update Q g (tasks d)\<rparr>)"
    if "\<And>r. pr_task_id (f r) = pr_task_id r" "\<And>r. task_key (g r) = task_key r" for P f Q g
    using inv_update_tasks [OF p [OF that(1)]] that(2) by simp
  with p 1 show ?case by (auto simp: Let_def split: if_splits option.splits)
qed

text \<open>Supervision records.\<close>

lemma begin_supervision_inv [keep_rules]: "keeps inv_rel (begin_supervision now i e tb k c)"
  unfolding begin_supervision_def
proof (rule inv_db_write, goal_cases)
  case (1 d x d')
  have "ledger_inv (d\<lparr>task_supervisions := task_supervisions d @ [r]\<rparr>)"
    if "sv_task_id r = i" "sv_start_key r = k" "live_task i d"
      "fetchone (\<lambda>r. sv_task_id r = i \<or> sv_start_key r = k) (task_supervisions d) = None" for r
    using that 1(2) evidence_keys(2,3) [OF 1(2)] own_sub(2) [of d]
    by (intro inv_set_supervisions) (auto simp: fetchone_None)
  with 1 show ?case
    by (auto simp: Let_def split: if_splits option.splits dest: require_payload_live)
qed

lemma distinct_set_one:
  assumes "distinct (map k t)" "distinct (map h t)" "\<And>r. k r = x \<Longrightarrow> h (f r) = y"
    "\<forall>r\<in>set t. k r \<noteq> x \<longrightarrow> h r \<noteq> y"
  shows "distinct (map h (sql_update (\<lambda>r. k r = x) f t))"
  using assms(1,2,4)
proof (induction t)
  case (Cons a t)
  have tail: "k r \<noteq> x" if "k a = x" "r \<in> set t" for r
    using that Cons.prems(1) by (auto simp: image_iff)
  show ?case
  proof (cases "k a = x")
    case True
    have "sql_update (\<lambda>r. k r = x) f t = t" using tail True by (intro sql_update_unmatched) auto
    with True Cons assms(3) tail show ?thesis by auto
  next
    case False
    then show ?thesis using Cons assms(3) by (auto simp: set_sql_update)
  qed
qed simp

lemma update_supervision_inv [keep_rules]: "keeps inv_rel (update_supervision now i e k c cr tg)"
  unfolding update_supervision_def
proof (rule inv_db_write, goal_cases)
  case (1 d x d')
  have "ledger_inv (d\<lparr>task_supervisions := sql_update (\<lambda>r. sv_task_id r = i) f (task_supervisions d)\<rparr>)"
    if "\<And>r. sv_task_id (f r) = sv_task_id r" "\<And>r. sv_start_key (f r) = key"
      "\<not> exists_row (\<lambda>r. sv_task_id r \<noteq> i \<and> sv_start_key r = key) (task_supervisions d)" for f key
  proof -
    have "distinct (map sv_start_key (sql_update (\<lambda>r. sv_task_id r = i) f (task_supervisions d)))"
      using that evidence_keys(2,3) [OF 1(2)] by (intro distinct_set_one [where y = key]) auto
    then show ?thesis using that 1(2) evidence_keys(2) [OF 1(2)] own_sub(2) [of d]
      by (intro inv_set_supervisions) (simp_all add: sql_simps)
  qed
  with 1 show ?case by (auto simp: Let_def split: if_splits option.splits)
qed

lemma request_task_cancel_inv [keep_rules]: "keeps inv_rel (request_task_cancel now i)"
  unfolding request_task_cancel_def
  by (intro inv_kept.keeps_rules) (auto intro!: inv_kept.keeps_rules keep_rules split: option.split)

text \<open>Message receipts and results.\<close>

lemma save_task_message_receipt_inv [keep_rules]: "keeps inv_rel (save_task_message_receipt i r)"
  unfolding save_task_message_receipt_def
proof (rule inv_db_write, goal_cases)
  case (1 d x d')
  have ins: "ledger_inv (d\<lparr>task_message_receipts := task_message_receipts d @
      [\<lparr>mm_task_id = i, mm_receipt = r\<rparr>]\<rparr>)"
    if "live_task i d" "\<not> exists_row (\<lambda>x. mm_task_id x = i \<and> mr_id (mm_receipt x) = mr_id r)
        (task_message_receipts d)"
    using that 1(2) evidence_keys(5) [OF 1(2)] own_sub(4) [of d]
    by (intro inv_set_receipts) auto
  have upd: "ledger_inv (d\<lparr>task_message_receipts := sql_update P f (task_message_receipts d)\<rparr>)"
    if "\<And>r. mm_task_id (f r) = mm_task_id r" "\<And>r. mr_id (mm_receipt (f r)) = mr_id (mm_receipt r)" for P f
    using that 1(2) evidence_keys(5) [OF 1(2)] own_sub(4) [of d]
    by (intro inv_set_receipts) (simp_all add: sql_simps)
  show ?case using 1 ins upd
    by (auto simp: Let_def split: if_splits option.splits dest: require_payload_live)
qed

lemma archive_task_result_inv [keep_rules]: "keeps inv_rel (archive_task_result now i e m c det)"
  unfolding archive_task_result_def
proof (rule inv_db_write, goal_cases)
  case (1 d x d')
  have ins: "ledger_inv (d\<lparr>task_results := task_results d @ [r]\<rparr>)"
    if "live_task i d" "ta_task_id r = i" "\<not> exists_row (\<lambda>x. ta_task_id x = i) (task_results d)" for r
    using that 1(2) evidence_keys(6) [OF 1(2)] own_sub(5) [of d]
    by (intro inv_set_results) auto
  have upd: "ledger_inv (d\<lparr>task_results := sql_update (\<lambda>x. ta_task_id x = i) (\<lambda>_. r) (task_results d)\<rparr>)"
    if "ta_task_id r = i" for r
  proof -
    let ?t = "sql_update (\<lambda>x. ta_task_id x = i) (\<lambda>_. r) (task_results d)"
    have m: "map ta_task_id ?t = map ta_task_id (task_results d)"
      using that by (intro map_sql_update_matched) simp
    then have "ta_task_id ` set ?t = ta_task_id ` set (task_results d)" by (metis list.set_map)
    with m show ?thesis using 1(2) evidence_keys(6) [OF 1(2)] own_sub(5) [of d]
      by (intro inv_set_results) simp_all
  qed
  show ?case using 1 ins upd
    by (auto simp: Let_def split: if_splits option.splits dest: require_payload_live)
qed


section \<open>Copied events\<close>

lemma fetchone_append_new: "(\<forall>r\<in>set t. \<not> P r) \<Longrightarrow> fetchone P (t @ [a]) = (if P a then Some a else None)"
  by (induction t) auto

lemma bump_event_counter_props:
  assumes "bump_event_counter i d = (c, d')" "distinct (map fst (task_event_counters d))"
  shows "c = Suc (counter_value i d)" "counter_value i d' = c"
    "j \<noteq> i \<Longrightarrow> counter_value j d' = counter_value j d"
    "distinct (map fst (task_event_counters d'))"
    "d' = d\<lparr>task_event_counters := task_event_counters d'\<rparr>"
proof -
  define t1 where "t1 = (if exists_row (\<lambda>r. fst r = i) (task_event_counters d)
                then task_event_counters d else task_event_counters d @ [(i, 0)])"
  define t2 where "t2 = sql_update (\<lambda>r. fst r = i) (\<lambda>r. (fst r, snd r + 1)) t1"
  have d': "d' = d\<lparr>task_event_counters := t2\<rparr>" and c: "c = counter_value i d'"
    using assms(1) by (auto simp: bump_event_counter_def Let_def t1_def t2_def)
  have t1: "fetchone (\<lambda>r. fst r = j) t1 =
     (case fetchone (\<lambda>r. fst r = j) (task_event_counters d) of
        Some r \<Rightarrow> Some r | None \<Rightarrow> if j = i then Some (i, 0) else None)" for j
  proof (cases "exists_row (\<lambda>r. fst r = i) (task_event_counters d)")
    case True
    then have "fetchone (\<lambda>r. fst r = i) (task_event_counters d) \<noteq> None" by (auto simp: fetchone_None)
    then show ?thesis using True by (auto simp: t1_def split: option.split)
  next
    case False
    then show ?thesis by (simp add: t1_def split: option.split)
  qed
  have t2: "fetchone (\<lambda>r. fst r = j) t2 =
     map_option (\<lambda>r. if fst r = i then (fst r, snd r + 1) else r) (fetchone (\<lambda>r. fst r = j) t1)" for j
    unfolding t2_def by (rule fetchone_update) simp
  show "counter_value i d' = c" using c by simp
  show "c = Suc (counter_value i d)"
    unfolding c d' using t1 [of i] t2 [of i]
    by (auto simp: counter_value_def split: option.splits dest!: fetchone_SomeD)
  show "counter_value j d' = counter_value j d" if "j \<noteq> i"
    unfolding d' using t1 [of j] t2 [of j] that
    by (auto simp: counter_value_def split: option.splits dest!: fetchone_SomeD)
  have "distinct (map fst t1)" using assms(2) by (auto simp: t1_def image_iff)
  then show "distinct (map fst (task_event_counters d'))"
    unfolding d' by (simp add: t2_def sql_simps)
  show "d' = d\<lparr>task_event_counters := task_event_counters d'\<rparr>" unfolding d' by simp
qed

text \<open>What a committed insert is: the next cursor of the task, a new identity and its copy.\<close>

lemma insert_task_event_Some:
  assumes "insert_task_event now i src sq ev d = Inr (Some c, d')" "ledger_inv d"
  shows "live_task i d" "c = Suc (counter_value i d)"
    "\<exists>t. d' = d\<lparr>task_event_counters := t,
       task_event_identities := task_event_identities d @
         [\<lparr>ei_task_id = i, ei_source_id = src, ei_source_seq = sq, ei_cursor_seq = c\<rparr>],
       task_event_copies := task_event_copies d @
         [\<lparr>ec_task_id = i, ec_cursor_seq = c, ec_source_id = src, ec_source_seq = sq,
           ec_event = ev, ec_created_at = now\<rparr>]\<rparr> \<and>
       distinct (map fst t) \<and> counter_value i d' = c \<and>
       (\<forall>j. j \<noteq> i \<longrightarrow> counter_value j d' = counter_value j d)"
    "(i, src, sq) \<notin> identity_key ` set (task_event_identities d)"
proof -
  obtain c' d1 where b: "bump_event_counter i d = (c', d1)" by fastforce
  have dist: "distinct (map fst (task_event_counters d))" using assms(2) by (simp add: inv_defs)
  note p = bump_event_counter_props [OF b dist]
  have none: "fetchone (\<lambda>r. ei_task_id r = i \<and> ei_source_id r = src \<and> ei_source_seq r = sq)
      (task_event_identities d) = None" and pay: "require_payload i d = None"
    and c: "c = c'" and d': "d' = d1\<lparr>task_event_identities := task_event_identities d1 @
         [\<lparr>ei_task_id = i, ei_source_id = src, ei_source_seq = sq, ei_cursor_seq = c\<rparr>],
       task_event_copies := task_event_copies d1 @
         [\<lparr>ec_task_id = i, ec_cursor_seq = c, ec_source_id = src, ec_source_seq = sq,
           ec_event = ev, ec_created_at = now\<rparr>]\<rparr>"
    using assms(1) b by (auto simp: insert_task_event_def Let_def split: option.splits if_splits)
  show "live_task i d" using pay by (rule require_payload_live)
  show "c = Suc (counter_value i d)" using c p(1) by simp
  show "(i, src, sq) \<notin> identity_key ` set (task_event_identities d)"
    using none by (auto simp: fetchone_None identity_key_def)
  have cv: "counter_value j d' = counter_value j d1" for j by (simp add: d' counter_value_def)
  have d1: "d1 = d\<lparr>task_event_counters := task_event_counters d1\<rparr>" by (rule p(5))
  have same: "task_event_identities d1 = task_event_identities d" "task_event_copies d1 = task_event_copies d"
    by (subst d1, simp)+
  show "\<exists>t. d' = d\<lparr>task_event_counters := t,
       task_event_identities := task_event_identities d @
         [\<lparr>ei_task_id = i, ei_source_id = src, ei_source_seq = sq, ei_cursor_seq = c\<rparr>],
       task_event_copies := task_event_copies d @
         [\<lparr>ec_task_id = i, ec_cursor_seq = c, ec_source_id = src, ec_source_seq = sq,
           ec_event = ev, ec_created_at = now\<rparr>]\<rparr> \<and>
       distinct (map fst t) \<and> counter_value i d' = c \<and>
       (\<forall>j. j \<noteq> i \<longrightarrow> counter_value j d' = counter_value j d)"
  proof (intro exI [of _ "task_event_counters d1"] conjI)
    show "d' = d\<lparr>task_event_counters := task_event_counters d1,
       task_event_identities := task_event_identities d @
         [\<lparr>ei_task_id = i, ei_source_id = src, ei_source_seq = sq, ei_cursor_seq = c\<rparr>],
       task_event_copies := task_event_copies d @
         [\<lparr>ec_task_id = i, ec_cursor_seq = c, ec_source_id = src, ec_source_seq = sq,
           ec_event = ev, ec_created_at = now\<rparr>]\<rparr>"
      unfolding d' same by (subst d1) simp
  qed (use p cv c in simp_all)
qed


lemma insert_task_event_inv:
  assumes ins: "insert_task_event now i src sq ev d = Inr (x, d')" and inv: "ledger_inv d"
  shows "ledger_inv d'"
proof (cases x)
  case None
  then show ?thesis using assms
    by (auto simp: insert_task_event_def Let_def split: option.splits if_splits prod.splits)
next
  case (Some c)
  note p = insert_task_event_Some [OF ins [unfolded Some] inv]
  then obtain t where d': "d' = d\<lparr>task_event_counters := t,
       task_event_identities := task_event_identities d @
         [\<lparr>ei_task_id = i, ei_source_id = src, ei_source_seq = sq, ei_cursor_seq = c\<rparr>],
       task_event_copies := task_event_copies d @
         [\<lparr>ec_task_id = i, ec_cursor_seq = c, ec_source_id = src, ec_source_seq = sq,
           ec_event = ev, ec_created_at = now\<rparr>]\<rparr>"
    and t: "distinct (map fst t)" and cv: "counter_value i d' = c"
      "\<And>j. j \<noteq> i \<Longrightarrow> counter_value j d' = counter_value j d" by blast
  have E: "events_ok d" and R: "retired_ok d" using inv by (simp_all add: ledger_inv_def)
  have mono: "counter_value j d \<le> counter_value j d'" for j
    using cv p(2) by (cases "j = i") auto
  have newc: "(i, c) \<notin> (\<lambda>r. (ei_task_id r, ei_cursor_seq r)) ` set (task_event_identities d)"
    using E p(2) by (force simp: events_ok_def)
  have newe: "(i, c) \<notin> (\<lambda>r. (ec_task_id r, ec_cursor_seq r)) ` set (task_event_copies d)"
    using E newc by (force simp: events_ok_def)
  have bound: "0 < ei_cursor_seq r \<and> ei_cursor_seq r \<le> counter_value (ei_task_id r) d'"
    if "r \<in> set (task_event_identities d)" for r
    using E that mono [of "ei_task_id r"] by (fastforce simp: events_ok_def)
  have "keys_ok d'" "seqs_ok d'" using inv by (simp_all add: d' inv_defs)
  moreover have "refs_ok d'" using inv live_in_tasks [OF p(1)] by (simp add: d' inv_defs)
  moreover have "retired_ok d'"
  proof -
    have "owning d' = owning d \<union> {i}" by (auto simp: d' owning_def)
    moreover have "t_id t \<noteq> i" if "t \<in> set (tasks d)" "t_payload_expired t" for t
      using live_not_expired [OF inv p(1) that] .
    ultimately have "\<forall>t\<in>set (tasks d). t_payload_expired t \<longrightarrow> t_id t \<notin> owning d'"
      using R by (simp add: retired_ok_def)
    then show ?thesis using R by (simp add: retired_ok_def d')
  qed
  moreover have "events_ok d'"
  proof -
    have ids: "task_event_identities d' = task_event_identities d @
         [\<lparr>ei_task_id = i, ei_source_id = src, ei_source_seq = sq, ei_cursor_seq = c\<rparr>]"
      and cps: "task_event_copies d' = task_event_copies d @
         [\<lparr>ec_task_id = i, ec_cursor_seq = c, ec_source_id = src, ec_source_seq = sq,
           ec_event = ev, ec_created_at = now\<rparr>]"
      and cts: "task_event_counters d' = t"
      and srcs: "task_event_source_cursors d' = task_event_source_cursors d"
      by (simp_all add: d')
    have "\<forall>c\<in>set (task_event_copies d'). \<exists>i\<in>set (task_event_identities d').
        ei_task_id i = ec_task_id c \<and> ei_cursor_seq i = ec_cursor_seq c \<and>
        ei_source_id i = ec_source_id c \<and> ei_source_seq i = ec_source_seq c"
      using E unfolding ids cps events_ok_def by auto
    moreover have "\<forall>r\<in>set (task_event_identities d').
        0 < ei_cursor_seq r \<and> ei_cursor_seq r \<le> counter_value (ei_task_id r) d'"
      using bound cv(1) p(2) unfolding ids by simp
    moreover have "distinct (map identity_key (task_event_identities d'))"
      using E p(4) unfolding ids events_ok_def by (simp add: identity_key_def)
    moreover have "distinct (map (\<lambda>r. (ei_task_id r, ei_cursor_seq r)) (task_event_identities d'))"
      using E newc unfolding ids events_ok_def by simp
    moreover have "distinct (map (\<lambda>r. (ec_task_id r, ec_cursor_seq r)) (task_event_copies d'))"
      using E newe unfolding cps events_ok_def by simp
    ultimately show ?thesis using E t by (simp add: events_ok_def cts srcs)
  qed
  ultimately show ?thesis by (simp add: ledger_inv_def)
qed

lemma copy_task_event_inv [keep_rules]: "keeps inv_rel (copy_task_event now i src sq ev ej)"
  unfolding copy_task_event_def by (rule inv_db_write) (rule insert_task_event_inv)

lemma copy_events_inv:
  "copy_events eb fresh now i src m n evs d = Inr (x, d') \<Longrightarrow> ledger_inv d \<Longrightarrow> ledger_inv d'"
proof (induction evs arbitrary: n d x)
  case (Cons ev evs)
  then show ?case
    by (auto simp: Let_def split: sum.splits prod.splits option.splits)
      (metis Cons.IH insert_task_event_inv)+
qed simp

lemma upsert_source_cursor_inv: "ledger_inv d \<Longrightarrow> ledger_inv (upsert_source_cursor i src n d)"
proof -
  assume inv: "ledger_inv d"
  then have "distinct (map (\<lambda>r. (es_task_id r, es_source_id r)) (task_event_source_cursors d))"
    by (simp add: inv_defs)
  with inv show ?thesis
    unfolding upsert_source_cursor_def Let_def
    by (auto intro!: inv_set_source_cursors simp: sql_simps)
qed

lemma copy_task_event_page_inv [keep_rules]:
  "keeps inv_rel (copy_task_event_page eb fresh now i src evs m)"
  unfolding copy_task_event_page_def
  by (intro inv_kept.keeps_if inv_kept.keeps_ret inv_kept.keeps_raise inv_db_write)
    (auto split: option.splits sum.splits intro!: upsert_source_cursor_inv dest: copy_events_inv)

section \<open>Retention\<close>

lemma owning_delete_children: "owning (delete_children i d) = owning d - {i}"
  by (auto simp: owning_def delete_children_def)

lemma inv_delete_children: "ledger_inv d \<Longrightarrow> ledger_inv (delete_children i d)"
proof -
  assume inv: "ledger_inv d"
  have "keys_ok (delete_children i d)"
    using inv by (simp add: inv_defs delete_children_def distinct_sql_delete)
  moreover have "seqs_ok (delete_children i d)" using inv by (simp add: inv_defs delete_children_def)
  moreover have "refs_ok (delete_children i d)"
    using inv
    by (simp add: ledger_inv_def refs_ok_def delete_children_def image_sql_delete del: sql_delete_simps(4))
  moreover have "retired_ok (delete_children i d)"
    using inv unfolding ledger_inv_def retired_ok_def owning_delete_children
    by (simp add: delete_children_def)
  moreover have "events_ok (delete_children i d)"
    using inv unfolding ledger_inv_def events_ok_def
    by (simp add: delete_children_def counter_value_def distinct_sql_delete)
  ultimately show ?thesis by (simp add: ledger_inv_def)
qed


text \<open>One round of the expiry loop on a task row that is still live.\<close>

definition expire_one :: "timestamp \<Rightarrow> task_row \<Rightarrow> database \<Rightarrow> database" where
  "expire_one expires row d =
     (let remote = map_option remote_of
            (fetchone (\<lambda>r. pr_task_id r = t_id row) (publication_intents d));
          d2 = delete_children (t_id row)
                 (d\<lparr>retention_tombstones := retention_tombstones d @
                    [\<lparr>tb_task_id = t_id row, tb_remote_effect = remote, tb_expires_at = expires\<rparr>],
                   task_idempotency := task_idempotency d @ [retire_row row]\<rparr>)
      in d2\<lparr>tasks := sql_update (\<lambda>r. t_id r = t_id row) expired_row (tasks d2)\<rparr>)"

lemma expired_row_fields [simp]:
  "t_id (expired_row r) = t_id r" "t_seq (expired_row r) = t_seq r"
  "t_owner_id (expired_row r) = t_owner_id r" "t_idempotency_key (expired_row r) = t_idempotency_key r"
  "t_payload_expired (expired_row r)" "t_state (expired_row r) = t_state r"
  by (simp_all add: expired_row_def)

lemma expire_one_fields:
  "tasks (expire_one x row d) = sql_update (\<lambda>r. t_id r = t_id row) expired_row (tasks d)"
  "task_idempotency (expire_one x row d) = task_idempotency d @ [retire_row row]"
  "map tb_task_id (retention_tombstones (expire_one x row d)) =
     map tb_task_id (retention_tombstones d) @ [t_id row]"
  "task_reservations (expire_one x row d) = task_reservations d"
  "owning (expire_one x row d) = owning d - {t_id row}"
  "task_seq (expire_one x row d) = task_seq d"
  by (auto simp: expire_one_def Let_def delete_children_def owning_def)

lemma task_identity_unique:
  assumes "ledger_inv d" "t \<in> set (tasks d)" "u \<in> set (tasks d)"
    "t_id t = t_id u \<or> t_seq t = t_seq u \<or>
     (t_owner_id t = t_owner_id u \<and> t_idempotency_key t = t_idempotency_key u)"
  shows "t = u"
proof -
  have k: "distinct (map t_id (tasks d))" "distinct (map t_seq (tasks d))"
    "distinct (map (\<lambda>r. (t_owner_id r, t_idempotency_key r)) (tasks d))"
    using assms(1) by (simp_all add: inv_defs)
  from assms(4) show ?thesis
    using distinct_key_unique [OF k(1) assms(2,3)] distinct_key_unique [OF k(2) assms(2,3)]
      distinct_key_unique [OF k(3) assms(2,3)] by auto
qed

lemma expire_one_retired:
  assumes inv: "ledger_inv d" and r0: "r0 \<in> set (tasks d)" "task_key r0 = task_key row"
    and live: "\<not> t_payload_expired row"
  shows "retired_ok (expire_one x row d)"
proof -
  let ?d = "expire_one x row d"
  have R: "retired_ok d" using inv by (simp add: ledger_inv_def)
  have k: "t_id r0 = t_id row" "t_seq r0 = t_seq row" "t_owner_id r0 = t_owner_id row"
    "t_idempotency_key r0 = t_idempotency_key row" "\<not> t_payload_expired r0"
    using r0(2) live by (simp_all add: task_key_def)
  have src: "\<exists>u\<in>set (tasks d). t = (if t_id u = t_id row then expired_row u else u)"
    if "t \<in> set (tasks ?d)" for t
    using that by (auto simp: expire_one_fields(1) set_sql_update split: if_splits)
  have touch: "t_payload_expired t \<and> same_identity t i"
    if t: "t \<in> set (tasks ?d)" and i: "i \<in> set (task_idempotency ?d)" and tc: "touches_identity t i" for t i
  proof -
    from src [OF t] obtain u where u: "u \<in> set (tasks d)"
      "t = (if t_id u = t_id row then expired_row u else u)" by blast
    have f: "t_id t = t_id u" "t_seq t = t_seq u" "t_owner_id t = t_owner_id u"
      "t_idempotency_key t = t_idempotency_key u" using u(2) by (simp_all split: if_splits)
    show ?thesis
    proof (cases "i = retire_row row")
      case True
      then have "t_id u = t_id r0 \<or> t_seq u = t_seq r0 \<or>
          (t_owner_id u = t_owner_id r0 \<and> t_idempotency_key u = t_idempotency_key r0)"
        using tc f k by (auto simp: touches_identity_def retire_row_def)
      from task_identity_unique [OF inv u(1) r0(1) this] have "u = r0" .
      then show ?thesis using u(2) k True by (simp add: same_identity_def retire_row_def)
    next
      case False
      then have old: "i \<in> set (task_idempotency d)" using i by (simp add: expire_one_fields)
      have "touches_identity u i" using tc f by (simp add: touches_identity_def)
      with R old u(1) have "t_payload_expired u" "same_identity u i" by (auto simp: retired_ok_def)
      then show ?thesis using f u(2) by (simp add: same_identity_def split: if_splits)
    qed
  qed
  have expd: "t_id t \<in> id_task_id ` set (task_idempotency ?d) \<and> t_id t \<notin> owning ?d"
    if t: "t \<in> set (tasks ?d)" and e: "t_payload_expired t" for t
  proof -
    from src [OF t] obtain u where u: "u \<in> set (tasks d)"
      "t = (if t_id u = t_id row then expired_row u else u)" by blast
    show ?thesis
    proof (cases "t_id u = t_id row")
      case True
      then show ?thesis using u(2) by (simp add: expire_one_fields retire_row_def)
    next
      case False
      then show ?thesis using u e R by (auto simp: retired_ok_def expire_one_fields)
    qed
  qed
  have "tb_task_id ` set (retention_tombstones ?d) = insert (t_id row) (tb_task_id ` set (retention_tombstones d))"
    using arg_cong [OF expire_one_fields(3) [of x row d], of set] by simp
  then have "tb_task_id ` set (retention_tombstones ?d) \<subseteq> id_task_id ` set (task_idempotency ?d)"
    using R by (auto simp: retired_ok_def expire_one_fields retire_row_def)
  with touch expd show ?thesis unfolding retired_ok_def by blast
qed

lemma expire_one_inv:
  assumes inv: "ledger_inv d" and r0: "r0 \<in> set (tasks d)" "task_key r0 = task_key row"
    and live: "\<not> t_payload_expired row"
    and fresh: "t_id row \<notin> tb_task_id ` set (retention_tombstones d)"
      "\<not> idempotency_clash (retire_row row) d"
  shows "ledger_inv (expire_one x row d)"
proof -
  let ?e = "d\<lparr>retention_tombstones := retention_tombstones d @
        [\<lparr>tb_task_id = t_id row, tb_remote_effect = map_option remote_of
            (fetchone (\<lambda>r. pr_task_id r = t_id row) (publication_intents d)), tb_expires_at = x\<rparr>],
      task_idempotency := task_idempotency d @ [retire_row row]\<rparr>"
  let ?t = "sql_update (\<lambda>r. t_id r = t_id row) expired_row (tasks d)"
  have e: "expire_one x row d = delete_children (t_id row) (?e\<lparr>tasks := ?t\<rparr>)"
    by (simp add: expire_one_def Let_def delete_children_def)
  have seq: "0 < t_seq row \<and> t_seq row \<le> task_seq d"
    using inv r0 by (auto simp: inv_defs task_key_def)
  have tk: "map t_id ?t = map t_id (tasks d)" "map t_seq ?t = map t_seq (tasks d)"
    "map (\<lambda>r. (t_owner_id r, t_idempotency_key r)) ?t =
       map (\<lambda>r. (t_owner_id r, t_idempotency_key r)) (tasks d)"
    "t_id ` set ?t = t_id ` set (tasks d)"
    by (simp_all add: sql_simps)
  have clash: "id_task_id (retire_row row) \<notin> id_task_id ` set (task_idempotency d)"
    "id_seq (retire_row row) \<notin> id_seq ` set (task_idempotency d)"
    "(id_owner_id (retire_row row), id_idempotency_key (retire_row row)) \<notin>
       (\<lambda>r. (id_owner_id r, id_idempotency_key r)) ` set (task_idempotency d)"
    using fresh(2) by (auto simp: idempotency_clash_def)
  have "keys_ok (?e\<lparr>tasks := ?t\<rparr>)"
    using inv fresh(1) clash by (simp add: inv_defs tk)
  then have "keys_ok (expire_one x row d)"
    unfolding e by (simp add: keys_ok_def delete_children_def distinct_sql_delete)
  moreover have "seqs_ok (expire_one x row d)"
    using inv seq by (auto simp: inv_defs seqs_ok_def expire_one_fields set_sql_update retire_row_def)
  moreover have "refs_ok (expire_one x row d)"
    using inv unfolding e
    by (simp add: inv_defs delete_children_def tk image_sql_delete del: sql_delete_simps(4))
  moreover have "retired_ok (expire_one x row d)"
    using expire_one_retired [OF inv r0 live] .
  moreover have "events_ok (expire_one x row d)"
    using inv unfolding e ledger_inv_def events_ok_def
    by (simp add: delete_children_def counter_value_def distinct_sql_delete)
  ultimately show ?thesis by (simp add: ledger_inv_def)
qed

end
