(* ===== verification/Retention.thy ===== *)
theory Retention
  imports Ledger_Inv
begin

text \<open>
  The retention sweeps of \<open>ledger.py\<close> (\<open>expire_terminal_payloads\<close>,
  \<open>purge_expired_tombstones\<close>) under the integrity invariant: the constraints they could violate
  never fire, they touch neither reserved nor unfinished tasks, and they keep the invariant.
  The last section closes the ledger as a step system and collects its reachable states.
\<close>

section \<open>Expiry of payloads\<close>

text \<open>The rows still to expire stay pending: they are task rows whose payload is live.\<close>

definition pending_expiry :: "task_row list \<Rightarrow> database \<Rightarrow> bool" where
  "pending_expiry rows d \<longleftrightarrow> distinct (map t_id rows) \<and>
     (\<forall>row\<in>set rows. \<not> t_payload_expired row \<and> (\<exists>r\<in>set (tasks d). task_key r = task_key row))"

lemma expire_guards:
  assumes inv: "ledger_inv d" and r0: "r0 \<in> set (tasks d)" "task_key r0 = task_key row"
    and live: "\<not> t_payload_expired row"
  shows "t_id row \<notin> tb_task_id ` set (retention_tombstones d)"
    and "\<not> idempotency_clash (retire_row row) d"
proof -
  have k: "t_id r0 = t_id row" "t_seq r0 = t_seq row" "t_owner_id r0 = t_owner_id row"
    "t_idempotency_key r0 = t_idempotency_key row" "\<not> t_payload_expired r0"
    using r0(2) live by (simp_all add: task_key_def)
  have none: "\<not> touches_identity r0 i" if "i \<in> set (task_idempotency d)" for i
    using that inv r0(1) k(5) by (auto simp: ledger_inv_def retired_ok_def)
  then show "\<not> idempotency_clash (retire_row row) d"
    using k by (auto simp: idempotency_clash_def retire_row_def touches_identity_def)
  have "tb_task_id ` set (retention_tombstones d) \<subseteq> id_task_id ` set (task_idempotency d)"
    using inv by (simp add: ledger_inv_def retired_ok_def)
  moreover have "t_id row \<notin> id_task_id ` set (task_idempotency d)"
    using none k(1) by (metis (mono_tags) image_iff touches_identity_def)
  ultimately show "t_id row \<notin> tb_task_id ` set (retention_tombstones d)" by blast
qed

lemma pending_expiry_step:
  assumes "pending_expiry (row # rows) d"
  shows "pending_expiry rows (expire_one x row d)"
proof -
  have "\<exists>r\<in>set (tasks (expire_one x row d)). task_key r = task_key u" if u: "u \<in> set rows" for u
  proof -
    from assms u obtain r where r: "r \<in> set (tasks d)" "task_key r = task_key u"
      by (auto simp: pending_expiry_def)
    have "t_id u \<noteq> t_id row" using assms u by (auto simp: pending_expiry_def image_iff)
    with r(2) have "t_id r \<noteq> t_id row" by (simp add: task_key_def)
    then have "r \<in> set (tasks (expire_one x row d))"
      using r(1) by (force simp: expire_one_fields set_sql_update)
    with r(2) show ?thesis by blast
  qed
  with assms show ?thesis by (simp add: pending_expiry_def)
qed

lemma expire_rows_ok:
  "ledger_inv d \<Longrightarrow> pending_expiry rows d \<Longrightarrow>
   expire_rows x rows d = Inr (fold (expire_one x) rows d) \<and> ledger_inv (fold (expire_one x) rows d)"
proof (induction rows arbitrary: d)
  case (Cons row rows)
  then obtain r0 where r0: "r0 \<in> set (tasks d)" "task_key r0 = task_key row" "\<not> t_payload_expired row"
    by (auto simp: pending_expiry_def)
  note g = expire_guards [OF Cons.prems(1) r0]
  have inv: "ledger_inv (expire_one x row d)"
    using expire_one_inv [OF Cons.prems(1) r0 g] .
  have "\<not> exists_row (\<lambda>r. tb_task_id r = t_id row) (retention_tombstones d)"
    using g(1) by (simp only: exists_row_key not_False_eq_True)
  then have "expire_rows x (row # rows) d = expire_rows x rows (expire_one x row d)"
    using g(2) by (simp add: expire_one_def Let_def del: exists_row_iff)
  with Cons.IH [OF inv pending_expiry_step [OF Cons.prems(2)]] show ?case by simp
qed simp

lemma expirable_pending:
  assumes "ledger_inv d"
  shows "pending_expiry (filter (expirable before d) (tasks d)) d"
  using assms by (auto simp: pending_expiry_def expirable_def inv_defs distinct_map_filter)

lemma revision_expire_one [simp]: "revision (expire_one x row d) = revision d"
  by (simp add: expire_one_def Let_def delete_children_def)

lemma revision_expire_fold [simp]: "revision (fold (expire_one x) rows d) = revision d"
  by (induction rows arbitrary: d) simp_all

lemma expire_terminal_payloads_ok:
  assumes "ledger_inv d"
  shows "expire_terminal_payloads now before kept d =
     (Inr (length (filter (expirable before d) (tasks d))),
      (fold (expire_one (now + kept)) (filter (expirable before d) (tasks d)) d)
        \<lparr>revision := Suc (revision d)\<rparr>)"
  using expire_rows_ok [OF assms expirable_pending [OF assms]]
  by (simp add: expire_terminal_payloads_def db_write_def Let_def)

lemma expire_terminal_payloads_inv [keep_rules]:
  "keeps inv_rel (expire_terminal_payloads now before kept)"
proof (rule keepsI)
  fix d
  show "inv_rel d (snd (expire_terminal_payloads now before kept d))"
    using expire_rows_ok [OF _ expirable_pending]
    by (simp add: inv_rel_def expire_terminal_payloads_ok)
qed

section \<open>Purge of tombstones\<close>

lemma expired_has_no_children:
  assumes "ledger_inv d" "t \<in> set (tasks d)" "t_payload_expired t" "\<not> reserved (t_id t) d"
  shows "\<not> has_children (t_id t) d"
proof -
  have "t_id t \<notin> owning d" using assms(1-3) by (auto simp: ledger_inv_def retired_ok_def)
  with assms(4) show ?thesis by (auto simp: has_children_def owning_def image_iff)
qed

definition purge_one :: "string \<Rightarrow> database \<Rightarrow> database" where
  "purge_one i d =
     d\<lparr>retention_tombstones := sql_delete (\<lambda>r. tb_task_id r = i) (retention_tombstones d),
       tasks := sql_delete (\<lambda>r. t_id r = i \<and> t_payload_expired r) (tasks d)\<rparr>"

lemma purge_one_fields [simp]:
  "task_reservations (purge_one i d) = task_reservations d"
  "revision (purge_one i d) = revision d" "reserved j (purge_one i d) = reserved j d"
  "task_idempotency (purge_one i d) = task_idempotency d"
  "tasks (purge_one i d) = sql_delete (\<lambda>r. t_id r = i \<and> t_payload_expired r) (tasks d)"
  by (simp_all add: purge_one_def reserved_def)

lemma purge_one_ids:
  assumes inv: "ledger_inv d" and free: "\<not> reserved i d"
    and j: "j \<in> rv_task_id ` set (task_reservations d) \<union> owning d"
  shows "j \<in> t_id ` set (tasks (purge_one i d))"
proof -
  have "j \<in> t_id ` set (tasks d)" using inv j by (auto simp: inv_defs owning_def)
  then obtain t where t: "t \<in> set (tasks d)" "t_id t = j" by blast
  have "\<not> (t_id t = i \<and> t_payload_expired t)"
  proof
    assume c: "t_id t = i \<and> t_payload_expired t"
    then have "t_id t \<notin> owning d" using inv t(1) by (auto simp: ledger_inv_def retired_ok_def)
    with j t(2) c free show False by (auto simp: reserved_def)
  qed
  with t show ?thesis by auto
qed

lemma purge_one_inv:
  assumes inv: "ledger_inv d" and free: "\<not> reserved i d"
  shows "ledger_inv (purge_one i d)"
proof -
  have own: "owning (purge_one i d) = owning d" by (simp add: purge_one_def owning_def)
  have "keys_ok (purge_one i d)"
    using inv by (simp add: inv_defs purge_one_def distinct_sql_delete)
  moreover have "seqs_ok (purge_one i d)" using inv by (simp add: inv_defs purge_one_def)
  moreover have "refs_ok (purge_one i d)"
  proof -
    have "x \<in> rv_task_id ` set (task_reservations d) \<union> owning d \<longrightarrow>
        x \<in> t_id ` set (tasks (purge_one i d))" for x
      using purge_one_ids [OF inv free, of x] by blast
    then have "rv_task_id ` set (task_reservations d) \<union> owning d \<subseteq> t_id ` set (tasks (purge_one i d))"
      by blast
    then show ?thesis
      unfolding refs_ok_def owning_def by (simp add: purge_one_def del: sql_delete_simps(4))
  qed
  moreover have "retired_ok (purge_one i d)"
  proof -
    have "retired_ok d" using inv by (simp add: ledger_inv_def)
    then show ?thesis unfolding retired_ok_def own
      by (auto simp: purge_one_def)
  qed
  moreover have "events_ok (purge_one i d)"
    using inv by (simp add: inv_defs purge_one_def counter_value_def)
  ultimately show ?thesis by (simp add: ledger_inv_def)
qed

lemma purge_rows_ok:
  "ledger_inv d \<Longrightarrow> \<forall>i\<in>set ids. \<not> reserved i d \<Longrightarrow>
   purge_rows ids d = Inr (fold purge_one ids d) \<and> ledger_inv (fold purge_one ids d)"
proof (induction ids arbitrary: d)
  case (Cons i ids)
  have free: "\<not> reserved i d" using Cons.prems(2) by simp
  let ?d = "d\<lparr>retention_tombstones := sql_delete (\<lambda>r. tb_task_id r = i) (retention_tombstones d)\<rparr>"
  have "has_children i ?d = has_children i d" by (simp add: has_children_def reserved_def)
  then have "\<not> (exists_row (\<lambda>r. t_id r = i \<and> t_payload_expired r) (tasks d) \<and> has_children i ?d)"
    using expired_has_no_children [OF Cons.prems(1)] free by auto
  then have "purge_rows (i # ids) d = purge_rows ids (purge_one i d)"
    by (auto simp: Let_def purge_one_def simp del: exists_row_iff)
  with Cons.IH [OF purge_one_inv [OF Cons.prems(1) free]] Cons.prems(2) show ?case by simp
qed simp

definition purgeable :: "timestamp \<Rightarrow> database \<Rightarrow> string list" where
  "purgeable before d =
     map tb_task_id (filter (\<lambda>r. tb_expires_at r < before \<and> \<not> reserved (tb_task_id r) d)
       (retention_tombstones d))"

lemma revision_purge_fold [simp]: "revision (fold purge_one ids d) = revision d"
  by (induction ids arbitrary: d) simp_all

lemma purge_expired_tombstones_ok:
  assumes "ledger_inv d"
  shows "purge_expired_tombstones before d =
     (Inr (length (purgeable before d)),
      (fold purge_one (purgeable before d) d)\<lparr>revision := Suc (revision d)\<rparr>)"
proof -
  have "\<forall>i\<in>set (purgeable before d). \<not> reserved i d" by (auto simp: purgeable_def)
  from purge_rows_ok [OF assms this] show ?thesis
    by (simp add: purge_expired_tombstones_def db_write_def Let_def purgeable_def)
qed

lemma purge_expired_tombstones_inv [keep_rules]: "keeps inv_rel (purge_expired_tombstones before)"
proof (rule keepsI)
  fix d
  have "\<forall>i\<in>set (purgeable before d). \<not> reserved i d" by (auto simp: purgeable_def)
  then show "inv_rel d (snd (purge_expired_tombstones before d))"
    using purge_rows_ok [of d] by (simp add: inv_rel_def purge_expired_tombstones_ok)
qed

end
