(* ===== verification/Ledger_Steps.thy ===== *)
theory Ledger_Steps
  imports Retention
begin

text \<open>
  The ledger as a step system: \<open>ledger_step cap\<close> is one call of any method that writes, with
  the configured reservation capacity \<open>cap\<close>.  The frame relation says what every method other
  than \<open>submit\<close>, \<open>reserve_next\<close> and the retention sweeps leaves alone; with the
  invariant it gives the properties of all histories of the ledger.
\<close>

section \<open>What most methods leave alone\<close>

definition task_ident :: "task_row \<Rightarrow> string \<times> nat \<times> string option \<times> string" where
  "task_ident r = (t_id r, t_seq r, t_owner_id r, t_idempotency_key r)"

definition retired_ident :: "idempotency_row \<Rightarrow> string \<times> nat \<times> string option \<times> string" where
  "retired_ident r = (id_task_id r, id_seq r, id_owner_id r, id_idempotency_key r)"

text \<open>The identities of all tasks ever admitted that the ledger still knows.\<close>

definition identities :: "database \<Rightarrow> (string \<times> nat \<times> string option \<times> string) set" where
  "identities d = task_ident ` set (tasks d) \<union> retired_ident ` set (task_idempotency d)"

definition frame :: "database \<Rightarrow> database \<Rightarrow> bool" where
  "frame d d' \<longleftrightarrow> map task_ident (tasks d') = map task_ident (tasks d) \<and>
     task_idempotency d' = task_idempotency d \<and>
     length (task_reservations d') \<le> length (task_reservations d)"

interpretation framed: transactional_relation frame
  by unfold_locales (auto simp: frame_def)

lemma task_ident_update [simp]:
  "task_ident (r\<lparr>t_state := a\<rparr>) = task_ident r" "task_ident (r\<lparr>t_updated_at := b\<rparr>) = task_ident r"
  "task_ident (r\<lparr>t_outcome_detail := c\<rparr>) = task_ident r"
  "task_ident (r\<lparr>t_check_status := c\<rparr>) = task_ident r"
  "task_ident (r\<lparr>t_sandbox_cleanup_status := c\<rparr>) = task_ident r"
  "task_ident (r\<lparr>t_base_sha := c\<rparr>) = task_ident r"
  "task_ident (r\<lparr>t_workspace_expired := e\<rparr>) = task_ident r"
  "task_ident (r\<lparr>t_workspace_last_activity_at := w\<rparr>) = task_ident r"
  by (simp_all add: task_ident_def)

lemma frameI:
  assumes "\<exists>P f. tasks d' = sql_update P f (tasks d) \<and> (\<forall>r. task_ident (f r) = task_ident r)"
    "task_idempotency d' = task_idempotency d"
    "length (task_reservations d') \<le> length (task_reservations d)"
  shows "frame d d'"
  using assms by (auto simp: frame_def sql_simps)

lemma frame_same:
  "tasks d' = tasks d \<Longrightarrow> task_idempotency d' = task_idempotency d \<Longrightarrow>
   task_reservations d' = task_reservations d \<Longrightarrow> frame d d'"
  by (simp add: frame_def)

named_theorems frame_rules \<open>the methods that keep the frame\<close>

lemmas frame_simps = frame_def Let_def sql_simps length_sql_delete

lemma record_base_sha_frame [frame_rules]: "keeps frame (record_base_sha now i sha)"
  unfolding record_base_sha_def
  by (rule framed.keeps_db_write) (auto simp: frame_simps split: if_splits option.splits)

lemma settle_successful_tasks_frame [frame_rules]: "keeps frame (settle_successful_tasks now)"
  unfolding settle_successful_tasks_def
  by (rule framed.keeps_db_write) (auto simp: frame_simps)

lemma cancel_queued_task_frame [frame_rules]: "keeps frame (cancel_queued_task now i)"
  unfolding cancel_queued_task_def
  by (rule framed.keeps_db_write) (auto simp: frame_simps split: if_splits option.splits)

lemma finish_task_frame [frame_rules]: "keeps frame (finish_task now i st od cs)"
  unfolding finish_task_def
  by (rule framed.keeps_andThen, rule framed.keeps_db_write)
    (auto simp: frame_simps framed.keeps_rules split: option.splits)

lemma queue_workspace_message_frame [frame_rules]: "keeps frame (queue_workspace_message now i)"
  unfolding queue_workspace_message_def by (rule framed.keeps_db_write) (auto simp: frame_simps)

lemma touch_workspace_frame [frame_rules]: "keeps frame (touch_workspace now later i)"
  unfolding touch_workspace_def by (rule framed.keeps_db_write) (auto simp: frame_simps)

lemma try_mark_sleeping_frame [frame_rules]: "keeps frame (try_mark_sleeping now i)"
  unfolding try_mark_sleeping_def
  by (rule framed.keeps_db_write) (auto simp: frame_simps split: if_splits)

lemma expire_workspace_frame [frame_rules]: "keeps frame (expire_workspace i)"
  unfolding expire_workspace_def by (rule framed.keeps_db_write) (auto simp: frame_simps)

lemma update_reservation_frame [frame_rules]: "keeps frame (update_reservation now i ph c st)"
  unfolding update_reservation_def
  by (rule framed.keeps_db_write) (auto simp: frame_simps split: if_splits option.splits)

lemma release_reservation_frame [frame_rules]: "keeps frame (release_reservation now i c)"
  unfolding release_reservation_def by (rule framed.keeps_db_write) (auto simp: frame_simps)

lemma mark_sandbox_lost_frame [frame_rules]: "keeps frame (mark_sandbox_lost now i det)"
  unfolding mark_sandbox_lost_def
  by (rule framed.keeps_db_write) (auto simp: frame_simps split: option.splits)

lemma begin_sandbox_creation_frame [frame_rules]:
  "keeps frame (begin_sandbox_creation now i dep n tg k v)"
  unfolding begin_sandbox_creation_def insert_creation_def
  by (rule framed.keeps_db_write, rule frame_same)
    (auto simp del: exists_row_iff split: if_splits option.splits)

lemma set_sandbox_credential_version_frame [frame_rules]:
  "keeps frame (set_sandbox_credential_version i v)"
  unfolding set_sandbox_credential_version_def
  by (rule framed.keeps_andThen, rule framed.keeps_db_write)
    (auto simp: frame_simps framed.keeps_rules split: if_splits option.splits)

lemma update_sandbox_creation_frame [frame_rules]:
  "keeps frame (update_sandbox_creation now i pid st det)"
  unfolding update_sandbox_creation_def
  by (rule framed.keeps_andThen, rule framed.keeps_db_write_skip)
    (auto simp: frame_simps framed.keeps_rules split: option.splits)

lemma reset_sandbox_for_wake_frame [frame_rules]: "keeps frame (reset_sandbox_for_wake now i)"
  unfolding reset_sandbox_for_wake_def by (rule framed.keeps_db_write) (auto simp: frame_simps)

lemma begin_publication_frame [frame_rules]:
  "keeps frame (begin_publication now i repo tb br tm cs co ao st det)"
  unfolding begin_publication_def
  by (rule framed.keeps_db_write, rule frame_same)
    (auto simp: Let_def split: if_splits option.splits)

lemma update_publication_frame [frame_rules]:
  "keeps frame (update_publication now i st cs pn pu pd pa ps det chk od co ao)"
  unfolding update_publication_def
  by (rule framed.keeps_db_write)
    (auto simp: frame_simps split: if_splits option.splits)

lemma begin_supervision_frame [frame_rules]: "keeps frame (begin_supervision now i e tb k c)"
  unfolding begin_supervision_def
  by (rule framed.keeps_db_write, rule frame_same)
    (auto simp: Let_def split: if_splits option.splits)

lemma update_supervision_frame [frame_rules]: "keeps frame (update_supervision now i e k c cr tg)"
  unfolding update_supervision_def
  by (rule framed.keeps_db_write, rule frame_same)
    (auto simp: Let_def simp del: exists_row_iff split: if_splits option.splits)

lemma request_task_cancel_frame [frame_rules]: "keeps frame (request_task_cancel now i)"
  unfolding request_task_cancel_def
  by (intro framed.keeps_andThen framed.keeps_reading)
    (auto intro!: framed.keeps_rules update_supervision_frame split: option.splits)

lemma save_task_message_receipt_frame [frame_rules]: "keeps frame (save_task_message_receipt i r)"
  unfolding save_task_message_receipt_def
  by (rule framed.keeps_db_write, rule frame_same)
    (auto simp: Let_def simp del: exists_row_iff split: if_splits option.splits)

lemma archive_task_result_frame [frame_rules]: "keeps frame (archive_task_result now i e m c det)"
  unfolding archive_task_result_def
  by (rule framed.keeps_db_write, rule frame_same)
    (auto simp: Let_def simp del: exists_row_iff split: if_splits option.splits)

lemma insert_task_event_frame:
  "insert_task_event now i src sq ev d = Inr (x, d') \<Longrightarrow> frame d d'"
  unfolding insert_task_event_def
  by (rule frame_same)
    (auto simp: Let_def bump_event_counter_def simp del: exists_row_iff split: if_splits option.splits)

lemma copy_task_event_frame [frame_rules]: "keeps frame (copy_task_event now i src sq ev ej)"
  unfolding copy_task_event_def by (rule framed.keeps_db_write) (rule insert_task_event_frame)

lemma copy_events_step:
  assumes "copy_events eb fresh now i src m n (ev # evs) d = Inr (x, d')"
  obtains y d1 n' x' where "insert_task_event now i src (e_seq ev) y d = Inr (x', d1)"
    "\<exists>z. copy_events eb fresh now i src m n' evs d1 = Inr (z, d')"
proof -
  let ?pl = "case m of None \<Rightarrow> ev
    | Some k \<Rightarrow> fst (truncate_event_json eb (fresh (e_seq ev)) now ev k n)"
  show ?thesis
  proof (cases "insert_task_event now i src (e_seq ev) ?pl d")
    case (Inl e)
    then show ?thesis using assms by (simp add: Let_def)
  next
    case (Inr p)
    then obtain c d1 where p: "insert_task_event now i src (e_seq ev) ?pl d = Inr (c, d1)"
      by (cases p) simp
    show ?thesis using assms p that [of ?pl c d1 n] that [of ?pl c d1 "n + eb ?pl"]
      by (cases c) (simp_all add: Let_def split: sum.splits prod.splits)
  qed
qed

lemma copy_events_frame:
  "copy_events eb fresh now i src m n evs d = Inr (x, d') \<Longrightarrow> frame d d'"
proof (induction evs arbitrary: n d x)
  case (Cons ev evs)
  from Cons.prems obtain y d1 n' x' z where
    "insert_task_event now i src (e_seq ev) y d = Inr (x', d1)"
    "copy_events eb fresh now i src m n' evs d1 = Inr (z, d')"
    by (rule copy_events_step) blast
  from insert_task_event_frame [OF this(1)] Cons.IH [OF this(2)] show ?case
    by (rule framed.kept_trans)
qed (simp add: framed.kept_refl)

lemma copy_task_event_page_frame [frame_rules]:
  "keeps frame (copy_task_event_page eb fresh now i src evs m)"
proof -
  have "frame d (upsert_source_cursor i src n d')" if "frame d d'" for d d' n
    using that by (simp add: frame_def upsert_source_cursor_def Let_def)
  then show ?thesis
    unfolding copy_task_event_page_def
    by (intro framed.keeps_if framed.keeps_ret framed.keeps_raise framed.keeps_db_write)
      (auto split: option.splits sum.splits dest!: copy_events_frame)
qed

section \<open>The step relation\<close>

text \<open>
  \<open>submit\<close> draws its identifier from \<open>uuid4\<close>; the model takes it to differ from the
  identifiers of retired tasks (a clash with a live task is an integrity error of the insert).
\<close>

inductive ledger_step :: "int \<Rightarrow> database \<Rightarrow> database \<Rightarrow> bool" for cap :: int where
  submit: "i \<notin> id_task_id ` set (task_idempotency d) \<Longrightarrow>
     ledger_step cap d (snd (Ledger.submit i now key repository p br ro mo u d))"
| reserve_next: "ledger_step cap d (snd (Ledger.reserve_next now cap d))"
| expire_terminal_payloads:
    "ledger_step cap d (snd (Ledger.expire_terminal_payloads now before kept d))"
| purge_expired_tombstones: "ledger_step cap d (snd (Ledger.purge_expired_tombstones before d))"
| record_base_sha: "ledger_step cap d (snd (Ledger.record_base_sha now i sha d))"
| settle_successful_tasks: "ledger_step cap d (snd (Ledger.settle_successful_tasks now d))"
| cancel_queued_task: "ledger_step cap d (snd (Ledger.cancel_queued_task now i d))"
| finish_task: "ledger_step cap d (snd (Ledger.finish_task now i st od cs d))"
| queue_workspace_message: "ledger_step cap d (snd (Ledger.queue_workspace_message now i d))"
| touch_workspace: "ledger_step cap d (snd (Ledger.touch_workspace now later i d))"
| try_mark_sleeping: "ledger_step cap d (snd (Ledger.try_mark_sleeping now i d))"
| expire_workspace: "ledger_step cap d (snd (Ledger.expire_workspace i d))"
| update_reservation: "ledger_step cap d (snd (Ledger.update_reservation now i ph c sto d))"
| release_reservation: "ledger_step cap d (snd (Ledger.release_reservation now i cl d))"
| mark_sandbox_lost: "ledger_step cap d (snd (Ledger.mark_sandbox_lost now i det d))"
| begin_sandbox_creation: "ledger_step cap d (snd (Ledger.begin_sandbox_creation now i dep n tg k v d))"
| set_sandbox_credential_version: "ledger_step cap d (snd (Ledger.set_sandbox_credential_version i v d))"
| update_sandbox_creation: "ledger_step cap d (snd (Ledger.update_sandbox_creation now i pid pst det d))"
| reset_sandbox_for_wake: "ledger_step cap d (snd (Ledger.reset_sandbox_for_wake now i d))"
| begin_publication: "ledger_step cap d (snd (Ledger.begin_publication now i repo tb br tm csh co ao pub det d))"
| update_publication: "ledger_step cap d (snd (Ledger.update_publication now i pub csh pn pu pd pa ps det chk od coo aoo d))"
| begin_supervision: "ledger_step cap d (snd (Ledger.begin_supervision now i e tb k cv d))"
| update_supervision: "ledger_step cap d (snd (Ledger.update_supervision now i eo ko cv cr tg d))"
| request_task_cancel: "ledger_step cap d (snd (Ledger.request_task_cancel now i d))"
| save_task_message_receipt: "ledger_step cap d (snd (Ledger.save_task_message_receipt i r d))"
| archive_task_result: "ledger_step cap d (snd (Ledger.archive_task_result now i eo m c det d))"
| copy_task_event: "ledger_step cap d (snd (Ledger.copy_task_event now i src sq ev ej d))"
| copy_task_event_page: "ledger_step cap d (snd (Ledger.copy_task_event_page eb fresh now i src evs mx d))"

inductive_cases ledger_stepE: "ledger_step cap d d'"

lemma ledger_step_inv:
  assumes inv: "ledger_inv d" and step: "ledger_step cap d d'"
  shows "ledger_inv d'"
proof -
  have k: "keeps inv_rel m \<Longrightarrow> ledger_inv (snd (m d))" for m :: "'x ledger_op"
    using inv keepsD [of inv_rel m d] by (simp add: inv_rel_def)
  from step show ?thesis
    by cases (auto intro!: k keep_rules submit_inv [OF inv])
qed

interpretation ledger: invariant_system "\<lambda>d. d = empty_database" "ledger_step cap" ledger_inv
  by unfold_locales (auto intro: ledger_inv_empty ledger_step_inv)

section \<open>Identities and capacity along histories\<close>

lemma ledger_step_kinds:
  assumes "ledger_step cap d d'"
  shows "frame d d' \<or>
     (\<exists>i now key repository p br ro mo u. i \<notin> id_task_id ` set (task_idempotency d) \<and>
        d' = snd (Ledger.submit i now key repository p br ro mo u d)) \<or>
     (\<exists>now. d' = snd (Ledger.reserve_next now cap d)) \<or>
     (\<exists>now before kept. d' = snd (Ledger.expire_terminal_payloads now before kept d)) \<or>
     (\<exists>before. d' = snd (Ledger.purge_expired_tombstones before d))"
proof -
  have k: "keeps frame m \<Longrightarrow> frame d (snd (m d))" for m :: "'x ledger_op"
    by (rule keepsD)
  from assms show ?thesis
  proof cases
    case submit
    then show ?thesis by blast
  qed (auto intro: k frame_rules)
qed

lemma identities_frame: "frame d d' \<Longrightarrow> identities d' = identities d"
  unfolding frame_def identities_def by (metis image_set)

lemma identities_revision [simp]: "identities (d\<lparr>revision := n\<rparr>) = identities d"
  by (simp add: identities_def)

lemma task_ident_expired [simp]: "task_ident (expired_row r) = task_ident r"
  by (simp add: task_ident_def)

lemma identities_expire_one: "identities d \<subseteq> identities (expire_one x row d)"
  by (auto simp: identities_def expire_one_fields sql_simps)

lemma identities_expire_fold: "identities d \<subseteq> identities (fold (expire_one x) rows d)"
proof (induction rows arbitrary: d)
  case (Cons row rows)
  from identities_expire_one [of d x row] Cons.IH [of "expire_one x row d"] show ?case by auto
qed simp

lemma identities_purge_one:
  assumes "ledger_inv d" shows "identities d \<subseteq> identities (purge_one i d)"
proof
  fix y assume y: "y \<in> identities d"
  show "y \<in> identities (purge_one i d)"
  proof (cases "y \<in> retired_ident ` set (task_idempotency d)")
    case True
    then show ?thesis by (simp add: identities_def)
  next
    case False
    with y obtain t where t: "t \<in> set (tasks d)" "y = task_ident t" by (auto simp: identities_def)
    have "\<not> t_payload_expired t"
    proof
      assume e: "t_payload_expired t"
      with assms t(1) obtain r where r: "r \<in> set (task_idempotency d)" "id_task_id r = t_id t"
        by (auto simp: ledger_inv_def retired_ok_def image_iff)
      with assms t(1) have "same_identity t r"
        by (auto simp: ledger_inv_def retired_ok_def touches_identity_def)
      then have "retired_ident r = y" using t(2)
        by (simp add: same_identity_def retired_ident_def task_ident_def)
      with False r(1) show False by blast
    qed
    with t show ?thesis by (auto simp: identities_def)
  qed
qed

lemma identities_purge_fold:
  "ledger_inv d \<Longrightarrow> \<forall>i\<in>set ids. \<not> reserved i d \<Longrightarrow> identities d \<subseteq> identities (fold purge_one ids d)"
proof (induction ids arbitrary: d)
  case (Cons i ids)
  then have "ledger_inv (purge_one i d)" by (simp add: purge_one_inv)
  from Cons.IH [OF this] identities_purge_one [OF Cons.prems(1), of i] Cons.prems(2)
  show ?case by auto
qed simp

lemma insert_task_Inr:
  "insert_task r d = Inr d' \<Longrightarrow> d' = d\<lparr>tasks := tasks d @ [r]\<rparr>"
  by (auto simp: insert_task_def split: if_splits)

lemma submit_cases:
  obtains (replayed) rec where "fst (submit i now key repository p br ro mo u d) = Inr (rec, False)"
      "snd (submit i now key repository p br ro mo u d) = d\<lparr>revision := Suc (revision d)\<rparr>"
      "(tr_id rec, tr_seq rec, u, key) \<in> identities d"
  | (admitted) "fst (submit i now key repository p br ro mo u d) =
        Inr (new_task_record i now (Suc (task_seq d)) key u repository p br ro mo, True)"
      "snd (submit i now key repository p br ro mo u d) =
        d\<lparr>task_seq := Suc (task_seq d),
          tasks := tasks d @ [new_task_row i now (Suc (task_seq d)) key u repository p br ro mo],
          revision := Suc (revision d)\<rparr>"
  | (refused) e where "fst (submit i now key repository p br ro mo u d) = Inl e"
      "snd (submit i now key repository p br ro mo u d) = d"
proof (cases "fetchone (\<lambda>r. t_idempotency_key r = key \<and> t_owner_id r = u) (tasks d)")
  case (Some row)
  then have "(t_id row, t_seq row, u, key) \<in> identities d"
    by (auto simp: identities_def task_ident_def dest!: fetchone_SomeD)
  with Some show ?thesis by (intro replayed [of "row_to_record row None"])
      (simp_all add: submit_def db_write_def row_to_record_def)
next
  case None
  note live = None
  show ?thesis
  proof (cases "fetchone (\<lambda>r. id_idempotency_key r = key \<and> id_owner_id r = u) (task_idempotency d)")
    case (Some row)
    then have "(id_task_id row, id_seq row, u, key) \<in> identities d"
      by (auto simp: identities_def retired_ident_def dest!: fetchone_SomeD)
    with Some live show ?thesis by (intro replayed [of "record_from_tombstone row"])
        (simp_all add: submit_def db_write_def record_from_tombstone_def)
  next
    case None
    show ?thesis
    proof (cases "insert_task (new_task_row i now (Suc (task_seq d)) key u repository p br ro mo)
        (d\<lparr>task_seq := Suc (task_seq d)\<rparr>)")
      case (Inl e)
      with live None show ?thesis by (intro refused [of e]) (simp_all add: submit_def db_write_def)
    next
      case (Inr d')
      from insert_task_Inr [OF this] Inr live None show ?thesis
        by (intro admitted) (simp_all add: submit_def db_write_def)
    qed
  qed
qed

lemma identities_submit: "identities d \<subseteq> identities (snd (submit i now key repository p br ro mo u d))"
  by (rule submit_cases [of i now key repository p br ro mo u d]) (auto simp: identities_def)

lemma submit_identity:
  assumes "fst (submit i now key repository p br ro mo u d) = Inr (rec, new)"
  shows "(tr_id rec, tr_seq rec, u, key) \<in> identities (snd (submit i now key repository p br ro mo u d))"
  by (rule submit_cases [of i now key repository p br ro mo u d])
    (use assms in \<open>auto simp: identities_def task_ident_def new_task_row_def new_task_record_def\<close>)

lemma submit_known:
  assumes inv: "ledger_inv d" and y: "(j, n, u, key) \<in> identities d"
  shows "\<exists>rec. submit i now key repository p br ro mo u d = (Inr (rec, False), d\<lparr>revision := Suc (revision d)\<rparr>) \<and>
     tr_id rec = j \<and> tr_seq rec = n"
proof (cases "fetchone (\<lambda>r. t_idempotency_key r = key \<and> t_owner_id r = u) (tasks d)")
  case (Some row)
  then have row: "row \<in> set (tasks d)" "t_idempotency_key row = key" "t_owner_id row = u"
    by (auto dest!: fetchone_SomeD)
  have "t_id row = j \<and> t_seq row = n"
  proof (cases "(j, n, u, key) \<in> task_ident ` set (tasks d)")
    case True
    then obtain t where t: "t \<in> set (tasks d)" "task_ident t = (j, n, u, key)" by auto
    then have "t = row" using task_identity_unique [OF inv t(1) row(1)] row by (simp add: task_ident_def)
    with t(2) show ?thesis by (simp add: task_ident_def)
  next
    case False
    with y obtain r where r: "r \<in> set (task_idempotency d)" "retired_ident r = (j, n, u, key)"
      by (auto simp: identities_def)
    then have "same_identity row r" using inv row
      by (auto simp: ledger_inv_def retired_ok_def touches_identity_def retired_ident_def)
    with r(2) show ?thesis by (simp add: same_identity_def retired_ident_def)
  qed
  with Some show ?thesis by (simp add: submit_def db_write_def row_to_record_def)
next
  case None
  then have "(j, n, u, key) \<notin> task_ident ` set (tasks d)"
    by (auto simp: fetchone_None task_ident_def)
  with y obtain r where r: "r \<in> set (task_idempotency d)" "retired_ident r = (j, n, u, key)"
    by (auto simp: identities_def)
  have dist: "distinct (map (\<lambda>r. (id_owner_id r, id_idempotency_key r)) (task_idempotency d))"
    using inv by (simp add: inv_defs)
  obtain r' where r': "fetchone (\<lambda>r. id_idempotency_key r = key \<and> id_owner_id r = u)
      (task_idempotency d) = Some r'"
    using r fetchone_Some_ex [OF r(1)] by (fastforce simp: retired_ident_def)
  then have "r' = r" using distinct_key_unique [OF dist, of r' r] r
    by (auto simp: retired_ident_def dest!: fetchone_SomeD)
  with None r' r(2) show ?thesis
    by (simp add: submit_def db_write_def record_from_tombstone_def retired_ident_def)
qed

lemma reserve_next_frame_identities: "identities (snd (reserve_next now cap d)) = identities d"
proof -
  have "map task_ident (tasks (snd (reserve_next now cap d))) = map task_ident (tasks d) \<and>
      task_idempotency (snd (reserve_next now cap d)) = task_idempotency d"
    by (auto simp: reserve_next_def claim_task_def db_write_def raise_def Let_def sql_simps
        split: list.splits option.splits)
  then show ?thesis unfolding identities_def by (metis image_set)
qed

lemma ledger_step_identities:
  assumes "ledger_inv d" "ledger_step cap d d'"
  shows "identities d \<subseteq> identities d'"
  using ledger_step_kinds [OF assms(2)]
proof (elim disjE exE conjE)
  assume "frame d d'" then show ?thesis by (simp add: identities_frame)
next
  fix before assume "d' = snd (purge_expired_tombstones before d)"
  then show ?thesis using assms(1)
    by (auto simp: purge_expired_tombstones_ok purgeable_def
        dest!: identities_purge_fold [OF assms(1), THEN subsetD, rotated])
qed (use assms(1) in \<open>auto simp: identities_submit [THEN subsetD] reserve_next_frame_identities
       expire_terminal_payloads_ok identities_expire_fold [THEN subsetD]\<close>)

text \<open>Every history keeps the identities the ledger has seen.\<close>

definition remembers :: "(string \<times> nat \<times> string option \<times> string) set \<Rightarrow> database \<Rightarrow> bool" where
  "remembers ids d \<longleftrightarrow> ledger_inv d \<and> ids \<subseteq> identities d"

interpretation memory: invariant_system "remembers ids" "ledger_step cap" "remembers ids"
proof (unfold_locales, assumption)
  fix d d' assume a: "remembers ids d" "ledger_step cap d d'"
  then have "ledger_inv d" "ids \<subseteq> identities d" by (simp_all add: remembers_def)
  with ledger_step_inv [OF this(1) a(2)] ledger_step_identities [OF this(1) a(2)]
  show "remembers ids d'" by (auto simp: remembers_def)
qed

definition slots_ok :: "int \<Rightarrow> database \<Rightarrow> bool" where
  "slots_ok cap d \<longleftrightarrow> int (length (task_reservations d)) \<le> max 0 (min cap 10)"

lemma slots_submit [simp]:
  "task_reservations (snd (submit i now key repository p br ro mo u d)) = task_reservations d"
  by (rule submit_cases [of i now key repository p br ro mo u d]) auto

lemma slots_reserve_next: "slots_ok cap d \<Longrightarrow> slots_ok cap (snd (reserve_next now cap d))"
  by (auto simp: slots_ok_def reserve_next_def claim_task_def db_write_def raise_def Let_def
      split: list.splits option.splits)

lemma slots_expire_fold [simp]:
  "task_reservations (fold (expire_one x) rows d) = task_reservations d"
  by (induction rows arbitrary: d) (simp_all add: expire_one_fields)

lemma slots_purge_fold [simp]: "task_reservations (fold purge_one ids d) = task_reservations d"
  by (induction ids arbitrary: d) simp_all

interpretation slots: invariant_system "\<lambda>d. d = empty_database" "ledger_step cap"
  "\<lambda>d. ledger_inv d \<and> slots_ok cap d"
proof (unfold_locales, goal_cases)
  case (1 s)
  then show ?case by (simp add: ledger_inv_empty) (simp add: slots_ok_def empty_database_def)
next
  case (2 d d')
  then have inv: "ledger_inv d" "ledger_step cap d d'" "slots_ok cap d" by simp_all
  have "slots_ok cap d'"
    using ledger_step_kinds [OF inv(2)]
    by (elim disjE exE conjE)
      (use inv in \<open>auto simp: slots_reserve_next expire_terminal_payloads_ok purge_expired_tombstones_ok,
         auto simp: slots_ok_def frame_def\<close>)
  with ledger_step_inv [OF inv(1,2)] show ?case by simp
qed

end
