(* ===== verification/Ledger_Props.thy ===== *)
theory Ledger_Props
  imports Ledger_Steps
begin

text \<open>
  The ledger's properties: integrity and capacity of every reachable ledger, permanence of
  idempotency keys, first-in-first-out reservation, terminal states under late reservation
  updates, safety of the retention sweeps, exactly-once copying of source events, receipts,
  identities of external effects, and settlement of lost sandboxes.
\<close>

section \<open>Sample states\<close>

definition sample_submitted :: database where
  "sample_submitted = snd (submit ''t1'' 5 ''k1'' (Some ''o/r'') ''p'' None None DEFAULT_PI_MODEL None
     empty_database)"

definition sample_reserved :: database where
  "sample_reserved = snd (reserve_next 6 1 sample_submitted)"

definition sample_finished :: database where
  "sample_finished = snd (release_reservation 8 ''t1'' ''confirmed_absent''
     (snd (finish_task 7 ''t1'' TS_COMPLETED (Some ''published'') None sample_reserved)))"

lemma sample_submitted_reachable: "(ledger_step cap)\<^sup>*\<^sup>* empty_database sample_submitted"
  unfolding sample_submitted_def
  by (rule r_into_rtranclp, rule ledger_step.submit) (simp add: empty_database_def)

lemma sample_reserved_reachable: "(ledger_step 1)\<^sup>*\<^sup>* empty_database sample_reserved"
  unfolding sample_reserved_def
  using sample_submitted_reachable ledger_step.reserve_next by (rule rtranclp.rtrancl_into_rtrancl)

lemma sample_history: "(ledger_step 1)\<^sup>*\<^sup>* sample_submitted sample_finished"
proof -
  have "ledger_step 1 sample_submitted sample_reserved"
    unfolding sample_reserved_def by (rule ledger_step.reserve_next)
  moreover have "ledger_step 1 sample_reserved
      (snd (finish_task 7 ''t1'' TS_COMPLETED (Some ''published'') None sample_reserved))"
    by (rule ledger_step.finish_task)
  moreover have "ledger_step 1
      (snd (finish_task 7 ''t1'' TS_COMPLETED (Some ''published'') None sample_reserved)) sample_finished"
    unfolding sample_finished_def by (rule ledger_step.release_reservation)
  ultimately show ?thesis by (meson r_into_rtranclp rtranclp_trans)
qed

lemma sample_finished_reachable: "(ledger_step 1)\<^sup>*\<^sup>* empty_database sample_finished"
  using sample_submitted_reachable sample_history by (rule rtranclp_trans)

lemma sample_submitted_eq:
  "sample_submitted = empty_database\<lparr>revision := 1, task_seq := 1,
     tasks := [new_task_row ''t1'' 5 1 ''k1'' None (Some ''o/r'') ''p'' None None DEFAULT_PI_MODEL]\<rparr>"
  by (simp add: sample_submitted_def submit_def db_write_def insert_task_def empty_database_def)

lemma sample_reserved_eq:
  "sample_reserved = empty_database\<lparr>revision := 2, task_seq := 1,
     tasks := [(new_task_row ''t1'' 5 1 ''k1'' None (Some ''o/r'') ''p'' None None DEFAULT_PI_MODEL)
        \<lparr>t_state := TS_STARTING, t_updated_at := 6\<rparr>],
     task_reservations := [\<lparr>rv_task_id = ''t1'', rv_phase = RP_STARTING, rv_condition = None,
       rv_reserved_at = 6, rv_updated_at = 6\<rparr>]\<rparr>"
  by (simp add: sample_reserved_def sample_submitted_eq reserve_next_def db_write_def claim_task_def
      queue_order_def empty_database_def new_task_row_def order_by_def)

lemma sample_finished_eq:
  "sample_finished = empty_database\<lparr>revision := 4, task_seq := 1,
     tasks := [(new_task_row ''t1'' 5 1 ''k1'' None (Some ''o/r'') ''p'' None None DEFAULT_PI_MODEL)
        \<lparr>t_state := TS_COMPLETED, t_updated_at := 8, t_outcome_detail := Some ''published'',
         t_sandbox_cleanup_status := Some ''confirmed_absent'',
         t_workspace_last_activity_at := Some 7\<rparr>]\<rparr>"
  by (simp add: sample_finished_def sample_reserved_eq finish_task_def release_reservation_def
      db_write_def empty_database_def new_task_row_def andThen_def ret_def)

lemma sample_inv: "ledger_inv sample_submitted" "ledger_inv sample_reserved" "ledger_inv sample_finished"
  using sample_submitted_reachable sample_reserved_reachable sample_finished_reachable
  by (auto intro: ledger.inv_reachable [OF refl])

section \<open>Histories\<close>

text \<open>
  C1: in every ledger reached from the empty database by any sequence of its methods, the keys
  the schema declares unique are unique, foreign keys resolve, expired payloads, tombstones and
  retired keys agree, event cursors and identities agree, and no more tasks hold a reservation
  than the capacity allows (never more than ten).
\<close>

theorem reachable_ledger_ok:
  assumes "(ledger_step cap)\<^sup>*\<^sup>* empty_database d"
  shows "ledger_inv d \<and> int (length (task_reservations d)) \<le> max 0 (min cap 10)"
  using slots.inv_reachable [OF refl assms] by (simp add: slots_ok_def)

theorem reachable_ledger_ok_witness:
  "ledger_inv sample_reserved \<and> int (length (task_reservations sample_reserved)) \<le> max 0 (min 1 10)"
  by (rule reachable_ledger_ok) (rule sample_reserved_reachable)

text \<open>
  C2: an idempotency key is never forgotten.  Whatever the ledger does after a successful
  submission, retention included, submitting the key again for the same owner returns the
  same task identifier and sequence number, is reported as not created, and changes
  nothing but the revision.
\<close>

theorem submit_key_permanent:
  assumes "(ledger_step cap)\<^sup>*\<^sup>* empty_database d0"
    and "i \<notin> id_task_id ` set (task_idempotency d0)"
    and "submit i now key repo p br ro mo u d0 = (Inr (rec, new), d1)"
    and "(ledger_step cap)\<^sup>*\<^sup>* d1 d2"
  shows "\<exists>rec'. submit i' now' key repo' p' br' ro' mo' u d2 =
       (Inr (rec', False), d2\<lparr>revision := Suc (revision d2)\<rparr>) \<and>
     tr_id rec' = tr_id rec \<and> tr_seq rec' = tr_seq rec"
proof -
  have "ledger_inv d0" by (rule ledger.inv_reachable [OF refl assms(1)])
  from submit_inv [OF this assms(2)] have "ledger_inv d1" using assms(3) by (metis snd_conv)
  moreover have "(tr_id rec, tr_seq rec, u, key) \<in> identities d1"
    using submit_identity [of i now key repo p br ro mo u d0 rec new] assms(3) by simp
  ultimately have "remembers {(tr_id rec, tr_seq rec, u, key)} d1" by (simp add: remembers_def)
  from memory.inv_steps [OF assms(4) this] show ?thesis
    using submit_known [of d2] by (simp add: remembers_def)
qed

theorem submit_key_permanent_witness:
  "\<exists>rec'. submit ''t9'' 99 ''k1'' None ''other'' None None DEFAULT_PI_MODEL None sample_finished =
     (Inr (rec', False), sample_finished\<lparr>revision := Suc (revision sample_finished)\<rparr>) \<and>
     tr_id rec' = ''t1'' \<and> tr_seq rec' = 1"
proof -
  let ?rec = "new_task_record ''t1'' 5 1 ''k1'' None (Some ''o/r'') ''p'' None None DEFAULT_PI_MODEL"
  have sub: "submit ''t1'' 5 ''k1'' (Some ''o/r'') ''p'' None None DEFAULT_PI_MODEL None empty_database
      = (Inr (?rec, True), sample_submitted)"
    by (simp add: sample_submitted_def submit_def db_write_def insert_task_def empty_database_def)
  from submit_key_permanent [OF rtranclp.rtrancl_refl _ sub sample_history] show ?thesis
    by (simp add: empty_database_def new_task_record_def)
qed

section \<open>Reservation\<close>

text \<open>
  C3: \<open>reserve_next\<close> hands out the oldest queued task without a reservation, only below
  capacity, moves it to \<open>starting\<close> and adds exactly its reservation; it returns nothing
  exactly when the capacity is used up or no such task exists.
\<close>

theorem reserve_next_spec:
  assumes inv: "ledger_inv d" and cap: "1 \<le> cap" "cap \<le> 10"
  shows "case reserve_next now cap d of
     (Inl e, d') \<Rightarrow> False
   | (Inr None, d') \<Rightarrow> d' = d\<lparr>revision := Suc (revision d)\<rparr> \<and>
       (cap \<le> int (length (task_reservations d)) \<or>
        (\<forall>t\<in>set (tasks d). t_state t = TS_QUEUED \<longrightarrow> reserved (t_id t) d))
   | (Inr (Some rec), d') \<Rightarrow> int (length (task_reservations d)) < cap \<and>
       (\<exists>t\<in>set (tasks d). t_id t = tr_id rec \<and> t_state t = TS_QUEUED \<and> \<not> reserved (t_id t) d \<and>
          (\<forall>t'\<in>set (tasks d). t_state t' = TS_QUEUED \<and> \<not> reserved (t_id t') d \<longrightarrow> t_seq t \<le> t_seq t')) \<and>
       tr_state rec = TS_STARTING \<and>
       map rv_task_id (task_reservations d') = map rv_task_id (task_reservations d) @ [tr_id rec]"
proof (cases "int (length (task_reservations d)) < cap")
  case False
  then show ?thesis using cap by (simp add: reserve_next_def db_write_def)
next
  case True
  show ?thesis
  proof (cases "queue_order d")
    case Nil
    then have "filter (\<lambda>r. t_state r = TS_QUEUED \<and> \<not> reserved (t_id r) d) (tasks d) = []"
      by (simp add: queue_order_def reserved_def)
    then show ?thesis using Nil True cap
      by (auto simp: reserve_next_def db_write_def filter_empty_conv)
  next
    case (Cons row rest)
    note hd = queue_order_hd [OF Cons]
    have least: "t_seq row \<le> t_seq t'" if "t' \<in> set (tasks d)" "t_state t' = TS_QUEUED"
      "\<not> reserved (t_id t') d" for t'
      using order_by_hd_le [OF Cons [unfolded queue_order_def], of t'] that by (auto simp: reserved_def)
    have free: "\<not> reserved (t_id row) d" using hd by (auto simp: reserved_def image_iff)
    have "fetchone (\<lambda>r. t_id r = t_id row) (tasks d) = Some row"
      using fetchone_key [OF inv_task_ids [OF inv]] hd by simp
    then have "reserve_next now cap d = (Inr (Some (row_to_record
        (row\<lparr>t_state := TS_STARTING, t_updated_at := now\<rparr>) None)),
        d\<lparr>task_reservations := task_reservations d @
             [\<lparr>rv_task_id = t_id row, rv_phase = RP_STARTING, rv_condition = None,
               rv_reserved_at = now, rv_updated_at = now\<rparr>],
          tasks := sql_update (\<lambda>r. t_id r = t_id row)
             (\<lambda>r. r\<lparr>t_state := TS_STARTING, t_updated_at := now\<rparr>) (tasks d),
          revision := Suc (revision d)\<rparr>)"
      using True cap Cons
      by (simp add: reserve_next_def db_write_def claim_task_def Let_def sql_simps)
    then show ?thesis using True hd free least by (auto simp: row_to_record_def)
  qed
qed

theorem reserve_next_spec_witness:
  "int (length (task_reservations sample_submitted)) < 1 \<and>
   (\<exists>rec d'. reserve_next 6 1 sample_submitted = (Inr (Some rec), d') \<and> tr_state rec = TS_STARTING \<and>
      map rv_task_id (task_reservations d') = map rv_task_id (task_reservations sample_submitted) @ [tr_id rec])"
proof -
  have "\<exists>rec d'. reserve_next 6 1 sample_submitted = (Inr (Some rec), d')"
    by (simp add: sample_submitted_eq reserve_next_def db_write_def claim_task_def
        queue_order_def empty_database_def new_task_row_def order_by_def)
  then obtain rec d' where "reserve_next 6 1 sample_submitted = (Inr (Some rec), d')" by blast
  with reserve_next_spec [OF sample_inv(1), of 1 6] show ?thesis by auto
qed

text \<open>
  A late reservation update never moves a finished task.  Whatever state the caller asks for,
  a task that is completed, failed or cancelled keeps its row, while the reservation takes the
  requested phase; without a reservation the call raises and changes nothing.
\<close>

lemma update_reservation_terminal:
  assumes inv: "ledger_inv d" and t: "t \<in> set (tasks d)" "is_terminal (t_state t)"
  shows "case update_reservation now (t_id t) ph c (Some st) d of
     (Inl e, d') \<Rightarrow> \<not> reserved (t_id t) d \<and> d' = d
   | (Inr r, d') \<Rightarrow> reserved (t_id t) d \<and> tasks d' = tasks d \<and> rv_phase r = ph \<and>
       get_reservation (t_id t) d' = Some r"
proof -
  have row: "fetchone (\<lambda>r. t_id r = t_id t) (tasks d) = Some t"
    using fetchone_key [OF inv_task_ids [OF inv]] t(1) by simp
  have rc: "rowcount (\<lambda>r. rv_task_id r = t_id t) (task_reservations d) = (if reserved (t_id t) d then 1 else 0)"
    using rowcount_key [of rv_task_id "task_reservations d" "t_id t"] inv
    by (auto simp: inv_defs reserved_def image_iff)
  show ?thesis
  proof (cases "reserved (t_id t) d")
    case False
    then show ?thesis using rc by (simp add: update_reservation_def db_write_def Let_def)
  next
    case True
    then obtain r where r: "fetchone (\<lambda>r. rv_task_id r = t_id t) (task_reservations d) = Some r"
      using fetchone_Some_ex [of _ "task_reservations d" "\<lambda>r. rv_task_id r = t_id t"]
      by (auto simp: reserved_def)
    show ?thesis using True rc row r t(2) fetchone_SomeD [OF r]
      by (simp add: update_reservation_def db_write_def Let_def task_state_is_terminal_def
          get_reservation_def reservation_of_def sql_simps)
  qed
qed

lemma update_reservation_terminal_witness:
  "fst (update_reservation 9 ''t1'' RP_RUNNING None (Some TS_RUNNING) sample_finished) =
     Inl (KeyError ''no reservation for task t1'') \<and>
   snd (update_reservation 9 ''t1'' RP_RUNNING None (Some TS_RUNNING) sample_finished) = sample_finished"
proof -
  let ?t = "hd (tasks sample_finished)"
  have t: "?t \<in> set (tasks sample_finished)" "is_terminal (t_state ?t)" "t_id ?t = ''t1''"
    by (simp_all add: sample_finished_eq is_terminal_def TERMINAL_TASK_STATES_def new_task_row_def)
  have none: "fst (update_reservation 9 ''t1'' RP_RUNNING None (Some TS_RUNNING) sample_finished) =
     Inl (KeyError ''no reservation for task t1'')"
    by (simp add: sample_finished_eq empty_database_def update_reservation_def db_write_def)
  from update_reservation_terminal [where d = sample_finished and now = 9 and ph = RP_RUNNING and c = None and st = TS_RUNNING, OF sample_inv(3) t(1,2)]
  have "snd (update_reservation 9 ''t1'' RP_RUNNING None (Some TS_RUNNING) sample_finished) = sample_finished"
    using none t(3) by (auto split: prod.splits sum.splits)
  with none show ?thesis by simp
qed

text \<open>
  What becomes of a task whose sandbox disappeared.  A cancelled task stays cancelled, one that
  is completed or whose recorded outcome is a settled success is completed, every other one
  fails; its reservation is gone, its sandbox is confirmed absent, an outcome already recorded is
  kept, and no other task's row changes.
\<close>

lemma mark_sandbox_lost_spec:
  assumes inv: "ledger_inv d" and t: "t \<in> set (tasks d)"
  shows "\<exists>d'. mark_sandbox_lost now (t_id t) detail d = (Inr (), d') \<and>
     \<not> reserved (t_id t) d' \<and>
     (\<exists>t'. fetchone (\<lambda>r. t_id r = t_id t) (tasks d') = Some t' \<and>
        t_state t' = (if t_state t = TS_CANCELLED then TS_CANCELLED
          else if t_state t = TS_COMPLETED \<or> t_outcome_detail t \<in> Some ` set SETTLED_SUCCESS_OUTCOMES
          then TS_COMPLETED else TS_FAILED) \<and>
        is_terminal (t_state t') \<and>
        t_outcome_detail t' = Some (coalesce_to (t_outcome_detail t) detail) \<and>
        t_sandbox_cleanup_status t' = Some ''confirmed_absent'') \<and>
     (\<forall>u\<in>set (tasks d). t_id u \<noteq> t_id t \<longrightarrow> u \<in> set (tasks d'))"
proof -
  have row: "fetchone (\<lambda>r. t_id r = t_id t) (tasks d) = Some t"
    using fetchone_key [OF inv_task_ids [OF inv]] t by simp
  have st: "lost_state (t_state t) (t_outcome_detail t) =
      (if t_state t = TS_CANCELLED then TS_CANCELLED
       else if t_state t = TS_COMPLETED \<or> t_outcome_detail t \<in> Some ` set SETTLED_SUCCESS_OUTCOMES
       then TS_COMPLETED else TS_FAILED)"
    by (auto simp: lost_state_def split: option.splits)
  show ?thesis
    unfolding mark_sandbox_lost_def db_write_def
    by (simp add: row sql_simps st reserved_def set_sql_update is_terminal_def TERMINAL_TASK_STATES_def
        Let_def coalesce_def coalesce_to_def split: option.splits)
qed

lemma mark_sandbox_lost_spec_witness:
  "\<exists>d'. mark_sandbox_lost 9 ''t1'' ''sandbox_gone'' sample_reserved = (Inr (), d') \<and>
     \<not> reserved ''t1'' d' \<and>
     (\<exists>t'. fetchone (\<lambda>r. t_id r = ''t1'') (tasks d') = Some t' \<and> t_state t' = TS_FAILED)"
proof -
  let ?t = "hd (tasks sample_reserved)"
  have t: "?t \<in> set (tasks sample_reserved)" "t_id ?t = ''t1''" "t_state ?t = TS_STARTING"
    "t_outcome_detail ?t = None"
    by (simp_all add: sample_reserved_eq new_task_row_def)
  from mark_sandbox_lost_spec [OF sample_inv(2) t(1), of 9 "''sandbox_gone''"] show ?thesis
    using t by auto
qed

end
