(* ===== verification/Ledger_Events.thy ===== *)
theory Ledger_Events
  imports Ledger_Props
begin

text \<open>
  Copied events, receipts and the retention sweeps: copying a source page is exactly-once and
  gives contiguous cursors, pages of copied events resume without loss, a receipt's content
  never changes, expiry and purge touch exactly the rows they are meant to.
\<close>

section \<open>Exactly-once copying\<close>

definition copied :: "string \<Rightarrow> string \<Rightarrow> int \<Rightarrow> database \<Rightarrow> bool" where
  "copied i src sq d \<longleftrightarrow> (i, src, sq) \<in> identity_key ` set (task_event_identities d)"

lemma copied_iff_fetchone:
  "copied i src sq d \<longleftrightarrow> fetchone (\<lambda>r. ei_task_id r = i \<and> ei_source_id r = src \<and>
     ei_source_seq r = sq) (task_event_identities d) \<noteq> None"
  by (auto simp: copied_def fetchone_None identity_key_def image_iff)

lemma insert_task_event_copied:
  "copied i src sq d \<Longrightarrow> insert_task_event now i src sq ev d = Inr (None, d)"
  by (auto simp: copied_iff_fetchone insert_task_event_def)

lemma insert_task_event_result:
  assumes "insert_task_event now i src sq ev d = Inr (x, d')" "ledger_inv d"
  shows "(x = None \<and> d' = d \<and> copied i src sq d) \<or>
     (x = Some (Suc (counter_value i d)) \<and> \<not> copied i src sq d \<and>
      counter_value i d' = Suc (counter_value i d) \<and>
      (\<forall>a b c. copied a b c d' \<longleftrightarrow> copied a b c d \<or> (a, b, c) = (i, src, sq)) \<and>
      task_event_source_cursors d' = task_event_source_cursors d \<and> tasks d' = tasks d)"
proof (cases x)
  case None
  have "d' = d" using assms(1) None
    by (auto simp: insert_task_event_def Let_def split: option.splits if_splits prod.splits)
  moreover have "copied i src sq d" using assms(1) None
    by (auto simp: insert_task_event_def Let_def copied_iff_fetchone
        split: option.splits if_splits prod.splits)
  ultimately show ?thesis using None by simp
next
  case (Some c)
  note s = insert_task_event_Some [OF assms(1) [unfolded Some] assms(2)]
  from s(3) show ?thesis using s(2,4) Some by (auto simp: copied_def identity_key_def)
qed

lemma copy_events_result:
  "copy_events eb fresh now i src m n evs d = Inr (ins, d') \<Longrightarrow> ledger_inv d \<Longrightarrow>
   map fst ins = [Suc (counter_value i d) ..< Suc (counter_value i d + length ins)] \<and>
   counter_value i d' = counter_value i d + length ins \<and>
   (\<forall>a b c. copied a b c d' \<longleftrightarrow> copied a b c d \<or> (a = i \<and> b = src \<and> c \<in> e_seq ` set evs)) \<and>
   task_event_source_cursors d' = task_event_source_cursors d \<and> tasks d' = tasks d"
proof (induction evs arbitrary: n d ins)
  case (Cons ev evs)
  let ?pl = "case m of None \<Rightarrow> ev
    | Some k \<Rightarrow> fst (truncate_event_json eb (fresh (e_seq ev)) now ev k n)"
  obtain x d1 where x: "insert_task_event now i src (e_seq ev) ?pl d = Inr (x, d1)"
    using Cons.prems(1) by (auto simp: Let_def split: sum.splits)
  have inv1: "ledger_inv d1" by (rule insert_task_event_inv [OF x Cons.prems(2)])
  note r = insert_task_event_result [OF x Cons.prems(2)]
  show ?case
  proof (cases x)
    case None
    with x Cons.prems(1) have "copy_events eb fresh now i src m n evs d1 = Inr (ins, d')"
      by (simp add: Let_def)
    from Cons.IH [OF this inv1] r None show ?thesis by auto
  next
    case (Some c)
    with x Cons.prems(1) obtain ins' where
      t: "copy_events eb fresh now i src m (n + eb ?pl) evs d1 = Inr (ins', d')"
      and ins: "ins = (c, ?pl) # ins'"
      by (auto simp: Let_def split: sum.splits)
    have c: "c = Suc (counter_value i d)" "counter_value i d1 = c" using r Some by auto
    from Cons.IH [OF t inv1] have
      "map fst ins' = [Suc c ..< Suc (c + length ins')]" "counter_value i d' = c + length ins'"
      using c by auto
    moreover have "[c ..< Suc (c + length ins')] = c # [Suc c ..< Suc (c + length ins')]"
      by (rule upt_conv_Cons) simp
    ultimately show ?thesis using Cons.IH [OF t inv1] r Some ins c by auto
  qed
qed simp

lemma copy_events_replay:
  "\<forall>ev\<in>set evs. copied i src (e_seq ev) d \<Longrightarrow>
   copy_events eb fresh now i src m n evs d = Inr ([], d)"
  by (induction evs) (simp_all add: insert_task_event_copied Let_def)

definition source_watermark :: "string \<Rightarrow> string \<Rightarrow> database \<Rightarrow> source_cursor_row option" where
  "source_watermark i src d =
     fetchone (\<lambda>r. es_task_id r = i \<and> es_source_id r = src) (task_event_source_cursors d)"

lemma upsert_source_cursor_value:
  "event_source_cursor i src (upsert_source_cursor i src n d) =
     (case source_watermark i src d of None \<Rightarrow> n | Some r \<Rightarrow> max (es_source_seq r) n)"
proof (cases "source_watermark i src d")
  case None
  then have "\<not> exists_row (\<lambda>r. es_task_id r = i \<and> es_source_id r = src) (task_event_source_cursors d)"
    by (auto simp: source_watermark_def fetchone_None)
  with None show ?thesis
    by (simp add: source_watermark_def event_source_cursor_def upsert_source_cursor_def del: exists_row_iff)
next
  case (Some r)
  then have "exists_row (\<lambda>r. es_task_id r = i \<and> es_source_id r = src) (task_event_source_cursors d)"
    by (auto simp: source_watermark_def dest!: fetchone_SomeD)
  with Some show ?thesis using fetchone_SomeD [OF Some [unfolded source_watermark_def]]
    by (simp add: source_watermark_def event_source_cursor_def upsert_source_cursor_def sql_simps
        del: exists_row_iff)
qed

lemma upsert_source_watermark: "source_watermark i src (upsert_source_cursor i src n d) \<noteq> None"
proof (cases "source_watermark i src d")
  case None
  then have "\<not> exists_row (\<lambda>r. es_task_id r = i \<and> es_source_id r = src) (task_event_source_cursors d)"
    by (auto simp: source_watermark_def fetchone_None)
  then show ?thesis
    by (simp add: source_watermark_def upsert_source_cursor_def del: exists_row_iff split: option.splits)
next
  case (Some r)
  then show ?thesis
    by (simp add: source_watermark_def upsert_source_cursor_def Let_def sql_simps split: option.splits)
qed

lemma upsert_source_cursor_idem:
  assumes "ledger_inv d" "source_watermark i src d = Some r" "n \<le> es_source_seq r"
  shows "upsert_source_cursor i src n d = d"
proof -
  have dist: "distinct (map (\<lambda>r. (es_task_id r, es_source_id r)) (task_event_source_cursors d))"
    using assms(1) by (simp add: inv_defs)
  have r: "r \<in> set (task_event_source_cursors d)" "es_task_id r = i" "es_source_id r = src"
    using assms(2) by (auto simp: source_watermark_def dest!: fetchone_SomeD)
  have only: "x = r" if "x \<in> set (task_event_source_cursors d)" "es_task_id x = i" "es_source_id x = src" for x
    using distinct_key_unique [OF dist that(1) r(1)] that r by simp
  have "sql_update (\<lambda>r. es_task_id r = i \<and> es_source_id r = src)
      (\<lambda>r. r\<lparr>es_source_seq := max (es_source_seq r) n\<rparr>) (task_event_source_cursors d)
    = task_event_source_cursors d"
    unfolding sql_update_def using only assms(3) by (intro map_idI) (auto simp: max_def)
  moreover have "exists_row (\<lambda>r. es_task_id r = i \<and> es_source_id r = src) (task_event_source_cursors d)"
    using r by auto
  ultimately show ?thesis by (simp add: upsert_source_cursor_def del: exists_row_iff)
qed

lemma copy_page_ok:
  assumes "copy_task_event_page eb fresh now i src evs m d = (Inr ins, d1)" "evs \<noteq> []"
  obtains d' where "require_payload i d = None" "length evs \<le> 200" "page_ordered evs"
    "copy_events eb fresh now i src m (task_log_bytes eb i d) evs d = Inr (ins, d')"
    "d1 = (upsert_source_cursor i src (e_seq (last evs)) d')\<lparr>revision := Suc (revision d)\<rparr>"
  using assms
  by (auto simp: copy_task_event_page_def raise_def db_write_def split: if_splits option.splits sum.splits)

lemma require_payload_tasks: "tasks d' = tasks d \<Longrightarrow> require_payload i d' = require_payload i d"
  by (simp add: require_payload_def)

lemma page_ordered_le_last: "page_ordered evs \<Longrightarrow> \<forall>ev\<in>set evs. e_seq ev \<le> e_seq (last evs)"
proof (induction evs rule: page_ordered.induct)
  case (3 e e' es)
  then have "\<forall>ev\<in>set (e' # es). e_seq ev \<le> e_seq (last (e' # es))" "e_seq e < e_seq e'" by simp_all
  then show ?case by auto
qed simp_all


definition sample_event :: "int \<Rightarrow> Event" where
  "sample_event n = \<lparr>e_id = ''e'', e_seq = n, e_kind = EK_STATUS, e_payload = [], e_created_at = 0\<rparr>"


text \<open>
  the copied events of a task are listed with strictly increasing cursors, and reading on from
  any cursor gives exactly the rest of the list, so a client that resumes misses and repeats nothing.
\<close>

theorem list_task_events_resume:
  assumes inv: "ledger_inv d"
  shows "sorted_wrt (<) (map fst (list_task_events i a d)) \<and>
    (a \<le> b \<longrightarrow> list_task_events i b d = filter (\<lambda>e. b < fst e) (list_task_events i a d))"
proof -
  let ?t = "\<lambda>a. filter (\<lambda>r. ec_task_id r = i \<and> a < ec_cursor_seq r) (task_event_copies d)"
  have k: "map fst (list_task_events i a d) = map ec_cursor_seq (order_by ec_cursor_seq (?t a))"
    by (simp add: list_task_events_def comp_def)
  have "distinct (map (\<lambda>r. (ec_task_id r, ec_cursor_seq r)) (task_event_copies d))"
    using inv by (simp add: inv_defs)
  then have "distinct (map ec_cursor_seq (?t a))"
    by (auto simp: distinct_map inj_on_def)
  then have "distinct (map fst (list_task_events i a d))" unfolding k by simp
  moreover have "sorted (map fst (list_task_events i a d))" unfolding k by simp
  ultimately have "sorted_wrt (<) (map fst (list_task_events i a d))"
    by (simp add: strict_sorted_iff)
  moreover have "list_task_events i b d = filter (\<lambda>e. b < fst e) (list_task_events i a d)" if "a \<le> b"
  proof -
    have "?t b = filter (\<lambda>r. b < ec_cursor_seq r) (?t a)"
      using that by (auto intro: filter_cong)
    then show ?thesis
      by (simp add: list_task_events_def filter_map comp_def order_by_def filter_sort)
  qed
  ultimately show ?thesis by simp
qed

theorem list_task_events_resume_witness:
  "sorted_wrt (<) (map fst (list_task_events ''t1'' 0 sample_reserved)) \<and>
   list_task_events ''t1'' 4 sample_reserved =
     filter (\<lambda>e. 4 < fst e) (list_task_events ''t1'' 0 sample_reserved)"
  using list_task_events_resume [OF sample_inv(2), of "''t1''" 0 4] by simp

section \<open>Receipts and sleeping workspaces\<close>

lemma live_require_payload:
  assumes "ledger_inv d" "live_task i d" shows "require_payload i d = None"
proof -
  from assms(2) obtain t where t: "t \<in> set (tasks d)" "t_id t = i" "\<not> t_payload_expired t"
    by (auto simp: live_task_def)
  then have "fetchone (\<lambda>r. t_id r = i) (tasks d) = Some t"
    using fetchone_key [OF inv_task_ids [OF assms(1)]] by simp
  with t(3) show ?thesis by (simp add: require_payload_def)
qed

lemma receipt_of_iff:
  "get_task_message_receipt i m d = Some x \<longleftrightarrow>
   (\<exists>row. fetchone (\<lambda>r. mm_task_id r = i \<and> mr_id (mm_receipt r) = m) (task_message_receipts d) = Some row
      \<and> mm_receipt row = x)"
  by (auto simp: get_task_message_receipt_def)

text \<open>
  A message identifier belongs to one content for ever.  Saving a receipt for a live task either
  stores its status and detail under the identifier, keeping the creation time of an earlier
  receipt, or raises because the identifier already carries another content, and then
  nothing changes; the receipts of other identifiers are never touched.
\<close>

lemma save_receipt_content_fixed:
  assumes inv: "ledger_inv d" and live: "live_task i d"
  shows "case save_task_message_receipt i r d of
     (Inl e, d') \<Rightarrow> d' = d \<and>
       (\<exists>old. get_task_message_receipt i (mr_id r) d = Some old \<and> mr_content old \<noteq> mr_content r)
   | (Inr _, d') \<Rightarrow> (\<exists>new. get_task_message_receipt i (mr_id r) d' = Some new \<and>
         mr_content new = mr_content r \<and> mr_status new = mr_status r \<and> mr_detail new = mr_detail r \<and>
         (\<forall>old. get_task_message_receipt i (mr_id r) d = Some old \<longrightarrow>
            mr_content old = mr_content new \<and> mr_created_at old = mr_created_at new)) \<and>
       (\<forall>m. m \<noteq> mr_id r \<longrightarrow> get_task_message_receipt i m d' = get_task_message_receipt i m d)"
proof -
  let ?P = "\<lambda>x. mm_task_id x = i \<and> mr_id (mm_receipt x) = mr_id r"
  let ?Q = "\<lambda>x. ?P x \<and> mr_content (mm_receipt x) = mr_content r"
  note pay = live_require_payload [OF inv live]
  have dist: "distinct (map (\<lambda>x. (mm_task_id x, mr_id (mm_receipt x))) (task_message_receipts d))"
    using inv by (simp add: inv_defs)
  show ?thesis
  proof (cases "fetchone ?P (task_message_receipts d)")
    case None
    then have "\<not> exists_row ?P (task_message_receipts d)" by (auto simp: fetchone_None)
    then show ?thesis using None pay
      by (auto simp: save_task_message_receipt_def db_write_def get_task_message_receipt_def
          simp del: exists_row_iff split: option.splits)
  next
    case (Some row)
    have row: "row \<in> set (task_message_receipts d)" "?P row" using fetchone_SomeD [OF Some] by auto
    have ex: "exists_row ?P (task_message_receipts d)" using row by auto
    have only: "x = row" if "x \<in> set (task_message_receipts d)" "?P x" for x
      using distinct_key_unique [OF dist that(1) row(1)] that(2) row(2) by simp
    show ?thesis
    proof (cases "mr_content (mm_receipt row) = mr_content r")
      case False
      then have "rowcount ?Q (task_message_receipts d) = 0" using only by (auto simp: rowcount_0)
      with ex pay False Some show ?thesis
        by (simp add: save_task_message_receipt_def db_write_def Let_def get_task_message_receipt_def
            del: exists_row_iff)
    next
      case True
      have q: "filter ?Q (task_message_receipts d) =
          filter (\<lambda>x. (mm_task_id x, mr_id (mm_receipt x)) = (i, mr_id r)) (task_message_receipts d)"
        using only True by (auto intro!: filter_cong)
      have "rowcount ?Q (task_message_receipts d) = 1"
        using rowcount_key [OF dist, of "(i, mr_id r)"] row unfolding rowcount_def q
        by (auto simp: image_iff)
      with ex pay True Some row show ?thesis
        by (simp add: save_task_message_receipt_def db_write_def Let_def get_task_message_receipt_def
            sql_simps del: exists_row_iff)
         (auto simp: option.map_comp comp_def intro!: option.map_cong dest: fetchone_SomeD)
    qed
  qed
qed

definition sample_receipt :: "string \<Rightarrow> MessageReceipt" where
  "sample_receipt c = \<lparr>mr_id = ''m1'', mr_content = c, mr_status = MD_ACCEPTED, mr_detail = None,
     mr_created_at = 0, mr_updated_at = 0\<rparr>"

lemma save_receipt_content_fixed_witness:
  "\<exists>d'. save_task_message_receipt ''t1'' (sample_receipt ''hi'') sample_reserved = (Inr (), d') \<and>
     (\<exists>new. get_task_message_receipt ''t1'' ''m1'' d' = Some new \<and> mr_content new = ''hi'')"
proof -
  have live: "live_task ''t1'' sample_reserved"
    by (simp add: live_task_def sample_reserved_eq new_task_row_def)
  have "\<exists>d'. save_task_message_receipt ''t1'' (sample_receipt ''hi'') sample_reserved = (Inr (), d')"
    by (simp add: save_task_message_receipt_def db_write_def sample_reserved_eq empty_database_def
        require_payload_def new_task_row_def)
  with save_receipt_content_fixed [OF sample_inv(2) live, of "sample_receipt ''hi''"] show ?thesis
    by (auto simp: sample_receipt_def)
qed

text \<open>
  a workspace is put to sleep only when nothing waits for it.  \<open>try_mark_sleeping\<close> succeeds
  exactly when the task is idle and no accepted message of it is undelivered, and then the task
  sleeps; otherwise its state stays.
\<close>

theorem try_mark_sleeping_iff:
  assumes inv: "ledger_inv d" and t: "t \<in> set (tasks d)"
  shows "\<exists>b d' t'. try_mark_sleeping now (t_id t) d = (Inr b, d') \<and>
    (b \<longleftrightarrow> t_state t = TS_IDLE \<and> list_accepted_task_messages (t_id t) d = []) \<and>
    fetchone (\<lambda>r. t_id r = t_id t) (tasks d') = Some t' \<and>
    t_state t' = (if b then TS_SLEEPING else t_state t)"
proof -
  have row: "fetchone (\<lambda>r. t_id r = t_id t) (tasks d) = Some t"
    using fetchone_key [OF inv_task_ids [OF inv]] t by simp
  have acc: "list_accepted_task_messages (t_id t) d = [] \<longleftrightarrow>
      \<not> exists_row (\<lambda>r. mm_task_id r = t_id t \<and> mr_status (mm_receipt r) = MD_ACCEPTED)
          (task_message_receipts d)"
    by (auto simp: list_accepted_task_messages_def list_task_message_receipts_def filter_empty_conv)
  have "filter (\<lambda>r. t_id r = t_id t \<and> t_state r = TS_IDLE) (tasks d) =
      (if t_state t = TS_IDLE then filter (\<lambda>r. t_id r = t_id t) (tasks d) else [])"
  proof -
    have "t_state r = t_state t" if "r \<in> set (tasks d)" "t_id r = t_id t" for r
      using task_identity_unique [OF inv that(1) t] that(2) by simp
    then show ?thesis by (auto simp: filter_empty_conv intro: filter_cong)
  qed
  then have rc: "rowcount (\<lambda>r. t_id r = t_id t \<and> t_state r = TS_IDLE) (tasks d) =
      (if t_state t = TS_IDLE then 1 else 0)"
    using rowcount_key [OF inv_task_ids [OF inv], of "t_id t"] t by (simp add: rowcount_def)
  show ?thesis using row acc rc
    by (auto simp: try_mark_sleeping_def db_write_def Let_def sql_simps fetchone_update
        simp del: exists_row_iff split: if_splits)
qed

theorem try_mark_sleeping_iff_witness:
  "\<exists>b d' t'. try_mark_sleeping 9 ''t1'' sample_reserved = (Inr b, d') \<and> \<not> b \<and>
     fetchone (\<lambda>r. t_id r = ''t1'') (tasks d') = Some t' \<and> t_state t' = TS_STARTING"
proof -
  let ?t = "hd (tasks sample_reserved)"
  have t: "?t \<in> set (tasks sample_reserved)" "t_id ?t = ''t1''" "t_state ?t = TS_STARTING"
    by (simp_all add: sample_reserved_eq new_task_row_def)
  from try_mark_sleeping_iff [OF sample_inv(2) t(1), of 9] show ?thesis
    using t by (auto split: if_splits)
qed

section \<open>Retention\<close>

lemma expired_row_idem [simp]: "expired_row (expired_row r) = expired_row r"
  by (simp add: expired_row_def)

lemma expire_fold_tasks:
  "tasks (fold (expire_one x) rows d) =
     map (\<lambda>r. if t_id r \<in> t_id ` set rows then expired_row r else r) (tasks d)"
proof (induction rows arbitrary: d)
  case (Cons row rows)
  show ?case
    by (auto simp: Cons.IH expire_one_fields sql_update_def)
qed simp

lemma expire_fold_owning: "owning (fold (expire_one x) rows d) = owning d - t_id ` set rows"
  by (induction rows arbitrary: d) (auto simp: expire_one_fields)

text \<open>
  C21: the expiry sweep never fails and is confined.  It never violates a constraint, it empties
  exactly the payloads of finished, unreserved tasks older than the cutoff, every other task keeps
  its row and its evidence, reservations stay, and every expired task leaves a tombstone
  and a retired idempotency key behind.
\<close>

theorem expire_confined:
  assumes inv: "ledger_inv d"
  shows "\<exists>n d'. expire_terminal_payloads now before kept d = (Inr n, d') \<and>
    n = length (filter (expirable before d) (tasks d)) \<and>
    tasks d' = map (\<lambda>r. if expirable before d r then expired_row r else r) (tasks d) \<and>
    owning d' = owning d - {t_id r |r. r \<in> set (tasks d) \<and> expirable before d r} \<and>
    task_reservations d' = task_reservations d \<and>
    (\<forall>t\<in>set (tasks d'). t_payload_expired t \<longrightarrow> t_id t \<in> id_task_id ` set (task_idempotency d'))"
proof -
  let ?rows = "filter (expirable before d) (tasks d)"
  let ?d = "fold (expire_one (now + kept)) ?rows d"
  have mem: "t_id r \<in> t_id ` set ?rows \<longleftrightarrow> expirable before d r" if "r \<in> set (tasks d)" for r
  proof
    assume "t_id r \<in> t_id ` set ?rows"
    then obtain u where u: "u \<in> set (tasks d)" "expirable before d u" "t_id r = t_id u" by auto
    then have "u = r" using task_identity_unique [OF inv u(1) that] by simp
    with u(2) show "expirable before d r" by simp
  qed (use that in simp)
  have "tasks ?d = map (\<lambda>r. if expirable before d r then expired_row r else r) (tasks d)"
    unfolding expire_fold_tasks using mem by (intro map_cong) auto
  moreover have "owning ?d = owning d - {t_id r |r. r \<in> set (tasks d) \<and> expirable before d r}"
    unfolding expire_fold_owning by auto
  moreover have "ledger_inv ?d" using expire_rows_ok [OF inv expirable_pending [OF inv]] by simp
  then have "\<forall>t\<in>set (tasks ?d). t_payload_expired t \<longrightarrow> t_id t \<in> id_task_id ` set (task_idempotency ?d)"
    by (simp add: ledger_inv_def retired_ok_def)
  ultimately show ?thesis
    by (simp add: expire_terminal_payloads_ok [OF inv] owning_def)
qed

theorem expire_confined_witness:
  "\<exists>d'. expire_terminal_payloads 20 10 5 sample_finished = (Inr 1, d') \<and>
     map t_payload_expired (tasks d') = [True] \<and> map t_prompt (tasks d') = [[]]"
proof -
  have "filter (expirable 10 sample_finished) (tasks sample_finished) = tasks sample_finished"
    by (simp add: sample_finished_eq expirable_def reserved_def new_task_row_def empty_database_def)
  moreover have "length (tasks sample_finished) = 1" by (simp add: sample_finished_eq)
  ultimately have "\<exists>r. tasks sample_finished = [r] \<and> expirable 10 sample_finished r"
    by (metis filter_id_conv length_Suc_conv length_0_conv One_nat_def list.set_intros(1))
  with expire_confined [OF sample_inv(3), of 20 10 5] show ?thesis
    by (auto simp: expired_row_def)
qed

lemma purge_fold_tasks:
  "tasks (fold purge_one ids d) = filter (\<lambda>r. \<not> (t_payload_expired r \<and> t_id r \<in> set ids)) (tasks d)"
proof (induction ids arbitrary: d)
  case (Cons i ids)
  show ?case by (auto simp: Cons.IH sql_delete_def intro!: filter_cong)
qed simp

lemma purge_fold_idempotency [simp]:
  "task_idempotency (fold purge_one ids d) = task_idempotency d"
  by (induction ids arbitrary: d) simp_all

text \<open>
  The purge never breaks a foreign key and forgets no key.  It removes exactly the expired rows
  of unreserved tasks whose tombstone is older than the cutoff; retired idempotency keys and
  reservations stay as they are.
\<close>

lemma purge_confined:
  assumes inv: "ledger_inv d"
  shows "\<exists>d'. purge_expired_tombstones before d = (Inr (length (purgeable before d)), d') \<and>
    tasks d' = filter (\<lambda>r. \<not> (t_payload_expired r \<and> t_id r \<in> set (purgeable before d))) (tasks d) \<and>
    (\<forall>i\<in>set (purgeable before d). \<not> reserved i d) \<and>
    task_idempotency d' = task_idempotency d \<and> task_reservations d' = task_reservations d \<and>
    refs_ok d'"
proof -
  have free: "\<forall>i\<in>set (purgeable before d). \<not> reserved i d" by (auto simp: purgeable_def)
  then have "refs_ok (fold purge_one (purgeable before d) d)"
    using purge_rows_ok [OF inv] by (auto simp: ledger_inv_def)
  then show ?thesis using free
    by (simp add: purge_expired_tombstones_ok [OF inv] purge_fold_tasks refs_ok_def)
qed

definition sample_expired :: database where
  "sample_expired = snd (expire_terminal_payloads 20 10 5 sample_finished)"

lemma sample_expired_facts:
  "ledger_inv sample_expired" "purgeable 100 sample_expired = [''t1'']"
  "map t_id (tasks sample_expired) = [''t1'']" "map t_payload_expired (tasks sample_expired) = [True]"
proof -
  show "ledger_inv sample_expired"
    using expire_terminal_payloads_inv sample_inv(3) unfolding sample_expired_def
    by (metis inv_rel_def keepsD)
  have rows: "filter (expirable 10 sample_finished) (tasks sample_finished) = tasks sample_finished"
    by (simp add: sample_finished_eq expirable_def reserved_def new_task_row_def empty_database_def)
  show "purgeable 100 sample_expired = [''t1'']"
    unfolding sample_expired_def expire_terminal_payloads_ok [OF sample_inv(3)] rows
    by (simp add: purgeable_def reserved_def expire_one_def delete_children_def)
      (simp add: sample_finished_eq empty_database_def new_task_row_def expire_one_def delete_children_def)
  show "map t_id (tasks sample_expired) = [''t1'']" "map t_payload_expired (tasks sample_expired) = [True]"
    unfolding sample_expired_def expire_terminal_payloads_ok [OF sample_inv(3)] rows
    by (simp_all add: expire_fold_tasks) (simp_all add: sample_finished_eq new_task_row_def)
qed

lemma purge_confined_witness:
  "\<exists>d'. purge_expired_tombstones 100 sample_expired = (Inr 1, d') \<and> tasks d' = []"
proof -
  obtain r where "tasks sample_expired = [r]" "t_id r = ''t1''" "t_payload_expired r"
    using sample_expired_facts(3,4) by (auto simp: map_eq_Cons_conv)
  with purge_confined [OF sample_expired_facts(1), of 100] sample_expired_facts(2) show ?thesis
    by auto
qed

end
