(* ===== verification/Ledger_Intents.thy ===== *)
theory Ledger_Intents
  imports Ledger_Events
begin

text \<open>
  The write-ahead identities of external effects.  Before a sandbox is created, a pull request
  opened or an execution started, the ledger records what it is about to do, so that a retry
  after a crash finds the same identity.  The interface is the locale \<open>durable_intent\<close>; the three
  tables of \<open>ledger.py\<close> that follow it are its interpretations.
\<close>

section \<open>The interface\<close>

text \<open>
  \<open>matches k r\<close>: record \<open>r\<close> carries the identity \<open>k\<close> asks for.  \<open>usable\<close> is what the
  provider needs of the database.
\<close>

locale durable_intent =
  fixes begin_intent :: "timestamp \<Rightarrow> 'k \<Rightarrow> ('r \<times> bool) ledger_op"
    and get_intent :: "'k \<Rightarrow> database \<Rightarrow> 'r option"
    and matches :: "'k \<Rightarrow> 'r \<Rightarrow> bool"
    and usable :: "'k \<Rightarrow> database \<Rightarrow> bool"
  assumes found: "usable k d \<Longrightarrow> get_intent k d = Some r \<Longrightarrow> matches k r \<Longrightarrow>
      begin_intent now k d = (Inr (r, False), d\<lparr>revision := Suc (revision d)\<rparr>)"
    and conflict: "usable k d \<Longrightarrow> get_intent k d = Some r \<Longrightarrow> \<not> matches k r \<Longrightarrow>
      \<exists>e. begin_intent now k d = (Inl e, d)"
    and created: "usable k d \<Longrightarrow> get_intent k d = None \<Longrightarrow> begin_intent now k d = (Inr (r, new), d') \<Longrightarrow>
      new \<and> get_intent k d' = Some r \<and> matches k r"
    and usable_kept: "usable k d \<Longrightarrow> begin_intent now k d = (Inr x, d') \<Longrightarrow> usable k d'"
    and usable_revision: "usable k (d\<lparr>revision := n\<rparr>) = usable k d"
    and get_revision: "get_intent k (d\<lparr>revision := n\<rparr>) = get_intent k d"
begin

text \<open>Whatever a successful call returned is on record with the identity that was asked for.\<close>

lemma begin_recorded:
  assumes "usable k d" "begin_intent now k d = (Inr (r, new), d')"
  shows "get_intent k d' = Some r \<and> matches k r \<and> new = (get_intent k d = None)"
proof (cases "get_intent k d")
  case None
  with created [OF assms(1) None assms(2)] show ?thesis by simp
next
  case (Some r0)
  show ?thesis
  proof (cases "matches k r0")
    case True
    with found [OF assms(1) Some True, of now] assms(2) Some show ?thesis by (auto simp: get_revision)
  next
    case False
    from conflict [OF assms(1) Some False, of now] assms(2) show ?thesis by auto
  qed
qed

text \<open>A retry returns the same record and writes nothing.\<close>

lemma begin_retry:
  assumes "usable k d" "begin_intent now k d = (Inr (r, new), d')"
  shows "begin_intent now' k d' = (Inr (r, False), d'\<lparr>revision := Suc (revision d')\<rparr>)"
  using begin_recorded [OF assms] usable_kept [OF assms] by (auto intro: found)

lemma begin_other_refused:
  assumes "usable k d" "begin_intent now k d = (Inr (r, new), d')"
    and "get_intent k' d' = get_intent k d'" "usable k' d'" "\<not> matches k' r"
  shows "\<exists>e. begin_intent now' k' d' = (Inl e, d')"
  using begin_recorded [OF assms(1,2)] assms(3-5) by (auto intro: conflict)

end

section \<open>Sandbox creations\<close>

type_synonym creation_key = "string \<times> string \<times> string \<times> string \<times> string \<times> int option"

definition live_ledger :: "string \<Rightarrow> database \<Rightarrow> bool" where
  "live_ledger i d \<longleftrightarrow> ledger_inv d \<and> live_task i d"

lemma live_ledger_payload: "live_ledger i d \<Longrightarrow> require_payload i d = None"
  by (simp add: live_ledger_def live_require_payload)

lemma live_ledger_revision [simp]: "live_ledger i (d\<lparr>revision := n\<rparr>) = live_ledger i d"
  by (simp add: live_ledger_def live_task_def)

lemma live_ledger_kept:
  assumes "keeps inv_rel m" "\<And>d x d'. m d = (Inr x, d') \<Longrightarrow> tasks d' = tasks d"
    and "live_ledger i d" "m d = (Inr x, d')"
  shows "live_ledger i d'"
  using keepsD [OF assms(1), of d] assms(2) [OF assms(4)] assms(3,4)
  by (simp add: live_ledger_def live_task_def inv_rel_def)

definition creation_matches :: "creation_key \<Rightarrow> SandboxCreationRecord \<Rightarrow> bool" where
  "creation_matches = (\<lambda>(i, dep, n, tg, key, v) r. sc_deployment r = dep \<and> sc_sandbox_name r = n \<and>
     sc_tags_json r = tg \<and> sc_session_api_key r = key)"

definition begin_creation :: "timestamp \<Rightarrow> creation_key \<Rightarrow> (SandboxCreationRecord \<times> bool) ledger_op" where
  "begin_creation now = (\<lambda>(i, dep, n, tg, key, v). begin_sandbox_creation now i dep n tg key v)"

lemma begin_creation_tasks: "begin_sandbox_creation now i dep n tg key v d = (Inr x, d') \<Longrightarrow> tasks d' = tasks d"
  by (auto simp: begin_sandbox_creation_def insert_creation_def db_write_def simp del: exists_row_iff
      split: option.splits if_splits)

lemma begin_creation_new:
  assumes "require_payload i d = None" "get_sandbox_creation i d = None"
    "begin_sandbox_creation now i dep n tg key v d = (Inr (r, new), d')"
  shows "new \<and> get_sandbox_creation i d' = Some r \<and> creation_matches (i, dep, n, tg, key, v) r"
  using assms
  by (auto simp: begin_sandbox_creation_def insert_creation_def db_write_def get_sandbox_creation_def
      creation_matches_def simp del: exists_row_iff split: if_splits option.splits)

interpretation creation: durable_intent begin_creation "\<lambda>k. get_sandbox_creation (fst k)"
  creation_matches "\<lambda>k. live_ledger (fst k)"
proof (unfold_locales, goal_cases)
  case (1 k d r now)
  then show ?case
    by (cases k) (simp add: begin_creation_def creation_matches_def begin_sandbox_creation_def
        db_write_def live_ledger_payload get_sandbox_creation_def)
next
  case (2 k d r now)
  then show ?case
    by (cases k) (auto simp: begin_creation_def creation_matches_def begin_sandbox_creation_def
        db_write_def live_ledger_payload get_sandbox_creation_def)
next
  case (3 k d now r new d')
  obtain i dep n tg key v where k: "k = (i, dep, n, tg, key, v)" by (cases k)
  have "live_ledger i d" "get_sandbox_creation i d = None"
    "begin_sandbox_creation now i dep n tg key v d = (Inr (r, new), d')"
    using 3 by (simp_all add: k begin_creation_def)
  from begin_creation_new [OF live_ledger_payload [OF this(1)] this(2,3)] show ?case by (simp add: k)
next
  case (4 k d now x d')
  then show ?case
    by (cases k) (auto simp: begin_creation_def
        intro: live_ledger_kept [OF begin_sandbox_creation_inv begin_creation_tasks])
qed (simp_all add: get_sandbox_creation_def)

section \<open>Publication intents\<close>

type_synonym publication_key =
  "string \<times> string \<times> string \<times> string \<times> string \<times> string option \<times> CheckOutcome \<times> AgentOutcome \<times>
   PublicationState \<times> string option"

text \<open>A recorded commit conflicts only with another commit.\<close>

definition publication_matches :: "publication_key \<Rightarrow> PublicationRecord \<Rightarrow> bool" where
  "publication_matches = (\<lambda>(i, repo, tb, br, tm, cs, co, ao, st, det) r.
     pr_repository r = repo \<and> pr_task_branch r = tb \<and> pr_base_ref r = br \<and> pr_task_marker r = tm \<and>
     (pr_commit_sha r = None \<or> cs = None \<or> pr_commit_sha r = cs))"

definition begin_pub :: "timestamp \<Rightarrow> publication_key \<Rightarrow> (PublicationRecord \<times> bool) ledger_op" where
  "begin_pub now = (\<lambda>(i, repo, tb, br, tm, cs, co, ao, st, det).
     begin_publication now i repo tb br tm cs co ao st det)"

lemma begin_publication_tasks:
  "begin_publication now i repo tb br tm cs co ao st det d = (Inr x, d') \<Longrightarrow> tasks d' = tasks d"
  by (auto simp: begin_publication_def db_write_def Let_def split: option.splits if_splits)

interpretation publication: durable_intent begin_pub "\<lambda>k. get_publication (fst k)"
  publication_matches "\<lambda>k. live_ledger (fst k)"
proof (unfold_locales, goal_cases)
  case (1 k d r now)
  then show ?case
    by (cases k) (auto simp: begin_pub_def publication_matches_def begin_publication_def
        db_write_def live_ledger_payload get_publication_def)
next
  case (2 k d r now)
  then show ?case
    by (cases k) (auto simp: begin_pub_def publication_matches_def begin_publication_def
        db_write_def live_ledger_payload get_publication_def)
next
  case (3 k d now r new d')
  then show ?case
    by (cases k) (auto simp: begin_pub_def publication_matches_def begin_publication_def
        db_write_def live_ledger_payload get_publication_def)
next
  case (4 k d now x d')
  then show ?case
    by (cases k) (auto simp: begin_pub_def
        intro: live_ledger_kept [OF begin_publication_inv begin_publication_tasks])
qed (simp_all add: get_publication_def)

section \<open>Supervisions\<close>

type_synonym supervision_key = "string \<times> string \<times> string \<times> string \<times> string option"

definition supervision_matches :: "supervision_key \<Rightarrow> SupervisionRecord \<Rightarrow> bool" where
  "supervision_matches = (\<lambda>(i, e, tb, key, c) r.
     sv_start_key r = key \<and> sv_execution_id r = e \<and> sv_task_branch r = tb)"

definition begin_sup :: "timestamp \<Rightarrow> supervision_key \<Rightarrow> (SupervisionRecord \<times> bool) ledger_op" where
  "begin_sup now = (\<lambda>(i, e, tb, key, c). begin_supervision now i e tb key c)"

lemma begin_supervision_tasks:
  "begin_supervision now i e tb key c d = (Inr x, d') \<Longrightarrow> tasks d' = tasks d"
  by (auto simp: begin_supervision_def db_write_def Let_def split: option.splits if_splits)

text \<open>The lookup by task or start key finds the task's own record, if that record has the key.\<close>

lemma supervision_lookup:
  assumes inv: "ledger_inv d" and r: "get_supervision i d = Some r" and key: "sv_start_key r = key"
  shows "fetchone (\<lambda>x. sv_task_id x = i \<or> sv_start_key x = key) (task_supervisions d) = Some r"
proof -
  have d: "distinct (map sv_task_id (task_supervisions d))" "distinct (map sv_start_key (task_supervisions d))"
    using inv by (simp_all add: inv_defs)
  have m: "r \<in> set (task_supervisions d)" "sv_task_id r = i"
    using r by (auto simp: get_supervision_def dest!: fetchone_SomeD)
  then obtain x where x: "fetchone (\<lambda>x. sv_task_id x = i \<or> sv_start_key x = key) (task_supervisions d) = Some x"
    using fetchone_Some_ex [of r "task_supervisions d" "\<lambda>x. sv_task_id x = i \<or> sv_start_key x = key"] by auto
  then have "x = r" using m key distinct_key_unique [OF d(1), of x r] distinct_key_unique [OF d(2), of x r]
    by (auto dest!: fetchone_SomeD)
  with x show ?thesis by simp
qed

lemma supervision_conflict:
  assumes "live_ledger i d" "get_supervision i d = Some r" "\<not> supervision_matches (i, e, tb, key, c) r"
  shows "\<exists>err. begin_supervision now i e tb key c d = (Inl err, d)"
proof -
  have m: "r \<in> set (task_supervisions d)" "sv_task_id r = i"
    using assms(2) by (auto simp: get_supervision_def dest!: fetchone_SomeD)
  then obtain x where x: "fetchone (\<lambda>x. sv_task_id x = i \<or> sv_start_key x = key) (task_supervisions d) = Some x"
    using fetchone_Some_ex [of r "task_supervisions d" "\<lambda>x. sv_task_id x = i \<or> sv_start_key x = key"] by auto
  have dist: "distinct (map sv_task_id (task_supervisions d))"
    using assms(1) by (simp add: live_ledger_def inv_defs)
  have "sv_task_id x \<noteq> i \<or> x = r"
    using distinct_key_unique [OF dist, of x r] fetchone_SomeD [OF x] m by auto
  with x assms live_ledger_payload [OF assms(1)] show ?thesis
    by (auto simp: begin_supervision_def db_write_def supervision_matches_def)
qed

interpretation supervision: durable_intent begin_sup "\<lambda>k. get_supervision (fst k)"
  supervision_matches "\<lambda>k. live_ledger (fst k)"
proof (unfold_locales, goal_cases)
  case (1 k d r now)
  obtain i e tb key c where k: "k = (i, e, tb, key, c)" by (cases k)
  from 1 have "fetchone (\<lambda>x. sv_task_id x = i \<or> sv_start_key x = key) (task_supervisions d) = Some r"
    by (intro supervision_lookup) (simp_all add: k live_ledger_def supervision_matches_def)
  moreover have "sv_task_id r = i" using 1(2) k by (auto simp: get_supervision_def dest!: fetchone_SomeD)
  ultimately show ?case using 1 unfolding k
    by (simp add: begin_sup_def supervision_matches_def begin_supervision_def db_write_def
        live_ledger_payload)
next
  case (2 k d r now)
  then show ?case using supervision_conflict [of _ d r] by (cases k) (simp add: begin_sup_def)
next
  case (3 k d now r new d')
  then show ?case
    by (cases k) (auto simp: begin_sup_def supervision_matches_def begin_supervision_def
        db_write_def live_ledger_payload get_supervision_def fetchone_None split: option.splits if_splits
        dest!: fetchone_SomeD)
next
  case (4 k d now x d')
  then show ?case
    by (cases k) (auto simp: begin_sup_def
        intro: live_ledger_kept [OF begin_supervision_inv begin_supervision_tasks])
qed (simp_all add: get_supervision_def)

section \<open>The contracts written out\<close>

text \<open>
  At most one sandbox identity per task.  Once \<open>begin_sandbox_creation\<close> has returned a record
  for a live task, calling it again with the same identity (and any credential version) returns
  that record as not created and writes nothing, and calling it with another deployment,
  name, tags or session key fails and writes nothing.
\<close>

lemma sandbox_identity_stable:
  assumes "live_ledger i d" "begin_sandbox_creation now i dep n tg key v d = (Inr (r, new), d')"
  shows "begin_sandbox_creation now' i dep n tg key v' d' =
       (Inr (r, False), d'\<lparr>revision := Suc (revision d')\<rparr>) \<and>
     get_sandbox_creation i d' = Some r \<and>
     ((dep', n', tg', key') \<noteq> (dep, n, tg, key) \<longrightarrow>
        (\<exists>e. begin_sandbox_creation now' i dep' n' tg' key' v' d' = (Inl e, d')))"
proof -
  let ?k = "(i, dep, n, tg, key, v)"
  have u: "live_ledger (fst ?k) d" and b: "begin_creation now ?k d = (Inr (r, new), d')"
    using assms by (simp_all add: begin_creation_def)
  have rec: "get_sandbox_creation i d' = Some r" "creation_matches ?k r"
    using creation.begin_recorded [OF u b] by simp_all
  have u': "live_ledger i d'" using creation.usable_kept [OF u b] by simp
  have "begin_creation now' (i, dep, n, tg, key, v') d' = (Inr (r, False), d'\<lparr>revision := Suc (revision d')\<rparr>)"
    using rec u' by (intro creation.found) (simp_all add: creation_matches_def)
  moreover have "\<exists>e. begin_creation now' (i, dep', n', tg', key', v') d' = (Inl e, d')"
    if "(dep', n', tg', key') \<noteq> (dep, n, tg, key)"
    using rec u' that by (intro creation.conflict [of _ _ r]) (auto simp: creation_matches_def)
  ultimately show ?thesis using rec(1) by (auto simp: begin_creation_def)
qed

lemma sample_reserved_live: "live_ledger ''t1'' sample_reserved"
  using sample_inv(2) by (simp add: live_ledger_def live_task_def) (simp add: sample_reserved_eq new_task_row_def)

lemma sample_payload: "require_payload ''t1'' sample_reserved = None"
  by (rule live_ledger_payload [OF sample_reserved_live])

lemma sandbox_identity_stable_witness:
  "\<exists>r d'. begin_sandbox_creation 9 ''t1'' ''prod'' ''sb'' ''{}'' ''key'' (Some 1) sample_reserved =
       (Inr (r, True), d') \<and>
     begin_sandbox_creation 10 ''t1'' ''prod'' ''sb'' ''{}'' ''key'' (Some 2) d' =
       (Inr (r, False), d'\<lparr>revision := Suc (revision d')\<rparr>) \<and>
     (\<exists>e. begin_sandbox_creation 10 ''t1'' ''prod'' ''other'' ''{}'' ''key'' (Some 2) d' = (Inl e, d'))"
proof -
  obtain r d' where b: "begin_sandbox_creation 9 ''t1'' ''prod'' ''sb'' ''{}'' ''key'' (Some 1)
      sample_reserved = (Inr (r, True), d')"
    by (simp add: begin_sandbox_creation_def db_write_def sample_payload)
      (simp add: sample_reserved_eq empty_database_def insert_creation_def)
  from sandbox_identity_stable [OF sample_reserved_live b, of 10 "Some 2" "''prod''" "''other''" "''{}''" "''key''"]
  show ?thesis using b by auto
qed

text \<open>
  At most one execution identity per task, so a restarted supervisor starts no second run.
  After \<open>begin_supervision\<close> returned a record for a live task, the same identity returns the
  same record and writes nothing; another execution, branch or start key fails.
\<close>

theorem supervision_identity_stable:
  assumes "live_ledger i d" "begin_supervision now i e tb key c d = (Inr (r, new), d')"
  shows "begin_supervision now' i e tb key c' d' = (Inr (r, False), d'\<lparr>revision := Suc (revision d')\<rparr>) \<and>
     get_supervision i d' = Some r \<and>
     ((e', tb', key') \<noteq> (e, tb, key) \<longrightarrow>
        (\<exists>err. begin_supervision now' i e' tb' key' c' d' = (Inl err, d')))"
proof -
  let ?k = "(i, e, tb, key, c)"
  have u: "live_ledger (fst ?k) d" and b: "begin_sup now ?k d = (Inr (r, new), d')"
    using assms by (simp_all add: begin_sup_def)
  have rec: "get_supervision i d' = Some r" "supervision_matches ?k r"
    using supervision.begin_recorded [OF u b] by simp_all
  have u': "live_ledger i d'" using supervision.usable_kept [OF u b] by simp
  have "begin_sup now' (i, e, tb, key, c') d' = (Inr (r, False), d'\<lparr>revision := Suc (revision d')\<rparr>)"
    using rec u' by (intro supervision.found) (simp_all add: supervision_matches_def)
  moreover have "\<exists>err. begin_sup now' (i, e', tb', key', c') d' = (Inl err, d')"
    if "(e', tb', key') \<noteq> (e, tb, key)"
    using rec u' that by (intro supervision.conflict [of _ _ r]) (auto simp: supervision_matches_def)
  ultimately show ?thesis using rec(1) by (auto simp: begin_sup_def)
qed

theorem supervision_identity_stable_witness:
  "\<exists>r d'. begin_supervision 9 ''t1'' ''x1'' ''gg/t1'' ''start'' None sample_reserved = (Inr (r, True), d') \<and>
     begin_supervision 10 ''t1'' ''x1'' ''gg/t1'' ''start'' None d' =
       (Inr (r, False), d'\<lparr>revision := Suc (revision d')\<rparr>) \<and>
     (\<exists>err. begin_supervision 10 ''t1'' ''x2'' ''gg/t1'' ''start'' None d' = (Inl err, d'))"
proof -
  obtain r d' where b: "begin_supervision 9 ''t1'' ''x1'' ''gg/t1'' ''start'' None sample_reserved =
      (Inr (r, True), d')"
    by (simp add: begin_supervision_def db_write_def sample_payload)
      (simp add: sample_reserved_eq empty_database_def)
  from supervision_identity_stable [OF sample_reserved_live b, of 10 None "''x2''" "''gg/t1''" "''start''"]
  show ?thesis using b by auto
qed

text \<open>
  At most one publication identity per task, so a retry opens no second pull request.  After
  \<open>begin_publication\<close> returned a record for a live task, the same identity without a
  different commit returns that record and writes nothing; another repository, branch, base
  or marker, or a commit other than the recorded one, fails.
\<close>

theorem publication_identity_stable:
  assumes "live_ledger i d" "begin_publication now i repo tb br tm cs co ao st det d = (Inr (r, new), d')"
  shows "begin_publication now' i repo tb br tm cs co' ao' st' det' d' =
       (Inr (r, False), d'\<lparr>revision := Suc (revision d')\<rparr>) \<and>
     get_publication i d' = Some r \<and>
     ((repo', tb', br', tm') \<noteq> (repo, tb, br, tm) \<or>
       (\<exists>a b. pr_commit_sha r = Some a \<and> cs' = Some b \<and> a \<noteq> b) \<longrightarrow>
        (\<exists>e. begin_publication now' i repo' tb' br' tm' cs' co' ao' st' det' d' = (Inl e, d')))"
proof -
  let ?k = "(i, repo, tb, br, tm, cs, co, ao, st, det)"
  have u: "live_ledger (fst ?k) d" and b: "begin_pub now ?k d = (Inr (r, new), d')"
    using assms by (simp_all add: begin_pub_def)
  have rec: "get_publication i d' = Some r" "publication_matches ?k r"
    using publication.begin_recorded [OF u b] by simp_all
  have u': "live_ledger i d'" using publication.usable_kept [OF u b] by simp
  have "begin_pub now' (i, repo, tb, br, tm, cs, co', ao', st', det') d' =
      (Inr (r, False), d'\<lparr>revision := Suc (revision d')\<rparr>)"
    using rec u' by (intro publication.found) (simp_all add: publication_matches_def)
  moreover have "\<exists>e. begin_pub now' (i, repo', tb', br', tm', cs', co', ao', st', det') d' = (Inl e, d')"
    if "(repo', tb', br', tm') \<noteq> (repo, tb, br, tm) \<or>
      (\<exists>a b. pr_commit_sha r = Some a \<and> cs' = Some b \<and> a \<noteq> b)"
    using rec u' that by (intro publication.conflict [of _ _ r]) (auto simp: publication_matches_def)
  ultimately show ?thesis using rec(1) by (auto simp: begin_pub_def)
qed

theorem publication_identity_stable_witness:
  "\<exists>r d'. begin_publication 9 ''t1'' ''o/r'' ''gg/t1'' ''main'' ''mark'' (Some ''c1'') CO_PASSED AO_SUCCEEDED
       PS_PENDING None sample_reserved = (Inr (r, True), d') \<and> get_publication ''t1'' d' = Some r \<and>
     (\<exists>e. begin_publication 10 ''t1'' ''o/other'' ''gg/t1'' ''main'' ''mark'' None CO_PASSED AO_SUCCEEDED
       PS_PENDING None d' = (Inl e, d'))"
proof -
  obtain r d' where b: "begin_publication 9 ''t1'' ''o/r'' ''gg/t1'' ''main'' ''mark'' (Some ''c1'')
      CO_PASSED AO_SUCCEEDED PS_PENDING None sample_reserved = (Inr (r, True), d')"
    by (simp add: begin_publication_def db_write_def sample_payload)
      (simp add: sample_reserved_eq empty_database_def)
  from publication_identity_stable [OF sample_reserved_live b, of 10 CO_PASSED AO_SUCCEEDED PS_PENDING None
      "''o/other''" "''gg/t1''" "''main''" "''mark''" None]
  show ?thesis using b by auto
qed

end
