(* ===== verification/Py_Text.thy ===== *)
theory Py_Text
  imports Prelude "HOL-Library.Sublist"
begin

text \<open>
  The methods of Python's \<open>str\<close> that the program uses, on UTF-8 byte strings: \<open>isspace\<close>,
  \<open>strip\<close>, \<open>splitlines\<close>, \<open>replace\<close> and \<open>in\<close>.  White space and line breaks are Python's, not
  only the ASCII ones.
\<close>

section \<open>White space\<close>

text \<open>\<open>str.isspace\<close> on the code points of a UTF-8 string; \<open>not s.strip()\<close> is \<open>blank s\<close>.\<close>

definition ascii_space :: "char \<Rightarrow> bool" where
  "ascii_space c \<longleftrightarrow> (let n = of_char c :: nat in (9 \<le> n \<and> n \<le> 13) \<or> (28 \<le> n \<and> n \<le> 32))"

definition space2 :: "nat \<Rightarrow> nat \<Rightarrow> bool" where
  "space2 a b \<longleftrightarrow> a = 0xC2 \<and> (b = 0x85 \<or> b = 0xA0)"

definition space3 :: "nat \<Rightarrow> nat \<Rightarrow> nat \<Rightarrow> bool" where
  "space3 a b c \<longleftrightarrow> (a = 0xE1 \<and> b = 0x9A \<and> c = 0x80) \<or>
     (a = 0xE2 \<and> b = 0x80 \<and> ((0x80 \<le> c \<and> c \<le> 0x8A) \<or> c = 0xA8 \<or> c = 0xA9 \<or> c = 0xAF)) \<or>
     (a = 0xE2 \<and> b = 0x81 \<and> c = 0x9F) \<or> (a = 0xE3 \<and> b = 0x80 \<and> c = 0x80)"

fun blank :: "string \<Rightarrow> bool" where
  "blank [] = True"
| "blank (a # s) =
     (if ascii_space a then blank s
      else case s of
        [] \<Rightarrow> False
      | b # t \<Rightarrow>
          if space2 (of_char a) (of_char b) then blank t
          else (case t of
            [] \<Rightarrow> False
          | c # u \<Rightarrow> space3 (of_char a) (of_char b) (of_char c) \<and> blank u))"


text \<open>The number of bytes of the space a string begins with, 0 when it begins with none.\<close>

definition space_seq :: "string \<Rightarrow> bool" where
  "space_seq s \<longleftrightarrow> (case s of [a] \<Rightarrow> ascii_space a | [a, b] \<Rightarrow> space2 (of_char a) (of_char b)
     | [a, b, c] \<Rightarrow> space3 (of_char a) (of_char b) (of_char c) | _ \<Rightarrow> False)"

definition space_prefix :: "(string \<Rightarrow> string) \<Rightarrow> string \<Rightarrow> nat" where
  "space_prefix d s = (if space_seq (d (take 1 s)) then 1 else if space_seq (d (take 2 s)) then 2
     else if space_seq (d (take 3 s)) then 3 else 0)"

function drop_spaces :: "(string \<Rightarrow> string) \<Rightarrow> string \<Rightarrow> string" where
  "drop_spaces d s = (let n = space_prefix d s in if n = 0 \<or> s = [] then s else drop_spaces d (drop n s))"
  by pat_completeness auto
termination by (relation "measure (length \<circ> snd)") auto

declare drop_spaces.simps [simp del]

definition strip :: "string \<Rightarrow> string" where
  "strip s = rev (drop_spaces rev (rev (drop_spaces (\<lambda>x. x) s)))"

section \<open>Quotation\<close>

text \<open>\<open>repr\<close> of a text: control characters are escaped, other characters are taken as printable.\<close>

definition hex_digit :: "nat \<Rightarrow> char" where
  "hex_digit n = ''0123456789abcdef'' ! (n mod 16)"

definition repr_char :: "char \<Rightarrow> char \<Rightarrow> string" where
  "repr_char q c = (let n = of_char c :: nat in
     if c = q \<or> n = 92 then [CHR 0x5C, c]
     else if n = 10 then [CHR 0x5C, CHR ''n''] else if n = 13 then [CHR 0x5C, CHR ''r'']
     else if n = 9 then [CHR 0x5C, CHR ''t'']
     else if n < 32 \<or> n = 127 then [CHR 0x5C, CHR ''x'', hex_digit (n div 16), hex_digit n]
     else [c])"

definition py_repr :: "string \<Rightarrow> string" where
  "py_repr s = (let q = (if CHR 0x27 \<in> set s \<and> CHR 0x22 \<notin> set s then CHR 0x22 else CHR 0x27)
     in [q] @ concat (map (repr_char q) s) @ [q])"

section \<open>Lines\<close>

text \<open>The number of bytes of the line break a string begins with.\<close>

definition line_break :: "string \<Rightarrow> nat" where
  "line_break s = (case map (of_char :: char \<Rightarrow> nat) (take 3 s) of
       [] \<Rightarrow> 0
     | a # r \<Rightarrow>
         if a = 13 \<and> r \<noteq> [] \<and> hd r = 10 then 2
         else if (10 \<le> a \<and> a \<le> 13) \<or> (28 \<le> a \<and> a \<le> 30) then 1
         else if a = 0xC2 \<and> r \<noteq> [] \<and> hd r = 0x85 then 2
         else if a = 0xE2 \<and> (r = [0x80, 0xA8] \<or> r = [0x80, 0xA9]) then 3
         else 0)"

function lines_from :: "string \<Rightarrow> string \<Rightarrow> string list" where
  "lines_from acc [] = (if acc = [] then [] else [rev acc])"
| "lines_from acc (c # s) =
     (let n = line_break (c # s)
      in if n = 0 then lines_from (c # acc) s else rev acc # lines_from [] (drop n (c # s)))"
  by pat_completeness auto
termination by (relation "measure (length \<circ> snd)") auto

definition splitlines :: "string \<Rightarrow> string list" where
  "splitlines = lines_from []"

section \<open>Occurrences and replacement\<close>

definition nl :: string where
  "nl = [CHR 0x0A]"

text \<open>\<open>needle in text\<close>.\<close>

fun contains :: "string \<Rightarrow> string \<Rightarrow> bool" where
  "contains needle [] = (needle = [])"
| "contains needle (c # s) = (prefix needle (c # s) \<or> contains needle s)"

lemma contains_iff: "contains n s \<longleftrightarrow> sublist n s"
  by (induction s) (auto simp: sublist_Cons_right)

lemma contains_append: "contains n (a @ n @ b)"
  by (simp add: contains_iff sublist_appendI)

text \<open>\<open>" ".join(words)\<close>, and \<open>text.split()[0]\<close> of a text that does not begin with a space.\<close>

definition join_words :: "string list \<Rightarrow> string" where
  "join_words xs = (case xs of [] \<Rightarrow> [] | y # ys \<Rightarrow> y @ concat (map (\<lambda>z. '' '' @ z) ys))"

fun first_word :: "string \<Rightarrow> string" where
  "first_word [] = []"
| "first_word (c # s) = (if space_prefix (\<lambda>x. x) (c # s) \<noteq> 0 then [] else c # first_word s)"

lemma length_first_word: "length (first_word s) \<le> length s"
  by (induction s) auto

lemma length_drop_spaces: "length (drop_spaces d s) \<le> length s"
proof (induction d s rule: drop_spaces.induct)
  case (1 d s)
  then show ?case by (subst drop_spaces.simps) (fastforce simp: Let_def)
qed

function replace_str :: "string \<Rightarrow> string \<Rightarrow> string \<Rightarrow> string" where
  "replace_str old new [] = []"
| "replace_str old new (c # s) =
     (if old \<noteq> [] \<and> prefix old (c # s) then new @ replace_str old new (drop (length old) (c # s))
      else c # replace_str old new s)"
  by pat_completeness auto
termination by (relation "measure (length \<circ> snd \<circ> snd)") (auto simp: prefix_def)

lemma sublist_sep:
  assumes "x \<notin> set ys"
  shows "sublist ys (as @ x # bs) \<longleftrightarrow> sublist ys as \<or> sublist ys bs"
proof (induction as)
  case Nil
  have "prefix ys (x # bs) \<longleftrightarrow> ys = []" using assms by (cases ys) auto
  then show ?case by (auto simp: sublist_Cons_right)
next
  case (Cons a as)
  have "prefix ys (as' @ x # bs) \<longleftrightarrow> prefix ys as'" for as'
    using assms by (induction as' arbitrary: ys) (auto simp: prefix_Cons)
  from this [of "a # as"] Cons show ?case by (auto simp: sublist_Cons_right)
qed

definition REDACTED :: string where
  "REDACTED = ''[REDACTED]''"

text \<open>A secret the replacement text cannot bring back.\<close>

definition plain_secret :: "string \<Rightarrow> bool" where
  "plain_secret s \<longleftrightarrow> s \<noteq> [] \<and> CHR ''['' \<notin> set s \<and> CHR '']'' \<notin> set s \<and> \<not> sublist s ''REDACTED''"

lemma sublist_redacted:
  assumes "plain_secret k"
  shows "sublist k (REDACTED @ t) \<longleftrightarrow> sublist k t"
proof -
  have "REDACTED @ t = [] @ CHR ''['' # (''REDACTED'' @ CHR '']'' # t)" by (simp add: REDACTED_def)
  then have "sublist k (REDACTED @ t) \<longleftrightarrow> sublist k [] \<or> sublist k (''REDACTED'' @ CHR '']'' # t)"
    using assms by (metis plain_secret_def sublist_sep)
  also have "\<dots> \<longleftrightarrow> sublist k t"
    using assms sublist_sep [of "CHR '']''" k "''REDACTED''" t] by (auto simp: plain_secret_def)
  finally show ?thesis .
qed

lemma prefix_replaced:
  "CHR ''['' \<notin> set p \<Longrightarrow> prefix p (replace_str old REDACTED s) \<Longrightarrow> prefix p s"
proof (induction old REDACTED s arbitrary: p rule: replace_str.induct)
  case (2 old c s)
  show ?case
  proof (cases "old \<noteq> [] \<and> prefix old (c # s)")
    case True
    with 2(3,4) show ?thesis by (cases p) (auto simp: REDACTED_def)
  next
    case False
    with 2(2) [OF False] 2(3,4) show ?thesis by (cases p) auto
  qed
qed simp

text \<open>Redaction never creates an occurrence of a plain secret, and leaves none of the one it redacts.\<close>

lemma sublist_replaced:
  "plain_secret k \<Longrightarrow> sublist k (replace_str old REDACTED s) \<Longrightarrow> sublist k s"
proof (induction old REDACTED s rule: replace_str.induct)
  case (2 old c s)
  show ?case
  proof (cases "old \<noteq> [] \<and> prefix old (c # s)")
    case True
    then have "sublist k (drop (length old) (c # s))"
      using 2(1) [OF True 2(3)] 2(3,4) by (simp add: sublist_redacted)
    then show ?thesis by (meson sublist_drop sublist_order.order_trans)
  next
    case False
    with 2(4) have "prefix k (c # replace_str old REDACTED s) \<or> sublist k (replace_str old REDACTED s)"
      by (simp add: sublist_Cons_right)
    then show ?thesis
    proof
      assume "prefix k (c # replace_str old REDACTED s)"
      then have "prefix k (c # s)"
        using 2(3) prefix_replaced [of "tl k" old s] by (cases k) (auto simp: plain_secret_def)
      then show ?thesis by (rule prefix_imp_sublist)
    next
      assume "sublist k (replace_str old REDACTED s)"
      then show ?thesis using 2(2) [OF False 2(3)] by (simp add: sublist_Cons_right)
    qed
  qed
qed simp

lemma redacted_absent: "plain_secret k \<Longrightarrow> \<not> sublist k (replace_str k REDACTED s)"
proof (induction k REDACTED s rule: replace_str.induct)
  case (1 k)
  then show ?case by (simp add: plain_secret_def)
next
  case (2 k c s)
  show ?case
  proof (cases "k \<noteq> [] \<and> prefix k (c # s)")
    case True
    with 2 show ?thesis by (simp add: sublist_redacted)
  next
    case False
    then have np: "\<not> prefix k (c # s)" using 2(3) by (simp add: plain_secret_def)
    have "\<not> prefix k (c # replace_str k REDACTED s)"
      using np 2(3) prefix_replaced [of "tl k" k s] by (cases k) (auto simp: plain_secret_def)
    with np 2 show ?thesis by (auto simp: sublist_Cons_right)
  qed
qed

end
