(* ===== verification/Task_Service.thy ===== *)
theory Task_Service
  imports Ledger_Intents Py_Text
begin

text \<open>
  \<open>backend/gg/runtime/task_service.py\<close> and the admission and retention part of
  \<open>storage.py\<close>: validation of submissions, storage pressure, submission with idempotent replay
  and conflict, cancellation, retry, results.  What GitHub, the disk and JSON serialisation
  answer is the record \<open>service_env\<close>.  Texts of validation errors carry no interpolated values.
\<close>

section \<open>Text tests of the validator\<close>

definition alnum :: "char \<Rightarrow> bool" where
  "alnum c \<longleftrightarrow> (let n = of_char c :: nat in
     (48 \<le> n \<and> n \<le> 57) \<or> (65 \<le> n \<and> n \<le> 90) \<or> (97 \<le> n \<and> n \<le> 122))"

definition name_char :: "char \<Rightarrow> bool" where
  "name_char c \<longleftrightarrow> alnum c \<or> c \<in> set ''._-''"

definition ref_char :: "char \<Rightarrow> bool" where
  "ref_char c \<longleftrightarrow> alnum c \<or> c \<in> set ''._/-''"

text \<open>\<open>$\<close> matches at the end of the text and before a newline that ends it.\<close>

definition dollar_match :: "(string \<Rightarrow> bool) \<Rightarrow> string \<Rightarrow> bool" where
  "dollar_match p s \<longleftrightarrow> p s \<or> (s \<noteq> [] \<and> last s = CHR 0x0A \<and> p (butlast s))"

definition repository_body :: "string \<Rightarrow> bool" where
  "repository_body s \<longleftrightarrow> (let owner = takeWhile name_char s; rest = dropWhile name_char s
     in owner \<noteq> [] \<and> rest \<noteq> [] \<and> hd rest = CHR ''/'' \<and> tl rest \<noteq> [] \<and> list_all name_char (tl rest))"

definition REPOSITORY_RE :: "string \<Rightarrow> bool" where
  "REPOSITORY_RE = dollar_match repository_body"

definition base_ref_body :: "string \<Rightarrow> bool" where
  "base_ref_body s \<longleftrightarrow> s \<noteq> [] \<and> alnum (hd s) \<and> list_all ref_char (tl s) \<and> length (tl s) \<le> 199"

definition BASE_REF_RE :: "string \<Rightarrow> bool" where
  "BASE_REF_RE = dollar_match base_ref_body"

fun has_dotdot :: "string \<Rightarrow> bool" where
  "has_dotdot (a # b # s) = ((a = CHR ''.'' \<and> b = CHR ''.'') \<or> has_dotdot (b # s))"
| "has_dotdot _ = False"

section \<open>Settings, limits and environment\<close>

record RuntimeSettings =
  max_prompt_chars :: nat
  max_idempotency_key_chars :: nat
  max_base_ref_chars :: nat
  terminal_retention_days :: int
  tombstone_retention_days :: int
  max_log_evidence_bytes :: nat
  max_artifact_bytes :: nat
  max_total_evidence_bytes :: nat
  min_free_disk_bytes :: nat
  task_evidence_dir :: bool

record StorageLimits =
  sl_terminal_retention :: int
  sl_tombstone_retention :: int
  sl_max_log_evidence_bytes :: nat
  sl_max_artifact_bytes :: nat
  sl_max_total_evidence_bytes :: nat
  sl_min_free_disk_bytes :: nat
  sl_evidence_dir :: bool

definition from_settings :: "RuntimeSettings \<Rightarrow> StorageLimits" where
  "from_settings s = \<lparr>sl_terminal_retention = days (terminal_retention_days s),
     sl_tombstone_retention = days (tombstone_retention_days s),
     sl_max_log_evidence_bytes = max_log_evidence_bytes s,
     sl_max_artifact_bytes = max_artifact_bytes s,
     sl_max_total_evidence_bytes = max_total_evidence_bytes s,
     sl_min_free_disk_bytes = min_free_disk_bytes s, sl_evidence_dir = task_evidence_dir s\<rparr>"

text \<open>
  \<open>se_resolve\<close> is \<open>RepositoryAuthorization.resolve\<close> (owner, repository, ref to SHA or
  error), \<open>None\<close> when the service has no authorization; \<open>se_private_key\<close> says whether the
  GitHub App key is configured; the byte counts come from \<open>shutil.disk_usage\<close> and the
  evidence directory.
\<close>

record service_env =
  se_settings :: RuntimeSettings
  se_resolve :: "(string \<Rightarrow> string \<Rightarrow> string \<Rightarrow> error + string) option"
  se_private_key :: bool
  se_free_disk :: nat
  se_dir_bytes :: nat
  se_event_bytes :: "Event \<Rightarrow> nat"
  se_manifest_bytes :: "TaskResultManifest \<Rightarrow> nat"

section \<open>Storage pressure and the retention pass\<close>

definition measure_total_evidence :: "service_env \<Rightarrow> StorageLimits \<Rightarrow> database \<Rightarrow> nat" where
  "measure_total_evidence env limits d =
     count_total_evidence_bytes (se_event_bytes env) (se_manifest_bytes env) d +
     (if sl_evidence_dir limits then se_dir_bytes env else 0)"

definition admission_pressure :: "service_env \<Rightarrow> StorageLimits \<Rightarrow> database \<Rightarrow> string option" where
  "admission_pressure env limits d =
     (if sl_evidence_dir limits \<and> se_free_disk env < sl_min_free_disk_bytes limits
      then Some ''free disk below minimum''
      else if sl_max_total_evidence_bytes limits \<le> measure_total_evidence env limits d
      then Some ''total evidence at or above cap''
      else None)"

definition run_retention_pass :: "StorageLimits \<Rightarrow> timestamp \<Rightarrow> (nat \<times> nat) ledger_op" where
  "run_retention_pass limits moment =
     andThen (expire_terminal_payloads moment (moment - sl_terminal_retention limits)
                (sl_tombstone_retention limits)) (\<lambda>payloads.
     andThen (purge_expired_tombstones (moment - sl_tombstone_retention limits)) (\<lambda>tombstones.
     ret (payloads, tombstones)))"

section \<open>Submission\<close>

definition validate :: "RuntimeSettings \<Rightarrow> CreateTaskRequest \<Rightarrow> error option" where
  "validate s r =
     (if ct_model r \<notin> set PI_MODEL_CATALOG then Some (TaskValidationError ''unsupported model'')
      else if (case ct_repository r of None \<Rightarrow> False | Some p \<Rightarrow> \<not> REPOSITORY_RE p)
      then Some (TaskValidationError ''repository must be owner/name'')
      else if ct_repository r \<noteq> None \<and> ct_base_ref r = None
      then Some (TaskValidationError ''base_ref is required with repository'')
      else if ct_repository r = None \<and> ct_base_ref r \<noteq> None
      then Some (TaskValidationError ''base_ref requires repository'')
      else if blank (ct_prompt r) then Some (TaskValidationError ''prompt must be non-empty'')
      else if max_prompt_chars s < py_len (ct_prompt r)
      then Some (TaskValidationError ''prompt length exceeds max'')
      else if ct_idempotency_key r = [] \<or> blank (ct_idempotency_key r)
      then Some (TaskValidationError ''idempotency_key must be non-empty'')
      else if max_idempotency_key_chars s < py_len (ct_idempotency_key r)
      then Some (TaskValidationError ''idempotency_key length exceeds max'')
      else (case ct_base_ref r of
          None \<Rightarrow> None
        | Some b \<Rightarrow>
            if \<not> BASE_REF_RE b then Some (TaskValidationError ''base_ref is not a valid git ref'')
            else if has_dotdot b then Some (TaskValidationError ''base_ref must not contain ..'')
            else if max_base_ref_chars s < py_len b
            then Some (TaskValidationError ''base_ref length exceeds max'')
            else None))"

definition matches_existing :: "TaskRecord \<Rightarrow> CreateTaskRequest \<Rightarrow> bool" where
  "matches_existing existing r \<longleftrightarrow> tr_repository existing = ct_repository r \<and>
     tr_prompt existing = ct_prompt r \<and> tr_base_ref existing = ct_base_ref r \<and>
     tr_retry_of existing = ct_retry_of r \<and> tr_model existing = ct_model r"

text \<open>The repository check of an owned submission: the branch's commit, or the error.\<close>

definition resolve_base :: "service_env \<Rightarrow> string option \<Rightarrow> CreateTaskRequest \<Rightarrow> error + string option" where
  "resolve_base env owner_id r =
     (case (ct_repository r, owner_id) of
        (Some repository, Some owner) \<Rightarrow>
          (case se_resolve env of
             None \<Rightarrow> Inl (TaskValidationError ''GitHub repository authorization unavailable'')
           | Some resolve \<Rightarrow>
               if \<not> se_private_key env
               then Inl (TaskValidationError ''GitHub App private key is not configured'')
               else (case resolve owner repository (str_or (ct_base_ref r) []) of
                       Inl (RepositoryAccessError m) \<Rightarrow> Inl (TaskValidationError m)
                     | Inl e \<Rightarrow> Inl e
                     | Inr sha \<Rightarrow> Inr (Some sha)))
      | _ \<Rightarrow> Inr None)"

text \<open>What follows the ledger's answer: a conflict, the recording of the commit, or the record.\<close>

definition settle_submission ::
  "timestamp \<Rightarrow> CreateTaskRequest \<Rightarrow> string option \<Rightarrow> TaskRecord \<times> bool \<Rightarrow> (TaskRecord \<times> bool) ledger_op" where
  "settle_submission now r base_sha = (\<lambda>(record, created).
     if \<not> created \<and> \<not> tr_payload_expired record \<and> \<not> matches_existing record r
     then raise (TaskConflictError record)
     else if created \<and> base_sha \<noteq> None
     then andThen (record_base_sha now (tr_id record) base_sha) (\<lambda>updated. ret (updated, created))
     else ret (record, created))"

definition submit_task ::
  "service_env \<Rightarrow> string \<Rightarrow> timestamp \<Rightarrow> CreateTaskRequest \<Rightarrow> string option \<Rightarrow>
   (TaskRecord \<times> bool) ledger_op" where
  "submit_task env fresh_id now r owner_id =
     (case validate (se_settings env) r of
        Some e \<Rightarrow> raise e
      | None \<Rightarrow>
        (case resolve_base env owner_id r of
           Inl e \<Rightarrow> raise e
         | Inr base_sha \<Rightarrow>
           andThen (reading (\<lambda>d. case ct_retry_of r of
               None \<Rightarrow> True | Some p \<Rightarrow> get_task p owner_id d \<noteq> None)) (\<lambda>accessible.
           if \<not> accessible
           then raise (TaskValidationError ''retry_of must refer to an accessible task'')
           else
           andThen (reading (admission_pressure env (from_settings (se_settings env)))) (\<lambda>pressure.
           case pressure of
             Some reason \<Rightarrow> raise (StoragePressureError reason)
           | None \<Rightarrow>
           andThen (submit fresh_id now (ct_idempotency_key r) (ct_repository r) (ct_prompt r)
                      (ct_base_ref r) (ct_retry_of r) (ct_model r) owner_id)
             (settle_submission now r base_sha)))))"

section \<open>Control and results\<close>

definition TaskState_value :: "TaskState \<Rightarrow> string" where
  "TaskState_value s = (case s of TS_QUEUED \<Rightarrow> ''queued'' | TS_STARTING \<Rightarrow> ''starting'' | TS_RUNNING \<Rightarrow> ''running''
     | TS_IDLE \<Rightarrow> ''idle'' | TS_SLEEPING \<Rightarrow> ''sleeping'' | TS_FINALIZING \<Rightarrow> ''finalizing''
     | TS_COMPLETED \<Rightarrow> ''completed'' | TS_FAILED \<Rightarrow> ''failed'' | TS_CANCELLED \<Rightarrow> ''cancelled'')"

definition cancel_task :: "timestamp \<Rightarrow> string \<Rightarrow> string option \<Rightarrow> TaskRecord ledger_op" where
  "cancel_task now task_id owner_id =
     andThen (reading (get_task task_id owner_id)) (\<lambda>found.
     case found of
       None \<Rightarrow> raise (TaskControlError (''unknown task '' @ task_id))
     | Some record \<Rightarrow>
         if tr_state record = TS_CANCELLED then ret record
         else if tr_state record = TS_QUEUED
         then andThen (cancel_queued_task now task_id) (\<lambda>cancelled.
                case cancelled of None \<Rightarrow> raise AssertionError | Some c \<Rightarrow> ret c)
         else if tr_state record \<notin> {TS_STARTING, TS_RUNNING}
         then raise (TaskControlError (''task '' @ task_id @ '' in state '' @ TaskState_value (tr_state record) @ '' cannot be cancelled''))
         else andThen (request_task_cancel now task_id) (\<lambda>_.
                andThen (reading (get_task task_id None)) (\<lambda>current.
                  case current of None \<Rightarrow> ret record | Some c \<Rightarrow> ret c)))"

definition retry_request :: "TaskRecord \<Rightarrow> string \<Rightarrow> RetryTaskRequest \<Rightarrow> error + CreateTaskRequest" where
  "retry_request predecessor task_id r =
     (if tr_state predecessor \<notin> {TS_COMPLETED, TS_FAILED, TS_CANCELLED}
      then Inl (TaskControlError ''retry is only available after terminal execution'')
      else if tr_sandbox_cleanup_status predecessor \<noteq> Some ''confirmed_absent''
      then Inl (TaskControlError ''retry requires confirmed sandbox cleanup of the predecessor'')
      else
        (let base_ref = py_or (rt_base_ref r) (tr_base_ref predecessor)
         in if tr_repository predecessor \<noteq> None \<and> base_ref = None
            then Inl (TaskControlError ''retry requires a recorded base ref or explicit base_ref'')
            else Inr \<lparr>ct_repository = tr_repository predecessor, ct_prompt = tr_prompt predecessor,
                      ct_idempotency_key = rt_idempotency_key r, ct_base_ref = base_ref,
                      ct_retry_of = Some task_id, ct_model = tr_model predecessor\<rparr>))"

definition retry_task ::
  "service_env \<Rightarrow> string \<Rightarrow> timestamp \<Rightarrow> string \<Rightarrow> RetryTaskRequest \<Rightarrow> string option \<Rightarrow>
   (TaskRecord \<times> bool) ledger_op" where
  "retry_task env fresh_id now task_id r owner_id =
     andThen (reading (get_task task_id owner_id)) (\<lambda>found.
     case found of
       None \<Rightarrow> raise (TaskControlError (''unknown task '' @ task_id))
     | Some predecessor \<Rightarrow>
         (case retry_request predecessor task_id r of
            Inl e \<Rightarrow> raise e
          | Inr create \<Rightarrow> submit_task env fresh_id now create owner_id))"

definition workspace_expiry :: "TaskRecord \<Rightarrow> timestamp option" where
  "workspace_expiry record =
     (if tr_state record \<in> {TS_QUEUED, TS_STARTING, TS_RUNNING, TS_IDLE, TS_SLEEPING}
      then Some (coalesce_to (tr_workspace_last_activity_at record) (tr_updated_at record) + days 7)
      else None)"

definition result_task :: "string \<Rightarrow> string option \<Rightarrow> database \<Rightarrow> error + TaskResultRecord" where
  "result_task task_id owner_id d =
     (case get_task task_id owner_id d of
        None \<Rightarrow> Inl (TaskControlError (''unknown task '' @ task_id))
      | Some record \<Rightarrow>
          (let archive = get_task_result task_id d;
               publication = get_publication task_id d;
               supervision = get_supervision task_id d
           in Inr \<lparr>rr_task_id = tr_id record, rr_state = tr_state record,
                rr_execution_id = (case archive of None \<Rightarrow> None | Some a \<Rightarrow> ta_execution_id a),
                rr_manifest = (case archive of None \<Rightarrow> None | Some a \<Rightarrow> ta_manifest a),
                rr_publication = publication,
                rr_evidence_complete = (case archive of None \<Rightarrow> False | Some a \<Rightarrow> ta_evidence_complete a),
                rr_evidence_detail = (case archive of None \<Rightarrow> None | Some a \<Rightarrow> ta_evidence_detail a),
                rr_sandbox_cleanup_status = tr_sandbox_cleanup_status record,
                rr_outcome_detail = tr_outcome_detail record, rr_check_status = tr_check_status record,
                rr_retry_of = tr_retry_of record,
                rr_prior_task_branch = map_option sv_task_branch supervision,
                rr_prior_pr_url = (case publication of None \<Rightarrow> None | Some p \<Rightarrow> pr_pr_url p),
                rr_workspace_available = (tr_state record \<in> {TS_STARTING, TS_RUNNING, TS_IDLE}),
                rr_workspace_expires_at = workspace_expiry record,
                rr_workspace_expired = tr_workspace_expired record,
                rr_updated_at = tr_updated_at record\<rparr>))"

section \<open>Properties of the validator\<close>

lemma takeWhile_split: "s = takeWhile P s @ dropWhile P s"
  by simp

lemma repository_body_split:
  "repository_body s \<Longrightarrow> \<exists>owner name. s = owner @ CHR ''/'' # name \<and> owner \<noteq> [] \<and> name \<noteq> [] \<and>
     list_all name_char owner \<and> list_all name_char name"
proof -
  assume a: "repository_body s"
  define owner where "owner = takeWhile name_char s"
  define rest where "rest = dropWhile name_char s"
  have s: "s = owner @ rest" by (simp add: owner_def rest_def)
  have "list_all name_char owner" by (auto simp: owner_def list_all_iff dest: set_takeWhileD)
  moreover from a have r: "owner \<noteq> []" "rest \<noteq> []" "hd rest = CHR ''/''" "tl rest \<noteq> []"
    "list_all name_char (tl rest)"
    by (auto simp: repository_body_def Let_def owner_def rest_def)
  moreover have "rest = CHR ''/'' # tl rest" using r by (metis list.collapse)
  ultimately show ?thesis using s by metis
qed

lemma dollar_match_split:
  "dollar_match p s \<Longrightarrow> \<exists>body nl. s = body @ nl \<and> (nl = [] \<or> nl = [CHR 0x0A]) \<and> p body"
  unfolding dollar_match_def by (metis append_butlast_last_id append_Nil2)

text \<open>
  what a validated submission looks like.  Its repository is two non-empty names of letters,
  digits, dots, underscores and hyphens around one slash, its base ref is present exactly with a
  repository, starts with a letter or digit, holds at most two hundred ref characters and no
  double dot (either may be followed by one newline, which the pattern's end anchor lets pass),
  its prompt and key are not blank and within their limits, and its model is one of the catalog.
\<close>

theorem validate_accepts_only:
  assumes "validate s r = None"
  shows "ct_model r \<in> set PI_MODEL_CATALOG \<and>
    (ct_repository r = None \<longleftrightarrow> ct_base_ref r = None) \<and>
    (\<forall>p. ct_repository r = Some p \<longrightarrow> (\<exists>owner name nl. p = owner @ CHR ''/'' # name @ nl \<and>
        owner \<noteq> [] \<and> name \<noteq> [] \<and> list_all name_char owner \<and> list_all name_char name \<and>
        (nl = [] \<or> nl = [CHR 0x0A]))) \<and>
    (\<forall>b. ct_base_ref r = Some b \<longrightarrow> \<not> has_dotdot b \<and> py_len b \<le> max_base_ref_chars s \<and>
        (\<exists>body nl. b = body @ nl \<and> (nl = [] \<or> nl = [CHR 0x0A]) \<and> body \<noteq> [] \<and> alnum (hd body) \<and>
           list_all ref_char (tl body) \<and> length body \<le> 200)) \<and>
    \<not> blank (ct_prompt r) \<and> py_len (ct_prompt r) \<le> max_prompt_chars s \<and>
    \<not> blank (ct_idempotency_key r) \<and> py_len (ct_idempotency_key r) \<le> max_idempotency_key_chars s"
proof -
  have v: "ct_model r \<in> set PI_MODEL_CATALOG" "ct_repository r = None \<longleftrightarrow> ct_base_ref r = None"
    "\<not> blank (ct_prompt r)" "py_len (ct_prompt r) \<le> max_prompt_chars s"
    "\<not> blank (ct_idempotency_key r)" "py_len (ct_idempotency_key r) \<le> max_idempotency_key_chars s"
    using assms by (auto simp: validate_def not_less split: if_splits)
  have repo: "\<exists>owner name nl. p = owner @ CHR ''/'' # name @ nl \<and> owner \<noteq> [] \<and> name \<noteq> [] \<and>
      list_all name_char owner \<and> list_all name_char name \<and> (nl = [] \<or> nl = [CHR 0x0A])"
    if "ct_repository r = Some p" for p
  proof -
    have "REPOSITORY_RE p" using assms that by (auto simp: validate_def split: if_splits)
    from dollar_match_split [OF this [unfolded REPOSITORY_RE_def]] obtain body nl
      where "p = body @ nl" "nl = [] \<or> nl = [CHR 0x0A]" "repository_body body" by blast
    moreover from repository_body_split [OF this(3)] obtain owner name where
      "body = owner @ CHR ''/'' # name" "owner \<noteq> []" "name \<noteq> []"
      "list_all name_char owner" "list_all name_char name" by blast
    ultimately show ?thesis by (intro exI [of _ owner] exI [of _ name] exI [of _ nl]) simp
  qed
  have ref: "\<not> has_dotdot b \<and> py_len b \<le> max_base_ref_chars s \<and> BASE_REF_RE b"
    if "ct_base_ref r = Some b" for b
    using assms that by (auto simp: validate_def not_less split: if_splits)
  have body: "\<exists>body nl. b = body @ nl \<and> (nl = [] \<or> nl = [CHR 0x0A]) \<and> body \<noteq> [] \<and> alnum (hd body) \<and>
      list_all ref_char (tl body) \<and> length body \<le> 200" if "BASE_REF_RE b" for b
  proof -
    from dollar_match_split [OF that [unfolded BASE_REF_RE_def]] obtain body nl
      where "b = body @ nl" "nl = [] \<or> nl = [CHR 0x0A]" "base_ref_body body" by blast
    then show ?thesis by (intro exI [of _ body] exI [of _ nl]) (auto simp: base_ref_body_def)
  qed
  show ?thesis using v repo ref body by simp
qed

definition sample_settings :: RuntimeSettings where
  "sample_settings = \<lparr>max_prompt_chars = 100, max_idempotency_key_chars = 100, max_base_ref_chars = 100,
     terminal_retention_days = 30, tombstone_retention_days = 90, max_log_evidence_bytes = 10000,
     max_artifact_bytes = 10000, max_total_evidence_bytes = 100000, min_free_disk_bytes = 0,
     task_evidence_dir = False\<rparr>"

definition sample_request :: CreateTaskRequest where
  "sample_request = \<lparr>ct_repository = Some (''o/r'' @ [CHR 0x0A]), ct_prompt = ''p'',
     ct_idempotency_key = ''k1'', ct_base_ref = Some ''main'', ct_retry_of = None,
     ct_model = DEFAULT_PI_MODEL\<rparr>"

text \<open>A repository name followed by a newline passes the validator.\<close>

lemma validate_trailing_newline: "validate sample_settings sample_request = None"
  by (simp add: validate_def sample_request_def sample_settings_def REPOSITORY_RE_def dollar_match_def
      repository_body_def name_char_def alnum_def BASE_REF_RE_def base_ref_body_def ref_char_def
      ascii_space_def space2_def py_len_def is_cont_def PI_MODEL_CATALOG_def)

theorem validate_accepts_only_witness:
  "ct_model sample_request \<in> set PI_MODEL_CATALOG \<and> \<not> blank (ct_prompt sample_request) \<and>
   py_len (ct_prompt sample_request) \<le> max_prompt_chars sample_settings"
  using validate_accepts_only [OF validate_trailing_newline] by blast

section \<open>Replay, conflict and retry\<close>

lemma submit_existing:
  assumes inv: "ledger_inv d" and t: "t \<in> set (tasks d)"
  shows "submit i now (t_idempotency_key t) repo p br ro mo (t_owner_id t) d =
     (Inr (row_to_record t None, False), d\<lparr>revision := Suc (revision d)\<rparr>)"
proof -
  have "fetchone (\<lambda>r. t_idempotency_key r = t_idempotency_key t \<and> t_owner_id r = t_owner_id t)
      (tasks d) = Some t"
    using t task_identity_unique [OF inv _ t] by (intro fetchone_unique) auto
  then show ?thesis by (simp add: submit_def db_write_def)
qed

text \<open>
  C22: replay and conflict.  When the owner already has a task under the key and the submission
  passes validation, repository access and storage checks, an identical submission returns
  that task, a different one raises a conflict that carries it, a task whose payload expired
  is returned whatever the submission says; in all three cases only the revision moves.
\<close>

theorem submit_task_replay:
  assumes inv: "ledger_inv d" and t: "t \<in> set (tasks d)" "t_idempotency_key t = ct_idempotency_key r"
    and ok: "validate (se_settings env) r = None" "resolve_base env (t_owner_id t) r = Inr sha"
      "\<forall>p. ct_retry_of r = Some p \<longrightarrow> get_task p (t_owner_id t) d \<noteq> None"
      "admission_pressure env (from_settings (se_settings env)) d = None"
  shows "submit_task env i now r (t_owner_id t) d =
     (if t_payload_expired t \<or> matches_existing (row_to_record t None) r
      then Inr (row_to_record t None, False) else Inl (TaskConflictError (row_to_record t None)),
      d\<lparr>revision := Suc (revision d)\<rparr>)"
proof -
  have acc: "case ct_retry_of r of None \<Rightarrow> True | Some p \<Rightarrow> get_task p (t_owner_id t) d \<noteq> None"
    using ok(3) by (auto split: option.splits)
  have exp: "tr_payload_expired (row_to_record t None) = t_payload_expired t"
    by (simp add: row_to_record_def)
  show ?thesis
    using ok(1,2,4) acc submit_existing [OF inv t(1)]
    by (simp add: submit_task_def settle_submission_def io_simps t(2) [symmetric] exp)
qed

definition sample_env :: service_env where
  "sample_env = \<lparr>se_settings = sample_settings, se_resolve = None, se_private_key = False,
     se_free_disk = 0, se_dir_bytes = 0, se_event_bytes = (\<lambda>_. 1), se_manifest_bytes = (\<lambda>_. 1)\<rparr>"

lemma sample_pressure: "admission_pressure sample_env (from_settings sample_settings) sample_submitted = None"
  by (simp add: admission_pressure_def sample_env_def sample_settings_def from_settings_def
      measure_total_evidence_def count_total_evidence_bytes_def sample_submitted_eq empty_database_def)

theorem submit_task_replay_witness:
  "fst (submit_task sample_env ''t9'' 9 sample_request None sample_submitted) =
     Inl (TaskConflictError (row_to_record (hd (tasks sample_submitted)) None))"
proof -
  let ?t = "hd (tasks sample_submitted)"
  have t: "?t \<in> set (tasks sample_submitted)" "t_idempotency_key ?t = ct_idempotency_key sample_request"
    "t_owner_id ?t = None" "\<not> t_payload_expired ?t"
    "\<not> matches_existing (row_to_record ?t None) sample_request"
    by (simp_all add: sample_submitted_eq new_task_row_def sample_request_def matches_existing_def
        row_to_record_def str_or_def)
  have "submit_task sample_env ''t9'' 9 sample_request (t_owner_id ?t) sample_submitted =
      (if t_payload_expired ?t \<or> matches_existing (row_to_record ?t None) sample_request
       then Inr (row_to_record ?t None, False) else Inl (TaskConflictError (row_to_record ?t None)),
       sample_submitted\<lparr>revision := Suc (revision sample_submitted)\<rparr>)"
    by (rule submit_task_replay [OF sample_inv(1) t(1,2), where sha = None])
      (use t(3) validate_trailing_newline sample_pressure in
        \<open>simp_all add: sample_env_def resolve_base_def sample_request_def\<close>)
  then show ?thesis using t by simp
qed

lemma submit_task_created:
  assumes "submit_task env i now r u d = (Inr (rec, True), d')"
  shows "validate (se_settings env) r = None \<and> tr_id rec = i \<and> tr_state rec = TS_QUEUED \<and>
    tr_idempotency_key rec = ct_idempotency_key r \<and> tr_prompt rec = ct_prompt r \<and>
    tr_base_ref rec = ct_base_ref r \<and> tr_retry_of rec = ct_retry_of r \<and> tr_model rec = ct_model r \<and>
    tr_owner_id rec = u \<and> tr_seq rec = Suc (task_seq d)"
proof -
  let ?s = "submit i now (ct_idempotency_key r) (ct_repository r) (ct_prompt r) (ct_base_ref r)
      (ct_retry_of r) (ct_model r) u d"
  have v: "validate (se_settings env) r = None"
    using assms by (auto simp: submit_task_def io_simps split: option.splits)
  from assms v obtain sha where sha: "resolve_base env u r = Inr sha"
    by (auto simp: submit_task_def io_simps split: sum.splits)
  have acc: "case ct_retry_of r of None \<Rightarrow> True | Some p \<Rightarrow> get_task p u d \<noteq> None"
    and press: "admission_pressure env (from_settings (se_settings env)) d = None"
    using assms v sha by (auto simp: submit_task_def io_simps split: if_splits option.splits)
  have sub: "(case fst ?s of Inl e \<Rightarrow> (Inl e, snd ?s)
      | Inr x \<Rightarrow> settle_submission now r sha x (snd ?s)) = (Inr (rec, True), d')"
    using assms v sha acc press by (simp add: submit_task_def io_simps)
  show ?thesis
  proof (rule submit_cases [of i now "ct_idempotency_key r" "ct_repository r" "ct_prompt r"
        "ct_base_ref r" "ct_retry_of r" "ct_model r" u d])
    assume a: "fst ?s = Inr (new_task_record i now (Suc (task_seq d)) (ct_idempotency_key r) u
        (ct_repository r) (ct_prompt r) (ct_base_ref r) (ct_retry_of r) (ct_model r), True)"
      "snd ?s = d\<lparr>task_seq := Suc (task_seq d), tasks := tasks d @ [new_task_row i now
        (Suc (task_seq d)) (ct_idempotency_key r) u (ct_repository r) (ct_prompt r) (ct_base_ref r)
        (ct_retry_of r) (ct_model r)], revision := Suc (revision d)\<rparr>"
    let ?row = "new_task_row i now (Suc (task_seq d)) (ct_idempotency_key r) u (ct_repository r)
        (ct_prompt r) (ct_base_ref r) (ct_retry_of r) (ct_model r)"
    show ?thesis
    proof (cases sha)
      case None
      then show ?thesis using sub a v
        by (auto simp: settle_submission_def io_simps new_task_record_def)
    next
      case (Some x)
      have one: "rowcount (\<lambda>r. t_id r = i) (tasks d @ [?row]) = 1 \<Longrightarrow>
          fetchone (\<lambda>r. t_id r = i) (tasks d) = None"
        by (auto simp: rowcount_def new_task_row_def fetchone_None filter_empty_conv)
      from Some sub a one v show ?thesis
        by (auto simp: settle_submission_def io_simps new_task_record_def record_base_sha_def db_write_def Let_def sql_simps
            row_to_record_def split: if_splits option.splits) (auto simp: new_task_row_def)
    qed
  qed (use sub in \<open>auto simp: settle_submission_def io_simps split: if_splits\<close>)
qed

text \<open>
  A retry is a new queued task linked to a finished predecessor whose sandbox is confirmed
  absent.  It has the predecessor's prompt and model, the explicit base ref or else the
  predecessor's ref, and no starting commit of the predecessor.
\<close>

lemma retry_task_linked:
  assumes "retry_task env i now task_id r u d = (Inr (rec, True), d')"
  shows "\<exists>p. get_task task_id u d = Some p \<and>
    tr_state p \<in> {TS_COMPLETED, TS_FAILED, TS_CANCELLED} \<and>
    tr_sandbox_cleanup_status p = Some ''confirmed_absent'' \<and>
    tr_id rec = i \<and> tr_state rec = TS_QUEUED \<and> tr_retry_of rec = Some task_id \<and>
    tr_prompt rec = tr_prompt p \<and> tr_model rec = tr_model p \<and>
    tr_base_ref rec = py_or (rt_base_ref r) (tr_base_ref p) \<and> tr_owner_id rec = u"
proof -
  from assms obtain p where p: "get_task task_id u d = Some p"
    by (auto simp: retry_task_def io_simps split: option.splits)
  with assms obtain c where c: "retry_request p task_id r = Inr c"
    "submit_task env i now c u d = (Inr (rec, True), d')"
    by (auto simp: retry_task_def io_simps split: sum.splits)
  have "tr_state p \<in> {TS_COMPLETED, TS_FAILED, TS_CANCELLED}"
    "tr_sandbox_cleanup_status p = Some ''confirmed_absent''"
    "ct_prompt c = tr_prompt p" "ct_model c = tr_model p" "ct_retry_of c = Some task_id"
    "ct_base_ref c = py_or (rt_base_ref r) (tr_base_ref p)"
    using c(1) by (auto simp: retry_request_def Let_def split: if_splits)
  with p submit_task_created [OF c(2)] show ?thesis by auto
qed

definition sample_plain_finished :: database where
  "sample_plain_finished = empty_database\<lparr>task_seq := 1,
     tasks := [(new_task_row ''t1'' 5 1 ''k1'' None None ''p'' None None DEFAULT_PI_MODEL)
        \<lparr>t_state := TS_FAILED, t_sandbox_cleanup_status := Some ''confirmed_absent''\<rparr>]\<rparr>"

lemma sample_retry_ok:
  "\<exists>rec d'. retry_task sample_env ''t2'' 9 ''t1'' \<lparr>rt_idempotency_key = ''k2'', rt_base_ref = None\<rparr> None
     sample_plain_finished = (Inr (rec, True), d')"
  by (simp add: retry_task_def io_simps get_task_def sample_plain_finished_def empty_database_def
      new_task_row_def row_to_record_def str_or_def retry_request_def submit_task_def validate_def
      sample_env_def sample_settings_def PI_MODEL_CATALOG_def ascii_space_def space2_def py_len_def is_cont_def
      resolve_base_def settle_submission_def admission_pressure_def from_settings_def measure_total_evidence_def
      count_total_evidence_bytes_def submit_def db_write_def insert_task_def)

lemma retry_task_linked_witness:
  "\<exists>rec d'. retry_task sample_env ''t2'' 9 ''t1'' \<lparr>rt_idempotency_key = ''k2'', rt_base_ref = None\<rparr> None
     sample_plain_finished = (Inr (rec, True), d') \<and> tr_retry_of rec = Some ''t1'' \<and> tr_state rec = TS_QUEUED"
  using sample_retry_ok retry_task_linked by fastforce

text \<open>A task cancelled in the queue never had a sandbox, so its retry is refused.\<close>

lemma retry_after_queue_cancel_refused:
  assumes "get_task task_id u d = Some p" "tr_state p = TS_CANCELLED" "tr_sandbox_cleanup_status p = None"
  shows "retry_task env i now task_id r u d =
    (Inl (TaskControlError ''retry requires confirmed sandbox cleanup of the predecessor''), d)"
  using assms by (simp add: retry_task_def retry_request_def io_simps)

section \<open>Cancellation\<close>

lemma get_task_row:
  assumes "ledger_inv d" "t \<in> set (tasks d)" "u = None \<or> t_owner_id t = u"
  shows "get_task (t_id t) u d = Some (row_to_record t (joined_outcome d t))"
proof -
  have row: "fetchone (\<lambda>r. t_id r = t_id t) (tasks d) = Some t"
    using fetchone_key [OF inv_task_ids [OF assms(1)]] assms(2) by simp
  have own: "fetchone (\<lambda>r. t_id r = t_id t \<and> t_owner_id r = Some x) (tasks d) = Some t" if "u = Some x" for x
    using assms(2,3) that task_identity_unique [OF assms(1) _ assms(2)] by (intro fetchone_unique) auto
  show ?thesis using row own by (cases u) (simp_all add: get_task_def)
qed

lemma request_task_cancel_effect:
  assumes inv: "ledger_inv d"
  shows "\<exists>x d'. request_task_cancel now i d = (Inr x, d') \<and> tasks d' = tasks d \<and>
    task_results d' = task_results d \<and>
    (\<forall>s. get_supervision i d = Some s \<longrightarrow>
       (\<exists>s'. get_supervision i d' = Some s' \<and> sv_cancel_requested s' \<and>
          sv_execution_id s' = sv_execution_id s \<and> sv_start_key s' = sv_start_key s))"
proof (cases "get_supervision i d")
  case None
  then show ?thesis by (simp add: request_task_cancel_def io_simps)
next
  case (Some s)
  have s: "s \<in> set (task_supervisions d)" "sv_task_id s = i"
    using Some by (auto simp: get_supervision_def dest!: fetchone_SomeD)
  have "distinct (map sv_start_key (task_supervisions d))" using inv by (simp add: inv_defs)
  then have "\<not> exists_row (\<lambda>r. sv_task_id r \<noteq> i \<and> sv_start_key r = sv_start_key s) (task_supervisions d)"
    using s distinct_key_unique [of sv_start_key "task_supervisions d" _ s] by auto
  then show ?thesis using Some s(2)
    by (simp add: request_task_cancel_def update_supervision_def io_simps db_write_def Let_def
        get_supervision_def sql_simps str_or_def del: exists_row_iff)
qed

text \<open>
  Cancellation by state.  A queued task is cancelled at once, a starting or running one keeps
  its state and its supervision, if it has one, is marked for cancellation, a cancelled one is
  returned as it is, and in every other state the call raises and changes nothing.
\<close>

lemma cancel_task_by_state:
  assumes inv: "ledger_inv d" and t: "t \<in> set (tasks d)" and own: "u = None \<or> t_owner_id t = u"
  shows "case cancel_task now (t_id t) u d of
     (Inl e, d') \<Rightarrow> d' = d \<and> t_state t \<in> {TS_IDLE, TS_SLEEPING, TS_FINALIZING, TS_COMPLETED, TS_FAILED}
   | (Inr rec, d') \<Rightarrow> tr_id rec = t_id t \<and>
       t_state t \<in> {TS_QUEUED, TS_STARTING, TS_RUNNING, TS_CANCELLED} \<and>
       (t_state t = TS_CANCELLED \<longrightarrow> d' = d) \<and>
       (t_state t = TS_QUEUED \<longrightarrow> tr_state rec = TS_CANCELLED \<and>
          (\<forall>t'\<in>set (tasks d'). t_id t' = t_id t \<longrightarrow> t_state t' = TS_CANCELLED)) \<and>
       (t_state t \<in> {TS_STARTING, TS_RUNNING} \<longrightarrow> tasks d' = tasks d \<and>
          (\<forall>s. get_supervision (t_id t) d = Some s \<longrightarrow>
             (\<exists>s'. get_supervision (t_id t) d' = Some s' \<and> sv_cancel_requested s')))"
proof -
  note g = get_task_row [OF inv t own]
  have id: "tr_id (row_to_record t x) = t_id t" "tr_state (row_to_record t x) = t_state t" for x
    by (simp_all add: row_to_record_def)
  have row: "fetchone (\<lambda>r. t_id r = t_id t) (tasks d) = Some t"
    using fetchone_key [OF inv_task_ids [OF inv]] t by simp
  obtain x d1 where q: "request_task_cancel now (t_id t) d = (Inr x, d1)" "tasks d1 = tasks d"
    "\<forall>s. get_supervision (t_id t) d = Some s \<longrightarrow>
       (\<exists>s'. get_supervision (t_id t) d1 = Some s' \<and> sv_cancel_requested s')"
    using request_task_cancel_effect [OF inv, of now "t_id t"] by blast
  have "get_task (t_id t) None d1 = Some (row_to_record t (joined_outcome d1 t))"
    using row q(2) by (simp add: get_task_def)
  then show ?thesis
    using g id row q
    by (cases "t_state t")
      (auto simp: cancel_task_def cancel_queued_task_def io_simps db_write_def Let_def sql_simps
        set_sql_update row_to_record_def)
qed

lemma cancel_task_by_state_witness:
  "\<exists>rec d'. cancel_task 9 ''t1'' None sample_submitted = (Inr rec, d') \<and> tr_state rec = TS_CANCELLED"
proof -
  let ?t = "hd (tasks sample_submitted)"
  have t: "?t \<in> set (tasks sample_submitted)" "t_id ?t = ''t1''" "t_state ?t = TS_QUEUED"
    by (simp_all add: sample_submitted_eq new_task_row_def)
  from cancel_task_by_state [OF sample_inv(1) t(1), of None 9] t show ?thesis
    by (auto split: prod.splits sum.splits)
qed

section \<open>The retention pass\<close>

lemma expire_fold_tombstones:
  "set (retention_tombstones d) \<subseteq> set (retention_tombstones (fold (expire_one x) rows d))"
proof (induction rows arbitrary: d)
  case (Cons row rows)
  have "set (retention_tombstones d) \<subseteq> set (retention_tombstones (expire_one x row d))"
    by (auto simp: expire_one_def Let_def delete_children_def)
  with Cons.IH [of "expire_one x row d"] show ?case by auto
qed simp

lemma purge_fold_tombstones:
  "retention_tombstones (fold purge_one ids d) =
     filter (\<lambda>r. tb_task_id r \<notin> set ids) (retention_tombstones d)"
proof (induction ids arbitrary: d)
  case (Cons i ids)
  have "retention_tombstones (purge_one i d) = filter (\<lambda>r. tb_task_id r \<noteq> i) (retention_tombstones d)"
    by (simp add: purge_one_def sql_delete_def)
  then show ?case by (auto simp: Cons.IH intro!: filter_cong)
qed simp

lemma purgeable_old:
  assumes inv: "ledger_inv d" and tb: "tb \<in> set (retention_tombstones d)" "before \<le> tb_expires_at tb"
  shows "tb_task_id tb \<notin> set (purgeable before d)"
proof
  assume "tb_task_id tb \<in> set (purgeable before d)"
  then obtain r where r: "r \<in> set (retention_tombstones d)" "tb_task_id r = tb_task_id tb"
    "tb_expires_at r < before" by (auto simp: purgeable_def)
  have "distinct (map tb_task_id (retention_tombstones d))" using inv by (simp add: inv_defs)
  from distinct_key_unique [OF this r(1) tb(1) r(2)] r(3) tb(2) show False by simp
qed

text \<open>
  The retention pass never fails, keeps the ledger's integrity and its reservations, and a
  tombstone survives every pass up to twice the retention period after the pass that wrote it.
\<close>

lemma retention_pass_ok:
  assumes inv: "ledger_inv d" and tb: "tb \<in> set (retention_tombstones d)"
    "tb_expires_at tb = written + sl_tombstone_retention limits"
    and early: "moment \<le> written + 2 * sl_tombstone_retention limits"
  shows "\<exists>p q d'. run_retention_pass limits moment d = (Inr (p, q), d') \<and> ledger_inv d' \<and>
    task_reservations d' = task_reservations d \<and> tb \<in> set (retention_tombstones d')"
proof -
  let ?rows = "filter (expirable (moment - sl_terminal_retention limits) d) (tasks d)"
  let ?d1 = "(fold (expire_one (moment + sl_tombstone_retention limits)) ?rows d)\<lparr>revision := Suc (revision d)\<rparr>"
  let ?ids = "purgeable (moment - sl_tombstone_retention limits) ?d1"
  note e = expire_terminal_payloads_ok [OF inv, of moment "moment - sl_terminal_retention limits"
      "sl_tombstone_retention limits"]
  have inv1: "ledger_inv ?d1" using expire_rows_ok [OF inv expirable_pending [OF inv]] by simp
  note q = purge_expired_tombstones_ok [OF inv1, of "moment - sl_tombstone_retention limits"]
  have tb1: "tb \<in> set (retention_tombstones ?d1)"
    using expire_fold_tombstones [of d] tb(1) by auto
  have "tb_task_id tb \<notin> set ?ids"
    by (rule purgeable_old [OF inv1 tb1]) (use tb(2) early in simp)
  then have keep: "tb \<in> set (retention_tombstones (fold purge_one ?ids ?d1))"
    using tb1 by (simp add: purge_fold_tombstones)
  have free: "\<forall>i\<in>set ?ids. \<not> reserved i ?d1" by (auto simp: purgeable_def)
  have inv2: "ledger_inv (fold purge_one ?ids ?d1)" using purge_rows_ok [OF inv1 free] by simp
  show ?thesis using e q keep inv2
    by (simp add: run_retention_pass_def io_simps)
qed

lemma retention_pass_ok_witness:
  "\<exists>p q d'. run_retention_pass (from_settings sample_settings) (days 180) 
       (empty_database\<lparr>retention_tombstones := [\<lparr>tb_task_id = ''t1'', tb_remote_effect = None,
          tb_expires_at = days 90\<rparr>],
        task_idempotency := [\<lparr>id_task_id = ''t1'', id_owner_id = None, id_idempotency_key = ''k'', id_seq = 1,
          id_terminal_state = TS_FAILED, id_model = [], id_created_at = 0, id_updated_at = 0\<rparr>],
        task_seq := 1\<rparr>) = (Inr (p, q), d') \<and> map tb_task_id (retention_tombstones d') = [''t1'']"
proof -
  let ?tb = "\<lparr>tb_task_id = ''t1'', tb_remote_effect = None, tb_expires_at = days 90\<rparr>"
  let ?d = "empty_database\<lparr>retention_tombstones := [?tb],
     task_idempotency := [\<lparr>id_task_id = ''t1'', id_owner_id = None, id_idempotency_key = ''k'', id_seq = 1,
          id_terminal_state = TS_FAILED, id_model = [], id_created_at = 0, id_updated_at = 0\<rparr>],
     task_seq := 1\<rparr>"
  have inv: "ledger_inv ?d"
    by (simp add: inv_defs owning_def counter_value_def empty_database_def)
  have lim: "sl_tombstone_retention (from_settings sample_settings) = days 90"
    by (simp add: from_settings_def sample_settings_def)
  obtain p q d' where r: "run_retention_pass (from_settings sample_settings) (days 180) ?d = (Inr (p, q), d')"
    "ledger_inv d'" "?tb \<in> set (retention_tombstones d')"
    using retention_pass_ok [OF inv, of ?tb 0 "from_settings sample_settings" "days 180"] lim
    by (auto simp: days_def)
  have "retention_tombstones d' = [?tb]"
    using r(1) r(3) by (simp add: run_retention_pass_def io_simps expire_terminal_payloads_ok [OF inv]
        expire_terminal_payloads_def purge_expired_tombstones_def empty_database_def db_write_def Let_def
        reserved_def lim days_def split: if_splits) auto
  with r(1) show ?thesis by simp
qed

end
