(* ===== verification/Checkpoints.thy ===== *)
theory Checkpoints
  imports Sqlite_Db
begin

text \<open>
  \<open>backend/gg/runtime/checkpoints.py\<close>: the coordinator that publishes snapshots of the runtime
  database and confirms a revision only when the volume commit returned.  A checkpoint is split
  at its two await points: \<open>checkpoint_begin\<close> runs under the lock up to the started commit,
  \<open>checkpoint_settle\<close> from the commit's end to the release of the lock.  Other coroutines
  run in between, which the step relation covers.  What the file system and the volume do
  (\<open>publish_snapshot\<close>, \<open>Volume.commit\<close>) is an outcome argument.  The ghost fields record
  the revision of the published snapshot file and of the copy the volume holds.
\<close>

section \<open>State and operations\<close>

record coordinator =
  db_revision :: int
  confirmed_revision :: int
  last_error :: "string option"
  inflight :: "(int \<times> bool) option"
  snapshot_revision :: int
  volume_revision :: int

definition new_coordinator :: "int \<Rightarrow> coordinator" where
  "new_coordinator target = \<lparr>db_revision = target, confirmed_revision = -1, last_error = None,
     inflight = None, snapshot_revision = -1, volume_revision = -1\<rparr>"

definition pending :: "coordinator \<Rightarrow> bool" where
  "pending s \<longleftrightarrow> confirmed_revision s < db_revision s"

text \<open>
  The part of \<open>_checkpoint\<close> under the lock before the await: coalesce with an earlier
  checkpoint, fail to publish, or publish the current revision and start the commit.
\<close>

datatype begun = Coalesced int | Publish_failed string | Committing

definition checkpoint_begin ::
  "string option \<Rightarrow> int option \<Rightarrow> coordinator \<Rightarrow> begun \<times> coordinator" where
  "checkpoint_begin publish_error required s =
     (if (case required of None \<Rightarrow> False | Some r \<Rightarrow> r \<le> confirmed_revision s)
      then (Coalesced (confirmed_revision s), s)
      else case publish_error of
        Some e \<Rightarrow> (Publish_failed e, s\<lparr>last_error := Some e\<rparr>)
      | None \<Rightarrow> (Committing, s\<lparr>snapshot_revision := db_revision s, inflight := Some (db_revision s, False)\<rparr>))"

text \<open>A cancelled caller keeps the lock until its commit settles.\<close>

definition checkpoint_cancel :: "coordinator \<Rightarrow> coordinator" where
  "checkpoint_cancel s =
     (case inflight s of None \<Rightarrow> s | Some (r, _) \<Rightarrow> s\<lparr>inflight := Some (r, True)\<rparr>)"

text \<open>
  The rest after the commit: \<open>stored\<close> says whether the volume took the snapshot, \<open>reply\<close> is the
  exception the commit raised, if any.  A cancelled caller never confirms.
\<close>

definition checkpoint_settle :: "bool \<Rightarrow> string option \<Rightarrow> coordinator \<Rightarrow> (string + int) \<times> coordinator" where
  "checkpoint_settle stored reply s =
     (case inflight s of
        None \<Rightarrow> (Inl ''AssertionError'', s)
      | Some (r, cancelled) \<Rightarrow>
          (let s1 = s\<lparr>inflight := None,
                      volume_revision := (if stored then snapshot_revision s else volume_revision s)\<rparr>
           in if cancelled then (Inl ''CancelledError'', s1\<lparr>last_error := Some ''CancelledError''\<rparr>)
              else case reply of
                Some e \<Rightarrow> (Inl e, s1\<lparr>last_error := Some e\<rparr>)
              | None \<Rightarrow> (Inr r, s1\<lparr>confirmed_revision := r, last_error := None\<rparr>)))"

text \<open>One attempt of a checkpoint that no other coroutine interrupts.\<close>

record attempt =
  at_publish_error :: "string option"
  at_cancelled :: bool
  at_stored :: bool
  at_reply :: "string option"

definition checkpoint :: "attempt \<Rightarrow> int option \<Rightarrow> coordinator \<Rightarrow> (string + int) \<times> coordinator" where
  "checkpoint a required s =
     (case checkpoint_begin (at_publish_error a) required s of
        (Coalesced r, s') \<Rightarrow> (Inr r, s')
      | (Publish_failed e, s') \<Rightarrow> (Inl e, s')
      | (Committing, s') \<Rightarrow>
          checkpoint_settle (at_stored a) (at_reply a) (if at_cancelled a then checkpoint_cancel s' else s'))"

text \<open>
  \<open>ensure_durable\<close>: the loop over attempts.  Running out of attempts, which the code cannot, is
  \<open>None\<close>.
\<close>

fun ensure_loop :: "attempt list \<Rightarrow> int \<Rightarrow> coordinator \<Rightarrow> ((string + unit) \<times> coordinator) option" where
  "ensure_loop as target s =
     (if target \<le> confirmed_revision s then Some (Inr (), s)
      else case as of
        [] \<Rightarrow> None
      | a # as' \<Rightarrow>
          (case checkpoint a (Some target) s of
             (Inl e, s') \<Rightarrow> Some (Inl e, s')
           | (Inr _, s') \<Rightarrow> ensure_loop as' target s'))"

declare ensure_loop.simps [simp del]

definition ensure_durable ::
  "attempt list \<Rightarrow> int \<Rightarrow> coordinator \<Rightarrow> ((string + unit) \<times> coordinator) option" where
  "ensure_durable as target s =
     (if target < 0 \<or> db_revision s < target
      then Some (Inl ''ValueError'', s)
      else ensure_loop as target s)"

text \<open>One round of the background task \<open>run\<close>.\<close>

definition run_round :: "attempt \<Rightarrow> coordinator \<Rightarrow> coordinator" where
  "run_round a s = (if pending s \<or> last_error s \<noteq> None then snd (checkpoint a None s) else s)"

section \<open>Interleaved executions\<close>

inductive coordinator_step :: "coordinator \<Rightarrow> coordinator \<Rightarrow> bool" where
  local_write: "coordinator_step s (s\<lparr>db_revision := db_revision s + 1\<rparr>)"
| lock_acquired: "inflight s = None \<Longrightarrow> coordinator_step s (snd (checkpoint_begin publish_error required s))"
| caller_cancelled: "coordinator_step s (checkpoint_cancel s)"
| commit_done: "inflight s \<noteq> None \<Longrightarrow> (reply = None \<Longrightarrow> stored) \<Longrightarrow>
    coordinator_step s (snd (checkpoint_settle stored reply s))"

inductive_cases coordinator_stepE: "coordinator_step s s'"

definition coordinator_inv :: "coordinator \<Rightarrow> bool" where
  "coordinator_inv s \<longleftrightarrow> confirmed_revision s \<le> volume_revision s \<and>
     volume_revision s \<le> snapshot_revision s \<and> snapshot_revision s \<le> db_revision s \<and>
     (\<forall>r c. inflight s = Some (r, c) \<longrightarrow> r = snapshot_revision s)"

lemma coordinator_inv_step:
  assumes "coordinator_inv s" "coordinator_step s s'"
  shows "coordinator_inv s' \<and> confirmed_revision s \<le> confirmed_revision s' \<and>
    volume_revision s \<le> volume_revision s' \<and> db_revision s \<le> db_revision s'"
  using assms(2)
proof cases
  case (lock_acquired publish_error required)
  then show ?thesis using assms(1)
    by (auto simp: checkpoint_begin_def coordinator_inv_def split: option.splits)
next
  case (commit_done reply stored)
  then show ?thesis using assms(1)
    by (auto simp: checkpoint_settle_def coordinator_inv_def Let_def split: option.splits)
qed (use assms(1) in \<open>auto simp: coordinator_inv_def checkpoint_cancel_def split: option.splits\<close>)

interpretation coordinator: invariant_system "\<lambda>s. \<exists>n. 0 \<le> n \<and> s = new_coordinator n"
  coordinator_step coordinator_inv
proof (unfold_locales, goal_cases)
  case (1 s)
  then show ?case by (auto simp: coordinator_inv_def new_coordinator_def)
next
  case (2 s t)
  then show ?case using coordinator_inv_step by blast
qed

text \<open>
  C5: a confirmed revision is durable.  However writes, checkpoints, failures and cancellations
  of callers interleave, the coordinator never confirms a revision beyond what the volume
  holds, the volume never holds more than was published or the database more than it wrote, and
  one more step never takes a confirmation back.
\<close>

theorem confirmed_is_durable:
  assumes "0 \<le> n" "coordinator_step\<^sup>*\<^sup>* (new_coordinator n) s" "coordinator_step s s'"
  shows "confirmed_revision s \<le> volume_revision s \<and> volume_revision s \<le> snapshot_revision s \<and>
    snapshot_revision s \<le> db_revision s \<and> confirmed_revision s \<le> confirmed_revision s' \<and>
    volume_revision s \<le> volume_revision s'"
proof -
  have "coordinator_inv s" using coordinator.inv_reachable [OF _ assms(2)] assms(1) by blast
  with coordinator_inv_step [OF this assms(3)] show ?thesis by (simp add: coordinator_inv_def)
qed

theorem confirmed_is_durable_witness:
  "confirmed_revision (new_coordinator 4) \<le> volume_revision (new_coordinator 4) \<and>
   confirmed_revision (new_coordinator 4) \<le>
     confirmed_revision ((new_coordinator 4)\<lparr>db_revision := db_revision (new_coordinator 4) + 1\<rparr>)"
  using confirmed_is_durable [OF _ rtranclp.rtrancl_refl coordinator_step.local_write, of 4] by simp

section \<open>The durability barrier\<close>

lemma checkpoint_success:
  assumes "checkpoint a req s = (Inr r, s')" "inflight s = None"
  shows "confirmed_revision s' = r \<and> inflight s' = None \<and> db_revision s' = db_revision s \<and>
    (r = db_revision s \<or> (s' = s \<and> (\<exists>q. req = Some q \<and> q \<le> r)))"
  using assms
  by (auto simp: checkpoint_def checkpoint_begin_def checkpoint_settle_def checkpoint_cancel_def Let_def
      split: option.splits if_splits)

text \<open>
  The durability barrier ends after at most one attempt and tells the truth.  For a revision
  the database has written, \<open>ensure_durable\<close> with a free lock returns normally exactly when
  the revision is confirmed afterwards, and otherwise reports the error of the attempt and
  leaves the confirmed revision as it was.
\<close>

lemma ensure_durable_one_attempt:
  assumes "0 \<le> target" "target \<le> db_revision s" "inflight s = None"
  shows "case ensure_durable [a] target s of
     None \<Rightarrow> False
   | Some (Inr _, s') \<Rightarrow> target \<le> confirmed_revision s'
   | Some (Inl e, s') \<Rightarrow> confirmed_revision s' = confirmed_revision s \<and>
       confirmed_revision s < target \<and> last_error s' = Some e"
proof (cases "target \<le> confirmed_revision s")
  case True
  then show ?thesis using assms by (simp add: ensure_durable_def ensure_loop.simps)
next
  case False
  show ?thesis
  proof (cases "checkpoint a (Some target) s")
    case (Pair r s')
    show ?thesis
    proof (cases r)
      case (Inr v)
      with checkpoint_success [of a "Some target" s v s'] Pair assms(3)
      have "target \<le> confirmed_revision s'" using False assms(2) by auto
      with Inr Pair False assms show ?thesis
        by (simp add: ensure_durable_def ensure_loop.simps [of "[a]"] ensure_loop.simps [of "[]"])
    next
      case (Inl e)
      have "confirmed_revision s' = confirmed_revision s \<and> last_error s' = Some e"
        using Pair Inl assms(3)
        by (auto simp: checkpoint_def checkpoint_begin_def checkpoint_settle_def checkpoint_cancel_def
            Let_def split: option.splits if_splits)
      with Inl Pair False assms show ?thesis
        by (simp add: ensure_durable_def ensure_loop.simps [of "[a]"])
    qed
  qed
qed

lemma ensure_durable_one_attempt_witness:
  "case ensure_durable [\<lparr>at_publish_error = None, at_cancelled = False, at_stored = True, at_reply = None\<rparr>]
      4 (new_coordinator 4) of None \<Rightarrow> False | Some (Inr _, s') \<Rightarrow> 4 \<le> confirmed_revision s'
      | Some (Inl e, s') \<Rightarrow> confirmed_revision s' = -1 \<and> last_error s' = Some e"
proof -
  have s: "inflight (new_coordinator 4) = None" "db_revision (new_coordinator 4) = 4"
    "confirmed_revision (new_coordinator 4) = -1"
    by (simp_all add: new_coordinator_def)
  let ?a = "\<lparr>at_publish_error = None, at_cancelled = False, at_stored = True, at_reply = None\<rparr>"
  have "case ensure_durable [?a] 4 (new_coordinator 4) of None \<Rightarrow> False
      | Some (Inr _, s') \<Rightarrow> 4 \<le> confirmed_revision s'
      | Some (Inl e, s') \<Rightarrow> confirmed_revision s' = confirmed_revision (new_coordinator 4) \<and>
          confirmed_revision (new_coordinator 4) < 4 \<and> last_error s' = Some e"
    by (rule ensure_durable_one_attempt) (simp_all add: s)
  then show ?thesis using s(3) by (auto split: option.splits prod.splits sum.splits)
qed

end
