(* ===== verification/Event_Log.thy ===== *)
theory Event_Log
  imports Sdk_Models
begin

text \<open>
  The sandbox's own SQLite state (\<open>sandboxes/gg/server/sqlite_state.py\<close>) and the event log,
  receipt store and catalog over it (\<open>agent/event_log.py\<close>).  Each function is one short
  transaction; an integrity error leaves the database as it was.  JSON columns keep the
  object they hold.
\<close>

section \<open>The sandbox database\<close>

record PiAgentConfig =
  pa_model :: string
  pa_timeout_seconds :: int
  pa_command_ack_timeout_seconds :: int
  pa_cancel_grace_seconds :: int

definition default_agent :: PiAgentConfig where
  "default_agent = \<lparr>pa_model = DEFAULT_PI_MODEL, pa_timeout_seconds = 600,
     pa_command_ack_timeout_seconds = 5, pa_cancel_grace_seconds = 5\<rparr>"

record BaseState =
  bs_status :: ConversationStatus
  bs_working_dir :: string
  bs_agent :: PiAgentConfig

record conversation_row =
  cw_directory :: string
  cw_meta :: "ConversationRecord option"
  cw_base :: "BaseState option"

record event_row =
  ew_conversation :: string
  ew_event :: Event

record stored_receipt =
  sr_conversation :: string
  sr_receipt :: MessageReceipt

record sandbox_db =
  conversations :: "conversation_row list"
  events :: "event_row list"
  message_receipts :: "stored_receipt list"
  executions :: "TaskExecutionRecord list"
  manifests :: "(string \<times> TaskResultManifest) list"
  sandbox_metadata :: "(string \<times> string) list"

definition empty_sandbox :: sandbox_db where
  "empty_sandbox = \<lparr>conversations = [], events = [], message_receipts = [], executions = [],
     manifests = [], sandbox_metadata = []\<rparr>"

text \<open>Exceptions of the sandbox server.\<close>

datatype sandbox_error =
    ConversationAlreadyRunningError
  | InvalidConversationStateError ConversationStatus string
  | ConversationNotFoundError string
  | MessageIdConflictError string
  | AgentControlError string
  | AgentError string string
  | AgentCancelledError
  | FileNotFoundError string
  | SandboxIntegrityError string
  | SandboxValueError string
  | SandboxRuntimeError string
  | SandboxKeyError string
  | SandboxAssertionError
  | SandboxTimeoutError string
  | StartKeyConflictError string
  | GitPrepError string
  | CancelledError

type_synonym 'a sandbox_op = "(sandbox_db, sandbox_error, 'a) io"

section \<open>Catalog and base state\<close>

definition known_conversation :: "string \<Rightarrow> sandbox_db \<Rightarrow> bool" where
  "known_conversation key d \<longleftrightarrow> exists_row (\<lambda>r. cw_directory r = key) (conversations d)"

definition save_conversation_state ::
  "string \<Rightarrow> ConversationRecord \<Rightarrow> BaseState \<Rightarrow> sandbox_db \<Rightarrow> sandbox_db" where
  "save_conversation_state key record state d =
     (if known_conversation key d
      then d\<lparr>conversations := sql_update (\<lambda>r. cw_directory r = key)
             (\<lambda>r. r\<lparr>cw_meta := Some record, cw_base := Some state\<rparr>) (conversations d)\<rparr>
      else d\<lparr>conversations := conversations d @
             [\<lparr>cw_directory = key, cw_meta = Some record, cw_base = Some state\<rparr>]\<rparr>)"

definition load_meta :: "string \<Rightarrow> sandbox_db \<Rightarrow> sandbox_error + ConversationRecord" where
  "load_meta key d =
     (case fetchone (\<lambda>r. cw_directory r = key) (conversations d) of
        None \<Rightarrow> Inl (FileNotFoundError (''missing meta_json for '' @ key))
      | Some row \<Rightarrow> (case cw_meta row of
            None \<Rightarrow> Inl (FileNotFoundError (''missing meta_json for '' @ key))
          | Some m \<Rightarrow> Inr m))"

definition load_base_state :: "string \<Rightarrow> sandbox_db \<Rightarrow> sandbox_error + BaseState" where
  "load_base_state key d =
     (case fetchone (\<lambda>r. cw_directory r = key) (conversations d) of
        None \<Rightarrow> Inl (FileNotFoundError (''missing base_json for '' @ key))
      | Some row \<Rightarrow> (case cw_base row of
            None \<Rightarrow> Inl (FileNotFoundError (''missing base_json for '' @ key))
          | Some b \<Rightarrow> Inr b))"

text \<open>\<open>INSERT OR IGNORE INTO conversations(directory)\<close> of the two store constructors.\<close>

definition ensure_conversation :: "string \<Rightarrow> sandbox_db \<Rightarrow> sandbox_db" where
  "ensure_conversation key d =
     (if known_conversation key d then d
      else d\<lparr>conversations := conversations d @
             [\<lparr>cw_directory = key, cw_meta = None, cw_base = None\<rparr>]\<rparr>)"

section \<open>Events\<close>

definition events_of :: "string \<Rightarrow> sandbox_db \<Rightarrow> Event list" where
  "events_of key d = map ew_event (filter (\<lambda>r. ew_conversation r = key) (events d))"

text \<open>\<open>EventLog.append\<close> with the constraints of the \<open>events\<close> table.\<close>

definition log_append :: "string \<Rightarrow> Event \<Rightarrow> unit sandbox_op" where
  "log_append key event d =
     (if \<not> known_conversation key d then (Inl (SandboxIntegrityError ''FOREIGN KEY''), d)
      else if e_seq event \<le> 0 then (Inl (SandboxIntegrityError ''seq > 0''), d)
      else if exists_row (\<lambda>e. e_seq e = e_seq event) (events_of key d)
      then (Inl (SandboxIntegrityError ''events.conversation, events.seq''), d)
      else if exists_row (\<lambda>e. e_id e = e_id event) (events_of key d)
      then (Inl (SandboxIntegrityError ''events.conversation, events.id''), d)
      else (Inr (), d\<lparr>events := events d @ [\<lparr>ew_conversation = key, ew_event = event\<rparr>]\<rparr>))"

definition next_seq :: "string \<Rightarrow> sandbox_db \<Rightarrow> int" where
  "next_seq key d = fold max (map e_seq (events_of key d)) 0 + 1"

definition log_list ::
  "string \<Rightarrow> int \<Rightarrow> int option \<Rightarrow> sandbox_db \<Rightarrow> sandbox_error + Event list" where
  "log_list key after limit d =
     (if after < 0 \<or> (case limit of None \<Rightarrow> False | Some n \<Rightarrow> n < 1)
      then Inl (SandboxValueError ''after must be nonnegative and limit positive'')
      else
        (let rows = order_by e_seq (filter (\<lambda>e. after < e_seq e) (events_of key d))
         in Inr (case limit of None \<Rightarrow> rows | Some n \<Rightarrow> take (nat n) rows)))"

section \<open>Receipts\<close>

definition receipt_load :: "string \<Rightarrow> string \<Rightarrow> sandbox_db \<Rightarrow> MessageReceipt option" where
  "receipt_load key message_id d = map_option sr_receipt
     (fetchone (\<lambda>r. sr_conversation r = key \<and> mr_id (sr_receipt r) = message_id) (message_receipts d))"

definition receipt_save :: "string \<Rightarrow> MessageReceipt \<Rightarrow> unit sandbox_op" where
  "receipt_save key receipt d =
     (let P = (\<lambda>r. sr_conversation r = key \<and> mr_id (sr_receipt r) = mr_id receipt)
      in if exists_row P (message_receipts d)
         then (Inr (), d\<lparr>message_receipts := sql_update P (\<lambda>r. r\<lparr>sr_receipt := receipt\<rparr>) (message_receipts d)\<rparr>)
         else if \<not> known_conversation key d then (Inl (SandboxIntegrityError ''FOREIGN KEY''), d)
         else (Inr (), d\<lparr>message_receipts := message_receipts d @
                [\<lparr>sr_conversation = key, sr_receipt = receipt\<rparr>]\<rparr>))"

section \<open>Contiguous logs\<close>

definition seqs_contiguous :: "string \<Rightarrow> sandbox_db \<Rightarrow> bool" where
  "seqs_contiguous key d \<longleftrightarrow> map e_seq (events_of key d) = map int [1 ..< Suc (length (events_of key d))]"

lemma fold_max_upt: "fold max (map int [1 ..< Suc n]) 0 = int n"
  by (induction n) (simp_all add: max_def)

lemma next_seq_contiguous:
  "seqs_contiguous key d \<Longrightarrow> next_seq key d = int (Suc (length (events_of key d)))"
  using fold_max_upt [of "length (events_of key d)"]
  by (simp add: next_seq_def seqs_contiguous_def del: upt_Suc)

lemma events_of_append [simp]:
  "events_of k (d\<lparr>events := events d @ [\<lparr>ew_conversation = key, ew_event = e\<rparr>]\<rparr>) =
     events_of k d @ (if k = key then [e] else [])"
  by (simp add: events_of_def)

lemma events_of_other [simp]:
  "events_of k (d\<lparr>conversations := c\<rparr>) = events_of k d"
  "events_of k (d\<lparr>message_receipts := m\<rparr>) = events_of k d"
  "events_of k (d\<lparr>executions := x\<rparr>) = events_of k d"
  "events_of k (d\<lparr>manifests := x'\<rparr>) = events_of k d"
  by (simp_all add: events_of_def)

lemma log_list_contiguous:
  assumes "seqs_contiguous key d" "0 \<le> after"
  shows "log_list key after None d = Inr (drop (nat after) (events_of key d))"
proof -
  let ?es = "events_of key d"
  have s: "map e_seq ?es = map int [1 ..< Suc (length ?es)]" using assms(1) by (simp add: seqs_contiguous_def)
  have nth: "e_seq (?es ! i) = int (Suc i)" if "i < length ?es" for i
  proof -
    have "map e_seq ?es ! i = map int [1 ..< Suc (length ?es)] ! i" by (simp only: s)
    with that show ?thesis by (simp del: upt_Suc)
  qed
  have split: "?es = take (nat after) ?es @ drop (nat after) ?es" by simp
  have t: "filter (\<lambda>e. after < e_seq e) (take (nat after) ?es) = []"
    using nth assms(2) by (auto simp: filter_empty_conv in_set_conv_nth)
  have d: "filter (\<lambda>e. after < e_seq e) (drop (nat after) ?es) = drop (nat after) ?es"
    using nth assms(2) by (auto simp: filter_id_conv in_set_conv_nth)
  have f: "filter (\<lambda>e. after < e_seq e) ?es = drop (nat after) ?es"
    by (subst split, simp only: filter_append t d append_Nil)
  have "sorted (map e_seq ?es)" unfolding s by (simp add: sorted_iff_nth_mono del: upt_Suc)
  then have "sorted (map e_seq (drop (nat after) ?es))"
    by (metis drop_map sorted_wrt_drop)
  then have "order_by e_seq (drop (nat after) ?es) = drop (nat after) ?es"
    unfolding order_by_def by (rule sort_key_id_if_sorted)
  with f assms(2) show ?thesis by (simp add: log_list_def)
qed

end
