(* ===== verification/Execution_Store.thy ===== *)
theory Execution_Store
  imports Event_Log Py_Text
begin

text \<open>
  \<open>sandboxes/gg/server/task_supervisor/store.py\<close>: execution identity and result manifests in the
  sandbox database.  Every operation is one transaction.  The SHA-256 hex digest is the parameter
  \<open>digest\<close>, a fresh UUID is an argument.
\<close>

section \<open>Operations\<close>

definition conversation_id :: "string \<Rightarrow> string sandbox_op" where
  "conversation_id uuid d =
     (case map_of (sandbox_metadata d) ''conversation-id'' of
        Some v \<Rightarrow> (Inr v, d)
      | None \<Rightarrow> (Inr uuid, d\<lparr>sandbox_metadata := (''conversation-id'', uuid) # sandbox_metadata d\<rparr>))"

definition new_execution_id :: "(string \<Rightarrow> string) \<Rightarrow> string \<Rightarrow> string \<Rightarrow> string" where
  "new_execution_id digest task_id start_key = take 32 (digest (task_id @ '':'' @ start_key))"

record admission =
  ad_start_key :: string
  ad_task_id :: string
  ad_repository :: "string option"
  ad_task_branch :: "string option"
  ad_base_ref :: "string option"
  ad_deadline_at :: timestamp
  ad_model :: string

definition admitted_record :: "(string \<Rightarrow> string) \<Rightarrow> timestamp \<Rightarrow> admission \<Rightarrow> TaskExecutionRecord" where
  "admitted_record digest now a =
     \<lparr>xr_execution_id = new_execution_id digest (ad_task_id a) (ad_start_key a),
      xr_task_id = ad_task_id a, xr_model = ad_model a, xr_repository = ad_repository a,
      xr_start_key = ad_start_key a, xr_phase = TP_ACCEPTED,
      xr_task_branch = ad_task_branch a, xr_base_ref = ad_base_ref a,
      xr_deadline_at = ad_deadline_at a, xr_conversation_id = None,
      xr_manifest_path = None, xr_outcome_detail = None,
      xr_created_at = now, xr_updated_at = now\<rparr>"

definition admit_or_get ::
  "(string \<Rightarrow> string) \<Rightarrow> timestamp \<Rightarrow> admission \<Rightarrow> (TaskExecutionRecord \<times> bool) sandbox_op" where
  "admit_or_get digest now a d =
     (case fetchone (\<lambda>r. xr_start_key r = ad_start_key a) (executions d) of
        Some r \<Rightarrow>
          if (xr_task_id r, xr_repository r, xr_task_branch r, xr_base_ref r, xr_model r) \<noteq>
             (ad_task_id a, ad_repository a, ad_task_branch a, ad_base_ref a, ad_model a)
          then (Inl (StartKeyConflictError (''start_key '' @ py_repr (ad_start_key a) @
                  '' already bound to another execution'')), d)
          else (Inr (r, False), d)
      | None \<Rightarrow>
          (let r = admitted_record digest now a
           in if exists_row (\<lambda>x. xr_execution_id x = xr_execution_id r) (executions d)
              then (Inl (SandboxIntegrityError ''executions.execution_id''), d)
              else (Inr (r, True), d\<lparr>executions := executions d @ [r]\<rparr>)))"

definition load_execution :: "string \<Rightarrow> TaskExecutionRecord sandbox_op" where
  "load_execution execution_id d =
     (case fetchone (\<lambda>r. xr_execution_id r = execution_id) (executions d) of
        None \<Rightarrow> (Inl (SandboxKeyError (''unknown execution '' @ execution_id)), d)
      | Some r \<Rightarrow> (Inr r, d))"

definition execution_identity where
  "execution_identity r =
     (xr_start_key r, xr_task_id r, xr_repository r, xr_task_branch r, xr_base_ref r, xr_model r)"

definition save_execution :: "TaskExecutionRecord \<Rightarrow> unit sandbox_op" where
  "save_execution record d =
     (case fetchone (\<lambda>r. xr_execution_id r = xr_execution_id record) (executions d) of
        None \<Rightarrow> (Inl (SandboxKeyError (''unknown execution '' @ xr_execution_id record)), d)
      | Some existing \<Rightarrow>
          if execution_identity existing \<noteq> execution_identity record
          then (Inl (StartKeyConflictError ''cannot change execution identity''), d)
          else (Inr (), d\<lparr>executions :=
                 sql_update (\<lambda>r. xr_execution_id r = xr_execution_id record) (\<lambda>_. record) (executions d)\<rparr>))"

definition manifest_reference :: "string \<Rightarrow> string \<Rightarrow> string" where
  "manifest_reference path execution_id = ''sqlite:'' @ path @ ''#manifest/'' @ execution_id"

definition save_manifest :: "string \<Rightarrow> TaskResultManifest \<Rightarrow> string sandbox_op" where
  "save_manifest path manifest d =
     (let xid = tm_execution_id manifest in
      if exists_row (\<lambda>p. fst p = xid) (manifests d)
      then (Inr (manifest_reference path xid),
            d\<lparr>manifests := sql_update (\<lambda>p. fst p = xid) (\<lambda>_. (xid, manifest)) (manifests d)\<rparr>)
      else if \<not> exists_row (\<lambda>r. xr_execution_id r = xid) (executions d)
      then (Inl (SandboxIntegrityError ''FOREIGN KEY''), d)
      else (Inr (manifest_reference path xid), d\<lparr>manifests := manifests d @ [(xid, manifest)]\<rparr>))"

definition load_manifest :: "string \<Rightarrow> TaskResultManifest sandbox_op" where
  "load_manifest execution_id d =
     (case map_of (manifests d) execution_id of
        None \<Rightarrow> (Inl (SandboxKeyError (''no manifest for execution '' @ execution_id)), d)
      | Some m \<Rightarrow> (Inr m, d))"

definition terminal_phase :: "TaskExecutionPhase \<Rightarrow> bool" where
  "terminal_phase p \<longleftrightarrow> p = TP_COMPLETED \<or> p = TP_FAILED"

definition list_non_terminal :: "sandbox_db \<Rightarrow> TaskExecutionRecord list" where
  "list_non_terminal d =
     order_by xr_execution_id (filter (\<lambda>r. \<not> terminal_phase (xr_phase r)) (executions d))"

section \<open>Integrity of the store\<close>

definition store_ok :: "sandbox_db \<Rightarrow> bool" where
  "store_ok d \<longleftrightarrow> distinct (map xr_execution_id (executions d)) \<and> distinct (map xr_start_key (executions d)) \<and>
     distinct (map fst (manifests d)) \<and> fst ` set (manifests d) \<subseteq> xr_execution_id ` set (executions d)"

text \<open>
  What every operation leaves of the executions: each one is still there with its identity, and an
  identity given to a start key stays with it.
\<close>

definition store_rel :: "sandbox_db \<Rightarrow> sandbox_db \<Rightarrow> bool" where
  "store_rel d d' \<longleftrightarrow> (store_ok d \<longrightarrow> store_ok d' \<and>
     (\<forall>r\<in>set (executions d). \<exists>r'\<in>set (executions d'). xr_execution_id r' = xr_execution_id r \<and>
        execution_identity r' = execution_identity r) \<and>
     (\<forall>v. map_of (sandbox_metadata d) ''conversation-id'' = Some v \<longrightarrow>
        map_of (sandbox_metadata d') ''conversation-id'' = Some v) \<and>
     fst ` set (manifests d) \<subseteq> fst ` set (manifests d'))"

interpretation store: kept_relation store_rel
proof (unfold_locales, goal_cases)
  case (2 s t u)
  then have ok: "store_ok s \<Longrightarrow> store_ok t" "store_ok t \<Longrightarrow> store_ok u" by (simp_all add: store_rel_def)
  have "\<exists>r'\<in>set (executions u). xr_execution_id r' = xr_execution_id r \<and> execution_identity r' = execution_identity r"
    if "store_ok s" "r \<in> set (executions s)" for r
  proof -
    from 2(1) that obtain r1 where r1: "r1 \<in> set (executions t)" "xr_execution_id r1 = xr_execution_id r"
      "execution_identity r1 = execution_identity r" unfolding store_rel_def by blast
    with 2(2) ok(1) [OF that(1)] obtain r2 where "r2 \<in> set (executions u)" "xr_execution_id r2 = xr_execution_id r1"
      "execution_identity r2 = execution_identity r1" unfolding store_rel_def by blast
    with r1 show ?thesis by (intro bexI [of _ r2]) simp_all
  qed
  note kept = this
  have "fst ` set (manifests s) \<subseteq> fst ` set (manifests t)" "fst ` set (manifests t) \<subseteq> fst ` set (manifests u)"
    if "store_ok s" using 2 ok that by (simp_all add: store_rel_def)
  then have "fst ` set (manifests s) \<subseteq> fst ` set (manifests u)" if "store_ok s" using that by (meson subset_trans)
  moreover have "map_of (sandbox_metadata u) ''conversation-id'' = Some v"
    if "store_ok s" "map_of (sandbox_metadata s) ''conversation-id'' = Some v" for v
    using 2 ok that by (simp add: store_rel_def)
  ultimately show ?case using kept ok by (simp add: store_rel_def)
qed (auto simp: store_rel_def)

lemma store_rel_same:
  "executions d' = executions d \<Longrightarrow> manifests d' = manifests d \<Longrightarrow> sandbox_metadata d' = sandbox_metadata d \<Longrightarrow>
   store_rel d d'"
  by (auto simp: store_rel_def store_ok_def)

lemma map_fst_update: "map fst (sql_update (\<lambda>p. fst p = k) (\<lambda>_. (k, v)) t) = map fst t"
  by (rule map_sql_update_matched) auto

lemma conversation_id_kept: "keeps store_rel (conversation_id u)"
  by (rule keepsI) (auto simp: conversation_id_def store_rel_def store_ok_def split: option.splits)

lemma admit_kept: "keeps store_rel (admit_or_get digest now a)"
proof (rule keepsI)
  fix d
  show "store_rel d (snd (admit_or_get digest now a d))"
  proof (cases "fetchone (\<lambda>r. xr_start_key r = ad_start_key a) (executions d)")
    case None
    let ?r = "admitted_record digest now a"
    have e: "snd (admit_or_get digest now a d) = (if xr_execution_id ?r \<in> xr_execution_id ` set (executions d) then d
        else d\<lparr>executions := executions d @ [?r]\<rparr>)"
      using None by (simp add: admit_or_get_def Let_def exists_row_key del: exists_row_iff)
    have "xr_start_key ?r \<notin> xr_start_key ` set (executions d)"
      using None by (auto simp: fetchone_None admitted_record_def)
    then show ?thesis unfolding e by (auto simp: store_rel_def store_ok_def)
  next
    case (Some r)
    then show ?thesis by (simp add: admit_or_get_def store.kept_refl)
  qed
qed

lemma save_execution_kept: "keeps store_rel (save_execution x)"
proof (rule keepsI)
  fix d
  let ?P = "\<lambda>r. xr_execution_id r = xr_execution_id x"
  show "store_rel d (snd (save_execution x d))"
  proof (cases "\<exists>e. fetchone ?P (executions d) = Some e \<and> execution_identity e = execution_identity x")
    case True
    then obtain e where e: "fetchone ?P (executions d) = Some e" "execution_identity e = execution_identity x" by blast
    let ?t = "sql_update ?P (\<lambda>_. x) (executions d)"
    have s: "snd (save_execution x d) = d\<lparr>executions := ?t\<rparr>" using e by (simp add: save_execution_def)
    show ?thesis unfolding s store_rel_def
    proof (intro impI)
      assume ok: "store_ok d"
      then have u: "r = e" if "r \<in> set (executions d)" "?P r" for r
        using that e(1) fetchone_SomeD [OF e(1)] distinct_key_unique [of xr_execution_id "executions d" r e]
        by (simp add: store_ok_def)
      have ids: "map xr_execution_id ?t = map xr_execution_id (executions d)"
        by (rule map_sql_update_matched) simp
      have keys: "map xr_start_key ?t = map xr_start_key (executions d)"
        by (rule map_sql_update_matched) (use u e(2) in \<open>auto simp: execution_identity_def\<close>)
      have img: "xr_execution_id ` set ?t = xr_execution_id ` set (executions d)" by (metis ids list.set_map)
      have "\<exists>r'\<in>set ?t. xr_execution_id r' = xr_execution_id r \<and> execution_identity r' = execution_identity r"
        if "r \<in> set (executions d)" for r
      proof (intro bexI conjI)
        let ?r' = "if ?P r then x else r"
        show "?r' \<in> set ?t" using that by (auto simp: set_sql_update)
        show "xr_execution_id ?r' = xr_execution_id r" by simp
        show "execution_identity ?r' = execution_identity r" using u [OF that] e(2) by auto
      qed
      then show "store_ok (d\<lparr>executions := ?t\<rparr>) \<and>
        (\<forall>r\<in>set (executions d). \<exists>r'\<in>set (executions (d\<lparr>executions := ?t\<rparr>)).
           xr_execution_id r' = xr_execution_id r \<and> execution_identity r' = execution_identity r) \<and>
        (\<forall>v. map_of (sandbox_metadata d) ''conversation-id'' = Some v \<longrightarrow>
           map_of (sandbox_metadata (d\<lparr>executions := ?t\<rparr>)) ''conversation-id'' = Some v) \<and>
        fst ` set (manifests d) \<subseteq> fst ` set (manifests (d\<lparr>executions := ?t\<rparr>))"
        using ok ids keys img by (simp add: store_ok_def)
    qed
  next
    case False
    then have "snd (save_execution x d) = d" by (auto simp: save_execution_def split: option.splits)
    then show ?thesis by (simp add: store.kept_refl)
  qed
qed

lemma save_manifest_kept: "keeps store_rel (save_manifest path m)"
proof (rule keepsI)
  fix d :: sandbox_db
  let ?k = "tm_execution_id m"
  have "fst ` set (sql_update (\<lambda>p. fst p = ?k) (\<lambda>_. (?k, m)) (manifests d)) = fst ` set (manifests d)"
    by (metis map_fst_update list.set_map)
  then show "store_rel d (snd (save_manifest path m d))"
    by (auto simp: save_manifest_def Let_def store_rel_def store_ok_def map_fst_update exists_row_key
        simp del: exists_row_iff)
qed

section \<open>Histories of the store\<close>

inductive store_step :: "sandbox_db \<Rightarrow> sandbox_db \<Rightarrow> bool" where
  bind: "store_step d (snd (conversation_id u d))"
| admit: "store_step d (snd (admit_or_get digest now a d))"
| save: "store_step d (snd (save_execution x d))"
| manifest: "store_step d (snd (save_manifest path m d))"
| other: "executions d' = executions d \<Longrightarrow> manifests d' = manifests d \<Longrightarrow>
    sandbox_metadata d' = sandbox_metadata d \<Longrightarrow> store_step d d'"

lemma store_step_rel: "store_step d d' \<Longrightarrow> store_rel d d'"
  by (induction rule: store_step.induct)
    (auto intro: store_rel_same keepsD [OF conversation_id_kept] keepsD [OF admit_kept]
      keepsD [OF save_execution_kept] keepsD [OF save_manifest_kept])

lemma store_steps_rel: "store_step\<^sup>*\<^sup>* d d' \<Longrightarrow> store_rel d d'"
  by (induction rule: rtranclp_induct) (auto intro: store.kept_refl store.kept_trans store_step_rel)

interpretation executions: invariant_system "\<lambda>d. d = empty_sandbox" store_step store_ok
proof (unfold_locales, goal_cases)
  case (1 d)
  then show ?case by (simp add: store_ok_def empty_sandbox_def)
next
  case (2 d d')
  then show ?case using store_step_rel by (simp add: store_rel_def)
qed

definition ad_identity where
  "ad_identity a = (ad_start_key a, ad_task_id a, ad_repository a, ad_task_branch a, ad_base_ref a, ad_model a)"

lemma admit_known:
  assumes "store_ok d" "r \<in> set (executions d)" "xr_start_key r = ad_start_key a"
  shows "admit_or_get digest now a d =
    (if execution_identity r = ad_identity a then (Inr (r, False), d)
     else (Inl (StartKeyConflictError (''start_key '' @ py_repr (ad_start_key a) @ '' already bound to another execution'')), d))"
proof -
  have "fetchone (\<lambda>r. xr_start_key r = ad_start_key a) (executions d) = Some r"
    using assms by (subst fetchone_key) (simp_all add: store_ok_def)
  then show ?thesis using assms(3) by (auto simp: admit_or_get_def execution_identity_def ad_identity_def)
qed

lemma admit_result:
  assumes "store_ok d" "admit_or_get digest now a d = (Inr (r, created), d1)"
  shows "store_ok d1 \<and> r \<in> set (executions d1) \<and> execution_identity r = ad_identity a"
proof -
  have "store_ok d1" using keepsD [OF admit_kept, of d digest now a] assms by (simp add: store_rel_def)
  then show ?thesis using assms(2)
    by (auto simp: admit_or_get_def admitted_record_def Let_def execution_identity_def ad_identity_def split: option.splits if_splits
        dest: fetchone_SomeD)
qed

text \<open>
  C23: a start key names one execution for ever.  Once a start key has been admitted, every replay with the
  same request, after any later history of the sandbox database, returns that execution as not created
  and changes nothing; a request that reuses the key for another task, repository, branch, base or model
  is refused and changes nothing.
\<close>

theorem start_key_permanent:
  assumes ok: "store_ok d" and adm: "admit_or_get digest now a d = (Inr (r, created), d1)"
    and later: "store_step\<^sup>*\<^sup>* d1 d2" and key: "ad_start_key b = ad_start_key a"
  shows "(ad_identity b = ad_identity a \<longrightarrow> (\<exists>r'. admit_or_get digest' now' b d2 = (Inr (r', False), d2) \<and>
      xr_execution_id r' = xr_execution_id r)) \<and>
    (ad_identity b \<noteq> ad_identity a \<longrightarrow> (\<exists>m. admit_or_get digest' now' b d2 = (Inl (StartKeyConflictError m), d2)))"
proof -
  note r = admit_result [OF ok adm]
  then obtain r' where r': "r' \<in> set (executions d2)" "xr_execution_id r' = xr_execution_id r"
      "execution_identity r' = execution_identity r" and ok2: "store_ok d2"
    using store_steps_rel [OF later] unfolding store_rel_def by blast
  have k: "xr_start_key r' = ad_start_key b"
    using r' r key by (auto simp: execution_identity_def ad_identity_def)
  show ?thesis using admit_known [OF ok2 r'(1) k, of digest' now'] r' r by auto
qed

definition sample_admission :: admission where
  "sample_admission = \<lparr>ad_start_key = ''k1'', ad_task_id = ''t1'', ad_repository = None,
     ad_task_branch = None, ad_base_ref = None, ad_deadline_at = 9, ad_model = DEFAULT_PI_MODEL\<rparr>"

theorem start_key_permanent_witness:
  "\<exists>r d1 r'. admit_or_get (\<lambda>x. x) 1 sample_admission empty_sandbox = (Inr (r, True), d1) \<and>
    admit_or_get (\<lambda>x. x) 2 sample_admission (snd (save_execution (r\<lparr>xr_phase := TP_FAILED\<rparr>) d1)) =
      (Inr (r', False), snd (save_execution (r\<lparr>xr_phase := TP_FAILED\<rparr>) d1))"
proof -
  have ok: "store_ok empty_sandbox" by (simp add: store_ok_def empty_sandbox_def)
  obtain r d1 where a: "admit_or_get (\<lambda>x. x) 1 sample_admission empty_sandbox = (Inr (r, True), d1)"
    by (simp add: admit_or_get_def sample_admission_def empty_sandbox_def Let_def)
  show ?thesis
    using start_key_permanent [OF ok a r_into_rtranclp [of store_step d1, OF store_step.save [of d1 "r\<lparr>xr_phase := TP_FAILED\<rparr>"]] refl,
        of "\<lambda>x. x" 2] a by blast
qed

end
