(* ===== verification/Conversation.thy ===== *)
theory Conversation
  imports Event_Log
begin

text \<open>
  \<open>sandboxes/gg/server/agent/local_conversation.py\<close>: one conversation around an agent backend.
  Methods work on the sandbox database and the in-memory object.  The methods that hold the
  control lock are single steps; a run is its beginning, the events its backend emits, the
  settling notice and its end, so that steering and cancelling interleave with it.  The clock
  and the identifiers of new events are the argument \<open>env\<close>; what the backend answers is an
  argument of the method that calls it.
\<close>

section \<open>State\<close>

record conv_env =
  ce_now :: timestamp
  ce_event_id :: "int \<Rightarrow> string"

text \<open>
  \<open>lc_controls\<close> is \<open>isinstance(backend, RunningAgentBackend)\<close>; the ghost fields count the calls
  made to the backend.
\<close>

record LocalConversation =
  lc_key :: string
  lc_id :: string
  lc_working_dir :: string
  lc_agent :: PiAgentConfig
  lc_status :: ConversationStatus
  lc_accepting_messages :: bool
  lc_cancelling :: bool
  lc_controls :: bool
  lc_steered :: "string list"
  lc_cancel_calls :: nat

type_synonym conv_state = "sandbox_db \<times> LocalConversation"
type_synonym 'a conv_op = "(conv_state, sandbox_error, 'a) io"

definition ALLOWED_TRANSITIONS :: "((ConversationStatus \<times> string) \<times> ConversationStatus) list" where
  "ALLOWED_TRANSITIONS =
     [((CS_IDLE, ''send_message''), CS_IDLE), ((CS_IDLE, ''run''), CS_RUNNING),
      ((CS_FINISHED, ''send_message''), CS_IDLE), ((CS_ERROR, ''send_message''), CS_IDLE),
      ((CS_RUNNING, ''finish''), CS_FINISHED), ((CS_RUNNING, ''error''), CS_ERROR),
      ((CS_RUNNING, ''cancel''), CS_CANCELLED)]"

section \<open>Private helpers\<close>

definition append_event :: "conv_env \<Rightarrow> EventKind \<Rightarrow> payload \<Rightarrow> Event conv_op" where
  "append_event env kind payload = (\<lambda>(d, c).
     let seq = next_seq (lc_key c) d;
         event = \<lparr>e_id = ce_event_id env seq, e_seq = seq, e_kind = kind, e_payload = payload,
                  e_created_at = ce_now env\<rparr>
     in case log_append (lc_key c) event d of
          (Inl e, d') \<Rightarrow> (Inl e, (d', c))
        | (Inr _, d') \<Rightarrow> (Inr event, (d', c)))"

text \<open>Catalog and base state are written together; the record's creation time is made anew.\<close>

definition persist_status :: "conv_env \<Rightarrow> unit conv_op" where
  "persist_status env = (\<lambda>(d, c).
     (Inr (), (save_conversation_state (lc_key c)
        \<lparr>cr_id = lc_id c, cr_status = lc_status c, cr_working_dir = lc_working_dir c,
         cr_created_at = ce_now env\<rparr>
        \<lparr>bs_status = lc_status c, bs_working_dir = lc_working_dir c, bs_agent = lc_agent c\<rparr> d, c)))"

definition set_status :: "ConversationStatus \<Rightarrow> unit conv_op" where
  "set_status st = (\<lambda>(d, c). (Inr (), (d, c\<lparr>lc_status := st\<rparr>)))"

definition apply_status :: "conv_env \<Rightarrow> ConversationStatus \<Rightarrow> unit conv_op" where
  "apply_status env st =
     andThen (set_status st) (\<lambda>_.
     andThen (persist_status env) (\<lambda>_.
     andThen (append_event env EK_STATUS [(''status'', JStr (ConversationStatus_value st))]) (\<lambda>_. ret ())))"

definition transition :: "string \<Rightarrow> unit conv_op" where
  "transition operation = (\<lambda>(d, c).
     if (lc_status c, operation) \<in> fst ` set ALLOWED_TRANSITIONS then (Inr (), (d, c))
     else (Inl (InvalidConversationStateError (lc_status c) operation), (d, c)))"

definition begin_settling :: "conv_state \<Rightarrow> conv_state" where
  "begin_settling = (\<lambda>(d, c). (d, c\<lparr>lc_accepting_messages := False\<rparr>))"

fun payload_role_ok :: "json option \<Rightarrow> bool" where
  "payload_role_ok None = True"
| "payload_role_ok (Some JNull) = True"
| "payload_role_ok (Some (JStr s)) = (s = ''user'')"
| "payload_role_ok _ = False"

fun payload_str :: "json option \<Rightarrow> string option" where
  "payload_str (Some (JStr s)) = Some s"
| "payload_str _ = None"

fun latest_text :: "Event list \<Rightarrow> string" where
  "latest_text [] = []"
| "latest_text (e # es) =
     (if e_kind e = EK_MESSAGE \<and> payload_role_ok (map_of (e_payload e) ''role'')
      then case payload_str (map_of (e_payload e) ''text'') of
             Some t \<Rightarrow> t
           | None \<Rightarrow> latest_text es
      else latest_text es)"

definition latest_user_message :: "conv_state \<Rightarrow> string" where
  "latest_user_message = (\<lambda>(d, c).
     case log_list (lc_key c) 0 None d of Inl _ \<Rightarrow> [] | Inr es \<Rightarrow> latest_text (rev es))"

section \<open>Construction and hydration\<close>

definition new_conversation ::
  "conv_env \<Rightarrow> string \<Rightarrow> string \<Rightarrow> string \<Rightarrow> PiAgentConfig \<Rightarrow> bool \<Rightarrow> sandbox_db \<Rightarrow> conv_state" where
  "new_conversation env key conversation_id working_dir agent controls d =
     snd (persist_status env (ensure_conversation key d,
       \<lparr>lc_key = key, lc_id = (if conversation_id = [] then key else conversation_id),
        lc_working_dir = working_dir, lc_agent = agent, lc_status = CS_IDLE,
        lc_accepting_messages = False, lc_cancelling = False, lc_controls = controls,
        lc_steered = [], lc_cancel_calls = 0\<rparr>))"

definition open_conversation ::
  "conv_env \<Rightarrow> string \<Rightarrow> bool \<Rightarrow> sandbox_db \<Rightarrow> sandbox_error + conv_state" where
  "open_conversation env key controls d =
     (case load_meta key d of
        Inl e \<Rightarrow> Inl e
      | Inr meta \<Rightarrow>
          (case load_base_state key d of
             Inl e \<Rightarrow> Inl e
           | Inr state \<Rightarrow>
               (let s = (ensure_conversation key d,
                     \<lparr>lc_key = key, lc_id = cr_id meta, lc_working_dir = bs_working_dir state,
                      lc_agent = bs_agent state, lc_status = bs_status state,
                      lc_accepting_messages = False, lc_cancelling = False, lc_controls = controls,
                      lc_steered = [], lc_cancel_calls = 0\<rparr>)
                in Inr (if bs_status state = CS_RUNNING
                        then snd (andThen (set_status CS_ERROR) (\<lambda>_. persist_status env) s)
                        else s))))"

section \<open>Messages and control\<close>

definition send_message :: "conv_env \<Rightarrow> string \<Rightarrow> Event conv_op" where
  "send_message env text =
     andThen (transition ''send_message'') (\<lambda>_.
     andThen (reading (\<lambda>(d, c). lc_status c)) (\<lambda>st.
     andThen (if st \<noteq> CS_IDLE then apply_status env CS_IDLE else ret ()) (\<lambda>_.
     append_event env EK_MESSAGE [(''role'', JStr ''user''), (''text'', JStr text)])))"

datatype steer_reply = Steer_answer bool "string option" | Steer_raised string

definition save_receipt :: "MessageReceipt \<Rightarrow> unit conv_op" where
  "save_receipt receipt = (\<lambda>(d, c).
     case receipt_save (lc_key c) receipt d of (r, d') \<Rightarrow> (r, (d', c)))"

definition call_steer :: "string \<Rightarrow> unit conv_op" where
  "call_steer text = (\<lambda>(d, c). (Inr (), (d, c\<lparr>lc_steered := lc_steered c @ [text]\<rparr>)))"

definition update_receipt ::
  "conv_env \<Rightarrow> MessageReceipt \<Rightarrow> MessageDeliveryStatus \<Rightarrow> string option \<Rightarrow> MessageReceipt conv_op" where
  "update_receipt env receipt status detail =
     (let updated = receipt\<lparr>mr_status := status, mr_detail := detail, mr_updated_at := ce_now env\<rparr>
      in andThen (save_receipt updated) (\<lambda>_. ret updated))"

definition steer_deliver :: "conv_env \<Rightarrow> steer_reply \<Rightarrow> string \<Rightarrow> string \<Rightarrow> MessageReceipt conv_op" where
  "steer_deliver env reply message_id text =
     (let receipt = \<lparr>mr_id = message_id, mr_content = text, mr_status = MD_ACCEPTED, mr_detail = None,
                     mr_created_at = ce_now env, mr_updated_at = ce_now env\<rparr>
      in andThen (save_receipt receipt) (\<lambda>_.
         andThen (append_event env EK_MESSAGE [(''role'', JStr ''user''), (''text'', JStr text),
                    (''client_message_id'', JStr message_id)]) (\<lambda>_.
         andThen (call_steer text) (\<lambda>_.
         case reply of
           Steer_raised m \<Rightarrow> update_receipt env receipt MD_UNKNOWN (Some m)
         | Steer_answer delivered detail \<Rightarrow>
             update_receipt env receipt (if delivered then MD_DELIVERED else MD_FAILED) detail))))"

definition steer :: "conv_env \<Rightarrow> steer_reply \<Rightarrow> string \<Rightarrow> string \<Rightarrow> MessageReceipt conv_op" where
  "steer env reply message_id text =
     andThen (reading (\<lambda>(d, c). (receipt_load (lc_key c) message_id d, c))) (\<lambda>(existing, c).
     case existing of
       Some r \<Rightarrow> if mr_content r \<noteq> text then raise (MessageIdConflictError message_id) else ret r
     | None \<Rightarrow>
         if lc_status c \<noteq> CS_RUNNING \<or> \<not> lc_accepting_messages c
         then raise (InvalidConversationStateError (lc_status c) ''send a running-agent message'')
         else if \<not> lc_controls c
         then raise (AgentControlError ''agent backend does not support steering'')
         else steer_deliver env reply message_id text)"

definition mark_cancelling :: "unit conv_op" where
  "mark_cancelling = (\<lambda>(d, c). (Inr (), (d, c\<lparr>lc_accepting_messages := False, lc_cancelling := True\<rparr>)))"

definition call_cancel :: "string option \<Rightarrow> unit conv_op" where
  "call_cancel cancel_error = (\<lambda>(d, c).
     (case cancel_error of None \<Rightarrow> Inr () | Some m \<Rightarrow> Inl (AgentControlError m),
      (d, c\<lparr>lc_cancel_calls := lc_cancel_calls c + 1\<rparr>)))"

definition cancel :: "string option \<Rightarrow> unit conv_op" where
  "cancel cancel_error =
     andThen (reading snd) (\<lambda>c.
     if lc_status c = CS_CANCELLED \<or> lc_cancelling c then ret ()
     else if lc_status c \<noteq> CS_RUNNING
     then raise (InvalidConversationStateError (lc_status c) ''cancel'')
     else if \<not> lc_controls c
     then raise (AgentControlError ''agent backend does not support cancellation'')
     else andThen mark_cancelling (\<lambda>_. call_cancel cancel_error))"

section \<open>Runs\<close>

definition open_messages :: "unit conv_op" where
  "open_messages = (\<lambda>(d, c). (Inr (), (d, c\<lparr>lc_accepting_messages := lc_controls c\<rparr>)))"

definition run_begin :: "conv_env \<Rightarrow> unit conv_op" where
  "run_begin env =
     andThen (reading (\<lambda>(d, c). lc_status c)) (\<lambda>st.
     if st = CS_RUNNING then raise ConversationAlreadyRunningError
     else
       andThen (transition ''run'') (\<lambda>_.
       andThen (apply_status env CS_RUNNING) (\<lambda>_. open_messages)))"

datatype run_outcome = Run_done | Run_cancelled | Run_failed string string

definition run_end :: "conv_env \<Rightarrow> run_outcome \<Rightarrow> unit conv_op" where
  "run_end env outcome =
     (case outcome of
        Run_cancelled \<Rightarrow>
          try_finally (andThen (transition ''cancel'') (\<lambda>_. apply_status env CS_CANCELLED)) begin_settling
      | Run_failed code message \<Rightarrow>
          try_finally (andThen (append_event env EK_ERROR [(''type'', JStr code), (''message'', JStr message)]) (\<lambda>_.
             andThen (transition ''error'') (\<lambda>_.
             andThen (apply_status env CS_ERROR) (\<lambda>_. raise (AgentError code message))))) begin_settling
      | Run_done \<Rightarrow>
          andThen (try_finally (ret ()) begin_settling) (\<lambda>_.
          andThen (transition ''finish'') (\<lambda>_. apply_status env CS_FINISHED)))"

text \<open>A run that nothing interrupts: the backend gets the latest user message and emits its events.\<close>

definition run_conversation ::
  "conv_env \<Rightarrow> (string \<Rightarrow> (EventKind \<times> payload) list \<times> run_outcome) \<Rightarrow> unit conv_op" where
  "run_conversation env backend =
     andThen (run_begin env) (\<lambda>_.
     andThen (reading latest_user_message) (\<lambda>prompt.
     andThen (catch (for_each (\<lambda>(k, p). andThen (append_event env k p) (\<lambda>_. ret ())) (fst (backend prompt)))
        (\<lambda>e. try_finally (raise e) begin_settling)) (\<lambda>_.
     run_end env (snd (backend prompt)))))"

section \<open>The invariant and the step system\<close>

definition persisted :: "conv_state \<Rightarrow> bool" where
  "persisted = (\<lambda>(d, c). \<exists>m b. load_meta (lc_key c) d = Inr m \<and> load_base_state (lc_key c) d = Inr b \<and>
     cr_id m = lc_id c \<and> cr_status m = lc_status c \<and> cr_working_dir m = lc_working_dir c \<and>
     bs_status b = lc_status c \<and> bs_agent b = lc_agent c \<and> bs_working_dir b = lc_working_dir c)"

definition conv_base :: "conv_state \<Rightarrow> bool" where
  "conv_base s \<longleftrightarrow> (\<forall>k. seqs_contiguous k (fst s)) \<and> persisted s"

definition conv_inv :: "conv_state \<Rightarrow> bool" where
  "conv_inv s \<longleftrightarrow> conv_base s \<and> (lc_accepting_messages (snd s) \<longrightarrow> lc_status (snd s) = CS_RUNNING)"

text \<open>What single writes keep: contiguous logs and the agreement of disk and memory.\<close>

definition conv_rel :: "conv_state \<Rightarrow> conv_state \<Rightarrow> bool" where
  "conv_rel s s' \<longleftrightarrow> snd s' = snd s \<and> (conv_base s \<longrightarrow> conv_base s')"

interpretation conv_kept: kept_relation conv_rel
  by unfold_locales (simp_all add: conv_rel_def)

lemma contiguous_append:
  assumes "\<forall>k. seqs_contiguous k d" "log_append key e d = (r, d')" "e_seq e = next_seq key d"
  shows "\<forall>k. seqs_contiguous k d'"
proof
  fix k
  have n: "next_seq key d = int (Suc (length (events_of key d)))"
    using assms(1) by (intro next_seq_contiguous) simp
  have c: "map e_seq (events_of k d) = map int [1 ..< Suc (length (events_of k d))]" for k
    using assms(1) by (simp add: seqs_contiguous_def)
  show "seqs_contiguous k d'"
    using assms(2,3) n c [of k]
    by (auto simp: log_append_def seqs_contiguous_def simp del: exists_row_iff split: if_splits)
qed

lemma loads_events [simp]:
  "load_meta k (d\<lparr>events := x\<rparr>) = load_meta k d" "load_base_state k (d\<lparr>events := x\<rparr>) = load_base_state k d"
  "load_meta k (d\<lparr>message_receipts := y\<rparr>) = load_meta k d"
  "load_base_state k (d\<lparr>message_receipts := y\<rparr>) = load_base_state k d"
  by (simp_all add: load_meta_def load_base_state_def)

lemma load_saved:
  "load_meta key (save_conversation_state key m b d) = Inr m"
  "load_base_state key (save_conversation_state key m b d) = Inr b"
proof -
  have "\<exists>r. fetchone (\<lambda>r. cw_directory r = key) (conversations (save_conversation_state key m b d)) = Some r \<and>
      cw_meta r = Some m \<and> cw_base r = Some b"
  proof (cases "known_conversation key d")
    case True
    then have "fetchone (\<lambda>r. cw_directory r = key) (conversations d) \<noteq> None"
      by (auto simp: known_conversation_def fetchone_None)
    then obtain r where r: "fetchone (\<lambda>r. cw_directory r = key) (conversations d) = Some r" by blast
    then have "cw_directory r = key" by (auto dest!: fetchone_SomeD)
    with True r show ?thesis by (simp add: save_conversation_state_def sql_simps)
  next
    case False
    then have "fetchone (\<lambda>r. cw_directory r = key) (conversations d) = None"
      by (auto simp: known_conversation_def fetchone_None)
    with False show ?thesis by (simp add: save_conversation_state_def)
  qed
  then show "load_meta key (save_conversation_state key m b d) = Inr m"
    "load_base_state key (save_conversation_state key m b d) = Inr b"
    by (auto simp: load_meta_def load_base_state_def)
qed

lemma events_of_save [simp]: "events_of k (save_conversation_state key m b d) = events_of k d"
  by (simp add: save_conversation_state_def)

lemma append_event_key [simp]: "snd (snd (append_event env k p s)) = snd s"
  by (cases s) (simp add: append_event_def Let_def split: prod.splits sum.splits)

lemma append_event_kept [keep_rules]: "keeps conv_rel (append_event env k p)"
proof (rule keepsI)
  fix s :: conv_state
  obtain d c where s: "s = (d, c)" by (cases s)
  let ?e = "\<lparr>e_id = ce_event_id env (next_seq (lc_key c) d), e_seq = next_seq (lc_key c) d,
     e_kind = k, e_payload = p, e_created_at = ce_now env\<rparr>"
  obtain r d' where a: "log_append (lc_key c) ?e d = (r, d')" by (cases "log_append (lc_key c) ?e d")
  have "load_meta (lc_key c) d' = load_meta (lc_key c) d"
    "load_base_state (lc_key c) d' = load_base_state (lc_key c) d"
    using a by (auto simp: log_append_def simp del: exists_row_iff split: if_splits)
  moreover have "snd (append_event env k p s) = (d', c)"
    using a by (simp add: append_event_def s Let_def split: sum.splits)
  ultimately show "conv_rel s (snd (append_event env k p s))"
    using contiguous_append [OF _ a] by (auto simp: conv_rel_def conv_base_def s persisted_def)
qed

text \<open>Writing a status makes disk and memory agree, whatever they held before.\<close>

lemma persist_after_set:
  assumes "\<forall>k. seqs_contiguous k (fst s)"
  shows "conv_base (snd (andThen (set_status st) (\<lambda>_. persist_status env) s))"
  using assms
  by (cases s) (simp add: conv_base_def persisted_def set_status_def persist_status_def io_simps load_saved
      seqs_contiguous_def)

lemma apply_status_split:
  obtains s1 where "s1 = snd (andThen (set_status st) (\<lambda>_. persist_status env) s)"
    "snd (apply_status env st s) = snd (append_event env EK_STATUS
       [(''status'', JStr (ConversationStatus_value st))] s1)"
    "snd s1 = (snd s)\<lparr>lc_status := st\<rparr>"
proof -
  obtain s0 s1 where a: "set_status st s = (Inr (), s0)" "persist_status env s0 = (Inr (), s1)"
    "snd s1 = (snd s)\<lparr>lc_status := st\<rparr>"
    by (cases s) (simp add: set_status_def persist_status_def)
  show ?thesis
    by (rule that [of s1])
      (simp_all only: apply_status_def andThen_Inr [of "set_status st" s, OF a(1)]
        andThen_Inr [of "persist_status env" s0, OF a(2)] snd_andThen_ret a(2,3) snd_conv)
qed

lemma apply_status_conv [simp]:
  "snd (snd (apply_status env st s)) = (snd s)\<lparr>lc_status := st\<rparr>"
  by (rule apply_status_split [of st env s]) simp

lemma append_event_base: "conv_base s \<Longrightarrow> conv_base (snd (append_event env k p s))"
  using keepsD [OF append_event_kept, of s] unfolding conv_rel_def by blast

lemma append_event_inv: "conv_inv s \<Longrightarrow> conv_inv (snd (append_event env k p s))"
  by (simp add: conv_inv_def append_event_base)

lemma apply_status_base: "conv_base s \<Longrightarrow> conv_base (snd (apply_status env st s))"
proof (rule apply_status_split [of st env s])
  fix s1 assume base: "conv_base s" and s1: "s1 = snd (andThen (set_status st) (\<lambda>_. persist_status env) s)"
    and eq: "snd (apply_status env st s) = snd (append_event env EK_STATUS
       [(''status'', JStr (ConversationStatus_value st))] s1)"
  have "conv_base s1" unfolding s1 using base by (intro persist_after_set) (simp add: conv_base_def)
  then show ?thesis unfolding eq by (rule append_event_base)
qed

lemma apply_status_inv:
  "conv_base s \<Longrightarrow> lc_accepting_messages (snd s) \<longrightarrow> st = CS_RUNNING \<Longrightarrow>
   conv_inv (snd (apply_status env st s))"
  by (simp add: conv_inv_def apply_status_base)

lemmas inv_andThen = andThen_post [where P = conv_inv]
lemmas base_andThen = andThen_post [where P = conv_base]

lemma transition_state [simp]: "snd (transition op s) = s"
  by (cases s) (simp add: transition_def)

lemma transition_eq:
  "transition op s = (if (lc_status (snd s), op) \<in> fst ` set ALLOWED_TRANSITIONS then (Inr (), s)
     else (Inl (InvalidConversationStateError (lc_status (snd s)) op), s))"
  by (cases s) (simp add: transition_def)

lemma transition_ok: "fst (transition op s) = Inr () \<Longrightarrow> (lc_status (snd s), op) \<in> fst ` set ALLOWED_TRANSITIONS"
  by (cases s) (simp add: transition_def split: if_splits)

lemmas allowed = transition_ok [unfolded ALLOWED_TRANSITIONS_def, simplified]

lemma settle_inv: "conv_base s \<Longrightarrow> conv_inv (begin_settling s)"
  by (cases s) (simp add: begin_settling_def conv_inv_def conv_base_def persisted_def)

lemma settled [simp]: "lc_accepting_messages (snd (begin_settling s)) = False"
  "lc_status (snd (begin_settling s)) = lc_status (snd s)"
  by (cases s, simp add: begin_settling_def)+

lemma accepting_running: "conv_inv s \<Longrightarrow> lc_accepting_messages (snd s) \<Longrightarrow> lc_status (snd s) = CS_RUNNING"
  by (auto simp: conv_inv_def)

lemma send_message_inv: "conv_inv s \<Longrightarrow> conv_inv (snd (send_message env text s))"
  unfolding send_message_def
proof (rule inv_andThen, simp, rule inv_andThen, simp add: io_simps)
  fix x st assume inv: "conv_inv s" and t: "fst (transition ''send_message'' s) = Inr x"
    and st: "fst (reading (\<lambda>(d, c). lc_status c) (snd (transition ''send_message'' s))) = Inr st"
  have status: "st = lc_status (snd s)" using st by (cases s) (simp add: io_simps)
  have quiet: "\<not> lc_accepting_messages (snd s)"
    using accepting_running [OF inv] allowed [of "''send_message''" s] t by auto
  have "conv_inv (snd ((if st \<noteq> CS_IDLE then apply_status env CS_IDLE else ret ()) s))"
    using apply_status_inv [of s CS_IDLE env] inv quiet by (simp add: io_simps conv_inv_def)
  then show "conv_inv (snd (andThen (if st \<noteq> CS_IDLE then apply_status env CS_IDLE else ret ())
      (\<lambda>_. append_event env EK_MESSAGE [(''role'', JStr ''user''), (''text'', JStr text)])
      (snd (reading (\<lambda>(d, c). lc_status c) (snd (transition ''send_message'' s))))))"
    by (intro inv_andThen) (simp_all add: io_simps append_event_inv)
qed

lemma receipt_save_events:
  "receipt_save key r d = (x, d') \<Longrightarrow> (\<exists>m. d' = d\<lparr>message_receipts := m\<rparr>)"
  by (auto simp: receipt_save_def Let_def simp del: exists_row_iff split: if_splits
      intro: exI [of _ "message_receipts d"])

lemma save_receipt_inv: "conv_inv s \<Longrightarrow> conv_inv (snd (save_receipt r s))"
proof -
  assume inv: "conv_inv s"
  obtain d c where s: "s = (d, c)" by (cases s)
  obtain x d' where r: "receipt_save (lc_key c) r d = (x, d')" by (cases "receipt_save (lc_key c) r d")
  then obtain m where m: "d' = d\<lparr>message_receipts := m\<rparr>" using receipt_save_events by blast
  have "seqs_contiguous k d' = seqs_contiguous k d" for k by (simp add: m seqs_contiguous_def del: upt_Suc)
  with inv r m show ?thesis
    by (simp add: save_receipt_def s conv_inv_def conv_base_def persisted_def)
qed

lemma call_steer_inv: "conv_inv s \<Longrightarrow> conv_inv (snd (call_steer t s))"
  by (cases s) (simp add: call_steer_def conv_inv_def conv_base_def persisted_def)

lemma update_receipt_inv: "conv_inv s \<Longrightarrow> conv_inv (snd (update_receipt env r st det s))"
  unfolding update_receipt_def Let_def snd_andThen_ret by (rule save_receipt_inv)

lemma steer_inv: "conv_inv s \<Longrightarrow> conv_inv (snd (steer env reply i text s))"
proof -
  assume inv: "conv_inv s"
  have "conv_inv (snd (steer_deliver env reply i text s))"
    unfolding steer_deliver_def Let_def
    by (intro inv_andThen save_receipt_inv append_event_inv call_steer_inv)
      (simp_all add: inv save_receipt_inv append_event_inv call_steer_inv update_receipt_inv split: steer_reply.splits)
  with inv show ?thesis
    by (cases s) (auto simp: steer_def io_simps split: option.splits)
qed

lemma cancel_inv: "conv_inv s \<Longrightarrow> conv_inv (snd (cancel err s))"
  by (cases s) (auto simp: cancel_def io_simps mark_cancelling_def call_cancel_def conv_inv_def conv_base_def persisted_def)

lemma open_messages_inv: "conv_inv t \<Longrightarrow> lc_status (snd t) = CS_RUNNING \<Longrightarrow> conv_inv (snd (open_messages t))"
  by (cases t) (simp add: open_messages_def conv_inv_def conv_base_def persisted_def)

lemma run_begin_inv: "conv_inv s \<Longrightarrow> conv_inv (snd (run_begin env s))"
proof -
  assume inv: "conv_inv s"
  have a: "conv_inv (snd (apply_status env CS_RUNNING s))"
    using inv by (intro apply_status_inv) (simp_all add: conv_inv_def)
  have "conv_inv (snd (andThen (apply_status env CS_RUNNING) (\<lambda>_. open_messages) s))"
    by (rule inv_andThen) (simp_all add: a open_messages_inv)
  then have b: "conv_inv (snd (andThen (transition ''run'') (\<lambda>_. andThen (apply_status env CS_RUNNING)
      (\<lambda>_. open_messages)) s))"
    by (intro inv_andThen) (simp_all add: inv a open_messages_inv)
  show ?thesis unfolding run_begin_def andThen_reading using b inv by (simp add: raise_def)
qed

lemma run_end_inv:
  assumes inv: "conv_inv s" shows "conv_inv (snd (run_end env out s))"
proof -
  have base: "conv_base s" using inv by (simp add: conv_inv_def)
  have fin: "conv_inv (snd (andThen (transition ''finish'') (\<lambda>_. apply_status env CS_FINISHED) (begin_settling s)))"
    using settle_inv [OF base] by (intro inv_andThen) (simp_all add: apply_status_base conv_inv_def)
  have can: "conv_base (snd (andThen (transition ''cancel'') (\<lambda>_. apply_status env CS_CANCELLED) s))"
    by (intro base_andThen) (simp_all add: base apply_status_base)
  have err: "conv_base (snd (andThen (append_event env EK_ERROR p) (\<lambda>_. andThen (transition ''error'')
      (\<lambda>_. andThen (apply_status env CS_ERROR) (\<lambda>_. raise e :: unit conv_op))) s))" for p e
    by (intro base_andThen) (simp_all add: base append_event_base apply_status_base io_simps(2))
  show ?thesis
  proof (cases out)
    case Run_done
    have "andThen (try_finally (ret ()) begin_settling) k s = k () (begin_settling s)" for k :: "unit \<Rightarrow> unit conv_op"
      by (simp add: andThen_def try_finally_def ret_def)
    with Run_done fin show ?thesis by (simp add: run_end_def)
  next
    case Run_cancelled
    with can show ?thesis by (simp add: run_end_def try_finally_def settle_inv)
  next
    case (Run_failed c m)
    with err show ?thesis by (simp add: run_end_def try_finally_def settle_inv)
  qed
qed

lemma ensure_known [simp]: "known_conversation key d \<Longrightarrow> ensure_conversation key d = d"
  by (simp add: ensure_conversation_def)

lemma events_of_ensure [simp]: "events_of k (ensure_conversation key d) = events_of k d"
  by (simp add: ensure_conversation_def)

lemma contiguous_ensure [simp]: "seqs_contiguous k (ensure_conversation key d) = seqs_contiguous k d"
  by (simp add: seqs_contiguous_def del: upt_Suc)

lemma new_conversation_inv:
  "\<forall>k. seqs_contiguous k d \<Longrightarrow> conv_inv (new_conversation env key cid wd ag ctl d)"
  by (simp add: new_conversation_def persist_status_def conv_inv_def conv_base_def persisted_def load_saved
      seqs_contiguous_def del: upt_Suc)

text \<open>A process that reopens the conversation finds what the last one persisted.\<close>

lemma loaded_known: "load_meta key d = Inr m \<Longrightarrow> known_conversation key d"
  by (auto simp: load_meta_def known_conversation_def split: option.splits dest!: fetchone_SomeD)

lemma open_conversation_inv:
  assumes inv: "conv_inv (d, c)"
  shows "\<exists>s. open_conversation env (lc_key c) ctl d = Inr s \<and> conv_inv s \<and> lc_key (snd s) = lc_key c \<and>
    lc_id (snd s) = lc_id c \<and>
    lc_status (snd s) = (if lc_status c = CS_RUNNING then CS_ERROR else lc_status c) \<and>
    events_of k (fst s) = events_of k d \<and> \<not> lc_cancelling (snd s)"
proof -
  from inv obtain m b where mb: "load_meta (lc_key c) d = Inr m" "load_base_state (lc_key c) d = Inr b"
    "cr_id m = lc_id c" "cr_status m = lc_status c" "bs_status b = lc_status c" "cr_working_dir m = lc_working_dir c"
    "bs_agent b = lc_agent c" "bs_working_dir b = lc_working_dir c"
    and cont: "\<forall>k. seqs_contiguous k d"
    by (auto simp: conv_inv_def conv_base_def persisted_def)
  have known: "ensure_conversation (lc_key c) d = d" using loaded_known [OF mb(1)] by simp
  let ?c = "\<lparr>lc_key = lc_key c, lc_id = lc_id c, lc_working_dir = lc_working_dir c, lc_agent = lc_agent c,
    lc_status = lc_status c, lc_accepting_messages = False, lc_cancelling = False, lc_controls = ctl,
    lc_steered = [], lc_cancel_calls = 0\<rparr>"
  show ?thesis
  proof (cases "lc_status c = CS_RUNNING")
    case False
    have "conv_inv (d, ?c)" using mb cont by (simp add: conv_inv_def conv_base_def persisted_def)
    with False mb known show ?thesis by (simp add: open_conversation_def Let_def)
  next
    case True
    let ?s = "snd (andThen (set_status CS_ERROR) (\<lambda>_. persist_status env) (d, ?c))"
    have "conv_base ?s" using cont by (intro persist_after_set) simp
    then have "conv_inv ?s" by (simp add: conv_inv_def io_simps set_status_def persist_status_def)
    with True mb known show ?thesis
      by (simp add: open_conversation_def Let_def) (simp add: io_simps set_status_def persist_status_def)
  qed
qed

inductive conv_step :: "conv_state \<Rightarrow> conv_state \<Rightarrow> bool" where
  message: "conv_step s (snd (send_message env text s))"
| steering: "conv_step s (snd (steer env reply i text s))"
| cancelling: "conv_step s (snd (cancel err s))"
| starting: "conv_step s (snd (run_begin env s))"
| emitting: "lc_status (snd s) = CS_RUNNING \<Longrightarrow> conv_step s (snd (append_event env k p s))"
| settling: "conv_step s (begin_settling s)"
| ending: "lc_status (snd s) = CS_RUNNING \<Longrightarrow> conv_step s (snd (run_end env out s))"
| restart: "open_conversation env (lc_key c) ctl d = Inr s' \<Longrightarrow> conv_step (d, c) s'"

inductive_cases conv_stepE: "conv_step s s'"

lemma conv_step_inv: "conv_inv s \<Longrightarrow> conv_step s s' \<Longrightarrow> conv_inv s'"
proof -
  assume inv: "conv_inv s" and "conv_step s s'"
  from this(2) show ?thesis
  proof cases
    case (restart env c ctl d)
    with open_conversation_inv [of d c env ctl] inv show ?thesis by auto
  qed (use inv in \<open>auto intro: send_message_inv steer_inv cancel_inv run_begin_inv append_event_inv
       settle_inv run_end_inv simp: conv_inv_def [of s]\<close>)
qed

definition conv_start :: "conv_state \<Rightarrow> bool" where
  "conv_start s \<longleftrightarrow> (\<exists>env key cid wd ag ctl. s = new_conversation env key cid wd ag ctl empty_sandbox)"

interpretation conversation: invariant_system conv_start conv_step conv_inv
proof (unfold_locales, goal_cases)
  case (1 s)
  have "\<forall>k. seqs_contiguous k empty_sandbox" by (simp add: seqs_contiguous_def events_of_def empty_sandbox_def)
  with 1 show ?case by (auto simp: conv_start_def new_conversation_inv)
qed (rule conv_step_inv)

section \<open>Properties\<close>

text \<open>
  C27: in every state a conversation can reach, through messages, steering, cancellation, runs with
  any events and outcomes, failed writes and restarts of the process, its log is numbered from
  one without a gap, reading on from any number gives exactly the rest, and the catalog, the base
  state and the object in memory agree on its status.
\<close>

theorem conversation_log_and_status:
  assumes "conv_start s0" "conv_step\<^sup>*\<^sup>* s0 (d, c)"
  shows "map e_seq (events_of (lc_key c) d) = map int [1 ..< Suc (length (events_of (lc_key c) d))] \<and>
    (\<forall>n. log_list (lc_key c) (int n) None d = Inr (drop n (events_of (lc_key c) d))) \<and>
    (\<exists>m b. load_meta (lc_key c) d = Inr m \<and> load_base_state (lc_key c) d = Inr b \<and>
       cr_status m = lc_status c \<and> bs_status b = lc_status c \<and> cr_id m = lc_id c)"
proof -
  have inv: "conv_inv (d, c)" by (rule conversation.inv_reachable [OF assms])
  then have cont: "seqs_contiguous (lc_key c) d" by (simp add: conv_inv_def conv_base_def)
  have "log_list (lc_key c) (int n) None d = Inr (drop n (events_of (lc_key c) d))" for n
    using log_list_contiguous [OF cont, of "int n"] by simp
  with cont inv show ?thesis
    by (auto simp: seqs_contiguous_def conv_inv_def conv_base_def persisted_def simp del: upt_Suc)
qed

definition sample_conv_env :: conv_env where
  "sample_conv_env = \<lparr>ce_now = 7, ce_event_id = (\<lambda>n. replicate (nat n) CHR ''e'')\<rparr>"

definition sample_conv :: conv_state where
  "sample_conv = new_conversation sample_conv_env ''c1'' ''c1'' ''/w'' default_agent True empty_sandbox"

lemma sample_conv_start: "conv_start sample_conv"
  unfolding conv_start_def sample_conv_def by blast

theorem conversation_log_and_status_witness:
  "\<exists>d c. conv_step\<^sup>*\<^sup>* sample_conv (d, c) \<and> lc_key c = lc_key c \<and>
     log_list (lc_key c) (int 0) None d = Inr (drop 0 (events_of (lc_key c) d))"
proof -
  obtain d c where s: "snd (send_message sample_conv_env ''hi'' sample_conv) = (d, c)" by fastforce
  have step: "conv_step\<^sup>*\<^sup>* sample_conv (d, c)"
    unfolding s [symmetric] by (rule r_into_rtranclp, rule conv_step.message)
  from conversation_log_and_status [OF sample_conv_start this] step show ?thesis by blast
qed

lemma receipt_load_save:
  "receipt_save key r d = (Inr (), d') \<Longrightarrow> receipt_load key (mr_id r) d' = Some r"
proof -
  let ?P = "\<lambda>x. sr_conversation x = key \<and> mr_id (sr_receipt x) = mr_id r"
  assume a: "receipt_save key r d = (Inr (), d')"
  show ?thesis
  proof (cases "exists_row ?P (message_receipts d)")
    case True
    then have "fetchone ?P (message_receipts d) \<noteq> None" by (auto simp: fetchone_None)
    then obtain x where x: "fetchone ?P (message_receipts d) = Some x" by blast
    have "fetchone ?P (sql_update ?P (\<lambda>r'. r'\<lparr>sr_receipt := r\<rparr>) (message_receipts d)) =
        Some (x\<lparr>sr_receipt := r\<rparr>)"
      using x by (subst fetchone_update_matched) auto
    with a True show ?thesis
      by (auto simp: receipt_save_def receipt_load_def Let_def simp del: exists_row_iff)
  next
    case False
    then have "fetchone ?P (message_receipts d) = None" by (auto simp: fetchone_None)
    with a False show ?thesis
      by (auto simp: receipt_save_def receipt_load_def Let_def simp del: exists_row_iff split: if_splits)
  qed
qed

lemma save_receipt_load:
  "save_receipt r s = (Inr (), s') \<Longrightarrow> receipt_load (lc_key (snd s')) (mr_id r) (fst s') = Some r \<and> snd s' = snd s"
  by (cases s) (auto simp: save_receipt_def split: prod.splits dest: receipt_load_save)

lemma steer_deliver_result:
  assumes "steer_deliver env reply i text s = (Inr r, s')"
  shows "receipt_load (lc_key (snd s')) i (fst s') = Some r \<and> mr_content r = text \<and>
    lc_steered (snd s') = lc_steered (snd s) @ [text]"
proof -
  let ?r = "\<lparr>mr_id = i, mr_content = text, mr_status = MD_ACCEPTED, mr_detail = None,
     mr_created_at = ce_now env, mr_updated_at = ce_now env\<rparr>"
  obtain s1 where s1: "save_receipt ?r s = (Inr (), s1)"
    using assms by (cases "save_receipt ?r s", cases "fst (save_receipt ?r s)")
      (auto simp: steer_deliver_def Let_def andThen_def)
  let ?p = "[(''role'', JStr ''user''), (''text'', JStr text), (''client_message_id'', JStr i)]"
  obtain e s2 where s2: "append_event env EK_MESSAGE ?p s1 = (Inr e, s2)"
    using assms s1 by (cases "append_event env EK_MESSAGE ?p s1", cases "fst (append_event env EK_MESSAGE ?p s1)")
      (auto simp: steer_deliver_def Let_def andThen_def)
  obtain s3 where s3: "call_steer text s2 = (Inr (), s3)" "lc_steered (snd s3) = lc_steered (snd s2) @ [text]"
    by (cases s2) (simp add: call_steer_def)
  have k: "snd s1 = snd s" "snd s2 = snd s1"
    using save_receipt_load [OF s1] append_event_key [of env EK_MESSAGE ?p s1] s2 by simp_all
  have "\<exists>st det. update_receipt env ?r st det s3 = (Inr r, s')"
    using assms s1 s2 s3(1) by (auto simp: steer_deliver_def Let_def andThen_def split: steer_reply.splits)
  then obtain st det where u: "update_receipt env ?r st det s3 = (Inr r, s')" by blast
  let ?u = "?r\<lparr>mr_status := st, mr_detail := det, mr_updated_at := ce_now env\<rparr>"
  have "save_receipt ?u s3 = (Inr (), s') \<and> r = ?u"
    using u by (cases "save_receipt ?u s3", cases "fst (save_receipt ?u s3)")
      (auto simp: update_receipt_def Let_def andThen_def ret_def)
  with save_receipt_load [of ?u s3 s'] k s3(2) show ?thesis by auto
qed

lemma steer_result:
  assumes "steer env reply i text s = (Inr r, s')"
  shows "receipt_load (lc_key (snd s')) i (fst s') = Some r \<and> mr_content r = text \<and>
    (s' = s \<or> lc_steered (snd s') = lc_steered (snd s) @ [text])"
proof (cases "receipt_load (lc_key (snd s)) i (fst s)")
  case (Some x)
  then show ?thesis using assms by (cases s) (auto simp: steer_def andThen_reading io_simps split: if_splits)
next
  case None
  then have "steer_deliver env reply i text s = (Inr r, s')"
    using assms by (cases s) (auto simp: steer_def andThen_reading raise_def split: if_splits)
  from steer_deliver_result [OF this] show ?thesis by simp
qed


text \<open>Evaluation of the methods on a concrete conversation.\<close>

lemmas conv_eval = new_conversation_def persist_status_def ensure_conversation_def known_conversation_def
  save_conversation_state_def empty_sandbox_def send_message_def transition_def ALLOWED_TRANSITIONS_def
  append_event_def log_append_def next_seq_def events_of_def run_begin_def apply_status_def set_status_def
  open_messages_def io_simps Let_def

definition sample_running :: conv_state where
  "sample_running = snd (run_begin sample_conv_env (snd (send_message sample_conv_env ''hi'' sample_conv)))"

lemma sample_running_reachable: "conv_step\<^sup>*\<^sup>* sample_conv sample_running"
  unfolding sample_running_def
  by (rule rtranclp_trans) (rule r_into_rtranclp, rule conv_step.message, rule r_into_rtranclp, rule conv_step.starting)

lemma sample_running_flags:
  "lc_status (snd sample_running) = CS_RUNNING" "lc_accepting_messages (snd sample_running)"
  "lc_controls (snd sample_running)" "\<not> lc_cancelling (snd sample_running)" "lc_key (snd sample_running) = ''c1''"
  "message_receipts (fst sample_running) = []" "known_conversation ''c1'' (fst sample_running)"
  "length (events_of ''c1'' (fst sample_running)) = 2" "e_id ` set (events_of ''c1'' (fst sample_running)) = {''e'', ''ee''}"
  by (simp_all add: sample_running_def sample_conv_def sample_conv_env_def conv_eval numeral_2_eq_2
      eval_nat_numeral)


text \<open>How each method moves the status.\<close>

definition follows_table :: "ConversationStatus \<Rightarrow> ConversationStatus \<Rightarrow> bool" where
  "follows_table a b \<longleftrightarrow> a = b \<or> (\<exists>op. ((a, op), b) \<in> set ALLOWED_TRANSITIONS)"

lemma follows_refl [simp]: "follows_table a a"
  by (simp add: follows_table_def)

lemma follows_table_iff:
  "follows_table a b \<longleftrightarrow> a = b \<or> (a, b) \<in> {(CS_IDLE, CS_RUNNING), (CS_FINISHED, CS_IDLE), (CS_ERROR, CS_IDLE),
     (CS_RUNNING, CS_FINISHED), (CS_RUNNING, CS_ERROR), (CS_RUNNING, CS_CANCELLED)}"
  unfolding follows_table_def ALLOWED_TRANSITIONS_def by (cases a; cases b; simp)

lemmas table_andThen = andThen_post [where P = "\<lambda>s'. follows_table st (lc_status (snd s'))" for st]

lemma send_message_status: "follows_table (lc_status (snd s)) (lc_status (snd (snd (send_message env text s))))"
proof (cases "fst (transition ''send_message'' s)")
  case (Inl e)
  then have "transition ''send_message'' s = (Inl e, s)" by (simp add: transition_eq split: if_splits)
  then show ?thesis by (simp add: send_message_def andThen_def follows_table_def)
next
  case (Inr u)
  then have t: "transition ''send_message'' s = (Inr (), s)" by (simp add: transition_eq split: if_splits)
  have st: "lc_status (snd s) \<in> {CS_IDLE, CS_FINISHED, CS_ERROR}" using allowed [of "''send_message''" s] Inr by auto
  let ?b = "if lc_status (snd s) \<noteq> CS_IDLE then apply_status env CS_IDLE else ret ()"
  have eq: "send_message env text s = andThen ?b
      (\<lambda>_. append_event env EK_MESSAGE [(''role'', JStr ''user''), (''text'', JStr text)]) s"
    unfolding send_message_def andThen_Inr [of "transition ''send_message''" s, OF t] andThen_reading
    by (cases s) simp
  have "lc_status (snd (snd (?b s))) = CS_IDLE" using st by (simp add: io_simps)
  then have "follows_table (lc_status (snd s)) (lc_status (snd (snd (?b s))))"
    using st by (auto simp: follows_table_iff)
  then show ?thesis unfolding eq by (intro table_andThen) simp_all
qed

lemma steer_status: "lc_status (snd (snd (steer env reply i text s))) = lc_status (snd s)"
proof -
  let ?Q = "\<lambda>s'. lc_status (snd s') = lc_status (snd s)"
  have sv: "?Q t \<Longrightarrow> ?Q (snd (save_receipt r t))" for r t
    by (cases t) (simp add: save_receipt_def split: prod.splits)
  have ap: "?Q t \<Longrightarrow> ?Q (snd (append_event env k p t))" for k p t by simp
  have cs: "?Q t \<Longrightarrow> ?Q (snd (call_steer x t))" for x t by (cases t) (simp add: call_steer_def)
  have up: "?Q t \<Longrightarrow> ?Q (snd (update_receipt env r st det t))" for r st det t
    unfolding update_receipt_def Let_def snd_andThen_ret by (rule sv)
  note at = andThen_post [where P = ?Q]
  have "?Q (snd (steer_deliver env reply i text s))"
    unfolding steer_deliver_def Let_def
    by (intro at sv ap cs) (simp_all add: sv ap cs up split: steer_reply.splits)
  then show ?thesis by (cases s) (auto simp: steer_def andThen_reading io_simps split: option.splits)
qed

lemma run_end_status:
  assumes "lc_status (snd s) = CS_RUNNING"
  shows "follows_table CS_RUNNING (lc_status (snd (snd (run_end env out s))))"
proof -
  have base: "follows_table CS_RUNNING (lc_status (snd s))" using assms by (simp add: follows_table_def)
  have fin: "follows_table CS_RUNNING (lc_status (snd (snd
      (andThen (transition ''finish'') (\<lambda>_. apply_status env CS_FINISHED) (begin_settling s)))))"
    by (intro table_andThen) (simp_all add: follows_table_iff assms)
  have can: "follows_table CS_RUNNING (lc_status (snd (snd
      (andThen (transition ''cancel'') (\<lambda>_. apply_status env CS_CANCELLED) s))))"
    by (intro table_andThen) (simp_all add: assms follows_table_iff)
  have err: "follows_table CS_RUNNING (lc_status (snd (snd (andThen (append_event env EK_ERROR p)
      (\<lambda>_. andThen (transition ''error'') (\<lambda>_. andThen (apply_status env CS_ERROR) (\<lambda>_. raise e :: unit conv_op))) s))))"
    for p e by (intro table_andThen) (simp_all add: assms follows_table_iff io_simps(2))
  have settle: "andThen (try_finally (ret ()) begin_settling) k s = k () (begin_settling s)"
    for k :: "unit \<Rightarrow> unit conv_op"
    by (simp add: andThen_def try_finally_def ret_def)
  show ?thesis using fin can err settle
    by (cases out) (simp_all add: run_end_def try_finally_def)
qed

lemma run_begin_status: "follows_table (lc_status (snd s)) (lc_status (snd (snd (run_begin env s))))"
proof (cases "lc_status (snd s) = CS_RUNNING \<or> fst (transition ''run'' s) \<noteq> Inr ()")
  case True
  have "snd (run_begin env s) = s"
  proof (cases "lc_status (snd s) = CS_RUNNING")
    case running: True
    then show ?thesis by (cases s) (simp add: run_begin_def andThen_reading raise_def)
  next
    case False
    with True obtain e where "transition ''run'' s = (Inl e, s)"
      by (simp add: transition_eq split: if_splits)
    with False show ?thesis
      by (cases s) (simp add: run_begin_def andThen_reading andThen_Inl [of "transition ''run''"])
  qed
  then show ?thesis by (simp add: follows_table_def)
next
  case False
  then have idle: "lc_status (snd s) = CS_IDLE" using allowed [of "''run''" s] by auto
  have om: "lc_status (snd (snd (open_messages t))) = lc_status (snd t)" for t
    by (cases t) (simp add: open_messages_def)
  have "follows_table CS_IDLE (lc_status (snd (snd (andThen (transition ''run'')
      (\<lambda>_. andThen (apply_status env CS_RUNNING) (\<lambda>_. open_messages)) s))))"
    by (intro table_andThen) (simp_all add: idle om follows_table_iff)
  then show ?thesis using idle by (cases s) (simp add: run_begin_def andThen_reading)
qed

text \<open>
  Every status change of a conversation is an entry of the transition table.  Whichever method
  runs in a state that the invariant holds of, and whether it returns or raises, the status
  afterwards is the same or the one the table gives for the old status; a restart turns an
  interrupted run into an error, as the table does.
\<close>

lemma status_follows_table:
  assumes inv: "conv_inv s" and step: "conv_step s s'"
  shows "follows_table (lc_status (snd s)) (lc_status (snd s'))"
  using step
proof cases
  case (steering env reply i msg)
  then show ?thesis by (simp add: steer_status)
next
  case (cancelling err)
  then show ?thesis
    by (cases s) (simp add: cancel_def andThen_reading io_simps mark_cancelling_def call_cancel_def)
next
  case (restart env c ctl d)
  with open_conversation_inv [of d c env ctl] inv show ?thesis
    by (auto simp: follows_table_iff)
qed (simp_all add: send_message_status run_begin_status run_end_status)

lemma status_follows_table_witness:
  "follows_table (lc_status (snd sample_running))
     (lc_status (snd (snd (run_end sample_conv_env Run_done sample_running))))"
  by (rule status_follows_table
      [OF conversation.inv_reachable [OF sample_conv_start sample_running_reachable] conv_step.ending])
    (simp add: sample_running_flags)

text \<open>
  A cancelled conversation stays cancelled.  From a state with that status no history of
  methods, runs and restarts leads to another status, and in every later state a message and a
  run are refused without a change.
\<close>

lemma cancelled_is_final:
  assumes inv: "conv_inv s" and can: "lc_status (snd s) = CS_CANCELLED" and steps: "conv_step\<^sup>*\<^sup>* s s'"
  shows "lc_status (snd s') = CS_CANCELLED \<and>
    send_message env msg s' = (Inl (InvalidConversationStateError CS_CANCELLED ''send_message''), s') \<and>
    run_begin env s' = (Inl (InvalidConversationStateError CS_CANCELLED ''run''), s')"
proof -
  from steps have "lc_status (snd s') = CS_CANCELLED \<and> conv_inv s'"
  proof (induction rule: rtranclp_induct)
    case (step y z)
    with status_follows_table [of y z] conv_step_inv [of y z] show ?case by (auto simp: follows_table_iff)
  qed (simp add: inv can)
  then have st: "lc_status (snd s') = CS_CANCELLED" by simp
  then have no: "transition op s' = (Inl (InvalidConversationStateError CS_CANCELLED op), s')" for op
    by (simp add: transition_eq ALLOWED_TRANSITIONS_def)
  have "send_message env msg s' = (Inl (InvalidConversationStateError CS_CANCELLED ''send_message''), s')"
    unfolding send_message_def by (rule andThen_Inl) (rule no)
  moreover have "run_begin env s' = (Inl (InvalidConversationStateError CS_CANCELLED ''run''), s')"
    unfolding run_begin_def andThen_reading using st andThen_Inl [of "transition ''run''" s', OF no]
    by (simp add: split_beta)
  ultimately show ?thesis using st by simp
qed

definition sample_cancelled :: conv_state where
  "sample_cancelled = snd (run_end sample_conv_env Run_cancelled (snd (cancel None sample_running)))"

lemma sample_cancel: "cancel None sample_running =
  (Inr (), (fst sample_running, (snd sample_running)\<lparr>lc_accepting_messages := False, lc_cancelling := True,
     lc_cancel_calls := Suc (lc_cancel_calls (snd sample_running))\<rparr>))"
  using sample_running_flags(1,3,4)
  unfolding cancel_def andThen_reading
  by (simp add: andThen_def mark_cancelling_def call_cancel_def split_beta)

lemma sample_cancel_reachable: "conv_step\<^sup>*\<^sup>* sample_conv (snd (cancel None sample_running))"
  using sample_running_reachable conv_step.cancelling by (rule rtranclp.rtrancl_into_rtrancl)

lemma cancelled_is_final_witness:
  "lc_status (snd sample_cancelled) = CS_CANCELLED \<and>
   send_message sample_conv_env ''more'' sample_cancelled =
     (Inl (InvalidConversationStateError CS_CANCELLED ''send_message''), sample_cancelled)"
proof -
  have st: "lc_status (snd (snd (cancel None sample_running))) = CS_RUNNING"
    using sample_running_flags by (simp add: sample_cancel)
  have "conv_step\<^sup>*\<^sup>* sample_conv sample_cancelled"
    unfolding sample_cancelled_def
    using sample_cancel_reachable conv_step.ending [OF st] by (rule rtranclp.rtrancl_into_rtrancl)
  then have inv: "conv_inv sample_cancelled" by (rule conversation.inv_reachable [OF sample_conv_start])
  have "transition ''cancel'' (snd (cancel None sample_running)) = (Inr (), snd (cancel None sample_running))"
    using st by (simp add: transition_eq ALLOWED_TRANSITIONS_def)
  then have can: "lc_status (snd sample_cancelled) = CS_CANCELLED"
    unfolding sample_cancelled_def run_end_def
    by (simp add: try_finally_def andThen_Inr [of "transition ''cancel''"])
  from cancelled_is_final [OF inv can rtranclp.rtrancl_refl] can show ?thesis by simp
qed

section \<open>A cancellation that is lost\<close>

text \<open>
  The flag \<open>_cancelling\<close> is set and never cleared.  When a cancelled run still finishes, the
  conversation goes on, and the cancellation of a later run returns without reaching the backend.
\<close>

definition after_race :: conv_state where
  "after_race =
     snd (run_begin sample_conv_env (snd (send_message sample_conv_env ''again''
       (snd (run_end sample_conv_env Run_done (snd (cancel None sample_running)))))))"

lemma after_race_reachable: "conv_step\<^sup>*\<^sup>* sample_conv after_race"
proof -
  let ?s = "snd (cancel None sample_running)"
  let ?s1 = "snd (run_end sample_conv_env Run_done ?s)"
  let ?s2 = "snd (send_message sample_conv_env ''again'' ?s1)"
  have "lc_status (snd ?s) = CS_RUNNING" using sample_running_flags by (simp add: sample_cancel)
  from conv_step.ending [OF this] have "conv_step ?s ?s1" .
  moreover have "conv_step ?s1 ?s2" by (rule conv_step.message)
  moreover have "conv_step ?s2 after_race" unfolding after_race_def by (rule conv_step.starting)
  ultimately show ?thesis using sample_cancel_reachable by (meson rtranclp.rtrancl_into_rtrancl)
qed

lemma after_race_flags: "lc_status (snd after_race) = CS_RUNNING" "lc_cancelling (snd after_race)"
  by (simp_all add: after_race_def sample_running_def sample_conv_def sample_conv_env_def conv_eval cancel_def
      mark_cancelling_def call_cancel_def run_end_def try_finally_def begin_settling_def eval_nat_numeral)

lemma cancel_lost_after_race: "cancel err after_race = (Inr (), after_race)"
  using after_race_flags by (cases after_race) (simp add: cancel_def andThen_reading io_simps)

text \<open>The persisted creation time is the time of the latest status change.\<close>

lemma created_at_rewritten:
  "load_meta (lc_key c) (fst (snd (persist_status env (d, c)))) =
     Inr \<lparr>cr_id = lc_id c, cr_status = lc_status c, cr_working_dir = lc_working_dir c, cr_created_at = ce_now env\<rparr>"
  by (simp add: persist_status_def load_saved)

end
