(* ===== verification/Conversation_Service.thy ===== *)
theory Conversation_Service
  imports Conversation
begin

text \<open>
  \<open>sandboxes/gg/server/pubsub.py\<close> and \<open>conversation_service.py\<close>: the bounded fan-out of live events,
  and the process-wide manager that creates, hydrates and caches conversations and admits one run
  at a time per conversation.  Path resolution, the backends and asyncio's task objects are
  arguments or lists of identifiers.
\<close>

section \<open>PubSub\<close>

text \<open>Subscribers are callables; the model names them.\<close>

record PubSub =
  ps_max_subscribers :: nat
  ps_subscribers :: "string list"

definition new_pubsub :: PubSub where
  "new_pubsub = \<lparr>ps_max_subscribers = 50, ps_subscribers = []\<rparr>"

definition subscribe :: "string \<Rightarrow> PubSub \<Rightarrow> (nat + unit) \<times> PubSub" where
  "subscribe s p =
     (if s \<in> set (ps_subscribers p) then (Inr (), p)
      else if ps_max_subscribers p \<le> length (ps_subscribers p) then (Inl (ps_max_subscribers p), p)
      else (Inr (), p\<lparr>ps_subscribers := ps_subscribers p @ [s]\<rparr>))"

definition unsubscribe :: "string \<Rightarrow> PubSub \<Rightarrow> PubSub" where
  "unsubscribe s p = p\<lparr>ps_subscribers := filter (\<lambda>x. x \<noteq> s) (ps_subscribers p)\<rparr>"

text \<open>
  \<open>_deliver\<close> swallows a subscriber's exception; \<open>publish\<close> delivers to those present when it starts.
  A delivery is a state transformer of the world outside, or an exception after part of it.
\<close>

definition deliver :: "(string \<Rightarrow> 'e \<Rightarrow> 'w \<Rightarrow> (unit + unit) \<times> 'w) \<Rightarrow> 'e \<Rightarrow> string \<Rightarrow> 'w \<Rightarrow> 'w" where
  "deliver handler event s w = snd (handler s event w)"

definition publish :: "(string \<Rightarrow> 'e \<Rightarrow> 'w \<Rightarrow> (unit + unit) \<times> 'w) \<Rightarrow> 'e \<Rightarrow> PubSub \<Rightarrow> 'w \<Rightarrow> 'w" where
  "publish handler event p w = fold (deliver handler event) (ps_subscribers p) w"

datatype pubsub_op = Subscribe string | Unsubscribe string

fun pubsub_run :: "pubsub_op list \<Rightarrow> PubSub \<Rightarrow> PubSub" where
  "pubsub_run [] p = p"
| "pubsub_run (Subscribe s # ops) p = pubsub_run ops (snd (subscribe s p))"
| "pubsub_run (Unsubscribe s # ops) p = pubsub_run ops (unsubscribe s p)"

definition pubsub_ok :: "PubSub \<Rightarrow> bool" where
  "pubsub_ok p \<longleftrightarrow> distinct (ps_subscribers p) \<and> length (ps_subscribers p) \<le> ps_max_subscribers p"

lemma pubsub_run_ok: "pubsub_ok p \<Longrightarrow> pubsub_ok (pubsub_run ops p) \<and> ps_max_subscribers (pubsub_run ops p) = ps_max_subscribers p"
proof (induction ops p rule: pubsub_run.induct)
  case (2 s ops p)
  have "pubsub_ok (snd (subscribe s p))" "ps_max_subscribers (snd (subscribe s p)) = ps_max_subscribers p"
    using 2(2) by (auto simp: pubsub_ok_def subscribe_def)
  with 2(1) show ?case by simp
next
  case (3 s ops p)
  have "pubsub_ok (unsubscribe s p)" "ps_max_subscribers (unsubscribe s p) = ps_max_subscribers p"
    using 3(2) by (auto simp: pubsub_ok_def unsubscribe_def intro: order_trans [OF length_filter_le])
  with 3(1) show ?case by simp
qed simp

text \<open>A handler that counts its deliveries and then fails still leaves every other one served.\<close>

lemma publish_counts:
  assumes "distinct (ps_subscribers p)"
  shows "publish (\<lambda>s e w. (if bad s then Inl () else Inr (), w(s := Suc (w s)))) e p w s =
    w s + (if s \<in> set (ps_subscribers p) then 1 else 0)"
proof -
  have "fold (deliver (\<lambda>s e w. (if bad s then Inl () else Inr (), w(s := Suc (w s)))) e) xs w s =
      w s + (if s \<in> set xs then 1 else 0)" if "distinct xs" for xs
    using that by (induction xs arbitrary: w) (auto simp: deliver_def)
  with assms show ?thesis by (simp add: publish_def)
qed

text \<open>
  the fan-out never holds more subscribers than its capacity, whatever is subscribed and
  unsubscribed, and a published event reaches every subscriber exactly once even when others fail.
\<close>

theorem pubsub_bounded:
  "length (ps_subscribers (pubsub_run ops new_pubsub)) \<le> 50 \<and>
   publish (\<lambda>s e w. (if bad s then Inl () else Inr (), w(s := Suc (w s)))) e (pubsub_run ops new_pubsub) (\<lambda>_. 0) s =
     (if s \<in> set (ps_subscribers (pubsub_run ops new_pubsub)) then 1 else 0)"
proof -
  have "pubsub_ok new_pubsub" "ps_max_subscribers new_pubsub = 50" by (simp_all add: pubsub_ok_def new_pubsub_def)
  with pubsub_run_ok [of new_pubsub ops] show ?thesis by (simp add: pubsub_ok_def publish_counts)
qed

section \<open>The service\<close>

text \<open>An \<open>asyncio\<close> task of a run: pending, finished with a result or an exception, or cancelled.\<close>

datatype run_task = Task_running | Task_done "sandbox_error + unit" | Task_cancelled

record ConversationService =
  cs_db :: sandbox_db
  cs_live :: "(string \<times> LocalConversation) list"
  cs_run_tasks :: "(string \<times> run_task) list"
  cs_event_streams :: "(string \<times> PubSub) list"

type_synonym 'a service_op = "(ConversationService, sandbox_error, 'a) io"

definition service_exists :: "string \<Rightarrow> ConversationService \<Rightarrow> bool" where
  "service_exists cid s \<longleftrightarrow> map_of (cs_live s) cid \<noteq> None \<or>
     exists_row (\<lambda>r. cw_directory r = cid \<and> cw_meta r \<noteq> None) (conversations (cs_db s))"

definition put_live :: "string \<Rightarrow> conv_state \<Rightarrow> ConversationService \<Rightarrow> ConversationService" where
  "put_live cid s' s = s\<lparr>cs_db := fst s', cs_live := (cid, snd s') # filter (\<lambda>p. fst p \<noteq> cid) (cs_live s)\<rparr>"

definition load_meta_op :: "string \<Rightarrow> ConversationRecord service_op" where
  "load_meta_op cid s = (load_meta cid (cs_db s), s)"

definition service_create ::
  "conv_env \<Rightarrow> string \<Rightarrow> string \<Rightarrow> string \<Rightarrow> PiAgentConfig \<Rightarrow> bool \<Rightarrow> ConversationRecord service_op" where
  "service_create env fresh conversation_id working_dir agent controls s =
     (let cid = (if conversation_id = [] then fresh else conversation_id);
          s1 = put_live cid (new_conversation env cid cid working_dir agent controls (cs_db s)) s
      in load_meta_op cid s1)"

definition service_get :: "conv_env \<Rightarrow> bool \<Rightarrow> string \<Rightarrow> LocalConversation service_op" where
  "service_get env controls cid s =
     (case map_of (cs_live s) cid of
        Some c \<Rightarrow> (Inr c, s)
      | None \<Rightarrow>
          if \<not> service_exists cid s then (Inl (ConversationNotFoundError cid), s)
          else (case open_conversation env cid controls (cs_db s) of
                  Inl e \<Rightarrow> (Inl e, s)
                | Inr s' \<Rightarrow> (Inr (snd s'), put_live cid s' s)))"

definition get_record :: "conv_env \<Rightarrow> bool \<Rightarrow> string \<Rightarrow> ConversationRecord service_op" where
  "get_record env controls cid =
     andThen (service_get env controls cid) (\<lambda>c. load_meta_op (lc_key c))"

definition service_start ::
  "conv_env \<Rightarrow> string \<Rightarrow> string option \<Rightarrow> string \<Rightarrow> PiAgentConfig \<Rightarrow> bool \<Rightarrow>
   (ConversationRecord \<times> bool) service_op" where
  "service_start env fresh request_id working_dir agent controls =
     andThen (reading (\<lambda>s. case request_id of None \<Rightarrow> False | Some cid \<Rightarrow> service_exists cid s)) (\<lambda>known.
     if known
     then andThen (get_record env controls (the request_id)) (\<lambda>r. ret (r, False))
     else andThen (service_create env fresh (coalesce_to request_id []) working_dir agent controls)
            (\<lambda>r. ret (r, True)))"

text \<open>A method of the conversation, run on the live object.\<close>

definition on_live :: "conv_env \<Rightarrow> bool \<Rightarrow> string \<Rightarrow> 'a conv_op \<Rightarrow> 'a service_op" where
  "on_live env controls cid m =
     andThen (service_get env controls cid) (\<lambda>c s.
       let (r, s') = m (cs_db s, c) in (r, put_live cid s' s))"

definition service_list :: "ConversationService \<Rightarrow> ConversationRecord list" where
  "service_list s = order_by cr_created_at (List.map_filter cw_meta (conversations (cs_db s)))"

definition service_send_message :: "conv_env \<Rightarrow> bool \<Rightarrow> string \<Rightarrow> string \<Rightarrow> Event service_op" where
  "service_send_message env controls cid content = on_live env controls cid (send_message env content)"

definition service_steer ::
  "conv_env \<Rightarrow> bool \<Rightarrow> steer_reply \<Rightarrow> string \<Rightarrow> string \<Rightarrow> string \<Rightarrow> MessageReceipt service_op" where
  "service_steer env controls reply cid message_id content =
     on_live env controls cid (steer env reply message_id content)"

definition event_stream :: "conv_env \<Rightarrow> bool \<Rightarrow> string \<Rightarrow> PubSub service_op" where
  "event_stream env controls cid =
     andThen (service_get env controls cid) (\<lambda>_ s.
       case map_of (cs_event_streams s) cid of
         Some p \<Rightarrow> (Inr p, s)
       | None \<Rightarrow> (Inr new_pubsub, s\<lparr>cs_event_streams := (cid, new_pubsub) # cs_event_streams s\<rparr>))"

definition service_list_events ::
  "conv_env \<Rightarrow> bool \<Rightarrow> string \<Rightarrow> int \<Rightarrow> int option \<Rightarrow> Event list service_op" where
  "service_list_events env controls cid after limit =
     andThen (service_get env controls cid) (\<lambda>c s. (log_list (lc_key c) after limit (cs_db s), s))"

definition service_get_message_receipt ::
  "conv_env \<Rightarrow> bool \<Rightarrow> string \<Rightarrow> string \<Rightarrow> MessageReceipt option service_op" where
  "service_get_message_receipt env controls cid message_id =
     andThen (service_get env controls cid) (\<lambda>c. reading (\<lambda>s. receipt_load (lc_key c) message_id (cs_db s)))"

section \<open>Runs\<close>

definition task_of :: "string \<Rightarrow> ConversationService \<Rightarrow> run_task option" where
  "task_of cid s = map_of (cs_run_tasks s) cid"

definition set_task :: "string \<Rightarrow> run_task \<Rightarrow> ConversationService \<Rightarrow> ConversationService" where
  "set_task cid t s = s\<lparr>cs_run_tasks := (cid, t) # cs_run_tasks s\<rparr>"

text \<open>\<open>run\<close> up to the created task; a finished entry is replaced, a running one refuses.\<close>

definition service_run_begin :: "conv_env \<Rightarrow> bool \<Rightarrow> string \<Rightarrow> unit service_op" where
  "service_run_begin env controls cid =
     andThen (service_get env controls cid) (\<lambda>_.
     andThen (event_stream env controls cid) (\<lambda>_ s.
       if task_of cid s = Some Task_running then (Inl ConversationAlreadyRunningError, s)
       else (Inr (), set_task cid Task_running s)))"

text \<open>
  The worker thread: it runs the conversation on the live object and settles its task with the
  result, unless the task was cancelled while the thread was busy.
\<close>

definition settle_task :: "string \<Rightarrow> sandbox_error + unit \<Rightarrow> ConversationService \<Rightarrow> ConversationService" where
  "settle_task cid r s = (if task_of cid s = Some Task_running then set_task cid (Task_done r) s else s)"

definition run_worker ::
  "conv_env \<Rightarrow> bool \<Rightarrow> (string \<Rightarrow> (EventKind \<times> payload) list \<times> run_outcome) \<Rightarrow> string \<Rightarrow> unit service_op" where
  "run_worker env controls backend cid s =
     (let (r, s') = on_live env controls cid (run_conversation env backend) s in (r, settle_task cid r s'))"

definition service_run ::
  "conv_env \<Rightarrow> bool \<Rightarrow> (string \<Rightarrow> (EventKind \<times> payload) list \<times> run_outcome) \<Rightarrow> string \<Rightarrow>
   ConversationRecord service_op" where
  "service_run env controls backend cid =
     andThen (service_run_begin env controls cid) (\<lambda>_.
     andThen (run_worker env controls backend cid) (\<lambda>_. load_meta_op cid))"

text \<open>
  \<open>asyncio.wait_for(run(...), timeout)\<close> whose time is up: cancelling the waiting coroutine cancels the
  task it awaits, the worker thread goes on (here after the events \<open>emitted\<close>), and the caller
  gets \<open>TimeoutError\<close>.
\<close>

definition service_run_timed_out ::
  "conv_env \<Rightarrow> bool \<Rightarrow> (EventKind \<times> payload) list \<Rightarrow> string \<Rightarrow> ConversationRecord service_op" where
  "service_run_timed_out env controls emitted cid =
     andThen (service_run_begin env controls cid) (\<lambda>_.
     andThen (on_live env controls cid
        (andThen (run_begin env) (\<lambda>_. for_each (\<lambda>(k, p). andThen (append_event env k p) (\<lambda>_. ret ())) emitted))) (\<lambda>_ s.
       (Inl (SandboxTimeoutError []), set_task cid Task_cancelled s)))"

text \<open>
  \<open>await task\<close> of \<open>cancel\<close>: a running task is awaited until the worker ends with \<open>outcome\<close>, a finished
  one gives its result again, a cancelled one raises \<open>CancelledError\<close>.
\<close>

definition await_task :: "conv_env \<Rightarrow> bool \<Rightarrow> run_outcome \<Rightarrow> string \<Rightarrow> unit service_op" where
  "await_task env controls outcome cid s =
     (case task_of cid s of
        None \<Rightarrow> (Inr (), s)
      | Some (Task_done r) \<Rightarrow> (r, s)
      | Some Task_cancelled \<Rightarrow> (Inl CancelledError, s)
      | Some Task_running \<Rightarrow>
          (let (r, s') = on_live env controls cid (run_end env outcome) s in (r, settle_task cid r s')))"

definition service_cancel ::
  "conv_env \<Rightarrow> bool \<Rightarrow> string option \<Rightarrow> run_outcome \<Rightarrow> string \<Rightarrow> ConversationRecord service_op" where
  "service_cancel env controls cancel_error outcome cid =
     andThen (on_live env controls cid (cancel cancel_error)) (\<lambda>_.
     andThen (await_task env controls outcome cid) (\<lambda>_. load_meta_op cid))"

section \<open>Properties\<close>

lemma map_of_put_live [simp]:
  "map_of (cs_live (put_live cid s' s)) k = (if k = cid then Some (snd s') else map_of (cs_live s) k)"
proof -
  have "map_of (filter (\<lambda>p. fst p \<noteq> cid) xs) k = map_of xs k" if "k \<noteq> cid" for xs :: "(string \<times> LocalConversation) list"
    using that by (induction xs) auto
  then show ?thesis by (simp add: put_live_def)
qed

lemma new_conversation_meta:
  "load_meta key (fst (new_conversation env key cid wd ag ctl d)) =
     Inr \<lparr>cr_id = (if cid = [] then key else cid), cr_status = CS_IDLE, cr_working_dir = wd,
          cr_created_at = ce_now env\<rparr>"
  "lc_key (snd (new_conversation env key cid wd ag ctl d)) = key"
  by (simp_all add: new_conversation_def persist_status_def load_saved)

text \<open>
  starting a conversation with an identifier is idempotent.  If the identifier is unknown the
  call creates an idle conversation; calling it again, with whatever working directory, agent
  and time, reattaches: it returns the same record as not created and changes nothing.
\<close>

theorem start_idempotent:
  assumes "\<not> service_exists cid s" "cid \<noteq> []"
  shows "\<exists>r s'. service_start env fresh (Some cid) wd ag ctl s = (Inr (r, True), s') \<and>
    cr_id r = cid \<and> cr_status r = CS_IDLE \<and> cr_working_dir r = wd \<and>
    service_start env' fresh' (Some cid) wd' ag' ctl' s' = (Inr (r, False), s')"
proof -
  let ?c = "new_conversation env cid cid wd ag ctl (cs_db s)"
  let ?s = "put_live cid ?c s"
  let ?r = "\<lparr>cr_id = cid, cr_status = CS_IDLE, cr_working_dir = wd, cr_created_at = ce_now env\<rparr>"
  have m: "load_meta cid (cs_db ?s) = Inr ?r"
    using new_conversation_meta(1) [of cid env cid wd ag ctl "cs_db s"] assms(2) by (simp add: put_live_def)
  have first: "service_start env fresh (Some cid) wd ag ctl s = (Inr (?r, True), ?s)"
    using assms m by (simp add: service_start_def andThen_reading service_create_def Let_def io_simps load_meta_op_def)
  have ex: "service_exists cid ?s" by (simp add: service_exists_def)
  have g: "service_get env' ctl' cid ?s = (Inr (snd ?c), ?s)" by (simp add: service_get_def)
  have "get_record env' ctl' cid ?s = (Inr ?r, ?s)"
    unfolding get_record_def andThen_Inr [of "service_get env' ctl' cid" ?s, OF g]
    by (simp add: load_meta_op_def new_conversation_meta(2) m)
  then have "service_start env' fresh' (Some cid) wd' ag' ctl' ?s = (Inr (?r, False), ?s)"
    using ex by (simp add: service_start_def andThen_reading io_simps)
  with first show ?thesis by auto
qed

definition empty_service :: ConversationService where
  "empty_service = \<lparr>cs_db = empty_sandbox, cs_live = [], cs_run_tasks = [], cs_event_streams = []\<rparr>"

theorem start_idempotent_witness:
  "\<exists>r s'. service_start sample_conv_env ''f'' (Some ''c1'') ''/w'' default_agent True empty_service = (Inr (r, True), s') \<and>
    service_start sample_conv_env ''g'' (Some ''c1'') ''/other'' default_agent True s' = (Inr (r, False), s')"
  using start_idempotent [of "''c1''" empty_service sample_conv_env "''f''" "''/w''" default_agent True
      sample_conv_env "''g''" "''/other''" default_agent True]
  by (auto simp: service_exists_def empty_service_def empty_sandbox_def)

text \<open>
  at most one run per conversation.  While a run of a live conversation is under way a second
  one is refused and changes neither the conversation nor the table of runs; once the worker has
  settled its task, with success or with an exception, the conversation can be run again.
\<close>

theorem one_run_per_conversation:
  assumes live: "map_of (cs_live s) cid = Some c" and str: "map_of (cs_event_streams s) cid = Some p"
    and free: "task_of cid s \<noteq> Some Task_running"
  shows "\<exists>s1. service_run_begin env ctl cid s = (Inr (), s1) \<and>
    service_run_begin env' ctl' cid s1 = (Inl ConversationAlreadyRunningError, s1) \<and>
    fst (service_run_begin env' ctl' cid (settle_task cid r s1)) = Inr ()"
proof -
  have g: "service_get e k cid t = (Inr c, t)" if "cs_live t = cs_live s" for e k t
    using that live by (simp add: service_get_def)
  have es: "event_stream e k cid t = (Inr p, t)" if "cs_live t = cs_live s" "cs_event_streams t = cs_event_streams s" for e k t
    unfolding event_stream_def andThen_Inr [of "service_get e k cid" t, OF g [OF that(1)]] using str that(2) by simp
  have rb: "service_run_begin e k cid t = (if task_of cid t = Some Task_running then (Inl ConversationAlreadyRunningError, t)
      else (Inr (), set_task cid Task_running t))"
    if "cs_live t = cs_live s" "cs_event_streams t = cs_event_streams s" for e k t
    unfolding service_run_begin_def andThen_Inr [of "service_get e k cid" t, OF g [OF that(1)]]
      andThen_Inr [of "event_stream e k cid" t, OF es [OF that]] by simp
  show ?thesis using free by (simp add: rb set_task_def settle_task_def task_of_def)
qed

theorem one_run_per_conversation_witness:
  "\<exists>s1. service_run_begin sample_conv_env True ''c1''
      (empty_service\<lparr>cs_live := [(''c1'', snd sample_conv)], cs_event_streams := [(''c1'', new_pubsub)]\<rparr>) = (Inr (), s1) \<and>
    service_run_begin sample_conv_env True ''c1'' s1 = (Inl ConversationAlreadyRunningError, s1)"
  using one_run_per_conversation [of "empty_service\<lparr>cs_live := [(''c1'', snd sample_conv)],
      cs_event_streams := [(''c1'', new_pubsub)]\<rparr>" "''c1''" "snd sample_conv" new_pubsub
      sample_conv_env True sample_conv_env True]
  by (auto simp: empty_service_def task_of_def)

end
