(* ===== verification/Sandbox_Evidence.thy ===== *)
theory Sandbox_Evidence
  imports Event_Log Evidence Py_Text
begin

text \<open>
  The evidence a sandbox collects: bounded command output (\<open>task_supervisor/commands.py\<close>),
  repository preparation and git evidence (\<open>task_supervisor/git_prep.py\<close>), redaction of
  credentials in nested values (\<open>secret_redaction.py\<close>) and in result manifests
  (\<open>TaskSupervisorService._redact_manifest\<close>).  What a subprocess printed and returned is an argument.
\<close>

section \<open>Bounded command output\<close>

record completed_process =
  cp_returncode :: int
  cp_stdout :: string
  cp_stderr :: string

text \<open>\<open>subprocess.run\<close> with a timeout: it completed, or it expired with what was captured so far.\<close>

datatype shell_result = Shell_completed completed_process | Shell_expired "string option" "string option"

definition clip_text :: "string \<Rightarrow> nat \<Rightarrow> string \<times> bool" where
  "clip_text text limit =
     (if length text \<le> limit then (text, False) else (utf8_ignore (take limit text), True))"

definition run_bounded_command ::
  "string \<Rightarrow> nat \<Rightarrow> shell_result \<Rightarrow> int \<Rightarrow> CommandCapture" where
  "run_bounded_command command max_output_bytes result duration_ms =
     (let (code, out, err, expired) = (case result of
            Shell_completed p \<Rightarrow> (Some (cp_returncode p), cp_stdout p, cp_stderr p, False)
          | Shell_expired o1 o2 \<Rightarrow> (None, coalesce_to o1 [], coalesce_to o2 [], True));
          (stdout, stdout_truncated) = clip_text out max_output_bytes;
          (stderr, stderr_truncated) = clip_text err max_output_bytes
      in \<lparr>cc_command = command, cc_exit_code = code, cc_duration_ms = duration_ms,
          cc_stdout = stdout, cc_stderr = stderr, cc_stdout_truncated = stdout_truncated,
          cc_stderr_truncated = stderr_truncated, cc_timed_out = expired\<rparr>)"

definition check_outcome :: "CommandCapture \<Rightarrow> CheckOutcome" where
  "check_outcome c =
     (if cc_timed_out c then CO_TIMEOUT else if cc_exit_code c = Some 0 then CO_PASSED else CO_FAILED)"

text \<open>A text is well-formed UTF-8 when decoding ignores nothing.\<close>

definition valid_utf8 :: "string \<Rightarrow> bool" where
  "valid_utf8 s \<longleftrightarrow> utf8_ignore s = s"

lemma utf8_ignore_conts: "list_all is_cont s \<Longrightarrow> utf8_ignore s = []"
  by (induction s) (auto simp: is_cont_def utf8_width_def Let_def)

lemma valid_utf8_Cons:
  assumes "valid_utf8 (c # cs)"
  shows "utf8_width c \<noteq> 0" "utf8_width c - 1 \<le> length cs" "list_all is_cont (take (utf8_width c - 1) cs)"
    "valid_utf8 (drop (utf8_width c - 1) cs)"
proof -
  let ?k = "utf8_width c - 1"
  have ok: "utf8_width c \<noteq> 0 \<and> ?k \<le> length cs \<and> list_all is_cont (take ?k cs)"
  proof (rule ccontr)
    assume "\<not> ?thesis"
    then have e: "utf8_ignore (c # cs) = utf8_ignore cs" by (auto simp: Let_def)
    have "length (utf8_ignore (c # cs)) = Suc (length cs)" using assms by (simp only: valid_utf8_def length_Cons)
    with length_utf8_ignore [of cs] show False unfolding e by simp
  qed
  with assms have "take ?k cs @ utf8_ignore (drop ?k cs) = cs" by (simp add: valid_utf8_def Let_def)
  also have "cs = take ?k cs @ drop ?k cs" by simp
  finally have "utf8_ignore (drop ?k cs) = drop ?k cs" by (metis same_append_eq)
  with ok show "utf8_width c \<noteq> 0" "?k \<le> length cs" "list_all is_cont (take ?k cs)" "valid_utf8 (drop ?k cs)"
    by (simp_all add: valid_utf8_def)
qed

lemma utf8_width_le: "utf8_width c \<le> 4"
  by (simp add: utf8_width_def Let_def)

text \<open>Cutting well-formed text at any byte and decoding keeps a prefix and loses at most three bytes.\<close>

lemma utf8_ignore_take:
  "valid_utf8 s \<Longrightarrow> prefix (utf8_ignore (take n s)) s \<and>
   (n \<le> length s \<longrightarrow> n \<le> length (utf8_ignore (take n s)) + 3)"
proof (induction s arbitrary: n rule: utf8_ignore.induct)
  case (2 c cs)
  let ?k = "utf8_width c - 1"
  note v = valid_utf8_Cons [OF 2(3)]
  show ?case
  proof (cases n)
    case (Suc m)
    show ?thesis
    proof (cases "?k \<le> m")
      case True
      then have t: "take n (c # cs) = c # take ?k cs @ take (m - ?k) (drop ?k cs)"
        using Suc take_add [of ?k "m - ?k" cs] by simp
      have l: "length (take ?k cs) = ?k" using v(2) by simp
      let ?u = "utf8_ignore (take (m - ?k) (drop ?k cs))"
      have e: "utf8_ignore (take n (c # cs)) = c # take ?k cs @ ?u"
        unfolding t using v(1,3) l by (simp add: Let_def)
      have ih: "prefix ?u (drop ?k cs)"
        "m - ?k \<le> length (drop ?k cs) \<Longrightarrow> m - ?k \<le> length ?u + 3"
        using 2(1) [OF refl _ v(4), of "m - ?k"] v(1-3) by blast+
      have "prefix (take ?k cs @ ?u) (take ?k cs @ drop ?k cs)" using ih(1) by (simp only: same_prefix_prefix)
      then have "prefix (c # take ?k cs @ ?u) (c # cs)" by simp
      moreover have "n \<le> length (c # take ?k cs @ ?u) + 3" if "n \<le> length (c # cs)"
      proof -
        have "m - ?k \<le> length (drop ?k cs)" using that Suc by simp
        from ih(2) [OF this] have "m \<le> ?k + length ?u + 3" using True by linarith
        moreover have "length (c # take ?k cs @ ?u) = Suc (?k + length ?u)" using l by (simp only: length_append length_Cons)
        ultimately show ?thesis using Suc by linarith
      qed
      ultimately show ?thesis unfolding e by blast
    next
      case False
      then have "take m cs = take m (take ?k cs)" by simp
      with v(3) have "list_all is_cont (take m cs)" by (metis in_set_takeD list_all_iff)
      moreover have "length (take m cs) < ?k" using False by simp
      ultimately have "utf8_ignore (take n (c # cs)) = []"
        using Suc False by (simp add: Let_def utf8_ignore_conts)
      moreover have "m \<le> 2" using False utf8_width_le [of c] by linarith
      ultimately show ?thesis using Suc by simp
    qed
  qed simp
qed simp



section \<open>Repository preparation\<close>

definition resolve_base_sha :: "string \<Rightarrow> completed_process \<Rightarrow> sandbox_error + string" where
  "resolve_base_sha base_ref completed =
     (if cp_returncode completed \<noteq> 0
      then Inl (GitPrepError (''could not resolve base ref '' @ py_repr base_ref @ '': '' @ strip (cp_stderr completed)))
      else Inr (strip (cp_stdout completed)))"

definition dict_put :: "string \<Rightarrow> 'v \<Rightarrow> (string \<times> 'v) list \<Rightarrow> (string \<times> 'v) list" where
  "dict_put k v d = (if k \<in> fst ` set d then map (\<lambda>p. if fst p = k then (k, v) else p) d else d @ [(k, v)])"

definition dict_pop :: "string \<Rightarrow> (string \<times> 'v) list \<Rightarrow> (string \<times> 'v) list" where
  "dict_pop k d = filter (\<lambda>p. fst p \<noteq> k) d"

lemma map_of_dict_put: "map_of (dict_put k v d) x = (if x = k then Some v else map_of d x)"
proof -
  have "map_of (map (\<lambda>p. if fst p = k then (k, v) else p) d) x =
      (if x = k then (if k \<in> fst ` set d then Some v else None) else map_of d x)"
  proof (induction d)
    case (Cons p d)
    then show ?case by (cases p; cases "x = k"; cases "fst p = k") simp_all
  qed simp
  moreover have "k \<notin> fst ` set d \<Longrightarrow> map_of d k = None" by (simp add: map_of_eq_None_iff)
  ultimately show ?thesis by (cases "k \<in> fst ` set d") (simp_all add: dict_put_def map_add_def split: option.splits)
qed

lemma map_of_dict_pop: "map_of (dict_pop k d) x = (if x = k then None else map_of d x)"
  by (induction d) (auto simp: dict_pop_def)

definition b64_char :: "nat \<Rightarrow> char" where
  "b64_char n = ''ABCDEFGHIJKLMNOPQRSTUVWXYZabcdefghijklmnopqrstuvwxyz0123456789+/'' ! (n mod 64)"

fun b64encode :: "string \<Rightarrow> string" where
  "b64encode [] = []"
| "b64encode [a] = (let n = of_char a * 65536 :: nat in
     [b64_char (n div 262144), b64_char (n div 4096), CHR ''='', CHR ''=''])"
| "b64encode [a, b] = (let n = of_char a * 65536 + of_char b * 256 :: nat in
     [b64_char (n div 262144), b64_char (n div 4096), b64_char (n div 64), CHR ''=''])"
| "b64encode (a # b # c # s) = (let n = of_char a * 65536 + of_char b * 256 + of_char c :: nat in
     [b64_char (n div 262144), b64_char (n div 4096), b64_char (n div 64), b64_char n] @ b64encode s)"

definition clone_env :: "(string \<times> string) list \<Rightarrow> string \<Rightarrow> (string \<times> string) list" where
  "clone_env process_env token =
     (let env = dict_pop ''GIT_ASKPASS'' (dict_pop ''GH_TOKEN'' process_env);
          env = dict_put ''GIT_CONFIG_COUNT'' ''1'' env;
          env = dict_put ''GIT_CONFIG_KEY_0'' ''http.https://github.com/.extraheader'' env;
          env = dict_put ''GIT_CONFIG_VALUE_0''
                  (''Authorization: Basic '' @ b64encode (''x-access-token:'' @ token)) env
      in dict_put ''GIT_TERMINAL_PROMPT'' ''0'' env)"

text \<open>\<open>text.split(sep, 1)[1]\<close>, for a separator that occurs.\<close>

fun after_first :: "string \<Rightarrow> string \<Rightarrow> string option" where
  "after_first sep [] = (if sep = [] then Some [] else None)"
| "after_first sep (c # s) = (if prefix sep (c # s) then Some (drop (length sep) (c # s)) else after_first sep s)"

text \<open>The URL \<open>git remote set-url\<close> is called with, if it is called.\<close>

definition scrub_origin_credentials :: "completed_process \<Rightarrow> string option" where
  "scrub_origin_credentials get_url =
     (if cp_returncode get_url \<noteq> 0 then None
      else
        (let url = strip (cp_stdout get_url) in
         if CHR ''@'' \<notin> set url then None
         else if prefix ''https://'' url
         then map_option (\<lambda>rest. ''https://github.com/'' @ rest) (after_first ''github.com/'' url)
         else None))"

definition clone_repository ::
  "string \<Rightarrow> string \<Rightarrow> bool \<Rightarrow> completed_process \<Rightarrow> completed_process \<Rightarrow> sandbox_error + string option" where
  "clone_repository repository destination nonempty cloned get_url =
     (if nonempty then Inl (GitPrepError (''destination '' @ destination @ '' is not empty''))
      else if cp_returncode cloned \<noteq> 0 then Inl (GitPrepError (''clone failed for '' @ repository))
      else Inr (scrub_origin_credentials get_url))"

definition checkout_task_branch :: "string \<Rightarrow> string \<Rightarrow> completed_process \<Rightarrow> sandbox_error + unit" where
  "checkout_task_branch branch base_sha completed =
     (if cp_returncode completed \<noteq> 0
      then Inl (GitPrepError (''could not create branch '' @ py_repr branch @ '' at '' @ base_sha @ '': '' @
              strip (cp_stderr completed)))
      else Inr ())"

section \<open>Git evidence\<close>

fun drop_points :: "nat \<Rightarrow> string \<Rightarrow> string" where
  "drop_points 0 s = s"
| "drop_points (Suc n) [] = []"
| "drop_points (Suc n) (c # s) = drop_points n (dropWhile is_cont s)"

text \<open>\<open>text[:n]\<close>: the first characters, each with its continuation bytes.\<close>

fun take_points :: "nat \<Rightarrow> string \<Rightarrow> string" where
  "take_points 0 s = []"
| "take_points (Suc n) [] = []"
| "take_points (Suc n) (c # s) = c # takeWhile is_cont s @ take_points n (dropWhile is_cont s)"

text \<open>\<open>dict.fromkeys\<close>: the first occurrences, in order.\<close>

definition fromkeys :: "'a list \<Rightarrow> 'a list" where
  "fromkeys xs = rev (remdups (rev xs))"

definition changed_files :: "string \<Rightarrow> string \<Rightarrow> string list" where
  "changed_files names status =
     fromkeys (filter (\<lambda>l. \<not> blank l) (splitlines names) @
       map (drop_points 3) (filter (\<lambda>l. 3 < py_len l) (splitlines status)))"

definition git_failed :: "string \<Rightarrow> completed_process \<Rightarrow> sandbox_error" where
  "git_failed fallback p = GitPrepError (if strip (cp_stderr p) = [] then fallback else strip (cp_stderr p))"

record git_evidence =
  ge_head :: completed_process
  ge_names :: completed_process
  ge_status :: completed_process
  ge_diff :: completed_process

definition collect_git_evidence ::
  "git_evidence \<Rightarrow> nat \<Rightarrow> sandbox_error + (string \<times> string list \<times> string \<times> bool)" where
  "collect_git_evidence g max_patch_bytes =
     (if cp_returncode (ge_head g) \<noteq> 0 then Inl (git_failed ''git rev-parse HEAD failed'' (ge_head g))
      else if cp_returncode (ge_names g) \<noteq> 0 then Inl (git_failed ''git diff --name-only failed'' (ge_names g))
      else if cp_returncode (ge_status g) \<noteq> 0 then Inl (git_failed ''git status failed'' (ge_status g))
      else if cp_returncode (ge_diff g) \<noteq> 0 then Inl (git_failed ''git diff failed'' (ge_diff g))
      else
        (let (patch, truncated) = clip_text (cp_stdout (ge_diff g)) max_patch_bytes
         in Inr (strip (cp_stdout (ge_head g)),
                 changed_files (cp_stdout (ge_names g)) (cp_stdout (ge_status g)), patch, truncated)))"

section \<open>Redaction\<close>

datatype pyval = PNone | PBool bool | PInt int | PStr string | PTime timestamp
  | PList "pyval list" | PTuple "pyval list" | PDict "(string \<times> pyval) list"

definition dict_of :: "(string \<times> 'v) list \<Rightarrow> (string \<times> 'v) list" where
  "dict_of kvs = fold (\<lambda>(k, v). dict_put k v) kvs []"

fun redact_secret :: "string \<Rightarrow> pyval \<Rightarrow> pyval" where
  "redact_secret secret (PStr s) = PStr (replace_str secret REDACTED s)"
| "redact_secret secret (PList vs) = PList (map (redact_secret secret) vs)"
| "redact_secret secret (PDict kvs) =
     PDict (dict_of (map (\<lambda>(k, v). (replace_str secret REDACTED k, redact_secret secret v)) kvs))"
| "redact_secret secret v = v"

text \<open>\<open>model_dump\<close> and \<open>model_validate\<close> of the manifest, on the value shapes a dump has.\<close>

definition p_opt :: "('a \<Rightarrow> pyval) \<Rightarrow> 'a option \<Rightarrow> pyval" where
  "p_opt f x = (case x of None \<Rightarrow> PNone | Some a \<Rightarrow> f a)"

definition capture_dump :: "CommandCapture \<Rightarrow> pyval" where
  "capture_dump c = PDict
     [(''command'', PStr (cc_command c)), (''exit_code'', p_opt PInt (cc_exit_code c)),
      (''duration_ms'', PInt (cc_duration_ms c)), (''stdout'', PStr (cc_stdout c)),
      (''stderr'', PStr (cc_stderr c)), (''stdout_truncated'', PBool (cc_stdout_truncated c)),
      (''stderr_truncated'', PBool (cc_stderr_truncated c)), (''timed_out'', PBool (cc_timed_out c))]"

definition manifest_dump :: "TaskResultManifest \<Rightarrow> pyval" where
  "manifest_dump m = PDict
     [(''task_id'', PStr (tm_task_id m)), (''execution_id'', PStr (tm_execution_id m)),
      (''repository'', p_opt PStr (tm_repository m)), (''task_branch'', p_opt PStr (tm_task_branch m)),
      (''base_ref'', p_opt PStr (tm_base_ref m)), (''base_sha'', p_opt PStr (tm_base_sha m)),
      (''head_sha'', p_opt PStr (tm_head_sha m)),
      (''changed_files'', PTuple (map PStr (tm_changed_files m))),
      (''patch'', p_opt PStr (tm_patch m)), (''patch_truncated'', PBool (tm_patch_truncated m)),
      (''bootstrap'', p_opt capture_dump (tm_bootstrap m)), (''check'', p_opt capture_dump (tm_check m)),
      (''check_outcome'', PStr (CheckOutcome_value (tm_check_outcome m))),
      (''agent_outcome'', PStr (AgentOutcome_value (tm_agent_outcome m))),
      (''conversation_id'', p_opt PStr (tm_conversation_id m)),
      (''outcome_detail'', p_opt PStr (tm_outcome_detail m)),
      (''completed_at'', p_opt PTime (tm_completed_at m))]"

text \<open>A field validator: the value under a key, a default when the key is absent.\<close>

type_synonym 'a validator = "pyval \<Rightarrow> 'a option"

fun v_str :: "string validator" where
  "v_str (PStr s) = Some s" | "v_str _ = None"

fun v_bool :: "bool validator" where
  "v_bool (PBool b) = Some b" | "v_bool _ = None"

fun v_int :: "int validator" where
  "v_int (PInt i) = Some i" | "v_int _ = None"

fun v_time :: "timestamp validator" where
  "v_time (PTime t) = Some t" | "v_time _ = None"

fun v_null :: "'a validator \<Rightarrow> 'a option validator" where
  "v_null v PNone = Some None" | "v_null v x = map_option Some (v x)"

fun v_all :: "'a validator \<Rightarrow> pyval list \<Rightarrow> 'a list option" where
  "v_all v [] = Some []"
| "v_all v (x # xs) = Option.bind (v x) (\<lambda>a. map_option (Cons a) (v_all v xs))"

fun v_tuple :: "'a validator \<Rightarrow> 'a list validator" where
  "v_tuple v (PTuple xs) = v_all v xs" | "v_tuple v _ = None"

definition v_enum :: "('a \<Rightarrow> string) \<Rightarrow> 'a list \<Rightarrow> 'a validator" where
  "v_enum val members x = Option.bind (v_str x) (\<lambda>s. List.find (\<lambda>a. val a = s) members)"

definition field :: "(string \<times> pyval) list \<Rightarrow> string \<Rightarrow> 'a option \<Rightarrow> 'a validator \<Rightarrow> ('a \<Rightarrow> 'b option) \<Rightarrow> 'b option" where
  "field d k dflt v cont = Option.bind (case map_of d k of None \<Rightarrow> dflt | Some x \<Rightarrow> v x) cont"

fun capture_validate :: "CommandCapture validator" where
  "capture_validate (PDict d) =
     field d ''command'' None v_str (\<lambda>command. field d ''exit_code'' None (v_null v_int) (\<lambda>code.
     field d ''duration_ms'' None v_int (\<lambda>ms. field d ''stdout'' None v_str (\<lambda>out.
     field d ''stderr'' None v_str (\<lambda>err. field d ''stdout_truncated'' (Some False) v_bool (\<lambda>ot.
     field d ''stderr_truncated'' (Some False) v_bool (\<lambda>et. field d ''timed_out'' (Some False) v_bool (\<lambda>to.
     Some \<lparr>cc_command = command, cc_exit_code = code, cc_duration_ms = ms, cc_stdout = out,
       cc_stderr = err, cc_stdout_truncated = ot, cc_stderr_truncated = et, cc_timed_out = to\<rparr>))))))))"
| "capture_validate _ = None"

definition CheckOutcome_members :: "CheckOutcome list" where
  "CheckOutcome_members = [CO_PASSED, CO_FAILED, CO_NOT_RUN, CO_TIMEOUT]"

definition AgentOutcome_members :: "AgentOutcome list" where
  "AgentOutcome_members = [AO_SUCCEEDED, AO_FAILED, AO_CANCELLED, AO_TIMEOUT, AO_NO_CHANGES, AO_NOT_RUN]"

fun manifest_validate :: "TaskResultManifest validator" where
  "manifest_validate (PDict d) =
     field d ''task_id'' None v_str (\<lambda>tid. field d ''execution_id'' None v_str (\<lambda>xid.
     field d ''repository'' (Some None) (v_null v_str) (\<lambda>repo.
     field d ''task_branch'' (Some None) (v_null v_str) (\<lambda>branch.
     field d ''base_ref'' (Some None) (v_null v_str) (\<lambda>bref.
     field d ''base_sha'' (Some None) (v_null v_str) (\<lambda>bsha.
     field d ''head_sha'' (Some None) (v_null v_str) (\<lambda>hsha.
     field d ''changed_files'' (Some []) (v_tuple v_str) (\<lambda>files.
     field d ''patch'' (Some None) (v_null v_str) (\<lambda>patch.
     field d ''patch_truncated'' (Some False) v_bool (\<lambda>trunc.
     field d ''bootstrap'' (Some None) (v_null capture_validate) (\<lambda>boot.
     field d ''check'' (Some None) (v_null capture_validate) (\<lambda>check.
     field d ''check_outcome'' (Some CO_NOT_RUN) (v_enum CheckOutcome_value CheckOutcome_members) (\<lambda>co.
     field d ''agent_outcome'' (Some AO_NOT_RUN) (v_enum AgentOutcome_value AgentOutcome_members) (\<lambda>ao.
     field d ''conversation_id'' (Some None) (v_null v_str) (\<lambda>cid.
     field d ''outcome_detail'' (Some None) (v_null v_str) (\<lambda>detail.
     field d ''completed_at'' (Some None) (v_null v_time) (\<lambda>done_at.
     Some \<lparr>tm_task_id = tid, tm_execution_id = xid, tm_repository = repo, tm_task_branch = branch,
       tm_base_ref = bref, tm_base_sha = bsha, tm_head_sha = hsha, tm_changed_files = files,
       tm_patch = patch, tm_patch_truncated = trunc, tm_bootstrap = boot, tm_check = check,
       tm_check_outcome = co, tm_agent_outcome = ao, tm_conversation_id = cid,
       tm_outcome_detail = detail, tm_completed_at = done_at\<rparr>)))))))))))))))))"
| "manifest_validate _ = None"

definition redact_manifest :: "string option list \<Rightarrow> TaskResultManifest \<Rightarrow> sandbox_error + TaskResultManifest" where
  "redact_manifest secrets manifest =
     (if \<not> list_ex truthy secrets then Inr manifest
      else case manifest_validate
          (fold (\<lambda>secret v. if truthy secret then redact_secret (the secret) v else v) secrets
             (manifest_dump manifest)) of
        None \<Rightarrow> Inl (SandboxValueError ''validation error for TaskResultManifest'')
      | Some m \<Rightarrow> Inr m)"

section \<open>What redaction and validation keep\<close>

lemma v_all_map: "(\<And>x. v (f x) = Some x) \<Longrightarrow> v_all v (map f xs) = Some xs"
  by (induction xs) auto

lemma v_null_other: "x \<noteq> PNone \<Longrightarrow> v_null v x = map_option Some (v x)"
  by (cases x) simp_all

lemma v_null_opt: "(\<And>a. v (f a) = Some a) \<Longrightarrow> (\<And>a. f a \<noteq> PNone) \<Longrightarrow> v_null v (p_opt f x) = Some x"
  by (cases x) (simp_all add: p_opt_def v_null_other)

lemma enum_values [simp]:
  "v_enum CheckOutcome_value CheckOutcome_members (PStr (CheckOutcome_value c)) = Some c"
  "v_enum AgentOutcome_value AgentOutcome_members (PStr (AgentOutcome_value a)) = Some a"
  by (cases c; simp add: v_enum_def CheckOutcome_members_def)
    (cases a; simp add: v_enum_def AgentOutcome_members_def)

lemma capture_roundtrip: "capture_validate (capture_dump c) = Some c"
  by (simp add: capture_dump_def field_def v_null_opt)

lemma capture_null: "v_null capture_validate (p_opt capture_dump x) = Some x"
  by (rule v_null_opt) (simp_all only: capture_roundtrip, simp add: capture_dump_def)

lemma manifest_roundtrip: "manifest_validate (manifest_dump m) = Some m"
  by (simp add: manifest_dump_def field_def v_null_opt v_all_map capture_null)

text \<open>The texts of a value, those of tuples apart, and the texts of a manifest.\<close>

fun pv_texts :: "pyval \<Rightarrow> string list" where
  "pv_texts (PStr s) = [s]"
| "pv_texts (PList vs) = concat (map pv_texts vs)"
| "pv_texts (PDict kvs) = concat (map (\<lambda>(k, v). pv_texts v) kvs)"
| "pv_texts _ = []"

definition opt_text :: "string option \<Rightarrow> string list" where
  "opt_text x = (case x of None \<Rightarrow> [] | Some s \<Rightarrow> [s])"

definition capture_texts :: "CommandCapture option \<Rightarrow> string list" where
  "capture_texts x = (case x of None \<Rightarrow> [] | Some c \<Rightarrow> [cc_command c, cc_stdout c, cc_stderr c])"

definition manifest_texts :: "TaskResultManifest \<Rightarrow> string list" where
  "manifest_texts m = [tm_task_id m, tm_execution_id m] @ opt_text (tm_repository m) @
     opt_text (tm_task_branch m) @ opt_text (tm_base_ref m) @ opt_text (tm_base_sha m) @
     opt_text (tm_head_sha m) @ opt_text (tm_patch m) @ capture_texts (tm_bootstrap m) @
     capture_texts (tm_check m) @ opt_text (tm_conversation_id m) @ opt_text (tm_outcome_detail m)"

lemma dict_put_values: "snd ` set (dict_put k v d) \<subseteq> insert v (snd ` set d)"
  by (auto simp: dict_put_def)

lemma dict_of_values: "snd ` set (dict_of kvs) \<subseteq> snd ` set kvs"
proof -
  have "snd ` set (fold (\<lambda>(k, v). dict_put k v) kvs d) \<subseteq> snd ` set kvs \<union> snd ` set d" for d
  proof (induction kvs arbitrary: d)
    case (Cons p kvs)
    obtain k v where p: "p = (k, v)" by (cases p)
    have "snd ` set (fold (\<lambda>(k, v). dict_put k v) kvs (dict_put k v d)) \<subseteq>
        snd ` set kvs \<union> snd ` set (dict_put k v d)" by (rule Cons)
    also have "\<dots> \<subseteq> snd ` set kvs \<union> insert v (snd ` set d)" using dict_put_values [of k v d] by blast
    finally show ?case by (simp add: p)
  qed simp
  from this [of "[]"] show ?thesis by (simp add: dict_of_def)
qed

lemma pv_texts_redact:
  "s \<in> set (pv_texts (redact_secret k v)) \<Longrightarrow> \<exists>s0\<in>set (pv_texts v). s = replace_str k REDACTED s0"
proof (induction k v rule: redact_secret.induct)
  case (2 k vs)
  then obtain x where "x \<in> set vs" "s \<in> set (pv_texts (redact_secret k x))" by auto
  with 2(1) [OF this] show ?case by auto
next
  case (3 k kvs)
  let ?kvs = "map (\<lambda>(a, b). (replace_str k REDACTED a, redact_secret k b)) kvs"
  from 3(2) obtain x where x: "x \<in> snd ` set (dict_of ?kvs)" "s \<in> set (pv_texts x)" by force
  with dict_of_values [of ?kvs] obtain a b where "(a, b) \<in> set kvs" "x = redact_secret k b" by force
  with 3(1) [OF this(1) refl] x(2) show ?case by force
qed auto

lemma redacted_once:
  assumes "plain_secret k" "s \<in> set (pv_texts (redact_secret k v))"
  shows "\<not> sublist k s"
  using pv_texts_redact [OF assms(2)] redacted_absent [OF assms(1)] by auto

lemma redaction_keeps:
  assumes "plain_secret k" "\<forall>s\<in>set (pv_texts v). \<not> sublist k s" "s \<in> set (pv_texts (redact_secret k' v))"
  shows "\<not> sublist k s"
  using pv_texts_redact [OF assms(3)] sublist_replaced [OF assms(1)] assms(2) by auto

lemma redacted_all:
  assumes "plain_secret k" "Some k \<in> set secrets"
    "s \<in> set (pv_texts (fold (\<lambda>secret v. if truthy secret then redact_secret (the secret) v else v) secrets v))"
  shows "\<not> sublist k s"
proof -
  let ?f = "\<lambda>secret v. if truthy secret then redact_secret (the secret) v else v"
  have keep: "\<forall>s\<in>set (pv_texts (fold ?f xs w)). \<not> sublist k s"
    if "\<forall>s\<in>set (pv_texts w). \<not> sublist k s" for xs w
    using that by (induction xs arbitrary: w) (auto dest: redaction_keeps [OF assms(1)])
  from assms(2) obtain ys zs where "secrets = ys @ Some k # zs" by (auto dest: split_list)
  moreover have "truthy (Some k)" using assms(1) by (simp add: plain_secret_def)
  ultimately have "fold ?f secrets v = fold ?f zs (redact_secret k (fold ?f ys v))" by simp
  with keep [of "redact_secret k (fold ?f ys v)" zs] redacted_once [OF assms(1)] assms(3)
  show ?thesis by auto
qed

text \<open>Every text of a validated manifest is a text of the value it was read from.\<close>

lemma field_any: "field d k dflt v cont = Some b \<Longrightarrow> \<exists>a. cont a = Some b \<and> (dflt = Some a \<or> (\<exists>x. map_of d k = Some x \<and> v x = Some a))"
  by (auto simp: field_def bind_eq_Some_conv split: option.splits)

lemma entry_texts: "map_of d k = Some x \<Longrightarrow> set (pv_texts x) \<subseteq> set (pv_texts (PDict d))"
  by (force dest: map_of_SomeD)

lemma v_str_texts: "v_str x = Some s \<Longrightarrow> s \<in> set (pv_texts x)"
  by (cases x) simp_all

lemma v_null_texts: "v_null v_str x = Some a \<Longrightarrow> set (opt_text a) \<subseteq> set (pv_texts x)"
  by (cases x) (auto simp: opt_text_def)

lemma field_strE:
  assumes "field d k None v_str cont = Some b"
  obtains s where "s \<in> set (pv_texts (PDict d))" "cont s = Some b"
  using field_any [OF assms] entry_texts v_str_texts by blast

lemma field_nullE:
  assumes "field d k (Some None) (v_null v_str) cont = Some b"
  obtains a where "set (opt_text a) \<subseteq> set (pv_texts (PDict d))" "cont a = Some b"
proof -
  obtain a where a: "cont a = Some b" "a = None \<or> (\<exists>x. map_of d k = Some x \<and> v_null v_str x = Some a)"
    using field_any [OF assms] by auto
  then have "set (opt_text a) \<subseteq> set (pv_texts (PDict d))"
    using entry_texts v_null_texts by (fastforce simp: opt_text_def simp del: pv_texts.simps)
  with a(1) that show thesis by blast
qed

lemma field_contE:
  assumes "field d k dflt v cont = Some b"
  obtains a where "cont a = Some b"
  using field_any [OF assms] by blast

lemmas field_skips = field_contE [where v = v_bool] field_contE [where v = v_int]
  field_contE [where v = "v_null v_int"] field_contE [where v = "v_null v_time"]
  field_contE [where v = "v_tuple v_str"]
  field_contE [where v = "v_enum CheckOutcome_value CheckOutcome_members"]
  field_contE [where v = "v_enum AgentOutcome_value AgentOutcome_members"]

lemma capture_validate_texts:
  assumes "capture_validate x = Some c"
  shows "set (capture_texts (Some c)) \<subseteq> set (pv_texts x)"
proof (cases x)
  case (PDict d)
  from assms show ?thesis
    unfolding PDict capture_validate.simps
    by (elim field_strE field_skips) (auto simp: capture_texts_def simp del: pv_texts.simps)
qed (use assms in simp_all)

lemma field_captureE:
  assumes "field d k (Some None) (v_null capture_validate) cont = Some b"
  obtains a where "set (capture_texts a) \<subseteq> set (pv_texts (PDict d))" "cont a = Some b"
proof -
  obtain a where a: "cont a = Some b" "a = None \<or> (\<exists>x. map_of d k = Some x \<and> v_null capture_validate x = Some a)"
    using field_any [OF assms] by auto
  have "set (capture_texts a) \<subseteq> set (pv_texts (PDict d))"
  proof (cases a)
    case (Some c)
    with a obtain x where x: "map_of d k = Some x" "v_null capture_validate x = Some (Some c)" by auto
    then have "capture_validate x = Some c" by (cases x) auto
    from capture_validate_texts [OF this] entry_texts [OF x(1)] Some show ?thesis by blast
  qed (simp add: capture_texts_def)
  with a(1) that show thesis by blast
qed

lemma manifest_validate_texts:
  assumes "manifest_validate x = Some m"
  shows "set (manifest_texts m) \<subseteq> set (pv_texts x)"
proof (cases x)
  case (PDict d)
  from assms show ?thesis
    unfolding PDict manifest_validate.simps
    by (elim field_strE field_nullE field_captureE field_skips)
      (clarsimp simp: manifest_texts_def simp del: pv_texts.simps)
qed (use assms in simp_all)

text \<open>
  C33: a stored manifest holds no credential.  After redaction no text of the manifest, the names of
  changed files apart, contains any of the configured secrets, whatever the manifest held, for every secret
  that the replacement text cannot itself contain; with no secret configured the manifest is
  unchanged.
\<close>

theorem redact_manifest_removes_secrets:
  assumes red: "redact_manifest secrets m = Inr m'"
  shows "(\<forall>k. Some k \<in> set secrets \<and> plain_secret k \<longrightarrow> (\<forall>s\<in>set (manifest_texts m'). \<not> sublist k s)) \<and>
    (list_all (\<lambda>x. \<not> truthy x) secrets \<longrightarrow> m' = m)"
proof (intro conjI allI impI ballI, elim conjE)
  fix k s
  assume k: "Some k \<in> set secrets" "plain_secret k" and s: "s \<in> set (manifest_texts m')"
  then have "list_ex truthy secrets" by (auto simp: list_ex_iff plain_secret_def intro!: bexI [of _ "Some k"])
  with red have "manifest_validate (fold (\<lambda>secret v. if truthy secret then redact_secret (the secret) v else v)
      secrets (manifest_dump m)) = Some m'"
    by (simp add: redact_manifest_def split: option.splits)
  from manifest_validate_texts [OF this] s redacted_all [OF k(2,1)] show "\<not> sublist k s" by blast
qed (use red in \<open>auto simp: redact_manifest_def list_all_iff list_ex_iff\<close>)

definition sample_manifest :: TaskResultManifest where
  "sample_manifest = \<lparr>tm_task_id = ''t1'', tm_execution_id = ''x1'', tm_repository = Some ''o/r'',
     tm_task_branch = Some ''b'', tm_base_ref = Some ''main'', tm_base_sha = None, tm_head_sha = None,
     tm_changed_files = [''ghs_1.txt''], tm_patch = Some ''+ghs_1'', tm_patch_truncated = False,
     tm_bootstrap = None, tm_check = None, tm_check_outcome = CO_NOT_RUN,
     tm_agent_outcome = AO_SUCCEEDED, tm_conversation_id = None,
     tm_outcome_detail = Some ''used ghs_1'', tm_completed_at = Some 5\<rparr>"

lemma sample_redacted:
  "redact_manifest [None, Some ''ghs_1''] sample_manifest =
     Inr (sample_manifest\<lparr>tm_patch := Some ''+[REDACTED]'', tm_outcome_detail := Some ''used [REDACTED]''\<rparr>)"
  by (simp add: redact_manifest_def sample_manifest_def manifest_dump_def p_opt_def dict_of_def dict_put_def
      REDACTED_def field_def v_enum_def CheckOutcome_members_def AgentOutcome_members_def)

theorem redact_manifest_removes_secrets_witness:
  "\<exists>m'. redact_manifest [None, Some ''ghs_1''] sample_manifest = Inr m' \<and>
    (\<forall>s\<in>set (manifest_texts m'). \<not> sublist ''ghs_1'' s)"
proof -
  have "plain_secret ''ghs_1''" by (simp add: plain_secret_def sublist_Cons_right)
  then show ?thesis using redact_manifest_removes_secrets [OF sample_redacted] sample_redacted by auto
qed

text \<open>The names of changed files are a tuple, which redaction passes over.\<close>

lemma changed_file_names_not_redacted:
  "\<exists>m'. redact_manifest [None, Some ''ghs_1''] sample_manifest = Inr m' \<and>
    tm_changed_files m' = [''ghs_1.txt'']"
  using sample_redacted by (simp add: sample_manifest_def)

text \<open>
  Git evidence is collected exactly when all four git commands succeed; then every changed file is
  listed once, the patch is within its bound and the truncation flag tells whether it was cut.  The environment of a clone
  carries no ambient GitHub credential and leaves every unrelated variable as it was.
\<close>

theorem git_evidence_spec:
  "((\<exists>r. collect_git_evidence g n = Inr r) \<longleftrightarrow>
      cp_returncode (ge_head g) = 0 \<and> cp_returncode (ge_names g) = 0 \<and>
      cp_returncode (ge_status g) = 0 \<and> cp_returncode (ge_diff g) = 0) \<and>
   (case collect_git_evidence g n of
      Inl e \<Rightarrow> \<exists>m. e = GitPrepError m
    | Inr (head, changed, patch, truncated) \<Rightarrow>
        distinct changed \<and> length patch \<le> n \<and> (truncated \<longleftrightarrow> n < length (cp_stdout (ge_diff g)))) \<and>
   map_of (clone_env env token) ''GH_TOKEN'' = None \<and>
   map_of (clone_env env token) ''GIT_ASKPASS'' = None \<and>
   map_of (clone_env env token) ''PATH'' = map_of env ''PATH''"
proof -
  have len: "length (utf8_ignore (take n s)) \<le> n" for s
    using length_utf8_ignore [of "take n s"] by simp
  have "distinct (changed_files a b)" for a b by (simp add: changed_files_def fromkeys_def)
  then show ?thesis using len
    by (auto simp: clone_env_def Let_def map_of_dict_put map_of_dict_pop collect_git_evidence_def git_failed_def clip_text_def)
qed

section \<open>Redaction field by field\<close>

text \<open>The reference definition: the secret is replaced in every text field.\<close>

definition redact_capture :: "string \<Rightarrow> CommandCapture \<Rightarrow> CommandCapture" where
  "redact_capture k c = (let f = replace_str k REDACTED in
     c\<lparr>cc_command := f (cc_command c), cc_stdout := f (cc_stdout c), cc_stderr := f (cc_stderr c)\<rparr>)"

definition redact_fields :: "string \<Rightarrow> TaskResultManifest \<Rightarrow> TaskResultManifest" where
  "redact_fields k m = (let f = replace_str k REDACTED; g = map_option f in
     m\<lparr>tm_task_id := f (tm_task_id m), tm_execution_id := f (tm_execution_id m),
       tm_repository := g (tm_repository m), tm_task_branch := g (tm_task_branch m),
       tm_base_ref := g (tm_base_ref m), tm_base_sha := g (tm_base_sha m), tm_head_sha := g (tm_head_sha m),
       tm_patch := g (tm_patch m), tm_bootstrap := map_option (redact_capture k) (tm_bootstrap m),
       tm_check := map_option (redact_capture k) (tm_check m),
       tm_conversation_id := g (tm_conversation_id m), tm_outcome_detail := g (tm_outcome_detail m)\<rparr>)"

definition schema_words :: "string list" where
  "schema_words = [''command'', ''exit_code'', ''duration_ms'', ''stdout'', ''stderr'', ''stdout_truncated'',
     ''stderr_truncated'', ''timed_out'', ''task_id'', ''execution_id'', ''repository'', ''task_branch'',
     ''base_ref'', ''base_sha'', ''head_sha'', ''changed_files'', ''patch'', ''patch_truncated'',
     ''bootstrap'', ''check'', ''check_outcome'', ''agent_outcome'', ''conversation_id'',
     ''outcome_detail'', ''completed_at''] @ map CheckOutcome_value CheckOutcome_members @
     map AgentOutcome_value AgentOutcome_members"

text \<open>A secret that is no part of a field name or an enumeration value.\<close>

definition schema_safe :: "string \<Rightarrow> bool" where
  "schema_safe k \<longleftrightarrow> list_all (\<lambda>w. \<not> sublist k w) schema_words"

lemma replace_absent: "\<not> sublist k s \<Longrightarrow> replace_str k n s = s"
proof (induction k n s rule: replace_str.induct)
  case (2 k n c s)
  have "\<not> prefix k (c # s)" "\<not> sublist k s" using 2(3) by (auto simp: sublist_Cons_right)
  with 2(2) show ?case by simp
qed simp

lemma dict_of_distinct: "distinct (map fst kvs) \<Longrightarrow> dict_of kvs = kvs"
proof -
  have "fold (\<lambda>(k, v). dict_put k v) kvs d = d @ kvs" if "distinct (map fst (d @ kvs))" for d
    using that
  proof (induction kvs arbitrary: d)
    case (Cons p kvs)
    obtain k v where p: "p = (k, v)" by (cases p)
    have "dict_put k v d = d @ [(k, v)]" using Cons(2) by (simp add: dict_put_def p)
    then show ?case using Cons(1) [of "d @ [(k, v)]"] Cons(2) by (simp add: p)
  qed simp
  from this [of "[]"] show "distinct (map fst kvs) \<Longrightarrow> dict_of kvs = kvs" by (simp add: dict_of_def)
qed

lemma schema_words_kept: "schema_safe k \<Longrightarrow> \<forall>w\<in>set schema_words. replace_str k REDACTED w = w"
  by (auto simp: schema_safe_def list_all_iff replace_absent)

lemmas schema_kept = schema_words_kept [unfolded schema_words_def CheckOutcome_members_def AgentOutcome_members_def]

lemma redact_opt: "redact_secret k (p_opt f x) = p_opt (\<lambda>a. redact_secret k (f a)) x"
  by (cases x) (simp_all add: p_opt_def)

lemma p_opt_map: "p_opt f (map_option g x) = p_opt (\<lambda>a. f (g a)) x"
  by (cases x) (simp_all add: p_opt_def)

lemma redact_capture_dump:
  assumes "schema_safe k"
  shows "redact_secret k (capture_dump c) = capture_dump (redact_capture k c)"
  using schema_kept [OF assms]
  by (simp add: capture_dump_def redact_capture_def Let_def dict_of_distinct redact_opt del: replace_str.simps)

lemma enum_kept:
  assumes "schema_safe k"
  shows "replace_str k REDACTED (CheckOutcome_value co) = CheckOutcome_value co"
    "replace_str k REDACTED (AgentOutcome_value ao) = AgentOutcome_value ao"
  using schema_kept [OF assms] by (cases co; simp del: replace_str.simps) (use schema_kept [OF assms] in \<open>cases ao; simp del: replace_str.simps\<close>)

lemma redact_manifest_dump:
  assumes "schema_safe k"
  shows "redact_secret k (manifest_dump m) = manifest_dump (redact_fields k m)"
  using schema_kept [OF assms]
  by (simp add: manifest_dump_def redact_fields_def Let_def dict_of_distinct redact_opt p_opt_map
      redact_capture_dump [OF assms] enum_kept [OF assms] del: replace_str.simps)

lemma redact_by_fields:
  assumes "\<forall>k. Some k \<in> set secrets \<and> k \<noteq> [] \<longrightarrow> schema_safe k"
  shows "redact_manifest secrets m =
    Inr (fold (\<lambda>secret m. if truthy secret then redact_fields (the secret) m else m) secrets m)"
proof -
  have "fold (\<lambda>secret v. if truthy secret then redact_secret (the secret) v else v) xs (manifest_dump w) =
      manifest_dump (fold (\<lambda>secret m. if truthy secret then redact_fields (the secret) m else m) xs w)"
    if "\<forall>k. Some k \<in> set xs \<and> k \<noteq> [] \<longrightarrow> schema_safe k" for xs w
    using that
  proof (induction xs arbitrary: w)
    case (Cons x xs)
    then show ?case by (cases x) (auto simp: redact_manifest_dump)
  qed simp
  note f = this [OF assms, of m]
  show ?thesis
  proof (cases "list_ex truthy secrets")
    case True
    then show ?thesis by (simp add: redact_manifest_def f manifest_roundtrip)
  next
    case False
    then have "fold (\<lambda>secret m. if truthy secret then redact_fields (the secret) m else m) secrets m = m"
      by (induction secrets) auto
    with False show ?thesis by (simp add: redact_manifest_def)
  qed
qed

text \<open>
  Redaction through the generic dump is field-wise redaction.  For secrets that are no part of a
  field name or an enumeration value, dumping a manifest to nested values, redacting those and
  validating the result never fails and equals replacing each secret in each text field in turn.
\<close>

lemma redact_manifest_fieldwise:
  assumes "\<forall>k. Some k \<in> set secrets \<and> k \<noteq> [] \<longrightarrow> schema_safe k"
  shows "redact_manifest secrets m =
    Inr (fold (\<lambda>secret m. if truthy secret then redact_fields (the secret) m else m) secrets m)"
  using assms by (rule redact_by_fields)

lemma redact_manifest_fieldwise_witness:
  "redact_manifest [None, Some ''ghs_1''] sample_manifest = Inr (redact_fields ''ghs_1'' sample_manifest)"
proof -
  have "schema_safe ''ghs_1''"
    by (simp add: schema_safe_def schema_words_def CheckOutcome_members_def AgentOutcome_members_def sublist_Cons_right)
  then show ?thesis using redact_manifest_fieldwise [of "[None, Some ''ghs_1'']" sample_manifest] by simp
qed

end
