(* ===== verification/Execution_Service.thy ===== *)
theory Execution_Service
  imports Execution_Store Conversation_Service Sandbox_Evidence
begin

text \<open>
  \<open>sandboxes/gg/server/task_supervisor/service.py\<close>: admission of an execution, the pipeline that
  prepares the repository, runs the agent conversation and stores evidence, and the recovery at
  start-up.  The state is the conversation service (with the sandbox database) and the table of
  running pipelines.  The answers of git, the file system and the agent process are arguments.
\<close>

section \<open>State and environment\<close>

record TaskSupervisorService =
  ts_conv :: ConversationService
  ts_active :: "string list"
  ts_started :: bool
  ts_killed :: "string list"

type_synonym 'a sup_op = "(TaskSupervisorService, sandbox_error, 'a) io"

record exec_env =
  xe_conv :: conv_env
  xe_now :: timestamp
  xe_uuid :: string
  xe_digest :: "string \<Rightarrow> string"
  xe_github_token :: "string option"
  xe_openrouter :: "string option"
  xe_db_path :: string
  xe_controls :: bool

definition on_db :: "'a sandbox_op \<Rightarrow> 'a sup_op" where
  "on_db m s = (let (r, d) = m (cs_db (ts_conv s))
     in (r, s\<lparr>ts_conv := (ts_conv s)\<lparr>cs_db := d\<rparr>\<rparr>))"

definition on_conv :: "'a service_op \<Rightarrow> 'a sup_op" where
  "on_conv m s = (let (r, c) = m (ts_conv s) in (r, s\<lparr>ts_conv := c\<rparr>))"

definition sup_db :: "TaskSupervisorService \<Rightarrow> sandbox_db" where
  "sup_db s = cs_db (ts_conv s)"

section \<open>Phases and failures\<close>

definition phased_record ::
  "exec_env \<Rightarrow> TaskExecutionRecord \<Rightarrow> TaskExecutionPhase \<Rightarrow> string option \<Rightarrow> string option \<Rightarrow> TaskExecutionRecord" where
  "phased_record env r phase manifest_path outcome_detail =
     r\<lparr>xr_phase := phase, xr_manifest_path := py_or manifest_path (xr_manifest_path r),
       xr_outcome_detail := py_or outcome_detail (xr_outcome_detail r), xr_updated_at := xe_now env\<rparr>"

definition update_phase ::
  "exec_env \<Rightarrow> TaskExecutionRecord \<Rightarrow> TaskExecutionPhase \<Rightarrow> string option \<Rightarrow> string option \<Rightarrow> unit sup_op" where
  "update_phase env r phase manifest_path outcome_detail =
     on_db (save_execution (phased_record env r phase manifest_path outcome_detail))"

definition redacted :: "exec_env \<Rightarrow> string option \<Rightarrow> TaskResultManifest \<Rightarrow> TaskResultManifest sup_op" where
  "redacted env github_token manifest s =
     (redact_manifest [xe_openrouter env, xe_github_token env, github_token] manifest, s)"

definition redact_detail :: "exec_env \<Rightarrow> string option \<Rightarrow> string \<Rightarrow> string" where
  "redact_detail env github_token detail =
     (let d1 = (if truthy github_token then replace_str (the github_token) REDACTED detail else detail)
      in if truthy (xe_github_token env) then replace_str (the (xe_github_token env)) REDACTED d1 else d1)"

record failure =
  fl_detail :: string
  fl_agent_outcome :: AgentOutcome
  fl_repository :: "string option"
  fl_task_branch :: "string option"
  fl_base_ref :: "string option"
  fl_base_sha :: "string option"
  fl_conversation_id :: "string option"

definition failure_manifest :: "exec_env \<Rightarrow> string \<Rightarrow> TaskExecutionRecord \<Rightarrow> failure \<Rightarrow> TaskResultManifest" where
  "failure_manifest env detail r f =
     \<lparr>tm_task_id = xr_task_id r, tm_execution_id = xr_execution_id r,
      tm_repository = py_or (fl_repository f) (xr_repository r),
      tm_task_branch = py_or (fl_task_branch f) (xr_task_branch r),
      tm_base_ref = py_or (fl_base_ref f) (xr_base_ref r), tm_base_sha = fl_base_sha f,
      tm_head_sha = None, tm_changed_files = [], tm_patch = None, tm_patch_truncated = False,
      tm_bootstrap = None, tm_check = None, tm_check_outcome = CO_NOT_RUN,
      tm_agent_outcome = fl_agent_outcome f,
      tm_conversation_id = py_or (fl_conversation_id f) (xr_conversation_id r),
      tm_outcome_detail = Some detail, tm_completed_at = Some (xe_now env)\<rparr>"

definition finalize_failure ::
  "exec_env \<Rightarrow> string option \<Rightarrow> TaskExecutionRecord \<Rightarrow> failure \<Rightarrow> unit sup_op" where
  "finalize_failure env github_token r f =
     (let detail = redact_detail env github_token (fl_detail f)
      in andThen (redacted env github_token (failure_manifest env detail r f)) (\<lambda>m.
         andThen (on_db (save_manifest (xe_db_path env) m)) (\<lambda>ref.
         update_phase env r TP_FAILED (Some ref) (Some detail))))"

section \<open>Recovery at start-up and shutdown\<close>

definition terminal_of :: "AgentOutcome \<Rightarrow> TaskExecutionPhase" where
  "terminal_of o1 = (if o1 = AO_SUCCEEDED \<or> o1 = AO_NO_CHANGES then TP_COMPLETED else TP_FAILED)"

definition stop_orphan_processes :: "string \<Rightarrow> unit sup_op" where
  "stop_orphan_processes execution_id s = (Inr (), s\<lparr>ts_killed := ts_killed s @ [execution_id]\<rparr>)"

definition lost_ownership :: "TaskExecutionRecord \<Rightarrow> failure" where
  "lost_ownership r = \<lparr>fl_detail = ''supervisor ownership lost on process restart'',
     fl_agent_outcome = AO_NOT_RUN, fl_repository = xr_repository r, fl_task_branch = xr_task_branch r,
     fl_base_ref = xr_base_ref r, fl_base_sha = None, fl_conversation_id = None\<rparr>"

definition recover_execution :: "exec_env \<Rightarrow> TaskExecutionRecord \<Rightarrow> unit sup_op" where
  "recover_execution env r =
     andThen (\<lambda>s. case map_of (manifests (sup_db s)) (xr_execution_id r) of
          None \<Rightarrow> finalize_failure env None r (lost_ownership r) s
        | Some manifest \<Rightarrow>
            update_phase env r (terminal_of (tm_agent_outcome manifest))
              (Some (manifest_reference (xe_db_path env) (xr_execution_id r)))
              (tm_outcome_detail manifest) s) (\<lambda>_.
     stop_orphan_processes (xr_execution_id r))"

definition startup :: "exec_env \<Rightarrow> unit sup_op" where
  "startup env s =
     (if ts_started s then (Inr (), s)
      else for_each (recover_execution env) (list_non_terminal (sup_db s)) (s\<lparr>ts_started := True\<rparr>))"

definition shutdown :: "unit sup_op" where
  "shutdown s = (Inr (), s\<lparr>ts_active := [], ts_started := False\<rparr>)"

section \<open>Admission\<close>

definition start_execution ::
  "exec_env \<Rightarrow> StartTaskExecutionRequest \<Rightarrow> string option \<Rightarrow> (TaskExecutionRecord \<times> bool) sup_op" where
  "start_execution env request github_token =
     (if truthy (sx_repository request) \<and> (\<not> truthy (sx_base_ref request) \<or> \<not> truthy (sx_task_branch request))
      then raise (SandboxValueError ''repository tasks require base_ref and task_branch'')
      else if truthy (sx_repository request) \<and> py_or github_token (xe_github_token env) = None
      then raise (SandboxRuntimeError ''github clone token is not configured'')
      else
        andThen (on_db (admit_or_get (xe_digest env) (xe_now env)
           \<lparr>ad_start_key = sx_start_key request, ad_task_id = sx_task_id request,
            ad_repository = sx_repository request, ad_task_branch = sx_task_branch request,
            ad_base_ref = sx_base_ref request, ad_deadline_at = sx_deadline_at request,
            ad_model = sx_model request\<rparr>)) (\<lambda>(r, created).
        if \<not> created then ret (r, False)
        else (\<lambda>s. if xr_execution_id r \<in> set (ts_active s) then (Inr (r, False), s)
                  else (Inr (r, True), s\<lparr>ts_active := ts_active s @ [xr_execution_id r]\<rparr>))))"

section \<open>The agent turn\<close>

definition DEFAULT_AGENT_TIMEOUT_SECONDS :: int where
  "DEFAULT_AGENT_TIMEOUT_SECONDS = 60 * 55"

definition remaining_seconds :: "timestamp \<Rightarrow> timestamp \<Rightarrow> int \<Rightarrow> int" where
  "remaining_seconds now deadline_at minimum = max (minimum * 1000000) (deadline_at - now)"

text \<open>The bound of one agent turn, in microseconds.\<close>

definition agent_timeout :: "exec_env \<Rightarrow> StartTaskExecutionRequest \<Rightarrow> int" where
  "agent_timeout env request =
     min (DEFAULT_AGENT_TIMEOUT_SECONDS * 1000000) (remaining_seconds (xe_now env) (sx_deadline_at request) 30)"

text \<open>
  What the agent process does with its turn: it takes \<open>duration\<close> and ends as the backend says, or the
  bound expires first, after some events, and the control request is answered with \<open>cancel_error\<close>.
\<close>

record agent_turn =
  at_duration :: int
  at_backend :: "string \<Rightarrow> (EventKind \<times> payload) list \<times> run_outcome"
  at_emitted :: "(EventKind \<times> payload) list"
  at_cancel_error :: "string option"
  at_cancelled_end :: run_outcome

definition agent_prompt :: "StartTaskExecutionRequest \<Rightarrow> string" where
  "agent_prompt request = sx_prompt request @
     (if truthy (sx_repository request)
      then [CHR 0x0A, CHR 0x0A] @ ''Work in this checkout and report what you changed. '' @
           ''Do not commit, push, or open a pull request unless this '' @
           ''message explicitly asks for it. The gh CLI and git are '' @
           ''available with a repository-scoped credential.''
      else [])"

definition status_outcome :: "ConversationStatus \<Rightarrow> AgentOutcome" where
  "status_outcome st =
     (if st = CS_CANCELLED then AO_CANCELLED else if st = CS_ERROR then AO_FAILED
      else if st = CS_FINISHED then AO_SUCCEEDED else AO_FAILED)"

definition ensure_record ::
  "exec_env \<Rightarrow> StartTaskExecutionRequest \<Rightarrow> string \<Rightarrow> string \<Rightarrow> ConversationRecord service_op" where
  "ensure_record env request repo_dir cid =
     catch (get_record (xe_conv env) (xe_controls env) cid) (\<lambda>e.
       case e of
         ConversationNotFoundError _ \<Rightarrow>
           service_create (xe_conv env) (xe_uuid env) cid repo_dir
             (default_agent\<lparr>pa_model := sx_model request\<rparr>) (xe_controls env)
       | _ \<Rightarrow> raise e)"

definition run_agent ::
  "exec_env \<Rightarrow> agent_turn \<Rightarrow> StartTaskExecutionRequest \<Rightarrow> string \<Rightarrow> string \<Rightarrow> AgentOutcome service_op" where
  "run_agent env turn request repo_dir cid =
     andThen (ensure_record env request repo_dir cid) (\<lambda>_.
     andThen (service_send_message (xe_conv env) (xe_controls env) cid (agent_prompt request)) (\<lambda>_.
     if at_duration turn \<le> agent_timeout env request
     then andThen (service_run (xe_conv env) (xe_controls env) (at_backend turn) cid) (\<lambda>record.
            ret (status_outcome (cr_status record)))
     else catch (andThen (service_run_timed_out (xe_conv env) (xe_controls env) (at_emitted turn) cid) (\<lambda>record.
                   ret (status_outcome (cr_status record))))
            (\<lambda>e. case e of
               SandboxTimeoutError _ \<Rightarrow>
                 andThen (service_cancel (xe_conv env) (xe_controls env) (at_cancel_error turn)
                    (at_cancelled_end turn) cid) (\<lambda>_. ret AO_TIMEOUT)
             | _ \<Rightarrow> raise e)))"

section \<open>The pipeline\<close>

text \<open>The local variables an exception handler of \<open>_run_pipeline\<close> reads.\<close>

record pipeline_locals =
  pl_record :: TaskExecutionRecord
  pl_base_sha :: "string option"
  pl_conversation_id :: "string option"

type_synonym 'a pipe_op = "(TaskSupervisorService \<times> pipeline_locals, sandbox_error, 'a) io"

definition in_pipe :: "'a sup_op \<Rightarrow> 'a pipe_op" where
  "in_pipe m = (\<lambda>(s, l). let (r, s') = m s in (r, (s', l)))"

definition set_locals :: "(pipeline_locals \<Rightarrow> pipeline_locals) \<Rightarrow> unit pipe_op" where
  "set_locals f = (\<lambda>(s, l). (Inr (), (s, f l)))"

definition get_locals :: "pipeline_locals pipe_op" where
  "get_locals = (\<lambda>(s, l). (Inr l, (s, l)))"

definition from_sum :: "sandbox_error + 'a \<Rightarrow> 'a pipe_op" where
  "from_sum x = (case x of Inl e \<Rightarrow> raise e | Inr a \<Rightarrow> ret a)"

record repo_env =
  rp_repo_dir :: string
  rp_has_git :: bool
  rp_nonempty :: bool
  rp_clone :: completed_process
  rp_get_url :: completed_process
  rp_rev_parse :: completed_process
  rp_head_file :: bool
  rp_branch :: completed_process
  rp_checkout :: completed_process
  rp_evidence :: git_evidence

definition MAX_PATCH_BYTES :: nat where
  "MAX_PATCH_BYTES = 512000"

definition prepare_repository ::
  "repo_env \<Rightarrow> StartTaskExecutionRequest \<Rightarrow> string option \<Rightarrow> unit pipe_op" where
  "prepare_repository repo request token =
     (if \<not> truthy (sx_repository request) then ret ()
      else if sx_base_ref request = None \<or> sx_task_branch request = None then raise SandboxAssertionError
      else if token = None then raise SandboxAssertionError
      else
        andThen (if rp_has_git repo then ret None
                 else from_sum (clone_repository (the (sx_repository request)) (rp_repo_dir repo)
                        (rp_nonempty repo) (rp_clone repo) (rp_get_url repo))) (\<lambda>_.
        andThen (if truthy (sx_base_sha request) then ret (the (sx_base_sha request))
                 else from_sum (resolve_base_sha (the (sx_base_ref request)) (rp_rev_parse repo))) (\<lambda>base_sha.
        andThen (set_locals (\<lambda>l. l\<lparr>pl_base_sha := Some base_sha\<rparr>)) (\<lambda>_.
        if \<not> rp_head_file repo then raise (GitPrepError ''checkout is incomplete'')
        else if strip (cp_stdout (rp_branch repo)) \<noteq> the (sx_task_branch request)
        then from_sum (checkout_task_branch (the (sx_task_branch request)) base_sha (rp_checkout repo))
        else ret ()))))"

definition phase_step ::
  "exec_env \<Rightarrow> TaskExecutionPhase \<Rightarrow> string option \<Rightarrow> string option \<Rightarrow> unit pipe_op" where
  "phase_step env phase path detail =
     andThen get_locals (\<lambda>l. in_pipe (update_phase env (pl_record l) phase path detail))"

definition bind_conversation :: "exec_env \<Rightarrow> string pipe_op" where
  "bind_conversation env =
     andThen (in_pipe (on_db (conversation_id (xe_uuid env)))) (\<lambda>cid.
     andThen (set_locals (\<lambda>l. l\<lparr>pl_conversation_id := Some cid,
        pl_record := (pl_record l)\<lparr>xr_conversation_id := Some cid\<rparr>\<rparr>)) (\<lambda>_.
     andThen get_locals (\<lambda>l.
     andThen (in_pipe (on_db (save_execution (pl_record l)))) (\<lambda>_. ret cid))))"

definition collect_evidence ::
  "repo_env \<Rightarrow> StartTaskExecutionRequest \<Rightarrow> (string option \<times> string list \<times> string option \<times> bool) pipe_op" where
  "collect_evidence repo request =
     (if \<not> truthy (sx_repository request) then ret (None, [], None, False)
      else andThen (from_sum (collect_git_evidence (rp_evidence repo) MAX_PATCH_BYTES))
        (\<lambda>(head, changed, patch, truncated). ret (Some head, changed, Some patch, truncated)))"

definition final_outcome :: "StartTaskExecutionRequest \<Rightarrow> string list \<Rightarrow> AgentOutcome \<Rightarrow> AgentOutcome" where
  "final_outcome request changed o1 =
     (if truthy (sx_repository request) \<and> o1 = AO_SUCCEEDED \<and> changed = [] then AO_NO_CHANGES else o1)"

definition outcome_text :: "AgentOutcome \<Rightarrow> string option" where
  "outcome_text o1 = (if o1 = AO_NO_CHANGES then Some ''no_changes''
     else if o1 = AO_FAILED then Some ''agent_failed'' else None)"

definition success_manifest ::
  "exec_env \<Rightarrow> StartTaskExecutionRequest \<Rightarrow> pipeline_locals \<Rightarrow> string option \<times> string list \<times> string option \<times> bool \<Rightarrow>
   AgentOutcome \<Rightarrow> TaskResultManifest" where
  "success_manifest env request l evidence o1 = (case evidence of (head, changed, patch, truncated) \<Rightarrow>
     \<lparr>tm_task_id = sx_task_id request, tm_execution_id = xr_execution_id (pl_record l),
      tm_repository = sx_repository request, tm_task_branch = sx_task_branch request,
      tm_base_ref = sx_base_ref request, tm_base_sha = pl_base_sha l, tm_head_sha = head,
      tm_changed_files = changed, tm_patch = patch, tm_patch_truncated = truncated,
      tm_bootstrap = None, tm_check = None, tm_check_outcome = CO_NOT_RUN, tm_agent_outcome = o1,
      tm_conversation_id = pl_conversation_id l, tm_outcome_detail = None,
      tm_completed_at = Some (xe_now env)\<rparr>)"

definition store_result ::
  "exec_env \<Rightarrow> StartTaskExecutionRequest \<Rightarrow> string option \<Rightarrow> string option \<times> string list \<times> string option \<times> bool \<Rightarrow>
   AgentOutcome \<Rightarrow> unit pipe_op" where
  "store_result env request token evidence o2 =
     andThen get_locals (\<lambda>l.
     andThen (in_pipe (redacted env token (success_manifest env request l evidence o2))) (\<lambda>m.
     andThen (in_pipe (on_db (save_manifest (xe_db_path env) m))) (\<lambda>ref.
     phase_step env (terminal_of o2) (Some ref) (outcome_text o2))))"

definition pipeline_body ::
  "exec_env \<Rightarrow> repo_env \<Rightarrow> agent_turn \<Rightarrow> StartTaskExecutionRequest \<Rightarrow> string option \<Rightarrow> unit pipe_op" where
  "pipeline_body env repo turn request token =
     andThen (phase_step env TP_PREPARING None None) (\<lambda>_.
     andThen (prepare_repository repo request token) (\<lambda>_.
     andThen (phase_step env TP_RUNNING_AGENT None None) (\<lambda>_.
     andThen (bind_conversation env) (\<lambda>cid.
     andThen (in_pipe (on_conv (run_agent env turn request (rp_repo_dir repo) cid))) (\<lambda>o1.
     andThen (collect_evidence repo request) (\<lambda>evidence.
     store_result env request token evidence (final_outcome request (fst (snd evidence)) o1)))))))"

text \<open>The two \<open>except\<close> clauses; \<open>str(exc)\<close> and the outcome they record.\<close>

fun handled :: "sandbox_error \<Rightarrow> (AgentOutcome \<times> string) option" where
  "handled (SandboxTimeoutError m) = Some (AO_TIMEOUT, m)"
| "handled (GitPrepError m) = Some (AO_FAILED, m)"
| "handled (AgentError c m) = Some (AO_FAILED, m)"
| "handled AgentCancelledError = Some (AO_FAILED, ''Pi run was cancelled'')"
| "handled (SandboxRuntimeError m) = Some (AO_FAILED, m)"
| "handled (SandboxValueError m) = Some (AO_FAILED, m)"
| "handled _ = None"

definition handle_failure ::
  "exec_env \<Rightarrow> StartTaskExecutionRequest \<Rightarrow> string option \<Rightarrow> sandbox_error \<Rightarrow> unit pipe_op" where
  "handle_failure env request token e =
     (case handled e of
        None \<Rightarrow> raise e
      | Some (o1, m) \<Rightarrow>
          andThen get_locals (\<lambda>l.
          in_pipe (finalize_failure env token (pl_record l)
            \<lparr>fl_detail = m, fl_agent_outcome = o1, fl_repository = sx_repository request,
             fl_task_branch = sx_task_branch request, fl_base_ref = sx_base_ref request,
             fl_base_sha = pl_base_sha l, fl_conversation_id = pl_conversation_id l\<rparr>)))"

definition run_pipeline ::
  "exec_env \<Rightarrow> repo_env \<Rightarrow> agent_turn \<Rightarrow> StartTaskExecutionRequest \<Rightarrow> TaskExecutionRecord \<Rightarrow> string option \<Rightarrow>
   unit sup_op" where
  "run_pipeline env repo turn request record github_token s =
     (let token = py_or github_token (xe_github_token env);
          (r, (s', _)) = catch (pipeline_body env repo turn request token) (handle_failure env request token)
            (s, \<lparr>pl_record = record, pl_base_sha = None, pl_conversation_id = None\<rparr>)
      in (r, s'\<lparr>ts_active := filter (\<lambda>x. x \<noteq> xr_execution_id record) (ts_active s')\<rparr>))"

section \<open>Conversations leave the execution tables alone\<close>

definition exec_part where
  "exec_part d = (executions d, manifests d, sandbox_metadata d)"

definition conv_same :: "conv_state \<Rightarrow> conv_state \<Rightarrow> bool" where
  "conv_same s s' \<longleftrightarrow> exec_part (fst s') = exec_part (fst s)"

definition svc_same :: "ConversationService \<Rightarrow> ConversationService \<Rightarrow> bool" where
  "svc_same s s' \<longleftrightarrow> exec_part (cs_db s') = exec_part (cs_db s)"

interpretation conv_same: kept_relation conv_same
  by unfold_locales (simp_all add: conv_same_def)

interpretation svc_same: kept_relation svc_same
  by unfold_locales (simp_all add: svc_same_def)

lemma exec_part_frames [simp]:
  "exec_part (d\<lparr>events := a\<rparr>) = exec_part d" "exec_part (d\<lparr>message_receipts := b\<rparr>) = exec_part d"
  "exec_part (d\<lparr>conversations := c\<rparr>) = exec_part d"
  by (simp_all add: exec_part_def)

lemma exec_part_store [simp]:
  "exec_part (snd (log_append k e d)) = exec_part d" "exec_part (snd (receipt_save k r d)) = exec_part d"
  "exec_part (save_conversation_state k m b d) = exec_part d" "exec_part (ensure_conversation k d) = exec_part d"
  by (simp_all add: log_append_def receipt_save_def save_conversation_state_def ensure_conversation_def Let_def)

lemma conv_same_basic:
  "keeps conv_same (append_event env k p)" "keeps conv_same (persist_status env)"
  "keeps conv_same (set_status st)" "keeps conv_same (transition o1)" "keeps conv_same (save_receipt r)"
  "keeps conv_same (call_steer t)" "keeps conv_same mark_cancelling" "keeps conv_same (call_cancel ce)"
  "keeps conv_same open_messages"
proof -
  show "keeps conv_same (append_event env k p)"
  proof (rule keepsI)
    fix s :: conv_state
    obtain d c where s: "s = (d, c)" by (cases s)
    have "exec_part d' = exec_part d" if "log_append (lc_key c) e d = (r, d')" for e r d'
      using exec_part_store(1) [of "lc_key c" e d] that by simp
    then show "conv_same s (snd (append_event env k p s))"
      by (auto simp: conv_same_def append_event_def s Let_def split: prod.splits sum.splits)
  qed
  show "keeps conv_same (save_receipt r)"
  proof (rule keepsI)
    fix s :: conv_state
    obtain d c where s: "s = (d, c)" by (cases s)
    have "exec_part d' = exec_part d" if "receipt_save (lc_key c) r d = (x, d')" for x d'
      using exec_part_store(2) [of "lc_key c" r d] that by simp
    then show "conv_same s (snd (save_receipt r s))"
      by (auto simp: conv_same_def save_receipt_def s split: prod.splits)
  qed
qed (auto simp: keeps_def conv_same_def persist_status_def set_status_def transition_def call_steer_def
    mark_cancelling_def call_cancel_def open_messages_def)

lemma keeps_finally_same: "keeps conv_same m \<Longrightarrow> keeps conv_same (try_finally m begin_settling)"
  by (simp add: keeps_def conv_same_def try_finally_def begin_settling_def case_prod_beta)

lemmas same_rules = conv_same.keeps_rules conv_same_basic keeps_finally_same

lemma apply_status_same: "keeps conv_same (apply_status env st)"
  unfolding apply_status_def by (intro same_rules)

lemma send_message_same: "keeps conv_same (send_message env t)"
  unfolding send_message_def by (intro same_rules apply_status_same conv_same.keeps_if)

lemma run_begin_same: "keeps conv_same (run_begin env)"
  unfolding run_begin_def by (intro same_rules apply_status_same conv_same.keeps_if)

lemma run_end_same: "keeps conv_same (run_end env oc)"
  unfolding run_end_def by (cases oc) (simp; intro same_rules apply_status_same)+

lemma emit_same: "keeps conv_same (for_each (\<lambda>(k, p). andThen (append_event env k p) (\<lambda>_. ret ())) es)"
  by (intro conv_same.keeps_for_each) (auto intro!: same_rules split: prod.splits)

lemma run_conversation_same: "keeps conv_same (run_conversation env backend)"
  unfolding run_conversation_def
  by (intro same_rules run_begin_same run_end_same emit_same)

lemma cancel_same: "keeps conv_same (cancel ce)"
  unfolding cancel_def by (intro same_rules conv_same.keeps_if)

lemma exec_part_put_live [simp]: "exec_part (cs_db (put_live cid c s)) = exec_part (fst c)"
  by (simp add: put_live_def)

lemma exec_part_new [simp]: "exec_part (fst (new_conversation env k cid wd ag ctl d)) = exec_part d"
  by (simp add: new_conversation_def persist_status_def)

lemma exec_part_open: "open_conversation env k ctl d = Inr s \<Longrightarrow> exec_part (fst s) = exec_part d"
  by (auto simp: open_conversation_def Let_def andThen_def set_status_def persist_status_def
      split: sum.splits if_splits)

lemma service_get_same: "keeps svc_same (service_get env ctl cid)"
  by (auto simp: keeps_def svc_same_def service_get_def exec_part_open split: option.splits sum.splits)

lemma load_meta_op_same: "keeps svc_same (load_meta_op cid)"
  by (simp add: keeps_def svc_same_def load_meta_op_def)

lemma service_create_same: "keeps svc_same (service_create env fresh cid wd ag ctl)"
  by (simp add: keeps_def svc_same_def service_create_def Let_def load_meta_op_def)

lemma on_live_same:
  assumes "keeps conv_same m"
  shows "keeps svc_same (on_live env ctl cid m)"
  unfolding on_live_def
proof (intro svc_same.keeps_andThen service_get_same keepsI)
  fix c :: LocalConversation and s :: ConversationService
  have "exec_part (fst (snd (m (cs_db s, c)))) = exec_part (cs_db s)"
    using keepsD [OF assms, of "(cs_db s, c)"] by (simp add: conv_same_def)
  then show "svc_same s (snd (let (r, s') = m (cs_db s, c) in (r, put_live cid s' s)))"
    by (simp add: svc_same_def split_beta Let_def)
qed

lemma set_task_db [simp]: "cs_db (set_task cid t s) = cs_db s" "cs_db (settle_task cid r s) = cs_db s"
  by (simp_all add: set_task_def settle_task_def)

lemma svc_same_fun: "(\<And>s. cs_db (snd (f s)) = cs_db s) \<Longrightarrow> keeps svc_same f"
  by (simp add: keeps_def svc_same_def)

lemma event_stream_same: "keeps svc_same (event_stream env ctl cid)"
  unfolding event_stream_def
  by (intro svc_same.keeps_andThen service_get_same svc_same_fun) (simp split: option.splits)

lemma service_run_begin_same: "keeps svc_same (service_run_begin env ctl cid)"
  unfolding service_run_begin_def
  by (intro svc_same.keeps_andThen service_get_same event_stream_same svc_same_fun) simp

lemma settle_same:
  assumes "keeps svc_same m"
  shows "svc_same s (snd (case m s of (r, s') \<Rightarrow> (r, settle_task cid r s')))"
  using keepsD [OF assms, of s] by (simp add: svc_same_def split_beta)

lemma run_worker_same: "keeps svc_same (run_worker env ctl backend cid)"
  by (rule keepsI) (simp add: run_worker_def settle_same on_live_same run_conversation_same)

lemma service_run_same: "keeps svc_same (service_run env ctl backend cid)"
  unfolding service_run_def
  by (intro svc_same.keeps_andThen service_run_begin_same run_worker_same load_meta_op_same)

lemma service_run_timed_out_same: "keeps svc_same (service_run_timed_out env ctl es cid)"
  unfolding service_run_timed_out_def
  by (intro svc_same.keeps_andThen service_run_begin_same on_live_same conv_same.keeps_andThen run_begin_same
      emit_same svc_same_fun) simp

lemma await_task_same: "keeps svc_same (await_task env ctl oc cid)"
proof (rule keepsI)
  fix s
  show "svc_same s (snd (await_task env ctl oc cid s))"
    by (simp add: await_task_def svc_same.kept_refl settle_same on_live_same run_end_same
        split: option.splits run_task.splits)
qed

lemma service_cancel_same: "keeps svc_same (service_cancel env ctl ce oc cid)"
  unfolding service_cancel_def
  by (intro svc_same.keeps_andThen on_live_same cancel_same await_task_same load_meta_op_same)

lemma run_agent_same: "keeps svc_same (run_agent env turn request dir cid)"
proof -
  have "keeps svc_same (case e of ConversationNotFoundError _ \<Rightarrow>
           service_create (xe_conv env) (xe_uuid env) cid dir
             (default_agent\<lparr>pa_model := sx_model request\<rparr>) (xe_controls env)
       | _ \<Rightarrow> raise e)" for e
    by (cases e) (simp_all add: service_create_same svc_same.keeps_raise)
  then have "keeps svc_same (ensure_record env request dir cid)"
    unfolding ensure_record_def get_record_def
    by (intro svc_same.keeps_catch svc_same.keeps_andThen service_get_same load_meta_op_same)
  moreover have "keeps svc_same (service_send_message (xe_conv env) (xe_controls env) cid t)" for t
    unfolding service_send_message_def by (intro on_live_same send_message_same)
  moreover have "keeps svc_same (case e of
               SandboxTimeoutError _ \<Rightarrow>
                 andThen (service_cancel (xe_conv env) (xe_controls env) (at_cancel_error turn)
                    (at_cancelled_end turn) cid) (\<lambda>_. ret AO_TIMEOUT)
             | _ \<Rightarrow> raise e)" for e
    by (cases e) (simp_all add: svc_same.keeps_raise svc_same.keeps_andThen service_cancel_same svc_same.keeps_ret)
  ultimately show ?thesis
    unfolding run_agent_def
    by (intro svc_same.keeps_andThen svc_same.keeps_if svc_same.keeps_catch service_run_same
        service_run_timed_out_same svc_same.keeps_ret)
qed

section \<open>Effects on the store\<close>

lemma sup_db_simps [simp]:
  "sup_db (snd (on_db m s)) = snd (m (sup_db s))" "fst (on_db m s) = fst (m (sup_db s))"
  "sup_db (s\<lparr>ts_active := a\<rparr>) = sup_db s" "sup_db (s\<lparr>ts_started := b\<rparr>) = sup_db s"
  "sup_db (s\<lparr>ts_killed := k\<rparr>) = sup_db s" "ts_started (snd (on_db m s)) = ts_started s"
  by (simp_all add: on_db_def sup_db_def split_beta Let_def)

lemma on_db_pair: "on_db m s = (fst (m (sup_db s)), snd (on_db m s))"
  by (simp add: prod_eq_iff)

text \<open>An execution of the store with the identity of a record in memory.\<close>

definition has_execution :: "TaskExecutionRecord \<Rightarrow> sandbox_db \<Rightarrow> bool" where
  "has_execution r d \<longleftrightarrow> (\<exists>x\<in>set (executions d). xr_execution_id x = xr_execution_id r \<and>
     execution_identity x = execution_identity r)"

lemma save_execution_ok:
  assumes "store_ok d" "has_execution r d"
  shows "save_execution r d =
    (Inr (), d\<lparr>executions := sql_update (\<lambda>x. xr_execution_id x = xr_execution_id r) (\<lambda>_. r) (executions d)\<rparr>)"
proof -
  from assms(2) obtain x where x: "x \<in> set (executions d)" "xr_execution_id x = xr_execution_id r"
      "execution_identity x = execution_identity r" by (auto simp: has_execution_def)
  then have "fetchone (\<lambda>x. xr_execution_id x = xr_execution_id r) (executions d) = Some x"
    using assms(1) by (subst fetchone_key) (simp_all add: store_ok_def)
  with x(3) show ?thesis by (simp add: save_execution_def)
qed

lemma save_manifest_ok:
  assumes "has_execution r d" "tm_execution_id m = xr_execution_id r"
  shows "\<exists>d'. save_manifest path m d = (Inr (manifest_reference path (xr_execution_id r)), d') \<and>
    executions d' = executions d \<and>
    map_of (manifests d') k = (if k = xr_execution_id r then Some m else map_of (manifests d) k)"
proof -
  have ex: "exists_row (\<lambda>x. xr_execution_id x = xr_execution_id r) (executions d)"
    using assms(1) by (auto simp: has_execution_def)
  show ?thesis
  proof (cases "exists_row (\<lambda>p. fst p = xr_execution_id r) (manifests d)")
    case True
    then have "xr_execution_id r \<in> fst ` set (manifests d)" by (simp add: exists_row_key del: exists_row_iff)
    then have "map_of (sql_update (\<lambda>p. fst p = xr_execution_id r) (\<lambda>_. (xr_execution_id r, m)) (manifests d)) k =
        (if k = xr_execution_id r then Some m else map_of (manifests d) k)"
      using map_of_dict_put [of "xr_execution_id r" m "manifests d" k] by (simp add: dict_put_def sql_update_def)
    with True show ?thesis using assms(2) by (simp add: save_manifest_def Let_def del: exists_row_iff)
  next
    case False
    then have "map_of (manifests d) (xr_execution_id r) = None" by (auto simp: map_of_eq_None_iff)
    then have "map_of (manifests d @ [(xr_execution_id r, m)]) k =
        (if k = xr_execution_id r then Some m else map_of (manifests d) k)"
      by (auto simp: map_add_def split: option.splits)
    with False ex show ?thesis using assms(2) by (simp add: save_manifest_def Let_def del: exists_row_iff)
  qed
qed

text \<open>Secrets that neither break the schema of a manifest nor occur in the execution's identifier.\<close>

definition secrets_ok :: "exec_env \<Rightarrow> string option \<Rightarrow> string \<Rightarrow> bool" where
  "secrets_ok env token xid \<longleftrightarrow> (\<forall>k. Some k \<in> {xe_openrouter env, xe_github_token env, token} \<and> k \<noteq> [] \<longrightarrow>
     schema_safe k \<and> \<not> sublist k xid)"

lemma redact_fields_kept:
  "tm_agent_outcome (redact_fields k m) = tm_agent_outcome m"
  "\<not> sublist k (tm_execution_id m) \<Longrightarrow> tm_execution_id (redact_fields k m) = tm_execution_id m"
  by (simp_all add: redact_fields_def Let_def replace_absent)

lemma redacted_ok:
  assumes "secrets_ok env token (tm_execution_id m)"
  shows "\<exists>m'. redacted env token m s = (Inr m', s) \<and> tm_execution_id m' = tm_execution_id m \<and>
    tm_agent_outcome m' = tm_agent_outcome m"
proof -
  let ?f = "\<lambda>secret m. if truthy secret then redact_fields (the secret) m else m"
  have "tm_execution_id (fold ?f xs w) = tm_execution_id w \<and> tm_agent_outcome (fold ?f xs w) = tm_agent_outcome w"
    if "\<forall>k. Some k \<in> set xs \<and> k \<noteq> [] \<longrightarrow> \<not> sublist k (tm_execution_id w)" for xs w
    using that
  proof (induction xs arbitrary: w)
    case (Cons x xs)
    then show ?case by (cases x) (auto simp: redact_fields_kept)
  qed simp
  from this [of "[xe_openrouter env, xe_github_token env, token]" m] show ?thesis
    using assms redact_by_fields [of "[xe_openrouter env, xe_github_token env, token]" m]
    by (simp add: redacted_def secrets_ok_def)
qed

lemma identity_phased [simp]:
  "execution_identity (phased_record env r p a b) = execution_identity r"
  "xr_execution_id (phased_record env r p a b) = xr_execution_id r" "xr_phase (phased_record env r p a b) = p"
  by (simp_all add: phased_record_def execution_identity_def)

lemma has_execution_phased [simp]: "has_execution (phased_record env r p a b) d = has_execution r d"
  by (simp add: has_execution_def)

text \<open>The store after one record was written: that row is replaced, everything else is as it was.\<close>

definition wrote :: "TaskExecutionRecord \<Rightarrow> sandbox_db \<Rightarrow> sandbox_db \<Rightarrow> bool" where
  "wrote x d d' \<longleftrightarrow> executions d' = sql_update (\<lambda>y. xr_execution_id y = xr_execution_id x) (\<lambda>_. x) (executions d)"

lemma update_phase_ok:
  assumes "store_ok (sup_db s)" "has_execution r (sup_db s)"
  shows "\<exists>s'. update_phase env r p a b s = (Inr (), s') \<and> ts_started s' = ts_started s \<and> store_ok (sup_db s') \<and>
    manifests (sup_db s') = manifests (sup_db s) \<and> wrote (phased_record env r p a b) (sup_db s) (sup_db s')"
proof -
  let ?x = "phased_record env r p a b"
  have e: "save_execution ?x (sup_db s) = (Inr (), (sup_db s)\<lparr>executions :=
      sql_update (\<lambda>y. xr_execution_id y = xr_execution_id ?x) (\<lambda>_. ?x) (executions (sup_db s))\<rparr>)"
    using assms by (intro save_execution_ok) simp_all
  have "store_ok (snd (save_execution ?x (sup_db s)))"
    using keepsD [OF save_execution_kept, of "sup_db s" ?x] assms(1) by (simp add: store_rel_def)
  then show ?thesis using on_db_pair [of "save_execution ?x" s] e
    by (auto simp: update_phase_def wrote_def intro!: exI [of _ "snd (on_db (save_execution ?x) s)"])
qed

lemma finalize_failure_ok:
  assumes ok: "store_ok (sup_db s)" "has_execution r (sup_db s)" "secrets_ok env token (xr_execution_id r)"
  shows "\<exists>s' x m. finalize_failure env token r f s = (Inr (), s') \<and> ts_started s' = ts_started s \<and> store_ok (sup_db s') \<and>
    wrote x (sup_db s) (sup_db s') \<and> xr_execution_id x = xr_execution_id r \<and>
    execution_identity x = execution_identity r \<and> xr_phase x = TP_FAILED \<and>
    map_of (manifests (sup_db s')) (xr_execution_id r) = Some m \<and> tm_agent_outcome m = fl_agent_outcome f \<and>
    (\<forall>k. k \<noteq> xr_execution_id r \<longrightarrow> map_of (manifests (sup_db s')) k = map_of (manifests (sup_db s)) k)"
proof -
  let ?d = "redact_detail env token (fl_detail f)"
  let ?m = "failure_manifest env ?d r f"
  have id: "tm_execution_id ?m = xr_execution_id r" "tm_agent_outcome ?m = fl_agent_outcome f"
    by (simp_all add: failure_manifest_def)
  from redacted_ok [of env token ?m s] ok(3) id obtain m where m: "redacted env token ?m s = (Inr m, s)"
    "tm_execution_id m = xr_execution_id r" "tm_agent_outcome m = fl_agent_outcome f" by auto
  let ?ref = "manifest_reference (xe_db_path env) (xr_execution_id r)"
  let ?s1 = "snd (on_db (save_manifest (xe_db_path env) m) s)"
  note sm = save_manifest_ok [OF ok(2) m(2), of "xe_db_path env"]
  have s1: "on_db (save_manifest (xe_db_path env) m) s = (Inr ?ref, ?s1)"
    using sm [of "[]"] on_db_pair [of "save_manifest (xe_db_path env) m" s] by auto
  have ex1: "executions (sup_db ?s1) = executions (sup_db s)" using sm [of "[]"] by auto
  have mf1: "map_of (manifests (sup_db ?s1)) k =
      (if k = xr_execution_id r then Some m else map_of (manifests (sup_db s)) k)" for k
    using sm [of k] by auto
  have "store_ok (sup_db ?s1)"
    using keepsD [OF save_manifest_kept, of "sup_db s" "xe_db_path env" m] ok(1) by (simp add: store_rel_def)
  moreover have "has_execution r (sup_db ?s1)" using ok(2) ex1 by (simp add: has_execution_def)
  ultimately obtain s2 where s2: "update_phase env r TP_FAILED (Some ?ref) (Some ?d) ?s1 = (Inr (), s2)"
      "ts_started s2 = ts_started ?s1" "store_ok (sup_db s2)" "manifests (sup_db s2) = manifests (sup_db ?s1)"
      "wrote (phased_record env r TP_FAILED (Some ?ref) (Some ?d)) (sup_db ?s1) (sup_db s2)"
    using update_phase_ok by blast
  have "finalize_failure env token r f s = (Inr (), s2)"
    unfolding finalize_failure_def Let_def andThen_Inr [of "redacted env token ?m" s, OF m(1)]
      andThen_Inr [of "on_db (save_manifest (xe_db_path env) m)" s, OF s1] by (rule s2(1))
  then show ?thesis using s2 mf1 m(3) ex1
    by (intro exI [of _ s2] exI [of _ "phased_record env r TP_FAILED (Some ?ref) (Some ?d)"] exI [of _ m])
      (simp add: wrote_def)
qed

section \<open>Recovery\<close>

text \<open>A settled execution: terminal, with a stored manifest whose outcome agrees with the phase.\<close>

definition settled :: "TaskExecutionRecord \<Rightarrow> sandbox_db \<Rightarrow> bool" where
  "settled x d \<longleftrightarrow> (\<exists>m. map_of (manifests d) (xr_execution_id x) = Some m \<and>
     xr_phase x = terminal_of (tm_agent_outcome m))"

lemma settled_terminal: "settled x d \<Longrightarrow> terminal_phase (xr_phase x)"
  by (auto simp: settled_def terminal_of_def terminal_phase_def split: if_splits)

definition manifests_kept :: "sandbox_db \<Rightarrow> sandbox_db \<Rightarrow> bool" where
  "manifests_kept d d' \<longleftrightarrow> map_of (manifests d) \<subseteq>\<^sub>m map_of (manifests d')"

lemma settled_mono: "settled x d \<Longrightarrow> manifests_kept d d' \<Longrightarrow> settled x d'"
  by (force simp: settled_def manifests_kept_def map_le_def dom_def)

lemma recover_ok:
  assumes ok: "store_ok (sup_db s)" "r \<in> set (executions (sup_db s))" "secrets_ok env None (xr_execution_id r)"
  shows "\<exists>s' x. recover_execution env r s = (Inr (), s') \<and> ts_started s' = ts_started s \<and> store_ok (sup_db s') \<and>
    wrote x (sup_db s) (sup_db s') \<and> xr_execution_id x = xr_execution_id r \<and> settled x (sup_db s') \<and>
    manifests_kept (sup_db s) (sup_db s')"
proof -
  let ?step = "\<lambda>s. case map_of (manifests (sup_db s)) (xr_execution_id r) of
          None \<Rightarrow> finalize_failure env None r (lost_ownership r) s
        | Some manifest \<Rightarrow>
            update_phase env r (terminal_of (tm_agent_outcome manifest))
              (Some (manifest_reference (xe_db_path env) (xr_execution_id r)))
              (tm_outcome_detail manifest) s"
  have h: "has_execution r (sup_db s)" using ok(2) by (auto simp: has_execution_def)
  have "\<exists>s1 x. ?step s = (Inr (), s1) \<and> ts_started s1 = ts_started s \<and> store_ok (sup_db s1) \<and>
    wrote x (sup_db s) (sup_db s1) \<and> xr_execution_id x = xr_execution_id r \<and> settled x (sup_db s1) \<and>
    manifests_kept (sup_db s) (sup_db s1)"
  proof (cases "map_of (manifests (sup_db s)) (xr_execution_id r)")
    case None
    obtain s1 x m where f: "finalize_failure env None r (lost_ownership r) s = (Inr (), s1)"
      "ts_started s1 = ts_started s" "store_ok (sup_db s1)" "wrote x (sup_db s) (sup_db s1)"
      "xr_execution_id x = xr_execution_id r" "xr_phase x = TP_FAILED"
      "map_of (manifests (sup_db s1)) (xr_execution_id r) = Some m" "tm_agent_outcome m = AO_NOT_RUN"
      "\<forall>k. k \<noteq> xr_execution_id r \<longrightarrow> map_of (manifests (sup_db s1)) k = map_of (manifests (sup_db s)) k"
      using finalize_failure_ok [OF ok(1) h ok(3), of "lost_ownership r"] by (auto simp: lost_ownership_def)
    have "manifests_kept (sup_db s) (sup_db s1)"
      using f(9) None by (auto simp: manifests_kept_def map_le_def) (metis option.distinct(1))
    moreover have "settled x (sup_db s1)" using f(5-8) by (simp add: settled_def terminal_of_def)
    ultimately show ?thesis using f None by (intro exI [of _ s1] exI [of _ x]) simp
  next
    case (Some m)
    let ?x = "phased_record env r (terminal_of (tm_agent_outcome m))
        (Some (manifest_reference (xe_db_path env) (xr_execution_id r))) (tm_outcome_detail m)"
    obtain s1 where "?step s = (Inr (), s1)" "ts_started s1 = ts_started s" "store_ok (sup_db s1)"
      "manifests (sup_db s1) = manifests (sup_db s)" "wrote ?x (sup_db s) (sup_db s1)"
      using update_phase_ok [OF ok(1) h] Some by fastforce
    then show ?thesis using Some by (intro exI [of _ s1] exI [of _ ?x]) (simp add: settled_def manifests_kept_def)
  qed
  then obtain s1 x where s1: "?step s = (Inr (), s1)" "ts_started s1 = ts_started s" "store_ok (sup_db s1)"
    "wrote x (sup_db s) (sup_db s1)" "xr_execution_id x = xr_execution_id r" "settled x (sup_db s1)"
    "manifests_kept (sup_db s) (sup_db s1)" by blast
  have "recover_execution env r s = (Inr (), s1\<lparr>ts_killed := ts_killed s1 @ [xr_execution_id r]\<rparr>)"
    unfolding recover_execution_def andThen_Inr [of ?step s, OF s1(1)] by (simp add: stop_orphan_processes_def)
  then show ?thesis using s1
    by (intro exI [of _ "s1\<lparr>ts_killed := ts_killed s1 @ [xr_execution_id r]\<rparr>"] exI [of _ x]) simp
qed

lemma wrote_member:
  "wrote x d d' \<Longrightarrow> y \<in> set (executions d') \<Longrightarrow> y = x \<or> (y \<in> set (executions d) \<and> xr_execution_id y \<noteq> xr_execution_id x)"
  by (auto simp: wrote_def set_sql_update split: if_splits)

lemma wrote_other:
  "wrote x d d' \<Longrightarrow> y \<in> set (executions d) \<Longrightarrow> xr_execution_id y \<noteq> xr_execution_id x \<Longrightarrow> y \<in> set (executions d')"
  by (auto simp: wrote_def set_sql_update image_iff)

lemma recover_all:
  assumes "store_ok (sup_db s)" "set rs \<subseteq> set (executions (sup_db s))" "distinct (map xr_execution_id rs)"
    "\<forall>r\<in>set rs. secrets_ok env None (xr_execution_id r)"
  shows "\<exists>s'. for_each (recover_execution env) rs s = (Inr (), s') \<and> ts_started s' = ts_started s \<and>
    store_ok (sup_db s') \<and> manifests_kept (sup_db s) (sup_db s') \<and>
    (\<forall>y\<in>set (executions (sup_db s')). if xr_execution_id y \<in> xr_execution_id ` set rs then settled y (sup_db s')
       else y \<in> set (executions (sup_db s)))"
  using assms
proof (induction rs arbitrary: s)
  case Nil
  then show ?case by (simp add: io_simps manifests_kept_def)
next
  case (Cons r rs)
  have r: "r \<in> set (executions (sup_db s))" "secrets_ok env None (xr_execution_id r)" using Cons.prems by auto
  obtain s1 x where s1: "recover_execution env r s = (Inr (), s1)" "ts_started s1 = ts_started s"
    "store_ok (sup_db s1)" "wrote x (sup_db s) (sup_db s1)" "xr_execution_id x = xr_execution_id r"
    "settled x (sup_db s1)" "manifests_kept (sup_db s) (sup_db s1)"
    using recover_ok [OF Cons.prems(1) r] by blast
  have "set rs \<subseteq> set (executions (sup_db s1))"
  proof
    fix y
    assume y: "y \<in> set rs"
    have "xr_execution_id r \<notin> xr_execution_id ` set rs" using Cons.prems(3) by simp
    with y have "xr_execution_id y \<noteq> xr_execution_id x" using s1(5) by (metis imageI)
    with y Cons.prems(2) show "y \<in> set (executions (sup_db s1))" by (auto intro: wrote_other [OF s1(4)])
  qed
  with Cons.IH [OF s1(3)] Cons.prems(3,4) obtain s2 where s2: "for_each (recover_execution env) rs s1 = (Inr (), s2)"
    "ts_started s2 = ts_started s1" "store_ok (sup_db s2)" "manifests_kept (sup_db s1) (sup_db s2)"
    "\<forall>y\<in>set (executions (sup_db s2)). if xr_execution_id y \<in> xr_execution_id ` set rs then settled y (sup_db s2)
       else y \<in> set (executions (sup_db s1))" by auto
  have "for_each (recover_execution env) (r # rs) s = (Inr (), s2)"
    using s2(1) by (simp add: andThen_Inr [of "recover_execution env r" s, OF s1(1)])
  moreover have "manifests_kept (sup_db s) (sup_db s2)"
    using s1(7) s2(4) by (auto simp: manifests_kept_def intro: map_le_trans)
  moreover have "if xr_execution_id y \<in> xr_execution_id ` set (r # rs) then settled y (sup_db s2)
       else y \<in> set (executions (sup_db s))" if "y \<in> set (executions (sup_db s2))" for y
    using s2(5) that wrote_member [OF s1(4), of y] settled_mono [OF s1(6) s2(4)] s1(5) by (auto split: if_splits)
  ultimately show ?case using s1(2) s2(2,3) by auto
qed

text \<open>
  C25: start-up recovery settles everything.  For an intact store, and secrets that are no part of the
  schema or of an execution identifier, the first start-up returns normally, leaves no execution in a
  non-terminal phase, gives each recovered execution a manifest that agrees with its phase, keeps every
  manifest that was already stored and every execution that was already terminal, and a second start-up does nothing.
\<close>

theorem startup_settles:
  assumes ok: "store_ok (sup_db s)" "\<not> ts_started s"
    and secrets: "\<forall>r\<in>set (executions (sup_db s)). secrets_ok env None (xr_execution_id r)"
  shows "\<exists>s'. startup env s = (Inr (), s') \<and> list_non_terminal (sup_db s') = [] \<and> store_ok (sup_db s') \<and>
    map_of (manifests (sup_db s)) \<subseteq>\<^sub>m map_of (manifests (sup_db s')) \<and>
    (\<forall>y\<in>set (executions (sup_db s')). settled y (sup_db s') \<or> y \<in> set (executions (sup_db s)) \<and> terminal_phase (xr_phase y)) \<and>
    startup env' s' = (Inr (), s')"
proof -
  let ?rs = "list_non_terminal (sup_db s)"
  have sub: "set ?rs = {r \<in> set (executions (sup_db s)). \<not> terminal_phase (xr_phase r)}"
    by (auto simp: list_non_terminal_def)
  have dist: "distinct (map xr_execution_id ?rs)"
    using ok(1) by (simp add: list_non_terminal_def store_ok_def distinct_map_filter)
  obtain s' where s': "for_each (recover_execution env) ?rs (s\<lparr>ts_started := True\<rparr>) = (Inr (), s')"
    "ts_started s'" "store_ok (sup_db s')" "manifests_kept (sup_db s) (sup_db s')"
    "\<forall>y\<in>set (executions (sup_db s')). if xr_execution_id y \<in> xr_execution_id ` set ?rs then settled y (sup_db s')
       else y \<in> set (executions (sup_db s))"
  proof -
    have "set ?rs \<subseteq> set (executions (sup_db s))" "\<forall>r\<in>set ?rs. secrets_ok env None (xr_execution_id r)"
      using sub secrets by auto
    from recover_all [of "s\<lparr>ts_started := True\<rparr>" ?rs env, unfolded sup_db_simps, OF ok(1) this(1) dist this(2)]
    show thesis using that by (elim exE conjE) simp
  qed
  have each: "settled y (sup_db s') \<or> y \<in> set (executions (sup_db s)) \<and> terminal_phase (xr_phase y)"
    if "y \<in> set (executions (sup_db s'))" for y
    using s'(5) that sub by (auto split: if_splits)
  then have "list_non_terminal (sup_db s') = []"
    using settled_terminal by (fastforce simp: list_non_terminal_def filter_empty_conv)
  then show ?thesis using s' each ok(2) by (auto simp: startup_def manifests_kept_def)
qed

definition sample_exec_env :: exec_env where
  "sample_exec_env = \<lparr>xe_conv = sample_conv_env, xe_now = 7, xe_uuid = ''c1'', xe_digest = (\<lambda>x. x),
     xe_github_token = None, xe_openrouter = None, xe_db_path = ''/s.db'', xe_controls = True\<rparr>"

definition sample_supervisor :: TaskSupervisorService where
  "sample_supervisor = \<lparr>ts_conv = empty_service\<lparr>cs_db := snd (admit_or_get (\<lambda>x. x) 1 sample_admission empty_sandbox)\<rparr>,
     ts_active = [], ts_started = False, ts_killed = []\<rparr>"

lemma sample_supervisor_ok: "store_ok (sup_db sample_supervisor)"
  using keepsD [OF admit_kept, of empty_sandbox "\<lambda>x. x" 1 sample_admission]
  by (simp add: sample_supervisor_def sup_db_def store_rel_def store_ok_def empty_sandbox_def)

lemma sample_supervisor_execs:
  "executions (sup_db sample_supervisor) = [admitted_record (\<lambda>x. x) 1 sample_admission]"
  by (simp add: sample_supervisor_def sup_db_def admit_or_get_def empty_sandbox_def Let_def)

theorem startup_settles_witness:
  "\<exists>s'. startup sample_exec_env sample_supervisor = (Inr (), s') \<and> list_non_terminal (sup_db s') = []"
  using startup_settles [of sample_supervisor sample_exec_env sample_exec_env] sample_supervisor_ok
  by (auto simp: sample_supervisor_def sample_exec_env_def secrets_ok_def)

section \<open>The pipeline settles its execution\<close>

definition pipe_ok :: "string \<Rightarrow> TaskSupervisorService \<times> pipeline_locals \<Rightarrow> bool" where
  "pipe_ok xid = (\<lambda>(s, l). store_ok (sup_db s) \<and> has_execution (pl_record l) (sup_db s) \<and>
     xr_execution_id (pl_record l) = xid)"

definition pipe_rel where
  "pipe_rel xid st st' \<longleftrightarrow> (pipe_ok xid st \<longrightarrow> pipe_ok xid st')"

interpretation pipe: kept_relation "pipe_rel xid" for xid
  by unfold_locales (auto simp: pipe_rel_def)

lemma has_execution_rel: "store_rel d d' \<Longrightarrow> store_ok d \<Longrightarrow> has_execution r d \<Longrightarrow> has_execution r d'"
  unfolding store_rel_def has_execution_def by metis

lemma in_pipe_db_kept: "keeps store_rel m \<Longrightarrow> keeps (pipe_rel xid) (in_pipe (on_db m))"
proof (rule keepsI)
  fix st :: "TaskSupervisorService \<times> pipeline_locals"
  assume m: "keeps store_rel m"
  obtain s l where st: "st = (s, l)" by (cases st)
  have r: "store_rel (sup_db s) (snd (m (sup_db s)))" using m by (rule keepsD)
  have "store_ok (snd (m (sup_db s)))" if "store_ok (sup_db s)" using r that by (simp add: store_rel_def)
  moreover have "snd (in_pipe (on_db m) st) = (snd (on_db m s), l)" by (simp add: in_pipe_def st split_beta Let_def)
  ultimately show "pipe_rel xid st (snd (in_pipe (on_db m) st))"
    using has_execution_rel [OF r] by (auto simp: pipe_rel_def pipe_ok_def st)
qed

lemma phase_step_kept: "keeps (pipe_rel xid) (phase_step env p a b)"
  unfolding phase_step_def update_phase_def
  by (intro pipe.keeps_andThen in_pipe_db_kept save_execution_kept)
    (simp add: keeps_def get_locals_def pipe.kept_refl split_beta)

lemma get_locals_kept: "keeps (pipe_rel xid) get_locals"
  by (simp add: keeps_def get_locals_def pipe.kept_refl split_beta)

lemma set_locals_kept:
  "(\<And>l. execution_identity (pl_record (f l)) = execution_identity (pl_record l)) \<Longrightarrow>
   (\<And>l. xr_execution_id (pl_record (f l)) = xr_execution_id (pl_record l)) \<Longrightarrow>
   keeps (pipe_rel xid) (set_locals f)"
  by (auto simp: keeps_def pipe_rel_def pipe_ok_def set_locals_def has_execution_def)

lemma from_sum_kept: "keeps (pipe_rel xid) (from_sum x)"
  by (cases x) (simp_all add: from_sum_def pipe.keeps_ret pipe.keeps_raise)

lemma prepare_kept: "keeps (pipe_rel xid) (prepare_repository repo request token)"
  unfolding prepare_repository_def
  by (intro pipe.keeps_rules pipe.keeps_if from_sum_kept set_locals_kept) simp_all

lemma bind_conversation_kept: "keeps (pipe_rel xid) (bind_conversation env)"
  unfolding bind_conversation_def
  by (intro pipe.keeps_rules in_pipe_db_kept conversation_id_kept set_locals_kept get_locals_kept save_execution_kept)
    (simp_all add: execution_identity_def)

lemma on_conv_kept:
  assumes "keeps svc_same m"
  shows "keeps (pipe_rel xid) (in_pipe (on_conv m))"
proof (rule keepsI)
  fix st :: "TaskSupervisorService \<times> pipeline_locals"
  obtain s l where st: "st = (s, l)" by (cases st)
  have "exec_part (cs_db (snd (m (ts_conv s)))) = exec_part (cs_db (ts_conv s))"
    using keepsD [OF assms, of "ts_conv s"] by (simp add: svc_same_def)
  then have e: "exec_part (sup_db (snd (on_conv m s))) = exec_part (sup_db s)"
    by (simp add: on_conv_def sup_db_def split_beta Let_def)
  have "snd (in_pipe (on_conv m) st) = (snd (on_conv m s), l)" by (simp add: in_pipe_def st split_beta Let_def)
  with e show "pipe_rel xid st (snd (in_pipe (on_conv m) st))"
    by (auto simp: pipe_rel_def pipe_ok_def st store_ok_def has_execution_def exec_part_def)
qed

lemma collect_evidence_kept: "keeps (pipe_rel xid) (collect_evidence repo request)"
  unfolding collect_evidence_def
  by (intro pipe.keeps_if pipe.keeps_andThen from_sum_kept) (auto simp: pipe.keeps_ret split: prod.splits)

definition exec_settled :: "string \<Rightarrow> sandbox_db \<Rightarrow> bool" where
  "exec_settled xid d \<longleftrightarrow> (\<exists>x\<in>set (executions d). xr_execution_id x = xid \<and> settled x d)"

lemma wrote_in:
  assumes "wrote x d d'" "has_execution r d" "xr_execution_id x = xr_execution_id r"
  shows "x \<in> set (executions d')"
  using assms by (auto simp: wrote_def set_sql_update has_execution_def image_iff)

lemma store_result_ok:
  assumes "pipe_ok xid st" and sec: "secrets_ok env token xid"
  shows "\<exists>st'. store_result env request token evidence o2 st = (Inr (), st') \<and> exec_settled xid (sup_db (fst st'))"
proof -
  obtain s l where st: "st = (s, l)" by (cases st)
  from assms(1) have ok: "store_ok (sup_db s)" "has_execution (pl_record l) (sup_db s)" "xr_execution_id (pl_record l) = xid"
    by (simp_all add: pipe_ok_def st)
  let ?m = "success_manifest env request l evidence o2"
  have id: "tm_execution_id ?m = xid" "tm_agent_outcome ?m = o2"
    using ok(3) by (simp_all add: success_manifest_def split: prod.splits)
  from redacted_ok [of env token ?m s] sec id obtain m where m: "redacted env token ?m s = (Inr m, s)"
    "tm_execution_id m = xr_execution_id (pl_record l)" "tm_agent_outcome m = o2" using ok(3) by auto
  let ?path = "xe_db_path env"
  let ?ref = "manifest_reference ?path (xr_execution_id (pl_record l))"
  note sm = save_manifest_ok [OF ok(2) m(2), of ?path]
  obtain s1 where s1: "on_db (save_manifest ?path m) s = (Inr ?ref, s1)" "sup_db s1 = snd (save_manifest ?path m (sup_db s))"
    using sm [of "[]"] on_db_pair [of "save_manifest ?path m" s] by (metis fst_conv sup_db_simps(1))
  have ex1: "executions (sup_db s1) = executions (sup_db s)" using sm [of "[]"] s1(2) by auto
  have mf1: "map_of (manifests (sup_db s1)) xid = Some m" using sm [of xid] ok(3) s1(2) by auto
  have "store_ok (sup_db s1)"
    using keepsD [OF save_manifest_kept, of "sup_db s" ?path m] ok(1) s1(2) by (simp add: store_rel_def)
  moreover have h1: "has_execution (pl_record l) (sup_db s1)" using ok(2) ex1 by (simp add: has_execution_def)
  ultimately obtain s2 where s2: "update_phase env (pl_record l) (terminal_of o2) (Some ?ref) (outcome_text o2) s1 = (Inr (), s2)"
      "manifests (sup_db s2) = manifests (sup_db s1)"
      "wrote (phased_record env (pl_record l) (terminal_of o2) (Some ?ref) (outcome_text o2)) (sup_db s1) (sup_db s2)"
    using update_phase_ok by blast
  have "exec_settled xid (sup_db s2)"
    using wrote_in [OF s2(3) h1] s2(2) mf1 m(3) ok(3) unfolding exec_settled_def settled_def
    by (intro bexI [of _ "phased_record env (pl_record l) (terminal_of o2) (Some ?ref) (outcome_text o2)"]) simp_all
  moreover have "store_result env request token evidence o2 st = (Inr (), (s2, l))"
    by (simp add: store_result_def phase_step_def andThen_def get_locals_def in_pipe_def st m(1) s1(1) s2(1))
  ultimately show ?thesis by auto
qed

text \<open>
  A part of the pipeline either ends with its execution settled or raises with the bookkeeping intact.
\<close>

definition settles_or_raises where
  "settles_or_raises xid m \<longleftrightarrow> (\<forall>st. pipe_ok xid st \<longrightarrow>
     (\<exists>st'. m st = (Inr (), st') \<and> exec_settled xid (sup_db (fst st'))) \<or>
     (\<exists>e st'. m st = (Inl e, st') \<and> pipe_ok xid st'))"

lemma settles_andThen:
  assumes "keeps (pipe_rel xid) m" "\<And>x. settles_or_raises xid (k x)"
  shows "settles_or_raises xid (andThen m k)"
  unfolding settles_or_raises_def
proof (intro allI impI)
  fix st
  assume ok: "pipe_ok xid st"
  obtain r st1 where m: "m st = (r, st1)" by (cases "m st")
  have ok1: "pipe_ok xid st1" using keepsD [OF assms(1), of st] ok m by (simp add: pipe_rel_def)
  show "(\<exists>st'. andThen m k st = (Inr (), st') \<and> exec_settled xid (sup_db (fst st'))) \<or>
     (\<exists>e st'. andThen m k st = (Inl e, st') \<and> pipe_ok xid st')"
  proof (cases r)
    case (Inl e)
    then show ?thesis using m ok1 by (auto simp: andThen_def)
  next
    case (Inr x)
    then have "andThen m k st = k x st1" using m by (simp add: andThen_def)
    then show ?thesis using assms(2) [of x, unfolded settles_or_raises_def, rule_format, OF ok1] by (simp only:)
  qed
qed

lemma pipeline_body_settles:
  assumes "secrets_ok env token xid"
  shows "settles_or_raises xid (pipeline_body env repo turn request token)"
proof -
  have "settles_or_raises xid (store_result env request token evidence o2)" for evidence o2
    using store_result_ok [OF _ assms] unfolding settles_or_raises_def by blast
  then show ?thesis unfolding pipeline_body_def
    by (intro settles_andThen phase_step_kept prepare_kept bind_conversation_kept on_conv_kept run_agent_same
        collect_evidence_kept)
qed

text \<open>
  C26: the pipeline settles its execution.  When the pipeline of an admitted execution ends normally, that
  execution is terminal with a stored manifest whose outcome agrees with the phase, whatever git and
  the agent answered; every exception of the two \<open>except\<close> clauses ends that way too, so an
  exception that leaves the pipeline is none of those.
\<close>

theorem pipeline_settles:
  assumes ok: "store_ok (sup_db s)" "has_execution record (sup_db s)"
    and sec: "secrets_ok env (py_or github_token (xe_github_token env)) (xr_execution_id record)"
    and run: "run_pipeline env repo turn request record github_token s = (r, s')"
  shows "case r of Inr _ \<Rightarrow> exec_settled (xr_execution_id record) (sup_db s') | Inl e \<Rightarrow> handled e = None"
proof -
  let ?xid = "xr_execution_id record" and ?tok = "py_or github_token (xe_github_token env)"
  let ?st = "(s, \<lparr>pl_record = record, pl_base_sha = None, pl_conversation_id = None\<rparr>)"
  let ?body = "pipeline_body env repo turn request ?tok" and ?h = "handle_failure env request ?tok"
  obtain r1 s1 l1 where c: "catch ?body ?h ?st = (r1, (s1, l1))" by (metis prod.exhaust)
  have rs: "r = r1" "sup_db s' = sup_db s1" using run c by (auto simp: run_pipeline_def Let_def)
  have "pipe_ok ?xid ?st" using ok by (simp add: pipe_ok_def)
  with pipeline_body_settles [OF sec] consider
      (done_ok) st' where "?body ?st = (Inr (), st')" "exec_settled ?xid (sup_db (fst st'))"
    | (raised) e s2 l2 where "?body ?st = (Inl e, (s2, l2))" "pipe_ok ?xid (s2, l2)"
    unfolding settles_or_raises_def by (metis prod.exhaust)
  then show ?thesis
  proof cases
    case done_ok
    then have "r1 = Inr ()" "s1 = fst st'" using c by (auto simp: catch_def)
    with done_ok rs show ?thesis by simp
  next
    case raised
    then have h: "?h e (s2, l2) = (r1, (s1, l1))" using c by (simp add: catch_def)
    show ?thesis
    proof (cases "handled e")
      case None
      then show ?thesis using h rs by (auto simp: handle_failure_def raise_def)
    next
      case (Some p)
      obtain o1 m where p: "p = (o1, m)" by (cases p)
      let ?f = "\<lparr>fl_detail = m, fl_agent_outcome = o1, fl_repository = sx_repository request,
             fl_task_branch = sx_task_branch request, fl_base_ref = sx_base_ref request,
             fl_base_sha = pl_base_sha l2, fl_conversation_id = pl_conversation_id l2\<rparr>"
      have o1: "terminal_of o1 = TP_FAILED" using Some p by (cases e) (auto simp: terminal_of_def)
      have ok2: "store_ok (sup_db s2)" "has_execution (pl_record l2) (sup_db s2)" "xr_execution_id (pl_record l2) = ?xid"
        using raised(2) by (simp_all add: pipe_ok_def)
      have sec2: "secrets_ok env ?tok (xr_execution_id (pl_record l2))" using sec ok2(3) by simp
      obtain s3 x mf where f: "finalize_failure env ?tok (pl_record l2) ?f s2 = (Inr (), s3)"
          "wrote x (sup_db s2) (sup_db s3)" "xr_execution_id x = xr_execution_id (pl_record l2)" "xr_phase x = TP_FAILED"
          "map_of (manifests (sup_db s3)) (xr_execution_id (pl_record l2)) = Some mf" "tm_agent_outcome mf = o1"
        using finalize_failure_ok [OF ok2(1,2) sec2, of ?f] by auto
      have "?h e (s2, l2) = (Inr (), (s3, l2))"
        using Some p f(1) by (simp add: handle_failure_def andThen_def get_locals_def in_pipe_def)
      with h have "r1 = Inr ()" "s1 = s3" by auto
      moreover have "exec_settled ?xid (sup_db s3)"
        unfolding exec_settled_def settled_def
        by (rule bexI [of _ x]) (use f ok2 o1 wrote_in [OF f(2) ok2(2) f(3)] in auto)
      ultimately show ?thesis using rs by simp
    qed
  qed
qed

definition sample_process :: completed_process where
  "sample_process = \<lparr>cp_returncode = 0, cp_stdout = [], cp_stderr = []\<rparr>"

definition sample_repo :: repo_env where
  "sample_repo = \<lparr>rp_repo_dir = ''/w'', rp_has_git = True, rp_nonempty = False, rp_clone = sample_process,
     rp_get_url = sample_process, rp_rev_parse = sample_process, rp_head_file = False, rp_branch = sample_process,
     rp_checkout = sample_process, rp_evidence = \<lparr>ge_head = sample_process, ge_names = sample_process,
     ge_status = sample_process, ge_diff = sample_process\<rparr>\<rparr>"

definition sample_turn :: agent_turn where
  "sample_turn = \<lparr>at_duration = 1, at_backend = (\<lambda>_. ([], Run_done)), at_emitted = [], at_cancel_error = None,
     at_cancelled_end = Run_cancelled\<rparr>"

definition sample_request :: StartTaskExecutionRequest where
  "sample_request = \<lparr>sx_task_id = ''t1'', sx_repository = Some ''o/r'', sx_prompt = ''hi'', sx_base_ref = Some ''main'',
     sx_base_sha = Some ''abc'', sx_task_branch = Some ''b'', sx_start_key = ''k1'', sx_deadline_at = 9, sx_model = DEFAULT_PI_MODEL\<rparr>"

definition sample_token :: "string option" where
  "sample_token = Some ''tok''"

lemma sample_execution: "has_execution (admitted_record (\<lambda>x. x) 1 sample_admission) (sup_db sample_supervisor)"
  by (simp add: has_execution_def sample_supervisor_execs)

lemma sample_secrets:
  "secrets_ok sample_exec_env sample_token (xr_execution_id (admitted_record (\<lambda>x. x) 1 sample_admission))"
  by (simp add: secrets_ok_def sample_exec_env_def sample_token_def schema_safe_def schema_words_def
      CheckOutcome_members_def AgentOutcome_members_def sublist_Cons_right admitted_record_def
      new_execution_id_def sample_admission_def)

theorem pipeline_settles_witness:
  "\<exists>s'. run_pipeline sample_exec_env sample_repo sample_turn sample_request
       (admitted_record (\<lambda>x. x) 1 sample_admission) sample_token sample_supervisor = (Inr (), s') \<and>
     exec_settled (xr_execution_id (admitted_record (\<lambda>x. x) 1 sample_admission)) (sup_db s')"
proof -
  let ?r = "admitted_record (\<lambda>x. x) 1 sample_admission"
  let ?run = "run_pipeline sample_exec_env sample_repo sample_turn sample_request ?r sample_token sample_supervisor"
  let ?l = "\<lparr>pl_record = ?r, pl_base_sha = None, pl_conversation_id = None\<rparr>"
  have tok: "py_or sample_token (xe_github_token sample_exec_env) = sample_token"
    by (simp add: sample_token_def)
  obtain s1 where s1: "update_phase sample_exec_env ?r TP_PREPARING None None sample_supervisor = (Inr (), s1)"
      "store_ok (sup_db s1)" "wrote (phased_record sample_exec_env ?r TP_PREPARING None None) (sup_db sample_supervisor) (sup_db s1)"
    using update_phase_ok [OF sample_supervisor_ok sample_execution, of sample_exec_env TP_PREPARING None None] by auto
  have h1: "has_execution ?r (sup_db s1)"
    using wrote_in [OF s1(3) sample_execution] unfolding has_execution_def
    by (intro bexI [of _ "phased_record sample_exec_env ?r TP_PREPARING None None"]) simp_all
  let ?l1 = "?l\<lparr>pl_base_sha := Some ''abc''\<rparr>"
  have body: "pipeline_body sample_exec_env sample_repo sample_turn sample_request sample_token (sample_supervisor, ?l) =
      (Inl (GitPrepError ''checkout is incomplete''), (s1, ?l1))"
    by (simp add: pipeline_body_def phase_step_def andThen_def get_locals_def in_pipe_def s1(1)
        prepare_repository_def sample_request_def sample_repo_def sample_token_def ret_def raise_def set_locals_def)
  have "\<exists>s2. handle_failure sample_exec_env sample_request sample_token (GitPrepError ''checkout is incomplete'') (s1, ?l1) =
      (Inr (), (s2, ?l1))"
    using finalize_failure_ok [OF s1(2) h1 sample_secrets]
    by (simp add: handle_failure_def andThen_def get_locals_def in_pipe_def) (metis (no_types, lifting) case_prod_conv)
  then obtain s2 where "?run = (Inr (), s2\<lparr>ts_active := filter (\<lambda>x. x \<noteq> xr_execution_id ?r) (ts_active s2)\<rparr>)"
    using body by (auto simp: run_pipeline_def catch_def tok Let_def)
  then show ?thesis
    using pipeline_settles [OF sample_supervisor_ok sample_execution, of sample_exec_env sample_token] sample_secrets tok
    by fastforce
qed

text \<open>
  Waiting for a cancelled task raises \<open>CancelledError\<close>: an agent turn that exceeds its bound never
  yields the outcome \<open>TIMEOUT\<close>, and the exception is not one the pipeline handles.
\<close>

definition no_timeout :: "('s, sandbox_error, 'a) io \<Rightarrow> bool" where
  "no_timeout m \<longleftrightarrow> (\<forall>s x. fst (m s) \<noteq> Inl (SandboxTimeoutError x))"

lemma no_timeout_rules:
  "no_timeout (ret y)" "no_timeout (reading f)" "(\<And>x. e \<noteq> SandboxTimeoutError x) \<Longrightarrow> no_timeout (raise e)"
  "no_timeout m \<Longrightarrow> (\<And>y. no_timeout (k y)) \<Longrightarrow> no_timeout (andThen m k)"
  by (auto simp: no_timeout_def io_simps split: sum.splits)

lemma no_timeout_if: "no_timeout a \<Longrightarrow> no_timeout b \<Longrightarrow> no_timeout (if c then a else b)"
  by simp

lemma no_timeout_for_each: "(\<And>x. no_timeout (f x)) \<Longrightarrow> no_timeout (for_each f xs)"
  by (induction xs) (simp_all add: no_timeout_rules)

lemma no_timeout_basic:
  "no_timeout (append_event env k p)" "no_timeout (persist_status env)" "no_timeout (set_status st)"
  "no_timeout (transition o1)" "no_timeout open_messages"
  by (auto simp: no_timeout_def append_event_def log_append_def persist_status_def set_status_def transition_def
      open_messages_def Let_def split: prod.splits sum.splits if_splits)

lemma no_timeout_run_begin: "no_timeout (run_begin env)"
  unfolding run_begin_def apply_status_def
  by (intro no_timeout_rules no_timeout_if no_timeout_basic) simp_all

lemma no_timeout_get: "no_timeout (service_get env ctl cid)"
  by (auto simp: no_timeout_def service_get_def open_conversation_def load_meta_def load_base_state_def Let_def
      split: option.splits sum.splits if_splits)

lemma no_timeout_on_live: "no_timeout m \<Longrightarrow> no_timeout (on_live env ctl cid m)"
  unfolding on_live_def
  by (intro no_timeout_rules no_timeout_get) (simp add: no_timeout_def split_beta Let_def)

lemma no_timeout_run_begin_service: "no_timeout (service_run_begin env ctl cid)"
  unfolding service_run_begin_def event_stream_def
  by (intro no_timeout_rules no_timeout_get) (auto simp: no_timeout_def split: option.splits)

text \<open>The run that timed out leaves a cancelled task behind.\<close>

lemma timed_out_task:
  assumes "service_run_timed_out env ctl es cid s = (r, s')"
  shows "(\<exists>e. r = Inl e) \<and> ((\<exists>x. r = Inl (SandboxTimeoutError x)) \<longrightarrow> task_of cid s' = Some Task_cancelled)"
proof -
  let ?m = "on_live env ctl cid (andThen (run_begin env) (\<lambda>_. for_each (\<lambda>(k, p). andThen (append_event env k p) (\<lambda>_. ret ())) es))"
  have n: "no_timeout ?m"
    by (intro no_timeout_on_live no_timeout_rules no_timeout_run_begin no_timeout_for_each)
      (auto intro: no_timeout_rules no_timeout_basic split: prod.splits)
  note no = n [unfolded no_timeout_def, rule_format] no_timeout_run_begin_service [unfolded no_timeout_def, rule_format]
  obtain r1 s1 where b: "service_run_begin env ctl cid s = (r1, s1)" by (cases "service_run_begin env ctl cid s")
  show ?thesis
  proof (cases r1)
    case (Inl e)
    then have "(r, s') = (Inl e, s1)" using assms b by (simp add: service_run_timed_out_def andThen_def)
    then show ?thesis using no(2) [of env ctl cid s] b Inl by auto
  next
    case (Inr u)
    obtain r2 s2 where m: "?m s1 = (r2, s2)" by (cases "?m s1")
    show ?thesis
    proof (cases r2)
      case (Inl e)
      then have "(r, s') = (Inl e, s2)" using assms b Inr m by (simp add: service_run_timed_out_def andThen_def)
      then show ?thesis using no(1) [of s1] m Inl by auto
    next
      case (Inr u2)
      then have "(r, s') = (Inl (SandboxTimeoutError []), set_task cid Task_cancelled s2)"
        using assms b \<open>r1 = Inr u\<close> m by (simp add: service_run_timed_out_def andThen_def)
      then show ?thesis by (simp add: task_of_def set_task_def)
    qed
  qed
qed

lemma on_live_tasks: "cs_run_tasks (snd (on_live env ctl cid m s)) = cs_run_tasks s"
proof -
  have "cs_run_tasks (snd (service_get env ctl cid s)) = cs_run_tasks s"
    by (auto simp: service_get_def put_live_def split: option.splits sum.splits)
  then show ?thesis by (auto simp: on_live_def io_simps put_live_def split_beta Let_def split: sum.splits)
qed

lemma cancel_after_timeout:
  "task_of cid s = Some Task_cancelled \<Longrightarrow> \<exists>e. fst (service_cancel env ctl ce oc cid s) = Inl e"
  using on_live_tasks [of env ctl cid "cancel ce" s]
  by (auto simp: service_cancel_def io_simps await_task_def task_of_def split: sum.splits)

lemma timeout_outcome_unreachable: "fst (run_agent env turn request dir cid s) \<noteq> Inr AO_TIMEOUT"
proof -
  let ?c = "xe_conv env" and ?k = "xe_controls env"
  have st: "status_outcome x \<noteq> AO_TIMEOUT" for x by (simp add: status_outcome_def)
  have late: "fst (catch (andThen (service_run_timed_out ?c ?k es cid) (\<lambda>record. ret (status_outcome (cr_status record))))
      (\<lambda>e. case e of SandboxTimeoutError _ \<Rightarrow>
           andThen (service_cancel ?c ?k ce oc cid) (\<lambda>_. ret AO_TIMEOUT) | _ \<Rightarrow> raise e) t) \<noteq> Inr AO_TIMEOUT" for es ce oc t
  proof -
    obtain r t1 where r: "service_run_timed_out ?c ?k es cid t = (r, t1)" by (cases "service_run_timed_out ?c ?k es cid t")
    from timed_out_task [OF r] obtain e where e: "r = Inl e" by auto
    with timed_out_task [OF r] cancel_after_timeout [of cid t1 ?c ?k ce oc] r show ?thesis
      by (cases e) (auto simp: catch_def andThen_def raise_def split: sum.splits prod.splits)
  qed
  show ?thesis unfolding run_agent_def using st late by (auto simp: io_simps split: sum.splits)
qed

text \<open>Binding the conversation writes the admitted record again, phase included.\<close>

lemma bind_conversation_resets_phase:
  assumes ok: "pipe_ok xid (s, l)"
  shows "\<exists>x\<in>set (executions (sup_db (fst (snd (bind_conversation env (s, l)))))).
    xr_execution_id x = xid \<and> xr_phase x = xr_phase (pl_record l)"
proof -
  let ?c = "conversation_id (xe_uuid env)"
  obtain cid where c: "fst (?c (sup_db s)) = Inr cid" "executions (snd (?c (sup_db s))) = executions (sup_db s)"
    by (cases "map_of (sandbox_metadata (sup_db s)) ''conversation-id''") (simp_all add: conversation_id_def)
  define s1 where "s1 = snd (on_db ?c s)"
  let ?r = "(pl_record l)\<lparr>xr_conversation_id := Some cid\<rparr>"
  have c1: "on_db ?c s = (Inr cid, s1)" by (simp add: prod_eq_iff s1_def c(1))
  have d1: "sup_db s1 = snd (?c (sup_db s))" by (simp add: s1_def)
  have "store_ok (sup_db s1)"
    using keepsD [OF conversation_id_kept, of "sup_db s" "xe_uuid env"] ok d1 by (simp add: store_rel_def pipe_ok_def)
  moreover have h: "has_execution ?r (sup_db s1)"
    using ok c(2) d1 by (auto simp: pipe_ok_def has_execution_def execution_identity_def)
  ultimately have e: "save_execution ?r (sup_db s1) = (Inr (), (sup_db s1)\<lparr>executions :=
      sql_update (\<lambda>x. xr_execution_id x = xr_execution_id ?r) (\<lambda>_. ?r) (executions (sup_db s1))\<rparr>)"
    by (rule save_execution_ok)
  obtain s2 where s2: "on_db (save_execution ?r) s1 = (Inr (), s2)" "sup_db s2 = snd (save_execution ?r (sup_db s1))"
    using on_db_pair [of "save_execution ?r" s1] e by (metis fst_conv sup_db_simps(1))
  have "fst (snd (bind_conversation env (s, l))) = s2"
    by (simp add: bind_conversation_def andThen_def in_pipe_def c1 set_locals_def get_locals_def ret_def s2(1))
  moreover have "?r \<in> set (executions (snd (save_execution ?r (sup_db s1))))"
    using wrote_in [of ?r "sup_db s1" "snd (save_execution ?r (sup_db s1))" ?r] h e by (simp add: wrote_def)
  ultimately show ?thesis using ok s2(2) by (intro bexI [of _ ?r]) (simp_all add: pipe_ok_def)
qed

end
