(* ===== verification/Lifecycle.thy ===== *)
theory Lifecycle
  imports Ledger_Steps Sandbox_Evidence
begin

text \<open>
  \<open>backend/gg/runtime/modal_sandbox.py\<close>: the lifecycle of the sandbox of a task over the ledger and
  the provider.  The Modal SDK behind \<open>ModalProvider\<close>, the durability barrier, the credential vault, its
  verifier, the repository authorization, SHA-256 and JSON are fields of the environment
  record \<open>lifecycle_env\<close>; a provider call is a function on the provider's own state that answers with
  a value or with the name of an exception class.  \<open>w_trace\<close> lists the durability barriers passed and the calls
  that create or stop a sandbox, each with the database revision at that moment.
\<close>

section \<open>World and environment\<close>

datatype call = Durable nat | Create_call string nat "(string \<times> string) list" | Terminate_call string nat

record 'p world =
  w_db :: database
  w_prov :: 'p
  w_trace :: "call list"

type_synonym ('p, 'a) life_op = "('p world, error, 'a) io"

datatype 'h lookup = Found 'h | Not_found | Lookup_failed string

record 'p provider =
  pv_create :: "string \<Rightarrow> (string \<times> string) list \<Rightarrow> string \<Rightarrow> (string \<times> string) list \<Rightarrow> 'p \<Rightarrow> (string + string) \<times> 'p"
  pv_from_id :: "string \<Rightarrow> 'p \<Rightarrow> string lookup \<times> 'p"
  pv_find :: "(string \<times> string) list \<Rightarrow> 'p \<Rightarrow> (string + string list) \<times> 'p"
  pv_poll :: "string \<Rightarrow> 'p \<Rightarrow> (string + int option) \<times> 'p"
  pv_wait_until_ready :: "string \<Rightarrow> 'p \<Rightarrow> (string + unit) \<times> 'p"
  pv_connect_token :: "string \<Rightarrow> 'p \<Rightarrow> (string + string \<times> string) \<times> 'p"
  pv_health :: "string \<Rightarrow> 'p \<Rightarrow> (string + unit) \<times> 'p"
  pv_terminate :: "string \<Rightarrow> 'p \<Rightarrow> (string + unit) \<times> 'p"
  pv_sync :: "string \<Rightarrow> 'p \<Rightarrow> (error + unit) \<times> 'p"
  pv_delete_workspace :: "string \<Rightarrow> 'p \<Rightarrow> (error + unit) \<times> 'p"
  pv_detach :: "string \<Rightarrow> 'p \<Rightarrow> (string + unit) \<times> 'p"

record 'p lifecycle_env =
  le_provider :: "'p provider"
  le_now :: timestamp
  le_deployment :: string
  le_sandbox_env :: "(string \<times> string) list"
  le_durable :: "nat \<Rightarrow> 'p \<Rightarrow> (error + unit) \<times> 'p"
  le_vault :: "(string \<Rightarrow> unit + (string \<times> int) option) option"
  le_verify :: "(string \<Rightarrow> int option) option"
  le_authorize :: "(string \<Rightarrow> string \<Rightarrow> string \<Rightarrow> string + (string \<times> string)) option"
  le_session_key :: string
  le_digest :: "string \<Rightarrow> string"
  le_dumps :: "(string \<times> string) list \<Rightarrow> string"
  le_loads :: "string \<Rightarrow> (string \<times> string) list"

definition on_ledger :: "'a ledger_op \<Rightarrow> ('p, 'a) life_op" where
  "on_ledger m w = (let (r, d) = m (w_db w) in (r, w\<lparr>w_db := d\<rparr>))"

definition on_provider :: "('p \<Rightarrow> 'a \<times> 'p) \<Rightarrow> ('p, 'a) life_op" where
  "on_provider f w = (let (a, p) = f (w_prov w) in (Inr a, w\<lparr>w_prov := p\<rparr>))"

definition note_call :: "(nat \<Rightarrow> call) \<Rightarrow> ('p, unit) life_op" where
  "note_call c w = (Inr (), w\<lparr>w_trace := w_trace w @ [c (revision (w_db w))]\<rparr>)"

text \<open>\<open>await ledger.ensure_durable()\<close>.\<close>

definition durable_barrier :: "'p lifecycle_env \<Rightarrow> ('p, unit) life_op" where
  "durable_barrier env w =
     (case le_durable env (revision (w_db w)) (w_prov w) of
        (Inl e, p) \<Rightarrow> (Inl e, w\<lparr>w_prov := p\<rparr>)
      | (Inr _, p) \<Rightarrow> (Inr (), w\<lparr>w_prov := p, w_trace := w_trace w @ [Durable (revision (w_db w))]\<rparr>))"

section \<open>Identity and snapshots\<close>

record SandboxSnapshot =
  ss_task_id :: string
  ss_provider_id :: "string option"
  ss_state :: SandboxProviderState
  ss_detail :: "string option"

definition snapshot :: "SandboxCreationRecord \<Rightarrow> SandboxSnapshot" where
  "snapshot r = \<lparr>ss_task_id = sc_task_id r, ss_provider_id = sc_provider_id r,
     ss_state = sc_provider_state r, ss_detail = sc_detail r\<rparr>"

definition slug_char :: "char \<Rightarrow> bool" where
  "slug_char c \<longleftrightarrow> (let n = of_char c :: nat in
     (48 \<le> n \<and> n \<le> 57) \<or> (65 \<le> n \<and> n \<le> 90) \<or> (97 \<le> n \<and> n \<le> 122)) \<or> c \<in> set ''_.-''"

definition strip_chars :: "char set \<Rightarrow> string \<Rightarrow> string" where
  "strip_chars cs s = rev (dropWhile (\<lambda>c. c \<in> cs) (rev (dropWhile (\<lambda>c. c \<in> cs) s)))"

definition deployment_slug :: "string \<Rightarrow> string" where
  "deployment_slug deployment =
     (let s = take 20 (strip_chars (set ''-._'')
                (map (\<lambda>c. if slug_char c then c else CHR ''-'') (filter (\<lambda>c. \<not> is_cont c) deployment)))
      in if s = [] then ''deployment'' else s)"

definition sandbox_identity ::
  "(string \<Rightarrow> string) \<Rightarrow> string \<Rightarrow> string \<Rightarrow> string \<times> (string \<times> string) list" where
  "sandbox_identity digest deployment task_id =
     (let identity = deployment @ '':'' @ task_id
      in (''gg-'' @ deployment_slug deployment @ ''-'' @ take 20 (digest identity),
          [(''gg_identity'', identity), (''gg_deployment'', deployment), (''gg_task_id'', task_id)]))"

definition creation_record :: "string \<Rightarrow> ('p, SandboxCreationRecord) life_op" where
  "creation_record task_id w =
     (case get_sandbox_creation task_id (w_db w) of
        None \<Rightarrow> (Inl (SandboxNotFoundError (''no sandbox creation intent for task '' @ task_id)), w)
      | Some r \<Rightarrow> (Inr r, w))"

definition set_provider_state ::
  "'p lifecycle_env \<Rightarrow> string \<Rightarrow> string option \<Rightarrow> SandboxProviderState \<Rightarrow> string option \<Rightarrow>
   ('p, SandboxCreationRecord) life_op" where
  "set_provider_state env task_id provider_id state detail =
     on_ledger (update_sandbox_creation (le_now env) task_id provider_id state detail)"

section \<open>Reconnection\<close>

text \<open>A number in decimal, for exit codes.\<close>

fun digits :: "nat \<Rightarrow> string" where
  "digits n = (if n < 10 then [char_of (48 + n)] else digits (n div 10) @ [char_of (48 + n mod 10)])"

definition show_int :: "int \<Rightarrow> string" where
  "show_int i = (if i < 0 then ''-'' @ digits (nat (- i)) else digits (nat i))"

definition poll_handle ::
  "'p lifecycle_env \<Rightarrow> string \<Rightarrow> string \<Rightarrow> ('p, SandboxSnapshot \<times> string option) life_op" where
  "poll_handle env task_id handle =
     andThen (on_provider (pv_poll (le_provider env) handle)) (\<lambda>answer.
     andThen (case answer of
          Inl exc \<Rightarrow> set_provider_state env task_id None SP_UNKNOWN (Some (''provider status failed: '' @ exc))
        | Inr None \<Rightarrow> set_provider_state env task_id None SP_RUNNING None
        | Inr (Some code) \<Rightarrow>
            set_provider_state env task_id None SP_STOPPED (Some (''provider exit code '' @ show_int code)))
     (\<lambda>updated. ret (snapshot updated, Some handle)))"

definition reconnect_record ::
  "'p lifecycle_env \<Rightarrow> SandboxCreationRecord \<Rightarrow> ('p, SandboxSnapshot \<times> string option) life_op" where
  "reconnect_record env record =
     (let tid = sc_task_id record;
          give_up = (\<lambda>state detail. andThen (set_provider_state env tid None state (Some detail))
                       (\<lambda>updated. ret (snapshot updated, None)))
      in case sc_provider_id record of
        Some pid \<Rightarrow>
          andThen (on_provider (pv_from_id (le_provider env) pid)) (\<lambda>answer.
            case answer of
              Not_found \<Rightarrow> give_up SP_STOPPED ''provider confirmed sandbox absent''
            | Lookup_failed exc \<Rightarrow> give_up SP_UNKNOWN (''provider lookup failed: '' @ exc)
            | Found h \<Rightarrow> poll_handle env tid h)
      | None \<Rightarrow>
          andThen (on_provider (pv_find (le_provider env) (le_loads env (sc_tags_json record)))) (\<lambda>answer.
            case answer of
              Inl exc \<Rightarrow> give_up SP_UNKNOWN (''identity discovery failed: '' @ exc)
            | Inr [] \<Rightarrow> give_up SP_STOPPED ''provider confirmed deterministic identity absent''
            | Inr [h] \<Rightarrow>
                andThen (set_provider_state env tid (Some h) SP_CREATING None) (\<lambda>_. poll_handle env tid h)
            | Inr (_ # _ # _) \<Rightarrow>
                andThen (set_provider_state env tid None SP_UNKNOWN
                   (Some ''multiple provider sandboxes match deterministic identity''))
                  (\<lambda>updated. raise (ConflictingSandboxesError (str_or (sc_detail updated) ''conflicting sandboxes'')))))"

definition inspect :: "'p lifecycle_env \<Rightarrow> string \<Rightarrow> ('p, SandboxSnapshot) life_op" where
  "inspect env task_id =
     andThen (creation_record task_id) (\<lambda>r.
     andThen (reconnect_record env r) (\<lambda>(s, _). ret s))"

definition reconnect :: "'p lifecycle_env \<Rightarrow> string \<Rightarrow> ('p, SandboxSnapshot) life_op" where
  "reconnect env task_id = inspect env task_id"

section \<open>Creation\<close>

text \<open>The personal credential of an owned task: the key and its version.\<close>

definition personal_credential ::
  "'p lifecycle_env \<Rightarrow> TaskRecord \<Rightarrow> error + (string \<times> int) option" where
  "personal_credential env task =
     (case tr_owner_id task of
        None \<Rightarrow> Inr None
      | Some owner \<Rightarrow>
          (case le_vault env of
             None \<Rightarrow> Inl (CredentialUnavailableError ''personal credential vault unavailable'')
           | Some vault \<Rightarrow>
               (case vault owner of
                  Inl _ \<Rightarrow> Inl (CredentialUnavailableError ''personal credential vault unavailable'')
                | Inr None \<Rightarrow> Inl (CredentialUnavailableError ''personal OpenRouter key required'')
                | Inr (Some (key, version)) \<Rightarrow>
                    (case le_verify env of
                       None \<Rightarrow> Inr (Some (key, version))
                     | Some verify \<Rightarrow>
                         (case verify key of
                            None \<Rightarrow> Inr (Some (key, version))
                          | Some status \<Rightarrow> Inl (CredentialUnavailableError
                              (if status = 400 then ''personal OpenRouter key invalid; update and retry''
                               else if status = 429 then ''OpenRouter limit reached; retry later''
                               else ''OpenRouter unavailable; retry later''))))))) "

definition repository_credential ::
  "'p lifecycle_env \<Rightarrow> TaskRecord \<Rightarrow> error + (string \<times> string) option" where
  "repository_credential env task =
     (case (tr_owner_id task, tr_repository task) of
        (Some owner, Some repository) \<Rightarrow>
          (case le_authorize env of
             None \<Rightarrow> Inl (CredentialUnavailableError ''GitHub repository authorization unavailable'')
           | Some authorize \<Rightarrow>
               (case authorize owner repository (str_or (tr_base_ref task) []) of
                  Inl m \<Rightarrow> Inl (CredentialUnavailableError m)
                | Inr c \<Rightarrow> Inr (Some c)))
      | _ \<Rightarrow> Inr None)"

definition env_update :: "(string \<times> string) list \<Rightarrow> (string \<times> string) list \<Rightarrow> (string \<times> string) list" where
  "env_update kvs e = fold (\<lambda>(k, v). dict_put k v) kvs e"

definition sandbox_environment ::
  "'p lifecycle_env \<Rightarrow> TaskRecord \<Rightarrow> string option \<Rightarrow> string option \<Rightarrow> string \<Rightarrow> (string \<times> string) list option" where
  "sandbox_environment env task personal_key github_token session_api_key =
     (let e0 = env_update [(''GG_WORKSPACE_DIR'', ''/workspace/project''),
                  (''GG_CONVERSATIONS_DIR'', ''/workspace/conversations''),
                  (''GG_TASK_SUPERVISOR_DIR'', ''/workspace/task-supervisor'')] (le_sandbox_env env);
          finish = (\<lambda>e. dict_put ''GG_TASK_ID'' (tr_id task) (dict_put ''GG_SESSION_API_KEYS'' session_api_key e))
      in case tr_owner_id task of
           None \<Rightarrow> Some (finish e0)
         | Some _ \<Rightarrow>
             (let e1 = fold dict_pop [''OPENROUTER_API_KEY'', ''GG_GITHUB_CLONE_TOKEN'', ''GH_TOKEN'',
                         ''GITHUB_TOKEN'', ''GG_PI_OWNS_PUBLICATION''] e0
              in case personal_key of
                   None \<Rightarrow> None
                 | Some key \<Rightarrow>
                     (let e2 = dict_put ''OPENROUTER_API_KEY'' key e1
                      in Some (finish (case github_token of None \<Rightarrow> e2
                           | Some t \<Rightarrow> dict_put ''GG_GITHUB_CLONE_TOKEN'' t e2)))))"

text \<open>The first part of \<open>create\<close>: adopt a running sandbox, or make sure the earlier one is gone.\<close>

definition adopt_existing ::
  "'p lifecycle_env \<Rightarrow> string \<Rightarrow> ('p, SandboxSnapshot option \<times> SandboxCreationRecord option) life_op" where
  "adopt_existing env task_id =
     andThen (reading (\<lambda>w. get_sandbox_creation task_id (w_db w))) (\<lambda>existing.
     case existing of
       None \<Rightarrow> ret (None, None)
     | Some record \<Rightarrow>
         andThen (reconnect_record env record) (\<lambda>(s, _).
         if ss_state s = SP_RUNNING then ret (Some s, Some record)
         else if ss_state s \<noteq> SP_STOPPED
         then raise (AmbiguousProviderStateError (''sandbox creation for task '' @ task_id @ '' is unresolved''))
         else
           andThen (on_ledger (reset_sandbox_for_wake (le_now env) task_id)) (\<lambda>_.
           andThen (reading (\<lambda>w. get_sandbox_creation task_id (w_db w))) (\<lambda>again. ret (None, again)))))"

definition creation_intent ::
  "'p lifecycle_env \<Rightarrow> string \<Rightarrow> int option \<Rightarrow> SandboxCreationRecord option \<Rightarrow> ('p, SandboxCreationRecord) life_op" where
  "creation_intent env task_id version existing =
     (case existing of
        None \<Rightarrow>
          (let (name, tags) = sandbox_identity (le_digest env) (le_deployment env) task_id
           in andThen (on_ledger (begin_sandbox_creation (le_now env) task_id (le_deployment env) name
                (le_dumps env tags) (le_session_key env) version)) (\<lambda>(record, _). ret record))
      | Some _ \<Rightarrow> on_ledger (set_sandbox_credential_version task_id version))"

definition unresolved :: "'p lifecycle_env \<Rightarrow> string \<Rightarrow> string \<Rightarrow> string \<Rightarrow> ('p, 'a) life_op" where
  "unresolved env task_id detail message =
     andThen (set_provider_state env task_id None SP_UNKNOWN (Some detail)) (\<lambda>_.
     raise (AmbiguousProviderStateError message))"

definition launch ::
  "'p lifecycle_env \<Rightarrow> string \<Rightarrow> SandboxCreationRecord \<Rightarrow> (string \<times> string) list option \<Rightarrow> ('p, string) life_op" where
  "launch env task_id record sandbox_env =
     (let failed = (\<lambda>exc. unresolved env task_id (''create response unresolved: '' @ exc)
             (''Modal create response for task '' @ task_id @ '' was unresolved''))
      in case sandbox_env of
        None \<Rightarrow> failed ''AssertionError''
      | Some e \<Rightarrow>
          andThen (note_call (\<lambda>n. Create_call (sc_sandbox_name record) n e)) (\<lambda>_.
          andThen (on_provider (pv_create (le_provider env) (sc_sandbox_name record)
             (le_loads env (sc_tags_json record)) (sc_session_api_key record) e)) (\<lambda>answer.
          case answer of Inl exc \<Rightarrow> failed exc | Inr h \<Rightarrow> ret h)))"

definition create_new ::
  "'p lifecycle_env \<Rightarrow> TaskRecord \<Rightarrow> SandboxCreationRecord option \<Rightarrow> ('p, SandboxSnapshot) life_op" where
  "create_new env task existing =
     (let task_id = tr_id task in
      andThen (lift_sum (personal_credential env task)) (\<lambda>personal.
      andThen (lift_sum (repository_credential env task)) (\<lambda>github.
      andThen (case github of None \<Rightarrow> ret ()
               | Some (_, base_sha) \<Rightarrow>
                   andThen (on_ledger (record_base_sha (le_now env) task_id (Some base_sha))) (\<lambda>_. ret ())) (\<lambda>_.
      andThen (creation_intent env task_id (map_option snd personal) existing) (\<lambda>record.
      andThen (durable_barrier env) (\<lambda>_.
      andThen (launch env task_id record (sandbox_environment env task (map_option fst personal)
         (map_option fst github) (sc_session_api_key record))) (\<lambda>handle.
      andThen (set_provider_state env task_id (Some handle) SP_CREATING None) (\<lambda>record.
      andThen (durable_barrier env) (\<lambda>_.
      andThen (on_provider (pv_wait_until_ready (le_provider env) handle)) (\<lambda>ready.
      case ready of
        Inl exc \<Rightarrow> unresolved env task_id (''startup readiness unresolved: '' @ exc)
                     (''Modal startup for task '' @ task_id @ '' was unresolved'')
      | Inr _ \<Rightarrow>
          andThen (set_provider_state env task_id None SP_RUNNING None) (\<lambda>_.
          ret \<lparr>ss_task_id = task_id, ss_provider_id = sc_provider_id record, ss_state = SP_RUNNING,
               ss_detail = None\<rparr>)))))))))))"

definition create :: "'p lifecycle_env \<Rightarrow> string \<Rightarrow> ('p, SandboxSnapshot) life_op" where
  "create env task_id =
     andThen (durable_barrier env) (\<lambda>_.
     andThen (reading (\<lambda>w. get_task task_id None (w_db w))) (\<lambda>task.
     case task of
       None \<Rightarrow> raise (ModalLifecycleError ''task not found'')
     | Some t \<Rightarrow>
         andThen (adopt_existing env task_id) (\<lambda>(running, existing).
         case running of Some s \<Rightarrow> ret s | None \<Rightarrow> create_new env t existing)))"

section \<open>Connection, health, detachment and termination\<close>

record SandboxConnection =
  cn_base_url :: string
  cn_connect_token :: string
  cn_session_api_key :: string

definition new_connection :: "string \<Rightarrow> string \<Rightarrow> string \<Rightarrow> error + SandboxConnection" where
  "new_connection url token key =
     (if \<not> prefix ''https://'' url then Inl (ModalLifecycleError ''Modal connect URL must use encrypted HTTPS'')
      else Inr \<lparr>cn_base_url = url, cn_connect_token = token, cn_session_api_key = key\<rparr>)"

text \<open>\<open>context\<close> stands for \<open>logfire.get_context()\<close>.\<close>

definition connection_headers :: "(string \<times> string) list \<Rightarrow> SandboxConnection \<Rightarrow> (string \<times> string) list" where
  "connection_headers context c = env_update context
     [(''Authorization'', ''Bearer '' @ cn_connect_token c), (''X-Session-API-Key'', cn_session_api_key c)]"

text \<open>\<open>s.replace(old, new, 1)\<close>.\<close>

fun replace_first :: "string \<Rightarrow> string \<Rightarrow> string \<Rightarrow> string" where
  "replace_first old new [] = (if old = [] then new else [])"
| "replace_first old new (c # s) =
     (if prefix old (c # s) then new @ drop (length old) (c # s) else c # replace_first old new s)"

definition websocket_target ::
  "(string \<times> string) list \<Rightarrow> SandboxConnection \<Rightarrow> string \<Rightarrow> string \<times> (string \<times> string) list" where
  "websocket_target context c path =
     (let slash = (\<lambda>x. x = CHR ''/'');
          normalized = ''/'' @ dropWhile slash path;
          url = replace_first ''https://'' ''wss://'' (rev (dropWhile slash (rev (cn_base_url c))))
      in (url @ normalized, connection_headers context c))"

definition websocket_auth_frame :: "SandboxConnection \<Rightarrow> (string \<times> string) list" where
  "websocket_auth_frame c = [(''type'', ''auth''), (''session_api_key'', cn_session_api_key c)]"

definition connect :: "'p lifecycle_env \<Rightarrow> string \<Rightarrow> ('p, SandboxConnection) life_op" where
  "connect env task_id =
     andThen (creation_record task_id) (\<lambda>r.
     andThen (reconnect_record env r) (\<lambda>(s, handle).
     case (ss_state s, handle) of
       (SP_RUNNING, Some h) \<Rightarrow>
         andThen (on_provider (pv_connect_token (le_provider env) h)) (\<lambda>answer.
         case answer of
           Inl exc \<Rightarrow> unresolved env task_id (''connect request failed: '' @ exc)
                        (''sandbox connection for task '' @ task_id @ '' is unreachable'')
         | Inr (url, token) \<Rightarrow> lift_sum (new_connection url token (sc_session_api_key r)))
     | _ \<Rightarrow> raise (ModalLifecycleError (''sandbox for task '' @ task_id @ '' is not confirmed running''))))"

text \<open>\<open>GET /health\<close> over the connection; an HTTP error or an ambiguous connection is not termination.\<close>

definition health :: "'p lifecycle_env \<Rightarrow> string \<Rightarrow> ('p, SandboxSnapshot) life_op" where
  "health env task_id =
     andThen (catch (andThen (connect env task_id) (\<lambda>c.
         andThen (on_provider (pv_health (le_provider env) (cn_base_url c))) (\<lambda>answer.
         ret (case answer of Inl exc \<Rightarrow> Some exc | Inr _ \<Rightarrow> None))))
       (\<lambda>e. case e of AmbiguousProviderStateError _ \<Rightarrow> ret (Some ''AmbiguousProviderStateError'') | _ \<Rightarrow> raise e)) (\<lambda>failed.
     andThen (case failed of
         Some exc \<Rightarrow> set_provider_state env task_id None SP_UNKNOWN (Some (''health request failed: '' @ exc))
       | None \<Rightarrow> set_provider_state env task_id None SP_RUNNING None) (\<lambda>updated.
     ret (snapshot updated)))"

definition detach :: "'p lifecycle_env \<Rightarrow> string \<Rightarrow> ('p, SandboxSnapshot) life_op" where
  "detach env task_id =
     andThen (creation_record task_id) (\<lambda>r.
     andThen (reconnect_record env r) (\<lambda>(s, handle).
     case handle of
       None \<Rightarrow> ret s
     | Some h \<Rightarrow>
         andThen (on_provider (pv_detach (le_provider env) h)) (\<lambda>answer.
         case answer of
           Inl exc \<Rightarrow> unresolved env task_id (''detach failed: '' @ exc)
                        (''sandbox detach for task '' @ task_id @ '' was unresolved'')
         | Inr _ \<Rightarrow> ret s)))"

text \<open>\<open>type(exc).__name__\<close>; the errors of the HTTP library and of the provider carry their class name.\<close>

fun error_name :: "error \<Rightarrow> string" where
  "error_name (KeyError _) = ''KeyError''"
| "error_name (ValueError _) = ''ValueError''"
| "error_name (RuntimeError _) = ''RuntimeError''"
| "error_name AssertionError = ''AssertionError''"
| "error_name AttributeError = ''AttributeError''"
| "error_name (IntegrityError _) = ''IntegrityError''"
| "error_name NotAuthorized = ''DatabaseError''"
| "error_name (ModalLifecycleError _) = ''ModalLifecycleError''"
| "error_name (AmbiguousProviderStateError _) = ''AmbiguousProviderStateError''"
| "error_name (SandboxNotFoundError _) = ''SandboxNotFoundError''"
| "error_name (ConflictingSandboxesError _) = ''ConflictingSandboxesError''"
| "error_name (PublicationIdentityError _) = ''PublicationIdentityError''"
| "error_name (SupervisionIdentityError _) = ''SupervisionIdentityError''"
| "error_name (TaskConflictError _) = ''TaskConflictError''"
| "error_name (TaskValidationError _) = ''TaskValidationError''"
| "error_name (TaskControlError _) = ''TaskControlError''"
| "error_name (StoragePressureError _) = ''StoragePressureError''"
| "error_name (CredentialUnavailableError _) = ''CredentialUnavailableError''"
| "error_name (RepositoryAccessError _) = ''RepositoryAccessError''"
| "error_name (HTTPStatusError _ _) = ''HTTPStatusError''"
| "error_name PersistenceUnavailable = ''PersistenceUnavailable''"
| "error_name ValidationError = ''ValidationError''"
| "error_name (HTTPTransportError n) = n"
| "error_name (ProviderError n) = n"

definition terminate :: "'p lifecycle_env \<Rightarrow> string \<Rightarrow> ('p, SandboxSnapshot) life_op" where
  "terminate env task_id =
     andThen (durable_barrier env) (\<lambda>_.
     andThen (creation_record task_id) (\<lambda>r.
     andThen (reconnect_record env r) (\<lambda>(s, handle).
     if ss_state s = SP_STOPPED then ret s
     else case handle of
       None \<Rightarrow> raise (AmbiguousProviderStateError
                 (''sandbox termination for task '' @ task_id @ '' cannot be confirmed''))
     | Some h \<Rightarrow>
         (let failed = (\<lambda>exc. unresolved env task_id (''termination response unresolved: '' @ exc)
                (''Modal termination for task '' @ task_id @ '' was unresolved''))
          in andThen (note_call (Terminate_call h)) (\<lambda>_.
             andThen (on_provider (pv_terminate (le_provider env) h)) (\<lambda>answer.
             case answer of
               Inl exc \<Rightarrow> failed exc
             | Inr _ \<Rightarrow> catch (inspect env task_id) (\<lambda>e. failed (error_name e))))))))"

definition sync :: "'p lifecycle_env \<Rightarrow> string \<Rightarrow> ('p, unit) life_op" where
  "sync env task_id =
     andThen (durable_barrier env) (\<lambda>_.
     andThen (creation_record task_id) (\<lambda>r.
     andThen (reconnect_record env r) (\<lambda>(s, handle).
     case (ss_state s, handle) of
       (SP_RUNNING, Some h) \<Rightarrow>
         andThen (on_provider (pv_sync (le_provider env) h)) lift_sum
     | _ \<Rightarrow> raise (ModalLifecycleError ''workspace sandbox is not running''))))"

definition delete_workspace :: "'p lifecycle_env \<Rightarrow> string \<Rightarrow> ('p, unit) life_op" where
  "delete_workspace env task_id =
     andThen (durable_barrier env) (\<lambda>_.
     andThen (on_provider (pv_delete_workspace (le_provider env) task_id)) lift_sum)"

section \<open>Interface to the ledger\<close>

text \<open>A relation between databases, read between worlds.\<close>

definition between :: "(database \<Rightarrow> database \<Rightarrow> bool) \<Rightarrow> 'p world \<Rightarrow> 'p world \<Rightarrow> bool" where
  "between R w w' \<longleftrightarrow> R (w_db w) (w_db w')"

text \<open>
  What the lifecycle relies on: a relation that the five ledger methods it calls keep.  Every
  operation of the lifecycle then keeps it, whatever the provider answers.
\<close>

locale lifecycle_relation = kept_relation R for R :: "database \<Rightarrow> database \<Rightarrow> bool" +
  assumes kept_update: "keeps R (update_sandbox_creation now i pid st det)"
    and kept_begin: "keeps R (begin_sandbox_creation now i dep n tg k v)"
    and kept_version: "keeps R (set_sandbox_credential_version i v)"
    and kept_reset: "keeps R (reset_sandbox_for_wake now i)"
    and kept_base_sha: "keeps R (record_base_sha now i sha)"
begin

sublocale worlds: kept_relation "between R"
  by unfold_locales (auto simp: between_def intro: kept_refl kept_trans)

lemma kept_on_ledger: "keeps R m \<Longrightarrow> keeps (between R) (on_ledger m)"
  by (simp add: keeps_def between_def on_ledger_def split_beta Let_def)

lemma kept_on_provider: "keeps (between R) (on_provider f)"
  by (simp add: keeps_def between_def on_provider_def split_beta Let_def kept_refl)

lemma kept_note: "keeps (between R) (note_call c)"
  by (simp add: keeps_def between_def note_call_def kept_refl)

lemma kept_durable: "keeps (between R) (durable_barrier env)"
  by (auto simp: keeps_def between_def durable_barrier_def kept_refl split: prod.splits sum.splits)

lemma kept_record: "keeps (between R) (creation_record i)"
  by (auto simp: keeps_def between_def creation_record_def kept_refl split: option.splits)

lemma kept_set_state: "keeps (between R) (set_provider_state env i pid st det)"
  unfolding set_provider_state_def by (intro kept_on_ledger kept_update)

lemma kept_lift_sum: "keeps (between R) (lift_sum x)"
  by (auto simp: lift_sum_def worlds.keeps_ret worlds.keeps_raise split: sum.splits)

lemma kept_unresolved: "keeps (between R) (unresolved env i det m)"
  unfolding unresolved_def by (intro worlds.keeps_andThen kept_set_state worlds.keeps_raise)

lemmas basics = worlds.keeps_rules kept_on_provider kept_note kept_durable kept_record kept_set_state
  kept_lift_sum kept_unresolved

lemma kept_poll: "keeps (between R) (poll_handle env i h)"
  unfolding poll_handle_def by (intro worlds.keeps_andThen) (auto intro: basics split: sum.splits option.splits)

lemma kept_reconnect: "keeps (between R) (reconnect_record env r)"
  unfolding reconnect_record_def Let_def
  by (auto intro!: basics kept_poll split: option.splits lookup.splits sum.splits list.splits)

lemma kept_inspect: "keeps (between R) (inspect env i)"
  unfolding inspect_def by (intro worlds.keeps_andThen kept_record kept_reconnect) (auto intro: basics split: prod.splits)

lemma kept_adopt: "keeps (between R) (adopt_existing env i)"
  unfolding adopt_existing_def
  by (auto intro!: basics kept_reconnect kept_on_ledger kept_reset split: option.splits prod.splits)

lemma kept_intent: "keeps (between R) (creation_intent env i v ex)"
  unfolding creation_intent_def
  by (auto intro!: basics kept_on_ledger kept_begin kept_version split: option.splits prod.splits)

lemma kept_launch: "keeps (between R) (launch env i r e)"
  unfolding launch_def Let_def by (auto intro!: basics split: option.splits sum.splits)

lemma kept_create_new: "keeps (between R) (create_new env t ex)"
  unfolding create_new_def Let_def
  by (auto intro!: basics kept_intent kept_launch kept_on_ledger kept_base_sha split: option.splits sum.splits prod.splits)

lemma kept_create: "keeps (between R) (create env i)"
  unfolding create_def
  by (auto intro!: basics kept_adopt kept_create_new split: option.splits prod.splits)

lemma kept_connect: "keeps (between R) (connect env i)"
  unfolding connect_def
  by (auto intro!: basics kept_reconnect split: option.splits prod.splits SandboxProviderState.splits sum.splits)

lemma kept_health: "keeps (between R) (health env i)"
  unfolding health_def
  by (auto intro!: basics kept_connect split: option.splits sum.splits error.splits)

lemma kept_detach: "keeps (between R) (detach env i)"
  unfolding detach_def by (auto intro!: basics kept_reconnect split: option.splits prod.splits sum.splits)

lemma kept_terminate: "keeps (between R) (terminate env i)"
  unfolding terminate_def Let_def
  by (auto intro!: basics kept_reconnect kept_inspect split: option.splits prod.splits sum.splits)

lemma kept_sync: "keeps (between R) (sync env i)"
  unfolding sync_def
  by (auto intro!: basics kept_reconnect split: option.splits prod.splits SandboxProviderState.splits)

lemma kept_delete: "keeps (between R) (delete_workspace env i)"
  unfolding delete_workspace_def by (intro basics)

end

end
