(* ===== verification/Lifecycle_Props.thy ===== *)
theory Lifecycle_Props
  imports Lifecycle Ledger_Props
begin

text \<open>
  What the sandbox lifecycle guarantees: absence is believed only when the provider confirmed it, a
  sandbox is created only behind a durable intent and never beside one that may exist, and the
  environment of an owned task carries its owner's credentials only.  The two interpretations
  say that every operation is a history of the ledger and never puts a task back into the queue.
\<close>

section \<open>Interpretations\<close>

lemma step_kept: "(\<And>d. ledger_step cap d (snd (m d))) \<Longrightarrow> keeps (ledger_step cap)\<^sup>*\<^sup>* m"
  by (rule keepsI) (simp add: r_into_rtranclp)

interpretation life_history: lifecycle_relation "(ledger_step cap)\<^sup>*\<^sup>*" for cap
proof (unfold_locales, goal_cases)
  case (2 s t u)
  then show ?case by (rule rtranclp_trans)
qed (auto intro!: step_kept ledger_step.intros)

definition no_requeue :: "database \<Rightarrow> database \<Rightarrow> bool" where
  "no_requeue d d' \<longleftrightarrow> frame d d' \<and> count_queued d' \<le> count_queued d"

interpretation queue_kept: transactional_relation no_requeue
  by unfold_locales (auto simp: no_requeue_def count_queued_def intro: framed.kept_refl framed.kept_trans framed.revision_blind)

lemma rowcount_update_le: "(\<And>r. P (f r) \<Longrightarrow> P r) \<Longrightarrow> rowcount P (sql_update Q f t) \<le> rowcount P t"
  by (induction t) auto

lemma no_requeue_same:
  "tasks d' = tasks d \<Longrightarrow> task_idempotency d' = task_idempotency d \<Longrightarrow>
   task_reservations d' = task_reservations d \<Longrightarrow> no_requeue d d'"
  by (simp add: no_requeue_def count_queued_def frame_same)

lemma no_requeue_update:
  assumes "tasks d' = sql_update Q f (tasks d)" "\<And>r. task_ident (f r) = task_ident r"
    "\<And>r. t_state (f r) = TS_QUEUED \<Longrightarrow> t_state r = TS_QUEUED"
    "task_idempotency d' = task_idempotency d" "length (task_reservations d') \<le> length (task_reservations d)"
  shows "no_requeue d d'"
  using assms rowcount_update_le [of "\<lambda>r. t_state r = TS_QUEUED" f Q "tasks d"]
  by (auto simp: no_requeue_def count_queued_def intro!: frameI)

named_theorems queue_rules \<open>the methods that do not put a task back into the queue\<close>

lemma update_sandbox_creation_queue [queue_rules]: "keeps no_requeue (update_sandbox_creation now i pid st det)"
  unfolding update_sandbox_creation_def
  by (rule queue_kept.keeps_andThen, rule queue_kept.keeps_db_write_skip, rule no_requeue_same)
    (auto simp: Let_def queue_kept.keeps_rules split: option.splits)

lemma begin_sandbox_creation_queue [queue_rules]: "keeps no_requeue (begin_sandbox_creation now i dep n tg k v)"
  unfolding begin_sandbox_creation_def insert_creation_def
  by (rule queue_kept.keeps_db_write, rule no_requeue_same)
    (auto simp del: exists_row_iff split: if_splits option.splits)

lemma set_sandbox_credential_version_queue [queue_rules]: "keeps no_requeue (set_sandbox_credential_version i v)"
  unfolding set_sandbox_credential_version_def
  by (rule queue_kept.keeps_andThen, rule queue_kept.keeps_db_write, rule no_requeue_same)
    (auto simp: Let_def queue_kept.keeps_rules split: if_splits option.splits)

lemma reset_sandbox_for_wake_queue [queue_rules]: "keeps no_requeue (reset_sandbox_for_wake now i)"
  unfolding reset_sandbox_for_wake_def by (rule queue_kept.keeps_db_write, rule no_requeue_same) auto

lemma record_base_sha_queue [queue_rules]: "keeps no_requeue (record_base_sha now i sha)"
  unfolding record_base_sha_def
  by (rule queue_kept.keeps_db_write,
      rule no_requeue_update [where Q = "\<lambda>r. t_id r = i" and f = "\<lambda>r. r\<lparr>t_base_sha := sha, t_updated_at := now\<rparr>"])
    (auto simp: Let_def split: if_splits option.splits)

interpretation life_queue: lifecycle_relation no_requeue
  by unfold_locales (rule update_sandbox_creation_queue begin_sandbox_creation_queue
    set_sandbox_credential_version_queue reset_sandbox_for_wake_queue record_base_sha_queue)+

section \<open>Provider states are persisted\<close>

lemma update_creation_result:
  assumes "update_sandbox_creation now i pid st det d = (x, d')"
  shows "case x of Inr c \<Rightarrow> sc_task_id c = i \<and> sc_provider_state c = st \<and> sc_detail c = det \<and>
      (pid \<noteq> None \<longrightarrow> sc_provider_id c = pid) \<and> get_sandbox_creation i d' = Some c
    | Inl _ \<Rightarrow> get_sandbox_creation i d = None"
proof -
  let ?P = "creation_changes i pid st det"
  let ?f = "\<lambda>r. r\<lparr>sc_provider_id := coalesce pid (sc_provider_id r), sc_provider_state := st, sc_detail := det, sc_updated_at := now\<rparr>"
  let ?t = "sql_update ?P ?f (sandbox_creations d)"
  have f: "fetchone (\<lambda>r. sc_task_id r = i) ?t =
      map_option (\<lambda>r. if ?P r then ?f r else r) (fetchone (\<lambda>r. sc_task_id r = i) (sandbox_creations d))"
    by (rule fetchone_update) simp
  have g: "fst (update_sandbox_creation now i pid st det d) =
      (case fetchone (\<lambda>r. sc_task_id r = i) ?t of
         None \<Rightarrow> Inl (KeyError (''no sandbox creation intent for task '' @ i)) | Some r \<Rightarrow> Inr r)"
    "sandbox_creations (snd (update_sandbox_creation now i pid st det d)) = ?t"
    by (auto simp: update_sandbox_creation_def io_simps db_write_skip_def Let_def split: option.splits)
  show ?thesis
  proof (cases "fetchone (\<lambda>r. sc_task_id r = i) (sandbox_creations d)")
    case None
    then show ?thesis using assms f g(1) by (simp add: get_sandbox_creation_def)
  next
    case (Some r)
    then have i: "sc_task_id r = i" by (auto dest: fetchone_SomeD)
    have "x = Inr (if ?P r then ?f r else r)" using assms f g(1) Some by simp
    moreover have "get_sandbox_creation i d' = Some (if ?P r then ?f r else r)"
      using assms f g(2) Some by (auto simp: get_sandbox_creation_def)
    ultimately show ?thesis using i by (auto simp: creation_changes_def coalesce_def split: option.splits)
  qed
qed

text \<open>What the world looks like after the state of a creation was written.\<close>

lemma set_state_result:
  assumes "set_provider_state env i pid st det w = (x, w')"
  shows "w_prov w' = w_prov w" "w_trace w' = w_trace w"
    "\<And>c. x = Inr c \<Longrightarrow> sc_provider_state c = st \<and> sc_detail c = det \<and> get_sandbox_creation i (w_db w') = Some c"
  using assms update_creation_result [of "le_now env" i pid st det "w_db w" x "w_db w'"]
  by (auto simp: set_provider_state_def on_ledger_def split_beta Let_def prod_eq_iff)

text \<open>
  What the provider answers when asked about a creation: it confirms that the sandbox is gone, that
  it runs, or neither.
\<close>

definition lookup_answer :: "'p lifecycle_env \<Rightarrow> SandboxCreationRecord \<Rightarrow> 'p \<Rightarrow> string lookup \<times> 'p" where
  "lookup_answer env r p =
     (case sc_provider_id r of
        Some pid \<Rightarrow> pv_from_id (le_provider env) pid p
      | None \<Rightarrow>
          (case pv_find (le_provider env) (le_loads env (sc_tags_json r)) p of
             (Inl exc, p') \<Rightarrow> (Lookup_failed exc, p')
           | (Inr [], p') \<Rightarrow> (Not_found, p')
           | (Inr [h], p') \<Rightarrow> (Found h, p')
           | (Inr (_ # _ # _), p') \<Rightarrow> (Lookup_failed ''conflict'', p')))"

definition confirmed_state :: "'p lifecycle_env \<Rightarrow> SandboxCreationRecord \<Rightarrow> 'p \<Rightarrow> SandboxProviderState" where
  "confirmed_state env r p =
     (case lookup_answer env r p of
        (Not_found, _) \<Rightarrow> SP_STOPPED
      | (Lookup_failed _, _) \<Rightarrow> SP_UNKNOWN
      | (Found h, p') \<Rightarrow>
          (case fst (pv_poll (le_provider env) h p') of
             Inl _ \<Rightarrow> SP_UNKNOWN | Inr None \<Rightarrow> SP_RUNNING | Inr (Some _) \<Rightarrow> SP_STOPPED))"

lemma poll_handle_result:
  assumes "poll_handle env i h w = (Inr (s, hd1), w')"
  shows "ss_state s = (case fst (pv_poll (le_provider env) h (w_prov w)) of
      Inl _ \<Rightarrow> SP_UNKNOWN | Inr None \<Rightarrow> SP_RUNNING | Inr (Some _) \<Rightarrow> SP_STOPPED) \<and>
    hd1 = Some h \<and> (\<exists>c. get_sandbox_creation i (w_db w') = Some c \<and> snapshot c = s)"
proof -
  obtain a p where a: "pv_poll (le_provider env) h (w_prov w) = (a, p)" by (cases "pv_poll (le_provider env) h (w_prov w)")
  let ?w = "w\<lparr>w_prov := p\<rparr>"
  define st where "st = (case a of Inl _ \<Rightarrow> SP_UNKNOWN | Inr None \<Rightarrow> SP_RUNNING | Inr (Some _) \<Rightarrow> SP_STOPPED)"
  define det where "det = (case a of Inl exc \<Rightarrow> Some (''provider status failed: '' @ exc) | Inr None \<Rightarrow> None
    | Inr (Some code) \<Rightarrow> Some (''provider exit code '' @ show_int code))"
  have e: "poll_handle env i h w =
      andThen (set_provider_state env i None st det) (\<lambda>u. ret (snapshot u, Some h)) ?w"
    by (simp add: poll_handle_def andThen_def [of "on_provider _"] on_provider_def a st_def det_def
        split: sum.splits option.splits)
  then obtain c where c: "set_provider_state env i None st det ?w = (Inr c, w')" "s = snapshot c" "hd1 = Some h"
    using assms by (cases "set_provider_state env i None st det ?w") (auto simp: andThen_def ret_def split: sum.splits)
  from set_state_result(3) [OF c(1) refl] c(2,3) show ?thesis by (auto simp: a st_def snapshot_def)
qed

lemma give_up_result:
  assumes "andThen (set_provider_state env i None st (Some det)) (\<lambda>u. ret (snapshot u, None)) w = (Inr (s, h), w')"
  shows "ss_state s = st \<and> h = None \<and> (\<exists>c. get_sandbox_creation i (w_db w') = Some c \<and> snapshot c = s)"
proof -
  obtain x w1 where x: "set_provider_state env i None st (Some det) w = (x, w1)" by (cases "set_provider_state env i None st (Some det) w")
  with assms obtain c where "x = Inr c" "s = snapshot c" "h = None" "w' = w1"
    by (cases x) (auto simp: andThen_def ret_def)
  with set_state_result(3) [OF x] show ?thesis by (auto simp: snapshot_def)
qed

lemma reconnect_result:
  assumes "reconnect_record env r w = (Inr (s, h), w')"
  shows "ss_state s = confirmed_state env r (w_prov w) \<and>
    (\<exists>c. get_sandbox_creation (sc_task_id r) (w_db w') = Some c \<and> snapshot c = s)"
proof (cases "sc_provider_id r")
  case (Some pid)
  obtain a p where a: "pv_from_id (le_provider env) pid (w_prov w) = (a, p)" by (cases "pv_from_id (le_provider env) pid (w_prov w)")
  show ?thesis
  proof (cases a)
    case (Found h0)
    then have "poll_handle env (sc_task_id r) h0 (w\<lparr>w_prov := p\<rparr>) = (Inr (s, h), w')"
      using assms Some a by (simp add: reconnect_record_def Let_def andThen_def on_provider_def)
    from poll_handle_result [OF this] show ?thesis using Some a Found
      by (simp add: confirmed_state_def lookup_answer_def)
  next
    case Not_found
    then show ?thesis using assms Some a
      by (auto simp: reconnect_record_def Let_def andThen_def [of "on_provider _"] on_provider_def
          confirmed_state_def lookup_answer_def dest!: give_up_result)
  next
    case (Lookup_failed exc)
    then show ?thesis using assms Some a
      by (auto simp: reconnect_record_def Let_def andThen_def [of "on_provider _"] on_provider_def
          confirmed_state_def lookup_answer_def dest!: give_up_result)
  qed
next
  case None
  let ?tags = "le_loads env (sc_tags_json r)"
  obtain a p where a: "pv_find (le_provider env) ?tags (w_prov w) = (a, p)" by (cases "pv_find (le_provider env) ?tags (w_prov w)")
  let ?w = "w\<lparr>w_prov := p\<rparr>"
  note defs = reconnect_record_def Let_def andThen_def [of "on_provider _"] on_provider_def confirmed_state_def lookup_answer_def
  consider (failed) exc where "a = Inl exc" | (none) "a = Inr []" | (one) h0 where "a = Inr [h0]"
    | (many) x y zs where "a = Inr (x # y # zs)"
    by (cases a) (metis list.exhaust)+
  then show ?thesis
  proof cases
    case failed
    then show ?thesis using assms None a by (auto simp: defs dest!: give_up_result)
  next
    case none
    then show ?thesis using assms None a by (auto simp: defs dest!: give_up_result)
  next
    case many
    then show ?thesis using assms None a by (auto simp: defs andThen_def raise_def split: sum.splits prod.splits)
  next
    case one
    obtain x w1 where x: "set_provider_state env (sc_task_id r) (Some h0) SP_CREATING None ?w = (x, w1)"
      by (cases "set_provider_state env (sc_task_id r) (Some h0) SP_CREATING None ?w")
    then have "\<exists>c. x = Inr c \<and> poll_handle env (sc_task_id r) h0 w1 = (Inr (s, h), w')"
      using assms None a one by (cases x) (auto simp: defs andThen_def)
    with poll_handle_result [of env "sc_task_id r" h0 w1] set_state_result(1) [OF x] show ?thesis
      using None a one by (auto simp: confirmed_state_def lookup_answer_def)
  qed
qed

lemma inspect_result:
  assumes "inspect env task_id w = (Inr s, w')"
  shows "\<exists>r c. get_sandbox_creation task_id (w_db w) = Some r \<and>
    ss_state s = confirmed_state env r (w_prov w) \<and>
    get_sandbox_creation task_id (w_db w') = Some c \<and> snapshot c = s"
proof (cases "get_sandbox_creation task_id (w_db w)")
  case None
  then show ?thesis using assms by (simp add: inspect_def andThen_def creation_record_def)
next
  case (Some r)
  then have i: "sc_task_id r = task_id" by (auto simp: get_sandbox_creation_def dest: fetchone_SomeD)
  obtain h where "reconnect_record env r w = (Inr (s, h), w')"
    using assms Some by (auto simp: inspect_def andThen_def creation_record_def ret_def split: prod.splits sum.splits)
  from reconnect_result [OF this] Some i show ?thesis by auto
qed

lemma terminate_result:
  assumes "terminate env i w = (Inr s, w')" "ss_state s = SP_STOPPED"
  shows "\<exists>c. get_sandbox_creation i (w_db w') = Some c \<and> sc_provider_state c = SP_STOPPED"
proof -
  have "(\<exists>r w1 h. get_sandbox_creation i (w_db w1) = Some r \<and> reconnect_record env r w1 = (Inr (s, h), w')) \<or>
      (\<exists>w3. inspect env i w3 = (Inr s, w'))"
    using assms(1)
    by (auto simp: terminate_def andThen_def creation_record_def ret_def raise_def Let_def catch_def unresolved_def
        split: prod.splits sum.splits option.splits if_splits)
  then show ?thesis
  proof (elim disjE exE conjE)
    fix r w1 h
    assume r: "get_sandbox_creation i (w_db w1) = Some r" "reconnect_record env r w1 = (Inr (s, h), w')"
    then have "sc_task_id r = i" by (auto simp: get_sandbox_creation_def dest: fetchone_SomeD)
    with reconnect_result [OF r(2)] assms(2) show ?thesis by (auto simp: snapshot_def)
  next
    fix w3
    assume "inspect env i w3 = (Inr s, w')"
    from inspect_result [OF this] assms(2) show ?thesis by (auto simp: snapshot_def)
  qed
qed

lemma detach_result:
  assumes "detach env i w = (Inr s, w')" "ss_state s = SP_STOPPED"
  shows "\<exists>c. get_sandbox_creation i (w_db w') = Some c \<and> sc_provider_state c = SP_STOPPED"
proof -
  obtain r w1 h w2 where r: "get_sandbox_creation i (w_db w1) = Some r" "reconnect_record env r w1 = (Inr (s, h), w2)"
    and d: "w_db w2 = w_db w'"
    using assms(1)
    by (auto simp: detach_def andThen_def creation_record_def ret_def raise_def on_provider_def unresolved_def
        split: prod.splits sum.splits option.splits if_splits)
  have i: "sc_task_id r = i" using r(1) by (auto simp: get_sandbox_creation_def dest: fetchone_SomeD)
  from reconnect_result [OF r(2)] i assms(2) d show ?thesis by (auto simp: snapshot_def)
qed

text \<open>
  Absence is believed only when the provider confirmed it.  A reconnection that returns reports and
  persists exactly what the provider established: stopped only after a definite not-found, an empty
  listing of the identity or an exit code, running only after a successful poll, and
  unknown whenever a call failed; several sandboxes with the identity are never resolved silently.
\<close>

lemma reconnect_reports_confirmed_state:
  assumes "inspect env task_id w = (Inr s, w')"
  shows "\<exists>r c. get_sandbox_creation task_id (w_db w) = Some r \<and>
    ss_state s = confirmed_state env r (w_prov w) \<and>
    get_sandbox_creation task_id (w_db w') = Some c \<and> snapshot c = s"
  using assms by (rule inspect_result)

text \<open>A task with an unconfirmed creation, and a provider that knows no sandbox but can create one.\<close>

definition sample_provider :: "unit provider" where
  "sample_provider = \<lparr>pv_create = (\<lambda>_ _ _ _ p. (Inr ''sb-1'', p)), pv_from_id = (\<lambda>_ p. (Not_found, p)),
     pv_find = (\<lambda>_ p. (Inr [], p)), pv_poll = (\<lambda>_ p. (Inr None, p)), pv_wait_until_ready = (\<lambda>_ p. (Inr (), p)),
     pv_connect_token = (\<lambda>_ p. (Inl ''TimeoutError'', p)), pv_health = (\<lambda>_ p. (Inr (), p)),
     pv_terminate = (\<lambda>_ p. (Inr (), p)), pv_sync = (\<lambda>_ p. (Inr (), p)),
     pv_delete_workspace = (\<lambda>_ p. (Inr (), p)), pv_detach = (\<lambda>_ p. (Inr (), p))\<rparr>"

definition sample_life_env :: "unit lifecycle_env" where
  "sample_life_env = \<lparr>le_provider = sample_provider, le_now = 9, le_deployment = ''prod'',
     le_sandbox_env = [(''GITHUB_TOKEN'', ''shared'')], le_durable = (\<lambda>_ p. (Inr (), p)), le_vault = None,
     le_verify = None, le_authorize = None, le_session_key = ''key'', le_digest = (\<lambda>x. x),
     le_dumps = (\<lambda>_. []), le_loads = (\<lambda>_. [])\<rparr>"

definition sample_world :: "unit world" where
  "sample_world = \<lparr>w_db = sample_reserved\<lparr>sandbox_creations :=
       [\<lparr>sc_task_id = ''t1'', sc_deployment = ''prod'', sc_sandbox_name = ''gg-prod-t1'', sc_tags_json = [],
         sc_session_api_key = ''key'', sc_credential_version = None, sc_provider_id = None,
         sc_provider_state = SP_CREATING, sc_detail = None, sc_created_at = 7, sc_updated_at = 7\<rparr>]\<rparr>,
     w_prov = (), w_trace = []\<rparr>"

lemmas sample_life = sample_provider_def sample_life_env_def sample_world_def sample_reserved_eq empty_database_def
lemmas life_eval = on_ledger_def on_provider_def set_provider_state_def andThen_def ret_def raise_def Let_def
  get_sandbox_creation_def creation_record_def snapshot_def update_sandbox_creation_def db_write_skip_def
  creation_changes_def coalesce_def reconnect_record_def poll_handle_def

lemma reconnect_reports_confirmed_state_witness:
  "\<exists>s w'. inspect sample_life_env ''t1'' sample_world = (Inr s, w') \<and>
     (\<exists>c. get_sandbox_creation ''t1'' (w_db w') = Some c \<and> snapshot c = s)"
proof -
  have "\<exists>s w'. inspect sample_life_env ''t1'' sample_world = (Inr s, w')"
    by (simp add: inspect_def life_eval sample_life)
  then obtain s w' where "inspect sample_life_env ''t1'' sample_world = (Inr s, w')" by auto
  with reconnect_reports_confirmed_state [OF this] show ?thesis by auto
qed

section \<open>Creation calls\<close>

fun is_create :: "call \<Rightarrow> bool" where
  "is_create (Create_call _ _ _) = True"
| "is_create _ = False"

text \<open>Every creation call directly follows a durability barrier at the same database revision.\<close>

fun intent_first :: "call option \<Rightarrow> call list \<Rightarrow> bool" where
  "intent_first prev [] = True"
| "intent_first prev (c # cs) =
     ((case c of Create_call _ n _ \<Rightarrow> prev = Some (Durable n) | _ \<Rightarrow> True) \<and> intent_first (Some c) cs)"

lemma intent_first_append:
  "intent_first prev (cs @ [c]) \<longleftrightarrow> intent_first prev cs \<and>
     (case c of Create_call _ n _ \<Rightarrow> (if cs = [] then prev else Some (last cs)) = Some (Durable n) | _ \<Rightarrow> True)"
  by (induction cs arbitrary: prev) (auto split: call.splits)

definition trace_rel :: "'p world \<Rightarrow> 'p world \<Rightarrow> bool" where
  "trace_rel w w' \<longleftrightarrow> (intent_first None (w_trace w) \<longrightarrow> intent_first None (w_trace w'))"

definition creates :: "'p world \<Rightarrow> call list" where
  "creates w = filter is_create (w_trace w)"

definition same_creates :: "'p world \<Rightarrow> 'p world \<Rightarrow> bool" where
  "same_creates w w' \<longleftrightarrow> creates w' = creates w \<and> trace_rel w w'"

interpretation same_creates: kept_relation same_creates
  by unfold_locales (auto simp: same_creates_def trace_rel_def)

text \<open>At most one creation call, and that behind a barrier.\<close>

definition one_create :: "'p world \<Rightarrow> 'p world \<Rightarrow> bool" where
  "one_create w w' \<longleftrightarrow> (creates w' = creates w \<or> (\<exists>c. creates w' = creates w @ [c])) \<and> trace_rel w w'"

lemma same_one: "same_creates w w' \<Longrightarrow> one_create w w'"
  by (simp add: same_creates_def one_create_def)

lemma same_then_one:
  "keeps same_creates m \<Longrightarrow> (\<And>x. keeps one_create (k x)) \<Longrightarrow> keeps one_create (andThen m k)"
proof (rule keepsI)
  fix w
  assume m: "keeps same_creates m" and k: "\<And>x. keeps one_create (k x)"
  have a: "same_creates w (snd (m w))" using m by (rule keepsD)
  show "one_create w (snd (andThen m k w))"
  proof (cases "fst (m w)")
    case (Inl e)
    then show ?thesis using same_one [OF a] by (simp add: io_simps)
  next
    case (Inr x)
    with keepsD [OF k, of "snd (m w)" x] a show ?thesis
      by (auto simp: io_simps one_create_def same_creates_def trace_rel_def)
  qed
qed

lemma one_then_same:
  "keeps one_create m \<Longrightarrow> (\<And>x. keeps same_creates (k x)) \<Longrightarrow> keeps one_create (andThen m k)"
proof (rule keepsI)
  fix w
  assume m: "keeps one_create m" and k: "\<And>x. keeps same_creates (k x)"
  have a: "one_create w (snd (m w))" using m by (rule keepsD)
  show "one_create w (snd (andThen m k w))"
  proof (cases "fst (m w)")
    case (Inl e)
    then show ?thesis using a by (simp add: io_simps)
  next
    case (Inr x)
    with keepsD [OF k, of "snd (m w)" x] a show ?thesis
      by (auto simp: io_simps one_create_def same_creates_def trace_rel_def)
  qed
qed

lemma same_trace: "(\<And>w. w_trace (snd (m w)) = w_trace w) \<Longrightarrow> keeps same_creates m"
  by (simp add: keeps_def same_creates_def creates_def trace_rel_def)

lemma quiet_basics:
  "keeps same_creates (on_ledger l)" "keeps same_creates (on_provider f)"
  "keeps same_creates (creation_record i)" "keeps same_creates (set_provider_state env i pid st det)"
  "keeps same_creates (lift_sum x)"
  by (auto intro!: same_trace simp: on_ledger_def on_provider_def creation_record_def set_provider_state_def lift_sum_def
      ret_def raise_def split_beta Let_def split: option.splits sum.splits)

lemma quiet_durable: "keeps same_creates (durable_barrier env)"
  by (auto simp: keeps_def same_creates_def creates_def trace_rel_def durable_barrier_def intent_first_append
      split: prod.splits sum.splits)

lemma quiet_unresolved: "keeps same_creates (unresolved env i det m)"
  unfolding unresolved_def by (intro same_creates.keeps_andThen quiet_basics same_creates.keeps_raise)

lemmas quiet = same_creates.keeps_rules quiet_basics quiet_durable quiet_unresolved

lemma quiet_reconnect: "keeps same_creates (reconnect_record env r)"
  unfolding reconnect_record_def poll_handle_def Let_def
  by (auto intro!: quiet split: option.splits lookup.splits sum.splits list.splits)

lemma quiet_intent: "keeps same_creates (creation_intent env i v ex)"
  unfolding creation_intent_def by (auto intro!: quiet split: option.splits prod.splits)

lemma launch_once: "keeps one_create (andThen (durable_barrier env) (\<lambda>_. launch env i r e))"
proof (rule keepsI)
  fix w :: "'a world"
  show "one_create w (snd (andThen (durable_barrier env) (\<lambda>_. launch env i r e) w))"
  proof (cases "durable_barrier env w")
    case (Pair x w1)
    show ?thesis
    proof (cases "x = Inr () \<and> e \<noteq> None")
      case False
      have none: "keeps same_creates (andThen (durable_barrier env) (\<lambda>_. launch env i r None))"
        unfolding launch_def Let_def by (auto intro!: quiet)
      have "same_creates w (snd (andThen (durable_barrier env) (\<lambda>_. launch env i r e) w))"
      proof (cases x)
        case (Inl err)
        then show ?thesis using Pair keepsD [OF quiet_durable, of w env] by (simp add: andThen_def)
      next
        case (Inr u)
        then show ?thesis using False keepsD [OF none, of w] by simp
      qed
      then show ?thesis by (rule same_one)
    next
      case True
      then obtain ev where e: "e = Some ev" by auto
      let ?c = "Create_call (sc_sandbox_name r) (revision (w_db w1)) ev"
      let ?w2 = "w1\<lparr>w_trace := w_trace w1 @ [?c]\<rparr>"
      have t: "w_trace w1 = w_trace w @ [Durable (revision (w_db w1))]"
        using Pair True by (auto simp: durable_barrier_def split: prod.splits sum.splits)
      let ?k = "andThen (on_provider (pv_create (le_provider env) (sc_sandbox_name r)
             (le_loads env (sc_tags_json r)) (sc_session_api_key r) ev)) (\<lambda>answer.
          case answer of Inl exc \<Rightarrow> unresolved env i (''create response unresolved: '' @ exc)
             (''Modal create response for task '' @ i @ '' was unresolved'') | Inr h \<Rightarrow> ret h)"
      have "snd (andThen (durable_barrier env) (\<lambda>_. launch env i r e) w) = snd (?k ?w2)"
        using Pair True e
        by (simp add: andThen_def [of "durable_barrier _"] andThen_def [of "note_call _"] launch_def Let_def note_call_def)
      moreover have "keeps same_creates ?k" by (auto intro!: quiet split: sum.splits)
      then have "same_creates ?w2 (snd (?k ?w2))" by (rule keepsD)
      moreover have "creates ?w2 = creates w @ [?c]" by (simp add: creates_def t)
      moreover have "trace_rel w ?w2"
        using intent_first_append [of None "w_trace w @ [Durable (revision (w_db w1))]" ?c]
        by (simp add: trace_rel_def t intent_first_append)
      ultimately show ?thesis by (auto simp: one_create_def same_creates_def trace_rel_def)
    qed
  qed
qed

lemma launch_then:
  assumes "\<And>h. keeps same_creates (k h)"
  shows "keeps one_create (andThen (durable_barrier env) (\<lambda>_. andThen (launch env i r e) k))"
  unfolding andThen_assoc by (rule one_then_same [OF launch_once assms])

lemma one_basics: "keeps one_create (raise e)" "keeps one_create (ret x)"
  by (auto intro: keeps_mono [OF _ same_one] quiet)

lemma create_new_once: "keeps one_create (create_new env t ex)"
proof -
  have tail: "keeps same_creates (andThen (set_provider_state env (tr_id t) (Some h) SP_CREATING None) (\<lambda>record.
      andThen (durable_barrier env) (\<lambda>_.
      andThen (on_provider (pv_wait_until_ready (le_provider env) h)) (\<lambda>ready.
      case ready of
        Inl exc \<Rightarrow> unresolved env (tr_id t) (''startup readiness unresolved: '' @ exc)
                     (''Modal startup for task '' @ tr_id t @ '' was unresolved'')
      | Inr _ \<Rightarrow>
          andThen (set_provider_state env (tr_id t) None SP_RUNNING None) (\<lambda>_.
          ret \<lparr>ss_task_id = tr_id t, ss_provider_id = sc_provider_id record, ss_state = SP_RUNNING,
               ss_detail = None\<rparr>)))))" for h
    by (auto intro!: quiet split: sum.splits)
  have head: "keeps same_creates (case github of None \<Rightarrow> ret ()
      | Some (_, base_sha) \<Rightarrow>
          andThen (on_ledger (record_base_sha (le_now env) (tr_id t) (Some base_sha))) (\<lambda>_. ret ()))" for github :: "(string \<times> string) option"
    by (auto intro!: quiet split: option.splits)
  show ?thesis
    unfolding create_new_def Let_def
    by (rule same_then_one [OF quiet_basics(5)], rule same_then_one [OF quiet_basics(5)],
        rule same_then_one [OF head], rule same_then_one [OF quiet_intent], rule launch_then, rule tail)
qed

lemma adopt_quiet: "keeps same_creates (adopt_existing env i)"
  unfolding adopt_existing_def
  by (auto intro!: quiet quiet_reconnect split: option.splits prod.splits)

lemma create_once: "keeps one_create (create env i)"
  unfolding create_def
  by (rule same_then_one [OF quiet_durable], rule same_then_one [OF same_creates.keeps_reading])
    (auto intro!: same_then_one [OF adopt_quiet] create_new_once one_basics split: option.splits prod.splits)

lemma durable_db: "w_db (snd (durable_barrier env w)) = w_db w"
  by (auto simp: durable_barrier_def split: prod.splits sum.splits)

lemma adopt_blocked:
  assumes "get_sandbox_creation i (w_db w) = Some r" "confirmed_state env r (w_prov w) \<noteq> SP_STOPPED"
  shows "case fst (adopt_existing env i w) of Inl _ \<Rightarrow> True | Inr (running, _) \<Rightarrow> running \<noteq> None"
proof (cases "reconnect_record env r w")
  case (Pair x w2)
  show ?thesis
  proof (cases x)
    case (Inl e)
    then show ?thesis using assms Pair by (simp add: adopt_existing_def andThen_def io_simps)
  next
    case (Inr sh)
    obtain s h where sh: "sh = (s, h)" by (cases sh)
    then have "ss_state s \<noteq> SP_STOPPED" using reconnect_result [of env r w s h w2] Inr Pair assms(2) by auto
    then show ?thesis using assms Pair Inr sh by (simp add: adopt_existing_def andThen_def io_simps)
  qed
qed

lemma create_blocked:
  assumes "get_sandbox_creation i (w_db w) = Some r"
    "confirmed_state env r (w_prov (snd (durable_barrier env w))) \<noteq> SP_STOPPED"
  shows "same_creates w (snd (create env i w))"
proof (cases "durable_barrier env w")
  case (Pair x w1)
  have a: "same_creates w w1" using keepsD [OF quiet_durable, of w env] Pair by simp
  show ?thesis
  proof (cases "x = Inr () \<and> get_task i None (w_db w1) \<noteq> None")
    case False
    then show ?thesis using Pair a by (cases x) (auto simp: create_def andThen_def io_simps)
  next
    case True
    then obtain t where t: "get_task i None (w_db w1) = Some t" by auto
    obtain y w2 where y: "adopt_existing env i w1 = (y, w2)" by (cases "adopt_existing env i w1")
    have "get_sandbox_creation i (w_db w1) = Some r" using assms(1) durable_db [of env w] Pair by simp
    then have "case y of Inl _ \<Rightarrow> True | Inr (running, _) \<Rightarrow> running \<noteq> None"
      using adopt_blocked [of i w1 r env] assms(2) Pair y by simp
    then have "snd (create env i w) = w2"
      using Pair True t y by (cases y) (auto simp: create_def andThen_def io_simps)
    moreover have "same_creates w1 w2" using keepsD [OF adopt_quiet, of w1 env i] y by simp
    ultimately show ?thesis using a by (metis same_creates.kept_trans)
  qed
qed

text \<open>
  C34: a sandbox is created behind a durable intent and never beside one that may exist.  Whatever the
  provider answers and however \<open>create\<close> ends, every creation call directly follows a durability barrier
  at the same database revision, one \<open>create\<close> issues at most one such call, and it issues
  none when the task has a creation record whose sandbox the provider did not confirm stopped.
\<close>

theorem create_never_duplicates:
  assumes "create env task_id w = (x, w')" "intent_first None (w_trace w)"
  shows "intent_first None (w_trace w') \<and>
    (\<exists>new. creates w' = creates w @ new \<and> length new \<le> 1 \<and>
      (new = [] \<or> get_sandbox_creation task_id (w_db w) = None \<or>
       (\<exists>r. get_sandbox_creation task_id (w_db w) = Some r \<and>
          confirmed_state env r (w_prov (snd (durable_barrier env w))) = SP_STOPPED)))"
proof -
  have one: "one_create w w'" using keepsD [OF create_once, of w env task_id] assms(1) by simp
  show ?thesis
  proof (cases "get_sandbox_creation task_id (w_db w)")
    case None
    then show ?thesis using one assms(2) by (auto simp: one_create_def trace_rel_def)
  next
    case (Some r)
    show ?thesis
    proof (cases "confirmed_state env r (w_prov (snd (durable_barrier env w))) = SP_STOPPED")
      case True
      then show ?thesis using one assms(2) Some by (auto simp: one_create_def trace_rel_def)
    next
      case False
      from create_blocked [OF Some False] assms show ?thesis
        by (auto simp: same_creates_def trace_rel_def)
    qed
  qed
qed

theorem create_never_duplicates_witness:
  "\<exists>x w' new. create sample_life_env ''t1'' sample_world = (x, w') \<and> intent_first None (w_trace w') \<and>
     creates w' = creates sample_world @ new \<and> length new \<le> 1"
proof -
  obtain x w' where "create sample_life_env ''t1'' sample_world = (x, w')"
    by (cases "create sample_life_env ''t1'' sample_world")
  moreover have "intent_first None (w_trace sample_world)" by (simp add: sample_world_def)
  ultimately show ?thesis using create_never_duplicates [of sample_life_env "''t1''" sample_world x w'] by blast
qed

section \<open>Credentials\<close>

lemma map_of_pops: "map_of (fold dict_pop ks e) x = (if x \<in> set ks then None else map_of e x)"
  by (induction ks arbitrary: e) (auto simp: map_of_dict_pop)

text \<open>
  C35: the environment of an owned task carries its owner's credentials only.  Whatever the deployment's
  sandbox environment holds, the model key is the owner's, the shared GitHub tokens and the
  publication switch are gone, and a clone token is present exactly when one was issued for this task's
  repository; without a personal key there is no environment at all.
\<close>

theorem sandbox_env_isolated:
  assumes "tr_owner_id task = Some owner"
  shows "case sandbox_environment env task personal github key of
      None \<Rightarrow> personal = None
    | Some e \<Rightarrow> map_of e ''OPENROUTER_API_KEY'' = personal \<and> personal \<noteq> None \<and>
        map_of e ''GG_GITHUB_CLONE_TOKEN'' = github \<and> map_of e ''GH_TOKEN'' = None \<and>
        map_of e ''GITHUB_TOKEN'' = None \<and> map_of e ''GG_PI_OWNS_PUBLICATION'' = None \<and>
        map_of e ''GG_SESSION_API_KEYS'' = Some key \<and> map_of e ''GG_TASK_ID'' = Some (tr_id task)"
  using assms
  by (auto simp: sandbox_environment_def Let_def map_of_dict_put map_of_pops map_of_dict_pop split: option.splits)

theorem sandbox_env_isolated_witness:
  "\<exists>task e. tr_owner_id task = Some ''u1'' \<and>
     sandbox_environment sample_life_env task (Some ''own'') None ''k'' = Some e \<and>
     map_of e ''OPENROUTER_API_KEY'' = Some ''own'' \<and> map_of e ''GITHUB_TOKEN'' = None"
proof -
  let ?t = "(row_to_record (new_task_row ''t1'' 5 1 ''k1'' (Some ''u1'') (Some ''o/r'') ''p'' None None DEFAULT_PI_MODEL) None)"
  have o: "tr_owner_id ?t = Some ''u1''" by (simp add: row_to_record_def new_task_row_def)
  from sandbox_env_isolated [OF this, where env = sample_life_env and personal = "Some ''own''" and github = None and key = "''k''"] o show ?thesis
    by (cases "sandbox_environment sample_life_env ?t (Some ''own'') None ''k''") auto
qed

end
