(* ===== verification/Supervision.thy ===== *)
theory Supervision
  imports Lifecycle Task_Service
begin

text \<open>
  \<open>backend/gg/runtime/task_supervision/manager.py\<close> and \<open>task_supervisor_client.py\<close>: the control plane's
  supervision of reserved tasks.  One manager holds the loops, the live event queues and, through the world of
  the lifecycle, the ledger and the provider.  The HTTP responses of a sandbox, the repository
  authorization and the texts of library exceptions are fields of the environment.  A loop task is an entry of
  \<open>mg_loops\<close> with a flag that says whether it is done; \<open>supervise\<close> runs it over a list of environments,
  one per round, since the clock and the answers differ between rounds.  The bound on the
  pages of one event synchronisation is \<open>me_pages\<close>, and \<open>me_attempts\<close> is the number of
  manifest requests that fit into the clean-up budget.
\<close>

section \<open>HTTP client of the sandbox\<close>

text \<open>A response: its status, the \<open>detail\<close> of its JSON body when that is text, and the validated body.\<close>

record 'a response =
  rs_status :: int
  rs_detail :: "string option"
  rs_body :: "'a option"

record 'p sandbox_http =
  h_start :: "SandboxConnection \<Rightarrow> StartTaskExecutionRequest \<Rightarrow> string option \<Rightarrow> 'p \<Rightarrow> (error + TaskExecutionRecord response) \<times> 'p"
  h_execution :: "SandboxConnection \<Rightarrow> string \<Rightarrow> 'p \<Rightarrow> (error + TaskExecutionRecord response) \<times> 'p"
  h_manifest :: "SandboxConnection \<Rightarrow> string \<Rightarrow> 'p \<Rightarrow> (error + TaskResultManifest response) \<times> 'p"
  h_events :: "SandboxConnection \<Rightarrow> string \<Rightarrow> int \<Rightarrow> nat \<Rightarrow> 'p \<Rightarrow> (error + Event list response) \<times> 'p"
  h_cancel :: "SandboxConnection \<Rightarrow> string \<Rightarrow> 'p \<Rightarrow> (error + unit response) \<times> 'p"
  h_message :: "SandboxConnection \<Rightarrow> string \<Rightarrow> string \<Rightarrow> 'p \<Rightarrow> (error + MessageReceipt response) \<times> 'p"

definition raise_for_status :: "'a response \<Rightarrow> error + unit" where
  "raise_for_status r = (if 200 \<le> rs_status r \<and> rs_status r < 300 then Inr ()
     else Inl (HTTPStatusError (rs_status r) (rs_detail r)))"

definition validated :: "'a response \<Rightarrow> error + 'a" where
  "validated r = (case rs_body r of None \<Rightarrow> Inl ValidationError | Some x \<Rightarrow> Inr x)"

definition checked :: "'a response \<Rightarrow> error + 'a" where
  "checked r = (case raise_for_status r of Inl e \<Rightarrow> Inl e | Inr _ \<Rightarrow> validated r)"

fun is_HTTPError :: "error \<Rightarrow> bool" where
  "is_HTTPError (HTTPStatusError _ _) = True"
| "is_HTTPError (HTTPTransportError _) = True"
| "is_HTTPError _ = False"

fun is_ValueError :: "error \<Rightarrow> bool" where
  "is_ValueError (ValueError _) = True"
| "is_ValueError (RepositoryAccessError _) = True"
| "is_ValueError ValidationError = True"
| "is_ValueError _ = False"

fun is_RepositoryAccessError :: "error \<Rightarrow> bool" where
  "is_RepositoryAccessError (RepositoryAccessError _) = True"
| "is_RepositoryAccessError _ = False"

text \<open>\<open>str(exc)\<close>; the texts of library exceptions come from the environment.\<close>

fun exc_text :: "(error \<Rightarrow> string) \<Rightarrow> error \<Rightarrow> string" where
  "exc_text txt (ValueError m) = m"
| "exc_text txt (RuntimeError m) = m"
| "exc_text txt (RepositoryAccessError m) = m"
| "exc_text txt (ModalLifecycleError m) = m"
| "exc_text txt (CredentialUnavailableError m) = m"
| "exc_text txt (AmbiguousProviderStateError m) = m"
| "exc_text txt (SandboxNotFoundError m) = m"
| "exc_text txt (ConflictingSandboxesError m) = m"
| "exc_text txt e = txt e"

section \<open>Manager\<close>

record TaskEventCopy =
  tc_cursor :: nat
  tc_source_id :: string
  tc_source_seq :: int
  tc_event :: Event

record authorization =
  az_resolve :: "string \<Rightarrow> string \<Rightarrow> string \<Rightarrow> error + unit"
  az_credential :: "string \<Rightarrow> string \<Rightarrow> string \<Rightarrow> error + (string \<times> string)"

record 'p manager_env =
  me_life :: "'p lifecycle_env"
  me_http :: "'p sandbox_http"
  me_limits :: "StorageLimits option"
  me_authorization :: "authorization option"
  me_event_bytes :: "Event \<Rightarrow> nat"
  me_fresh :: "int \<Rightarrow> string"
  me_text :: "error \<Rightarrow> string"
  me_attempts :: nat
  me_pages :: nat

record 'p manager =
  mg_world :: "'p world"
  mg_loops :: "(string \<times> bool) list"
  mg_live :: "(string \<times> (nat \<times> TaskEventCopy list) list) list"
  mg_next_queue :: nat
  mg_stop :: bool

type_synonym ('p, 'a) sup_op = "('p manager, error, 'a) io"

definition new_manager :: "'p world \<Rightarrow> 'p manager" where
  "new_manager w = \<lparr>mg_world = w, mg_loops = [], mg_live = [], mg_next_queue = 0, mg_stop = False\<rparr>"

abbreviation me_now :: "'p manager_env \<Rightarrow> timestamp" where
  "me_now env \<equiv> le_now (me_life env)"

abbreviation mg_db :: "'p manager \<Rightarrow> database" where
  "mg_db s \<equiv> w_db (mg_world s)"

definition on_world :: "('p, 'a) life_op \<Rightarrow> ('p, 'a) sup_op" where
  "on_world m s = (let (r, w) = m (mg_world s) in (r, s\<lparr>mg_world := w\<rparr>))"

definition ledger_call :: "'a ledger_op \<Rightarrow> ('p, 'a) sup_op" where
  "ledger_call m = on_world (on_ledger m)"

definition ledger_read :: "(database \<Rightarrow> 'a) \<Rightarrow> ('p, 'a) sup_op" where
  "ledger_read f = reading (\<lambda>s. f (mg_db s))"

definition of_sum :: "error + 'a \<Rightarrow> ('p, 'a) sup_op" where
  "of_sum x = (case x of Inl e \<Rightarrow> raise e | Inr a \<Rightarrow> ret a)"

definition http_call :: "('p \<Rightarrow> (error + 'a) \<times> 'p) \<Rightarrow> ('p, 'a) sup_op" where
  "http_call f = andThen (on_world (on_provider f)) of_sum"

definition durable :: "'p manager_env \<Rightarrow> ('p, unit) sup_op" where
  "durable env = on_world (durable_barrier (me_life env))"

section \<open>TaskSupervisorClient\<close>

definition client_start ::
  "'p manager_env \<Rightarrow> SandboxConnection \<Rightarrow> StartTaskExecutionRequest \<Rightarrow> string option \<Rightarrow> ('p, TaskExecutionRecord \<times> int) sup_op" where
  "client_start env c request github_token =
     andThen (http_call (h_start (me_http env) c request (if truthy github_token then github_token else None))) (\<lambda>r.
     andThen (of_sum (checked r)) (\<lambda>x. ret (x, rs_status r)))"

definition get_execution :: "'p manager_env \<Rightarrow> SandboxConnection \<Rightarrow> string \<Rightarrow> ('p, TaskExecutionRecord) sup_op" where
  "get_execution env c execution_id =
     andThen (http_call (h_execution (me_http env) c execution_id)) (\<lambda>r. of_sum (checked r))"

definition get_manifest :: "'p manager_env \<Rightarrow> SandboxConnection \<Rightarrow> string \<Rightarrow> ('p, TaskResultManifest) sup_op" where
  "get_manifest env c execution_id =
     andThen (http_call (h_manifest (me_http env) c execution_id)) (\<lambda>r. of_sum (checked r))"

section \<open>Loops and subscribers\<close>

definition ensure_supervised :: "string \<Rightarrow> ('p, unit) sup_op" where
  "ensure_supervised task_id s =
     (Inr (), if map_of (mg_loops s) task_id = Some False then s
              else s\<lparr>mg_loops := dict_put task_id False (mg_loops s)\<rparr>)"

definition supervised_phase :: "ReservationPhase \<Rightarrow> bool" where
  "supervised_phase ph \<longleftrightarrow> ph \<in> {RP_STARTING, RP_RUNNING, RP_FINALIZING}"

definition sync_reserved_tasks :: "('p, unit) sup_op" where
  "sync_reserved_tasks =
     andThen (ledger_read list_reservations)
       (for_each (\<lambda>v. if supervised_phase (rv_phase v) then ensure_supervised (rv_task_id v) else ret ()))"

definition manager_startup :: "('p, unit) sup_op" where
  "manager_startup = sync_reserved_tasks"

definition manager_shutdown :: "('p, unit) sup_op" where
  "manager_shutdown s = (Inr (), s\<lparr>mg_stop := True, mg_loops := []\<rparr>)"

definition manager_wake :: "('p, unit) sup_op" where
  "manager_wake s = for_each (\<lambda>(i, _). ensure_supervised i) (mg_loops s) s"

definition list_event_copies :: "string \<Rightarrow> nat \<Rightarrow> database \<Rightarrow> TaskEventCopy list" where
  "list_event_copies task_id after_cursor d =
     map (\<lambda>(c, i, q, e). \<lparr>tc_cursor = c, tc_source_id = i, tc_source_seq = q, tc_event = e\<rparr>)
       (list_task_events task_id after_cursor d)"

definition subscribers :: "string \<Rightarrow> 'p manager \<Rightarrow> (nat \<times> TaskEventCopy list) list" where
  "subscribers task_id s = coalesce_to (map_of (mg_live s) task_id) []"

definition subscribe_events :: "string \<Rightarrow> ('p, nat) sup_op" where
  "subscribe_events task_id s = (Inr (mg_next_queue s),
     s\<lparr>mg_next_queue := Suc (mg_next_queue s),
       mg_live := dict_put task_id (subscribers task_id s @ [(mg_next_queue s, [])]) (mg_live s)\<rparr>)"

definition unsubscribe_events :: "string \<Rightarrow> nat \<Rightarrow> ('p, unit) sup_op" where
  "unsubscribe_events task_id q s = (Inr (),
     if q \<in> fst ` set (subscribers task_id s)
     then s\<lparr>mg_live := dict_put task_id (filter (\<lambda>x. fst x \<noteq> q) (subscribers task_id s)) (mg_live s)\<rparr>
     else s)"

definition LIVE_CAPACITY :: nat where
  "LIVE_CAPACITY = 256"

definition put_nowait :: "TaskEventCopy \<Rightarrow> nat \<times> TaskEventCopy list \<Rightarrow> nat \<times> TaskEventCopy list" where
  "put_nowait copy q = (if length (snd q) < LIVE_CAPACITY then (fst q, snd q @ [copy]) else q)"

definition fan_out :: "string \<Rightarrow> TaskEventCopy \<Rightarrow> ('p, unit) sup_op" where
  "fan_out task_id copy s = (Inr (),
     if map_of (mg_live s) task_id = None then s
     else s\<lparr>mg_live := dict_put task_id (map (put_nowait copy) (subscribers task_id s)) (mg_live s)\<rparr>)"

section \<open>Messages and sleeping workspaces\<close>

definition expire_sleeping_locked :: "'p manager_env \<Rightarrow> TaskRecord \<Rightarrow> ('p, unit) sup_op" where
  "expire_sleeping_locked env task =
     (let last_activity = coalesce_to (tr_workspace_last_activity_at task) (tr_updated_at task)
      in if tr_state task = TS_SLEEPING \<and> \<not> tr_workspace_expired task \<and> me_now env - last_activity \<ge> days 7
         then andThen (on_world (delete_workspace (me_life env) (tr_id task))) (\<lambda>_.
              ledger_call (expire_workspace (tr_id task)))
         else ret ())"

definition expire_sleeping_workspace :: "'p manager_env \<Rightarrow> string \<Rightarrow> ('p, unit) sup_op" where
  "expire_sleeping_workspace env task_id =
     andThen (ledger_read (get_task task_id None)) (\<lambda>task.
     case task of None \<Rightarrow> ret () | Some t \<Rightarrow> expire_sleeping_locked env t)"

definition authorize_message :: "'p manager_env \<Rightarrow> TaskRecord \<Rightarrow> ('p, unit) sup_op" where
  "authorize_message env task =
     (case (tr_owner_id task, tr_repository task) of
        (Some owner, Some repository) \<Rightarrow>
          (case me_authorization env of
             None \<Rightarrow> raise (RuntimeError ''GitHub repository authorization unavailable'')
           | Some az \<Rightarrow>
               (case az_resolve az owner repository (str_or (tr_base_ref task) []) of
                  Inl e \<Rightarrow> if is_ValueError e then raise (RuntimeError (exc_text (me_text env) e)) else raise e
                | Inr _ \<Rightarrow> ret ()))
      | _ \<Rightarrow> ret ())"

definition accept_message :: "'p manager_env \<Rightarrow> string \<Rightarrow> MessageReceipt \<Rightarrow> ('p, MessageReceipt) sup_op" where
  "accept_message env task_id accepted =
     andThen (ledger_call (save_task_message_receipt task_id accepted)) (\<lambda>_.
     andThen (ledger_call (touch_workspace (me_now env) (me_now env) task_id)) (\<lambda>_.
     andThen (ledger_read (get_task task_id None)) (\<lambda>task.
     case task of
       None \<Rightarrow> raise AttributeError
     | Some t \<Rightarrow>
         andThen (if tr_state t = TS_SLEEPING then ledger_call (queue_workspace_message (me_now env) task_id)
                  else ret ()) (\<lambda>_.
         andThen (durable env) (\<lambda>_.
         andThen (ensure_supervised task_id) (\<lambda>_.
         ret accepted))))))"

definition send_task_message :: "'p manager_env \<Rightarrow> string \<Rightarrow> string \<Rightarrow> string \<Rightarrow> ('p, MessageReceipt) sup_op" where
  "send_task_message env task_id message_id content =
     andThen (ledger_read (get_task task_id None)) (\<lambda>first.
     case first of
       None \<Rightarrow> raise (KeyError (''unknown task '' @ task_id))
     | Some t0 \<Rightarrow>
         andThen (authorize_message env t0) (\<lambda>_.
         andThen (ledger_read (get_task task_id None)) (\<lambda>again.
         case again of
           None \<Rightarrow> raise AttributeError
         | Some task \<Rightarrow>
             if is_terminal (tr_state task) then raise (RuntimeError ''task is not accepting messages'')
             else
               andThen (expire_sleeping_locked env task) (\<lambda>_.
               andThen (ledger_read (get_task_message_receipt task_id message_id)) (\<lambda>existing.
               case existing of
                 Some r \<Rightarrow>
                   if mr_content r \<noteq> content
                   then raise (RuntimeError ''message id already belongs to another message'')
                   else andThen (durable env) (\<lambda>_. ret r)
               | None \<Rightarrow>
                   accept_message env task_id
                     \<lparr>mr_id = message_id, mr_content = content, mr_status = MD_ACCEPTED, mr_detail = None,
                      mr_created_at = me_now env, mr_updated_at = me_now env\<rparr>)))))"

text \<open>\<open>finish_task\<close> back to idle when the workspace could not be put to sleep, then the exception again.\<close>

definition sleep_failed :: "'p manager_env \<Rightarrow> string \<Rightarrow> error \<Rightarrow> ('p, unit) sup_op" where
  "sleep_failed env task_id e =
     andThen (ledger_read (get_task task_id None)) (\<lambda>task.
     case task of
       None \<Rightarrow> raise AttributeError
     | Some t \<Rightarrow>
         andThen (if tr_state t = TS_SLEEPING
                  then andThen (ledger_call (finish_task (me_now env) task_id TS_IDLE None None)) (\<lambda>_. ret ())
                  else ret ()) (\<lambda>_. raise e))"

definition sleep_workspace :: "'p manager_env \<Rightarrow> string \<Rightarrow> ('p, unit) sup_op" where
  "sleep_workspace env task_id =
     andThen (ledger_call (try_mark_sleeping (me_now env) task_id)) (\<lambda>asleep.
     if \<not> asleep then ret ()
     else
       andThen (catch
           (andThen (on_world (sync (me_life env) task_id)) (\<lambda>_.
            andThen (on_world (terminate (me_life env) task_id)) (\<lambda>snap.
            if ss_state snap \<noteq> SP_STOPPED then raise (ModalLifecycleError ''sandbox sleep was not confirmed'')
            else ret ())))
           (sleep_failed env task_id)) (\<lambda>_.
       ledger_call (release_reservation (me_now env) task_id ''confirmed_absent'')))"

section \<open>Starting executions\<close>

definition fresh_github_token :: "'p manager_env \<Rightarrow> TaskRecord \<Rightarrow> ('p, string option) sup_op" where
  "fresh_github_token env task =
     (case (tr_owner_id task, tr_repository task) of
        (Some owner, Some repository) \<Rightarrow>
          (case me_authorization env of
             None \<Rightarrow> raise (RuntimeError ''GitHub repository authorization unavailable'')
           | Some az \<Rightarrow>
               (case az_credential az owner repository (str_or (tr_base_ref task) []) of
                  Inl e \<Rightarrow> raise e
                | Inr (token, _) \<Rightarrow> ret (Some token)))
      | _ \<Rightarrow> ret None)"

definition authorize_execution :: "'p manager_env \<Rightarrow> TaskRecord \<Rightarrow> string \<Rightarrow> ('p, unit) sup_op" where
  "authorize_execution env task branch =
     andThen (case tr_repository task of
         Some repository \<Rightarrow>
           if repository \<noteq> [] \<and> truthy (tr_owner_id task)
           then andThen (ledger_call (begin_publication (me_now env) (tr_id task) repository branch
                  (str_or (tr_base_ref task) ''main'') (tr_id task) None CO_NOT_RUN AO_NOT_RUN PS_PENDING None)) (\<lambda>_. ret ())
           else ret ()
       | None \<Rightarrow> ret ()) (\<lambda>_.
     durable env)"

definition attempt_cleanup :: "'p manager_env \<Rightarrow> string \<Rightarrow> ('p, unit) sup_op" where
  "attempt_cleanup env task_id =
     (let pending = (\<lambda>condition. andThen (ledger_call (update_reservation (me_now env) task_id RP_TERMINATION_PENDING
            (Some condition) None)) (\<lambda>_. ret ()))
      in andThen (catch (andThen (on_world (terminate (me_life env) task_id)) (\<lambda>s. ret (Inr s)))
           (\<lambda>e. if is_ModalLifecycleError e then ret (Inl e) else raise e)) (\<lambda>answer.
         case answer of
           Inl e \<Rightarrow> pending (''termination unresolved: '' @ exc_text (me_text env) e)
         | Inr snap \<Rightarrow>
             if ss_state snap = SP_STOPPED
             then ledger_call (release_reservation (me_now env) task_id ''confirmed_absent'')
             else pending (str_or (ss_detail snap) ''termination not confirmed'')))"

definition fail_execution_start :: "'p manager_env \<Rightarrow> string \<Rightarrow> string \<Rightarrow> ('p, unit) sup_op" where
  "fail_execution_start env task_id detail =
     andThen (ledger_call (finish_task (me_now env) task_id TS_FAILED (Some detail) None)) (\<lambda>_.
     andThen (ledger_call (update_reservation (me_now env) task_id RP_TERMINATION_PENDING (Some detail) None)) (\<lambda>_.
     andThen (durable env) (\<lambda>_.
     attempt_cleanup env task_id)))"

definition DEFAULT_TASK_DEADLINE :: int where
  "DEFAULT_TASK_DEADLINE = minutes 60"

definition TASK_BRANCH_PREFIX :: string where
  "TASK_BRANCH_PREFIX = ''gg/task''"

definition execution_request ::
  "TaskRecord \<Rightarrow> string \<Rightarrow> string \<Rightarrow> string \<Rightarrow> timestamp \<Rightarrow> StartTaskExecutionRequest" where
  "execution_request task prompt branch key deadline =
     \<lparr>sx_task_id = tr_id task, sx_repository = tr_repository task, sx_prompt = prompt,
      sx_base_ref = tr_base_ref task, sx_base_sha = tr_base_sha task, sx_task_branch = Some branch,
      sx_start_key = key, sx_deadline_at = deadline, sx_model = tr_model task\<rparr>"

definition start_deadline :: "'p manager_env \<Rightarrow> TaskRecord \<Rightarrow> ReservationRecord option \<Rightarrow> timestamp" where
  "start_deadline env task reservation =
     (let duration = (if truthy (tr_owner_id task) \<and> truthy (tr_repository task) then minutes 45
                      else DEFAULT_TASK_DEADLINE)
      in (case reservation of Some v \<Rightarrow> rv_reserved_at v | None \<Rightarrow> me_now env) + duration)"

definition try_manifest :: "'p manager_env \<Rightarrow> SandboxConnection \<Rightarrow> string \<Rightarrow> ('p, TaskResultManifest option) sup_op" where
  "try_manifest env c execution_id =
     catch (andThen (get_manifest env c execution_id) (\<lambda>m. ret (Some m)))
       (\<lambda>e. if is_HTTPError e then ret None else raise e)"

definition FATAL_START_DETAILS :: "string list" where
  "FATAL_START_DETAILS = [''github clone token is not configured'', ''OPENROUTER_API_KEY is required for Pi'']"

text \<open>The except clauses around the start call; \<open>None\<close> is the early return.\<close>

definition start_failed :: "'p manager_env \<Rightarrow> string \<Rightarrow> error \<Rightarrow> ('p, 'a option) sup_op" where
  "start_failed env task_id e =
     (let fatal = (\<lambda>detail. andThen (fail_execution_start env task_id detail) (\<lambda>_. ret None));
          retry = andThen (ledger_call (update_reservation (me_now env) task_id RP_RUNNING
                    (Some (''execution start failed: '' @ exc_text (me_text env) e)) None)) (\<lambda>_. ret None)
      in case e of
           RepositoryAccessError m \<Rightarrow> fatal m
         | HTTPStatusError code (Some detail) \<Rightarrow>
             if code = 503 \<and> detail \<in> set FATAL_START_DETAILS then fatal detail else retry
         | _ \<Rightarrow> if is_HTTPError e then retry else raise e)"

definition started_execution ::
  "'p manager_env \<Rightarrow> SandboxConnection \<Rightarrow> TaskRecord \<Rightarrow> TaskExecutionRecord \<Rightarrow> ('p, SupervisionRecord option) sup_op" where
  "started_execution env c task record =
     andThen (ledger_call (update_supervision (me_now env) (tr_id task) (Some (xr_execution_id record)) None
        (xr_conversation_id record) None None)) (\<lambda>_.
     andThen (if tr_base_sha task = None \<and> truthy (xr_base_ref record)
        then andThen (try_manifest env c (xr_execution_id record)) (\<lambda>manifest.
             case manifest of
               None \<Rightarrow> ret ()
             | Some m \<Rightarrow> andThen (ledger_call (record_base_sha (me_now env) (tr_id task) (tm_base_sha m))) (\<lambda>_. ret ()))
        else ret ()) (\<lambda>_.
     ledger_read (get_supervision (tr_id task))))"

definition start_execution_of ::
  "'p manager_env \<Rightarrow> SandboxConnection \<Rightarrow> TaskRecord \<Rightarrow> ('p, SupervisionRecord option) sup_op" where
  "start_execution_of env c task =
     (let task_id = tr_id task; branch = TASK_BRANCH_PREFIX @ ''/'' @ task_id in
      andThen (ledger_read (get_reservation task_id)) (\<lambda>reservation.
      if me_now env \<ge> start_deadline env task reservation
      then andThen (fail_execution_start env task_id ''execution start deadline exceeded'') (\<lambda>_. ret None)
      else
        andThen (ledger_call (begin_supervision (me_now env) task_id task_id branch task_id None)) (\<lambda>_.
        andThen (authorize_execution env task branch) (\<lambda>_.
        andThen (catch (andThen (fresh_github_token env task) (\<lambda>token.
                        andThen (client_start env c (execution_request task (tr_prompt task) branch task_id
                           (start_deadline env task reservation)) token) (\<lambda>(record, _). ret (Some record))))
                   (start_failed env task_id)) (\<lambda>started.
        case started of None \<Rightarrow> ret None | Some record \<Rightarrow> started_execution env c task record)))))"

definition followup_refused :: "'p manager_env \<Rightarrow> string \<Rightarrow> MessageReceipt \<Rightarrow> string \<Rightarrow> ('p, unit) sup_op" where
  "followup_refused env task_id receipt detail =
     andThen (ledger_call (save_task_message_receipt task_id
        (receipt\<lparr>mr_status := MD_FAILED, mr_detail := Some detail, mr_updated_at := me_now env\<rparr>))) (\<lambda>_.
     andThen (ledger_call (update_reservation (me_now env) task_id RP_RUNNING (Some detail) None)) (\<lambda>_. ret ()))"

text \<open>The part of \<open>_start_followup\<close> after the token: the durable start key, the call, the delivered receipt.\<close>

definition deliver_followup ::
  "'p manager_env \<Rightarrow> SandboxConnection \<Rightarrow> TaskRecord \<Rightarrow> SupervisionRecord \<Rightarrow> MessageReceipt \<Rightarrow> string option \<Rightarrow> ('p, unit) sup_op" where
  "deliver_followup env c task supervision0 receipt token =
     (let task_id = tr_id task; start_key = task_id @ '':'' @ mr_id receipt in
      andThen (if sv_start_key supervision0 \<noteq> start_key
         then ledger_call (update_supervision (me_now env) task_id (Some start_key) (Some start_key) None None None)
         else ret supervision0) (\<lambda>supervision.
      andThen (authorize_execution env task (sv_task_branch supervision)) (\<lambda>_.
      andThen (client_start env c (execution_request task (mr_content receipt) (sv_task_branch supervision) start_key
         (me_now env + DEFAULT_TASK_DEADLINE)) token) (\<lambda>(record, _).
      andThen (ledger_call (save_task_message_receipt task_id
         (receipt\<lparr>mr_status := MD_DELIVERED, mr_updated_at := me_now env\<rparr>))) (\<lambda>_.
      andThen (ledger_call (update_supervision (me_now env) task_id (Some (xr_execution_id record)) None
         (py_or (xr_conversation_id record) (sv_conversation_id supervision)) None None)) (\<lambda>_.
      andThen (ledger_call (finish_task (me_now env) task_id TS_RUNNING None None)) (\<lambda>_. ret ())))))))"

definition start_followup ::
  "'p manager_env \<Rightarrow> SandboxConnection \<Rightarrow> string \<Rightarrow> MessageReceipt \<Rightarrow> ('p, unit) sup_op" where
  "start_followup env c task_id receipt =
     andThen (ledger_read (\<lambda>d. (get_task task_id None d, get_supervision task_id d))) (\<lambda>found.
     case found of
       (Some task, Some supervision) \<Rightarrow>
         andThen (catch (andThen (fresh_github_token env task) (\<lambda>t. ret (Inr t)))
            (\<lambda>e. if is_RepositoryAccessError e then ret (Inl (exc_text (me_text env) e)) else raise e)) (\<lambda>token.
         case token of
           Inl detail \<Rightarrow> followup_refused env task_id receipt detail
         | Inr t \<Rightarrow> deliver_followup env c task supervision receipt t)
     | _ \<Rightarrow> ret ())"

definition refresh_supervision ::
  "'p manager_env \<Rightarrow> SandboxConnection \<Rightarrow> string \<Rightarrow> SupervisionRecord \<Rightarrow> ('p, SupervisionRecord) sup_op" where
  "refresh_supervision env c task_id supervision =
     andThen (catch (andThen (get_execution env c (sv_execution_id supervision)) (\<lambda>x. ret (Some x)))
        (\<lambda>e. if is_HTTPError e then ret None else raise e)) (\<lambda>execution.
     case execution of
       None \<Rightarrow> ret supervision
     | Some x \<Rightarrow>
         if \<not> truthy (xr_conversation_id x) \<or> xr_conversation_id x = sv_conversation_id supervision
         then ret supervision
         else ledger_call (update_supervision (me_now env) task_id None None (xr_conversation_id x) None None))"

text \<open>\<open>s.partition(":")[2]\<close>.\<close>

definition after_colon :: "string \<Rightarrow> string" where
  "after_colon s = drop 1 (dropWhile (\<lambda>x. x \<noteq> CHR '':'') s)"

text \<open>The three cases of an existing supervision: not yet started, a follow-up not yet acknowledged, a known execution.\<close>

definition current_supervision ::
  "'p manager_env \<Rightarrow> SandboxConnection \<Rightarrow> TaskRecord \<Rightarrow> SupervisionRecord option \<Rightarrow> ('p, SupervisionRecord option) sup_op" where
  "current_supervision env c task found =
     (let task_id = tr_id task in
      case found of
        None \<Rightarrow> start_execution_of env c task
      | Some supervision \<Rightarrow>
          if sv_execution_id supervision = task_id then start_execution_of env c task
          else if sv_execution_id supervision = sv_start_key supervision
          then andThen (ledger_read (get_task_message_receipt task_id (after_colon (sv_start_key supervision)))) (\<lambda>receipt.
               case receipt of
                 None \<Rightarrow> ret (Some supervision)
               | Some r \<Rightarrow> andThen (start_followup env c task_id r) (\<lambda>_. ledger_read (get_supervision task_id)))
          else andThen (catch (andThen (get_execution env c (sv_execution_id supervision)) (\<lambda>_. ret True))
                 (\<lambda>e. case e of HTTPStatusError code _ \<Rightarrow> if code = 404 then ret False else raise e | _ \<Rightarrow> raise e)) (\<lambda>known.
               if known then ret (Some supervision)
               else andThen (ledger_read (list_accepted_task_messages task_id)) (\<lambda>pending.
                    case pending of
                      [] \<Rightarrow> ret None
                    | r # _ \<Rightarrow> andThen (start_followup env c task_id r) (\<lambda>_. ledger_read (get_supervision task_id)))))"

definition ensure_execution_started ::
  "'p manager_env \<Rightarrow> SandboxConnection \<Rightarrow> string \<Rightarrow> ('p, SupervisionRecord option) sup_op" where
  "ensure_execution_started env c task_id =
     andThen (ledger_read (get_task task_id None)) (\<lambda>found.
     case found of
       None \<Rightarrow> ret None
     | Some task \<Rightarrow>
         andThen (ledger_read (get_supervision task_id)) (\<lambda>sv.
         andThen (current_supervision env c task sv) (\<lambda>supervision.
         case supervision of
           None \<Rightarrow> ret None
         | Some v \<Rightarrow> andThen (refresh_supervision env c task_id v) (\<lambda>x. ret (Some x)))))"

section \<open>Copying events\<close>

text \<open>One page: copied into the ledger, then every newly inserted event handed to the live queues.\<close>

definition copy_page :: "'p manager_env \<Rightarrow> string \<Rightarrow> string \<Rightarrow> Event list \<Rightarrow> ('p, unit) sup_op" where
  "copy_page env task_id conversation_id page =
     andThen (ledger_call (copy_task_event_page (me_event_bytes env) (me_fresh env) (me_now env) task_id conversation_id
        page (map_option sl_max_log_evidence_bytes (me_limits env)))) (\<lambda>inserted.
     for_each (\<lambda>(cursor, event). fan_out task_id
       \<lparr>tc_cursor = cursor, tc_source_id = conversation_id, tc_source_seq = e_seq event, tc_event = event\<rparr>) inserted)"

text \<open>
  The \<open>while True\<close> loop of \<open>_sync_events\<close> with a bound on the number of requests: \<open>True\<close> when the loop
  returned, \<open>False\<close> when the bound was reached first.
\<close>

fun sync_pages :: "'p manager_env \<Rightarrow> SandboxConnection \<Rightarrow> string \<Rightarrow> string \<Rightarrow> nat \<Rightarrow> int \<Rightarrow> ('p, bool) sup_op" where
  "sync_pages env c task_id conversation_id 0 after = ret False"
| "sync_pages env c task_id conversation_id (Suc n) after =
     andThen (http_call (h_events (me_http env) c conversation_id after 200)) (\<lambda>r.
     if rs_status r = 404 then ret True
     else
       andThen (of_sum (raise_for_status r)) (\<lambda>_.
       andThen (of_sum (validated r)) (\<lambda>page.
       case page of
         [] \<Rightarrow> ret True
       | e # _ \<Rightarrow>
           if e_seq e \<le> after then raise (ValueError ''sandbox event page did not advance source cursor'')
           else
             andThen (copy_page env task_id conversation_id page) (\<lambda>_.
             if length page < 200 then ret True
             else sync_pages env c task_id conversation_id n (e_seq (last page))))))"

definition sync_events :: "'p manager_env \<Rightarrow> SandboxConnection \<Rightarrow> string \<Rightarrow> string \<Rightarrow> ('p, bool) sup_op" where
  "sync_events env c task_id conversation_id =
     andThen (ledger_read (event_source_cursor task_id conversation_id)) (\<lambda>after.
     sync_pages env c task_id conversation_id (me_pages env) after)"

section \<open>Cancellation, finalization and cleanup\<close>

definition finished_phase :: "TaskExecutionPhase \<Rightarrow> bool" where
  "finished_phase ph \<longleftrightarrow> ph \<in> {TP_COMPLETED, TP_FAILED}"

definition begin_finalizing :: "'p manager_env \<Rightarrow> string \<Rightarrow> ('p, unit) sup_op" where
  "begin_finalizing env task_id =
     andThen (ledger_call (update_reservation (me_now env) task_id RP_FINALIZING None (Some TS_FINALIZING))) (\<lambda>_. ret ())"

definition cancel_execution ::
  "'p manager_env \<Rightarrow> SandboxConnection \<Rightarrow> string \<Rightarrow> SupervisionRecord \<Rightarrow> ('p, unit) sup_op" where
  "cancel_execution env c task_id supervision =
     andThen (durable env) (\<lambda>_.
     andThen (if truthy (sv_conversation_id supervision)
        then andThen (http_call (h_cancel (me_http env) c (str_or (sv_conversation_id supervision) []))) (\<lambda>_. ret ())
        else ret ()) (\<lambda>_.
     andThen (get_execution env c (sv_execution_id supervision)) (\<lambda>record.
     if \<not> finished_phase (xr_phase record) then ret () else begin_finalizing env task_id)))"

fun fetch_manifest_with_retries ::
  "'p manager_env \<Rightarrow> SandboxConnection \<Rightarrow> string \<Rightarrow> nat \<Rightarrow> ('p, TaskResultManifest option) sup_op" where
  "fetch_manifest_with_retries env c execution_id 0 = ret None"
| "fetch_manifest_with_retries env c execution_id (Suc n) =
     andThen (try_manifest env c execution_id) (\<lambda>m.
     case m of Some x \<Rightarrow> ret (Some x) | None \<Rightarrow> fetch_manifest_with_retries env c execution_id n)"

definition terminal_from_manifest ::
  "TaskResultManifest option \<Rightarrow> bool \<Rightarrow> TaskState \<times> string option \<times> string option" where
  "terminal_from_manifest manifest cancelled =
     (if cancelled then (TS_CANCELLED, Some ''cancelled_by_request'', None)
      else case manifest of
        None \<Rightarrow> (TS_FAILED, Some ''missing_manifest'', None)
      | Some m \<Rightarrow>
          (let check = Some (CheckOutcome_value (tm_check_outcome m)) in
           if tm_agent_outcome m = AO_NO_CHANGES then (TS_COMPLETED, Some ''no_changes'', check)
           else if tm_agent_outcome m = AO_CANCELLED then (TS_CANCELLED, Some ''agent_cancelled'', check)
           else if tm_agent_outcome m \<in> {AO_FAILED, AO_TIMEOUT, AO_NOT_RUN}
           then (TS_FAILED, Some (str_or (tm_outcome_detail m) (AgentOutcome_value (tm_agent_outcome m))), check)
           else if tm_check_outcome m = CO_FAILED then (TS_FAILED, Some ''checks_failed'', check)
           else if tm_check_outcome m = CO_PASSED then (TS_COMPLETED, Some ''checks_passed'', check)
           else (TS_COMPLETED, tm_outcome_detail m, check)))"

definition sandbox_lost :: "'p manager_env \<Rightarrow> string \<Rightarrow> ('p, unit) sup_op" where
  "sandbox_lost env task_id =
     andThen (ledger_call (update_supervision (me_now env) task_id None None None None (Some True))) (\<lambda>_.
     andThen (ledger_call (finish_task (me_now env) task_id TS_FAILED
        (Some ''sandbox lost before finalization completed'') None)) (\<lambda>_.
     andThen (ledger_call (update_reservation (me_now env) task_id RP_TERMINATION_PENDING
        (Some ''sandbox lost; cleanup pending'') None)) (\<lambda>_. ret ())))"

definition sync_tail :: "'p manager_env \<Rightarrow> SandboxConnection \<Rightarrow> string \<Rightarrow> SupervisionRecord \<Rightarrow> ('p, unit) sup_op" where
  "sync_tail env c task_id supervision =
     (if truthy (sv_conversation_id supervision)
      then catch (andThen (sync_events env c task_id (str_or (sv_conversation_id supervision) [])) (\<lambda>_. ret ()))
             (\<lambda>e. if is_HTTPError e
                  then andThen (ledger_call (update_supervision (me_now env) task_id None None None None (Some True))) (\<lambda>_. ret ())
                  else raise e)
      else ret ())"

text \<open>Archival and settlement once the manifest was fetched or given up.\<close>

definition archived_manifest :: "'p manager_env \<Rightarrow> TaskResultManifest option \<Rightarrow> TaskResultManifest option" where
  "archived_manifest env fetched =
     (case (fetched, me_limits env) of
        (Some m, Some limits) \<Rightarrow> Some (fst (truncate_manifest m (sl_max_artifact_bytes limits)))
      | _ \<Rightarrow> fetched)"

definition archive_and_settle ::
  "'p manager_env \<Rightarrow> string \<Rightarrow> SupervisionRecord \<Rightarrow> TaskResultManifest option \<Rightarrow> ('p, unit) sup_op" where
  "archive_and_settle env task_id supervision fetched =
     (let manifest = archived_manifest env fetched;
          complete = (manifest \<noteq> None);
          (state0, outcome_detail, check_status) = terminal_from_manifest manifest (sv_cancel_requested supervision);
          state = (if state0 \<noteq> TS_CANCELLED then TS_IDLE else state0) in
      andThen (ledger_call (archive_task_result (me_now env) task_id (Some (sv_execution_id supervision)) manifest complete
         (if complete then None else Some ''manifest archival incomplete''))) (\<lambda>_.
      andThen (ledger_call (finish_task (me_now env) task_id state outcome_detail check_status)) (\<lambda>_.
      andThen (ledger_call (if state = TS_IDLE
         then update_reservation (me_now env) task_id RP_RUNNING None (Some TS_IDLE)
         else update_reservation (me_now env) task_id RP_TERMINATION_PENDING None None)) (\<lambda>_. ret ()))))"

definition finalize_connected ::
  "'p manager_env \<Rightarrow> SandboxConnection \<Rightarrow> string \<Rightarrow> SupervisionRecord \<Rightarrow> ('p, unit) sup_op" where
  "finalize_connected env c task_id supervision0 =
     andThen (refresh_supervision env c task_id supervision0) (\<lambda>supervision.
     andThen (sync_tail env c task_id supervision) (\<lambda>_.
     andThen (fetch_manifest_with_retries env c (sv_execution_id supervision) (me_attempts env)) (\<lambda>fetched.
     archive_and_settle env task_id supervision fetched)))"

text \<open>\<open>lifecycle.connect\<close> inside \<open>try ... except ModalLifecycleError\<close>.\<close>

definition try_connect :: "'p manager_env \<Rightarrow> string \<Rightarrow> ('p, error + SandboxConnection) sup_op" where
  "try_connect env task_id =
     catch (andThen (on_world (connect (me_life env) task_id)) (\<lambda>c. ret (Inr c)))
       (\<lambda>e. if is_ModalLifecycleError e then ret (Inl e) else raise e)"

definition finalize_locked :: "'p manager_env \<Rightarrow> string \<Rightarrow> ('p, unit) sup_op" where
  "finalize_locked env task_id =
     andThen (ledger_read (\<lambda>d. (get_task task_id None d, get_supervision task_id d))) (\<lambda>found.
     case found of
       (Some task, Some supervision) \<Rightarrow>
         if is_terminal (tr_state task) then attempt_cleanup env task_id
         else
           andThen (try_connect env task_id) (\<lambda>answer.
           case answer of
             Inl _ \<Rightarrow> sandbox_lost env task_id
           | Inr c \<Rightarrow> finalize_connected env c task_id supervision)
     | _ \<Rightarrow> ret ())"

text \<open>\<open>_settle_messages\<close>: the accepted messages get the sandbox's receipt, or fail.\<close>

definition settle_messages ::
  "'p manager_env \<Rightarrow> SandboxConnection \<Rightarrow> string \<Rightarrow> SupervisionRecord \<Rightarrow> ('p, unit) sup_op" where
  "settle_messages env c task_id supervision =
     (let failed = (\<lambda>r detail. r\<lparr>mr_status := MD_FAILED, mr_detail := Some detail, mr_updated_at := me_now env\<rparr>) in
      andThen (ledger_read (list_accepted_task_messages task_id)) (\<lambda>accepted.
      case sv_conversation_id supervision of
        None \<Rightarrow> for_each (\<lambda>r. ledger_call (save_task_message_receipt task_id
                  (failed r ''conversation unavailable before settlement''))) accepted
      | Some conversation_id \<Rightarrow> for_each (\<lambda>r.
          andThen (http_call (h_message (me_http env) c conversation_id (mr_id r))) (\<lambda>response.
          andThen (if rs_status response = 404 then ret (failed r ''no durable receipt before settlement'')
                   else of_sum (validated response)) (\<lambda>settled.
          ledger_call (save_task_message_receipt task_id settled)))) accepted))"

section \<open>The supervision loop\<close>

definition idle_since :: "TaskRecord \<Rightarrow> timestamp" where
  "idle_since task = coalesce_to (tr_workspace_last_activity_at task) (tr_updated_at task)"

text \<open>A finished execution: a follow-up, sleep after 45 idle minutes, or the transition to finalization.\<close>

definition after_execution ::
  "'p manager_env \<Rightarrow> SandboxConnection \<Rightarrow> TaskRecord \<Rightarrow> TaskExecutionRecord \<Rightarrow> ('p, unit) sup_op" where
  "after_execution env c task execution =
     (let task_id = tr_id task in
      andThen (ledger_read (get_task_result task_id)) (\<lambda>archive.
      if (case archive of Some a \<Rightarrow> ta_execution_id a = Some (xr_execution_id execution) | None \<Rightarrow> False)
      then andThen (ledger_read (list_accepted_task_messages task_id)) (\<lambda>pending.
           case pending of
             r # _ \<Rightarrow> start_followup env c task_id r
           | [] \<Rightarrow> if tr_state task = TS_IDLE \<and> me_now env - idle_since task \<ge> minutes 45
                    then sleep_workspace env task_id else ret ())
      else begin_finalizing env task_id))"

definition drive_connected :: "'p manager_env \<Rightarrow> SandboxConnection \<Rightarrow> TaskRecord \<Rightarrow> ('p, unit) sup_op" where
  "drive_connected env c task =
     (let task_id = tr_id task in
      andThen (ensure_execution_started env c task_id) (\<lambda>found.
      case found of
        None \<Rightarrow> ret ()
      | Some supervision \<Rightarrow>
          andThen (if truthy (sv_conversation_id supervision)
             then catch (andThen (sync_events env c task_id (str_or (sv_conversation_id supervision) [])) (\<lambda>_. ret ()))
                    (\<lambda>e. if is_HTTPError e then ret () else raise e)
             else ret ()) (\<lambda>_.
          andThen (get_execution env c (sv_execution_id supervision)) (\<lambda>execution0.
          andThen (if sv_cancel_requested supervision
             then andThen (cancel_execution env c task_id supervision) (\<lambda>_.
                  get_execution env c (sv_execution_id supervision))
             else ret execution0) (\<lambda>execution.
          if finished_phase (xr_phase execution) then after_execution env c task execution else ret ())))))"

definition drive_running :: "'p manager_env \<Rightarrow> string \<Rightarrow> ('p, unit) sup_op" where
  "drive_running env task_id =
     andThen (ledger_read (get_task task_id None)) (\<lambda>found.
     case found of
       None \<Rightarrow> ret ()
     | Some task \<Rightarrow>
         andThen (if tr_state task = TS_QUEUED
            then andThen (ledger_call (update_reservation (me_now env) task_id RP_RUNNING None (Some TS_RUNNING))) (\<lambda>_. ret ())
            else ret ()) (\<lambda>_.
         andThen (try_connect env task_id) (\<lambda>answer.
         case answer of
           Inl e \<Rightarrow> andThen (ledger_call (update_reservation (me_now env) task_id RP_RUNNING
                     (Some (''sandbox connect failed: '' @ exc_text (me_text env) e)) None)) (\<lambda>_. ret ())
         | Inr c \<Rightarrow> drive_connected env c task)))"

text \<open>One round of the loop; \<open>True\<close> when it goes round again.\<close>

definition supervise_round :: "'p manager_env \<Rightarrow> string \<Rightarrow> ('p, bool) sup_op" where
  "supervise_round env task_id =
     andThen (ledger_read (get_reservation task_id)) (\<lambda>reservation.
     case reservation of
       None \<Rightarrow> ret False
     | Some v \<Rightarrow>
         (case rv_phase v of
            RP_TERMINATION_PENDING \<Rightarrow> andThen (attempt_cleanup env task_id) (\<lambda>_. ret True)
          | RP_UNRESOLVED_CREATION \<Rightarrow> ret False
          | RP_FINALIZING \<Rightarrow> andThen (finalize_locked env task_id) (\<lambda>_. ret True)
          | RP_STARTING \<Rightarrow> ret True
          | RP_RUNNING \<Rightarrow> andThen (drive_running env task_id) (\<lambda>_. ret True)))"

fun supervise_rounds :: "'p manager_env list \<Rightarrow> string \<Rightarrow> ('p, bool) sup_op" where
  "supervise_rounds [] task_id = ret True"
| "supervise_rounds (env # envs) task_id =
     andThen (reading mg_stop) (\<lambda>stopped.
     if stopped then ret False
     else andThen (supervise_round env task_id) (\<lambda>again.
          if again then supervise_rounds envs task_id else ret False))"

definition loop_done :: "string \<Rightarrow> ('p, unit) sup_op" where
  "loop_done task_id s = (Inr (), s\<lparr>mg_loops := map (\<lambda>(i, b). (i, b \<or> i = task_id)) (mg_loops s)\<rparr>)"

text \<open>The loop task: \<open>last\<close> is the environment of the exception clause; \<open>False\<close> means that the task is done.\<close>

definition supervise :: "'p manager_env \<Rightarrow> 'p manager_env list \<Rightarrow> string \<Rightarrow> ('p, bool) sup_op" where
  "supervise last_env envs task_id =
     andThen (catch (supervise_rounds envs task_id)
        (\<lambda>e. catch (andThen (ledger_call (update_reservation (me_now last_env) task_id RP_RUNNING
               (Some (''supervision error: '' @ error_name e)) None)) (\<lambda>_. ret False))
             (\<lambda>e'. andThen (loop_done task_id) (\<lambda>_. raise e')))) (\<lambda>again.
     if again then ret True else andThen (loop_done task_id) (\<lambda>_. ret False))"

end
