(* ===== verification/Scheduler.thy ===== *)
theory Scheduler
  imports Supervision
begin

text \<open>
  \<open>backend/gg/runtime/scheduler.py\<close>: the single-host scheduler over the ledger, the sandbox lifecycle and the
  supervision manager.  One dispatch cycle reconciles every reservation with the provider, runs the
  maintenance sweep, resumes interrupted creations and then admits queued tasks in order while capacity
  lasts.  \<open>so_lock_free\<close> is the answer of \<open>flock\<close>, \<open>so_monotonic\<close> the monotonic clock.  The two loops of
  the cycle are bounded by the number of tasks and of queued tasks at their start; \<open>Scheduler_Props\<close> shows
  that the bounds are never reached.
\<close>

section \<open>State\<close>

record 'p scheduler_env =
  so_manager :: "'p manager_env"
  so_supervised :: bool
  so_capacity :: int
  so_admission_enabled :: bool
  so_limits :: "StorageLimits option"
  so_service :: service_env
  so_monotonic :: int
  so_lock_free :: bool
  so_lock_path :: string

record 'p scheduler =
  sd_manager :: "'p manager"
  sd_lock :: bool
  sd_stop :: bool
  sd_wake :: bool
  sd_loop :: bool
  sd_reconciled :: bool
  sd_last_maintenance :: "int option"
  sd_last_cycle_at :: "timestamp option"
  sd_last_error :: "string option"
  sd_blocked_reason :: "string option"

type_synonym ('p, 'a) sched_op = "('p scheduler, error, 'a) io"

abbreviation so_life :: "'p scheduler_env \<Rightarrow> 'p lifecycle_env" where
  "so_life env \<equiv> me_life (so_manager env)"

abbreviation so_now :: "'p scheduler_env \<Rightarrow> timestamp" where
  "so_now env \<equiv> le_now (so_life env)"

abbreviation so_text :: "'p scheduler_env \<Rightarrow> error \<Rightarrow> string" where
  "so_text env \<equiv> exc_text (me_text (so_manager env))"

abbreviation sd_db :: "'p scheduler \<Rightarrow> database" where
  "sd_db s \<equiv> mg_db (sd_manager s)"

definition new_scheduler :: "'p scheduler_env \<Rightarrow> 'p manager \<Rightarrow> error + 'p scheduler" where
  "new_scheduler env m =
     (if \<not> (1 \<le> so_capacity env \<and> so_capacity env \<le> 10)
      then Inl (ValueError ''scheduler capacity must be between 1 and 10'')
      else Inr \<lparr>sd_manager = m, sd_lock = False, sd_stop = False, sd_wake = False, sd_loop = False,
             sd_reconciled = False, sd_last_maintenance = None, sd_last_cycle_at = None, sd_last_error = None,
             sd_blocked_reason = None\<rparr>)"

definition on_manager :: "('p, 'a) sup_op \<Rightarrow> ('p, 'a) sched_op" where
  "on_manager m s = (let (r, x) = m (sd_manager s) in (r, s\<lparr>sd_manager := x\<rparr>))"

definition on_life :: "('p, 'a) life_op \<Rightarrow> ('p, 'a) sched_op" where
  "on_life m = on_manager (on_world m)"

definition s_ledger :: "'a ledger_op \<Rightarrow> ('p, 'a) sched_op" where
  "s_ledger m = on_manager (ledger_call m)"

definition s_read :: "(database \<Rightarrow> 'a) \<Rightarrow> ('p, 'a) sched_op" where
  "s_read f = reading (\<lambda>s. f (sd_db s))"

definition s_modify :: "('p scheduler \<Rightarrow> 'p scheduler) \<Rightarrow> ('p, unit) sched_op" where
  "s_modify f s = (Inr (), f s)"

text \<open>The call \<open>update_reservation\<close> with a phase and a condition only.\<close>

definition set_phase :: "'p scheduler_env \<Rightarrow> string \<Rightarrow> ReservationPhase \<Rightarrow> string option \<Rightarrow> TaskState option \<Rightarrow> ('p, unit) sched_op" where
  "set_phase env task_id phase condition task_state =
     andThen (s_ledger (update_reservation (so_now env) task_id phase condition task_state)) (\<lambda>_. ret ())"

definition release :: "'p scheduler_env \<Rightarrow> string \<Rightarrow> ('p, unit) sched_op" where
  "release env task_id = s_ledger (release_reservation (so_now env) task_id ''confirmed_absent'')"

section \<open>Lock\<close>

definition default_lock_path :: "(string \<Rightarrow> string) \<Rightarrow> string \<Rightarrow> string \<Rightarrow> string" where
  "default_lock_path digest tmp deployment = tmp @ ''/gg-dispatch-'' @ take 16 (digest deployment) @ ''.lock''"

definition acquire :: "'p scheduler_env \<Rightarrow> ('p, unit) sched_op" where
  "acquire env s =
     (if sd_lock s then (Inr (), s)
      else if so_lock_free env then (Inr (), s\<lparr>sd_lock := True\<rparr>)
      else (Inl (RuntimeError (''deployment dispatch is already owned; lock='' @ so_lock_path env)), s))"

definition release_lock :: "'p scheduler \<Rightarrow> 'p scheduler" where
  "release_lock s = s\<lparr>sd_lock := False\<rparr>"

definition owns_dispatch_lock :: "'p scheduler \<Rightarrow> bool" where
  "owns_dispatch_lock s = sd_lock s"

section \<open>Provisioning and termination\<close>

definition provision_failed :: "'p scheduler_env \<Rightarrow> string \<Rightarrow> error \<Rightarrow> ('p, SandboxSnapshot option) sched_op" where
  "provision_failed env task_id e =
     (case e of
        CredentialUnavailableError m \<Rightarrow>
          andThen (s_ledger (finish_task (so_now env) task_id TS_FAILED (Some m) None)) (\<lambda>_.
          andThen (release env task_id) (\<lambda>_. ret None))
      | AmbiguousProviderStateError m \<Rightarrow>
          andThen (set_phase env task_id RP_UNRESOLVED_CREATION (Some m) None) (\<lambda>_. ret None)
      | _ \<Rightarrow>
          if is_ModalLifecycleError e
          then andThen (set_phase env task_id RP_UNRESOLVED_CREATION (Some (''provisioning failed: '' @ so_text env e)) None)
                 (\<lambda>_. ret None)
          else raise e)"

definition provision :: "'p scheduler_env \<Rightarrow> string \<Rightarrow> ('p, unit) sched_op" where
  "provision env task_id =
     andThen (on_life (durable_barrier (so_life env))) (\<lambda>_.
     andThen (catch (andThen (on_life (create (so_life env) task_id)) (\<lambda>x. ret (Some x))) (provision_failed env task_id)) (\<lambda>answer.
     case answer of
       None \<Rightarrow> ret ()
     | Some snap \<Rightarrow>
         if ss_state snap = SP_RUNNING then set_phase env task_id RP_RUNNING None (Some TS_RUNNING)
         else set_phase env task_id RP_UNRESOLVED_CREATION
                (Some (str_or (ss_detail snap) ''provisioning did not establish running'')) None))"

definition terminate_reserved :: "'p scheduler_env \<Rightarrow> string \<Rightarrow> ('p, unit) sched_op" where
  "terminate_reserved env task_id =
     andThen (catch (andThen (on_life (terminate (so_life env) task_id)) (\<lambda>x. ret (Some x)))
        (\<lambda>e. if is_ModalLifecycleError e
             then andThen (set_phase env task_id RP_TERMINATION_PENDING (Some (''termination unresolved: '' @ so_text env e)) None)
                    (\<lambda>_. ret None)
             else raise e)) (\<lambda>answer.
     case answer of
       None \<Rightarrow> ret ()
     | Some snap \<Rightarrow>
         if ss_state snap = SP_STOPPED then release env task_id
         else set_phase env task_id RP_TERMINATION_PENDING (Some (str_or (ss_detail snap) ''termination is not confirmed'')) None)"

section \<open>Reconciliation\<close>

text \<open>The provider says that the sandbox is gone.\<close>

definition reconcile_stopped ::
  "'p scheduler_env \<Rightarrow> ReservationRecord \<Rightarrow> SandboxCreationRecord \<Rightarrow> SandboxSnapshot \<Rightarrow> ('p, unit) sched_op" where
  "reconcile_stopped env reservation creation snap =
     (let i = rv_task_id reservation in
      andThen (s_read (\<lambda>d. (get_task i None d, get_task_result i d, get_supervision i d))) (\<lambda>(task, result, supervision).
      if rv_phase reservation = RP_TERMINATION_PENDING \<or> (case task of Some t \<Rightarrow> tr_state t = TS_SLEEPING | None \<Rightarrow> False)
      then release env i
      else if sc_provider_id creation = None \<or> (rv_phase reservation = RP_STARTING \<and> result \<noteq> None)
      then set_phase env i RP_STARTING None None
      else if supervision \<noteq> None
      then andThen (s_ledger (finish_task (so_now env) i TS_SLEEPING
             (Some ''workspace VM stopped; send a message to resume'') None)) (\<lambda>_. release env i)
      else s_ledger (mark_sandbox_lost (so_now env) i (str_or (ss_detail snap) ''sandbox was confirmed lost''))))"

text \<open>The provider says that the sandbox runs or is being created.\<close>

definition reconcile_alive :: "'p scheduler_env \<Rightarrow> ReservationRecord \<Rightarrow> ('p, unit) sched_op" where
  "reconcile_alive env reservation =
     (let i = rv_task_id reservation in
      if rv_phase reservation = RP_TERMINATION_PENDING then terminate_reserved env i
      else
        andThen (s_read (get_task i None)) (\<lambda>task.
        if rv_phase reservation = RP_FINALIZING then set_phase env i RP_FINALIZING None (Some TS_FINALIZING)
        else set_phase env i RP_RUNNING None
               (Some (case task of Some t \<Rightarrow> if tr_state t \<in> {TS_IDLE, TS_SLEEPING} then tr_state t else TS_RUNNING
                                 | None \<Rightarrow> TS_RUNNING))))"

definition reconcile_failed :: "'p scheduler_env \<Rightarrow> string \<Rightarrow> error \<Rightarrow> ('p, SandboxSnapshot option) sched_op" where
  "reconcile_failed env i e =
     (let unresolved_phase = (\<lambda>m. andThen (set_phase env i RP_UNRESOLVED_CREATION (Some m) None) (\<lambda>_. ret None)) in
      case e of
        ConflictingSandboxesError m \<Rightarrow> unresolved_phase (''conflicting provider identity: '' @ m)
      | _ \<Rightarrow> if is_ModalLifecycleError e
              then unresolved_phase (''provider reconciliation failed: '' @ so_text env e) else raise e)"

definition apply_snapshot ::
  "'p scheduler_env \<Rightarrow> ReservationRecord \<Rightarrow> SandboxCreationRecord \<Rightarrow> SandboxSnapshot \<Rightarrow> ('p, unit) sched_op" where
  "apply_snapshot env reservation0 creation snap =
     andThen (s_read (get_reservation (rv_task_id reservation0))) (\<lambda>current.
     case current of
       None \<Rightarrow> ret ()
     | Some reservation \<Rightarrow>
         if rv_reserved_at reservation \<noteq> rv_reserved_at reservation0 then ret ()
         else if ss_state snap = SP_UNKNOWN
         then set_phase env (rv_task_id reservation) RP_UNRESOLVED_CREATION
                (Some (str_or (ss_detail snap) ''provider state is unknown'')) None
         else if ss_state snap = SP_STOPPED then reconcile_stopped env reservation creation snap
         else reconcile_alive env reservation)"

definition reconcile_one :: "'p scheduler_env \<Rightarrow> ReservationRecord \<Rightarrow> ('p, unit) sched_op" where
  "reconcile_one env reservation =
     (let i = rv_task_id reservation in
      andThen (s_read (get_sandbox_creation i)) (\<lambda>found.
      case found of
        None \<Rightarrow>
          if rv_phase reservation = RP_TERMINATION_PENDING then release env i
          else set_phase env i RP_STARTING None None
      | Some creation \<Rightarrow>
          andThen (catch (andThen (on_life (reconnect (so_life env) i)) (\<lambda>x. ret (Some x))) (reconcile_failed env i)) (\<lambda>answer.
          case answer of None \<Rightarrow> ret () | Some snap \<Rightarrow> apply_snapshot env reservation creation snap)))"

definition reconcile :: "'p scheduler_env \<Rightarrow> ('p, unit) sched_op" where
  "reconcile env =
     andThen (s_ledger (settle_successful_tasks (so_now env))) (\<lambda>_.
     andThen (s_read list_reservations) (\<lambda>reservations.
     andThen (for_each (reconcile_one env) reservations) (\<lambda>_.
     andThen (on_life (durable_barrier (so_life env))) (\<lambda>_.
     s_modify (\<lambda>s. s\<lparr>sd_reconciled := True\<rparr>)))))"

section \<open>The dispatch cycle\<close>

definition expire_candidate :: "'p scheduler_env \<Rightarrow> TaskRecord \<Rightarrow> ('p, unit) sched_op" where
  "expire_candidate env task =
     (if so_supervised env then on_manager (expire_sleeping_workspace (so_manager env) (tr_id task))
      else andThen (on_life (delete_workspace (so_life env) (tr_id task))) (\<lambda>_.
           s_ledger (expire_workspace (tr_id task))))"

text \<open>The paged sweep over sleeping workspaces; \<open>True\<close> when an empty page ended it.\<close>

fun sweep_sleeping :: "'p scheduler_env \<Rightarrow> nat \<Rightarrow> nat \<Rightarrow> ('p, bool) sched_op" where
  "sweep_sleeping env 0 after_seq = ret False"
| "sweep_sleeping env (Suc n) after_seq =
     andThen (s_read (sleeping_workspace_candidates (so_now env - days 7) after_seq 200)) (\<lambda>page.
     case page of
       Inl e \<Rightarrow> raise e
     | Inr candidates \<Rightarrow>
         if candidates = [] then ret True
         else andThen (for_each (expire_candidate env) candidates) (\<lambda>_.
              sweep_sleeping env n (tr_seq (last candidates))))"

definition maintenance :: "'p scheduler_env \<Rightarrow> ('p, unit) sched_op" where
  "maintenance env =
     andThen (reading sd_last_maintenance) (\<lambda>last.
     if (case last of None \<Rightarrow> True | Some t \<Rightarrow> so_monotonic env - t \<ge> minutes 1)
     then andThen (s_read (\<lambda>d. length (tasks d))) (\<lambda>n.
          andThen (sweep_sleeping env (Suc n) 0) (\<lambda>_.
          andThen (case so_limits env of
              None \<Rightarrow> ret ()
            | Some limits \<Rightarrow> andThen (s_ledger (run_retention_pass limits (so_now env))) (\<lambda>_. ret ())) (\<lambda>_.
          s_modify (\<lambda>s. s\<lparr>sd_last_maintenance := Some (so_monotonic env)\<rparr>))))
     else ret ())"

text \<open>
  Resume the reservations whose creation was interrupted; \<open>False\<close> when the scheduler was stopped meanwhile.
\<close>

fun resume_starting :: "'p scheduler_env \<Rightarrow> ReservationRecord list \<Rightarrow> ('p, bool) sched_op" where
  "resume_starting env [] = ret True"
| "resume_starting env (v # vs) =
     (if rv_phase v \<noteq> RP_STARTING then resume_starting env vs
      else andThen (provision env (rv_task_id v)) (\<lambda>_.
           andThen (reading sd_stop) (\<lambda>stopped.
           if stopped then ret False else resume_starting env vs)))"

text \<open>The admission loop; \<open>True\<close> when it ended because nothing could be reserved or the scheduler was stopped.\<close>

fun admit_loop :: "'p scheduler_env \<Rightarrow> nat \<Rightarrow> ('p, bool) sched_op" where
  "admit_loop env 0 = ret False"
| "admit_loop env (Suc n) =
     andThen (reading sd_stop) (\<lambda>stopped.
     if stopped then ret True
     else andThen (s_ledger (reserve_next (so_now env) (so_capacity env))) (\<lambda>task.
          case task of
            None \<Rightarrow> ret True
          | Some t \<Rightarrow> andThen (provision env (tr_id t)) (\<lambda>_. admit_loop env n)))"

definition set_blocked :: "string option \<Rightarrow> ('p, unit) sched_op" where
  "set_blocked reason = s_modify (\<lambda>s. s\<lparr>sd_blocked_reason := reason\<rparr>)"

definition admit :: "'p scheduler_env \<Rightarrow> ('p, unit) sched_op" where
  "admit env =
     andThen (s_read list_reservations) (\<lambda>reservations.
     if \<exists>v \<in> set reservations. rv_phase v = RP_UNRESOLVED_CREATION
     then set_blocked (Some ''provider reconciliation incomplete'')
     else
       andThen (s_read count_queued) (\<lambda>queued.
       if queued = 0 then ret ()
       else
         andThen (s_read (\<lambda>d. case so_limits env of None \<Rightarrow> None | Some l \<Rightarrow> admission_pressure (so_service env) l d)) (\<lambda>pressure.
         case pressure of
           Some reason \<Rightarrow> set_blocked (Some reason)
         | None \<Rightarrow> andThen (admit_loop env (Suc queued)) (\<lambda>_. ret ()))))"

text \<open>The durability barrier at the start of a cycle.\<close>

definition cycle_barrier :: "'p scheduler_env \<Rightarrow> ('p, unit) sched_op" where
  "cycle_barrier env =
     catch (on_life (durable_barrier (so_life env)))
       (\<lambda>e. andThen (set_blocked (Some ''state persistence unavailable'')) (\<lambda>_. raise e))"

definition dispatch_once :: "'p scheduler_env \<Rightarrow> ('p, unit) sched_op" where
  "dispatch_once env =
     andThen (cycle_barrier env) (\<lambda>_.
     andThen (set_blocked None) (\<lambda>_.
     andThen (reconcile env) (\<lambda>_.
     andThen (maintenance env) (\<lambda>_.
     andThen (reading sd_stop) (\<lambda>stopped.
     if \<not> so_admission_enabled env \<or> stopped then ret ()
     else
       andThen (if so_supervised env then on_manager sync_reserved_tasks else ret ()) (\<lambda>_.
       andThen (s_read list_reservations) (\<lambda>reservations.
       andThen (resume_starting env reservations) (\<lambda>on.
       if on then admit env else ret ()))))))))"

section \<open>Lifespan\<close>

text \<open>One turn of \<open>_run\<close>: a failed cycle is recorded and retried.\<close>

definition run_cycle :: "'p scheduler_env \<Rightarrow> ('p, unit) sched_op" where
  "run_cycle env =
     andThen (reading sd_stop) (\<lambda>stopped.
     if stopped then s_modify (\<lambda>s. s\<lparr>sd_loop := False\<rparr>)
     else
       andThen (catch (andThen (dispatch_once env) (\<lambda>_. s_modify (\<lambda>s. s\<lparr>sd_last_error := None\<rparr>)))
          (\<lambda>e. s_modify (\<lambda>s. s\<lparr>sd_last_error := Some (error_name e)\<rparr>))) (\<lambda>_.
       s_modify (\<lambda>s. s\<lparr>sd_last_cycle_at := Some (so_now env), sd_wake := False\<rparr>)))"

definition scheduler_start :: "'p scheduler_env \<Rightarrow> ('p, unit) sched_op" where
  "scheduler_start env =
     andThen (acquire env) (\<lambda>_.
     andThen (catch (reconcile env) (\<lambda>e. andThen (s_modify release_lock) (\<lambda>_. raise e))) (\<lambda>_.
     s_modify (\<lambda>s. s\<lparr>sd_loop := True\<rparr>)))"

definition scheduler_wake :: "('p, unit) sched_op" where
  "scheduler_wake = s_modify (\<lambda>s. s\<lparr>sd_wake := True\<rparr>)"

definition detach_one :: "'p scheduler_env \<Rightarrow> ReservationRecord \<Rightarrow> ('p, unit) sched_op" where
  "detach_one env reservation =
     (let i = rv_task_id reservation; phase = rv_phase reservation in
      andThen (s_read (get_sandbox_creation i)) (\<lambda>creation.
      if creation = None then ret ()
      else catch
        (andThen (on_life (detach (so_life env) i)) (\<lambda>snap.
         if ss_state snap = SP_STOPPED
         then (if phase = RP_TERMINATION_PENDING then release env i
               else s_ledger (mark_sandbox_lost (so_now env) i
                      (str_or (ss_detail snap) ''sandbox was confirmed lost during shutdown'')))
         else if ss_state snap = SP_UNKNOWN
         then set_phase env i phase (Some (str_or (ss_detail snap) ''detach state is unknown'')) None
         else ret ()))
        (\<lambda>e. if is_ModalLifecycleError e then set_phase env i phase (Some (''detach unresolved: '' @ so_text env e)) None
             else raise e)))"

definition scheduler_stop :: "'p scheduler_env \<Rightarrow> ('p, unit) sched_op" where
  "scheduler_stop env =
     andThen (s_modify (\<lambda>s. s\<lparr>sd_stop := True, sd_wake := True\<rparr>)) (\<lambda>_.
     try_finally
       (andThen (s_modify (\<lambda>s. s\<lparr>sd_loop := False\<rparr>)) (\<lambda>_.
        andThen (s_read list_reservations) (for_each (detach_one env))))
       release_lock)"

section \<open>Status\<close>

record DispatchCondition =
  dc_task_id :: string
  dc_phase :: ReservationPhase
  dc_detail :: string

record DispatchStatus =
  ds_enabled :: bool
  ds_reconciled :: bool
  ds_capacity :: int
  ds_reserved :: nat
  ds_pending :: nat
  ds_running :: bool
  ds_last_cycle_at :: "timestamp option"
  ds_last_error :: "string option"
  ds_blocked_reason :: "string option"
  ds_disabled_reason :: "string option"
  ds_conditions :: "DispatchCondition list"

definition dispatch_conditions :: "ReservationRecord list \<Rightarrow> DispatchCondition list" where
  "dispatch_conditions vs = List.map_filter (\<lambda>v. map_option (\<lambda>c.
     \<lparr>dc_task_id = rv_task_id v, dc_phase = rv_phase v, dc_detail = c\<rparr>) (rv_condition v)) vs"

definition scheduler_status :: "'p scheduler_env \<Rightarrow> 'p scheduler \<Rightarrow> DispatchStatus" where
  "scheduler_status env s =
     (let reservations = list_reservations (sd_db s) in
      \<lparr>ds_enabled = so_admission_enabled env, ds_reconciled = sd_reconciled s, ds_capacity = so_capacity env,
       ds_reserved = length reservations, ds_pending = count_queued (sd_db s),
       ds_running = (sd_loop s \<and> \<not> sd_stop s), ds_last_cycle_at = sd_last_cycle_at s,
       ds_last_error = sd_last_error s, ds_blocked_reason = sd_blocked_reason s,
       ds_disabled_reason = (if so_admission_enabled env then None else Some ''dispatch disabled''),
       ds_conditions = dispatch_conditions reservations\<rparr>)"

end
