(* ===== verification/Supervision_Props.thy ===== *)
theory Supervision_Props
  imports Supervision Lifecycle_Props
begin

text \<open>
  What the supervision manager guarantees.  The locale \<open>reservation_relation\<close> names the reservation
  methods of the ledger that manager and scheduler share (\<open>phase_relation\<close> those that give nothing back), \<open>supervision_relation\<close> adds those of the
  manager alone; inside them every operation is shown to keep a relation its ledger calls
  keep.  Further sections: what finalization settles, when a reservation is given back, and the
  completeness of event synchronisation against a sandbox that serves its log.
\<close>

section \<open>Interfaces to the ledger\<close>

text \<open>A relation on a part of the state.\<close>

definition seen :: "('s \<Rightarrow> 't) \<Rightarrow> ('t \<Rightarrow> 't \<Rightarrow> bool) \<Rightarrow> 's \<Rightarrow> 's \<Rightarrow> bool" where
  "seen f R s s' \<longleftrightarrow> R (f s) (f s')"

locale phase_relation = lifecycle_relation +
  assumes kept_update_reservation: "sto \<noteq> Some TS_QUEUED \<Longrightarrow> keeps R (update_reservation now i ph c sto)"
    and kept_finish: "st \<noteq> TS_QUEUED \<Longrightarrow> keeps R (finish_task now i st od cs)"

locale reservation_relation = phase_relation +
  assumes kept_release: "keeps R (release_reservation now i cl)"

locale supervision_relation = reservation_relation +
  assumes kept_begin_supervision: "keeps R (begin_supervision now i e tb k cv)"
    and kept_update_supervision: "keeps R (update_supervision now i eo ko cv cr tg)"
    and kept_save_receipt: "keeps R (save_task_message_receipt i r)"
    and kept_touch: "keeps R (touch_workspace now later i)"
    and kept_queue_message: "keeps R (queue_workspace_message now i)"
    and kept_mark_sleeping: "keeps R (try_mark_sleeping now i)"
    and kept_expire_workspace: "keeps R (expire_workspace i)"
    and kept_begin_publication: "keeps R (begin_publication now i repo tb br tm csh co ao pub det)"
    and kept_copy_page: "keeps R (copy_task_event_page eb fresh now i src evs mx)"
    and kept_archive: "keeps R (archive_task_result now i eo m c det)"

context lifecycle_relation
begin

sublocale managers: kept_relation "seen mg_db R"
  by unfold_locales (auto simp: seen_def intro: kept_refl kept_trans)

lemma kept_world: "keeps (between R) m \<Longrightarrow> keeps (seen mg_db R) (on_world m)"
  by (simp add: keeps_def seen_def between_def on_world_def split_beta Let_def)

lemma kept_ledger_call: "keeps R m \<Longrightarrow> keeps (seen mg_db R) (ledger_call m)"
  unfolding ledger_call_def by (intro kept_world kept_on_ledger)

lemma kept_ledger_read: "keeps (seen mg_db R) (ledger_read f)"
  by (simp add: ledger_read_def managers.keeps_reading)

lemma kept_of_sum: "keeps (seen mg_db R) (of_sum x)"
  by (auto simp: of_sum_def managers.keeps_ret managers.keeps_raise split: sum.splits)

lemma kept_http: "keeps (seen mg_db R) (http_call f)"
  unfolding http_call_def by (intro managers.keeps_andThen kept_world kept_on_provider kept_of_sum)

lemma kept_durable_call: "keeps (seen mg_db R) (durable env)"
  unfolding durable_def by (intro kept_world kept_durable)

lemma kept_same: "(\<And>s. mg_db (snd (m s)) = mg_db s) \<Longrightarrow> keeps (seen mg_db R) m"
  by (simp add: keeps_def seen_def kept_refl)

lemma kept_ensure: "keeps (seen mg_db R) (ensure_supervised i)"
  by (rule kept_same) (simp add: ensure_supervised_def)

lemma kept_fan_out: "keeps (seen mg_db R) (fan_out i c)"
  by (rule kept_same) (simp add: fan_out_def)

lemma kept_loop_done: "keeps (seen mg_db R) (loop_done i)"
  by (rule kept_same) (simp add: loop_done_def)

lemmas manager_basics = managers.keeps_rules kept_ledger_read kept_of_sum kept_http kept_durable_call
  kept_ensure kept_fan_out kept_loop_done

lemma kept_client: "keeps (seen mg_db R) (client_start env c q t)" "keeps (seen mg_db R) (get_execution env c x)"
  "keeps (seen mg_db R) (get_manifest env c x)"
  unfolding client_start_def get_execution_def get_manifest_def by (auto intro!: manager_basics)

lemma kept_try_manifest: "keeps (seen mg_db R) (try_manifest env c x)"
  unfolding try_manifest_def by (auto intro!: manager_basics kept_client)

lemma kept_fetch: "keeps (seen mg_db R) (fetch_manifest_with_retries env c x n)"
  by (induction n) (auto intro!: manager_basics kept_try_manifest split: option.splits)

lemma kept_token: "keeps (seen mg_db R) (fresh_github_token env t)"
  unfolding fresh_github_token_def by (auto intro!: manager_basics split: option.splits sum.splits prod.splits)

lemma kept_authorize_message: "keeps (seen mg_db R) (authorize_message env t)"
  unfolding authorize_message_def by (auto intro!: manager_basics split: option.splits sum.splits)

lemma kept_try_connect: "keeps (seen mg_db R) (try_connect env i)"
  unfolding try_connect_def by (auto intro!: manager_basics kept_world kept_connect)

lemma kept_sync_reserved: "keeps (seen mg_db R) sync_reserved_tasks"
  unfolding sync_reserved_tasks_def by (auto intro!: manager_basics)

end

context phase_relation
begin

lemma kept_finalizing: "keeps (seen mg_db R) (begin_finalizing env i)"
  unfolding begin_finalizing_def by (auto intro!: manager_basics kept_ledger_call kept_update_reservation)

lemma kept_cancel_execution: "keeps (seen mg_db R) (cancel_execution env c i sv)"
  unfolding cancel_execution_def by (auto intro!: manager_basics kept_client kept_finalizing)

end

context reservation_relation
begin

lemma kept_cleanup: "keeps (seen mg_db R) (attempt_cleanup env i)"
  unfolding attempt_cleanup_def Let_def
  by (auto intro!: manager_basics kept_world kept_terminate kept_ledger_call kept_update_reservation kept_release split: sum.splits)

lemma kept_fail_start: "keeps (seen mg_db R) (fail_execution_start env i det)"
  unfolding fail_execution_start_def
  by (auto intro!: manager_basics kept_cleanup kept_ledger_call kept_update_reservation kept_finish)

lemma kept_start_failed: "keeps (seen mg_db R) (start_failed env i e)"
  unfolding start_failed_def Let_def
  by (auto intro!: manager_basics kept_fail_start kept_ledger_call kept_update_reservation split: error.splits option.splits)

end

context supervision_relation
begin

lemmas ledger_calls = kept_ledger_call kept_update_reservation kept_finish kept_release kept_begin_supervision
  kept_update_supervision kept_save_receipt kept_touch kept_queue_message kept_mark_sleeping kept_expire_workspace
  kept_begin_publication kept_copy_page kept_archive kept_base_sha

lemma kept_expire_locked: "keeps (seen mg_db R) (expire_sleeping_locked env t)"
  unfolding expire_sleeping_locked_def Let_def by (auto intro!: manager_basics ledger_calls kept_world kept_delete)

lemma kept_expire_sleeping: "keeps (seen mg_db R) (expire_sleeping_workspace env i)"
  unfolding expire_sleeping_workspace_def by (auto intro!: manager_basics kept_expire_locked split: option.splits)

lemma kept_accept: "keeps (seen mg_db R) (accept_message env i m)"
  unfolding accept_message_def by (auto intro!: manager_basics ledger_calls split: option.splits)

lemma kept_send: "keeps (seen mg_db R) (send_task_message env i k c)"
  unfolding send_task_message_def
  by (auto intro!: manager_basics kept_authorize_message kept_expire_locked kept_accept split: option.splits)

lemma kept_sleep_failed: "keeps (seen mg_db R) (sleep_failed env i e)"
  unfolding sleep_failed_def by (auto intro!: manager_basics ledger_calls split: option.splits)

lemma kept_sleep: "keeps (seen mg_db R) (sleep_workspace env i)"
  unfolding sleep_workspace_def
  by (auto intro!: manager_basics ledger_calls kept_world kept_sync kept_terminate kept_sleep_failed)

lemma kept_authorize: "keeps (seen mg_db R) (authorize_execution env t b)"
  unfolding authorize_execution_def by (auto intro!: manager_basics ledger_calls split: option.splits)

lemma kept_started: "keeps (seen mg_db R) (started_execution env c t x)"
  unfolding started_execution_def by (auto intro!: manager_basics ledger_calls kept_try_manifest split: option.splits)

lemma kept_start_execution: "keeps (seen mg_db R) (start_execution_of env c t)"
  unfolding start_execution_of_def Let_def
  by (auto intro!: manager_basics ledger_calls kept_fail_start kept_authorize kept_token kept_client kept_start_failed
      kept_started split: option.splits prod.splits)

lemma kept_followup_refused: "keeps (seen mg_db R) (followup_refused env i m det)"
  unfolding followup_refused_def by (auto intro!: manager_basics ledger_calls)

lemma kept_deliver: "keeps (seen mg_db R) (deliver_followup env c t sv m tok)"
  unfolding deliver_followup_def Let_def
  by (auto intro!: manager_basics ledger_calls kept_authorize kept_client split: prod.splits)

lemma kept_followup: "keeps (seen mg_db R) (start_followup env c i m)"
  unfolding start_followup_def
  by (auto intro!: manager_basics kept_token kept_followup_refused kept_deliver split: option.splits prod.splits sum.splits)

lemma kept_refresh: "keeps (seen mg_db R) (refresh_supervision env c i sv)"
  unfolding refresh_supervision_def by (auto intro!: manager_basics ledger_calls kept_client split: option.splits)

lemma kept_current: "keeps (seen mg_db R) (current_supervision env c t sv)"
  unfolding current_supervision_def Let_def
  by (auto intro!: manager_basics kept_start_execution kept_followup kept_client
      split: option.splits list.splits error.splits)

lemma kept_ensure_started: "keeps (seen mg_db R) (ensure_execution_started env c i)"
  unfolding ensure_execution_started_def by (auto intro!: manager_basics kept_current kept_refresh split: option.splits)

lemma kept_page: "keeps (seen mg_db R) (copy_page env i cv es)"
  unfolding copy_page_def by (auto intro!: manager_basics ledger_calls split: prod.splits)

lemma kept_sync_pages: "keeps (seen mg_db R) (sync_pages env c i cv n after)"
  by (induction n arbitrary: after) (auto intro!: manager_basics kept_page split: list.splits)

lemma kept_sync_events: "keeps (seen mg_db R) (sync_events env c i cv)"
  unfolding sync_events_def by (auto intro!: manager_basics kept_sync_pages)

lemma kept_lost: "keeps (seen mg_db R) (sandbox_lost env i)"
  unfolding sandbox_lost_def by (auto intro!: manager_basics ledger_calls)

lemma kept_tail: "keeps (seen mg_db R) (sync_tail env c i sv)"
  unfolding sync_tail_def by (auto intro!: manager_basics ledger_calls kept_sync_events)

lemma terminal_not_queued: "fst (terminal_from_manifest m b) \<noteq> TS_QUEUED"
  by (auto simp: terminal_from_manifest_def Let_def split: option.splits)

lemma kept_settle: "keeps (seen mg_db R) (archive_and_settle env i sv m)"
  unfolding archive_and_settle_def Let_def split_beta
  by (auto intro!: manager_basics ledger_calls simp: terminal_not_queued)

lemma kept_finalize: "keeps (seen mg_db R) (finalize_locked env i)"
  unfolding finalize_locked_def finalize_connected_def
  by (auto intro!: manager_basics kept_cleanup kept_try_connect kept_lost kept_refresh kept_tail kept_fetch kept_settle
      split: option.splits prod.splits sum.splits)

lemma kept_settle_messages: "keeps (seen mg_db R) (settle_messages env c i sv)"
  unfolding settle_messages_def Let_def by (auto intro!: manager_basics ledger_calls split: option.splits)

lemma kept_after: "keeps (seen mg_db R) (after_execution env c t x)"
  unfolding after_execution_def Let_def
  by (auto intro!: manager_basics kept_followup kept_sleep kept_finalizing split: option.splits list.splits)

lemma kept_drive: "keeps (seen mg_db R) (drive_running env i)"
  unfolding drive_running_def drive_connected_def Let_def
  by (auto intro!: manager_basics ledger_calls kept_try_connect kept_ensure_started kept_sync_events kept_client
      kept_cancel_execution kept_after split: option.splits sum.splits)

lemma kept_round: "keeps (seen mg_db R) (supervise_round env i)"
  unfolding supervise_round_def
  by (auto intro!: manager_basics kept_cleanup kept_finalize kept_drive split: option.splits ReservationPhase.splits)

lemma kept_rounds: "keeps (seen mg_db R) (supervise_rounds envs i)"
  by (induction envs) (auto intro!: manager_basics kept_round)

lemma kept_supervise: "keeps (seen mg_db R) (supervise env envs i)"
  unfolding supervise_def by (auto intro!: manager_basics ledger_calls kept_rounds)

end

section \<open>When a reservation is given back\<close>

definition same_slots :: "database \<Rightarrow> database \<Rightarrow> bool" where
  "same_slots d d' \<longleftrightarrow> map rv_task_id (task_reservations d') = map rv_task_id (task_reservations d)"

interpretation slots_kept: transactional_relation same_slots
  by unfold_locales (auto simp: same_slots_def)

lemma same_slotsI: "task_reservations d' = task_reservations d \<Longrightarrow> same_slots d d'"
  by (simp add: same_slots_def)

lemma same_slots_update:
  "(\<And>r. rv_task_id (f r) = rv_task_id r) \<Longrightarrow> task_reservations d' = sql_update P f (task_reservations d) \<Longrightarrow> same_slots d d'"
  by (simp add: same_slots_def sql_simps)

interpretation phase_slots: phase_relation same_slots
proof (unfold_locales, goal_cases)
  case (1 now i pid st det)
  show ?case unfolding update_sandbox_creation_def
    by (rule slots_kept.keeps_andThen, rule slots_kept.keeps_db_write_skip, rule same_slotsI)
      (auto simp: Let_def slots_kept.keeps_rules split: option.splits)
next
  case (2 now i dep n tg k v)
  show ?case unfolding begin_sandbox_creation_def insert_creation_def
    by (rule slots_kept.keeps_db_write, rule same_slotsI) (auto simp del: exists_row_iff split: if_splits option.splits)
next
  case (3 i v)
  show ?case unfolding set_sandbox_credential_version_def
    by (rule slots_kept.keeps_andThen, rule slots_kept.keeps_db_write, rule same_slotsI)
      (auto simp: Let_def slots_kept.keeps_rules split: if_splits option.splits)
next
  case (4 now i)
  show ?case unfolding reset_sandbox_for_wake_def by (rule slots_kept.keeps_db_write, rule same_slotsI) auto
next
  case (5 now i sha)
  show ?case unfolding record_base_sha_def
    by (rule slots_kept.keeps_db_write, rule same_slotsI) (auto simp: Let_def split: if_splits option.splits)
next
  case (6 sto now i ph c)
  show ?case unfolding update_reservation_def
    by (rule slots_kept.keeps_db_write,
        rule same_slots_update [where P = "\<lambda>r. rv_task_id r = i" and
          f = "\<lambda>r. r\<lparr>rv_phase := ph, rv_condition := c, rv_updated_at := now\<rparr>"])
      (auto simp: Let_def split: if_splits option.splits)
next
  case (7 st now i od cs)
  show ?case unfolding finish_task_def
    by (rule slots_kept.keeps_andThen, rule slots_kept.keeps_db_write, rule same_slotsI)
      (auto simp: Let_def slots_kept.keeps_rules split: option.splits)
qed

definition sandbox_gone :: "string \<Rightarrow> database \<Rightarrow> bool" where
  "sandbox_gone i d \<longleftrightarrow> (case get_sandbox_creation i d of None \<Rightarrow> True | Some c \<Rightarrow> sc_provider_state c = SP_STOPPED)"

text \<open>Whoever loses a reservation has no sandbox that the provider did not confirm stopped.\<close>

definition held :: "string \<Rightarrow> database \<Rightarrow> bool" where
  "held i d \<longleftrightarrow> i \<in> set (map rv_task_id (task_reservations d))"

definition safe_release :: "database \<Rightarrow> database \<Rightarrow> bool" where
  "safe_release d d' \<longleftrightarrow> (\<forall>j. held j d \<and> \<not> held j d' \<longrightarrow> sandbox_gone j d')"

lemma same_then_safe: "same_slots d d1 \<Longrightarrow> safe_release d1 d2 \<Longrightarrow> safe_release d d2"
  by (simp add: safe_release_def same_slots_def held_def del: set_map)

lemma same_safe: "same_slots d d' \<Longrightarrow> safe_release d d'"
  by (simp add: safe_release_def same_slots_def held_def del: set_map)

lemma delete_safe:
  assumes "sandbox_gone i d" "task_reservations d' = sql_delete (\<lambda>r. rv_task_id r = i) (task_reservations d)"
    "sandbox_creations d' = sandbox_creations d"
  shows "safe_release d d'"
  unfolding safe_release_def
proof (intro allI impI)
  fix j
  assume "held j d \<and> \<not> held j d'"
  then have "j = i" using assms(2) by (auto simp: held_def sql_delete_def)
  with assms(1,3) show "sandbox_gone j d'" by (simp add: sandbox_gone_def get_sandbox_creation_def)
qed

lemma release_safe: "sandbox_gone i d \<Longrightarrow> safe_release d (snd (release_reservation now i cl d))"
  by (erule delete_safe) (simp_all add: release_reservation_def db_write_def)

lemma lost_safe:
  assumes "sandbox_gone i d"
  shows "safe_release d (snd (mark_sandbox_lost now i det d))"
proof (cases "fetchone (\<lambda>r. t_id r = i) (tasks d)")
  case None
  then show ?thesis by (intro same_safe same_slotsI) (simp add: mark_sandbox_lost_def db_write_def)
next
  case (Some r)
  then show ?thesis using assms by (intro delete_safe) (simp_all add: mark_sandbox_lost_def db_write_def Let_def)
qed

lemma gone_finish: "sandbox_gone i (snd (finish_task now j st od cs d)) = sandbox_gone i d"
  by (auto simp: sandbox_gone_def finish_task_def andThen_def ret_def raise_def db_write_def Let_def get_sandbox_creation_def
      split: option.splits)

text \<open>A call followed by the rest: the call keeps the slots, the rest releases safely from where the call ended.\<close>

lemma andThen_safe:
  assumes "keeps (seen f same_slots) m" "\<And>x s1. m s = (Inr x, s1) \<Longrightarrow> safe_release (f s1) (f (snd (k x s1)))"
  shows "safe_release (f s) (f (snd (andThen m k s)))"
proof (cases "m s")
  case (Pair x s1)
  have "same_slots (f s) (f s1)" using keepsD [OF assms(1), of s] Pair by (simp add: seen_def)
  then show ?thesis using Pair assms(2) by (cases x) (auto simp: andThen_def intro: same_safe same_then_safe)
qed

lemma keeps_safe: "keeps (seen f same_slots) m \<Longrightarrow> safe_release (f s) (f (snd (m s)))"
  by (metis keepsD seen_def same_safe)

lemma on_world_eq: "on_world m s = (x, s') \<Longrightarrow> m (mg_world s) = (x, mg_world s')"
  by (auto simp: on_world_def split_beta Let_def prod_eq_iff)

lemma ledger_call_db: "mg_db (snd (ledger_call m s)) = snd (m (mg_db s))"
  by (simp add: ledger_call_def on_world_def on_ledger_def split_beta Let_def)

lemma tried_result:
  assumes "catch (andThen m (\<lambda>x. ret (g x))) h s = (Inr y, s')" "\<And>e s1 z s2. h e s1 = (Inr z, s2) \<Longrightarrow> z \<noteq> y"
  shows "\<exists>x. y = g x \<and> m s = (Inr x, s')"
  using assms(1)
  by (auto simp: catch_def andThen_def ret_def dest: assms(2) split: prod.splits sum.splits)

lemma cleanup_safe: "safe_release (mg_db s) (mg_db (snd (attempt_cleanup env i s)))"
  unfolding attempt_cleanup_def Let_def
proof (rule andThen_safe)
  let ?m = "catch (andThen (on_world (terminate (me_life env) i)) (\<lambda>s. ret (Inr s)))
    (\<lambda>e. if is_ModalLifecycleError e then ret (Inl e) else raise e)"
  show "keeps (seen mg_db same_slots) ?m"
    by (auto intro!: phase_slots.manager_basics phase_slots.kept_world phase_slots.kept_terminate)
  let ?p = "\<lambda>c. andThen (ledger_call (update_reservation (me_now env) i RP_TERMINATION_PENDING (Some c) None)) (\<lambda>_. ret ())"
  have p: "keeps (seen mg_db same_slots) (?p c)" for c
    by (auto intro!: phase_slots.manager_basics phase_slots.kept_ledger_call phase_slots.kept_update_reservation)
  fix answer s1
  assume a: "?m s = (Inr answer, s1)"
  show "safe_release (mg_db s1) (mg_db (snd ((case answer of Inl e \<Rightarrow> ?p (''termination unresolved: '' @ exc_text (me_text env) e)
      | Inr snap \<Rightarrow> if ss_state snap = SP_STOPPED then ledger_call (release_reservation (me_now env) i ''confirmed_absent'')
          else ?p (str_or (ss_detail snap) ''termination not confirmed'')) s1)))"
  proof (cases answer)
    case (Inl e)
    then show ?thesis using keeps_safe [OF p] by simp
  next
    case (Inr snap)
    have "\<exists>x. answer = Inr x \<and> on_world (terminate (me_life env) i) s = (Inr x, s1)"
      by (rule tried_result [OF a]) (auto simp: Inr ret_def raise_def split: if_splits)
    then have t: "terminate (me_life env) i (mg_world s) = (Inr snap, mg_world s1)" using Inr on_world_eq by auto
    show ?thesis
    proof (cases "ss_state snap = SP_STOPPED")
      case True
      from terminate_result [OF t True] have "sandbox_gone i (mg_db s1)" by (auto simp: sandbox_gone_def)
      then show ?thesis using Inr True by (simp add: ledger_call_db release_safe)
    next
      case False
      then show ?thesis using Inr keeps_safe [OF p] by simp
    qed
  qed
qed

lemma try_mark_sleeping_slots: "keeps same_slots (try_mark_sleeping now i)"
  unfolding try_mark_sleeping_def by (rule slots_kept.keeps_db_write, rule same_slotsI) (auto simp: Let_def split: if_splits)

lemma sleep_failed_raises: "fst (sleep_failed env i e s) \<noteq> Inr x"
  by (auto simp: sleep_failed_def andThen_def raise_def split: prod.splits sum.splits option.splits)

lemma kept_sleep_failed_slots: "keeps (seen mg_db same_slots) (sleep_failed env i e)"
  unfolding sleep_failed_def
  by (auto intro!: phase_slots.manager_basics phase_slots.kept_ledger_call phase_slots.kept_finish split: option.splits)

lemma sleep_safe: "safe_release (mg_db s) (mg_db (snd (sleep_workspace env i s)))"
  unfolding sleep_workspace_def
proof (rule andThen_safe)
  show "keeps (seen mg_db same_slots) (ledger_call (try_mark_sleeping (me_now env) i))"
    by (intro phase_slots.kept_ledger_call try_mark_sleeping_slots)
  let ?b = "andThen (on_world (sync (me_life env) i)) (\<lambda>_. andThen (on_world (terminate (me_life env) i)) (\<lambda>snap.
      if ss_state snap \<noteq> SP_STOPPED then raise (ModalLifecycleError ''sandbox sleep was not confirmed'') else ret ()))"
  let ?m = "catch ?b (sleep_failed env i)"
  let ?r = "ledger_call (release_reservation (me_now env) i ''confirmed_absent'')"
  have k: "keeps (seen mg_db same_slots) ?m"
    by (auto intro!: phase_slots.manager_basics phase_slots.kept_world phase_slots.kept_sync phase_slots.kept_terminate
        kept_sleep_failed_slots)
  fix asleep s1
  have "safe_release (mg_db s1) (mg_db (snd (andThen ?m (\<lambda>_. ?r) s1)))"
  proof (rule andThen_safe [OF k])
    fix x s2
    assume "?m s1 = (Inr x, s2)"
    then have "?b s1 = (Inr x, s2)" using sleep_failed_raises by (rule catch_raising)
    then obtain s' snap where "on_world (terminate (me_life env) i) s' = (Inr snap, s2)" "ss_state snap = SP_STOPPED"
      by (elim andThen_InrE) (auto simp: ret_def raise_def split: if_splits)
    then have "sandbox_gone i (mg_db s2)" using terminate_result on_world_eq by (fastforce simp: sandbox_gone_def)
    then show "safe_release (mg_db s2) (mg_db (snd (?r s2)))" by (simp add: ledger_call_db release_safe)
  qed
  then show "safe_release (mg_db s1) (mg_db (snd ((if \<not> asleep then ret () else andThen ?m (\<lambda>_. ?r)) s1)))"
    by (auto simp: ret_def intro: same_safe same_slotsI)
qed

section \<open>A sample environment\<close>

text \<open>A sandbox that cannot be reached.\<close>

definition sample_http :: "unit sandbox_http" where
  "sample_http = \<lparr>h_start = (\<lambda>_ _ _ p. (Inl (HTTPTransportError ''ConnectError''), p)),
     h_execution = (\<lambda>_ _ p. (Inl (HTTPTransportError ''ConnectError''), p)),
     h_manifest = (\<lambda>_ _ p. (Inl (HTTPTransportError ''ConnectError''), p)),
     h_events = (\<lambda>_ _ _ _ p. (Inl (HTTPTransportError ''ConnectError''), p)),
     h_cancel = (\<lambda>_ _ p. (Inl (HTTPTransportError ''ConnectError''), p)),
     h_message = (\<lambda>_ _ _ p. (Inl (HTTPTransportError ''ConnectError''), p))\<rparr>"

definition sample_manager_env :: "unit manager_env" where
  "sample_manager_env = \<lparr>me_life = sample_life_env, me_http = sample_http, me_limits = None, me_authorization = None,
     me_event_bytes = (\<lambda>_. 1), me_fresh = (\<lambda>_. ''f''), me_text = (\<lambda>_. []), me_attempts = 2, me_pages = 2\<rparr>"

end
