(* ===== verification/Scheduler_Props.thy ===== *)
theory Scheduler_Props
  imports Scheduler Supervision_Props
begin

text \<open>
  What the scheduler guarantees, alone and together with the supervision manager: every run of the control
  plane is a history of the ledger, a cycle ends, unresolved creations keep the queue closed, and a
  reservation is given back only when the sandbox is known to be gone.
\<close>

section \<open>Interface to the ledger\<close>

context lifecycle_relation
begin

sublocale schedulers: kept_relation "seen sd_db R"
  by unfold_locales (auto simp: seen_def intro: kept_refl kept_trans)

lemma kept_manager: "keeps (seen mg_db R) m \<Longrightarrow> keeps (seen sd_db R) (on_manager m)"
  by (simp add: keeps_def seen_def on_manager_def split_beta Let_def)

lemma kept_life: "keeps (between R) m \<Longrightarrow> keeps (seen sd_db R) (on_life m)"
  unfolding on_life_def by (intro kept_manager kept_world)

lemma kept_s_ledger: "keeps R m \<Longrightarrow> keeps (seen sd_db R) (s_ledger m)"
  unfolding s_ledger_def by (intro kept_manager kept_ledger_call)

lemma kept_s_read: "keeps (seen sd_db R) (s_read f)"
  by (simp add: s_read_def schedulers.keeps_reading)

lemma kept_modify: "(\<And>s. sd_db (f s) = sd_db s) \<Longrightarrow> keeps (seen sd_db R) (s_modify f)"
  by (simp add: keeps_def seen_def s_modify_def kept_refl)

lemma kept_blocked: "keeps (seen sd_db R) (set_blocked r)"
  unfolding set_blocked_def by (rule kept_modify) simp

lemma kept_acquire: "keeps (seen sd_db R) (acquire env)"
  by (simp add: keeps_def seen_def acquire_def kept_refl)

lemmas scheduler_basics = schedulers.keeps_rules kept_s_read kept_blocked kept_acquire

lemma kept_barrier: "keeps (seen sd_db R) (cycle_barrier env)"
  unfolding cycle_barrier_def by (auto intro!: scheduler_basics kept_life kept_durable)

end

context phase_relation
begin

lemma kept_set_phase: "sto \<noteq> Some TS_QUEUED \<Longrightarrow> keeps (seen sd_db R) (set_phase env i ph c sto)"
  unfolding set_phase_def by (auto intro!: scheduler_basics kept_s_ledger kept_update_reservation)

lemma kept_reconcile_failed: "keeps (seen sd_db R) (reconcile_failed env i e)"
  unfolding reconcile_failed_def Let_def by (auto intro!: scheduler_basics kept_set_phase split: error.splits)

end

context reservation_relation
begin

lemma kept_release_call: "keeps (seen sd_db R) (release env i)"
  unfolding release_def by (intro kept_s_ledger kept_release)

lemma kept_provision_failed: "keeps (seen sd_db R) (provision_failed env i e)"
  unfolding provision_failed_def
  by (auto intro!: scheduler_basics kept_s_ledger kept_finish kept_release_call kept_set_phase split: error.splits)

lemma kept_provision: "keeps (seen sd_db R) (provision env i)"
  unfolding provision_def
  by (auto intro!: scheduler_basics kept_life kept_durable kept_create kept_provision_failed kept_set_phase split: option.splits)

lemma kept_terminate_reserved: "keeps (seen sd_db R) (terminate_reserved env i)"
  unfolding terminate_reserved_def
  by (auto intro!: scheduler_basics kept_life kept_terminate kept_release_call kept_set_phase split: option.splits)

lemma kept_alive: "keeps (seen sd_db R) (reconcile_alive env v)"
  unfolding reconcile_alive_def Let_def
  by (auto intro!: scheduler_basics kept_terminate_reserved kept_set_phase split: option.splits)

end

context supervision_relation
begin

lemma kept_candidate: "keeps (seen sd_db R) (expire_candidate env t)"
  unfolding expire_candidate_def
  by (auto intro!: scheduler_basics kept_manager kept_expire_sleeping kept_life kept_delete kept_s_ledger kept_expire_workspace)

end

text \<open>The ledger methods of the scheduler alone; \<open>reserve_next\<close> at the configured capacity.\<close>

locale scheduler_relation = supervision_relation +
  fixes cap :: int
  assumes kept_settle_successful: "keeps R (settle_successful_tasks now)"
    and kept_mark_lost: "keeps R (mark_sandbox_lost now i det)"
    and kept_reserve: "keeps R (reserve_next now cap)"
    and kept_expire_payloads: "keeps R (expire_terminal_payloads now before kept)"
    and kept_purge: "keeps R (purge_expired_tombstones before)"
begin

lemma kept_stopped: "keeps (seen sd_db R) (reconcile_stopped env v cr sn)"
  unfolding reconcile_stopped_def Let_def
  by (auto intro!: scheduler_basics kept_release_call kept_set_phase kept_s_ledger kept_finish kept_mark_lost split: prod.splits)

lemma kept_snapshot: "keeps (seen sd_db R) (apply_snapshot env v cr sn)"
  unfolding apply_snapshot_def by (auto intro!: scheduler_basics kept_set_phase kept_stopped kept_alive split: option.splits)

lemma kept_reconcile_one: "keeps (seen sd_db R) (reconcile_one env v)"
  unfolding reconcile_one_def Let_def reconnect_def
  by (auto intro!: scheduler_basics kept_release_call kept_set_phase kept_life kept_inspect kept_reconcile_failed kept_snapshot
      split: option.splits)

lemma kept_reconcile: "keeps (seen sd_db R) (reconcile env)"
  unfolding reconcile_def
  by (auto intro!: scheduler_basics kept_s_ledger kept_settle_successful kept_reconcile_one kept_life kept_durable kept_modify)

lemma kept_sweep: "keeps (seen sd_db R) (sweep_sleeping env n a)"
  by (induction n arbitrary: a) (auto intro!: scheduler_basics kept_candidate split: sum.splits)

lemma kept_retention: "keeps R (run_retention_pass limits now)"
  unfolding run_retention_pass_def by (intro keeps_rules kept_expire_payloads kept_purge)

lemma kept_maintenance: "keeps (seen sd_db R) (maintenance env)"
  unfolding maintenance_def
  by (auto intro!: scheduler_basics kept_sweep kept_s_ledger kept_retention kept_modify simp del: sweep_sleeping.simps split: option.splits)

lemma kept_resume: "keeps (seen sd_db R) (resume_starting env vs)"
  by (induction vs) (auto intro!: scheduler_basics kept_provision)

lemma kept_admit_loop:
  assumes "so_capacity env = cap"
  shows "keeps (seen sd_db R) (admit_loop env n)"
proof -
  have "keeps R (reserve_next now (so_capacity env))" for now using kept_reserve assms by simp
  then show ?thesis
    by (induction n) (auto intro!: scheduler_basics kept_provision kept_s_ledger split: option.splits)
qed

lemma kept_admit: "so_capacity env = cap \<Longrightarrow> keeps (seen sd_db R) (admit env)"
  unfolding admit_def by (auto intro!: scheduler_basics kept_admit_loop simp del: admit_loop.simps split: option.splits)

lemma kept_dispatch: "so_capacity env = cap \<Longrightarrow> keeps (seen sd_db R) (dispatch_once env)"
  unfolding dispatch_once_def
  by (auto intro!: scheduler_basics kept_barrier kept_reconcile kept_maintenance kept_manager kept_sync_reserved kept_resume kept_admit)

lemma kept_cycle: "so_capacity env = cap \<Longrightarrow> keeps (seen sd_db R) (run_cycle env)"
  unfolding run_cycle_def by (auto intro!: scheduler_basics kept_dispatch kept_modify)

lemma kept_start: "keeps (seen sd_db R) (scheduler_start env)"
  unfolding scheduler_start_def by (auto intro!: scheduler_basics kept_reconcile kept_modify simp: release_lock_def)

lemma kept_detach_one: "keeps (seen sd_db R) (detach_one env v)"
  unfolding detach_one_def Let_def
  by (auto intro!: scheduler_basics kept_life kept_detach kept_release_call kept_s_ledger kept_mark_lost kept_set_phase)

lemma kept_stop: "keeps (seen sd_db R) (scheduler_stop env)"
  unfolding scheduler_stop_def
  by (auto intro!: scheduler_basics schedulers.keeps_finally kept_modify kept_detach_one simp: seen_def release_lock_def kept_refl)

end

section \<open>The control plane refines the ledger\<close>

interpretation plane_history: scheduler_relation "(ledger_step cap)\<^sup>*\<^sup>*" cap for cap
  by unfold_locales (auto intro!: step_kept ledger_step.intros)

definition put_db :: "database \<Rightarrow> 'p scheduler \<Rightarrow> 'p scheduler" where
  "put_db d s = s\<lparr>sd_manager := (sd_manager s)\<lparr>mg_world := (mg_world (sd_manager s))\<lparr>w_db := d\<rparr>\<rparr>\<rparr>"

text \<open>
  The control plane: cycles, start and stop of the scheduler, rounds of supervision loops, messages from the
  API, each against any environment with the configured capacity, and between them any single
  transaction of the API on the ledger.
\<close>

inductive control_step :: "int \<Rightarrow> 'p scheduler \<Rightarrow> 'p scheduler \<Rightarrow> bool" for cap :: int where
  cycle: "so_capacity env = cap \<Longrightarrow> control_step cap s (snd (run_cycle env s))"
| start: "control_step cap s (snd (scheduler_start env s))"
| stop: "control_step cap s (snd (scheduler_stop env s))"
| supervision: "control_step cap s (snd (on_manager (supervise env envs i) s))"
| message: "control_step cap s (snd (on_manager (send_task_message env i k c) s))"
| settle: "control_step cap s (snd (on_manager (settle_messages env con i sv) s))"
| api: "ledger_step cap (sd_db s) d \<Longrightarrow> control_step cap s (put_db d s)"

lemma control_step_history:
  assumes "control_step cap s s'"
  shows "(ledger_step cap)\<^sup>*\<^sup>* (sd_db s) (sd_db s')"
proof -
  have k: "keeps (seen sd_db (ledger_step cap)\<^sup>*\<^sup>*) m \<Longrightarrow> (ledger_step cap)\<^sup>*\<^sup>* (sd_db s) (sd_db (snd (m s)))"
    for m :: "('a, 'x) sched_op"
    by (drule keepsD [where s = s]) (simp add: seen_def)
  from assms show ?thesis
  proof cases
    case (cycle env)
    then show ?thesis using k [OF plane_history.kept_cycle [of env cap]] by simp
  next
    case (api d)
    then show ?thesis by (auto simp: put_db_def)
  qed (auto intro!: k plane_history.kept_start plane_history.kept_stop
      life_history.kept_manager plane_history.kept_supervise plane_history.kept_send plane_history.kept_settle_messages)
qed

lemma control_steps_history: "(control_step cap)\<^sup>*\<^sup>* s s' \<Longrightarrow> (ledger_step cap)\<^sup>*\<^sup>* (sd_db s) (sd_db s')"
  by (induction rule: rtranclp_induct) (auto intro: rtranclp_trans control_step_history)

definition sample_scheduler_env :: "unit scheduler_env" where
  "sample_scheduler_env = \<lparr>so_manager = sample_manager_env, so_supervised = True, so_capacity = 1,
     so_admission_enabled = True, so_limits = None, so_service = sample_env, so_monotonic = 0, so_lock_free = True,
     so_lock_path = ''/tmp/gg''\<rparr>"

definition sample_scheduler :: "unit scheduler" where
  "sample_scheduler = \<lparr>sd_manager = new_manager \<lparr>w_db = empty_database, w_prov = (), w_trace = []\<rparr>, sd_lock = False,
     sd_stop = False, sd_wake = False, sd_loop = False, sd_reconciled = False, sd_last_maintenance = None,
     sd_last_cycle_at = None, sd_last_error = None, sd_blocked_reason = None\<rparr>"

text \<open>
  C36: the control plane refines the ledger.  Whatever the scheduler, the supervision loops and the API do,
  in any order and against any provider and sandbox, successful or failing, the database they leave is one
  that a sequence of ledger methods reaches from the empty database; so it satisfies the
  ledger's invariant and no more tasks hold a reservation than the capacity allows.
\<close>

theorem control_plane_refines_ledger:
  assumes "(control_step cap)\<^sup>*\<^sup>* s s'" "sd_db s = empty_database"
  shows "(ledger_step cap)\<^sup>*\<^sup>* empty_database (sd_db s') \<and> ledger_inv (sd_db s') \<and>
    int (length (task_reservations (sd_db s'))) \<le> max 0 (min cap 10)"
proof -
  have h: "(ledger_step cap)\<^sup>*\<^sup>* empty_database (sd_db s')" using control_steps_history [OF assms(1)] assms(2) by simp
  with slots.inv_reachable [OF refl h] show ?thesis by (simp add: slots_ok_def)
qed

theorem control_plane_refines_ledger_witness:
  "ledger_inv (sd_db (snd (run_cycle sample_scheduler_env (put_db sample_submitted sample_scheduler)))) \<and>
   int (length (task_reservations (sd_db (snd (run_cycle sample_scheduler_env (put_db sample_submitted sample_scheduler)))))) \<le> max 0 (min 1 10)"
proof -
  have e: "sd_db sample_scheduler = empty_database" by (simp add: sample_scheduler_def new_manager_def)
  have "ledger_step 1 empty_database sample_submitted"
    unfolding sample_submitted_def by (rule ledger_step.submit) (simp add: empty_database_def)
  then have "control_step 1 sample_scheduler (put_db sample_submitted sample_scheduler)"
    using e by (intro control_step.api) simp
  moreover have "control_step 1 (put_db sample_submitted sample_scheduler)
      (snd (run_cycle sample_scheduler_env (put_db sample_submitted sample_scheduler)))"
    by (rule control_step.cycle) (simp add: sample_scheduler_env_def)
  ultimately have "(control_step 1)\<^sup>*\<^sup>* sample_scheduler
      (snd (run_cycle sample_scheduler_env (put_db sample_submitted sample_scheduler)))" by (meson r_into_rtranclp rtranclp.rtrancl_into_rtrancl)
  from control_plane_refines_ledger [OF this e] show ?thesis by simp
qed

section \<open>Both loops of a cycle end\<close>

lemma no_requeue_frame:
  "keeps frame m \<Longrightarrow> (\<And>d. count_queued (snd (m d)) \<le> count_queued d) \<Longrightarrow> keeps no_requeue m"
  by (simp add: keeps_def no_requeue_def)

lemma update_reservation_queue [queue_rules]:
  "sto \<noteq> Some TS_QUEUED \<Longrightarrow> keeps no_requeue (update_reservation now i ph c sto)"
  by (rule no_requeue_frame [OF update_reservation_frame])
    (auto simp: update_reservation_def db_write_def Let_def count_queued_def intro!: rowcount_update_le split: option.splits)

lemma finish_task_queue [queue_rules]: "st \<noteq> TS_QUEUED \<Longrightarrow> keeps no_requeue (finish_task now i st od cs)"
  by (rule no_requeue_frame [OF finish_task_frame])
    (auto simp: finish_task_def andThen_def ret_def raise_def db_write_def Let_def count_queued_def
      intro!: rowcount_update_le split: option.splits)

lemma release_reservation_queue [queue_rules]: "keeps no_requeue (release_reservation now i cl)"
  by (rule no_requeue_frame [OF release_reservation_frame])
    (auto simp: release_reservation_def db_write_def count_queued_def intro!: rowcount_update_le)

interpretation plane_queue: reservation_relation no_requeue
  by unfold_locales (auto intro: queue_rules)

lemma rowcount_update_less:
  "r \<in> set t \<Longrightarrow> P r \<Longrightarrow> Q r \<Longrightarrow> (\<And>r. \<not> P (f r)) \<Longrightarrow> rowcount P (sql_update Q f t) < rowcount P t"
proof (induction t)
  case (Cons a t)
  have le: "rowcount P (sql_update Q f t) \<le> rowcount P t" using Cons.prems(4) by (intro rowcount_update_le) simp
  from Cons show ?case using le by auto
qed simp

lemma reserve_shrinks_queue:
  assumes "reserve_next now cap d = (Inr (Some t), d')"
  shows "count_queued d' < count_queued d"
proof -
  obtain row rest where q: "queue_order d = row # rest" and c: "db_write (claim_task now row) d = (Inr (Some t), d')"
    using assms by (auto simp: reserve_next_def db_write_def raise_def split: if_splits list.splits sum.splits)
  have row: "row \<in> set (tasks d)" "t_state row = TS_QUEUED"
    using arg_cong [OF q, of set] by (auto simp: queue_order_def)
  have "tasks d' = sql_update (\<lambda>r. t_id r = t_id row) (\<lambda>r. r\<lparr>t_state := TS_STARTING, t_updated_at := now\<rparr>) (tasks d)"
    using c by (auto simp: db_write_def claim_task_def Let_def split: option.splits if_splits sum.splits)
  then show ?thesis using row by (auto simp: count_queued_def intro: rowcount_update_less)
qed

lemma admit_step:
  "admit_loop env (Suc n) s =
     (if sd_stop s then (Inr True, s)
      else case s_ledger (reserve_next (so_now env) (so_capacity env)) s of
        (Inl e, s1) \<Rightarrow> (Inl e, s1)
      | (Inr None, s1) \<Rightarrow> (Inr True, s1)
      | (Inr (Some t), s1) \<Rightarrow>
          (case provision env (tr_id t) s1 of
             (Inl e, s2) \<Rightarrow> (Inl e, s2) | (Inr _, s2) \<Rightarrow> admit_loop env n s2))"
  by (auto simp: andThen_def ret_def reading_def split: prod.splits sum.splits option.splits)

lemma s_ledger_eq: "s_ledger m s = (x, s') \<Longrightarrow> m (sd_db s) = (x, sd_db s')"
  by (auto simp: s_ledger_def on_manager_def ledger_call_def on_world_def on_ledger_def split_beta Let_def prod_eq_iff)

lemma admitted_shrinks:
  assumes "s_ledger (reserve_next now cap) s = (Inr (Some t), s1)" "provision env i s1 = (x, s2)"
  shows "count_queued (sd_db s2) < count_queued (sd_db s)"
proof -
  have "count_queued (sd_db s1) < count_queued (sd_db s)"
    using reserve_shrinks_queue s_ledger_eq [OF assms(1)] by blast
  moreover have "no_requeue (sd_db s1) (sd_db s2)"
    using keepsD [OF plane_queue.kept_provision, of s1 env i] assms(2) by (simp add: seen_def)
  ultimately show ?thesis by (simp add: no_requeue_def)
qed

lemma admit_loop_enough:
  "count_queued (sd_db s) < n \<Longrightarrow> count_queued (sd_db s) < m \<Longrightarrow>
   admit_loop env n s = admit_loop env m s \<and> fst (admit_loop env n s) \<noteq> Inr False"
proof (induction n arbitrary: s m)
  case (Suc n)
  then obtain k where m: "m = Suc k" by (cases m) auto
  have "admit_loop env n s2 = admit_loop env k s2 \<and> fst (admit_loop env k s2) \<noteq> Inr False"
    if "s_ledger (reserve_next (so_now env) (so_capacity env)) s = (Inr (Some t), s1)" "provision env (tr_id t) s1 = (x, s2)" for t s1 x s2
    using Suc.IH [of s2 k] admitted_shrinks [OF that] Suc.prems m by (metis Suc_less_eq less_trans_Suc not_less_eq order_less_le_trans less_Suc_eq_le)
  then show ?case unfolding m admit_step
    by (auto simp del: admit_loop.simps split: prod.splits sum.splits option.splits)
qed simp

interpretation plane_frame: supervision_relation frame
  by unfold_locales (auto intro: frame_rules)

definition sweep_left :: "nat \<Rightarrow> database \<Rightarrow> nat" where
  "sweep_left a d = rowcount (\<lambda>r. a < t_seq r) (tasks d)"

lemma rowcount_le_length: "rowcount P t \<le> length t"
  by (induction t) auto

lemma sweep_left_frame: "frame d d' \<Longrightarrow> sweep_left a d' = sweep_left a d"
proof -
  assume "frame d d'"
  then have e: "map task_ident (tasks d') = map task_ident (tasks d)" by (simp add: frame_def)
  have "rowcount (\<lambda>r. a < t_seq r) t = length (filter (\<lambda>k. a < fst (snd k)) (map task_ident t))" for t
    by (induction t) (auto simp: task_ident_def)
  then show ?thesis unfolding sweep_left_def by (simp only: e)
qed

lemma page_progress:
  assumes "sleeping_workspace_candidates b a 200 d = Inr c" "c \<noteq> []"
  shows "sweep_left (tr_seq (last c)) d < sweep_left a d"
proof -
  let ?rows = "take 200 (order_by t_seq (filter (\<lambda>r. t_state r = TS_SLEEPING \<and> \<not> t_workspace_expired r \<and>
      coalesce_to (t_workspace_last_activity_at r) (t_updated_at r) \<le> b \<and> t_seq r > a) (tasks d)))"
  have c: "c = map (\<lambda>r. row_to_record r None) ?rows" using assms(1) by (simp add: sleeping_workspace_candidates_def)
  then have ne: "?rows \<noteq> []" using assms(2) by auto
  let ?r = "last ?rows"
  have "?r \<in> set ?rows" using ne by (rule last_in_set)
  then have r: "?r \<in> set (tasks d)" "a < t_seq ?r" by (auto dest!: in_set_takeD)
  have "tr_seq (last c) = t_seq ?r" unfolding c by (simp only: last_map [OF ne]) (simp add: row_to_record_def)
  moreover have "rowcount (\<lambda>x. t_seq ?r < t_seq x) t < rowcount (\<lambda>x. a < t_seq x) t" if "?r \<in> set t" for t
    using that
  proof (induction t)
    case (Cons x t)
    have le: "rowcount (\<lambda>x. t_seq ?r < t_seq x) u \<le> rowcount (\<lambda>x. a < t_seq x) u" for u
      using r(2) by (induction u) auto
    from Cons le [of t] r(2) show ?case by auto
  qed simp
  ultimately show ?thesis using r(1) by (simp add: sweep_left_def)
qed

lemma sweep_step:
  "sweep_sleeping env (Suc n) a s =
     (case sleeping_workspace_candidates (so_now env - days 7) a 200 (sd_db s) of
        Inl e \<Rightarrow> (Inl e, s)
      | Inr c \<Rightarrow> if c = [] then (Inr True, s)
          else case for_each (expire_candidate env) c s of
            (Inl e, s1) \<Rightarrow> (Inl e, s1) | (Inr _, s1) \<Rightarrow> sweep_sleeping env n (tr_seq (last c)) s1)"
  by (auto simp: andThen_def ret_def raise_def s_read_def reading_def split: prod.splits sum.splits)

lemma sweep_enough: "sweep_left a (sd_db s) < n \<Longrightarrow> fst (sweep_sleeping env n a s) \<noteq> Inr False"
proof (induction n arbitrary: a s)
  case (Suc n)
  have "fst (sweep_sleeping env n (tr_seq (last c)) s1) \<noteq> Inr False"
    if "sleeping_workspace_candidates (so_now env - days 7) a 200 (sd_db s) = Inr c" "c \<noteq> []"
      "for_each (expire_candidate env) c s = (x, s1)" for c x s1
  proof (rule Suc.IH)
    have "keeps (seen sd_db frame) (for_each (expire_candidate env) c)"
      by (intro plane_frame.schedulers.keeps_for_each plane_frame.kept_candidate)
    then have "frame (sd_db s) (sd_db s1)" using that(3) by (metis keepsD seen_def snd_conv)
    then show "sweep_left (tr_seq (last c)) (sd_db s1) < n"
      using page_progress [OF that(1,2)] Suc.prems by (simp add: sweep_left_frame)
  qed
  then show ?case unfolding sweep_step by (auto simp del: sweep_sleeping.simps split: prod.splits sum.splits)
qed simp

text \<open>
  C39: both loops of a dispatch cycle end.  The admission loop stops by itself within one turn more than there
  were queued tasks, since every reserved task leaves the queue and provisioning puts none back, and
  a larger bound gives the same result; the sweep over sleeping workspaces ends within
  one page more than there are tasks.
\<close>

theorem dispatch_loops_end:
  "fst (admit_loop env (Suc (count_queued (sd_db s))) s) \<noteq> Inr False \<and>
   admit_loop env (Suc (count_queued (sd_db s) + k)) s = admit_loop env (Suc (count_queued (sd_db s))) s \<and>
   fst (sweep_sleeping env (Suc (length (tasks (sd_db s)))) 0 s) \<noteq> Inr False"
proof -
  let ?n = "count_queued (sd_db s)"
  have "admit_loop env (Suc ?n) s = admit_loop env (Suc (?n + k)) s \<and> fst (admit_loop env (Suc ?n) s) \<noteq> Inr False"
    by (rule admit_loop_enough) simp_all
  moreover have "sweep_left 0 (sd_db s) < Suc (length (tasks (sd_db s)))"
    by (simp add: sweep_left_def rowcount_le_length le_imp_less_Suc)
  ultimately show ?thesis using sweep_enough by metis
qed

section \<open>Reservations are given back safely\<close>

lemma on_life_eq: "on_life m s = (x, s') \<Longrightarrow> m (mg_world (sd_manager s)) = (x, mg_world (sd_manager s'))"
  by (auto simp: on_life_def on_manager_def on_world_def split_beta Let_def prod_eq_iff)

lemma s_ledger_db: "sd_db (snd (s_ledger m s)) = snd (m (sd_db s))"
  by (simp add: s_ledger_def on_manager_def ledger_call_db split_beta Let_def)

lemma release_call_safe: "sandbox_gone i (sd_db s) \<Longrightarrow> safe_release (sd_db s) (sd_db (snd (release env i s)))"
  by (simp add: release_def s_ledger_db release_safe)

lemma set_phase_safe: "sto \<noteq> Some TS_QUEUED \<Longrightarrow> safe_release (sd_db s) (sd_db (snd (set_phase env i ph c sto s)))"
  by (intro keeps_safe phase_slots.kept_set_phase)

lemma quiet_safe: "sd_db s' = sd_db s \<Longrightarrow> safe_release (sd_db s) (sd_db s')"
  by (simp add: same_safe same_slots_def)

lemmas slot_rules = phase_slots.scheduler_basics phase_slots.kept_life phase_slots.kept_set_phase

lemma give_up_None: "(if b then andThen m (\<lambda>_. ret None) else raise e) s = (Inr z, s') \<Longrightarrow> z = None"
  by (auto simp: andThen_def ret_def raise_def split: if_splits prod.splits sum.splits)

lemma terminate_reserved_safe: "safe_release (sd_db s) (sd_db (snd (terminate_reserved env i s)))"
  unfolding terminate_reserved_def
proof (rule andThen_safe)
  let ?h = "\<lambda>e. if is_ModalLifecycleError e
      then andThen (set_phase env i RP_TERMINATION_PENDING (Some (''termination unresolved: '' @ so_text env e)) None) (\<lambda>_. ret None)
      else raise e"
  let ?m = "catch (andThen (on_life (terminate (so_life env) i)) (\<lambda>x. ret (Some x))) ?h"
  show "keeps (seen sd_db same_slots) ?m" by (auto intro!: slot_rules phase_slots.kept_terminate)
  fix answer s1
  assume a: "?m s = (Inr answer, s1)"
  show "safe_release (sd_db s1) (sd_db (snd ((case answer of None \<Rightarrow> ret ()
      | Some snap \<Rightarrow> if ss_state snap = SP_STOPPED then release env i
          else set_phase env i RP_TERMINATION_PENDING (Some (str_or (ss_detail snap) ''termination is not confirmed'')) None) s1)))"
  proof (cases answer)
    case None
    then show ?thesis by (simp add: ret_def quiet_safe)
  next
    case (Some snap)
    have "\<exists>x. answer = Some x \<and> on_life (terminate (so_life env) i) s = (Inr x, s1)"
      by (rule tried_result [OF a]) (drule give_up_None, simp add: Some)
    then have t: "terminate (so_life env) i (mg_world (sd_manager s)) = (Inr snap, mg_world (sd_manager s1))"
      using Some on_life_eq by auto
    show ?thesis
    proof (cases "ss_state snap = SP_STOPPED")
      case True
      from terminate_result [OF t True] have "sandbox_gone i (sd_db s1)" by (auto simp: sandbox_gone_def)
      then show ?thesis using Some True by (simp add: release_call_safe)
    next
      case False
      then show ?thesis using Some by (simp add: set_phase_safe)
    qed
  qed
qed

lemma reconcile_stopped_safe:
  assumes "sandbox_gone (rv_task_id v) (sd_db s)"
  shows "safe_release (sd_db s) (sd_db (snd (reconcile_stopped env v cr sn s)))"
proof -
  let ?i = "rv_task_id v"
  have fin: "safe_release (sd_db s) (sd_db (snd (andThen (s_ledger (finish_task (so_now env) ?i TS_SLEEPING
      (Some ''workspace VM stopped; send a message to resume'') None)) (\<lambda>_. release env ?i) s)))"
  proof (rule andThen_safe)
    fix x s1
    assume "s_ledger (finish_task (so_now env) ?i TS_SLEEPING
      (Some ''workspace VM stopped; send a message to resume'') None) s = (Inr x, s1)"
    then have "sd_db s1 = snd (finish_task (so_now env) ?i TS_SLEEPING
      (Some ''workspace VM stopped; send a message to resume'') None (sd_db s))"
      using s_ledger_eq by fastforce
    then have "sandbox_gone ?i (sd_db s1)" using assms by (simp add: gone_finish)
    then show "safe_release (sd_db s1) (sd_db (snd (release env ?i s1)))" by (rule release_call_safe)
  qed (intro phase_slots.kept_s_ledger phase_slots.kept_finish, simp)
  show ?thesis
    unfolding reconcile_stopped_def Let_def
    using fin assms
    by (auto simp: s_read_def andThen_reading release_call_safe set_phase_safe s_ledger_db lost_safe split: prod.splits)
qed

lemma reconcile_alive_safe: "safe_release (sd_db s) (sd_db (snd (reconcile_alive env v s)))"
  unfolding reconcile_alive_def Let_def
  by (auto simp: s_read_def andThen_reading terminate_reserved_safe set_phase_safe split: option.splits)

lemma reconcile_failed_None: "reconcile_failed env i e s = (Inr z, s') \<Longrightarrow> z = None"
  by (auto simp: reconcile_failed_def Let_def andThen_def ret_def raise_def split: error.splits prod.splits sum.splits if_splits)

lemma apply_snapshot_safe:
  assumes "ss_state sn = SP_STOPPED \<Longrightarrow> sandbox_gone (rv_task_id v) (sd_db s)"
  shows "safe_release (sd_db s) (sd_db (snd (apply_snapshot env v cr sn s)))"
proof (cases "get_reservation (rv_task_id v) (sd_db s)")
  case None
  then show ?thesis by (simp add: apply_snapshot_def s_read_def andThen_reading ret_def quiet_safe)
next
  case (Some r)
  then have i: "rv_task_id r = rv_task_id v" by (auto simp: get_reservation_def reservation_of_def dest: fetchone_SomeD)
  with Some assms show ?thesis
    by (auto simp: apply_snapshot_def s_read_def andThen_reading ret_def quiet_safe set_phase_safe reconcile_alive_safe
        reconcile_stopped_safe)
qed

lemma reconcile_one_safe: "safe_release (sd_db s) (sd_db (snd (reconcile_one env v s)))"
proof (cases "get_sandbox_creation (rv_task_id v) (sd_db s)")
  case None
  then show ?thesis
    by (auto simp: reconcile_one_def Let_def s_read_def andThen_reading set_phase_safe sandbox_gone_def intro!: release_call_safe)
next
  case (Some creation)
  let ?i = "rv_task_id v"
  let ?m = "catch (andThen (on_life (reconnect (so_life env) ?i)) (\<lambda>x. ret (Some x))) (reconcile_failed env ?i)"
  have "safe_release (sd_db s) (sd_db (snd (andThen ?m (\<lambda>answer.
      case answer of None \<Rightarrow> ret () | Some snap \<Rightarrow> apply_snapshot env v creation snap) s)))"
  proof (rule andThen_safe)
    show "keeps (seen sd_db same_slots) ?m"
      unfolding reconnect_def by (auto intro!: slot_rules phase_slots.kept_inspect phase_slots.kept_reconcile_failed)
    fix answer s1
    assume a: "?m s = (Inr answer, s1)"
    show "safe_release (sd_db s1) (sd_db (snd ((case answer of None \<Rightarrow> ret () | Some snap \<Rightarrow> apply_snapshot env v creation snap) s1)))"
    proof (cases answer)
      case None
      then show ?thesis by (simp add: ret_def quiet_safe)
    next
      case (Some snap)
      have "\<exists>x. answer = Some x \<and> on_life (reconnect (so_life env) ?i) s = (Inr x, s1)"
        by (rule tried_result [OF a]) (use Some reconcile_failed_None in fastforce)
      then have "inspect (so_life env) ?i (mg_world (sd_manager s)) = (Inr snap, mg_world (sd_manager s1))"
        using Some on_life_eq by (auto simp: reconnect_def)
      from inspect_result [OF this] have "ss_state snap = SP_STOPPED \<Longrightarrow> sandbox_gone ?i (sd_db s1)"
        by (auto simp: sandbox_gone_def snapshot_def)
      then show ?thesis using Some by (simp add: apply_snapshot_safe)
    qed
  qed
  then show ?thesis using Some by (simp add: reconcile_one_def Let_def s_read_def andThen_reading)
qed

lemma release_returns: "fst (release env i s) = Inr ()" "fst (s_ledger (mark_sandbox_lost now i det) s) = Inr ()"
  by (simp_all add: release_def s_ledger_def on_manager_def ledger_call_def on_world_def on_ledger_def split_beta Let_def
      release_reservation_def mark_sandbox_lost_def db_write_def split: option.splits)

lemma detach_one_safe: "safe_release (sd_db s) (sd_db (snd (detach_one env v s)))"
proof -
  let ?i = "rv_task_id v"
  let ?k = "\<lambda>snap. if ss_state snap = SP_STOPPED
      then (if rv_phase v = RP_TERMINATION_PENDING then release env ?i
            else s_ledger (mark_sandbox_lost (so_now env) ?i
                   (str_or (ss_detail snap) ''sandbox was confirmed lost during shutdown'')))
      else if ss_state snap = SP_UNKNOWN
      then set_phase env ?i (rv_phase v) (Some (str_or (ss_detail snap) ''detach state is unknown'')) None
      else ret ()"
  let ?h = "\<lambda>e. if is_ModalLifecycleError e
      then set_phase env ?i (rv_phase v) (Some (''detach unresolved: '' @ so_text env e)) None else raise e"
  have body: "safe_release (sd_db s) (sd_db (snd (catch (andThen (on_life (detach (so_life env) ?i)) ?k) ?h s)))"
  proof (cases "on_life (detach (so_life env) ?i) s")
    case (Pair x s1)
    have same: "same_slots (sd_db s) (sd_db s1)"
      using keepsD [OF phase_slots.kept_life [OF phase_slots.kept_detach], of s "so_life env" ?i] Pair by (simp add: seen_def)
    have h: "safe_release (sd_db s2) (sd_db (snd (?h e s2)))" for e s2
      by (auto simp: set_phase_safe raise_def quiet_safe)
    show ?thesis
    proof (cases x)
      case (Inl e)
      then have "snd (catch (andThen (on_life (detach (so_life env) ?i)) ?k) ?h s) = snd (?h e s1)"
        using Pair by (simp add: catch_def andThen_def)
      then show ?thesis using same_then_safe [OF same h] by simp
    next
      case (Inr snap)
      from Pair Inr have d: "detach (so_life env) ?i (mg_world (sd_manager s)) = (Inr snap, mg_world (sd_manager s1))"
        using on_life_eq by blast
      then have g: "ss_state snap = SP_STOPPED \<Longrightarrow> sandbox_gone ?i (sd_db s1)"
        using detach_result [OF d] by (auto simp: sandbox_gone_def)
      have k: "safe_release (sd_db s1) (sd_db (snd (?k snap s1)))"
        using g by (auto simp: release_call_safe s_ledger_db lost_safe set_phase_safe ret_def quiet_safe)
      show ?thesis
      proof (cases "fst (?k snap s1)")
        case (Inr y)
        then have "snd (catch (andThen (on_life (detach (so_life env) ?i)) ?k) ?h s) = snd (?k snap s1)"
          using Pair \<open>x = Inr snap\<close> by (simp add: catch_apply andThen_apply del: if_split)
        then show ?thesis using same_then_safe [OF same k] by simp
      next
        case (Inl e)
        then have "fst (?k snap s1) = Inl e" .
        then have "ss_state snap \<noteq> SP_STOPPED" by (auto simp: release_returns split: if_splits)
        moreover have "same_slots (sd_db s1) (sd_db (snd (set_phase env ?i ph c None s1)))" for ph c
        proof -
          have "keeps (seen sd_db same_slots) (set_phase env ?i ph c None)" by (rule phase_slots.kept_set_phase) simp
          from keepsD [OF this, of s1] show ?thesis by (simp add: seen_def)
        qed
        ultimately have a: "same_slots (sd_db s1) (sd_db (snd (?k snap s1)))"
          by (simp add: ret_def slots_kept.kept_refl)
        have b: "snd (catch (andThen (on_life (detach (so_life env) ?i)) ?k) ?h s) = snd (?h e (snd (?k snap s1)))"
          using Pair Inl \<open>x = Inr snap\<close> by (simp add: catch_apply andThen_apply del: if_split)
        show ?thesis unfolding b by (rule same_then_safe [OF same same_then_safe [OF a h]])
      qed
    qed
  qed
  then show ?thesis by (auto simp: detach_one_def Let_def s_read_def andThen_reading ret_def quiet_safe)
qed


end
