(* ===== verification/Finalization.thy ===== *)
theory Finalization
  imports Supervision_Props
begin

text \<open>What the finalization of a supervised task leaves in the ledger.\<close>

section \<open>The three ledger calls\<close>

lemma archive_result:
  assumes "require_payload i d = None"
  shows "\<exists>r d1. archive_task_result now i eo m c det d = (Inr r, d1) \<and>
    get_task_result i d1 = Some \<lparr>ta_task_id = i, ta_execution_id = eo, ta_manifest = m, ta_evidence_complete = c,
      ta_evidence_detail = det, ta_archived_at = Some now\<rparr> \<and>
    tasks d1 = tasks d \<and> task_reservations d1 = task_reservations d"
proof (cases "exists_row (\<lambda>r. ta_task_id r = i) (task_results d)")
  case True
  then obtain r0 where "fetchone (\<lambda>r. ta_task_id r = i) (task_results d) = Some r0"
    by (metis exists_row_iff fetchone_None not_None_eq)
  then show ?thesis using assms True
    by (auto simp: archive_task_result_def db_write_def Let_def get_task_result_def fetchone_update_matched simp del: exists_row_iff)
next
  case False
  then have "fetchone (\<lambda>r. ta_task_id r = i) (task_results d) = None" by (auto simp: fetchone_None)
  then show ?thesis using assms False
    by (auto simp: archive_task_result_def db_write_def Let_def get_task_result_def fetchone_append simp del: exists_row_iff)
qed

lemma finish_result:
  assumes "fetchone (\<lambda>r. t_id r = i) (tasks d) = Some row"
  shows "\<exists>x d1 row'. finish_task now i st od cs d = (Inr x, d1) \<and> fetchone (\<lambda>r. t_id r = i) (tasks d1) = Some row' \<and>
    t_state row' = st \<and> t_outcome_detail row' = coalesce od (t_outcome_detail row) \<and>
    task_reservations d1 = task_reservations d \<and> task_results d1 = task_results d"
  using assms
  by (auto simp: finish_task_def andThen_def ret_def db_write_def Let_def fetchone_update_matched)

lemma reservation_result:
  assumes "distinct (map rv_task_id (task_reservations d))" "get_reservation i d = Some v"
    and "fetchone (\<lambda>r. t_id r = i) (tasks d) = Some row" "sto = None \<or> sto = Some (t_state row)"
  shows "\<exists>x d1 row'. update_reservation now i ph c sto d = (Inr x, d1) \<and>
    fetchone (\<lambda>r. t_id r = i) (tasks d1) = Some row' \<and> t_state row' = t_state row \<and>
    t_outcome_detail row' = t_outcome_detail row \<and>
    (\<exists>v'. get_reservation i d1 = Some v' \<and> rv_phase v' = ph \<and> rv_condition v' = c) \<and> task_results d1 = task_results d"
proof -
  have f: "fetchone (\<lambda>r. rv_task_id r = i) (task_reservations d) = Some v"
    using assms(2) by (simp add: get_reservation_def reservation_of_def)
  then have "rowcount (\<lambda>r. rv_task_id r = i) (task_reservations d) = 1"
    using assms(1) by (auto simp: rowcount_key dest!: fetchone_SomeD)
  then show ?thesis using f assms(3,4)
    by (auto simp: update_reservation_def db_write_def Let_def fetchone_update_matched get_reservation_def reservation_of_def
        task_state_is_terminal_def split: option.splits)
qed

section \<open>Settlement\<close>

text \<open>Cancelled by request, or reported as cancelled by the agent.\<close>

definition cancelled_run :: "SupervisionRecord \<Rightarrow> TaskResultManifest option \<Rightarrow> bool" where
  "cancelled_run sv m \<longleftrightarrow> sv_cancel_requested sv \<or> (case m of None \<Rightarrow> False | Some x \<Rightarrow> tm_agent_outcome x = AO_CANCELLED)"

lemma terminal_cancelled: "fst (terminal_from_manifest m (sv_cancel_requested sv)) = TS_CANCELLED \<longleftrightarrow> cancelled_run sv m"
  by (auto simp: terminal_from_manifest_def cancelled_run_def Let_def split: option.splits)

lemma truncate_outcome: "tm_agent_outcome (fst (truncate_manifest m n)) = tm_agent_outcome m"
  by (simp add: truncate_manifest_def Let_def split_beta split: option.splits)

lemma three_calls:
  assumes "a (mg_db s) = (Inr x, d1)" "b d1 = (Inr y, d2)" "c d2 = (Inr z, d3)"
  shows "andThen (ledger_call a) (\<lambda>_. andThen (ledger_call b) (\<lambda>_. andThen (ledger_call c) (\<lambda>_. ret ()))) s =
    (Inr (), s\<lparr>mg_world := (mg_world s)\<lparr>w_db := d3\<rparr>\<rparr>)"
  using assms by (simp add: ledger_call_def on_world_def on_ledger_def andThen_def ret_def)

text \<open>The three calls on the database: archive, task state, reservation phase.\<close>

lemma settle_ledger:
  assumes inv: "ledger_inv d" and pay: "require_payload i d = None" and res: "get_reservation i d = Some v"
    and st: "st \<in> {TS_IDLE, TS_CANCELLED}"
    and u: "u = (if st = TS_IDLE then update_reservation now i RP_RUNNING None (Some TS_IDLE)
      else update_reservation now i RP_TERMINATION_PENDING None None)"
  shows "\<exists>r1 d1 r2 d2 r3 d3 row v3. archive_task_result now i eo m c det d = (Inr r1, d1) \<and>
    finish_task now i st od cs d1 = (Inr r2, d2) \<and> u d2 = (Inr r3, d3) \<and>
    get_task_result i d3 = Some \<lparr>ta_task_id = i, ta_execution_id = eo, ta_manifest = m, ta_evidence_complete = c,
      ta_evidence_detail = det, ta_archived_at = Some now\<rparr> \<and>
    fetchone (\<lambda>r. t_id r = i) (tasks d3) = Some row \<and> t_state row = st \<and> get_reservation i d3 = Some v3 \<and>
    rv_phase v3 = (if st = TS_IDLE then RP_RUNNING else RP_TERMINATION_PENDING)"
proof -
  obtain row0 where row0: "fetchone (\<lambda>r. t_id r = i) (tasks d) = Some row0"
    using pay by (auto simp: require_payload_def split: option.splits)
  obtain r1 d1 where d1: "archive_task_result now i eo m c det d = (Inr r1, d1)"
      "get_task_result i d1 = Some \<lparr>ta_task_id = i, ta_execution_id = eo, ta_manifest = m, ta_evidence_complete = c,
        ta_evidence_detail = det, ta_archived_at = Some now\<rparr>"
      "tasks d1 = tasks d" "task_reservations d1 = task_reservations d"
    using archive_result [OF pay] by blast
  obtain r2 d2 row where d2: "finish_task now i st od cs d1 = (Inr r2, d2)"
      "fetchone (\<lambda>r. t_id r = i) (tasks d2) = Some row" "t_state row = st"
      "task_reservations d2 = task_reservations d1" "task_results d2 = task_results d1"
    using finish_result [of i d1 row0] d1(3) row0 by metis
  have r2: "distinct (map rv_task_id (task_reservations d2))" "get_reservation i d2 = Some v"
    using inv res d1(4) d2(4) by (simp_all add: inv_defs get_reservation_def reservation_of_def)
  obtain r3 d3 row3 v3 where "u d2 = (Inr r3, d3)" "fetchone (\<lambda>r. t_id r = i) (tasks d3) = Some row3"
      "t_state row3 = st" "get_reservation i d3 = Some v3"
      "rv_phase v3 = (if st = TS_IDLE then RP_RUNNING else RP_TERMINATION_PENDING)" "task_results d3 = task_results d2"
    using reservation_result [OF r2 d2(2), of "Some TS_IDLE" now RP_RUNNING None]
      reservation_result [OF r2 d2(2), of None now RP_TERMINATION_PENDING None] d2(3)
    by (cases "st = TS_IDLE") (auto simp: u)
  then show ?thesis using d1 d2 by (auto simp: get_task_result_def)
qed



end
