(* ===== verification/Event_Sync.thy ===== *)
theory Event_Sync
  imports Supervision_Props Ledger_Events Event_Log
begin

text \<open>
  The event synchronisation of the supervision manager composed with the event log of the sandbox: when the
  sandbox serves pages of its log, one synchronisation ends and leaves every event of the log copied.
\<close>

section \<open>Copying never fails on a consistent ledger\<close>

lemma insert_task_event_total:
  assumes inv: "ledger_inv d" and pay: "require_payload i d = None"
  shows "\<exists>x d'. insert_task_event now i src sq ev d = Inr (x, d')"
proof (cases "copied i src sq d")
  case True
  then show ?thesis by (simp add: insert_task_event_copied)
next
  case False
  obtain c d1 where b: "bump_event_counter i d = (c, d1)" by fastforce
  have E: "events_ok d" using inv by (simp add: ledger_inv_def)
  have t: "task_event_identities d1 = task_event_identities d" "task_event_copies d1 = task_event_copies d"
    using b by (auto simp: bump_event_counter_def Let_def)
  have c: "c = Suc (counter_value i d)" using bump_event_counter_props(1) [OF b] E by (simp add: events_ok_def)
  have "\<not> (ei_task_id r = i \<and> ei_cursor_seq r = c)" if "r \<in> set (task_event_identities d)" for r
    using E that c by (force simp: events_ok_def)
  moreover have "\<not> (ec_task_id r = i \<and> (ec_cursor_seq r = c \<or> ec_source_id r = src \<and> ec_source_seq r = sq))"
    if "r \<in> set (task_event_copies d)" for r
    using E that c False by (force simp: events_ok_def copied_def identity_key_def image_iff)
  ultimately show ?thesis using False pay b t
    by (auto simp: insert_task_event_def copied_iff_fetchone Let_def split: option.splits prod.splits)
qed

lemma copy_events_total:
  "ledger_inv d \<Longrightarrow> require_payload i d = None \<Longrightarrow> \<exists>x. copy_events eb fresh now i src m n evs d = Inr x"
proof (induction evs arbitrary: n d)
  case (Cons ev evs)
  let ?pl = "case m of None \<Rightarrow> ev | Some k \<Rightarrow> fst (truncate_event_json eb (fresh (e_seq ev)) now ev k n)"
  obtain x d1 where x: "insert_task_event now i src (e_seq ev) ?pl d = Inr (x, d1)"
    using insert_task_event_total [OF Cons.prems] by blast
  have "ledger_inv d1" by (rule insert_task_event_inv [OF x Cons.prems(1)])
  moreover have "tasks d1 = tasks d" using insert_task_event_result [OF x Cons.prems(1)] by auto
  then have "require_payload i d1 = None" using Cons.prems(2) require_payload_tasks by metis
  ultimately have "\<exists>y. copy_events eb fresh now i src m k evs d1 = Inr y" for k by (rule Cons.IH)
  then show ?case using x by (cases x) (auto simp: Let_def split: sum.splits, (metis old.sum.exhaust sum.distinct(1) surj_pair)+)
qed simp

lemma insert_task_event_revision: "insert_task_event now i src sq ev d = Inr (x, d') \<Longrightarrow> revision d' = revision d"
  by (auto simp: insert_task_event_def bump_event_counter_def Let_def split: option.splits if_splits prod.splits)

lemma copy_events_revision: "copy_events eb fresh now i src m n evs d = Inr (ins, d') \<Longrightarrow> revision d' = revision d"
proof (induction evs arbitrary: n d ins)
  case (Cons ev evs)
  from Cons.prems obtain y d1 k x' z where "insert_task_event now i src (e_seq ev) y d = Inr (x', d1)"
    "copy_events eb fresh now i src m k evs d1 = Inr (z, d')"
    by (rule copy_events_step) blast
  from insert_task_event_revision [OF this(1)] Cons.IH [OF this(2)] show ?case by simp
qed simp

lemma copy_page_total:
  assumes "ledger_inv d" "require_payload i d = None" "evs \<noteq> []" "length evs \<le> 200" "page_ordered evs"
  shows "\<exists>ins d1. copy_task_event_page eb fresh now i src evs m d = (Inr ins, d1) \<and> ledger_inv d1 \<and>
    require_payload i d1 = None \<and> (\<forall>a b q. copied a b q d1 \<longleftrightarrow> copied a b q d \<or> (a = i \<and> b = src \<and> q \<in> e_seq ` set evs))"
proof -
  obtain ins d' where c: "copy_events eb fresh now i src m (task_log_bytes eb i d) evs d = Inr (ins, d')"
    using copy_events_total [OF assms(1,2)] by fastforce
  let ?d1 = "(upsert_source_cursor i src (e_seq (last evs)) d')\<lparr>revision := Suc (revision d)\<rparr>"
  have "revision d' = revision d"
    using c by (rule copy_events_revision)
  then have ok: "copy_task_event_page eb fresh now i src evs m d = (Inr ins, ?d1)"
    using assms c by (simp add: copy_task_event_page_def db_write_def upsert_source_cursor_def Let_def)
  have "ledger_inv ?d1" using copy_task_event_page_inv ok assms(1) by (metis inv_rel_def keepsD snd_conv)
  moreover have "require_payload i ?d1 = None"
    using copy_events_result [OF c assms(1)] assms(2)
    by (auto simp: require_payload_def upsert_source_cursor_def Let_def)
  moreover have "copied a b q ?d1 = copied a b q d'" for a b q
    by (simp add: copied_def upsert_source_cursor_def Let_def)
  ultimately show ?thesis using ok copy_events_result [OF c assms(1)] by auto
qed

section \<open>Synchronisation with a sandbox that serves its log\<close>

text \<open>The sandbox answers every page request from the event log of the conversation.\<close>

definition serves_log :: "'p manager_env \<Rightarrow> SandboxConnection \<Rightarrow> string \<Rightarrow> sandbox_db \<Rightarrow> bool" where
  "serves_log env c conv sdb \<longleftrightarrow> (\<forall>after limit p. h_events (me_http env) c conv after limit p =
     (Inr \<lparr>rs_status = 200, rs_detail = None,
           rs_body = (case log_list conv after (Some (int limit)) sdb of Inl _ \<Rightarrow> None | Inr es \<Rightarrow> Some es)\<rparr>, p))"

lemma log_page:
  assumes "seqs_contiguous conv sdb" "0 \<le> after"
  shows "log_list conv after (Some 200) sdb = Inr (take 200 (drop (nat after) (events_of conv sdb)))"
  using log_list_contiguous [OF assms] assms(2) by (simp add: log_list_def)

lemma contiguous_nth:
  assumes "seqs_contiguous conv sdb" "k < length (events_of conv sdb)"
  shows "e_seq (events_of conv sdb ! k) = int (Suc k)"
proof -
  have "map e_seq (events_of conv sdb) ! k = map int [1 ..< Suc (length (events_of conv sdb))] ! k"
    using assms(1) by (simp only: seqs_contiguous_def)
  with assms(2) show ?thesis by (simp del: upt_Suc)
qed

lemma page_ordered_upt:
  "(\<And>k. k < length evs \<Longrightarrow> e_seq (evs ! k) = a + int (Suc k)) \<Longrightarrow> 0 \<le> a \<Longrightarrow> page_ordered evs"
proof (induction evs arbitrary: a rule: page_ordered.induct)
  case (2 e)
  from "2.prems"(1) [of 0] "2.prems"(2) show ?case by simp
next
  case (3 e e' es)
  have "page_ordered (e' # es)"
  proof (rule "3.IH" [of "a + 1"])
    fix k
    assume "k < length (e' # es)"
    then show "e_seq ((e' # es) ! k) = a + 1 + int (Suc k)" using "3.prems"(1) [of "Suc k"] by simp
  qed (use "3.prems"(2) in simp)
  then show ?case using "3.prems"(1) [of 0] "3.prems"(1) [of 1] "3.prems"(2) by simp
qed simp

lemma fan_out_quiet: "\<exists>s'. for_each (\<lambda>(cursor, event). fan_out i (g cursor event)) ins s = (Inr (), s') \<and> mg_world s' = mg_world s"
proof (induction ins arbitrary: s)
  case (Cons x ins)
  obtain s1 where "fan_out i (g (fst x) (snd x)) s = (Inr (), s1)" "mg_world s1 = mg_world s"
    by (simp add: fan_out_def)
  with Cons.IH [of s1] show ?case by (auto simp: andThen_def split_beta)
qed (simp add: ret_def)

lemma copy_page_step:
  assumes "ledger_inv (mg_db s)" "require_payload i (mg_db s) = None" "evs \<noteq> []" "length evs \<le> 200" "page_ordered evs"
  shows "\<exists>s'. copy_page env i conv evs s = (Inr (), s') \<and> ledger_inv (mg_db s') \<and> require_payload i (mg_db s') = None \<and>
    (\<forall>a b q. copied a b q (mg_db s') \<longleftrightarrow> copied a b q (mg_db s) \<or> (a = i \<and> b = conv \<and> q \<in> e_seq ` set evs))"
proof -
  obtain ins d1 where ok: "copy_task_event_page (me_event_bytes env) (me_fresh env) (me_now env) i conv evs
      (map_option sl_max_log_evidence_bytes (me_limits env)) (mg_db s) = (Inr ins, d1)" "ledger_inv d1"
      "require_payload i d1 = None"
      "\<forall>a b q. copied a b q d1 \<longleftrightarrow> copied a b q (mg_db s) \<or> (a = i \<and> b = conv \<and> q \<in> e_seq ` set evs)"
    using copy_page_total [OF assms] by blast
  let ?s1 = "s\<lparr>mg_world := (mg_world s)\<lparr>w_db := d1\<rparr>\<rparr>"
  have "ledger_call (copy_task_event_page (me_event_bytes env) (me_fresh env) (me_now env) i conv evs
      (map_option sl_max_log_evidence_bytes (me_limits env))) s = (Inr ins, ?s1)"
    using ok(1) by (simp add: ledger_call_def on_world_def on_ledger_def)
  moreover obtain s' where "for_each (\<lambda>(cursor, event). fan_out i
      \<lparr>tc_cursor = cursor, tc_source_id = conv, tc_source_seq = e_seq event, tc_event = event\<rparr>) ins ?s1 = (Inr (), s')"
      "mg_world s' = mg_world ?s1"
    using fan_out_quiet [of i "\<lambda>cursor event. \<lparr>tc_cursor = cursor, tc_source_id = conv,
      tc_source_seq = e_seq event, tc_event = event\<rparr>" ins ?s1] by blast
  ultimately show ?thesis using ok by (simp add: copy_page_def andThen_def)
qed

lemma http_ok: "f (w_prov (mg_world s)) = (Inr r, w_prov (mg_world s)) \<Longrightarrow> http_call f s = (Inr r, s)"
  by (simp add: http_call_def on_world_def on_provider_def andThen_def of_sum_def ret_def)

lemma sync_pages_step:
  assumes serve: "serves_log env c conv sdb" "seqs_contiguous conv sdb" "0 \<le> after"
    and page: "page = take 200 (drop (nat after) (events_of conv sdb))"
  shows "sync_pages env c i conv (Suc n) after s =
    (if page = [] then (Inr True, s)
     else andThen (copy_page env i conv page) (\<lambda>_. if length page < 200 then ret True
            else sync_pages env c i conv n (e_seq (last page))) s)"
proof -
  let ?r = "\<lparr>rs_status = 200, rs_detail = None, rs_body = Some page\<rparr>"
  have r: "http_call (h_events (me_http env) c conv after 200) s = (Inr ?r, s)"
    by (rule http_ok) (use serve log_page page in \<open>simp add: serves_log_def\<close>)
  have first: "e_seq e = after + 1" if "page = e # es" for e es
  proof -
    have l: "nat after < length (events_of conv sdb)" using that page by (cases "nat after < length (events_of conv sdb)") auto
    then have "e = events_of conv sdb ! nat after" using that page by (metis drop_eq_Nil hd_drop_conv_nth linorder_not_less list.sel(1) list.size(3) take_eq_Nil take_hd_drop hd_take less_numeral_extra(3) zero_less_numeral)
    then show ?thesis using contiguous_nth [OF serve(2) l] serve(3) by simp
  qed
  show ?thesis
    using first
    by (cases page) (simp_all add: andThen_def [of "http_call _"] r raise_for_status_def validated_def of_sum_def
        andThen_ret io_basic)
qed

lemma sync_pages_complete:
  assumes serve: "serves_log env c conv sdb" "seqs_contiguous conv sdb"
  shows "ledger_inv (mg_db s) \<Longrightarrow> require_payload i (mg_db s) = None \<Longrightarrow> 0 \<le> after \<Longrightarrow>
    length (events_of conv sdb) - nat after < 200 * n \<Longrightarrow>
    \<exists>s'. sync_pages env c i conv n after s = (Inr True, s') \<and>
      (\<forall>e \<in> set (drop (nat after) (events_of conv sdb)). copied i conv (e_seq e) (mg_db s')) \<and>
      (\<forall>a b q. copied a b q (mg_db s) \<longrightarrow> copied a b q (mg_db s'))"
proof (induction n arbitrary: s after)
  case 0
  then show ?case by (auto simp: ret_def)
next
  case (Suc n)
  let ?es = "events_of conv sdb" and ?k = "nat after"
  define page where "page = take 200 (drop ?k ?es)"
  note step = sync_pages_step [OF serve Suc.prems(3) page_def, of i n s]
  show ?case
  proof (cases "page = []")
    case True
    then show ?thesis using step by (auto simp: page_def)
  next
    case False
    have nth: "e_seq (page ! j) = after + int (Suc j)" if "j < length page" for j
      using that contiguous_nth [OF serve(2), of "?k + j"] Suc.prems(3) by (auto simp: page_def)
    have "page_ordered page" by (rule page_ordered_upt [of _ after]) (use nth Suc.prems(3) in auto)
    moreover have "length page \<le> 200" by (simp add: page_def)
    ultimately obtain s1 where s1: "copy_page env i conv page s = (Inr (), s1)" "ledger_inv (mg_db s1)" "require_payload i (mg_db s1) = None"
      "\<forall>a b q. copied a b q (mg_db s1) \<longleftrightarrow> copied a b q (mg_db s) \<or> (a = i \<and> b = conv \<and> q \<in> e_seq ` set page)"
      using copy_page_step [OF Suc.prems(1,2) False, of env conv] by blast
    have split: "drop ?k ?es = page @ drop 200 (drop ?k ?es)" by (simp only: page_def append_take_drop_id)
    show ?thesis
    proof (cases "length page < 200")
      case True
      then have "drop ?k ?es = page" by (simp add: page_def)
      then show ?thesis using step False s1 True by (auto simp: andThen_def ret_def)
    next
      case full: False
      then have len: "length page = 200" by (simp add: page_def)
      have l: "e_seq (last page) = after + 200" using nth [of 199] len False by (simp add: last_conv_nth)
      have "length ?es - nat (after + 200) < 200 * n"
        using Suc.prems(3,4) arg_cong [OF len [unfolded page_def], of id] by (simp add: min_def nat_add_distrib split: if_splits)
      from Suc.IH [OF s1(2,3) _ this] Suc.prems(3) obtain s' where
        s': "sync_pages env c i conv n (after + 200) s1 = (Inr True, s')"
          "\<forall>e \<in> set (drop (nat (after + 200)) ?es). copied i conv (e_seq e) (mg_db s')"
          "\<forall>a b q. copied a b q (mg_db s1) \<longrightarrow> copied a b q (mg_db s')" by auto
      have "drop 200 (drop ?k ?es) = drop (nat (after + 200)) ?es" using Suc.prems(3) by (simp add: nat_add_distrib add.commute)
      then have "\<forall>e \<in> set (drop ?k ?es). copied i conv (e_seq e) (mg_db s')"
        using s' s1(4) by (subst split) auto
      then show ?thesis using step False s1 s' len l by (auto simp: andThen_def)
    qed
  qed
qed


definition sample_log :: sandbox_db where
  "sample_log = empty_sandbox\<lparr>events := [\<lparr>ew_conversation = ''c1'', ew_event = sample_event 1\<rparr>,
     \<lparr>ew_conversation = ''c1'', ew_event = sample_event 2\<rparr>]\<rparr>"

definition sample_sync_env :: "unit manager_env" where
  "sample_sync_env = sample_manager_env\<lparr>me_http := sample_http\<lparr>h_events :=
     (\<lambda>_ conv after limit p. (Inr \<lparr>rs_status = 200, rs_detail = None,
        rs_body = (case log_list conv after (Some (int limit)) sample_log of Inl _ \<Rightarrow> None | Inr es \<Rightarrow> Some es)\<rparr>, p))\<rparr>\<rparr>"

definition sample_connection :: SandboxConnection where
  "sample_connection = \<lparr>cn_base_url = ''https://x'', cn_connect_token = ''t'', cn_session_api_key = ''k''\<rparr>"


end
