(* ===== verification/Control_Findings.thy ===== *)
theory Control_Findings
  imports Scheduler_Props Finalization Event_Sync
begin

text \<open>Two behaviours of the control plane that its comments and states do not intend.\<close>

text \<open>
  An exception in a supervision round sets the phase back to running whatever it was: when the durability
  barrier is unavailable during the cleanup of a task, the pending termination is forgotten.
\<close>

lemma supervision_error_forgets_termination:
  assumes inv: "ledger_inv (mg_db s)" and task: "fetchone (\<lambda>r. t_id r = i) (tasks (mg_db s)) = Some row"
    and res: "get_reservation i (mg_db s) = Some v" "rv_phase v = RP_TERMINATION_PENDING"
    and run: "\<not> mg_stop s" and down: "\<And>n p. le_durable (me_life env) n p = (Inl (RuntimeError m), p)"
  shows "\<exists>s' v'. supervise env [env] i s = (Inr False, s') \<and> get_reservation i (mg_db s') = Some v' \<and>
    rv_phase v' = RP_RUNNING"
proof -
  have t: "terminate (me_life env) i w = (Inl (RuntimeError m), w)" for w
    by (simp add: terminate_def andThen_def durable_barrier_def down)
  have c: "attempt_cleanup env i s = (Inl (RuntimeError m), s)"
    by (simp add: attempt_cleanup_def Let_def andThen_def catch_def on_world_def t raise_def)
  have round: "supervise_rounds [env] i s = (Inl (RuntimeError m), s)"
    using run res c by (simp add: supervise_round_def andThen_def reading_def ledger_read_def)
  have "distinct (map rv_task_id (task_reservations (mg_db s)))" using inv by (simp add: inv_defs)
  from reservation_result [OF this res(1) task, of None "me_now env" RP_RUNNING
      "Some (''supervision error: '' @ error_name (RuntimeError m))"]
  obtain x d1 v' where u: "update_reservation (me_now env) i RP_RUNNING (Some (''supervision error: '' @ error_name (RuntimeError m)))
      None (mg_db s) = (Inr x, d1)" "get_reservation i d1 = Some v'" "rv_phase v' = RP_RUNNING" by auto
  show ?thesis
    using u round
    by (auto simp: supervise_def andThen_def catch_def ret_def raise_def ledger_call_def on_world_def on_ledger_def loop_done_def
        simp del: supervise_rounds.simps error_name.simps)
qed

text \<open>Reconciliation puts a finished task to sleep when its sandbox stopped while its phase was running.\<close>

lemma reconcile_revives_cancelled:
  assumes "rv_phase v = RP_RUNNING" "sc_provider_id cr \<noteq> None" "get_supervision (rv_task_id v) (sd_db s) \<noteq> None"
    and "fetchone (\<lambda>r. t_id r = rv_task_id v) (tasks (sd_db s)) = Some row" "t_state row = TS_CANCELLED"
  shows "\<exists>row'. fetchone (\<lambda>r. t_id r = rv_task_id v) (tasks (sd_db (snd (reconcile_stopped env v cr sn s)))) = Some row' \<and>
    t_state row' = TS_SLEEPING"
proof -
  let ?i = "rv_task_id v"
  obtain x d1 row1 where f: "finish_task (so_now env) ?i TS_SLEEPING (Some ''workspace VM stopped; send a message to resume'')
      None (sd_db s) = (Inr x, d1)" "fetchone (\<lambda>r. t_id r = ?i) (tasks d1) = Some row1" "t_state row1 = TS_SLEEPING"
    using finish_result [OF assms(4)] by blast
  have "get_task ?i None (sd_db s) = Some (row_to_record row (joined_outcome (sd_db s) row))"
    using assms(4) by (simp add: get_task_def)
  moreover have "tr_state (row_to_record row o1) = TS_CANCELLED" for o1 using assms(5) by (simp add: row_to_record_def)
  ultimately have "sd_db (snd (reconcile_stopped env v cr sn s)) = snd (release_reservation (so_now env) ?i ''confirmed_absent'' d1)"
    using assms(1-3) f(1)
    by (auto simp: reconcile_stopped_def Let_def s_read_def reading_def andThen_def release_def s_ledger_def on_manager_def
        ledger_call_def on_world_def on_ledger_def release_reservation_def db_write_def)
  then show ?thesis using f(2,3) by (simp add: release_reservation_def db_write_def fetchone_update_matched)
qed

end
