(* ===== verification/Github.thy ===== *)
theory Github
  imports Lifecycle Task_Service
begin

text \<open>
  \<open>backend/gg/runtime/github.py\<close>: the REST adapter behind draft pull requests.  The HTTP exchange of
  \<open>httpx\<close> is a function on the state of the outside world that answers a request with a response, a
  timeout or another transport failure; JSON texts are \<open>pyval\<close> trees (numbers with a fraction do
  not occur in what is read).  The protocol \<open>GitHubGateway\<close> is the record \<open>gateway\<close>;
  \<open>HttpGitHubGateway\<close> builds one over an exchange.
\<close>

section \<open>Exceptions of publication\<close>

datatype publisher_error =
    GitHubError string
  | GitHubTimeoutError string
  | PublicationError string
  | PublicationConflictError string
  | PublicationUncertainError string
  | Ledger_error error
  | Python_error string

section \<open>Values of JSON documents\<close>

text \<open>Truth value, \<open>str\<close> and \<open>int\<close> of a value.\<close>

fun py_bool :: "pyval \<Rightarrow> bool" where
  "py_bool PNone = False"
| "py_bool (PBool b) = b"
| "py_bool (PInt i) = (i \<noteq> 0)"
| "py_bool (PStr s) = (s \<noteq> [])"
| "py_bool (PTime t) = True"
| "py_bool (PList vs) = (vs \<noteq> [])"
| "py_bool (PTuple vs) = (vs \<noteq> [])"
| "py_bool (PDict d) = (d \<noteq> [])"

definition comma_join :: "string list \<Rightarrow> string" where
  "comma_join xs = (case xs of [] \<Rightarrow> [] | y # ys \<Rightarrow> y @ concat (map (\<lambda>z. '', '' @ z) ys))"

fun py_text :: "pyval \<Rightarrow> string" where
  "py_text PNone = ''None''"
| "py_text (PBool b) = (if b then ''True'' else ''False'')"
| "py_text (PInt i) = show_int i"
| "py_text (PStr s) = py_repr s"
| "py_text (PTime t) = show_int t"
| "py_text (PList vs) = ''['' @ comma_join (map py_text vs) @ '']''"
| "py_text (PTuple vs) = ''('' @ comma_join (map py_text vs) @ '')''"
| "py_text (PDict d) = ''{'' @ comma_join (map (\<lambda>(k, v). py_repr k @ '': '' @ py_text v) d) @ ''}''"

definition py_str :: "pyval \<Rightarrow> string" where
  "py_str v = (case v of PStr s \<Rightarrow> s | _ \<Rightarrow> py_text v)"

definition digit_char :: "char \<Rightarrow> bool" where
  "digit_char c \<longleftrightarrow> 48 \<le> (of_char c :: nat) \<and> (of_char c :: nat) \<le> 57"

definition decimal :: "string \<Rightarrow> int" where
  "decimal s = foldl (\<lambda>n c. 10 * n + (of_char c - 48)) 0 s"

text \<open>\<open>int\<close> of a text: surrounding space, a sign, digits with single underscores between them.\<close>

fun digit_groups :: "string \<Rightarrow> bool" where
  "digit_groups [c] = digit_char c"
| "digit_groups (c # d # s) = (digit_char c \<and> (if d = CHR ''_'' then digit_groups s else digit_groups (d # s)))"
| "digit_groups [] = False"

definition int_text :: "string \<Rightarrow> publisher_error + int" where
  "int_text t =
     (let s = strip t; negative = (s \<noteq> [] \<and> hd s = CHR ''-'');
          body = (if s \<noteq> [] \<and> hd s \<in> set ''+-'' then tl s else s);
          n = decimal (filter (\<lambda>c. c \<noteq> CHR ''_'') body)
      in if digit_groups body then Inr (if negative then - n else n) else Inl (Python_error ''ValueError''))"

fun py_int :: "pyval \<Rightarrow> publisher_error + int" where
  "py_int (PInt i) = Inr i"
| "py_int (PBool b) = Inr (if b then 1 else 0)"
| "py_int (PStr s) = int_text s"
| "py_int _ = Inl (Python_error ''TypeError'')"

text \<open>\<open>payload.get(key)\<close>, which only a \<open>dict\<close> has, and \<open>str(payload.get(key) or "")\<close>.\<close>

fun py_get :: "pyval \<Rightarrow> string \<Rightarrow> publisher_error + pyval option" where
  "py_get (PDict d) key = Inr (map_of d key)"
| "py_get _ key = Inl (Python_error ''AttributeError'')"

definition value_or :: "pyval option \<Rightarrow> pyval \<Rightarrow> pyval" where
  "value_or v fallback = (case v of None \<Rightarrow> fallback | Some x \<Rightarrow> if py_bool x then x else fallback)"

definition text_or_empty :: "pyval option \<Rightarrow> string" where
  "text_or_empty v = py_str (value_or v (PStr []))"

section \<open>Pull requests\<close>

record RemotePullRequest =
  rp_number :: int
  rp_html_url :: string
  rp_draft :: bool
  rp_state :: string
  rp_author :: string
  rp_title :: string
  rp_body :: string
  rp_head_ref :: string
  rp_base_ref :: string
  rp_head_sha :: string

definition sum_bind :: "'e + 'a \<Rightarrow> ('a \<Rightarrow> 'e + 'b) \<Rightarrow> 'e + 'b" where
  "sum_bind x f = (case x of Inl e \<Rightarrow> Inl e | Inr a \<Rightarrow> f a)"

definition subscript :: "pyval \<Rightarrow> string \<Rightarrow> publisher_error + pyval" where
  "subscript payload key = sum_bind (py_get payload key) (\<lambda>v.
     case v of None \<Rightarrow> Inl (Python_error ''KeyError'') | Some x \<Rightarrow> Inr x)"

definition parse_pull :: "pyval \<Rightarrow> publisher_error + RemotePullRequest" where
  "parse_pull payload =
     sum_bind (py_get payload ''user'') (\<lambda>u. let user = value_or u (PDict []) in
     sum_bind (py_get payload ''head'') (\<lambda>h. let head = value_or h (PDict []) in
     sum_bind (py_get payload ''base'') (\<lambda>b. let base = value_or b (PDict []) in
     sum_bind (sum_bind (subscript payload ''number'') py_int) (\<lambda>number.
     sum_bind (subscript payload ''html_url'') (\<lambda>html_url.
     sum_bind (py_get payload ''draft'') (\<lambda>draft.
     sum_bind (py_get payload ''state'') (\<lambda>state.
     sum_bind (py_get user ''login'') (\<lambda>login.
     sum_bind (py_get payload ''title'') (\<lambda>title.
     sum_bind (py_get payload ''body'') (\<lambda>body.
     sum_bind (py_get head ''ref'') (\<lambda>head_ref.
     sum_bind (py_get base ''ref'') (\<lambda>base_ref.
     sum_bind (py_get head ''sha'') (\<lambda>head_sha.
     Inr \<lparr>rp_number = number, rp_html_url = py_str html_url,
          rp_draft = (case draft of None \<Rightarrow> False | Some v \<Rightarrow> py_bool v),
          rp_state = (case state of None \<Rightarrow> ''open'' | Some v \<Rightarrow> py_str v),
          rp_author = text_or_empty login, rp_title = text_or_empty title, rp_body = text_or_empty body,
          rp_head_ref = text_or_empty head_ref, rp_base_ref = text_or_empty base_ref,
          rp_head_sha = text_or_empty head_sha\<rparr>)))))))))))))"

definition owner_repo :: "string \<Rightarrow> publisher_error + (string \<times> string)" where
  "owner_repo repository =
     (let owner = takeWhile (\<lambda>c. c \<noteq> CHR ''/'') repository;
          rest = dropWhile (\<lambda>c. c \<noteq> CHR ''/'') repository; name = tl rest
      in if rest = [] \<or> owner = [] \<or> name = [] \<or> CHR ''/'' \<in> set name
         then Inl (GitHubError (''repository must be 'owner/name', got '' @ py_repr repository))
         else Inr (owner, name))"

definition redact :: "string \<Rightarrow> string \<Rightarrow> string" where
  "redact text token = (if token \<noteq> [] then replace_str token REDACTED text else text)"

section \<open>The gateway protocol\<close>

record 'p gateway =
  gw_branch_sha :: "string \<Rightarrow> string \<Rightarrow> ('p, publisher_error, string option) io"
  gw_list :: "string \<Rightarrow> string \<Rightarrow> string \<Rightarrow> string \<Rightarrow> ('p, publisher_error, RemotePullRequest list) io"
  gw_create :: "string \<Rightarrow> string \<Rightarrow> string \<Rightarrow> string \<Rightarrow> string \<Rightarrow> ('p, publisher_error, RemotePullRequest) io"

section \<open>HttpGitHubGateway\<close>

record http_request =
  rq_method :: string
  rq_url :: string
  rq_headers :: "(string \<times> string) list"
  rq_params :: "(string \<times> pyval) list"
  rq_json :: "pyval option"

datatype http_reply = Http_timeout string | Http_failure string
  | Http_response int string "pyval option"

type_synonym 'p exchange = "http_request \<Rightarrow> 'p \<Rightarrow> http_reply \<times> 'p"

record HttpGitHubGateway =
  hg_token :: string
  hg_api_url :: string

definition rstrip_slash :: "string \<Rightarrow> string" where
  "rstrip_slash s = rev (dropWhile (\<lambda>c. c = CHR ''/'') (rev s))"

definition new_gateway :: "string \<Rightarrow> string \<Rightarrow> publisher_error + HttpGitHubGateway" where
  "new_gateway token api_url =
     (if token = [] \<or> token \<noteq> strip token then Inl (GitHubError ''GitHub token must be a non-empty secret'')
      else Inr \<lparr>hg_token = token, hg_api_url = rstrip_slash api_url\<rparr>)"

definition gateway_headers :: "HttpGitHubGateway \<Rightarrow> (string \<times> string) list" where
  "gateway_headers g =
     [(''Accept'', ''application/vnd.github+json''), (''Authorization'', ''Bearer '' @ hg_token g),
      (''X-GitHub-Api-Version'', ''2022-11-28'')]"

definition gateway_request ::
  "'p exchange \<Rightarrow> HttpGitHubGateway \<Rightarrow> string \<Rightarrow> string \<Rightarrow> (string \<times> pyval) list \<Rightarrow> pyval option \<Rightarrow>
   ('p, publisher_error, int \<times> string \<times> pyval option) io" where
  "gateway_request http g verb path params json p =
     (case http \<lparr>rq_method = verb, rq_url = hg_api_url g @ path, rq_headers = gateway_headers g,
                 rq_params = params, rq_json = json\<rparr> p of
        (Http_timeout exc, p') \<Rightarrow>
          (Inl (GitHubTimeoutError (redact (''GitHub request timed out: '' @ exc) (hg_token g))), p')
      | (Http_failure exc, p') \<Rightarrow>
          (Inl (GitHubError (redact (''GitHub request failed: '' @ exc) (hg_token g))), p')
      | (Http_response code text body, p') \<Rightarrow> (Inr (code, text, body), p'))"

definition check_status :: "HttpGitHubGateway \<Rightarrow> string \<Rightarrow> int \<times> string \<times> 'j \<Rightarrow> publisher_error + unit" where
  "check_status g action response =
     (case response of (code, text, _) \<Rightarrow>
        if 200 \<le> code \<and> code \<le> 299 then Inr ()
        else Inl (GitHubError (''GitHub '' @ action @ '' failed with HTTP '' @ show_int code @ '': '' @
                    redact text (hg_token g))))"

definition json_of :: "int \<times> string \<times> pyval option \<Rightarrow> publisher_error + pyval" where
  "json_of response =
     (case snd (snd response) of None \<Rightarrow> Inl (Python_error ''JSONDecodeError'') | Some v \<Rightarrow> Inr v)"

definition get_authenticated_login ::
  "'p exchange \<Rightarrow> HttpGitHubGateway \<Rightarrow> ('p, publisher_error, string) io" where
  "get_authenticated_login http g =
     andThen (gateway_request http g ''GET'' ''/user'' [] None) (\<lambda>response.
     andThen (lift_sum (check_status g ''get authenticated user'' response)) (\<lambda>_.
     andThen (lift_sum (json_of response)) (\<lambda>payload.
     andThen (lift_sum (py_get payload ''login'')) (\<lambda>v.
       if text_or_empty v = [] then raise (GitHubError ''GitHub /user response did not include login'')
       else ret (text_or_empty v)))))"

definition unreserved :: "char \<Rightarrow> bool" where
  "unreserved c \<longleftrightarrow> alnum c \<or> c \<in> set ''_.-~/''"

definition quote_path :: "string \<Rightarrow> string" where
  "quote_path s = concat (map (\<lambda>c. if unreserved c then [c]
     else [CHR ''%'', ''0123456789ABCDEF'' ! (of_char c div 16), ''0123456789ABCDEF'' ! (of_char c mod 16)]) s)"

definition get_branch_sha ::
  "'p exchange \<Rightarrow> HttpGitHubGateway \<Rightarrow> string \<Rightarrow> string \<Rightarrow> ('p, publisher_error, string option) io" where
  "get_branch_sha http g repository branch =
     andThen (lift_sum (owner_repo repository)) (\<lambda>(owner, name).
     andThen (gateway_request http g ''GET''
        (''/repos/'' @ owner @ ''/'' @ name @ ''/git/ref/heads/'' @ quote_path branch) [] None) (\<lambda>response.
     if fst response = 404 then ret None
     else
       andThen (lift_sum (check_status g ''get branch ref'' response)) (\<lambda>_.
       andThen (lift_sum (json_of response)) (\<lambda>payload.
       andThen (lift_sum (py_get payload ''object'')) (\<lambda>obj.
       andThen (lift_sum (py_get (value_or obj (PDict [])) ''sha'')) (\<lambda>v.
         ret (if text_or_empty v = [] then None else Some (text_or_empty v))))))))"

fun parse_all :: "pyval list \<Rightarrow> publisher_error + RemotePullRequest list" where
  "parse_all [] = Inr []"
| "parse_all (v # vs) = sum_bind (parse_pull v) (\<lambda>p. sum_bind (parse_all vs) (\<lambda>ps. Inr (p # ps)))"

text \<open>The loop over pages; its first argument counts the pages that may still be asked for.\<close>

fun list_pages ::
  "'p exchange \<Rightarrow> HttpGitHubGateway \<Rightarrow> string \<Rightarrow> (string \<times> pyval) list \<Rightarrow> nat \<Rightarrow> RemotePullRequest list \<Rightarrow>
   ('p, publisher_error, RemotePullRequest list) io" where
  "list_pages http g path params 0 found = ret found"
| "list_pages http g path params (Suc n) found =
     andThen (gateway_request http g ''GET'' path (params @ [(''page'', PInt (3 - int n))]) None) (\<lambda>response.
     andThen (lift_sum (check_status g ''list pull requests'' response)) (\<lambda>_.
     andThen (lift_sum (json_of response)) (\<lambda>payload.
       case payload of
         PList items \<Rightarrow>
           if items = [] then ret found
           else
             andThen (lift_sum (parse_all items)) (\<lambda>pulls.
               if length items < 100 then ret (found @ pulls)
               else list_pages http g path params n (found @ pulls))
       | _ \<Rightarrow> ret found)))"

definition list_pull_requests ::
  "'p exchange \<Rightarrow> HttpGitHubGateway \<Rightarrow> string \<Rightarrow> string \<Rightarrow> string \<Rightarrow> string \<Rightarrow>
   ('p, publisher_error, RemotePullRequest list) io" where
  "list_pull_requests http g repository head base state =
     andThen (lift_sum (owner_repo repository)) (\<lambda>(owner, name).
       list_pages http g (''/repos/'' @ owner @ ''/'' @ name @ ''/pulls'')
         [(''state'', PStr state),
          (''head'', PStr (if CHR '':'' \<in> set head then head else owner @ '':'' @ head)),
          (''base'', PStr base), (''per_page'', PInt 100)] 3 [])"

definition create_draft_pull_request ::
  "'p exchange \<Rightarrow> HttpGitHubGateway \<Rightarrow> string \<Rightarrow> string \<Rightarrow> string \<Rightarrow> string \<Rightarrow> string \<Rightarrow>
   ('p, publisher_error, RemotePullRequest) io" where
  "create_draft_pull_request http g repository title body head base =
     andThen (lift_sum (owner_repo repository)) (\<lambda>(owner, name).
     andThen (gateway_request http g ''POST'' (''/repos/'' @ owner @ ''/'' @ name @ ''/pulls'') []
        (Some (PDict [(''title'', PStr title), (''body'', PStr body), (''head'', PStr head),
           (''base'', PStr base), (''draft'', PBool True)]))) (\<lambda>response.
     andThen (lift_sum (check_status g ''create draft pull request'' response)) (\<lambda>_.
     andThen (lift_sum (json_of response)) (\<lambda>payload. lift_sum (parse_pull payload)))))"

definition http_gateway :: "'p exchange \<Rightarrow> HttpGitHubGateway \<Rightarrow> 'p gateway" where
  "http_gateway http g = \<lparr>gw_branch_sha = get_branch_sha http g, gw_list = list_pull_requests http g,
     gw_create = create_draft_pull_request http g\<rparr>"

end
