(* ===== verification/Draft_Publisher.thy ===== *)
theory Draft_Publisher
  imports Github
begin

text \<open>
  \<open>backend/gg/runtime/publication.py\<close>: \<open>DraftPublisher\<close> commits and pushes the branch of a task and
  creates or recovers its draft pull request over the publication journal of the ledger.  The
  gateway is the record of \<open>Github\<close>, \<open>git\<close> a function from arguments, directory and environment to a
  completed process or the name of an exception.  The trace lists, in order and with the database
  revision at that moment, the durability barriers passed, the git commands run, what each listing of pull
  requests returned, and the requests to create one.
\<close>

section \<open>Request, publisher and world\<close>

record PublicationRequest =
  pq_task_id :: string
  pq_repository :: string
  pq_task_branch :: string
  pq_base_ref :: string
  pq_base_sha :: string
  pq_head_sha :: "string option"
  pq_task_marker :: string
  pq_agent_outcome :: AgentOutcome
  pq_check_outcome :: CheckOutcome
  pq_check :: "CommandCapture option"
  pq_changed_files :: "string list"

record BotIdentity =
  bi_name :: string
  bi_email :: string
  bi_login :: string

datatype pub_call = Pub_durable nat | Git_call "string list" nat
  | Listed "RemotePullRequest list" nat | Create_pull string string string nat

record 'p pub_world =
  pw_db :: database
  pw_remote :: 'p
  pw_trace :: "pub_call list"

type_synonym ('p, 'a) pub_op = "('p pub_world, publisher_error, 'a) io"

type_synonym environ = "(string \<times> string) list"

record 'p DraftPublisher =
  dp_github :: "'p gateway"
  dp_bot :: BotIdentity
  dp_github_token :: string
  dp_process_env :: environ

record 'p publisher = "'p DraftPublisher" +
  pb_git :: "string list \<Rightarrow> string \<Rightarrow> environ option \<Rightarrow> 'p \<Rightarrow> (string + completed_process) \<times> 'p"
  pb_askpass :: string
  pb_durable :: "nat \<Rightarrow> 'p \<Rightarrow> (error + unit) \<times> 'p"
  pb_now :: timestamp

definition new_publisher ::
  "'p gateway \<Rightarrow> BotIdentity \<Rightarrow> string \<Rightarrow> environ option \<Rightarrow> environ \<Rightarrow> publisher_error + 'p DraftPublisher" where
  "new_publisher github identity github_token process_env os_environ =
     (if github_token = [] \<or> github_token \<noteq> strip github_token
      then Inl (PublicationError ''github token must be a non-empty secret'')
      else Inr \<lparr>dp_github = github, dp_bot = identity, dp_github_token = github_token,
        dp_process_env = (case process_env of None \<Rightarrow> os_environ | Some e \<Rightarrow> if e = [] then os_environ else e)\<rparr>)"

section \<open>Effects\<close>

definition pub_note :: "(nat \<Rightarrow> pub_call) \<Rightarrow> ('p, unit) pub_op" where
  "pub_note c w = (Inr (), w\<lparr>pw_trace := pw_trace w @ [c (revision (pw_db w))]\<rparr>)"

definition pub_ledger :: "'a ledger_op \<Rightarrow> ('p, 'a) pub_op" where
  "pub_ledger m w = (case m (pw_db w) of
     (Inl e, d) \<Rightarrow> (Inl (Ledger_error e), w\<lparr>pw_db := d\<rparr>)
   | (Inr x, d) \<Rightarrow> (Inr x, w\<lparr>pw_db := d\<rparr>))"

definition on_remote :: "('p, publisher_error, 'a) io \<Rightarrow> ('p, 'a) pub_op" where
  "on_remote m w = (let (r, p) = m (pw_remote w) in (r, w\<lparr>pw_remote := p\<rparr>))"

definition pub_barrier :: "'p publisher \<Rightarrow> ('p, unit) pub_op" where
  "pub_barrier pb w =
     (case pb_durable pb (revision (pw_db w)) (pw_remote w) of
        (Inl e, p) \<Rightarrow> (Inl (Ledger_error e), w\<lparr>pw_remote := p\<rparr>)
      | (Inr _, p) \<Rightarrow> (Inr (), w\<lparr>pw_remote := p, pw_trace := pw_trace w @ [Pub_durable (revision (pw_db w))]\<rparr>))"

definition subprocess_run ::
  "'p publisher \<Rightarrow> string list \<Rightarrow> string \<Rightarrow> environ option \<Rightarrow> ('p, completed_process) pub_op" where
  "subprocess_run pb args cwd env =
     andThen (pub_note (Git_call args)) (\<lambda>_.
       on_remote (\<lambda>p. case pb_git pb args cwd env p of
         (Inl exc, p') \<Rightarrow> (Inl (Python_error exc), p') | (Inr c, p') \<Rightarrow> (Inr c, p')))"

section \<open>Texts\<close>

definition TASK_MARKER_PREFIX :: string where
  "TASK_MARKER_PREFIX = ''gg-task-marker:''"

definition marker_token :: "string \<Rightarrow> string" where
  "marker_token task_marker = TASK_MARKER_PREFIX @ '' '' @ task_marker"

definition should_publish :: "PublicationRequest \<Rightarrow> bool" where
  "should_publish q \<longleftrightarrow> pq_agent_outcome q = AO_SUCCEEDED \<and> pq_changed_files q \<noteq> []"

definition skip_detail :: "PublicationRequest \<Rightarrow> string" where
  "skip_detail q =
     (if pq_agent_outcome q = AO_NO_CHANGES then ''no_changes''
      else if pq_agent_outcome q = AO_CANCELLED then ''cancelled_without_publication''
      else if pq_agent_outcome q \<in> {AO_FAILED, AO_TIMEOUT, AO_NOT_RUN} then ''agent_failure_without_publication''
      else ''no_changes'')"

fun published_outcome_detail :: "CheckOutcome \<Rightarrow> string" where
  "published_outcome_detail CO_FAILED = ''checks_failed''"
| "published_outcome_detail CO_TIMEOUT = ''checks_timed_out''"
| "published_outcome_detail CO_PASSED = ''checks_passed''"
| "published_outcome_detail CO_NOT_RUN = ''checks_not_run''"

definition is_conflict :: "string option \<Rightarrow> bool" where
  "is_conflict detail = (case detail of None \<Rightarrow> False | Some s \<Rightarrow> prefix ''conflict:'' s)"

definition pr_title :: "PublicationRequest \<Rightarrow> string" where
  "pr_title q = ''gg-task '' @ pq_task_id q"

fun check_heading :: "CheckOutcome \<Rightarrow> string" where
  "check_heading CO_PASSED = ''## Measured checks: passed''"
| "check_heading CO_FAILED = ''## Measured checks: FAILED''"
| "check_heading CO_TIMEOUT = ''## Measured checks: timed out''"
| "check_heading CO_NOT_RUN = ''## Measured checks: not run''"

definition check_output :: "CommandCapture \<Rightarrow> string" where
  "check_output c =
     (let output = cc_stdout c @ cc_stderr c;
          output = (if cc_stdout_truncated c \<or> cc_stderr_truncated c then output @ nl @ ''[truncated]'' else output);
          output = (if strip output = [] then ''(no output)'' else strip output)
      in if 4000 < py_len output then take_points 4000 output @ nl @ ''[truncated]'' else output)"

definition check_body :: "CheckOutcome \<Rightarrow> CommandCapture option \<Rightarrow> string" where
  "check_body outcome capture =
     (case capture of
        None \<Rightarrow> check_heading outcome
      | Some c \<Rightarrow>
          check_heading outcome @ nl @ nl @
          ''- command: `'' @ cc_command c @ ''`'' @ nl @
          ''- exit_code: `'' @ (case cc_exit_code c of None \<Rightarrow> ''None'' | Some i \<Rightarrow> show_int i) @ ''`'' @ nl @
          ''- duration_ms: `'' @ show_int (cc_duration_ms c) @ ''`'' @ nl @
          ''- timed_out: `'' @ (if cc_timed_out c then ''True'' else ''False'') @ ''`'' @ nl @ nl @
          ''```'' @ nl @ check_output c @ nl @ ''```'')"

definition file_lines :: "string list \<Rightarrow> string" where
  "file_lines names =
     (case names of [] \<Rightarrow> ''- (none)''
      | n # ns \<Rightarrow> ''- `'' @ n @ ''`'' @ concat (map (\<lambda>m. nl @ ''- `'' @ m @ ''`'') ns))"

definition pr_body :: "PublicationRequest \<Rightarrow> string \<Rightarrow> string" where
  "pr_body q commit_sha =
     ''<!-- '' @ marker_token (pq_task_marker q) @ '' -->'' @ nl @ nl @
     ''# Task `'' @ pq_task_id q @ ''`'' @ nl @ nl @
     ''- Repository: `'' @ pq_repository q @ ''`'' @ nl @
     ''- Branch: `'' @ pq_task_branch q @ ''`'' @ nl @
     ''- Base: `'' @ pq_base_ref q @ ''` (`'' @ pq_base_sha q @ ''`)'' @ nl @
     ''- Head: `'' @ commit_sha @ ''`'' @ nl @
     ''- Agent outcome: `'' @ AgentOutcome_value (pq_agent_outcome q) @ ''`'' @ nl @
     ''- Check outcome: `'' @ CheckOutcome_value (pq_check_outcome q) @ ''`'' @ nl @ nl @
     check_body (pq_check_outcome q) (pq_check q) @ nl @ nl @
     ''## Changed files'' @ nl @ nl @ file_lines (pq_changed_files q) @ nl"

section \<open>Git\<close>

definition identity_env :: "BotIdentity \<Rightarrow> environ" where
  "identity_env identity = [(''GIT_AUTHOR_NAME'', bi_name identity), (''GIT_AUTHOR_EMAIL'', bi_email identity),
     (''GIT_COMMITTER_NAME'', bi_name identity), (''GIT_COMMITTER_EMAIL'', bi_email identity)]"

definition env_update :: "environ \<Rightarrow> environ \<Rightarrow> environ" where
  "env_update new env = fold (\<lambda>(k, v). dict_put k v) new env"

definition git_identity_env :: "'p publisher \<Rightarrow> environ" where
  "git_identity_env pb =
     dict_pop ''GG_GITHUB_CLONE_TOKEN'' (dict_pop ''GITHUB_TOKEN'' (dict_pop ''GH_TOKEN''
       (env_update (identity_env (dp_bot pb)) (dp_process_env pb))))"

definition git_auth_env :: "'p publisher \<Rightarrow> environ" where
  "git_auth_env pb =
     dict_pop ''GIT_CONFIG_PARAMETERS'' (env_update
       [(''GG_GIT_ASKPASS_TOKEN'', dp_github_token pb), (''GIT_ASKPASS'', pb_askpass pb),
        (''GIT_TERMINAL_PROMPT'', ''0''), (''GIT_CONFIG_COUNT'', ''1''),
        (''GIT_CONFIG_KEY_0'', ''credential.helper''), (''GIT_CONFIG_VALUE_0'', [])] (dp_process_env pb))"

definition git_failure :: "string list \<Rightarrow> completed_process \<Rightarrow> string \<Rightarrow> publisher_error" where
  "git_failure args c token =
     PublicationError (args ! 0 @ '' '' @ args ! 1 @ '' failed: '' @
       redact (strip (if cp_stderr c \<noteq> [] then cp_stderr c
                      else if cp_stdout c \<noteq> [] then cp_stdout c else ''git failed'')) token)"

definition run_git :: "'p publisher \<Rightarrow> string list \<Rightarrow> string \<Rightarrow> environ \<Rightarrow> ('p, string) pub_op" where
  "run_git pb args cwd env =
     (if ''--force'' \<in> set args \<or> ''-f'' \<in> set args then raise (PublicationError ''force-push is not allowed'')
      else andThen (subprocess_run pb args cwd (Some env)) (\<lambda>c.
        if cp_returncode c \<noteq> 0 then raise (git_failure args c (dp_github_token pb))
        else ret (strip (cp_stdout c))))"

definition ls_remote :: "'p publisher \<Rightarrow> string \<Rightarrow> string \<Rightarrow> environ \<Rightarrow> ('p, string option) pub_op" where
  "ls_remote pb repo_dir branch env =
     andThen (run_git pb [''git'', ''ls-remote'', ''--'', ''origin'', ''refs/heads/'' @ branch] repo_dir env)
       (\<lambda>output. ret (if output = [] then None else Some (first_word output)))"

definition assert_origin_has_no_secret :: "'p publisher \<Rightarrow> string \<Rightarrow> ('p, unit) pub_op" where
  "assert_origin_has_no_secret pb repo_dir =
     andThen (subprocess_run pb [''git'', ''remote'', ''get-url'', ''origin''] repo_dir None) (\<lambda>completed.
       let url = strip (cp_stdout completed); token = dp_github_token pb
       in if token \<noteq> [] \<and> contains token url then raise (PublicationError ''origin URL contains a credential'')
          else case (if CHR ''@'' \<in> set url \<and> prefix ''https://'' url then after_first ''github.com/'' url else None) of
            None \<Rightarrow> ret ()
          | Some rest \<Rightarrow>
              andThen (subprocess_run pb [''git'', ''remote'', ''set-url'', ''origin'', ''https://github.com/'' @ rest]
                 repo_dir None) (\<lambda>_. ret ()))"

definition assert_not_base_branch :: "PublicationRequest \<Rightarrow> publisher_error + unit" where
  "assert_not_base_branch q =
     (if pq_task_branch q = pq_base_ref q then Inl (PublicationError ''refusing to push to the base branch'')
      else if prefix ''-'' (pq_task_branch q) then Inl (PublicationError ''task branch must not look like a git flag'')
      else if contains ''..'' (pq_task_branch q) then Inl (PublicationError (''task branch must not contain '..'' @ [CHR 0x27]))
      else Inr ())"

definition commit_message :: "PublicationRequest \<Rightarrow> string" where
  "commit_message q = ''gg-task '' @ pq_task_id q @ nl @ nl @ TASK_MARKER_PREFIX @ '' '' @ pq_task_marker q @ nl"

definition commit_task_branch :: "'p publisher \<Rightarrow> PublicationRequest \<Rightarrow> string \<Rightarrow> ('p, string) pub_op" where
  "commit_task_branch pb q repo_dir =
     (let git = (\<lambda>args. run_git pb args repo_dir (git_identity_env pb)) in
      andThen (git [''git'', ''rev-parse'', ''--abbrev-ref'', ''HEAD'']) (\<lambda>branch.
      andThen (if branch = pq_base_ref q then git [''git'', ''checkout'', ''-B'', pq_task_branch q] else ret []) (\<lambda>_.
      andThen (git [''git'', ''add'', ''-A'']) (\<lambda>_.
      andThen (git [''git'', ''status'', ''--porcelain'']) (\<lambda>status.
      andThen (if status \<noteq> []
               then git [''git'', ''-c'', ''commit.gpgsign=false'', ''commit'', ''-m'', commit_message q]
               else ret []) (\<lambda>_.
      andThen (git [''git'', ''rev-parse'', ''HEAD'']) (\<lambda>sha.
        if sha = pq_base_sha q then raise (PublicationError ''no commit to publish on the task branch'')
        else ret sha)))))))"

section \<open>Calls to GitHub\<close>

definition github_failed :: "'p publisher \<Rightarrow> publisher_error \<Rightarrow> ('p, 'a) pub_op" where
  "github_failed pb e = (case e of
     GitHubError m \<Rightarrow> raise (PublicationError (redact m (dp_github_token pb)))
   | GitHubTimeoutError m \<Rightarrow> raise (PublicationError (redact m (dp_github_token pb)))
   | _ \<Rightarrow> raise e)"

definition branch_sha :: "'p publisher \<Rightarrow> PublicationRequest \<Rightarrow> ('p, string option) pub_op" where
  "branch_sha pb q =
     catch (on_remote (gw_branch_sha (dp_github pb) (pq_repository q) (pq_task_branch q))) (github_failed pb)"

definition head_base_pull_requests ::
  "'p publisher \<Rightarrow> PublicationRequest \<Rightarrow> ('p, RemotePullRequest list) pub_op" where
  "head_base_pull_requests pb q =
     andThen (catch (on_remote (gw_list (dp_github pb) (pq_repository q) (pq_task_branch q) (pq_base_ref q) ''all''))
        (\<lambda>e. case e of GitHubTimeoutError _ \<Rightarrow> raise (PublicationUncertainError ''listing pull requests timed out'')
           | _ \<Rightarrow> github_failed pb e)) (\<lambda>found.
     andThen (pub_note (Listed found)) (\<lambda>_. ret found))"

definition has_marker :: "PublicationRequest \<Rightarrow> RemotePullRequest \<Rightarrow> bool" where
  "has_marker q pr \<longleftrightarrow> contains (marker_token (pq_task_marker q)) (rp_body pr) \<or>
     contains (marker_token (pq_task_marker q)) (rp_title pr)"

definition matching_pull_requests ::
  "'p publisher \<Rightarrow> PublicationRequest \<Rightarrow> ('p, RemotePullRequest list) pub_op" where
  "matching_pull_requests pb q =
     andThen (head_base_pull_requests pb q) (\<lambda>found. ret (filter (has_marker q) found))"

definition create_call :: "'p publisher \<Rightarrow> PublicationRequest \<Rightarrow> string \<Rightarrow> ('p, RemotePullRequest) pub_op" where
  "create_call pb q commit_sha =
     andThen (pub_note (Create_pull (pq_repository q) (pq_task_branch q) (pq_base_ref q))) (\<lambda>_.
       on_remote (gw_create (dp_github pb) (pq_repository q) (pr_title q) (pr_body q commit_sha)
         (pq_task_branch q) (pq_base_ref q)))"

definition create_failed ::
  "'p publisher \<Rightarrow> PublicationRequest \<Rightarrow> publisher_error \<Rightarrow> ('p, RemotePullRequest) pub_op" where
  "create_failed pb q e = (case e of
     GitHubTimeoutError _ \<Rightarrow>
       andThen (matching_pull_requests pb q) (\<lambda>recovered. case recovered of
           [pr] \<Rightarrow> ret pr
         | [] \<Rightarrow> raise (PublicationUncertainError ''create timed out and no matching pull request was found'')
         | _ \<Rightarrow> raise (PublicationConflictError ''multiple pull requests match after a create timeout''))
   | GitHubError m \<Rightarrow>
       andThen (matching_pull_requests pb q) (\<lambda>recovered. case recovered of
           [pr] \<Rightarrow> ret pr
         | _ \<Rightarrow> raise (PublicationError (redact m (dp_github_token pb))))
   | _ \<Rightarrow> raise e)"

definition MULTIPLE :: string where
  "MULTIPLE = ''multiple pull requests match repository/head/base/task marker''"

definition FOREIGN :: string where
  "FOREIGN = ''remote pull request exists for this head/base without this task marker''"

definition create_or_recover ::
  "'p publisher \<Rightarrow> PublicationRequest \<Rightarrow> string \<Rightarrow> ('p, RemotePullRequest) pub_op" where
  "create_or_recover pb q commit_sha =
     andThen (attempt (create_call pb q commit_sha)) (\<lambda>answer. case answer of
         Inl e \<Rightarrow> create_failed pb q e
       | Inr created \<Rightarrow>
           if \<not> rp_draft created then raise (PublicationError ''GitHub created a non-draft pull request'')
           else ret created)"

definition reconcile_or_create ::
  "'p publisher \<Rightarrow> PublicationRequest \<Rightarrow> string \<Rightarrow> ('p, RemotePullRequest) pub_op" where
  "reconcile_or_create pb q commit_sha =
     andThen (matching_pull_requests pb q) (\<lambda>matched. case matched of
         [pr] \<Rightarrow> ret pr
       | _ # _ # _ \<Rightarrow> raise (PublicationConflictError MULTIPLE)
       | [] \<Rightarrow>
           andThen (head_base_pull_requests pb q) (\<lambda>others.
             if others \<noteq> [] then raise (PublicationConflictError FOREIGN)
             else create_or_recover pb q commit_sha))"

section \<open>Journal\<close>

definition begin_intent ::
  "'p publisher \<Rightarrow> PublicationRequest \<Rightarrow> string option \<Rightarrow> PublicationState \<Rightarrow> string option \<Rightarrow>
   ('p, PublicationRecord \<times> bool) pub_op" where
  "begin_intent pb q commit_sha state detail =
     catch (pub_ledger (begin_publication (pb_now pb) (pq_task_id q) (pq_repository q) (pq_task_branch q)
        (pq_base_ref q) (pq_task_marker q) commit_sha (pq_check_outcome q) (pq_agent_outcome q) state detail))
       (\<lambda>e. case e of Ledger_error (PublicationIdentityError m) \<Rightarrow> raise (PublicationConflictError m) | _ \<Rightarrow> raise e)"

definition set_publication ::
  "'p publisher \<Rightarrow> PublicationRequest \<Rightarrow> PublicationState \<Rightarrow> string option \<Rightarrow> ('p, PublicationRecord) pub_op" where
  "set_publication pb q state detail =
     pub_ledger (update_publication (pb_now pb) (pq_task_id q) state None None None None None None detail
       None None None None)"

definition set_skipped :: "'p publisher \<Rightarrow> PublicationRequest \<Rightarrow> ('p, PublicationRecord) pub_op" where
  "set_skipped pb q =
     pub_ledger (update_publication (pb_now pb) (pq_task_id q) PS_SKIPPED None None None None None None
       (Some (skip_detail q)) (Some (CheckOutcome_value (pq_check_outcome q))) (Some (skip_detail q)) None None)"

definition record_skip_intent :: "'p publisher \<Rightarrow> PublicationRequest \<Rightarrow> ('p, PublicationRecord) pub_op" where
  "record_skip_intent pb q =
     andThen (begin_intent pb q None PS_SKIPPED (Some (skip_detail q))) (\<lambda>(record, created).
       if \<not> created
       then if pr_state record = PS_PUBLISHED then ret record
            else if pr_state record \<noteq> PS_SKIPPED then set_skipped pb q
            else ret record
       else set_skipped pb q)"

definition record_skip ::
  "'p publisher \<Rightarrow> PublicationRequest \<Rightarrow> PublicationRecord option \<Rightarrow> ('p, PublicationRecord) pub_op" where
  "record_skip pb q existing =
     (case existing of
        Some r \<Rightarrow> if pr_pr_number r \<noteq> None then ret r else record_skip_intent pb q
      | None \<Rightarrow> record_skip_intent pb q)"

definition record_published ::
  "'p publisher \<Rightarrow> PublicationRequest \<Rightarrow> RemotePullRequest \<Rightarrow> string \<Rightarrow> ('p, PublicationRecord) pub_op" where
  "record_published pb q pr commit_sha =
     (let outcome_detail = published_outcome_detail (pq_check_outcome q) in
      pub_ledger (update_publication (pb_now pb) (pq_task_id q) PS_PUBLISHED (Some commit_sha)
        (Some (rp_number pr)) (Some (rp_html_url pr)) (Some (rp_draft pr)) (Some (rp_author pr)) (Some (rp_state pr))
        (Some outcome_detail) (Some (CheckOutcome_value (pq_check_outcome q))) (Some outcome_detail)
        (Some (pq_check_outcome q)) (Some (pq_agent_outcome q))))"

section \<open>publish\<close>

definition push_command :: "PublicationRequest \<Rightarrow> string \<Rightarrow> string list" where
  "push_command q commit_sha =
     [''git'', ''push'', ''--'', ''origin'', commit_sha @ '':refs/heads/'' @ pq_task_branch q]"

definition push_branch :: "'p publisher \<Rightarrow> PublicationRequest \<Rightarrow> string \<Rightarrow> string \<Rightarrow> ('p, unit) pub_op" where
  "push_branch pb q repo_dir commit_sha =
     andThen (ls_remote pb repo_dir (pq_task_branch q) (git_auth_env pb)) (\<lambda>remote_sha.
     andThen (branch_sha pb q) (\<lambda>api_sha.
       let existing = py_or remote_sha api_sha in
       if truthy remote_sha \<and> truthy api_sha \<and> remote_sha \<noteq> api_sha
       then raise (PublicationConflictError
              (''git remote SHA and GitHub API SHA disagree for '' @ pq_task_branch q))
       else if truthy existing \<and> existing \<noteq> Some commit_sha
       then raise (PublicationConflictError (''remote branch '' @ pq_task_branch q @ '' is at '' @
              the existing @ '', not intended commit '' @ commit_sha))
       else if existing = Some commit_sha then ret ()
       else andThen (run_git pb (push_command q commit_sha) repo_dir
              (env_update (identity_env (dp_bot pb)) (git_auth_env pb))) (\<lambda>_.
            assert_origin_has_no_secret pb repo_dir)))"

definition adopt_existing ::
  "'p publisher \<Rightarrow> PublicationRequest \<Rightarrow> ('p, PublicationRecord option) pub_op" where
  "adopt_existing pb q =
     (case pq_head_sha q of
        None \<Rightarrow> ret None
      | Some head_sha \<Rightarrow>
          if \<not> should_publish q then ret None
          else
            andThen (lift_sum (assert_not_base_branch q)) (\<lambda>_.
            andThen (branch_sha pb q) (\<lambda>remote_sha.
              if remote_sha \<noteq> Some head_sha then ret None
              else andThen (matching_pull_requests pb q) (\<lambda>matched. case matched of
                  _ # _ # _ \<Rightarrow> raise (PublicationConflictError MULTIPLE)
                | [] \<Rightarrow> ret None
                | [pr] \<Rightarrow>
                    if rp_state pr \<noteq> ''open'' \<or> rp_head_sha pr \<noteq> head_sha
                    then raise (PublicationConflictError ''task pull request does not match the published branch head'')
                    else andThen (begin_intent pb q (Some head_sha) PS_PENDING None) (\<lambda>_.
                         andThen (record_published pb q pr head_sha) (\<lambda>r. ret (Some r)))))))"

definition publish_steps ::
  "'p publisher \<Rightarrow> PublicationRequest \<Rightarrow> string \<Rightarrow> string \<Rightarrow> PublicationRecord \<Rightarrow> ('p, PublicationRecord) pub_op" where
  "publish_steps pb q repo_dir commit_sha record =
     andThen (if pr_state record \<in> {PS_PENDING, PS_FAILED}
              then andThen (pub_barrier pb) (\<lambda>_.
                   andThen (push_branch pb q repo_dir commit_sha) (\<lambda>_. set_publication pb q PS_PUSHED None))
              else ret record) (\<lambda>record.
     andThen (if pr_state record = PS_PUSHED then set_publication pb q PS_CREATING None else ret record) (\<lambda>record.
     andThen (pub_barrier pb) (\<lambda>_.
     andThen (reconcile_or_create pb q commit_sha) (\<lambda>pr. record_published pb q pr commit_sha))))"

definition publish_failed :: "'p publisher \<Rightarrow> PublicationRequest \<Rightarrow> publisher_error \<Rightarrow> ('p, PublicationRecord) pub_op" where
  "publish_failed pb q e = (case e of
     PublicationConflictError m \<Rightarrow>
       andThen (set_publication pb q PS_FAILED (Some (''conflict: '' @ m))) (\<lambda>_. raise e)
   | PublicationUncertainError m \<Rightarrow>
       andThen (set_publication pb q PS_CREATING (Some (''uncertain: '' @ m))) (\<lambda>_. raise e)
   | _ \<Rightarrow> raise e)"

definition publish_commit ::
  "'p publisher \<Rightarrow> PublicationRequest \<Rightarrow> string \<Rightarrow> string \<Rightarrow> ('p, PublicationRecord) pub_op" where
  "publish_commit pb q repo_dir commit_sha =
     andThen (begin_intent pb q (Some commit_sha) PS_PENDING None) (\<lambda>(record, _).
       if pr_state record = PS_PUBLISHED then ret record
       else catch (publish_steps pb q repo_dir commit_sha record) (publish_failed pb q))"

text \<open>The part of \<open>publish\<close> after the journal and the outcome of the agent asked for a publication.\<close>

definition publish_changes ::
  "'p publisher \<Rightarrow> PublicationRequest \<Rightarrow> string option \<Rightarrow> ('p, PublicationRecord) pub_op" where
  "publish_changes pb q repo_dir =
     andThen (adopt_existing pb q) (\<lambda>adopted. case adopted of
         Some r \<Rightarrow> ret r
       | None \<Rightarrow>
          (case repo_dir of
             None \<Rightarrow> raise (PublicationError ''repo_dir is required to publish changes'')
           | Some dir \<Rightarrow>
               andThen (lift_sum (assert_not_base_branch q)) (\<lambda>_.
               andThen (commit_task_branch pb q dir) (publish_commit pb q dir))))"

definition publish ::
  "'p publisher \<Rightarrow> PublicationRequest \<Rightarrow> string option \<Rightarrow> ('p, PublicationRecord) pub_op" where
  "publish pb q repo_dir =
     andThen (reading (\<lambda>w. get_publication (pq_task_id q) (pw_db w))) (\<lambda>existing.
       case existing of
         None \<Rightarrow> if should_publish q then publish_changes pb q repo_dir else record_skip pb q existing
       | Some r \<Rightarrow>
           if pr_state r = PS_PUBLISHED then ret r
           else if pr_state r = PS_SKIPPED then ret r
           else if pr_state r = PS_FAILED \<and> is_conflict (pr_detail r)
           then raise (PublicationConflictError (str_or (pr_detail r) ''publication conflict''))
           else if should_publish q then publish_changes pb q repo_dir else record_skip pb q existing)"

section \<open>reconcile\_observed\<close>

definition require_verified_pull :: "PublicationRequest \<Rightarrow> RemotePullRequest \<Rightarrow> publisher_error + RemotePullRequest" where
  "require_verified_pull q pr =
     (if rp_html_url pr \<noteq> ''https://github.com/'' @ pq_repository q @ ''/pull/'' @ show_int (rp_number pr)
      then Inl (PublicationConflictError ''pull request URL does not match the repository and number'')
      else if rp_head_ref pr \<noteq> pq_task_branch q \<or> rp_base_ref pr \<noteq> pq_base_ref q
      then Inl (PublicationConflictError ''pull request head or base does not match the task identity'')
      else if \<not> rp_draft pr \<or> rp_state pr \<noteq> ''open''
      then Inl (PublicationConflictError ''task pull request is not an open draft'')
      else if pq_head_sha q \<noteq> None \<and> pq_head_sha q \<noteq> Some (rp_head_sha pr)
      then Inl (PublicationConflictError ''task pull request does not match the published branch head'')
      else if \<not> has_marker q pr
      then Inl (PublicationConflictError ''pull request does not contain the task marker'')
      else Inr pr)"

definition verified_match ::
  "'p publisher \<Rightarrow> PublicationRequest \<Rightarrow> PublicationRecord \<Rightarrow> ('p, RemotePullRequest option) pub_op" where
  "verified_match pb q existing =
     andThen (attempt (matching_pull_requests pb q)) (\<lambda>answer. case answer of
         Inl (PublicationUncertainError _) \<Rightarrow> ret None
       | Inl e \<Rightarrow> raise e
       | Inr matched \<Rightarrow>
           (case fetchone (\<lambda>pr. pr_pr_number existing = Some (rp_number pr)) matched of
              None \<Rightarrow> ret None
            | Some pr \<Rightarrow> andThen (lift_sum (require_verified_pull q pr)) (\<lambda>v. ret (Some v))))"

definition listing_timed_out :: "'p publisher \<Rightarrow> PublicationRequest \<Rightarrow> publisher_error \<Rightarrow> ('p, PublicationRecord) pub_op" where
  "listing_timed_out pb q e =
     andThen (begin_intent pb q (pq_head_sha q) PS_PENDING None) (\<lambda>_.
     andThen (set_publication pb q PS_CREATING (Some ''uncertain: listing pull requests timed out'')) (\<lambda>_. raise e))"

definition listing_uncertain ::
  "'p publisher \<Rightarrow> PublicationRequest \<Rightarrow> PublicationRecord option \<Rightarrow> publisher_error \<Rightarrow> ('p, PublicationRecord) pub_op" where
  "listing_uncertain pb q existing e =
     (case existing of
        Some r \<Rightarrow> if pr_pr_number r \<noteq> None then ret r else listing_timed_out pb q e
      | None \<Rightarrow> listing_timed_out pb q e)"

definition reconcile_missing ::
  "'p publisher \<Rightarrow> PublicationRequest \<Rightarrow> PublicationRecord option \<Rightarrow> ('p, PublicationRecord) pub_op" where
  "reconcile_missing pb q existing =
     andThen (head_base_pull_requests pb q) (\<lambda>others.
       if others \<noteq> [] then raise (PublicationConflictError FOREIGN)
       else if should_publish q
       then andThen (begin_intent pb q (pq_head_sha q) PS_PENDING None) (\<lambda>_.
            andThen (pub_ledger (update_publication (pb_now pb) (pq_task_id q) PS_FAILED None None None None None
               None (Some ''pull_request_missing'') None None (Some (pq_check_outcome q)) (Some (pq_agent_outcome q))))
              (\<lambda>_. raise (PublicationError ''pull_request_missing'')))
       else record_skip pb q existing)"

definition reconcile_unpublished ::
  "'p publisher \<Rightarrow> PublicationRequest \<Rightarrow> PublicationRecord option \<Rightarrow> ('p, PublicationRecord) pub_op" where
  "reconcile_unpublished pb q existing =
     andThen (attempt (matching_pull_requests pb q)) (\<lambda>answer. case answer of
         Inl (PublicationUncertainError m) \<Rightarrow> listing_uncertain pb q existing (PublicationUncertainError m)
       | Inl e \<Rightarrow> raise e
       | Inr (_ # _ # _) \<Rightarrow> raise (PublicationConflictError MULTIPLE)
       | Inr [pr] \<Rightarrow>
           andThen (lift_sum (require_verified_pull q pr)) (\<lambda>pr.
           andThen (begin_intent pb q (Some (rp_head_sha pr)) PS_PENDING None) (\<lambda>_.
             record_published pb q pr (rp_head_sha pr)))
       | Inr [] \<Rightarrow> reconcile_missing pb q existing)"

definition other_identity :: "PublicationRequest \<Rightarrow> PublicationRecord \<Rightarrow> bool" where
  "other_identity q r \<longleftrightarrow> pr_repository r \<noteq> pq_repository q \<or> pr_task_branch r \<noteq> pq_task_branch q \<or>
     pr_base_ref r \<noteq> pq_base_ref q \<or> pr_task_marker r \<noteq> pq_task_marker q"

definition reconcile_observed :: "'p publisher \<Rightarrow> PublicationRequest \<Rightarrow> ('p, PublicationRecord) pub_op" where
  "reconcile_observed pb q =
     andThen (reading (\<lambda>w. get_publication (pq_task_id q) (pw_db w))) (\<lambda>existing. case existing of
         None \<Rightarrow> reconcile_unpublished pb q None
       | Some r \<Rightarrow>
           if other_identity q r
           then raise (PublicationConflictError ''existing publication identity does not match task'')
           else if pr_state r = PS_PUBLISHED
           then andThen (verified_match pb q r) (\<lambda>verified. case verified of
                  Some pr \<Rightarrow> record_published pb q pr (rp_head_sha pr)
                | None \<Rightarrow> ret r)
           else reconcile_unpublished pb q existing)"

end
