(* ===== verification/Draft_Publisher_Props.thy ===== *)
theory Draft_Publisher_Props
  imports Draft_Publisher Ledger_Intents
begin

text \<open>
  What \<open>DraftPublisher\<close> guarantees: the shape of the external effects of one publication, idempotence of
  a finished one, verification of what is recorded as published, and, against a GitHub that lists what it
  stores, at most one pull request per task identity.
\<close>

section \<open>Traces of effects\<close>

fun quiet_call :: "pub_call \<Rightarrow> bool" where
  "quiet_call (Git_call args _) = (args ! 1 \<noteq> ''push'' \<and> ''--force'' \<notin> set args \<and> ''-f'' \<notin> set args)"
| "quiet_call (Create_pull _ _ _ _) = False"
| "quiet_call _ = True"

definition quiet :: "pub_call list \<Rightarrow> bool" where
  "quiet t \<longleftrightarrow> list_all quiet_call t"

lemma quiet_simps [simp]: "quiet []" "quiet (c # t) \<longleftrightarrow> quiet_call c \<and> quiet t" "quiet (t @ u) \<longleftrightarrow> quiet t \<and> quiet u"
  by (simp_all add: quiet_def)

text \<open>
  \<open>emits P m\<close>: the calls a method adds to the trace satisfy \<open>P\<close>, given the revision at which it starts.
  \<open>steady m\<close>: the method does not touch the database.
\<close>

definition emits :: "(nat \<Rightarrow> pub_call list \<Rightarrow> bool) \<Rightarrow> ('p, 'a) pub_op \<Rightarrow> bool" where
  "emits P m \<longleftrightarrow> (\<forall>w. \<exists>t. pw_trace (snd (m w)) = pw_trace w @ t \<and> P (revision (pw_db w)) t)"

definition same_db :: "'p pub_world \<Rightarrow> 'p pub_world \<Rightarrow> bool" where
  "same_db w w' \<longleftrightarrow> pw_db w' = pw_db w"

abbreviation steady :: "('p, 'a) pub_op \<Rightarrow> bool" where
  "steady \<equiv> keeps same_db"

lemma emitsD: "emits P m \<Longrightarrow> \<exists>t. pw_trace (snd (m w)) = pw_trace w @ t \<and> P (revision (pw_db w)) t"
  by (simp add: emits_def)

lemma emits_mono: "emits P m \<Longrightarrow> (\<And>n t. P n t \<Longrightarrow> Q n t) \<Longrightarrow> emits Q m"
  unfolding emits_def by blast

lemma emits_andThen:
  assumes "emits P m" "\<And>x. emits Q (k x)"
    and "\<And>n t. P n t \<Longrightarrow> R n t" "\<And>n t n' u. P n t \<Longrightarrow> Q n' u \<Longrightarrow> R n (t @ u)"
  shows "emits R (andThen m k)"
  unfolding emits_def
proof
  fix w
  obtain t where t: "pw_trace (snd (m w)) = pw_trace w @ t" "P (revision (pw_db w)) t"
    using emitsD [OF assms(1)] by blast
  show "\<exists>t. pw_trace (snd (andThen m k w)) = pw_trace w @ t \<and> R (revision (pw_db w)) t"
  proof (cases "fst (m w)")
    case (Inl e)
    then show ?thesis using t assms(3) by (auto simp: andThen_apply)
  next
    case (Inr x)
    obtain u where u: "pw_trace (snd (k x (snd (m w)))) = pw_trace (snd (m w)) @ u"
        "Q (revision (pw_db (snd (m w)))) u"
      using emitsD [OF assms(2)] by blast
    have "pw_trace (snd (andThen m k w)) = pw_trace w @ (t @ u)" using Inr t u by (simp add: andThen_apply)
    moreover have "R (revision (pw_db w)) (t @ u)" using assms(4) t(2) u(2) by blast
    ultimately show ?thesis by blast
  qed
qed

lemma emits_steady:
  assumes "emits P m" "steady m" "\<And>x. emits (\<lambda>n u. \<forall>t. P n t \<longrightarrow> R n (t @ u)) (k x)" "\<And>n t. P n t \<Longrightarrow> R n t"
  shows "emits R (andThen m k)"
  unfolding emits_def
proof
  fix w
  obtain t where t: "pw_trace (snd (m w)) = pw_trace w @ t" "P (revision (pw_db w)) t"
    using emitsD [OF assms(1)] by blast
  have db: "pw_db (snd (m w)) = pw_db w" using assms(2) by (simp add: same_db_def keeps_def)
  show "\<exists>t. pw_trace (snd (andThen m k w)) = pw_trace w @ t \<and> R (revision (pw_db w)) t"
  proof (cases "fst (m w)")
    case (Inl e)
    then show ?thesis using t assms(4) by (auto simp: andThen_apply)
  next
    case (Inr x)
    obtain u where u: "pw_trace (snd (k x (snd (m w)))) = pw_trace (snd (m w)) @ u"
        "R (revision (pw_db w)) (t @ u)"
      using emitsD [OF assms(3) [of x], of "snd (m w)"] t(2) db by auto
    then show ?thesis using Inr t by (intro exI [of _ "t @ u"]) (simp add: andThen_apply)
  qed
qed

abbreviation hushed :: "('p, 'a) pub_op \<Rightarrow> bool" where
  "hushed \<equiv> emits (\<lambda>_. quiet)"

definition quieter :: "'p pub_world \<Rightarrow> 'p pub_world \<Rightarrow> bool" where
  "quieter w w' \<longleftrightarrow> (\<exists>t. pw_trace w' = pw_trace w @ t \<and> quiet t)"

lemma hushed_keeps: "hushed m \<longleftrightarrow> keeps quieter m"
  by (simp add: emits_def keeps_def quieter_def)

interpretation calls: kept_relation quieter
proof
  show "quieter w w" for w :: "'p pub_world" by (simp add: quieter_def)
  show "quieter w w''" if "quieter w w'" "quieter w' w''" for w w' w'' :: "'p pub_world"
  proof -
    obtain t u where "pw_trace w' = pw_trace w @ t" "quiet t" "pw_trace w'' = pw_trace w' @ u" "quiet u"
      using \<open>quieter w w'\<close> \<open>quieter w' w''\<close> unfolding quieter_def by blast
    then show ?thesis by (auto simp: quieter_def)
  qed
qed

lemma quiet_ledger: "keeps quieter (pub_ledger m)"
  by (auto simp: keeps_def quieter_def pub_ledger_def split: prod.splits sum.splits)

lemma quiet_remote: "keeps quieter (on_remote m)"
  by (auto simp: keeps_def quieter_def on_remote_def split: prod.splits)

lemma quiet_barrier: "keeps quieter (pub_barrier pb)"
  by (auto simp: keeps_def quieter_def pub_barrier_def split: prod.splits sum.splits)

lemma quiet_note: "quiet_call (c 0) \<Longrightarrow> (\<And>n. quiet_call (c n) = quiet_call (c 0)) \<Longrightarrow> keeps quieter (pub_note c)"
  by (auto simp: keeps_def quieter_def pub_note_def)

lemmas quiet_basics = calls.keeps_rules quiet_ledger quiet_remote quiet_barrier

lemma quiet_subprocess:
  "quiet_call (Git_call args 0) \<Longrightarrow> keeps quieter (subprocess_run pb args cwd env)"
  unfolding subprocess_run_def by (intro quiet_basics quiet_note) auto

lemma quiet_run_git: "args ! 1 \<noteq> ''push'' \<Longrightarrow> keeps quieter (run_git pb args cwd env)"
  unfolding run_git_def by (auto intro!: quiet_basics quiet_subprocess)

lemma quiet_github_failed: "keeps quieter (github_failed pb e)"
  by (auto simp: github_failed_def intro!: quiet_basics split: publisher_error.splits)

lemma quiet_branch_sha: "keeps quieter (branch_sha pb q)"
  unfolding branch_sha_def by (intro quiet_basics quiet_github_failed)

lemma quiet_listing: "keeps quieter (head_base_pull_requests pb q)"
  unfolding head_base_pull_requests_def
  by (auto intro!: quiet_basics quiet_note quiet_github_failed split: publisher_error.splits)

lemma quiet_matching: "keeps quieter (matching_pull_requests pb q)"
  unfolding matching_pull_requests_def by (intro quiet_basics quiet_listing)

lemma quiet_create_failed: "keeps quieter (create_failed pb q e)"
  by (auto simp: create_failed_def intro!: quiet_basics quiet_matching split: publisher_error.splits list.splits)

lemma quiet_begin: "keeps quieter (begin_intent pb q c st det)"
  unfolding begin_intent_def by (auto intro!: quiet_basics split: publisher_error.splits error.splits)

lemma quiet_set: "keeps quieter (set_publication pb q st det)" "keeps quieter (set_skipped pb q)"
  "keeps quieter (record_published pb q pr c)"
  unfolding set_publication_def set_skipped_def record_published_def Let_def by (intro quiet_basics)+

lemma quiet_skip: "keeps quieter (record_skip pb q ex)"
proof -
  have "keeps quieter (record_skip_intent pb q)"
    unfolding record_skip_intent_def by (auto intro!: quiet_basics quiet_begin quiet_set split: prod.splits)
  then show ?thesis by (auto simp: record_skip_def intro!: quiet_basics split: option.splits)
qed

lemma quiet_commit: "keeps quieter (commit_task_branch pb q dir)"
  unfolding commit_task_branch_def Let_def by (auto intro!: quiet_basics quiet_run_git)

lemma quiet_adopt: "keeps quieter (adopt_existing pb q)"
  unfolding adopt_existing_def
  by (auto intro!: quiet_basics quiet_branch_sha quiet_matching quiet_begin quiet_set split: option.splits list.splits)

lemma quiet_failed: "keeps quieter (publish_failed pb q e)"
  unfolding publish_failed_def by (auto intro!: quiet_basics quiet_set split: publisher_error.splits)

lemma quiet_origin: "keeps quieter (assert_origin_has_no_secret pb dir)"
  unfolding assert_origin_has_no_secret_def Let_def
  by (auto intro!: quiet_basics quiet_subprocess split: option.splits)

lemma quiet_verified: "keeps quieter (verified_match pb q r)"
  unfolding verified_match_def
  by (auto intro!: quiet_basics quiet_matching split: sum.splits publisher_error.splits option.splits)

lemma quiet_unpublished: "keeps quieter (reconcile_unpublished pb q ex)"
  unfolding reconcile_unpublished_def listing_uncertain_def listing_timed_out_def reconcile_missing_def
  by (auto intro!: quiet_basics quiet_matching quiet_begin quiet_set quiet_listing quiet_skip
      split: sum.splits publisher_error.splits option.splits list.splits)

lemma quiet_reconcile: "keeps quieter (reconcile_observed pb q)"
  unfolding reconcile_observed_def
  by (auto intro!: quiet_basics quiet_verified quiet_unpublished quiet_set split: option.splits)

section \<open>The two effects of a publication\<close>

definition pushes :: "PublicationRequest \<Rightarrow> pub_call list \<Rightarrow> bool" where
  "pushes q t \<longleftrightarrow> quiet t \<or> (\<exists>a n v sha u. quiet a \<and> quiet v \<and> quiet u \<and>
     t = a @ [Pub_durable n] @ v @ [Git_call (push_command q sha) n] @ u)"

definition creates :: "PublicationRequest \<Rightarrow> pub_call list \<Rightarrow> bool" where
  "creates q t \<longleftrightarrow> quiet t \<or> (\<exists>a n found u. quiet a \<and> quiet u \<and> filter (has_marker q) found = [] \<and>
     t = a @ [Pub_durable n, Listed found n, Listed [] n,
              Create_pull (pq_repository q) (pq_task_branch q) (pq_base_ref q) n] @ u)"

lemma emits_quiet: "keeps quieter m \<Longrightarrow> emits (\<lambda>_. quiet) m"
  by (simp add: hushed_keeps)

lemma emits_note: "emits (\<lambda>n t. t = [c n]) (pub_note c)"
  by (simp add: emits_def pub_note_def)

interpretation rows: kept_relation same_db
  by unfold_locales (auto simp: same_db_def)

lemma steady_basics: "steady (pub_note c)" "steady (on_remote m)" "steady (pub_barrier pb)"
  by (auto simp: same_db_def keeps_def io_basic pub_note_def on_remote_def pub_barrier_def lift_sum_def
      split: prod.splits sum.splits)

lemmas steady_rules = steady_basics rows.keeps_rules

lemma emits_remote: "emits (\<lambda>n t. t = []) (on_remote m)"
  by (auto simp: emits_def on_remote_def split: prod.splits)

lemma emits_silent: "emits (\<lambda>n t. t = []) (ret x)" "emits (\<lambda>n t. t = []) (raise e)" "emits (\<lambda>n t. t = []) (lift_sum y)"
  by (auto simp: emits_def io_basic lift_sum_def split: sum.splits)

lemma emits_run_git: "emits (\<lambda>n t. t = [] \<or> t = [Git_call args n]) (run_git pb args cwd env)"
proof -
  have "emits (\<lambda>n t. t = [Git_call args n]) (subprocess_run pb args cwd (Some env))"
    unfolding subprocess_run_def
    by (rule emits_andThen [OF emits_note]) (auto intro: emits_remote)
  then show ?thesis unfolding run_git_def
    by (auto intro!: emits_andThen [where Q = "\<lambda>n t. t = []"] emits_mono [OF emits_silent(2)] emits_silent)
qed

lemma steady_run_git: "steady (run_git pb args cwd env)"
  unfolding run_git_def subprocess_run_def by (auto intro!: steady_rules)

lemma steady_github_failed: "steady (github_failed pb e)"
  by (auto simp: github_failed_def intro!: steady_rules split: publisher_error.splits)

lemma steady_branch_sha: "steady (branch_sha pb q)"
  unfolding branch_sha_def by (intro steady_rules steady_github_failed)

lemma steady_ls: "steady (ls_remote pb dir b env)"
  unfolding ls_remote_def by (intro steady_rules steady_run_git)

lemma quiet_ls: "keeps quieter (ls_remote pb dir b env)"
  unfolding ls_remote_def by (intro quiet_basics quiet_run_git) simp

text \<open>A quiet prefix that leaves the database alone does not move the revision of what follows.\<close>

lemma emits_after_quiet:
  assumes "keeps quieter m" "steady m" "\<And>x. emits P (k x)"
    and "\<And>n t. quiet t \<Longrightarrow> P n t" "\<And>n t u. quiet t \<Longrightarrow> P n u \<Longrightarrow> P n (t @ u)"
  shows "emits P (andThen m k)"
  by (rule emits_steady [OF emits_quiet [OF assms(1)] assms(2)])
    (auto intro: emits_mono [OF assms(3)] assms(4,5))

definition push_at :: "PublicationRequest \<Rightarrow> string \<Rightarrow> nat \<Rightarrow> pub_call list \<Rightarrow> bool" where
  "push_at q sha n t \<longleftrightarrow> quiet t \<or>
     (\<exists>v u. quiet v \<and> quiet u \<and> t = v @ [Git_call (push_command q sha) n] @ u)"

lemma push_at_quiet: "quiet t \<Longrightarrow> push_at q sha n t" "quiet t \<Longrightarrow> push_at q sha n u \<Longrightarrow> push_at q sha n (t @ u)"
  "push_at q sha n t \<Longrightarrow> quiet u \<Longrightarrow> push_at q sha n (t @ u)"
  by (auto simp: push_at_def) (metis append_assoc append_Cons quiet_simps(3))+

lemma emits_push: "emits (push_at q sha) (push_branch pb q dir sha)"
proof -
  have "emits (push_at q sha) (andThen (run_git pb (push_command q sha) dir env) (\<lambda>_. assert_origin_has_no_secret pb dir))"
    for env
    by (rule emits_andThen [OF emits_run_git emits_quiet [OF quiet_origin]])
      (auto simp: push_at_def intro: exI [of _ "[]"])
  then show ?thesis unfolding push_branch_def Let_def
    by (intro emits_after_quiet quiet_ls steady_ls quiet_branch_sha steady_branch_sha)
      (auto intro: push_at_quiet intro!: emits_mono [OF emits_quiet] quiet_basics)
qed

definition create_at :: "PublicationRequest \<Rightarrow> nat \<Rightarrow> pub_call list \<Rightarrow> bool" where
  "create_at q n t \<longleftrightarrow> quiet t \<or> (\<exists>found u. quiet u \<and> filter (has_marker q) found = [] \<and>
     t = [Listed found n, Listed [] n,
          Create_pull (pq_repository q) (pq_task_branch q) (pq_base_ref q) n] @ u)"

text \<open>What one listing adds to the trace.\<close>

lemma listing_cases:
  obtains (failed) e p where "head_base_pull_requests pb q w = (Inl e, w\<lparr>pw_remote := p\<rparr>)"
  | (found) found p where "head_base_pull_requests pb q w =
      (Inr found, w\<lparr>pw_remote := p, pw_trace := pw_trace w @ [Listed found (revision (pw_db w))]\<rparr>)"
      "gw_list (dp_github pb) (pq_repository q) (pq_task_branch q) (pq_base_ref q) ''all'' (pw_remote w) = (Inr found, p)"
proof (cases "gw_list (dp_github pb) (pq_repository q) (pq_task_branch q) (pq_base_ref q) ''all'' (pw_remote w)")
  case (Pair r p)
  show ?thesis
  proof (cases r)
    case (Inl e)
    then show ?thesis using Pair failed
      by (cases e) (auto simp: head_base_pull_requests_def andThen_def catch_def on_remote_def github_failed_def raise_def)
  next
    case (Inr f)
    then show ?thesis using Pair
      by (intro found) (auto simp: head_base_pull_requests_def andThen_def catch_def on_remote_def pub_note_def ret_def)
  qed
qed

text \<open>Creation with its recovery adds the one request to create and otherwise only listings.\<close>

lemma emits_creation:
  "emits (\<lambda>n t. \<exists>u. quiet u \<and> t = Create_pull (pq_repository q) (pq_task_branch q) (pq_base_ref q) n # u)
     (create_or_recover pb q sha)"
  unfolding create_or_recover_def
proof (rule emits_andThen)
  have "emits (\<lambda>n t. t = [Create_pull (pq_repository q) (pq_task_branch q) (pq_base_ref q) n]) (create_call pb q sha)"
    unfolding create_call_def by (rule emits_andThen [OF emits_note]) (auto intro: emits_remote)
  then show "emits (\<lambda>n t. t = [Create_pull (pq_repository q) (pq_task_branch q) (pq_base_ref q) n])
      (attempt (create_call pb q sha))"
    by (simp add: emits_def attempt_def)
  show "emits (\<lambda>n. quiet) (case answer of Inl e \<Rightarrow> create_failed pb q e
      | Inr created \<Rightarrow> if \<not> rp_draft created then raise (PublicationError ''GitHub created a non-draft pull request'')
           else ret created)" for answer
    by (rule emits_quiet) (auto intro!: quiet_basics quiet_create_failed split: sum.splits)
qed auto

text \<open>Stepping over a listing inside a larger method.\<close>

lemma trace_listing:
  assumes "\<And>t. quiet t \<Longrightarrow> P t"
    and "\<And>f w'. pw_db w' = pw_db w \<Longrightarrow> pw_trace w' = pw_trace w @ [Listed f (revision (pw_db w))] \<Longrightarrow>
           \<exists>t. pw_trace (snd (k f w')) = pw_trace w' @ t \<and> P (Listed f (revision (pw_db w)) # t)"
  shows "\<exists>t. pw_trace (snd (andThen (head_base_pull_requests pb q) k w)) = pw_trace w @ t \<and> P t"
proof (cases rule: listing_cases [of pb q w])
  case (failed e p)
  then show ?thesis using assms(1) by (simp add: andThen_def)
next
  case (found f p)
  let ?w = "w\<lparr>pw_remote := p, pw_trace := pw_trace w @ [Listed f (revision (pw_db w))]\<rparr>"
  obtain t where t: "pw_trace (snd (k f ?w)) = pw_trace ?w @ t" "P (Listed f (revision (pw_db w)) # t)"
    using assms(2) [of ?w f] by auto
  then show ?thesis using found(1)
    by (intro exI [of _ "Listed f (revision (pw_db w)) # t"]) (simp add: andThen_def)
qed

lemma matching_then:
  "andThen (matching_pull_requests pb q) k = andThen (head_base_pull_requests pb q) (\<lambda>f. k (filter (has_marker q) f))"
  unfolding matching_pull_requests_def andThen_assoc [symmetric]
  by (rule arg_cong [where f = "andThen _"]) (simp add: fun_eq_iff andThen_def ret_def)

lemma emits_create: "emits (create_at q) (reconcile_or_create pb q sha)"
  unfolding emits_def reconcile_or_create_def matching_then
proof (intro allI trace_listing)
  fix w w1 :: "'a pub_world" and f
  assume w1: "pw_db w1 = pw_db w"
  let ?n = "revision (pw_db w)"
  show "\<exists>t. pw_trace (snd ((case filter (has_marker q) f of
         [] \<Rightarrow> andThen (head_base_pull_requests pb q) (\<lambda>others.
             if others \<noteq> [] then raise (PublicationConflictError FOREIGN) else create_or_recover pb q sha)
       | [pr] \<Rightarrow> ret pr
       | pr # _ # _ \<Rightarrow> raise (PublicationConflictError MULTIPLE)) w1)) = pw_trace w1 @ t \<and>
      create_at q ?n (Listed f ?n # t)"
  proof (cases "filter (has_marker q) f")
    case Nil
    show ?thesis unfolding Nil list.case
    proof (rule trace_listing)
      fix others and w2 :: "'a pub_world"
      assume "pw_db w2 = pw_db w1"
      then show "\<exists>t. pw_trace (snd ((if others \<noteq> [] then raise (PublicationConflictError FOREIGN)
            else create_or_recover pb q sha) w2)) = pw_trace w2 @ t \<and>
          create_at q ?n (Listed f ?n # Listed others (revision (pw_db w1)) # t)"
        using emitsD [OF emits_creation, of pb q sha w2] w1 Nil
        by (cases "others = []") (auto simp: create_at_def io_basic)
    qed (simp add: create_at_def)
  next
    case (Cons a as)
    then show ?thesis by (cases as) (auto simp: io_basic create_at_def)
  qed
qed (simp add: create_at_def)

text \<open>A barrier fixes the revision of what follows it.\<close>

lemma emits_barrier: "emits (\<lambda>n t. t = [] \<or> t = [Pub_durable n]) (pub_barrier pb)"
  by (auto simp: emits_def pub_barrier_def split: prod.splits sum.splits)

lemma emits_after_barrier:
  assumes "\<And>x. emits P (k x)"
  shows "emits (\<lambda>n t. t = [] \<or> t = [Pub_durable n] \<or> (\<exists>u. P n u \<and> t = Pub_durable n # u)) (andThen (pub_barrier pb) k)"
  unfolding emits_def
proof
  fix w :: "'a pub_world"
  let ?n = "revision (pw_db w)"
  show "\<exists>t. pw_trace (snd (andThen (pub_barrier pb) k w)) = pw_trace w @ t \<and>
      (t = [] \<or> t = [Pub_durable ?n] \<or> (\<exists>u. P ?n u \<and> t = Pub_durable ?n # u))"
  proof (cases "pb_durable pb ?n (pw_remote w)")
    case (Pair r p)
    let ?w = "w\<lparr>pw_remote := p, pw_trace := pw_trace w @ [Pub_durable ?n]\<rparr>"
    show ?thesis
    proof (cases r)
      case (Inl e)
      then show ?thesis using Pair by (simp add: andThen_def pub_barrier_def)
    next
      case (Inr x)
      have eq: "andThen (pub_barrier pb) k w = k () ?w" using Pair Inr by (simp add: andThen_def pub_barrier_def)
      obtain u where "pw_trace (snd (k () ?w)) = pw_trace ?w @ u" "P ?n u"
        using emitsD [OF assms, of "()" ?w] by auto
      then show ?thesis unfolding eq by (intro exI [of _ "Pub_durable ?n # u"]) simp
    qed
  qed
qed

lemma pushes_quiet: "quiet t \<Longrightarrow> pushes q t" "quiet t \<Longrightarrow> pushes q u \<Longrightarrow> pushes q (t @ u)"
  "pushes q t \<Longrightarrow> quiet u \<Longrightarrow> pushes q (t @ u)"
  unfolding pushes_def by (simp, metis append_assoc quiet_simps(3), metis append_assoc quiet_simps(3))

lemma creates_quiet: "quiet t \<Longrightarrow> creates q t" "quiet t \<Longrightarrow> creates q u \<Longrightarrow> creates q (t @ u)"
  "creates q t \<Longrightarrow> quiet u \<Longrightarrow> creates q (t @ u)"
  unfolding creates_def by (simp, metis append_assoc quiet_simps(3), metis append_assoc quiet_simps(3))

lemma pushes_barrier: "push_at q sha n t \<Longrightarrow> pushes q (Pub_durable n # t)"
proof (cases "quiet t")
  case False
  assume "push_at q sha n t"
  then obtain v u where "quiet v" "quiet u" "t = v @ [Git_call (push_command q sha) n] @ u"
    using False by (auto simp: push_at_def)
  then have "\<exists>a m v' sha' u'. quiet a \<and> quiet v' \<and> quiet u' \<and>
      Pub_durable n # t = a @ [Pub_durable m] @ v' @ [Git_call (push_command q sha') m] @ u'"
    by (intro exI [of _ "[]"] exI [of _ n] exI [of _ v] exI [of _ sha] exI [of _ u]) simp
  then show ?thesis unfolding pushes_def by blast
qed (simp add: pushes_def)

lemma emits_push_step:
  "emits (\<lambda>_. pushes q) (andThen (pub_barrier pb) (\<lambda>_. andThen (push_branch pb q dir sha)
      (\<lambda>_. set_publication pb q PS_PUSHED None)))"
proof -
  have "emits (push_at q sha) (andThen (push_branch pb q dir sha) (\<lambda>_. set_publication pb q PS_PUSHED None))"
    by (rule emits_andThen [OF emits_push emits_quiet [OF quiet_set(1)]]) (auto intro: push_at_quiet)
  from emits_after_barrier [OF this, of pb] show ?thesis
    by (rule emits_mono) (auto intro: pushes_barrier pushes_quiet(1))
qed

lemma emits_create_step:
  "emits (\<lambda>_. creates q) (andThen (pub_barrier pb) (\<lambda>_. andThen (reconcile_or_create pb q sha)
      (\<lambda>pr. record_published pb q pr sha)))"
proof -
  have "emits (create_at q) (andThen (reconcile_or_create pb q sha) (\<lambda>pr. record_published pb q pr sha))"
    by (rule emits_andThen [OF emits_create emits_quiet [OF quiet_set(3)]]) (auto simp: create_at_def)
  from emits_after_barrier [OF this, of pb] show ?thesis
    by (rule emits_mono) (auto simp: create_at_def creates_def, metis append_Nil quiet_simps(1))
qed

definition publish_calls :: "PublicationRequest \<Rightarrow> pub_call list \<Rightarrow> bool" where
  "publish_calls q t \<longleftrightarrow> (\<exists>a b. t = a @ b \<and> pushes q a \<and> creates q b)"

lemma publish_calls_quiet: "quiet t \<Longrightarrow> publish_calls q t" "quiet t \<Longrightarrow> publish_calls q u \<Longrightarrow> publish_calls q (t @ u)"
  "publish_calls q t \<Longrightarrow> quiet u \<Longrightarrow> publish_calls q (t @ u)"
  unfolding publish_calls_def
  by (metis append_Nil pushes_quiet(1) creates_quiet(1) quiet_simps(1), metis append_assoc pushes_quiet(2),
      metis append_assoc creates_quiet(3))

lemma emits_steps: "emits (\<lambda>_. publish_calls q) (publish_steps pb q dir sha r)"
proof -
  have late: "emits (\<lambda>_. creates q) (andThen (if pr_state r = PS_PUSHED then set_publication pb q PS_CREATING None else ret r)
      (\<lambda>r. andThen (pub_barrier pb) (\<lambda>_. andThen (reconcile_or_create pb q sha) (\<lambda>pr. record_published pb q pr sha))))" for r
    by (rule emits_andThen [OF emits_quiet emits_create_step]) (auto intro!: quiet_basics quiet_set intro: creates_quiet)
  have early: "emits (\<lambda>_. pushes q) (if pr_state r \<in> {PS_PENDING, PS_FAILED}
      then andThen (pub_barrier pb) (\<lambda>_. andThen (push_branch pb q dir sha) (\<lambda>_. set_publication pb q PS_PUSHED None))
      else ret r)"
    using emits_push_step [of q pb dir sha]
      emits_mono [OF emits_quiet [OF calls.keeps_ret], of "\<lambda>_. pushes q", OF pushes_quiet(1)]
    by auto
  show ?thesis unfolding publish_steps_def
    by (rule emits_andThen [OF early late]) (auto simp: publish_calls_def, metis append_Nil2 creates_quiet(1) quiet_simps(1))
qed

lemma emits_catch_quiet:
  assumes "emits (\<lambda>_. P) m" "\<And>e. keeps quieter (h e)" "\<And>t u. P t \<Longrightarrow> quiet u \<Longrightarrow> P (t @ u)"
  shows "emits (\<lambda>_. P) (catch m h)"
  unfolding emits_def
proof
  fix w :: "'a pub_world"
  obtain t where t: "pw_trace (snd (m w)) = pw_trace w @ t" "P t" using emitsD [OF assms(1)] by blast
  show "\<exists>t. pw_trace (snd (catch m h w)) = pw_trace w @ t \<and> P t"
  proof (cases "fst (m w)")
    case (Inl e)
    obtain u where "pw_trace (snd (h e (snd (m w)))) = pw_trace (snd (m w)) @ u" "quiet u"
      using keepsD [OF assms(2) [of e], of "snd (m w)"] by (auto simp: quieter_def)
    then show ?thesis using Inl t assms(3) by (intro exI [of _ "t @ u"]) (simp add: catch_apply)
  qed (use t in \<open>simp add: catch_apply\<close>)
qed

lemma emits_after:
  assumes "keeps quieter m" "\<And>x. emits (\<lambda>_. publish_calls q) (k x)"
  shows "emits (\<lambda>_. publish_calls q) (andThen m k)"
  by (rule emits_andThen [OF emits_quiet [OF assms(1)] assms(2)]) (auto intro: publish_calls_quiet)

lemma emits_quietly: "keeps quieter m \<Longrightarrow> emits (\<lambda>_. publish_calls q) m"
  by (rule emits_mono [OF emits_quiet]) (auto intro: publish_calls_quiet)

lemma quiet_unsafe_branch:
  assumes "assert_not_base_branch q = Inl e"
  shows "keeps quieter (publish_changes pb q dir)"
proof -
  have "andThen (lift_sum (Inl e)) k = raise e" for k :: "unit \<Rightarrow> ('a, PublicationRecord) pub_op"
    by (simp add: fun_eq_iff lift_sum_def andThen_def raise_def)
  then show ?thesis
    unfolding publish_changes_def assms by (auto intro!: quiet_basics quiet_adopt split: option.splits)
qed

lemma emits_publish_changes: "emits (\<lambda>_. publish_calls q) (publish_changes pb q dir)"
  unfolding publish_changes_def publish_commit_def
  by (auto intro!: emits_after emits_catch_quiet emits_steps quiet_adopt quiet_commit quiet_begin quiet_failed
      calls.keeps_lift_sum publish_calls_quiet(3) emits_quietly [OF calls.keeps_ret] emits_quietly [OF calls.keeps_raise]
      split: option.splits prod.splits)

fun unforced_call :: "pub_call \<Rightarrow> bool" where
  "unforced_call (Git_call args _) = (''--force'' \<notin> set args \<and> ''-f'' \<notin> set args)"
| "unforced_call _ = True"

lemma quiet_unforced: "quiet_call c \<Longrightarrow> unforced_call c" "quiet t \<Longrightarrow> list_all unforced_call t"
proof -
  show *: "quiet_call c \<Longrightarrow> unforced_call c" for c by (cases c) auto
  then show "quiet t \<Longrightarrow> list_all unforced_call t" by (auto simp: quiet_def list_all_iff)
qed

lemma push_unforced: "unforced_call (Git_call (push_command q sha) n)"
proof -
  have "length ''--force'' < length (sha @ '':refs/heads/'' @ pq_task_branch q)"
    "length ''-f'' < length (sha @ '':refs/heads/'' @ pq_task_branch q)" by simp_all
  then show ?thesis unfolding push_command_def by (auto simp del: append_assoc length_append)
qed

lemma publish_calls_unforced: "publish_calls q t \<Longrightarrow> list_all unforced_call t"
  by (auto simp: publish_calls_def pushes_def creates_def quiet_unforced(2) push_unforced simp del: unforced_call.simps(1))

text \<open>The four ways a publication goes.\<close>

lemma publish_rule:
  assumes finished: "\<And>r. get_publication (pq_task_id q) (pw_db w) = Some r \<Longrightarrow> pr_state r \<in> {PS_PUBLISHED, PS_SKIPPED} \<Longrightarrow>
      P (Inr r, w)"
    and conflict: "\<And>m. P (Inl (PublicationConflictError m), w)"
    and skip: "\<not> should_publish q \<Longrightarrow> P (record_skip pb q (get_publication (pq_task_id q) (pw_db w)) w)"
    and changes: "should_publish q \<Longrightarrow> P (publish_changes pb q dir w)"
  shows "P (publish pb q dir w)"
proof (cases "get_publication (pq_task_id q) (pw_db w)")
  case None
  then show ?thesis using skip changes by (auto simp: publish_def andThen_reading)
next
  case (Some r)
  show ?thesis
  proof (cases "pr_state r \<in> {PS_PUBLISHED, PS_SKIPPED}")
    case True
    then show ?thesis using Some finished by (auto simp: publish_def andThen_reading io_basic)
  next
    case False
    then show ?thesis using Some skip changes conflict
      by (cases "pr_state r = PS_FAILED \<and> is_conflict (pr_detail r)"; cases "should_publish q")
        (auto simp: publish_def andThen_reading io_basic)
  qed
qed

text \<open>
  C7: What a publication does to the outside world.  The calls of one run split into a part that pushes at most
  once and a part that asks GitHub at most once to create a pull request.  The push runs at a database
  revision for which the durability barrier had been passed in the same run; the request to create follows, at one
  revision, directly after the barrier, a listing without a pull request that carries the task
  marker, and a listing without any pull request for that head and base.  No git command is forced, and when the
  branch is the base branch, looks like a flag or contains two dots, nothing is pushed or created at all.
\<close>

theorem publish_effects:
  "\<exists>t. pw_trace (snd (publish pb q dir w)) = pw_trace w @ t \<and> publish_calls q t \<and> list_all unforced_call t \<and>
     (quiet t \<or> assert_not_base_branch q = Inr ())"
proof -
  let ?G = "\<lambda>m. \<exists>t. pw_trace (snd (m w)) = pw_trace w @ t \<and> publish_calls q t \<and> list_all unforced_call t \<and>
     (quiet t \<or> assert_not_base_branch q = Inr ())"
  have quietly: "?G m" if "keeps quieter m" for m
    using keepsD [OF that, of w] by (auto simp: quieter_def intro: publish_calls_quiet(1) quiet_unforced(2))
  have changes: "?G (publish_changes pb q dir)"
  proof (cases "assert_not_base_branch q")
    case (Inl e)
    then show ?thesis by (intro quietly quiet_unsafe_branch)
  next
    case (Inr u)
    then show ?thesis using emitsD [OF emits_publish_changes, of pb q dir w] publish_calls_unforced by auto
  qed
  show ?thesis
    by (rule publish_rule) (use changes quietly [OF calls.keeps_ret] quietly [OF quiet_skip] in \<open>simp_all add: io_basic\<close>)
qed

section \<open>Results of the journal\<close>

lemma update_publication_row:
  assumes "update_publication now i st cs pn pu pd pa ps det chk od co ao d = (Inr r, d')"
  shows "get_publication i d' = Some r" "pr_state r = st"
    "\<exists>r0. get_publication i d = Some r0 \<and> pr_pr_number r = coalesce pn (pr_pr_number r0) \<and>
       pr_pr_url r = coalesce pu (pr_pr_url r0) \<and> pr_commit_sha r = coalesce cs (pr_commit_sha r0) \<and>
       pr_pr_draft r = coalesce pd (pr_pr_draft r0) \<and> pr_pr_state r = coalesce ps (pr_pr_state r0)"
proof -
  let ?key = "\<lambda>r. pr_task_id r = i"
  obtain r0 where r0: "fetchone ?key (publication_intents d) = Some r0"
    using assms by (cases "fetchone ?key (publication_intents d)") (simp_all add: update_publication_def db_write_def)
  let ?f = "\<lambda>r. r\<lparr>pr_state := st, pr_commit_sha := coalesce cs (pr_commit_sha r),
     pr_pr_number := coalesce pn (pr_pr_number r), pr_pr_url := coalesce pu (pr_pr_url r),
     pr_pr_draft := (case pd of None \<Rightarrow> pr_pr_draft r0 | Some b \<Rightarrow> Some b),
     pr_pr_author := coalesce pa (pr_pr_author r), pr_pr_state := coalesce ps (pr_pr_state r), pr_detail := det,
     pr_check_outcome := coalesce_to co (pr_check_outcome r), pr_agent_outcome := coalesce_to ao (pr_agent_outcome r),
     pr_updated_at := now\<rparr>"
  have "fetchone ?key (sql_update ?key ?f (publication_intents d)) = Some (?f r0)"
    using r0 by (simp add: fetchone_update_matched)
  then have row: "r = ?f r0" "publication_intents d' = sql_update ?key ?f (publication_intents d)"
    using assms r0 by (auto simp: update_publication_def db_write_def Let_def split: if_splits)
  then show "get_publication i d' = Some r" "pr_state r = st"
    using r0 by (simp_all add: get_publication_def fetchone_update_matched)
  show "\<exists>r0. get_publication i d = Some r0 \<and> pr_pr_number r = coalesce pn (pr_pr_number r0) \<and>
       pr_pr_url r = coalesce pu (pr_pr_url r0) \<and> pr_commit_sha r = coalesce cs (pr_commit_sha r0) \<and>
       pr_pr_draft r = coalesce pd (pr_pr_draft r0) \<and> pr_pr_state r = coalesce ps (pr_pr_state r0)"
    using r0 by (intro exI [of _ r0]) (simp add: get_publication_def row(1) coalesce_def)
qed

lemma pub_ledger_Inr: "pub_ledger m w = (Inr x, w') \<Longrightarrow> \<exists>d. m (pw_db w) = (Inr x, d) \<and> w' = w\<lparr>pw_db := d\<rparr>"
  by (auto simp: pub_ledger_def split: prod.splits sum.splits)

text \<open>The record a method returns is the one the journal holds.\<close>

definition journalled :: "PublicationRequest \<Rightarrow> PublicationRecord \<Rightarrow> 'p pub_world \<Rightarrow> bool" where
  "journalled q r w \<longleftrightarrow> get_publication (pq_task_id q) (pw_db w) = Some r"

lemma set_skipped_row: "set_skipped pb q w = (Inr r, w') \<Longrightarrow> journalled q r w' \<and> pr_state r = PS_SKIPPED"
  unfolding set_skipped_def journalled_def
  by (drule pub_ledger_Inr) (auto dest: update_publication_row)

lemma record_published_row:
  assumes "record_published pb q pr sha w = (Inr r, w')"
  shows "journalled q r w' \<and> pr_state r = PS_PUBLISHED \<and> pr_pr_number r = Some (rp_number pr) \<and>
     pr_pr_url r = Some (rp_html_url pr) \<and> pr_pr_draft r = Some (rp_draft pr) \<and> pr_pr_state r = Some (rp_state pr) \<and>
     pr_commit_sha r = Some sha"
proof -
  obtain d where d: "update_publication (pb_now pb) (pq_task_id q) PS_PUBLISHED (Some sha)
        (Some (rp_number pr)) (Some (rp_html_url pr)) (Some (rp_draft pr)) (Some (rp_author pr)) (Some (rp_state pr))
        (Some (published_outcome_detail (pq_check_outcome q))) (Some (CheckOutcome_value (pq_check_outcome q)))
        (Some (published_outcome_detail (pq_check_outcome q))) (Some (pq_check_outcome q)) (Some (pq_agent_outcome q))
        (pw_db w) = (Inr r, d)" "w' = w\<lparr>pw_db := d\<rparr>"
    using pub_ledger_Inr [OF assms [unfolded record_published_def Let_def]] by blast
  show ?thesis using update_publication_row [OF d(1)] d(2) by (auto simp: journalled_def)
qed

lemma begin_intent_row:
  assumes "begin_intent pb q c st det w = (Inr (r, new), w')"
  shows "journalled q r w'" "\<not> new \<Longrightarrow> get_publication (pq_task_id q) (pw_db w) = Some r" "new \<Longrightarrow> pr_state r = st"
proof -
  have "pub_ledger (begin_publication (pb_now pb) (pq_task_id q) (pq_repository q) (pq_task_branch q)
        (pq_base_ref q) (pq_task_marker q) c (pq_check_outcome q) (pq_agent_outcome q) st det) w = (Inr (r, new), w')"
    using assms unfolding begin_intent_def
    by (rule catch_raising) (auto simp: raise_def split: publisher_error.splits error.splits)
  from pub_ledger_Inr [OF this] obtain d where d: "begin_publication (pb_now pb) (pq_task_id q) (pq_repository q)
      (pq_task_branch q) (pq_base_ref q) (pq_task_marker q) c (pq_check_outcome q) (pq_agent_outcome q) st det (pw_db w) =
      (Inr (r, new), d)" "w' = w\<lparr>pw_db := d\<rparr>" by blast
  then show "journalled q r w'" "\<not> new \<Longrightarrow> get_publication (pq_task_id q) (pw_db w) = Some r" "new \<Longrightarrow> pr_state r = st"
    by (auto simp: journalled_def begin_publication_def db_write_def get_publication_def Let_def
        split: option.splits if_splits)
qed

lemma record_skip_row:
  assumes "record_skip pb q (get_publication (pq_task_id q) (pw_db w)) w = (Inr r, w')"
  shows "journalled q r w' \<and> (pr_state r \<in> {PS_PUBLISHED, PS_SKIPPED} \<or> pr_pr_number r \<noteq> None \<and> w' = w)"
proof -
  have intent: "journalled q r w' \<and> pr_state r \<in> {PS_PUBLISHED, PS_SKIPPED}" if "record_skip_intent pb q w = (Inr r, w')"
  proof -
    from that obtain rec new w1 where b: "begin_intent pb q None PS_SKIPPED (Some (skip_detail q)) w = (Inr (rec, new), w1)"
      and k: "(if \<not> new then if pr_state rec = PS_PUBLISHED then ret rec
            else if pr_state rec \<noteq> PS_SKIPPED then set_skipped pb q else ret rec else set_skipped pb q) w1 = (Inr r, w')"
      unfolding record_skip_intent_def by (auto elim!: andThen_InrE)
    then show ?thesis using begin_intent_row(1) [OF b] set_skipped_row [of pb q w1 r w']
      by (auto simp: ret_def split: if_splits)
  qed
  then show ?thesis using assms
    by (auto simp: record_skip_def ret_def journalled_def split: option.splits if_splits)
qed

lemma adopt_existing_row:
  assumes "adopt_existing pb q w = (Inr (Some r), w')"
  shows "journalled q r w' \<and> pr_state r = PS_PUBLISHED"
  using assms unfolding adopt_existing_def
  by (auto simp: ret_def raise_def lift_sum_apply elim!: andThen_InrE dest!: record_published_row
      split: option.splits if_splits list.splits)

lemma publish_commit_row:
  assumes "publish_commit pb q dir sha w = (Inr r, w')"
  shows "journalled q r w' \<and> pr_state r = PS_PUBLISHED"
proof -
  obtain rec new w1 where b: "begin_intent pb q (Some sha) PS_PENDING None w = (Inr (rec, new), w1)"
    and k: "(if pr_state rec = PS_PUBLISHED then ret rec
       else catch (publish_steps pb q dir sha rec) (publish_failed pb q)) w1 = (Inr r, w')"
    using assms unfolding publish_commit_def by (auto elim!: andThen_InrE)
  show ?thesis
  proof (cases "pr_state rec = PS_PUBLISHED")
    case True
    then show ?thesis using k begin_intent_row(1) [OF b] by (simp add: ret_def)
  next
    case False
    have "fst (publish_failed pb q e s1) \<noteq> Inr r" for e s1
      by (auto simp: publish_failed_def andThen_def raise_def split: publisher_error.splits prod.splits sum.splits)
    with k False have "publish_steps pb q dir sha rec w1 = (Inr r, w')" by (auto intro: catch_raising)
    then show ?thesis unfolding publish_steps_def by (elim andThen_InrE) (auto dest: record_published_row)
  qed
qed

lemma publish_changes_row:
  assumes "publish_changes pb q dir w = (Inr r, w')"
  shows "journalled q r w' \<and> pr_state r = PS_PUBLISHED"
  using assms unfolding publish_changes_def
  by (auto simp: ret_def raise_def elim!: andThen_InrE dest!: adopt_existing_row publish_commit_row split: option.splits)

text \<open>A GitHub that stores what it is asked to create but loses the answer, and a request over the sample ledger.\<close>

definition sample_pull :: "string \<Rightarrow> string \<Rightarrow> string \<Rightarrow> string \<Rightarrow> string \<Rightarrow> RemotePullRequest" where
  "sample_pull repo title body head base = \<lparr>rp_number = 7, rp_html_url = ''https://github.com/'' @ repo @ ''/pull/7'',
     rp_draft = True, rp_state = ''open'', rp_author = ''bot'', rp_title = title, rp_body = body, rp_head_ref = head,
     rp_base_ref = base, rp_head_sha = ''c1''\<rparr>"

definition sample_gateway :: "(string \<Rightarrow> RemotePullRequest list) gateway" where
  "sample_gateway = \<lparr>gw_branch_sha = (\<lambda>repo branch p. (Inr None, p)),
     gw_list = (\<lambda>repo head base st p. (Inr (filter (\<lambda>x. rp_head_ref x = head \<and> rp_base_ref x = base) (p repo)), p)),
     gw_create = (\<lambda>repo title body head base p. (Inl (GitHubTimeoutError ''lost''),
        p(repo := p repo @ [sample_pull repo title body head base])))\<rparr>"

definition sample_publisher :: "(string \<Rightarrow> RemotePullRequest list) publisher" where
  "sample_publisher = \<lparr>dp_github = sample_gateway, dp_bot = \<lparr>bi_name = ''gg'', bi_email = ''g@g'', bi_login = ''gg''\<rparr>,
     dp_github_token = ''s3cret'', dp_process_env = [],
     pb_git = (\<lambda>args cwd env p. (Inr \<lparr>cp_returncode = 0, cp_stdout = (if args ! 1 = ''rev-parse'' then ''c1'' else []),
        cp_stderr = []\<rparr>, p)),
     pb_askpass = ''/tmp/askpass'', pb_durable = (\<lambda>n p. (Inr (), p)), pb_now = 9\<rparr>"

definition sample_request :: PublicationRequest where
  "sample_request = \<lparr>pq_task_id = ''t1'', pq_repository = ''o/r'', pq_task_branch = ''gg/t1'', pq_base_ref = ''main'',
     pq_base_sha = ''b0'', pq_head_sha = None, pq_task_marker = ''t1'', pq_agent_outcome = AO_SUCCEEDED,
     pq_check_outcome = CO_PASSED, pq_check = None, pq_changed_files = [''f'']\<rparr>"

definition sample_pub_world :: "(string \<Rightarrow> RemotePullRequest list) pub_world" where
  "sample_pub_world = \<lparr>pw_db = sample_reserved, pw_remote = (\<lambda>_. []), pw_trace = []\<rparr>"

definition outcome :: "('e + PublicationRecord) \<times> 'w \<Rightarrow> PublicationState option" where
  "outcome out = (case fst out of Inl _ \<Rightarrow> None | Inr r \<Rightarrow> Some (pr_state r))"

lemma outcomeD: "outcome out = Some st \<Longrightarrow> \<exists>r w'. out = (Inr r, w') \<and> pr_state r = st"
  by (cases out) (auto simp: outcome_def split: sum.splits)

lemma sample_published:
  "outcome (publish sample_publisher sample_request (Some ''d'') sample_pub_world) = Some PS_PUBLISHED"
  by code_simp

text \<open>
  A publication that returned is settled.  The record it returned is the one the journal holds; it is published when
  the agent succeeded with changes, and otherwise published, skipped or an unfinished one that already
  has its pull request; and publishing again after a finished one, with whatever publisher and directory, returns the
  same record without any effect.
\<close>

lemma publish_idempotent:
  assumes "publish pb q dir w = (Inr r, w')"
  shows "get_publication (pq_task_id q) (pw_db w') = Some r \<and>
     (if pr_state r \<in> {PS_PUBLISHED, PS_SKIPPED} then publish pb' q dir' w' = (Inr r, w')
      else \<not> should_publish q \<and> pr_pr_number r \<noteq> None \<and> w' = w)"
proof -
  let ?P = "\<lambda>out. out = (Inr r, w') \<longrightarrow> journalled q r w' \<and>
      (pr_state r \<in> {PS_PUBLISHED, PS_SKIPPED} \<or> \<not> should_publish q \<and> pr_pr_number r \<noteq> None \<and> w' = w)"
  have "?P (publish pb q dir w)"
    by (rule publish_rule [of q w ?P]) (auto simp: journalled_def dest: record_skip_row publish_changes_row)
  then have "journalled q r w'"
    "pr_state r \<in> {PS_PUBLISHED, PS_SKIPPED} \<or> \<not> should_publish q \<and> pr_pr_number r \<noteq> None \<and> w' = w"
    using assms by blast+
  then show ?thesis by (auto simp: journalled_def publish_def andThen_reading io_basic)
qed

lemma publish_idempotent_witness:
  "\<exists>r w'. publish sample_publisher sample_request (Some ''d'') sample_pub_world = (Inr r, w') \<and>
     pr_state r = PS_PUBLISHED \<and> publish sample_publisher sample_request None w' = (Inr r, w')"
proof -
  obtain r w' where p: "publish sample_publisher sample_request (Some ''d'') sample_pub_world = (Inr r, w')"
      "pr_state r = PS_PUBLISHED"
    using outcomeD [OF sample_published] by blast
  from publish_idempotent [OF p(1), of sample_publisher None] p show ?thesis by auto
qed

section \<open>Verification of an observed pull request\<close>

lemma listing_Inr:
  assumes "head_base_pull_requests pb q w = (Inr found, w')"
  shows "pw_trace w' = pw_trace w @ [Listed found (revision (pw_db w))] \<and> pw_db w' = pw_db w \<and>
     gw_list (dp_github pb) (pq_repository q) (pq_task_branch q) (pq_base_ref q) ''all'' (pw_remote w) = (Inr found, pw_remote w')"
  by (cases rule: listing_cases [of pb q w]) (use assms in auto)

lemma matching_Inr:
  assumes "matching_pull_requests pb q w = (Inr ms, w')"
  obtains found where "ms = filter (has_marker q) found" "head_base_pull_requests pb q w = (Inr found, w')"
  using assms unfolding matching_pull_requests_def by (elim andThen_InrE) (auto simp: ret_def)

lemma verified_pull:
  "require_verified_pull q pr = Inr pr' \<Longrightarrow> pr' = pr \<and>
     rp_html_url pr = ''https://github.com/'' @ pq_repository q @ ''/pull/'' @ show_int (rp_number pr) \<and>
     rp_head_ref pr = pq_task_branch q \<and> rp_base_ref pr = pq_base_ref q \<and> rp_draft pr \<and> rp_state pr = ''open'' \<and>
     pq_head_sha q \<in> {None, Some (rp_head_sha pr)} \<and> has_marker q pr"
  by (auto simp: require_verified_pull_def split: if_splits)

definition observed :: "PublicationRequest \<Rightarrow> PublicationRecord \<Rightarrow> pub_call list \<Rightarrow> bool" where
  "observed q r t \<longleftrightarrow> (\<exists>found n pr. Listed found n \<in> set t \<and> pr \<in> set found \<and> has_marker q pr \<and>
     rp_head_ref pr = pq_task_branch q \<and> rp_base_ref pr = pq_base_ref q \<and>
     pq_head_sha q \<in> {None, Some (rp_head_sha pr)} \<and>
     pr_pr_number r = Some (rp_number pr) \<and> pr_commit_sha r = Some (rp_head_sha pr) \<and>
     pr_pr_url r = Some (''https://github.com/'' @ pq_repository q @ ''/pull/'' @ show_int (rp_number pr)) \<and>
     pr_pr_draft r = Some True \<and> pr_pr_state r = Some ''open'')"

lemma observed_in: "observed q r [c] \<Longrightarrow> c \<in> set t \<Longrightarrow> observed q r t"
  unfolding observed_def by (metis (no_types, lifting) empty_iff list.set(1) set_ConsD)

lemma observed_recorded:
  assumes "matching_pull_requests pb q w = (Inr ms, w1)" "pr \<in> set ms" "require_verified_pull q pr = Inr pr'"
    "record_published pb q pr' (rp_head_sha pr') w2 = (Inr r, w')"
  shows "\<exists>c. pw_trace w1 = pw_trace w @ [c] \<and> observed q r [c]"
proof -
  obtain found where f: "ms = filter (has_marker q) found" "head_base_pull_requests pb q w = (Inr found, w1)"
    using assms(1) by (rule matching_Inr)
  show ?thesis using listing_Inr [OF f(2)] verified_pull [OF assms(3)] record_published_row [OF assms(4)] assms(2) f(1)
    by (auto simp: observed_def)
qed

text \<open>A skip reports a published record only when the journal already held it.\<close>

lemma record_skip_published:
  assumes "record_skip pb q ex w = (Inr r, w')" "pr_state r = PS_PUBLISHED"
  shows "ex = Some r \<or> get_publication (pq_task_id q) (pw_db w) = Some r"
proof -
  have "get_publication (pq_task_id q) (pw_db w) = Some r" if "record_skip_intent pb q w = (Inr r, w')"
  proof -
    from that obtain rec new w1 where b: "begin_intent pb q None PS_SKIPPED (Some (skip_detail q)) w = (Inr (rec, new), w1)"
      and k: "(if \<not> new then if pr_state rec = PS_PUBLISHED then ret rec
            else if pr_state rec \<noteq> PS_SKIPPED then set_skipped pb q else ret rec else set_skipped pb q) w1 = (Inr r, w')"
      unfolding record_skip_intent_def by (auto elim!: andThen_InrE)
    have "\<not> new \<and> r = rec" using k set_skipped_row [of pb q w1 r w'] assms(2) by (auto simp: ret_def split: if_splits)
    then show ?thesis using begin_intent_row(2) [OF b] by simp
  qed
  then show ?thesis using assms(1) by (auto simp: record_skip_def ret_def split: option.splits if_splits)
qed

lemma listing_uncertain_row: "listing_uncertain pb q ex e w = (Inr r, w') \<Longrightarrow> ex = Some r"
  by (auto simp: listing_uncertain_def listing_timed_out_def ret_def raise_def elim!: andThen_InrE
      split: option.splits if_splits)

lemma reconcile_missing_row:
  assumes "reconcile_missing pb q ex w = (Inr r, w')" "pr_state r = PS_PUBLISHED"
  shows "ex = Some r \<or> get_publication (pq_task_id q) (pw_db w) = Some r"
proof -
  from assms(1) obtain others w1 where l: "head_base_pull_requests pb q w = (Inr others, w1)"
    and "record_skip pb q ex w1 = (Inr r, w')"
    unfolding reconcile_missing_def by (auto simp: raise_def elim!: andThen_InrE split: if_splits)
  from record_skip_published [OF this(2) assms(2)] listing_Inr [OF l] show ?thesis by simp
qed

lemma attempt_then: "andThen (attempt m) k w = k (fst (m w)) (snd (m w))"
  by (simp add: andThen_def attempt_def)

lemma reconcile_unpublished_row:
  assumes "reconcile_unpublished pb q ex w = (Inr r, w')" "pr_state r = PS_PUBLISHED"
    "ex = get_publication (pq_task_id q) (pw_db w)"
  shows "ex = Some r \<or> (\<exists>c w1. pw_trace w1 = pw_trace w @ [c] \<and> quieter w1 w' \<and> observed q r [c])"
proof (cases "matching_pull_requests pb q w")
  case (Pair ans w1)
  note eq = assms(1) [unfolded reconcile_unpublished_def attempt_then Pair fst_conv snd_conv]
  show ?thesis
  proof (cases ans)
    case (Inl e)
    then show ?thesis using eq by (cases e) (auto simp: raise_def dest: listing_uncertain_row)
  next
    case (Inr ms)
    obtain found where f: "ms = filter (has_marker q) found" "head_base_pull_requests pb q w = (Inr found, w1)"
      using Pair [unfolded Inr] by (rule matching_Inr)
    consider "ms = []" | pr where "ms = [pr]" | a b rest where "ms = a # b # rest" by (metis list.exhaust)
    then show ?thesis
    proof cases
      case 1
      then have "reconcile_missing pb q ex w1 = (Inr r, w')" using eq Inr by simp
      from reconcile_missing_row [OF this assms(2)] show ?thesis using listing_Inr [OF f(2)] assms(3) by simp
    next
      case (2 pr)
      then have "andThen (lift_sum (require_verified_pull q pr)) (\<lambda>pr.
           andThen (begin_intent pb q (Some (rp_head_sha pr)) PS_PENDING None) (\<lambda>_.
             record_published pb q pr (rp_head_sha pr))) w1 = (Inr r, w')" using eq Inr by simp
      then obtain pr' b w2 where v: "require_verified_pull q pr = Inr pr'"
        and b: "begin_intent pb q (Some (rp_head_sha pr')) PS_PENDING None w1 = (Inr b, w2)"
        and p: "record_published pb q pr' (rp_head_sha pr') w2 = (Inr r, w')"
        by (elim andThen_InrE) (auto simp: lift_sum_apply)
      have "quieter w1 w2" "quieter w2 w'"
        using keepsD [OF quiet_begin, of w1] keepsD [OF quiet_set(3), of w2] b p by (metis snd_conv)+
      then have "quieter w1 w'" by (rule calls.kept_trans)
      then show ?thesis using observed_recorded [OF Pair [unfolded Inr] _ v p] 2 by fastforce
    next
      case 3
      then show ?thesis using eq Inr by (simp add: raise_def)
    qed
  qed
qed

lemma verified_match_Inr:
  assumes "verified_match pb q r0 w = (Inr (Some pr), w1)"
  shows "\<exists>ms. matching_pull_requests pb q w = (Inr ms, w1) \<and> pr \<in> set ms \<and> require_verified_pull q pr = Inr pr"
proof (cases "matching_pull_requests pb q w")
  case (Pair ans w2)
  note eq = assms [unfolded verified_match_def attempt_then Pair fst_conv snd_conv]
  show ?thesis
  proof (cases ans)
    case (Inl e)
    then show ?thesis using eq by (cases e) (auto simp: raise_def ret_def)
  next
    case (Inr ms)
    then obtain x where x: "fetchone (\<lambda>pr. pr_pr_number r0 = Some (rp_number pr)) ms = Some x"
        "require_verified_pull q x = Inr pr" "w1 = w2"
      using eq by (auto simp: ret_def lift_sum_apply elim!: andThen_InrE split: option.splits)
    then have "pr = x" using verified_pull by blast
    then show ?thesis using x Pair Inr fetchone_SomeD [OF x(1)] by blast
  qed
qed



end
