(* ===== verification/One_Pull_Request.thy ===== *)
theory One_Pull_Request
  imports Draft_Publisher_Props
begin

text \<open>
  At most one pull request per task.  GitHub is taken to store pull requests per repository: a listing
  returns the stored ones with that head and base, a request to create one stores at most one more, with the
  title, body, head and base it was asked for, and nothing else the publisher calls changes them.  Against such a
  GitHub a publication never makes a second pull request with the task's marker, also when the answer to the
  request was lost.
\<close>

section \<open>A GitHub that stores pull requests\<close>

definition honest_github :: "'p publisher \<Rightarrow> ('p \<Rightarrow> string \<Rightarrow> RemotePullRequest list) \<Rightarrow> bool" where
  "honest_github pb pulls \<longleftrightarrow>
     (\<forall>repo head base p found. fst (gw_list (dp_github pb) repo head base ''all'' p) = Inr found \<longrightarrow>
        found = filter (\<lambda>x. rp_head_ref x = head \<and> rp_base_ref x = base) (pulls p repo)) \<and>
     (\<forall>repo head base st p. pulls (snd (gw_list (dp_github pb) repo head base st p)) = pulls p) \<and>
     (\<forall>repo branch p. pulls (snd (gw_branch_sha (dp_github pb) repo branch p)) = pulls p) \<and>
     (\<forall>args cwd env p. pulls (snd (pb_git pb args cwd env p)) = pulls p) \<and>
     (\<forall>n p. pulls (snd (pb_durable pb n p)) = pulls p) \<and>
     (\<forall>repo title body head base p. case gw_create (dp_github pb) repo title body head base p of (r, p') \<Rightarrow>
        (\<exists>e. r = Inl e \<and> pulls p' = pulls p) \<or>
        (\<exists>x. (r = Inr x \<or> (\<exists>e. r = Inl e)) \<and> pulls p' = (pulls p)(repo := pulls p repo @ [x]) \<and>
           rp_title x = title \<and> rp_body x = body \<and> rp_head_ref x = head \<and> rp_base_ref x = base))"

text \<open>The stored pull requests of a task: its head, base and marker.\<close>

definition task_pulls :: "PublicationRequest \<Rightarrow> (string \<Rightarrow> RemotePullRequest list) \<Rightarrow> RemotePullRequest list" where
  "task_pulls q stored = filter (has_marker q)
     (filter (\<lambda>x. rp_head_ref x = pq_task_branch q \<and> rp_base_ref x = pq_base_ref q) (stored (pq_repository q)))"

definition same_stored :: "('p \<Rightarrow> 'v) \<Rightarrow> 'p pub_world \<Rightarrow> 'p pub_world \<Rightarrow> bool" where
  "same_stored pulls w w' \<longleftrightarrow> pulls (pw_remote w') = pulls (pw_remote w)"

interpretation stored: kept_relation "same_stored pulls" for pulls
  by unfold_locales (auto simp: same_stored_def)

lemma honest_listing:
  "honest_github pb pulls \<Longrightarrow> fst (gw_list (dp_github pb) repo head base ''all'' p) = Inr found \<Longrightarrow>
   found = filter (\<lambda>x. rp_head_ref x = head \<and> rp_base_ref x = base) (pulls p repo)"
  by (simp add: honest_github_def)

lemma honest_creation:
  assumes "honest_github pb pulls" "gw_create (dp_github pb) repo title body head base p = (r, p')"
  shows "(\<exists>e. r = Inl e \<and> pulls p' = pulls p) \<or>
     (\<exists>x. (r = Inr x \<or> (\<exists>e. r = Inl e)) \<and> pulls p' = (pulls p)(repo := pulls p repo @ [x]) \<and>
        rp_title x = title \<and> rp_body x = body \<and> rp_head_ref x = head \<and> rp_base_ref x = base)"
proof -
  have "case gw_create (dp_github pb) repo title body head base p of (r, p') \<Rightarrow>
        (\<exists>e. r = Inl e \<and> pulls p' = pulls p) \<or>
        (\<exists>x. (r = Inr x \<or> (\<exists>e. r = Inl e)) \<and> pulls p' = (pulls p)(repo := pulls p repo @ [x]) \<and>
           rp_title x = title \<and> rp_body x = body \<and> rp_head_ref x = head \<and> rp_base_ref x = base)"
    using assms(1) by (simp add: honest_github_def)
  then show ?thesis unfolding assms(2) prod.case .
qed

lemma stored_basics:
  "keeps (same_stored pulls) (pub_note c)" "keeps (same_stored pulls) (pub_ledger m)"
  "(\<And>p. pulls (snd (f p)) = pulls p) \<Longrightarrow> keeps (same_stored pulls) (on_remote f)"
  by (auto simp: keeps_def same_stored_def pub_note_def pub_ledger_def on_remote_def split_beta Let_def
      split: sum.splits)

lemma stored_barrier:
  assumes "honest_github pb pulls"
  shows "keeps (same_stored pulls) (pub_barrier pb)"
proof -
  have "pulls (snd (pb_durable pb n p)) = pulls p" for n p using assms by (simp add: honest_github_def)
  then have "pb_durable pb n p = (r, p') \<Longrightarrow> pulls p' = pulls p" for n p r p' by (metis snd_conv)
  then show ?thesis
    by (auto simp: keeps_def same_stored_def pub_barrier_def split: prod.splits sum.splits)
qed

lemmas stored_rules = stored.keeps_rules stored_basics

lemma marker_in_body: "has_marker q x" if "rp_body x = pr_body q sha"
  using contains_append [of "marker_token (pq_task_marker q)" "''<!-- ''"]
  unfolding has_marker_def that pr_body_def by blast

section \<open>What keeps the stored pull requests\<close>

lemma stored_failed: "keeps (same_stored pulls) (github_failed pb e)"
  by (auto simp: github_failed_def intro!: stored_rules split: publisher_error.splits)

lemma stored_branch_sha: "honest_github pb pulls \<Longrightarrow> keeps (same_stored pulls) (branch_sha pb q)"
  unfolding branch_sha_def by (intro stored_rules stored_failed) (simp add: honest_github_def)

lemma stored_listing: "honest_github pb pulls \<Longrightarrow> keeps (same_stored pulls) (head_base_pull_requests pb q)"
  unfolding head_base_pull_requests_def
  by (auto intro!: stored_rules stored_failed simp: honest_github_def split: publisher_error.splits)

lemma stored_matching: "honest_github pb pulls \<Longrightarrow> keeps (same_stored pulls) (matching_pull_requests pb q)"
  unfolding matching_pull_requests_def by (intro stored_rules stored_listing)

lemma stored_subprocess: "honest_github pb pulls \<Longrightarrow> keeps (same_stored pulls) (subprocess_run pb args cwd env)"
proof -
  assume "honest_github pb pulls"
  then have "pulls (snd (pb_git pb args cwd env p)) = pulls p" for p by (simp add: honest_github_def)
  then have "pulls (snd (case pb_git pb args cwd env p of
      (Inl exc, p') \<Rightarrow> (Inl (Python_error exc), p') | (Inr c, p') \<Rightarrow> (Inr c, p'))) = pulls p" for p
    by (metis (no_types, lifting) prod.case_eq_if snd_conv sum.case_eq_if)
  then show ?thesis unfolding subprocess_run_def by (intro stored_rules)
qed

lemma stored_run_git: "honest_github pb pulls \<Longrightarrow> keeps (same_stored pulls) (run_git pb args cwd env)"
  unfolding run_git_def by (auto intro!: stored_rules stored_subprocess)

lemma stored_journal: "keeps (same_stored pulls) (begin_intent pb q c st det)"
  "keeps (same_stored pulls) (set_publication pb q st det)" "keeps (same_stored pulls) (record_published pb q pr sha)"
  "keeps (same_stored pulls) (set_skipped pb q)"
  unfolding begin_intent_def set_publication_def record_published_def set_skipped_def Let_def
  by (auto intro!: stored_rules split: publisher_error.splits error.splits)

lemma stored_skip: "keeps (same_stored pulls) (record_skip pb q ex)"
  unfolding record_skip_def record_skip_intent_def
  by (auto intro!: stored_rules stored_journal split: option.splits prod.splits)

lemma stored_commit: "honest_github pb pulls \<Longrightarrow> keeps (same_stored pulls) (commit_task_branch pb q dir)"
  unfolding commit_task_branch_def Let_def by (auto intro!: stored_rules stored_run_git)

lemma stored_adopt: "honest_github pb pulls \<Longrightarrow> keeps (same_stored pulls) (adopt_existing pb q)"
  unfolding adopt_existing_def
  by (auto intro!: stored_rules stored_branch_sha stored_matching stored_journal split: option.splits list.splits)

lemma stored_push: "honest_github pb pulls \<Longrightarrow> keeps (same_stored pulls) (push_branch pb q dir sha)"
  unfolding push_branch_def ls_remote_def assert_origin_has_no_secret_def Let_def
  by (auto intro!: stored_rules stored_branch_sha stored_run_git stored_subprocess split: option.splits)

lemma stored_publish_failed: "keeps (same_stored pulls) (publish_failed pb q e)"
  unfolding publish_failed_def by (auto intro!: stored_rules stored_journal split: publisher_error.splits)

lemma matching_stored:
  assumes "honest_github pb pulls" "matching_pull_requests pb q w = (Inr ms, w')"
  shows "ms = task_pulls q (pulls (pw_remote w))" "pulls (pw_remote w') = pulls (pw_remote w)"
proof -
  obtain found where f: "ms = filter (has_marker q) found" "head_base_pull_requests pb q w = (Inr found, w')"
    using assms(2) by (rule matching_Inr)
  then have "fst (gw_list (dp_github pb) (pq_repository q) (pq_task_branch q) (pq_base_ref q) ''all'' (pw_remote w)) = Inr found"
    using listing_Inr [OF f(2)] by simp
  then have "found = filter (\<lambda>x. rp_head_ref x = pq_task_branch q \<and> rp_base_ref x = pq_base_ref q)
      (pulls (pw_remote w) (pq_repository q))" using assms(1) by (intro honest_listing)
  then show "ms = task_pulls q (pulls (pw_remote w))" using f(1) by (simp add: task_pulls_def)
  show "pulls (pw_remote w') = pulls (pw_remote w)"
    using keepsD [OF stored_matching [OF assms(1)], of w q] assms(2) by (simp add: same_stored_def)
qed

section \<open>Creation\<close>

text \<open>A result together with the stored pull requests of the task: at most one, and the one that is returned.\<close>

definition sole :: "PublicationRequest \<Rightarrow> ('p \<Rightarrow> string \<Rightarrow> RemotePullRequest list) \<Rightarrow>
    (publisher_error + RemotePullRequest) \<times> 'p pub_world \<Rightarrow> bool" where
  "sole q pulls out \<longleftrightarrow> length (task_pulls q (pulls (pw_remote (snd out)))) \<le> 1 \<and>
     (case fst out of Inl _ \<Rightarrow> True | Inr pr \<Rightarrow> task_pulls q (pulls (pw_remote (snd out))) = [pr])"

lemma sole_matching:
  assumes "honest_github pb pulls" "length (task_pulls q (pulls (pw_remote w))) \<le> 1"
    and "\<And>ms w1. ms = task_pulls q (pulls (pw_remote w1)) \<Longrightarrow> pulls (pw_remote w1) = pulls (pw_remote w) \<Longrightarrow>
           sole q pulls (k ms w1)"
  shows "sole q pulls (andThen (matching_pull_requests pb q) k w)"
proof (cases "matching_pull_requests pb q w")
  case (Pair ans w1)
  have same: "pulls (pw_remote w1) = pulls (pw_remote w)"
    using keepsD [OF stored_matching [OF assms(1)], of w q] Pair by (simp add: same_stored_def)
  show ?thesis
  proof (cases ans)
    case (Inl e)
    then show ?thesis using Pair same assms(2) by (simp add: andThen_def sole_def)
  next
    case (Inr ms)
    then have "ms = task_pulls q (pulls (pw_remote w1))" using matching_stored(1) [OF assms(1)] Pair same by simp
    then show ?thesis using Pair Inr assms(3) same by (simp add: andThen_def)
  qed
qed

lemma sole_create_failed:
  assumes "honest_github pb pulls" "length (task_pulls q (pulls (pw_remote w))) \<le> 1"
  shows "sole q pulls (create_failed pb q e w)"
proof -
  have rest: "sole q pulls ((case ms of [] \<Rightarrow> raise e1 | [pr] \<Rightarrow> ret pr | pr # _ # _ \<Rightarrow> raise e2) w1)"
    if "ms = task_pulls q (pulls (pw_remote w1))" "pulls (pw_remote w1) = pulls (pw_remote w)" for ms w1 e1 e2
    using that assms(2) by (auto simp: sole_def io_basic split: list.splits)
  show ?thesis unfolding create_failed_def
    using assms(2) sole_matching [OF assms rest]
    by (auto simp: sole_def io_basic split: publisher_error.splits)
qed

lemma task_pulls_added:
  assumes "task_pulls q stored = []" "rp_head_ref x = pq_task_branch q" "rp_base_ref x = pq_base_ref q" "has_marker q x"
  shows "task_pulls q (stored(pq_repository q := stored (pq_repository q) @ [x])) = [x]"
  using assms by (simp add: task_pulls_def)

lemma sole_creation:
  assumes "honest_github pb pulls" "task_pulls q (pulls (pw_remote w)) = []"
  shows "sole q pulls (create_or_recover pb q sha w)"
proof (cases "gw_create (dp_github pb) (pq_repository q) (pr_title q) (pr_body q sha) (pq_task_branch q) (pq_base_ref q) (pw_remote w)")
  case (Pair r p)
  from honest_creation [OF assms(1) Pair]
  have stored: "(\<exists>e. r = Inl e) \<and> length (task_pulls q (pulls p)) \<le> 1 \<or> (\<exists>x. r = Inr x \<and> task_pulls q (pulls p) = [x])"
    using assms(2) by (auto simp: task_pulls_added marker_in_body)
  have call: "\<exists>t. create_call pb q sha w = (r, w\<lparr>pw_trace := t, pw_remote := p\<rparr>)"
    using Pair by (auto simp: create_call_def andThen_def pub_note_def on_remote_def intro!: exI)
  then obtain w1 where w1: "create_call pb q sha w = (r, w1)" "pw_remote w1 = p" by auto
  show ?thesis
  proof (cases r)
    case (Inl e)
    then show ?thesis using stored w1 sole_create_failed [OF assms(1), of q w1 e]
      by (simp add: create_or_recover_def attempt_then)
  next
    case (Inr x)
    then show ?thesis using stored w1 by (simp add: create_or_recover_def attempt_then sole_def io_basic)
  qed
qed

lemma sole_reconcile:
  assumes "honest_github pb pulls" "length (task_pulls q (pulls (pw_remote w))) \<le> 1"
  shows "sole q pulls (reconcile_or_create pb q sha w)"
  unfolding reconcile_or_create_def
proof (rule sole_matching [OF assms])
  fix ms and w1 :: "'a pub_world"
  assume ms: "ms = task_pulls q (pulls (pw_remote w1))" and same: "pulls (pw_remote w1) = pulls (pw_remote w)"
  show "sole q pulls ((case ms of [] \<Rightarrow> andThen (head_base_pull_requests pb q) (\<lambda>others.
             if others \<noteq> [] then raise (PublicationConflictError FOREIGN) else create_or_recover pb q sha)
         | [pr] \<Rightarrow> ret pr | pr # _ # _ \<Rightarrow> raise (PublicationConflictError MULTIPLE)) w1)"
  proof (cases ms)
    case Nil
    obtain ans w2 where l: "head_base_pull_requests pb q w1 = (ans, w2)" by fastforce
    then have "pulls (pw_remote w2) = pulls (pw_remote w1)"
      using keepsD [OF stored_listing [OF assms(1)], of w1 q] by (simp add: same_stored_def)
    then have "task_pulls q (pulls (pw_remote w2)) = []" using ms Nil by simp
    then show ?thesis using Nil l sole_creation [OF assms(1), of q w2 sha]
      by (cases ans) (auto simp: andThen_def sole_def io_basic)
  next
    case (Cons a as)
    then show ?thesis using ms assms(2) same by (cases as) (simp_all add: sole_def io_basic)
  qed
qed

section \<open>Publication\<close>

definition sole_record :: "PublicationRequest \<Rightarrow> ('p \<Rightarrow> string \<Rightarrow> RemotePullRequest list) \<Rightarrow>
    (publisher_error + PublicationRecord) \<times> 'p pub_world \<Rightarrow> bool" where
  "sole_record q pulls out \<longleftrightarrow> length (task_pulls q (pulls (pw_remote (snd out)))) \<le> 1 \<and>
     (case fst out of Inl _ \<Rightarrow> True
      | Inr r \<Rightarrow> \<exists>x. task_pulls q (pulls (pw_remote (snd out))) = [x] \<and> pr_state r = PS_PUBLISHED \<and>
          pr_pr_number r = Some (rp_number x) \<and> pr_pr_url r = Some (rp_html_url x))"

lemma sole_after:
  assumes "keeps (same_stored pulls) m" "length (task_pulls q (pulls (pw_remote w))) \<le> 1"
    and "\<And>x w1. m w = (Inr x, w1) \<Longrightarrow> pulls (pw_remote w1) = pulls (pw_remote w) \<Longrightarrow> sole_record q pulls (k x w1)"
  shows "sole_record q pulls (andThen m k w)"
proof -
  obtain ans w1 where m: "m w = (ans, w1)" by fastforce
  then have "pulls (pw_remote w1) = pulls (pw_remote w)" using keepsD [OF assms(1), of w] by (simp add: same_stored_def)
  then show ?thesis using m assms(2,3) by (cases ans) (simp_all add: andThen_def sole_record_def)
qed

lemma sole_recorded:
  assumes "task_pulls q (pulls (pw_remote w)) = [pr]"
  shows "sole_record q pulls (record_published pb q pr sha w)"
proof -
  obtain ans w1 where m: "record_published pb q pr sha w = (ans, w1)" by fastforce
  then have "pulls (pw_remote w1) = pulls (pw_remote w)"
    using keepsD [OF stored_journal(3), of pulls w pb q pr sha] by (simp add: same_stored_def)
  then show ?thesis using m assms record_published_row [of pb q pr sha w _ w1]
    by (cases ans) (auto simp: sole_record_def)
qed

lemma sole_steps:
  assumes "honest_github pb pulls" "length (task_pulls q (pulls (pw_remote w))) \<le> 1"
  shows "sole_record q pulls (publish_steps pb q dir sha r w)"
proof -
  have last: "sole_record q pulls (andThen (reconcile_or_create pb q sha) (\<lambda>pr. record_published pb q pr sha) w2)"
    if "length (task_pulls q (pulls (pw_remote w2))) \<le> 1" for w2
  proof (cases "reconcile_or_create pb q sha w2")
    case (Pair ans w3)
    have "sole q pulls (ans, w3)" using sole_reconcile [OF assms(1) that, of sha] Pair by simp
    then show ?thesis using Pair sole_recorded [of q pulls w3] by (cases ans) (simp_all add: andThen_def sole_def sole_record_def)
  qed
  have early: "keeps (same_stored pulls) (if pr_state r \<in> {PS_PENDING, PS_FAILED}
      then andThen (pub_barrier pb) (\<lambda>_. andThen (push_branch pb q dir sha) (\<lambda>_. set_publication pb q PS_PUSHED None))
      else ret r)"
    using assms(1) by (auto intro!: stored_rules stored_barrier stored_push stored_journal)
  have mid: "keeps (same_stored pulls) (if pr_state r' = PS_PUSHED then set_publication pb q PS_CREATING None else ret r')" for r'
    by (auto intro!: stored_rules stored_journal)
  show ?thesis unfolding publish_steps_def
    by (rule sole_after [OF early assms(2)], rule sole_after [OF mid], use assms(2) in simp,
        rule sole_after [OF stored_barrier [OF assms(1)]], use assms(2) in simp, rule last, use assms(2) in simp)
qed

lemma sole_adopted:
  assumes "honest_github pb pulls" "adopt_existing pb q w = (Inr (Some r), w')"
  shows "sole_record q pulls (Inr r, w')"
proof -
  from assms(2) obtain pr sha b w1 w2 w3 where m: "matching_pull_requests pb q w1 = (Inr [pr], w2)"
    and b: "begin_intent pb q (Some sha) PS_PENDING None w2 = (Inr b, w3)"
    and p: "record_published pb q pr sha w3 = (Inr r, w')"
    unfolding adopt_existing_def
    by (auto simp: ret_def raise_def lift_sum_apply elim!: andThen_InrE split: option.splits if_splits list.splits)
  have "task_pulls q (pulls (pw_remote w3)) = [pr]"
    using matching_stored [OF assms(1) m] keepsD [OF stored_journal(1), of pulls w2 pb q "Some sha" PS_PENDING None] b
    by (simp add: same_stored_def)
  then show ?thesis using sole_recorded [of q pulls w3 pr pb sha] p by simp
qed

lemma branch_sha_db: "branch_sha pb q w = (r, w') \<Longrightarrow> pw_db w' = pw_db w"
  using keepsD [OF steady_branch_sha, of w pb q] by (simp add: same_db_def)

lemma adopt_nothing: "adopt_existing pb q w = (Inr None, w') \<Longrightarrow> pw_db w' = pw_db w"
  unfolding adopt_existing_def
  by (auto simp: ret_def raise_def lift_sum_apply elim!: andThen_InrE matching_Inr dest!: listing_Inr branch_sha_db
      split: option.splits if_splits list.splits)

lemma steady_commit: "steady (commit_task_branch pb q dir)"
  unfolding commit_task_branch_def Let_def by (auto intro!: steady_rules steady_run_git)

definition unfinished :: "PublicationRequest \<Rightarrow> 'p pub_world \<Rightarrow> bool" where
  "unfinished q w \<longleftrightarrow> (case get_publication (pq_task_id q) (pw_db w) of
     None \<Rightarrow> True | Some r \<Rightarrow> pr_state r \<notin> {PS_PUBLISHED, PS_SKIPPED})"

lemma publish_failed_raises: "\<exists>e'. fst (publish_failed pb q e w) = Inl e'"
  by (auto simp: publish_failed_def andThen_def raise_def split: publisher_error.splits prod.splits sum.splits)

lemma sole_commit:
  assumes h: "honest_github pb pulls" and one: "length (task_pulls q (pulls (pw_remote w))) \<le> 1" and live: "unfinished q w"
  shows "sole_record q pulls (publish_commit pb q dir sha w)"
  unfolding publish_commit_def
proof (rule sole_after [where pulls = pulls, OF stored_journal(1) one])
  fix x w1
  assume b: "begin_intent pb q (Some sha) PS_PENDING None w = (Inr x, w1)"
    and same: "pulls (pw_remote w1) = pulls (pw_remote w)"
  obtain rec new where x: "x = (rec, new)" by fastforce
  have fresh: "pr_state rec \<noteq> PS_PUBLISHED"
    using begin_intent_row [OF b [unfolded x]] live by (cases new) (auto simp: unfinished_def)
  obtain ans w2 where s: "publish_steps pb q dir sha rec w1 = (ans, w2)" by fastforce
  then have "sole_record q pulls (ans, w2)" using sole_steps [OF h, of q w1 dir sha rec] one same by simp
  then have "sole_record q pulls (catch (publish_steps pb q dir sha rec) (publish_failed pb q) w1)"
    using s keepsD [OF stored_publish_failed, of pulls w2 pb q] publish_failed_raises [of pb q _ w2]
    by (cases ans) (auto simp: catch_def sole_record_def same_stored_def split: sum.splits, metis sum.distinct(1))
  then show "sole_record q pulls ((case x of (record, _) \<Rightarrow> if pr_state record = PS_PUBLISHED then ret record
       else catch (publish_steps pb q dir sha record) (publish_failed pb q)) w1)"
    using x fresh by simp
qed

lemma sole_changes:
  assumes h: "honest_github pb pulls" and one: "length (task_pulls q (pulls (pw_remote w))) \<le> 1" and live: "unfinished q w"
  shows "sole_record q pulls (publish_changes pb q dir w)"
  unfolding publish_changes_def
proof (rule sole_after [OF stored_adopt [OF h] one])
  fix ad w1
  assume ad: "adopt_existing pb q w = (Inr ad, w1)" and same: "pulls (pw_remote w1) = pulls (pw_remote w)"
  have rest: "sole_record q pulls (andThen (lift_sum (assert_not_base_branch q)) (\<lambda>_.
      andThen (commit_task_branch pb q d) (publish_commit pb q d)) w1)" if "ad = None" for d
  proof (rule sole_after [OF stored.keeps_lift_sum])
    show "length (task_pulls q (pulls (pw_remote w1))) \<le> 1" using one same by simp
    fix u w2
    assume "lift_sum (assert_not_base_branch q) w1 = (Inr u, w2)"
    then have w2: "w2 = w1" by (simp add: lift_sum_apply)
    show "sole_record q pulls (andThen (commit_task_branch pb q d) (publish_commit pb q d) w2)"
    proof (rule sole_after [OF stored_commit [OF h]])
      fix sha w3
      assume c: "commit_task_branch pb q d w2 = (Inr sha, w3)" and same3: "pulls (pw_remote w3) = pulls (pw_remote w2)"
      have "pw_db w3 = pw_db w" using keepsD [OF steady_commit, of w2 pb q d] c w2 adopt_nothing [of pb q w w1] ad that
        by (simp add: same_db_def)
      then show "sole_record q pulls (publish_commit pb q d sha w3)"
        using one same same3 w2 live by (intro sole_commit [OF h]) (simp_all add: unfinished_def)
    qed (use one same w2 in simp)
  qed
  show "sole_record q pulls ((case ad of None \<Rightarrow>
          (case dir of None \<Rightarrow> raise (PublicationError ''repo_dir is required to publish changes'')
           | Some dir \<Rightarrow> andThen (lift_sum (assert_not_base_branch q)) (\<lambda>_.
               andThen (commit_task_branch pb q dir) (publish_commit pb q dir)))
       | Some r \<Rightarrow> ret r) w1)"
    using ad same one rest sole_adopted [OF h, of q w _ w1]
    by (cases ad; cases dir) (auto simp: io_basic sole_record_def)
qed

text \<open>
  C6: At most one pull request per task.  Against a GitHub that stores pull requests as described, a task with at most
  one pull request that carries its marker has at most one after any run of \<open>publish\<close>, however the run
  ends and whether or not the answer to the request to create one was lost; and when the run returns a record for
  changes that were not published before, GitHub stores exactly one, which is the one recorded.
\<close>

theorem one_pull_request:
  assumes "honest_github pb pulls" "length (task_pulls q (pulls (pw_remote w))) \<le> 1"
    and "publish pb q dir w = (ans, w')"
  shows "length (task_pulls q (pulls (pw_remote w'))) \<le> 1 \<and>
     (case ans of Inl _ \<Rightarrow> True
      | Inr r \<Rightarrow> unfinished q w \<and> should_publish q \<longrightarrow>
          (\<exists>x. task_pulls q (pulls (pw_remote w')) = [x] \<and> pr_state r = PS_PUBLISHED \<and>
             pr_pr_number r = Some (rp_number x) \<and> pr_pr_url r = Some (rp_html_url x)))"
proof -
  let ?P = "\<lambda>out. length (task_pulls q (pulls (pw_remote (snd out)))) \<le> 1 \<and>
     (unfinished q w \<and> should_publish q \<longrightarrow> sole_record q pulls out)"
  have skip: "pulls (pw_remote (snd (record_skip pb q ex w))) = pulls (pw_remote w)" for ex
    using keepsD [OF stored_skip, of pulls w pb q ex] by (simp add: same_stored_def)
  have changes: "sole_record q pulls (publish_changes pb q dir w)" if "unfinished q w"
    using sole_changes [OF assms(1,2) that] .
  have "?P (publish pb q dir w)"
  proof (cases "unfinished q w")
    case True
    then show ?thesis
      by (intro publish_rule [where P = ?P])
        (use assms(2) changes skip in \<open>auto simp: unfinished_def sole_record_def\<close>)
  next
    case False
    then have "publish pb q dir w = (Inr (the (get_publication (pq_task_id q) (pw_db w))), w)"
      by (auto simp: unfinished_def publish_def andThen_reading io_basic split: option.splits if_splits)
    then show ?thesis using False assms(2) by simp
  qed
  then show ?thesis using assms(3) by (cases ans) (auto simp: sole_record_def)
qed

theorem one_pull_request_witness:
  "\<exists>r w' x. publish sample_publisher sample_request (Some ''d'') sample_pub_world = (Inr r, w') \<and>
     task_pulls sample_request (pw_remote w') = [x] \<and> pr_pr_number r = Some (rp_number x)"
proof -
  obtain r w' where p: "publish sample_publisher sample_request (Some ''d'') sample_pub_world = (Inr r, w')"
    using outcomeD [OF sample_published] by blast
  have h: "honest_github sample_publisher (\<lambda>p. p)"
  proof -
    have pull: "rp_title (sample_pull repo title body head base) = title" "rp_body (sample_pull repo title body head base) = body"
      "rp_head_ref (sample_pull repo title body head base) = head" "rp_base_ref (sample_pull repo title body head base) = base"
      for repo title body head base by (simp_all add: sample_pull_def)
    show ?thesis unfolding honest_github_def sample_publisher_def sample_gateway_def
      by (auto intro: exI [of _ "sample_pull _ _ _ _ _"] simp: pull)
  qed
  have "task_pulls sample_request (pw_remote sample_pub_world) = []" by (simp add: task_pulls_def sample_pub_world_def)
  moreover have "unfinished sample_request sample_pub_world" "should_publish sample_request" by code_simp+
  ultimately show ?thesis using one_pull_request [OF h _ p] p by auto
qed

end
