(* ===== verification/Pi_Publication.thy ===== *)
theory Pi_Publication
  imports Github
begin

text \<open>
  \<open>sandboxes/gg/server/task_supervisor/pi_publication.py\<close>: the command with which the agent inside a
  sandbox commits, pushes and opens or updates its draft pull request.  It keeps its identity in the table
  \<open>publication_intents\<close> of the sandbox database, whose payloads are JSON objects.  \<open>git\<close> and \<open>gh\<close> are
  functions from arguments to a completed process (or a timeout), \<open>json.loads\<close> is an argument of the
  \<open>gh\<close> adapter.  The trace lists the git commands, each with the intent stored at that moment, and
  the calls to the pull request client.  \<open>isdigit\<close> and \<open>lower\<close> are those of ASCII text.
\<close>

section \<open>World\<close>

datatype pi_error =
    PublicationError string
  | PublicationConflict string
  | PublicationTimeout string
  | NoChanges string
  | Pi_python_error string

record RemotePull =
  ru_number :: int
  ru_html_url :: string
  ru_draft :: bool
  ru_state :: string
  ru_title :: string
  ru_body :: string
  ru_head_ref :: string
  ru_base_ref :: string
  ru_head_sha :: string

type_synonym intent = "(string \<times> pyval) list"

datatype pi_call = Pi_git "string list" "intent option" | Pi_listed "RemotePull list" | Pi_create string | Pi_update int

record 'p pi_world =
  iw_intents :: "(string \<times> intent) list"
  iw_remote :: 'p
  iw_trace :: "pi_call list"

type_synonym ('p, 'a) pi_op = "('p pi_world, pi_error, 'a) io"

type_synonym environ = "(string \<times> string) list"

text \<open>The protocol \<open>PullRequestClient\<close>, and the environment of one run.\<close>

record 'p pull_client =
  pc_list :: "string \<Rightarrow> string \<Rightarrow> string \<Rightarrow> ('p, pi_error, RemotePull list) io"
  pc_create :: "string \<Rightarrow> string \<Rightarrow> string \<Rightarrow> string \<Rightarrow> string \<Rightarrow> ('p, pi_error, RemotePull) io"
  pc_update :: "string \<Rightarrow> int \<Rightarrow> string \<Rightarrow> string \<Rightarrow> ('p, pi_error, RemotePull) io"

record 'p pi_env =
  pi_git :: "string list \<Rightarrow> string \<Rightarrow> environ option \<Rightarrow> 'p \<Rightarrow> (string + completed_process) \<times> 'p"
  pi_client :: "'p pull_client"

text \<open>The identity every step carries along.\<close>

record pi_identity =
  pi_repository :: string
  pi_branch :: string
  pi_base :: string
  pi_marker :: string

definition pi_note :: "('p pi_world \<Rightarrow> pi_call) \<Rightarrow> ('p, unit) pi_op" where
  "pi_note c w = (Inr (), w\<lparr>iw_trace := iw_trace w @ [c w]\<rparr>)"

definition pi_remote :: "('p, pi_error, 'a) io \<Rightarrow> ('p, 'a) pi_op" where
  "pi_remote m w = (let (r, p) = m (iw_remote w) in (r, w\<lparr>iw_remote := p\<rparr>))"

section \<open>Texts\<close>

definition MARKER_PREFIX :: string where
  "MARKER_PREFIX = ''gg-task-marker:''"

definition marker_line :: "string \<Rightarrow> string" where
  "marker_line task_marker = MARKER_PREFIX @ '' '' @ task_marker"

text \<open>\<open>shlex.quote\<close> and \<open>shlex.join\<close>.\<close>

definition shell_safe :: "char \<Rightarrow> bool" where
  "shell_safe c \<longleftrightarrow> alnum c \<or> c \<in> set ''_@%+=:,./-''"

definition shlex_quote :: "string \<Rightarrow> string" where
  "shlex_quote s =
     (if s = [] then [CHR 0x27, CHR 0x27]
      else if list_all shell_safe s then s
      else [CHR 0x27] @ concat (map (\<lambda>c. if c = CHR 0x27 then [CHR 0x27, CHR 0x22, CHR 0x27, CHR 0x22, CHR 0x27] else [c]) s)
             @ [CHR 0x27])"

definition shlex_join :: "string list \<Rightarrow> string" where
  "shlex_join xs = join_words (map shlex_quote xs)"

definition publication_command :: "pi_identity \<Rightarrow> string \<Rightarrow> string" where
  "publication_command i state_db = shlex_join
     [''python'', ''-m'', ''gg.server.task_supervisor.pi_publication'', ''--repository'', pi_repository i,
      ''--branch'', pi_branch i, ''--base'', pi_base i, ''--marker'', pi_marker i, ''--state-db'', state_db]"

definition publication_instructions :: "pi_identity \<Rightarrow> string \<Rightarrow> string" where
  "publication_instructions i state_db =
     ''After you edit the repository and run the tests you can, commit on '' @
     ''branch `'' @ pi_branch i @ ''`, push it, and create or update one draft pull '' @
     ''request into `'' @ pi_base i @ ''` for `'' @ pi_repository i @ ''`. The persistent task '' @
     ''marker is `'' @ marker_line (pi_marker i) @ ''`. Look up an existing pull '' @
     ''request for this head, base, and marker before creating one, and look '' @
     ''again if the create response is lost. Do not open a second pull '' @
     ''request and do not merge.'' @ nl @ nl @
     ''Run this command from the repository. It commits, pushes, and '' @
     ''creates or updates the draft:'' @ nl @ nl @
     ''`'' @ publication_command i state_db @ ''`'' @ nl @ nl @
     ''Use only the GH_TOKEN already in this environment. Do not copy in '' @
     ''another GitHub token. Add `--check-outcome passed` to the command '' @
     ''if all checks you ran passed, or `--check-outcome failed` if any '' @
     ''failed. Omit it when no checks ran. Report the checks in your final '' @
     ''message. A finished conversation '' @
     ''is not evidence that CI passed.'' @ nl @ nl @
     ''Draft pull requests are merged manually on GitHub. Telling you not to '' @
     ''merge does not technically prevent a merge: this token can write, and '' @
     ''a write token can merge when the repository allows it. Do not run '' @
     ''`gh pr merge` or the merge API.''"

definition pi_title :: "pi_identity \<Rightarrow> string" where
  "pi_title i = ''gg-task '' @ pi_marker i"

definition pi_body :: "string \<Rightarrow> string \<Rightarrow> string \<Rightarrow> string" where
  "pi_body task_marker head_sha outcome =
     ''<!-- '' @ marker_line task_marker @ '' -->'' @ nl @ nl @
     ''- Head: `'' @ head_sha @ ''`'' @ nl @
     ''- Check outcome: `'' @ outcome @ ''`'' @ nl @ nl @
     ''Draft pull request. Merge manually on GitHub.'' @ nl @
     ''A prompt not to merge does not remove write permission from the token.'' @ nl"

section \<open>Intents\<close>

definition load_publication_intent :: "string \<Rightarrow> 'p pi_world \<Rightarrow> intent option" where
  "load_publication_intent task_marker w = map_of (iw_intents w) task_marker"

definition check_identity :: "intent \<Rightarrow> pi_identity \<Rightarrow> pi_error + unit" where
  "check_identity saved i =
     (if (map_of saved ''repository'', map_of saved ''task_branch'', map_of saved ''base_ref'', map_of saved ''task_marker'') \<noteq>
         (Some (PStr (pi_repository i)), Some (PStr (pi_branch i)), Some (PStr (pi_base i)), Some (PStr (pi_marker i)))
      then Inl (PublicationConflict ''existing publication identity does not match task'')
      else Inr ())"

definition assert_identity :: "pi_identity \<Rightarrow> ('p, unit) pi_op" where
  "assert_identity i =
     andThen (reading (load_publication_intent (pi_marker i))) (\<lambda>saved.
       case saved of None \<Rightarrow> ret () | Some s \<Rightarrow> lift_sum (check_identity s i))"

definition CHECK_OUTCOMES :: "string list" where
  "CHECK_OUTCOMES = [''passed'', ''failed'', ''not_run'']"

definition reported_check_outcome :: "pi_identity \<Rightarrow> ('p, string) pi_op" where
  "reported_check_outcome i =
     andThen (reading (load_publication_intent (pi_marker i))) (\<lambda>saved. case saved of
         None \<Rightarrow> ret ''not_run''
       | Some s \<Rightarrow>
           andThen (lift_sum (check_identity s i)) (\<lambda>_.
             case map_of s ''check_outcome'' of
               None \<Rightarrow> ret ''not_run''
             | Some (PStr reported) \<Rightarrow>
                 if reported \<in> set CHECK_OUTCOMES then ret reported
                 else raise (PublicationConflict ''invalid publication check outcome'')
             | Some _ \<Rightarrow> raise (PublicationConflict ''invalid publication check outcome'')))"

definition intent_payload :: "pi_identity \<Rightarrow> pyval \<Rightarrow> string \<Rightarrow> intent" where
  "intent_payload i commit_sha outcome =
     [(''repository'', PStr (pi_repository i)), (''task_branch'', PStr (pi_branch i)), (''base_ref'', PStr (pi_base i)),
      (''task_marker'', PStr (pi_marker i)), (''commit_sha'', commit_sha), (''check_outcome'', PStr outcome)]"

text \<open>One transaction: an identity that does not match leaves the table as it was.\<close>

definition write_intent :: "pi_identity \<Rightarrow> string option \<Rightarrow> string \<Rightarrow> ('p, unit) pi_op" where
  "write_intent i commit_sha outcome w =
     (let given = p_opt PStr commit_sha in
      case map_of (iw_intents w) (pi_marker i) of
        None \<Rightarrow> (Inr (), w\<lparr>iw_intents := dict_put (pi_marker i) (intent_payload i given outcome) (iw_intents w)\<rparr>)
      | Some saved \<Rightarrow>
          (case check_identity saved i of
             Inl e \<Rightarrow> (Inl e, w)
           | Inr _ \<Rightarrow>
               (let sha = (if commit_sha = None then coalesce_to (map_of saved ''commit_sha'') PNone else given)
                in (Inr (), w\<lparr>iw_intents := dict_put (pi_marker i) (intent_payload i sha outcome) (iw_intents w)\<rparr>))))"

section \<open>Git\<close>

definition pi_run_git ::
  "'p pi_env \<Rightarrow> string \<Rightarrow> string \<Rightarrow> string list \<Rightarrow> environ option \<Rightarrow> ('p, string) pi_op" where
  "pi_run_git env marker repo_dir args process_env =
     (if ''--force'' \<in> set args \<or> ''-f'' \<in> set args then raise (PublicationError ''force-push is not allowed'')
      else
        andThen (pi_note (\<lambda>w. Pi_git args (load_publication_intent marker w))) (\<lambda>_.
        andThen (pi_remote (\<lambda>p. case pi_git env (''git'' # args) repo_dir process_env p of
            (Inl exc, p') \<Rightarrow> (Inl (Pi_python_error exc), p') | (Inr c, p') \<Rightarrow> (Inr c, p'))) (\<lambda>c.
          if cp_returncode c \<noteq> 0
          then raise (PublicationError (''git '' @ join_words args @ '' failed: '' @
                 strip (if cp_stderr c \<noteq> [] then cp_stderr c else if cp_stdout c \<noteq> [] then cp_stdout c else ''git failed'')))
          else ret (strip (cp_stdout c)))))"

definition pi_commit_message :: "string \<Rightarrow> string" where
  "pi_commit_message task_marker =
     ''gg-task '' @ task_marker @ nl @ nl @ marker_line task_marker @ nl"

definition commit_if_needed :: "'p pi_env \<Rightarrow> string \<Rightarrow> string \<Rightarrow> environ option \<Rightarrow> ('p, unit) pi_op" where
  "commit_if_needed env repo_dir task_marker process_env =
     (let git = (\<lambda>args. pi_run_git env task_marker repo_dir args process_env) in
      andThen (git [''status'', ''--porcelain'']) (\<lambda>status.
        if status = [] then ret ()
        else andThen (git [''add'', ''-A'']) (\<lambda>_.
             andThen (git [''-c'', ''user.name=gg-task'', ''-c'', ''user.email=gg-task@users.noreply.github.com'',
               ''-c'', ''commit.gpgsign=false'', ''commit'', ''-m'', pi_commit_message task_marker]) (\<lambda>_. ret ()))))"

definition push_environment :: "environ option \<Rightarrow> environ option" where
  "push_environment process_env =
     (case process_env of
        None \<Rightarrow> None
      | Some e \<Rightarrow>
          Some (case map_of e ''GH_TOKEN'' of
             None \<Rightarrow> e
           | Some token \<Rightarrow>
               if token = [] then e
               else dict_put ''GIT_TERMINAL_PROMPT'' ''0''
                 (dict_put ''GIT_CONFIG_VALUE_0'' (''Authorization: Basic '' @ b64encode (''x-access-token:'' @ token))
                 (dict_put ''GIT_CONFIG_KEY_0'' ''http.https://github.com/.extraheader''
                 (dict_put ''GIT_CONFIG_COUNT'' ''1'' e)))))"

fun is_PublicationError :: "pi_error \<Rightarrow> bool" where
  "is_PublicationError (Pi_python_error _) = False"
| "is_PublicationError _ = True"

definition push_args :: "string \<Rightarrow> string \<Rightarrow> string list" where
  "push_args branch head = [''push'', ''--'', ''origin'', head @ '':refs/heads/'' @ branch]"

definition pi_push :: "'p pi_env \<Rightarrow> pi_identity \<Rightarrow> string \<Rightarrow> string \<Rightarrow> environ option \<Rightarrow> ('p, unit) pi_op" where
  "pi_push env i repo_dir head process_env =
     catch (andThen (pi_run_git env (pi_marker i) repo_dir (push_args (pi_branch i) head) (push_environment process_env))
              (\<lambda>_. ret ()))
       (\<lambda>e. if is_PublicationError e then raise (PublicationError ''git push failed'') else raise e)"

section \<open>Pull requests\<close>

definition list_pulls :: "'p pi_env \<Rightarrow> pi_identity \<Rightarrow> ('p, RemotePull list) pi_op" where
  "list_pulls env i =
     andThen (pi_remote (pc_list (pi_client env) (pi_repository i) (pi_branch i) (pi_base i))) (\<lambda>found.
     andThen (pi_note (\<lambda>_. Pi_listed found)) (\<lambda>_. ret found))"

definition pull_marked :: "pi_identity \<Rightarrow> RemotePull \<Rightarrow> bool" where
  "pull_marked i pr \<longleftrightarrow> contains (marker_line (pi_marker i)) (ru_body pr) \<or> contains (marker_line (pi_marker i)) (ru_title pr)"

definition matching :: "'p pi_env \<Rightarrow> pi_identity \<Rightarrow> ('p, RemotePull list) pi_op" where
  "matching env i = andThen (list_pulls env i) (\<lambda>found. ret (filter (pull_marked i) found))"

definition require_same_pull :: "pi_identity \<Rightarrow> string \<Rightarrow> RemotePull \<Rightarrow> pi_error + unit" where
  "require_same_pull i head_sha pull =
     (if ru_head_ref pull \<noteq> pi_branch i \<or> ru_base_ref pull \<noteq> pi_base i
      then Inl (PublicationConflict ''pull request head or base does not match'')
      else if ru_head_sha pull \<noteq> head_sha then Inl (PublicationConflict ''pull request head sha does not match'')
      else if \<not> ru_draft pull \<or> ru_state pull \<noteq> ''open''
      then Inl (PublicationConflict ''task pull request is not an open draft'')
      else Inr ())"

definition update_draft ::
  "'p pi_env \<Rightarrow> pi_identity \<Rightarrow> string \<Rightarrow> string \<Rightarrow> RemotePull \<Rightarrow> ('p, RemotePull) pi_op" where
  "update_draft env i head_sha body current =
     andThen (lift_sum (require_same_pull i head_sha current)) (\<lambda>_.
     andThen (pi_note (\<lambda>_. Pi_update (ru_number current))) (\<lambda>_.
     andThen (pi_remote (pc_update (pi_client env) (pi_repository i) (ru_number current) (pi_title i) body)) (\<lambda>updated.
     andThen (lift_sum (require_same_pull i head_sha updated)) (\<lambda>_. ret updated))))"

definition create_draft ::
  "'p pi_env \<Rightarrow> pi_identity \<Rightarrow> string \<Rightarrow> ('p, RemotePull) pi_op" where
  "create_draft env i body =
     andThen (pi_note (\<lambda>_. Pi_create (pi_repository i))) (\<lambda>_.
       pi_remote (pc_create (pi_client env) (pi_repository i) (pi_title i) body (pi_branch i) (pi_base i)))"

definition create_lost :: "'p pi_env \<Rightarrow> pi_identity \<Rightarrow> string \<Rightarrow> pi_error \<Rightarrow> ('p, RemotePull) pi_op" where
  "create_lost env i head_sha e =
     andThen (matching env i) (\<lambda>recovered. case recovered of
         [pr] \<Rightarrow> andThen (lift_sum (require_same_pull i head_sha pr)) (\<lambda>_. ret pr)
       | _ # _ # _ \<Rightarrow> raise (PublicationConflict ''multiple pull requests match after a create timeout'')
       | [] \<Rightarrow> raise e)"

definition open_draft :: "'p pi_env \<Rightarrow> pi_identity \<Rightarrow> string \<Rightarrow> string \<Rightarrow> ('p, RemotePull) pi_op" where
  "open_draft env i head_sha body =
     andThen (attempt (create_draft env i body)) (\<lambda>answer. case answer of
         Inl (PublicationTimeout m) \<Rightarrow> create_lost env i head_sha (PublicationTimeout m)
       | Inl e \<Rightarrow> raise e
       | Inr created \<Rightarrow>
           if \<not> ru_draft created then raise (PublicationError ''GitHub created a non-draft pull request'')
           else andThen (lift_sum (require_same_pull i head_sha created)) (\<lambda>_. ret created))"

definition open_or_update_draft :: "'p pi_env \<Rightarrow> pi_identity \<Rightarrow> string \<Rightarrow> string \<Rightarrow> ('p, RemotePull) pi_op" where
  "open_or_update_draft env i head_sha body =
     andThen (matching env i) (\<lambda>matched. case matched of
         _ # _ # _ \<Rightarrow> raise (PublicationConflict ''multiple pull requests match repository/head/base/task marker'')
       | [current] \<Rightarrow> update_draft env i head_sha body current
       | [] \<Rightarrow>
           andThen (list_pulls env i) (\<lambda>others.
             if others \<noteq> []
             then raise (PublicationConflict ''remote pull request exists for this head/base without this task marker'')
             else open_draft env i head_sha body))"

section \<open>The gh adapter\<close>

datatype gh_reply = Gh_timeout | Gh_raised string | Gh_done completed_process

text \<open>The exceptions of the language, in the type of this module.\<close>

definition as_pi :: "publisher_error + 'a \<Rightarrow> pi_error + 'a" where
  "as_pi x = (case x of Inr a \<Rightarrow> Inr a | Inl (Python_error m) \<Rightarrow> Inl (Pi_python_error m)
     | Inl _ \<Rightarrow> Inl (Pi_python_error ''Exception''))"

definition ascii_lower :: "string \<Rightarrow> string" where
  "ascii_lower s = map (\<lambda>c. if 65 \<le> (of_char c :: nat) \<and> (of_char c :: nat) \<le> 90 then char_of (of_char c + 32 :: nat) else c) s"

definition pull_from_gh :: "pyval \<Rightarrow> pi_error + RemotePull" where
  "pull_from_gh row = as_pi (
     sum_bind (py_get row ''state'') (\<lambda>state.
     sum_bind (sum_bind (subscript row ''number'') py_int) (\<lambda>number.
     sum_bind (py_get row ''url'') (\<lambda>url.
     sum_bind (py_get row ''isDraft'') (\<lambda>draft.
     sum_bind (py_get row ''title'') (\<lambda>title.
     sum_bind (py_get row ''body'') (\<lambda>body.
     sum_bind (py_get row ''headRefName'') (\<lambda>head_ref.
     sum_bind (py_get row ''baseRefName'') (\<lambda>base_ref.
     sum_bind (py_get row ''headRefOid'') (\<lambda>head_sha.
     Inr \<lparr>ru_number = number, ru_html_url = text_or_empty url,
          ru_draft = (case draft of None \<Rightarrow> False | Some v \<Rightarrow> py_bool v),
          ru_state = ascii_lower (py_str (value_or state (PStr ''open''))),
          ru_title = text_or_empty title, ru_body = text_or_empty body, ru_head_ref = text_or_empty head_ref,
          ru_base_ref = text_or_empty base_ref, ru_head_sha = text_or_empty head_sha\<rparr>))))))))))"

definition PULL_FIELDS :: string where
  "PULL_FIELDS = ''number,url,isDraft,state,title,body,headRefName,baseRefName,headRefOid''"

definition gh_call :: "(string list \<Rightarrow> 'p \<Rightarrow> gh_reply \<times> 'p) \<Rightarrow> string list \<Rightarrow> ('p, pi_error, string) io" where
  "gh_call gh args p = (case gh (''gh'' # args) p of
     (Gh_timeout, p') \<Rightarrow> (Inl (PublicationTimeout ''gh timed out''), p')
   | (Gh_raised exc, p') \<Rightarrow> (Inl (Pi_python_error exc), p')
   | (Gh_done c, p') \<Rightarrow>
       if cp_returncode c \<noteq> 0
       then (Inl (PublicationError (''gh '' @ join_words (take 2 args) @ '' failed: '' @
               strip (if cp_stderr c \<noteq> [] then cp_stderr c else if cp_stdout c \<noteq> [] then cp_stdout c else ''gh failed''))), p')
       else (Inr (cp_stdout c), p'))"

definition gh_owner :: "string \<Rightarrow> pi_error + (string \<times> string)" where
  "gh_owner repository = (case owner_repo repository of
     Inr x \<Rightarrow> Inr x
   | Inl _ \<Rightarrow> Inl (PublicationError (''repository must be 'owner/name', got '' @ py_repr repository)))"

definition loaded :: "(string \<Rightarrow> pyval option) \<Rightarrow> string \<Rightarrow> pi_error + pyval" where
  "loaded loads text = (case loads text of None \<Rightarrow> Inl (Pi_python_error ''JSONDecodeError'') | Some v \<Rightarrow> Inr v)"

text \<open>\<open>tuple(_pull_from_gh(row) for row in rows)\<close>; a JSON object yields its keys, which are no rows.\<close>

fun gh_rows :: "pyval list \<Rightarrow> pi_error + RemotePull list" where
  "gh_rows [] = Inr []"
| "gh_rows (v # vs) = sum_bind (pull_from_gh v) (\<lambda>p. sum_bind (gh_rows vs) (\<lambda>ps. Inr (p # ps)))"

fun iterate_rows :: "pyval \<Rightarrow> pi_error + RemotePull list" where
  "iterate_rows (PList rows) = gh_rows rows"
| "iterate_rows (PDict []) = Inr []"
| "iterate_rows (PDict (_ # _)) = Inl (Pi_python_error ''AttributeError'')"
| "iterate_rows (PStr []) = Inr []"
| "iterate_rows (PStr (_ # _)) = Inl (Pi_python_error ''AttributeError'')"
| "iterate_rows _ = Inl (Pi_python_error ''TypeError'')"

definition gh_list_pull_requests ::
  "(string list \<Rightarrow> 'p \<Rightarrow> gh_reply \<times> 'p) \<Rightarrow> (string \<Rightarrow> pyval option) \<Rightarrow> string \<Rightarrow> string \<Rightarrow> string \<Rightarrow>
   ('p, pi_error, RemotePull list) io" where
  "gh_list_pull_requests gh loads repository head base =
     andThen (lift_sum (gh_owner repository)) (\<lambda>(owner, _).
     andThen (gh_call gh [''pr'', ''list'', ''--repo'', repository, ''--head'', owner @ '':'' @ head, ''--base'', base,
        ''--state'', ''all'', ''--json'', PULL_FIELDS]) (\<lambda>payload.
     andThen (lift_sum (loaded loads (if payload = [] then ''[]'' else payload))) (\<lambda>rows. lift_sum (iterate_rows rows))))"

definition view_pull ::
  "(string list \<Rightarrow> 'p \<Rightarrow> gh_reply \<times> 'p) \<Rightarrow> (string \<Rightarrow> pyval option) \<Rightarrow> string \<Rightarrow> string \<Rightarrow>
   ('p, pi_error, RemotePull) io" where
  "view_pull gh loads repository number_or_url =
     andThen (gh_call gh [''pr'', ''view'', number_or_url, ''--repo'', repository, ''--json'', PULL_FIELDS]) (\<lambda>payload.
     andThen (lift_sum (loaded loads payload)) (\<lambda>row. lift_sum (pull_from_gh row)))"

definition gh_create_draft ::
  "(string list \<Rightarrow> 'p \<Rightarrow> gh_reply \<times> 'p) \<Rightarrow> (string \<Rightarrow> pyval option) \<Rightarrow> string \<Rightarrow> string \<Rightarrow> string \<Rightarrow> string \<Rightarrow> string \<Rightarrow>
   ('p, pi_error, RemotePull) io" where
  "gh_create_draft gh loads repository title body head base =
     andThen (gh_call gh [''pr'', ''create'', ''--repo'', repository, ''--draft'', ''--title'', title, ''--body'', body,
        ''--head'', head, ''--base'', base]) (\<lambda>text.
     (let url = strip text; start = ''https://github.com/'' @ repository @ ''/pull/'';
          rest = drop (length start) url
      in if \<not> prefix start url \<or> rest = [] \<or> \<not> list_all digit_char rest
         then raise (PublicationError ''gh pr create returned an invalid pull request URL'')
         else view_pull gh loads repository url))"

definition gh_update_pull ::
  "(string list \<Rightarrow> 'p \<Rightarrow> gh_reply \<times> 'p) \<Rightarrow> (string \<Rightarrow> pyval option) \<Rightarrow> string \<Rightarrow> int \<Rightarrow> string \<Rightarrow> string \<Rightarrow>
   ('p, pi_error, RemotePull) io" where
  "gh_update_pull gh loads repository number title body =
     andThen (gh_call gh [''pr'', ''edit'', show_int number, ''--repo'', repository, ''--title'', title, ''--body'', body])
       (\<lambda>_. view_pull gh loads repository (show_int number))"

definition gh_client ::
  "(string list \<Rightarrow> 'p \<Rightarrow> gh_reply \<times> 'p) \<Rightarrow> (string \<Rightarrow> pyval option) \<Rightarrow> 'p pull_client" where
  "gh_client gh loads = \<lparr>pc_list = gh_list_pull_requests gh loads, pc_create = gh_create_draft gh loads,
     pc_update = gh_update_pull gh loads\<rparr>"

section \<open>publish\_draft\<close>

definition publish_guard :: "pi_identity \<Rightarrow> string \<Rightarrow> pi_error + unit" where
  "publish_guard i outcome =
     (if pi_branch i = pi_base i \<or> prefix ''-'' (pi_branch i) \<or> contains ''..'' (pi_branch i)
      then Inl (PublicationError ''refusing to publish this branch'')
      else if outcome \<notin> set CHECK_OUTCOMES then Inl (PublicationError ''invalid check outcome'')
      else Inr ())"

definition publish_head ::
  "'p pi_env \<Rightarrow> pi_identity \<Rightarrow> string \<Rightarrow> environ option \<Rightarrow> string \<Rightarrow> string \<Rightarrow> ('p, RemotePull) pi_op" where
  "publish_head env i repo_dir process_env outcome head =
     andThen (write_intent i (Some head) outcome) (\<lambda>_.
     andThen (pi_push env i repo_dir head process_env) (\<lambda>_.
       open_or_update_draft env i head (pi_body (pi_marker i) head outcome)))"

definition publish_draft ::
  "'p pi_env \<Rightarrow> pi_identity \<Rightarrow> string \<Rightarrow> environ option \<Rightarrow> string \<Rightarrow> ('p, RemotePull) pi_op" where
  "publish_draft env i repo_dir process_env outcome =
     (let git = (\<lambda>args. pi_run_git env (pi_marker i) repo_dir args process_env) in
      andThen (lift_sum (publish_guard i outcome)) (\<lambda>_.
      andThen (assert_identity i) (\<lambda>_.
      andThen (write_intent i None outcome) (\<lambda>_.
      andThen (commit_if_needed env repo_dir (pi_marker i) process_env) (\<lambda>_.
      andThen (git [''rev-parse'', ''HEAD'']) (\<lambda>head.
      andThen (git [''rev-parse'', ''origin/'' @ pi_base i]) (\<lambda>base.
      andThen (git [''status'', ''--porcelain'']) (\<lambda>status.
        if head = base \<and> status = [] then raise (NoChanges ''no_changes'')
        else publish_head env i repo_dir process_env outcome head))))))))"

text \<open>\<open>main\<close> after its arguments are parsed: the exit status and what it prints.\<close>

definition pi_main ::
  "'p pi_env \<Rightarrow> pi_identity \<Rightarrow> string \<Rightarrow> environ \<Rightarrow> string \<Rightarrow> ('p, int \<times> string list) pi_op" where
  "pi_main env i repo_dir process_env outcome =
     catch (andThen (publish_draft env i repo_dir (Some process_env) outcome) (\<lambda>_. ret (0, [])))
       (\<lambda>e. case e of NoChanges _ \<Rightarrow> ret (0, [''no_changes'']) | _ \<Rightarrow> raise e)"

end
