(* ===== verification/Pi_Publication_Props.thy ===== *)
theory Pi_Publication_Props
  imports Pi_Publication
begin

text \<open>
  What the publication command of the agent guarantees: the shape of its effects, with the identity that is stored when
  the branch is pushed, the pull request it returns, and the refusal of a second identity for a marker.
\<close>

section \<open>Calls without effects on GitHub\<close>

fun calm_call :: "pi_call \<Rightarrow> bool" where
  "calm_call (Pi_git args _) = (hd args \<noteq> ''push'' \<and> ''--force'' \<notin> set args \<and> ''-f'' \<notin> set args)"
| "calm_call (Pi_listed _) = True"
| "calm_call _ = False"

definition calmer :: "'p pi_world \<Rightarrow> 'p pi_world \<Rightarrow> bool" where
  "calmer w w' \<longleftrightarrow> (\<exists>t. iw_trace w' = iw_trace w @ t \<and> list_all calm_call t)"

interpretation pi_calls: kept_relation calmer
proof
  show "calmer w w" for w :: "'p pi_world" by (simp add: calmer_def)
  show "calmer w w''" if "calmer w w'" "calmer w' w''" for w w' w'' :: "'p pi_world"
  proof -
    obtain t u where "iw_trace w' = iw_trace w @ t" "list_all calm_call t" "iw_trace w'' = iw_trace w' @ u" "list_all calm_call u"
      using \<open>calmer w w'\<close> \<open>calmer w' w''\<close> unfolding calmer_def by blast
    then show ?thesis by (auto simp: calmer_def)
  qed
qed

lemma calm_remote: "keeps calmer (pi_remote m)"
  by (auto simp: keeps_def calmer_def pi_remote_def split: prod.splits)

lemma calm_note: "(\<And>w. calm_call (c w)) \<Longrightarrow> keeps calmer (pi_note c)"
  by (simp add: keeps_def calmer_def pi_note_def)

lemma calm_write: "keeps calmer (write_intent i c oc)"
  by (auto simp: keeps_def calmer_def write_intent_def Let_def split: option.splits sum.splits)

lemmas calm_basics = pi_calls.keeps_rules calm_remote calm_note calm_write

lemma calm_git: "hd args \<noteq> ''push'' \<Longrightarrow> keeps calmer (pi_run_git env m dir args pe)"
  unfolding pi_run_git_def by (auto intro!: calm_basics)

lemma calm_commit: "keeps calmer (commit_if_needed env dir m pe)"
  unfolding commit_if_needed_def Let_def by (auto intro!: calm_basics calm_git)

lemma calm_identity: "keeps calmer (assert_identity i)"
  unfolding assert_identity_def by (auto intro!: calm_basics split: option.splits)

lemma calm_list: "keeps calmer (list_pulls env i)"
  unfolding list_pulls_def by (auto intro!: calm_basics)

lemma calm_matching: "keeps calmer (matching env i)"
  unfolding matching_def by (intro calm_basics calm_list)

lemma calm_lost: "keeps calmer (create_lost env i h e)"
  unfolding create_lost_def by (auto intro!: calm_basics calm_matching split: list.splits)

section \<open>Pull request calls\<close>

text \<open>At most one creation, after two listings without a match, or one update of the only match.\<close>

definition pull_calls :: "pi_identity \<Rightarrow> pi_call list \<Rightarrow> bool" where
  "pull_calls i t \<longleftrightarrow> list_all calm_call t \<or>
     (\<exists>found u. filter (pull_marked i) found = [] \<and> list_all calm_call u \<and>
        t = [Pi_listed found, Pi_listed [], Pi_create (pi_repository i)] @ u) \<or>
     (\<exists>found pr. filter (pull_marked i) found = [pr] \<and> t = [Pi_listed found, Pi_update (ru_number pr)])"

lemma list_pulls_cases:
  obtains (failed) e w1 where "list_pulls env i w = (Inl e, w1)" "iw_trace w1 = iw_trace w" "iw_intents w1 = iw_intents w"
  | (found) found w1 where "list_pulls env i w = (Inr found, w1)" "iw_trace w1 = iw_trace w @ [Pi_listed found]"
      "iw_intents w1 = iw_intents w"
  by (cases "pc_list (pi_client env) (pi_repository i) (pi_branch i) (pi_base i) (iw_remote w)";
      cases "fst (pc_list (pi_client env) (pi_repository i) (pi_branch i) (pi_base i) (iw_remote w))")
    (auto simp: list_pulls_def andThen_def pi_remote_def pi_note_def ret_def)

lemma update_draft_trace:
  "\<exists>t. iw_trace (snd (update_draft env i h body pr w)) = iw_trace w @ t \<and> t \<in> {[], [Pi_update (ru_number pr)]}"
  by (auto simp: update_draft_def andThen_def lift_sum_apply pi_note_def pi_remote_def ret_def
      split: sum.splits prod.splits)

lemma open_draft_trace:
  "\<exists>u. iw_trace (snd (open_draft env i h body w)) = iw_trace w @ Pi_create (pi_repository i) # u \<and> list_all calm_call u"
proof -
  obtain ans w1 where c: "create_draft env i body w = (ans, w1)" by fastforce
  then have t: "iw_trace w1 = iw_trace w @ [Pi_create (pi_repository i)]"
    by (auto simp: create_draft_def andThen_def pi_note_def pi_remote_def split: prod.splits)
  have rest: "keeps calmer (case ans of Inl (PublicationTimeout m) \<Rightarrow> create_lost env i h (PublicationTimeout m)
       | Inl e \<Rightarrow> raise e
       | Inr created \<Rightarrow>
           if \<not> ru_draft created then raise (PublicationError ''GitHub created a non-draft pull request'')
           else andThen (lift_sum (require_same_pull i h created)) (\<lambda>_. ret created))"
    by (auto intro!: calm_basics calm_lost split: sum.splits pi_error.splits)
  show ?thesis using keepsD [OF rest, of w1] t c
    by (auto simp: open_draft_def andThen_def attempt_def calmer_def)
qed

lemma open_or_update_trace:
  "\<exists>t. iw_trace (snd (open_or_update_draft env i h body w)) = iw_trace w @ t \<and> pull_calls i t"
proof (cases rule: list_pulls_cases [of env i w])
  case (failed e w1)
  then show ?thesis by (simp add: open_or_update_draft_def matching_def andThen_def pull_calls_def)
next
  case (found f w1)
  then have m: "matching env i w = (Inr (filter (pull_marked i) f), w1)" by (simp add: matching_def andThen_def ret_def)
  consider "filter (pull_marked i) f = []" | pr where "filter (pull_marked i) f = [pr]"
    | a b r where "filter (pull_marked i) f = a # b # r" by (metis list.exhaust)
  then show ?thesis
  proof cases
    case 1
    show ?thesis
    proof (cases rule: list_pulls_cases [of env i w1])
      case (failed e w2)
      then show ?thesis using found(2) 1
        by (simp add: open_or_update_draft_def andThen_Inr [of "matching env i" w, OF m]
            andThen_Inl [of "list_pulls env i" w1] pull_calls_def)
    next
      case (found others w2)
      then show ?thesis using \<open>iw_trace w1 = iw_trace w @ [Pi_listed f]\<close> 1 open_draft_trace [of env i h body w2]
        by (cases "others = []")
          (auto simp: open_or_update_draft_def andThen_Inr [of "matching env i" w, OF m] andThen_Inr [of "list_pulls env i" w1] raise_def pull_calls_def)
    qed
  next
    case (2 pr)
    then show ?thesis using found(2) update_draft_trace [of env i h body pr w1]
      by (auto simp: open_or_update_draft_def andThen_Inr [of "matching env i" w, OF m] pull_calls_def)
  next
    case 3
    then show ?thesis using found(2)
      by (simp add: open_or_update_draft_def andThen_Inr [of "matching env i" w, OF m] raise_def pull_calls_def)
  qed
qed

section \<open>The whole command\<close>

lemma write_intent_stored:
  "write_intent i (Some h) oc w = (Inr u, w') \<Longrightarrow>
   load_publication_intent (pi_marker i) w' = Some (intent_payload i (PStr h) oc) \<and> iw_trace w' = iw_trace w"
  by (auto simp: write_intent_def Let_def load_publication_intent_def map_of_dict_put p_opt_def split: option.splits sum.splits)

lemma pi_run_git_trace:
  "\<exists>t. iw_trace (snd (pi_run_git env m dir args pe w)) = iw_trace w @ t \<and>
     (t = [Pi_git args (load_publication_intent m w)] \<or> t = [] \<and> isl (fst (pi_run_git env m dir args pe w)))"
  by (auto simp: pi_run_git_def andThen_def pi_note_def pi_remote_def raise_def ret_def split: prod.splits sum.splits)

lemma pi_push_trace:
  "\<exists>t. iw_trace (snd (pi_push env i dir h pe w)) = iw_trace w @ t \<and>
     (t = [Pi_git (push_args (pi_branch i) h) (load_publication_intent (pi_marker i) w)] \<or>
      t = [] \<and> isl (fst (pi_push env i dir h pe w)))"
  using pi_run_git_trace [of env "pi_marker i" dir "push_args (pi_branch i) h" "push_environment pe" w]
  by (auto simp: pi_push_def catch_def andThen_def raise_def ret_def split: prod.splits sum.splits)

text \<open>The calls of one run: nothing, or a push of the recorded head followed by the pull request calls.\<close>

definition publication_calls :: "pi_identity \<Rightarrow> string \<Rightarrow> pi_call list \<Rightarrow> bool" where
  "publication_calls i oc t \<longleftrightarrow> list_all calm_call t \<or>
     (\<exists>a h u. list_all calm_call a \<and> pull_calls i u \<and>
        t = a @ [Pi_git (push_args (pi_branch i) h) (Some (intent_payload i (PStr h) oc))] @ u)"

lemma publish_head_trace:
  "\<exists>t. iw_trace (snd (publish_head env i dir pe oc h w)) = iw_trace w @ t \<and>
     (list_all calm_call t \<or> (\<exists>u. pull_calls i u \<and>
        t = Pi_git (push_args (pi_branch i) h) (Some (intent_payload i (PStr h) oc)) # u))"
proof (cases "write_intent i (Some h) oc w")
  case (Pair r w1)
  show ?thesis
  proof (cases r)
    case (Inl e)
    then show ?thesis using keepsD [OF calm_write, of w i "Some h" oc] Pair
      by (auto simp: publish_head_def andThen_def calmer_def)
  next
    case (Inr u)
    note st = write_intent_stored [OF Pair [unfolded Inr]]
    let ?c = "Pi_git (push_args (pi_branch i) h) (Some (intent_payload i (PStr h) oc))"
    obtain r2 w2 where p: "pi_push env i dir h pe w1 = (r2, w2)" by fastforce
    have t2: "iw_trace w2 = iw_trace w @ [?c] \<or> iw_trace w2 = iw_trace w \<and> isl r2"
      using pi_push_trace [of env i dir h pe w1] p st by auto
    have eq: "publish_head env i dir pe oc h w = andThen (pi_push env i dir h pe)
        (\<lambda>_. open_or_update_draft env i h (pi_body (pi_marker i) h oc)) w1"
      unfolding publish_head_def using Pair Inr by (simp add: andThen_Inr [of "write_intent i (Some h) oc" w])
    show ?thesis
    proof (cases r2)
      case (Inl e)
      then show ?thesis unfolding eq andThen_Inl [of "pi_push env i dir h pe" w1, OF p [unfolded Inl]]
        using t2 by (auto simp: pull_calls_def)
    next
      case (Inr u2)
      obtain t where "iw_trace (snd (open_or_update_draft env i h (pi_body (pi_marker i) h oc) w2)) = iw_trace w2 @ t" "pull_calls i t"
        using open_or_update_trace [of env i h "pi_body (pi_marker i) h oc" w2] by blast
      then show ?thesis unfolding eq andThen_Inr [of "pi_push env i dir h pe" w1, OF p [unfolded Inr]]
        using t2 Inr by auto
    qed
  qed
qed

text \<open>The publication calls after a calm beginning.\<close>

definition ends_calls :: "pi_identity \<Rightarrow> string \<Rightarrow> ('p, 'a) pi_op \<Rightarrow> bool" where
  "ends_calls i oc m \<longleftrightarrow> (\<forall>w. \<exists>t. iw_trace (snd (m w)) = iw_trace w @ t \<and> publication_calls i oc t)"

lemma ends_calm: "keeps calmer m \<Longrightarrow> ends_calls i oc m"
  by (auto simp: ends_calls_def keeps_def calmer_def publication_calls_def)

lemma ends_after:
  assumes "keeps calmer m" "\<And>x. ends_calls i oc (k x)"
  shows "ends_calls i oc (andThen m k)"
  unfolding ends_calls_def
proof
  fix w :: "'a pi_world"
  obtain r w1 where m: "m w = (r, w1)" by fastforce
  obtain t where t: "iw_trace w1 = iw_trace w @ t" "list_all calm_call t"
    using keepsD [OF assms(1), of w] m by (auto simp: calmer_def)
  show "\<exists>t. iw_trace (snd (andThen m k w)) = iw_trace w @ t \<and> publication_calls i oc t"
  proof (cases r)
    case (Inl e)
    then show ?thesis using m t by (auto simp: andThen_def publication_calls_def)
  next
    case (Inr x)
    obtain u where u: "iw_trace (snd (k x w1)) = iw_trace w1 @ u" "publication_calls i oc u"
      using assms(2) [of x] by (auto simp: ends_calls_def)
    have "publication_calls i oc (t @ u)"
      using u(2) t(2) unfolding publication_calls_def by (metis append_assoc list_all_append)
    then show ?thesis using m Inr t u by (intro exI [of _ "t @ u"]) (simp add: andThen_def)
  qed
qed

lemma ends_head: "ends_calls i oc (publish_head env i dir pe oc h)"
  unfolding ends_calls_def publication_calls_def
  using publish_head_trace [of env i dir pe oc h] by (metis append_Cons append_Nil list.pred_inject(1))

lemma ends_publish: "ends_calls i oc (publish_draft env i dir pe oc)"
  unfolding publish_draft_def Let_def
  by (intro ends_after calm_basics calm_identity calm_commit calm_git) (auto intro: ends_head ends_calm pi_calls.keeps_raise)

text \<open>
  C24: What the publication command of the agent does.  One run either has no effect on GitHub, or it pushes once and then
  creates at most one pull request, directly after a listing without one that carries the task marker and a listing without
  any for that head and base, or updates the only one with the marker.  At the moment of the push the sandbox database
  holds the task's identity and the commit that is pushed.  When the branch is the base branch, looks like a flag or
  contains two dots, or the check outcome is unknown, nothing happens at all.
\<close>

theorem pi_publish_effects:
  "\<exists>t. iw_trace (snd (publish_draft env i dir pe oc w)) = iw_trace w @ t \<and> publication_calls i oc t \<and>
     (t = [] \<or> publish_guard i oc = Inr ())"
proof -
  obtain t where t: "iw_trace (snd (publish_draft env i dir pe oc w)) = iw_trace w @ t" "publication_calls i oc t"
    using ends_publish [of i oc env dir pe] by (auto simp: ends_calls_def)
  have "publish_draft env i dir pe oc w = (Inl e, w)" if "publish_guard i oc = Inl e" for e
    unfolding publish_draft_def Let_def that
    by (rule andThen_Inl) (simp add: lift_sum_apply)
  then show ?thesis using t by (cases "publish_guard i oc") auto
qed

section \<open>Results\<close>

lemma update_draft_result: "update_draft env i h body pr w = (Inr pr', w') \<Longrightarrow> require_same_pull i h pr' = Inr ()"
  unfolding update_draft_def by (auto simp: lift_sum_apply ret_def elim!: andThen_InrE)

lemma open_draft_result: "open_draft env i h body w = (Inr pr', w') \<Longrightarrow> require_same_pull i h pr' = Inr ()"
  unfolding open_draft_def create_lost_def
  by (auto simp: lift_sum_apply ret_def raise_def elim!: andThen_InrE split: sum.splits pi_error.splits list.splits if_splits)

lemma open_or_update_result: "open_or_update_draft env i h body w = (Inr pr', w') \<Longrightarrow> require_same_pull i h pr' = Inr ()"
  unfolding open_or_update_draft_def
  by (auto simp: raise_def elim!: andThen_InrE dest!: open_draft_result update_draft_result split: list.splits if_splits)

definition same_intents :: "'p pi_world \<Rightarrow> 'p pi_world \<Rightarrow> bool" where
  "same_intents w w' \<longleftrightarrow> iw_intents w' = iw_intents w"

interpretation intents: kept_relation same_intents
  by unfold_locales (auto simp: same_intents_def)

lemma intents_basics: "keeps same_intents (pi_note c)" "keeps same_intents (pi_remote m)"
  by (auto simp: keeps_def same_intents_def pi_note_def pi_remote_def split: prod.splits)

lemmas intent_rules = intents.keeps_rules intents_basics

lemma intents_git: "keeps same_intents (pi_run_git env m dir args pe)"
  unfolding pi_run_git_def by (auto intro!: intent_rules)

lemma intents_push: "keeps same_intents (pi_push env i dir h pe)"
  unfolding pi_push_def by (auto intro!: intent_rules intents_git)

lemma intents_open: "keeps same_intents (open_or_update_draft env i h body)"
  unfolding open_or_update_draft_def matching_def list_pulls_def update_draft_def open_draft_def create_draft_def create_lost_def
  by (auto intro!: intent_rules split: list.splits sum.splits pi_error.splits)

lemma publish_head_result:
  assumes "publish_head env i dir pe oc h w = (Inr pr, w')"
  shows "require_same_pull i h pr = Inr () \<and> load_publication_intent (pi_marker i) w' = Some (intent_payload i (PStr h) oc)"
proof -
  obtain u w1 u2 w2 where a: "write_intent i (Some h) oc w = (Inr u, w1)" "pi_push env i dir h pe w1 = (Inr u2, w2)"
    "open_or_update_draft env i h (pi_body (pi_marker i) h oc) w2 = (Inr pr, w')"
    using assms unfolding publish_head_def by (elim andThen_InrE)
  have "iw_intents w' = iw_intents w1"
    using keepsD [OF intents_push, of w1] keepsD [OF intents_open, of w2] a(2,3) by (metis same_intents_def snd_conv)
  then show ?thesis using write_intent_stored [OF a(1)] open_or_update_result [OF a(3)]
    by (simp add: load_publication_intent_def)
qed

text \<open>
  The result of the publication command.  A pull request it returns is an open draft from the task branch into the base
  branch, its head is the commit recorded in the sandbox database, and the database holds the identity it was published
  under.  A marker is bound to one identity: with another repository, branch or base the command is refused and changes
  nothing.
\<close>

lemma pi_publish_result:
  "(case fst (publish_draft env i dir pe oc w) of Inl _ \<Rightarrow> True
    | Inr pr \<Rightarrow> ru_head_ref pr = pi_branch i \<and> ru_base_ref pr = pi_base i \<and> ru_draft pr \<and> ru_state pr = ''open'' \<and>
        load_publication_intent (pi_marker i) (snd (publish_draft env i dir pe oc w)) =
          Some (intent_payload i (PStr (ru_head_sha pr)) oc)) \<and>
   (case load_publication_intent (pi_marker i) w of None \<Rightarrow> True
    | Some saved \<Rightarrow> check_identity saved i = Inr () \<or>
        (\<exists>e. publish_draft env i dir pe oc w = (Inl e, w)))"
proof
  have goods: "ru_head_ref pr = pi_branch i \<and> ru_base_ref pr = pi_base i \<and> ru_draft pr \<and> ru_state pr = ''open'' \<and>
      load_publication_intent (pi_marker i) w' = Some (intent_payload i (PStr (ru_head_sha pr)) oc)"
    if eq: "publish_draft env i dir pe oc w = (Inr pr, w')" for pr w'
  proof -
    obtain h w1 where h: "publish_head env i dir pe oc h w1 = (Inr pr, w')"
      using eq unfolding publish_draft_def Let_def by (auto simp: raise_def elim!: andThen_InrE split: if_splits)
    show ?thesis using publish_head_result [OF h] by (auto simp: require_same_pull_def split: if_splits)
  qed
  show "case fst (publish_draft env i dir pe oc w) of Inl _ \<Rightarrow> True
    | Inr pr \<Rightarrow> ru_head_ref pr = pi_branch i \<and> ru_base_ref pr = pi_base i \<and> ru_draft pr \<and> ru_state pr = ''open'' \<and>
        load_publication_intent (pi_marker i) (snd (publish_draft env i dir pe oc w)) =
          Some (intent_payload i (PStr (ru_head_sha pr)) oc)"
    using goods by (cases "publish_draft env i dir pe oc w") (auto split: sum.splits)
  show "case load_publication_intent (pi_marker i) w of None \<Rightarrow> True
    | Some saved \<Rightarrow> check_identity saved i = Inr () \<or> (\<exists>e. publish_draft env i dir pe oc w = (Inl e, w))"
    by (cases "publish_guard i oc"; cases "load_publication_intent (pi_marker i) w")
      (auto simp: publish_draft_def Let_def andThen_def lift_sum_apply assert_identity_def reading_def split: sum.splits)
qed

end
