(* ===== verification/Pi_Agent.thy ===== *)
theory Pi_Agent
  imports Github
begin

text \<open>
  \<open>sandboxes/gg/server/agent/pi_agent.py\<close>: one turn of the Pi process over its JSON-lines protocol.  The
  bytes Pi writes arrive in chunks; \<open>read_stdout\<close> turns them into the items of the message queue and
  \<open>consume\<close> works them off.  What happens around the consumer (a request for cancellation, a steering or
  abort command that starts to wait for its answer, the deadline) is part of the sequence of inputs it sees.
  \<open>json.loads\<close> is an argument, processes answer \<open>poll\<close> and \<open>wait\<close> from a list.  Spans, tool
  timings and their counters feed only the telemetry and are left out; the emitter and the listener do not fail.
\<close>

section \<open>Texts\<close>

text \<open>\<open>bytes.decode(errors="replace")\<close>: each maximal ill-formed part becomes one U+FFFD.\<close>

definition byte_in :: "nat \<Rightarrow> nat \<Rightarrow> string \<Rightarrow> nat \<Rightarrow> bool" where
  "byte_in lo hi s k \<longleftrightarrow> k < length s \<and> lo \<le> (of_char (s ! k) :: nat) \<and> (of_char (s ! k) :: nat) \<le> hi"

text \<open>Length of the well-formed sequence a text begins with (first component), or of its ill-formed part.\<close>

definition utf8_head :: "string \<Rightarrow> bool \<times> nat" where
  "utf8_head s =
     (let b = of_char (hd s) :: nat;
          (lo, hi) = (if b = 0xE0 then (0xA0, 0xBF) else if b = 0xED then (0x80, 0x9F) else if b = 0xF0 then (0x90, 0xBF)
                      else if b = 0xF4 then (0x80, 0x8F) else (0x80, 0xBF))
      in if b < 0x80 then (True, 1)
         else if 0xC2 \<le> b \<and> b \<le> 0xDF then (if byte_in lo hi s 1 then (True, 2) else (False, 1))
         else if 0xE0 \<le> b \<and> b \<le> 0xEF
         then (if \<not> byte_in lo hi s 1 then (False, 1) else if \<not> byte_in 0x80 0xBF s 2 then (False, 2) else (True, 3))
         else if 0xF0 \<le> b \<and> b \<le> 0xF4
         then (if \<not> byte_in lo hi s 1 then (False, 1) else if \<not> byte_in 0x80 0xBF s 2 then (False, 2)
               else if \<not> byte_in 0x80 0xBF s 3 then (False, 3) else (True, 4))
         else (False, 1))"

function utf8_replace :: "string \<Rightarrow> string" where
  "utf8_replace s =
     (if s = [] then []
      else (let (ok, n) = utf8_head s in
            (if ok then take n s else [CHR 0xEF, CHR 0xBF, CHR 0xBD]) @ utf8_replace (drop (max 1 n) s)))"
  by pat_completeness auto
termination by (relation "measure length") auto

declare utf8_replace.simps [simp del]

text \<open>
  \<open>str.lower\<close> as far as it can produce ASCII letters: those of ASCII capitals, of the Kelvin sign, and of the
  capital I with a dot.
\<close>

fun py_lower :: "string \<Rightarrow> string" where
  "py_lower [] = []"
| "py_lower (c # s) =
     (let n = of_char c :: nat in
      if 65 \<le> n \<and> n \<le> 90 then char_of (n + 32) # py_lower s
      else if n = 0xE2 \<and> take 2 s = [CHR 0x84, CHR 0xAA] then CHR ''k'' # py_lower (drop 2 s)
      else if n = 0xC4 \<and> take 1 s = [CHR 0xB0] then [CHR ''i'', CHR 0xCC, CHR 0x87] @ py_lower (drop 1 s)
      else c # py_lower s)"

text \<open>\<open>" ".join(text.split())\<close>.\<close>

function split_words :: "string \<Rightarrow> string \<Rightarrow> string list" where
  "split_words acc s =
     (if s = [] then (if acc = [] then [] else [rev acc])
      else if space_prefix (\<lambda>x. x) s = 0 then split_words (hd s # acc) (tl s)
      else (if acc = [] then [] else [rev acc]) @ split_words [] (drop (space_prefix (\<lambda>x. x) s) s))"
  by pat_completeness auto
termination by (relation "measure (length \<circ> snd)") auto

declare split_words.simps [simp del]

text \<open>
  The pattern \<open>(?i)(api[_-]?key\s*[:=]\s*)\S+\<close>: letters match in both cases, the i also as the dotless
  and the dotted capital I, the k also as the Kelvin sign.
\<close>

definition match_letter :: "char \<Rightarrow> string \<Rightarrow> nat" where
  "match_letter c s =
     (if s \<noteq> [] \<and> (hd s = c \<or> of_char (hd s) + 32 = (of_char c :: nat)) then 1
      else if c = CHR ''i'' \<and> take 2 s \<in> {[CHR 0xC4, CHR 0xB0], [CHR 0xC4, CHR 0xB1]} then 2
      else if c = CHR ''k'' \<and> take 3 s = [CHR 0xE2, CHR 0x84, CHR 0xAA] then 3
      else 0)"

fun match_letters :: "string \<Rightarrow> string \<Rightarrow> string option" where
  "match_letters [] s = Some s"
| "match_letters (c # cs) s = (let n = match_letter c s in if n = 0 then None else match_letters cs (drop n s))"

definition after_key_word :: "string \<Rightarrow> string option" where
  "after_key_word s =
     (case match_letters ''api'' s of
        None \<Rightarrow> None
      | Some r \<Rightarrow> match_letters ''key'' (if r \<noteq> [] \<and> hd r \<in> set ''_-'' then tl r else r))"

text \<open>The text after \<open>api key =\<close> and spaces, if the pattern matches here.\<close>

definition key_match :: "string \<Rightarrow> string option" where
  "key_match s =
     (case after_key_word s of
        None \<Rightarrow> None
      | Some r \<Rightarrow>
          (let r = drop_spaces (\<lambda>x. x) r in
           if r = [] \<or> hd r \<notin> set '':='' then None
           else (let v = drop_spaces (\<lambda>x. x) (tl r) in if v = [] then None else Some v)))"

lemma match_letters_shorter: "match_letters cs s = Some r \<Longrightarrow> length r \<le> length s"
  by (induction cs arbitrary: s) (force simp: Let_def split: if_splits dest!: Suc_leD)+

lemma key_match_shorter:
  assumes "key_match s = Some v"
  shows "length v < length s"
proof -
  obtain r where r: "after_key_word s = Some r" and v: "drop_spaces (\<lambda>x. x) r \<noteq> []"
      "v = drop_spaces (\<lambda>x. x) (tl (drop_spaces (\<lambda>x. x) r))"
    using assms by (auto simp: key_match_def Let_def split: option.splits if_splits)
  obtain r1 where r1: "match_letters ''api'' s = Some r1" "match_letters ''key'' (if r1 \<noteq> [] \<and> hd r1 \<in> set ''_-'' then tl r1 else r1) = Some r"
    using r by (auto simp: after_key_word_def split: option.splits)
  have "length r \<le> length r1" using match_letters_shorter [OF r1(2)] by (auto split: if_splits)
  moreover have "length r1 \<le> length s" using match_letters_shorter [OF r1(1)] .
  moreover have "length v < length r"
  proof -
    have "length v \<le> length (tl (drop_spaces (\<lambda>x. x) r))" unfolding v by (rule length_drop_spaces)
    also have "\<dots> < length (drop_spaces (\<lambda>x. x) r)" using v(1) by (cases "drop_spaces (\<lambda>x. x) r") auto
    also have "\<dots> \<le> length r" by (rule length_drop_spaces)
    finally show ?thesis .
  qed
  ultimately show ?thesis by simp
qed

function mask_keys :: "string \<Rightarrow> string" where
  "mask_keys s =
     (if s = [] then []
      else case key_match s of
        None \<Rightarrow> hd s # mask_keys (tl s)
      | Some v \<Rightarrow> take (length s - length v) s @ REDACTED @ mask_keys (drop (length (first_word v)) v))"
  by pat_completeness auto
termination
  by (relation "measure length") (auto dest: key_match_shorter)

declare mask_keys.simps [simp del]

text \<open>\<open>value.replace(api_key, ...)\<close> of a key that is not empty, the pattern, and at most 2000 characters.\<close>

definition sanitize :: "string \<Rightarrow> string \<Rightarrow> string" where
  "sanitize value api_key =
     take_points 2000 (join_words (split_words [] (mask_keys (replace_str api_key REDACTED value))))"

definition provider_error :: "string \<Rightarrow> string option" where
  "provider_error detail =
     (let lowered = py_lower detail; has = (\<lambda>ws. list_ex (\<lambda>w. contains w lowered) ws) in
      if has [''unauthorized'', ''invalid api key'', ''401'']
      then Some ''OpenRouter authentication failed; update the personal key and retry''
      else if has [''insufficient'', ''credits'', ''balance'', ''402'']
      then Some ''OpenRouter balance is insufficient; add credit and retry''
      else if has [''rate limit'', ''too many requests'', ''429'']
      then Some ''OpenRouter rate limit reached; retry later''
      else None)"

section \<open>Environment, capture and framing\<close>

definition pi_process_env :: "(string \<times> string) list \<Rightarrow> string option \<Rightarrow> (string \<times> string) list" where
  "pi_process_env environ github_token =
     (let env = fold dict_pop [''GH_TOKEN'', ''GITHUB_TOKEN'', ''GG_GITHUB_CLONE_TOKEN'',
            ''LOGFIRE_TOKEN'', ''LOGFIRE_API_KEY'', ''OTEL_EXPORTER_OTLP_HEADERS''] environ
      in case github_token of
           None \<Rightarrow> env
         | Some token \<Rightarrow>
             if token = [] then env
             else dict_put ''GIT_CONFIG_VALUE_0'' ''!gh auth git-credential''
               (dict_put ''GIT_CONFIG_KEY_0'' ''credential.https://github.com.helper''
               (dict_put ''GIT_CONFIG_COUNT'' ''1'' (dict_put ''GH_TOKEN'' token env))))"

definition STDERR_LIMIT :: nat where
  "STDERR_LIMIT = 16 * 1024"

definition capture_append :: "nat \<Rightarrow> string \<Rightarrow> string \<Rightarrow> string" where
  "capture_append limit held chunk = (let held = held @ chunk in drop (length held - limit) held)"

definition drain_stderr :: "string list \<Rightarrow> string" where
  "drain_stderr chunks = foldl (capture_append STDERR_LIMIT) [] chunks"

definition STDOUT_RECORD_LIMIT :: nat where
  "STDOUT_RECORD_LIMIT = 1024 * 1024"

type_synonym frame = "(string \<times> pyval) list"

datatype item = Frame frame | Protocol_failure string | Eof

definition decode_record :: "(string \<Rightarrow> pyval option) \<Rightarrow> string \<Rightarrow> string + frame" where
  "decode_record loads record =
     (if \<not> valid_utf8 record then Inl ''Pi emitted malformed JSONL''
      else case loads record of
        None \<Rightarrow> Inl ''Pi emitted malformed JSONL''
      | Some (PDict d) \<Rightarrow> Inr d
      | Some _ \<Rightarrow> Inl ''Pi emitted a non-object JSON message'')"

definition strip_cr :: "string \<Rightarrow> string" where
  "strip_cr r = (if r \<noteq> [] \<and> last r = CHR 0x0D then butlast r else r)"

text \<open>The inner loop: the records of a buffer, and the failure or the bytes left over.\<close>

function drain_buffer :: "(string \<Rightarrow> pyval option) \<Rightarrow> string \<Rightarrow> frame list \<times> (string + string)" where
  "drain_buffer loads buffer =
     (if CHR 0x0A \<notin> set buffer
      then ([], if STDOUT_RECORD_LIMIT < length buffer then Inl ''Pi JSONL record is too large'' else Inr buffer)
      else (let record = takeWhile (\<lambda>c. c \<noteq> CHR 0x0A) buffer; rest = tl (dropWhile (\<lambda>c. c \<noteq> CHR 0x0A) buffer)
            in case decode_record loads (strip_cr record) of
                 Inl e \<Rightarrow> ([], Inl e)
               | Inr d \<Rightarrow> (let (ds, r) = drain_buffer loads rest in (d # ds, r))))"
  by pat_completeness auto
termination
proof (relation "measure (length \<circ> snd)")
  fix loads :: "string \<Rightarrow> pyval option" and buffer rest :: string
  assume "\<not> CHR 0x0A \<notin> set buffer" and rest: "rest = tl (dropWhile (\<lambda>c. c \<noteq> CHR 0x0A) buffer)"
  then have "buffer \<noteq> []" by auto
  moreover have "length (dropWhile (\<lambda>c. c \<noteq> CHR 0x0A) buffer) \<le> length buffer" by (rule length_dropWhile_le)
  ultimately have "length rest < length buffer" unfolding rest by (cases buffer) auto
  then show "((loads, rest), (loads, buffer)) \<in> measure (length \<circ> snd)" by simp
qed simp

declare drain_buffer.simps [simp del]

fun read_chunks :: "(string \<Rightarrow> pyval option) \<Rightarrow> string \<Rightarrow> string list \<Rightarrow> bool \<Rightarrow> item list" where
  "read_chunks loads buffer [] broken =
     (if broken then [Protocol_failure ''Pi stdout could not be read'']
      else if buffer \<noteq> [] then [Protocol_failure ''Pi emitted an unterminated JSONL record'']
      else [])"
| "read_chunks loads buffer (chunk # chunks) broken =
     (let (ds, r) = drain_buffer loads (buffer @ chunk)
      in map Frame ds @ (case r of Inl e \<Rightarrow> [Protocol_failure e] | Inr rest \<Rightarrow> read_chunks loads rest chunks broken))"

text \<open>\<open>broken\<close>: reading ends with an \<open>OSError\<close> instead of the end of the stream.\<close>

definition read_stdout :: "(string \<Rightarrow> pyval option) \<Rightarrow> string list option \<Rightarrow> bool \<Rightarrow> item list" where
  "read_stdout loads stdout broken =
     (case stdout of
        None \<Rightarrow> [Protocol_failure ''Pi stdout is unavailable'', Eof]
      | Some chunks \<Rightarrow> read_chunks loads [] chunks broken @ [Eof])"

section \<open>The agent\<close>

text \<open>
  The shared state: whether a turn is active and owns a process, the waiters of control commands (each a queue of at most
  one response), the cancellation flag, how often the settling listener's turn came (it is called if there is one), and
  the events emitted.
\<close>

record PiRpcAgent =
  pa_active :: bool
  pa_process :: bool
  pa_pending :: "(string \<times> frame option) list"
  pa_cancel_requested :: bool
  pa_listener_calls :: nat
  pa_emitted :: "(EventKind \<times> frame) list"

type_synonym 'a agent_op = "(PiRpcAgent, sandbox_error, 'a) io"

definition new_agent :: PiRpcAgent where
  "new_agent = \<lparr>pa_active = False, pa_process = False, pa_pending = [], pa_cancel_requested = False,
     pa_listener_calls = 0, pa_emitted = []\<rparr>"

definition AgentStartupError :: "string \<Rightarrow> sandbox_error" where
  "AgentStartupError m = AgentError ''agent_startup_error'' m"

definition AgentPromptError :: "string \<Rightarrow> sandbox_error" where
  "AgentPromptError m = AgentError ''agent_prompt_error'' m"

definition AgentProtocolError :: "string \<Rightarrow> sandbox_error" where
  "AgentProtocolError m = AgentError ''agent_protocol_error'' m"

definition AgentProcessError :: "string \<Rightarrow> sandbox_error" where
  "AgentProcessError m = AgentError ''agent_process_error'' m"

definition AgentTimeoutError :: "string \<Rightarrow> sandbox_error" where
  "AgentTimeoutError m = AgentError ''agent_timeout_error'' m"

definition emit :: "EventKind \<Rightarrow> frame \<Rightarrow> unit agent_op" where
  "emit k p s = (Inr (), s\<lparr>pa_emitted := pa_emitted s @ [(k, p)]\<rparr>)"

definition mark_settling :: "PiRpcAgent \<Rightarrow> PiRpcAgent" where
  "mark_settling s = (if \<not> pa_active s then s
     else s\<lparr>pa_listener_calls := pa_listener_calls s + 1, pa_active := False\<rparr>)"

section \<open>Frames\<close>

definition mapping_field :: "frame \<Rightarrow> string \<Rightarrow> sandbox_error + frame" where
  "mapping_field message name =
     (case map_of message name of Some (PDict d) \<Rightarrow> Inr d
      | _ \<Rightarrow> Inl (AgentProtocolError (''Pi message has invalid '' @ name)))"

definition string_field :: "frame \<Rightarrow> string \<Rightarrow> sandbox_error + string" where
  "string_field message name =
     (case map_of message name of Some (PStr s) \<Rightarrow> Inr s
      | _ \<Rightarrow> Inl (AgentProtocolError (''Pi message has invalid '' @ name)))"

fun text_blocks :: "pyval list \<Rightarrow> sandbox_error + string list" where
  "text_blocks [] = Inr []"
| "text_blocks (PDict block # rest) =
     (if map_of block ''type'' = Some (PStr ''text'')
      then (case map_of block ''text'' of
              Some (PStr t) \<Rightarrow> sum_bind (text_blocks rest) (\<lambda>ts. Inr (t # ts))
            | _ \<Rightarrow> Inl (AgentProtocolError ''Pi assistant text block is invalid''))
      else text_blocks rest)"
| "text_blocks (_ # rest) = Inl (AgentProtocolError ''Pi assistant content block is not an object'')"

definition assistant_text :: "frame \<Rightarrow> sandbox_error + string" where
  "assistant_text message =
     (case map_of message ''content'' of
        Some (PStr s) \<Rightarrow> Inr s
      | Some (PList blocks) \<Rightarrow> sum_bind (text_blocks blocks) (\<lambda>parts. Inr (concat parts))
      | _ \<Rightarrow> Inl (AgentProtocolError ''Pi assistant message has invalid content''))"

definition field_or_none :: "frame \<Rightarrow> string \<Rightarrow> pyval" where
  "field_or_none message name = coalesce_to (map_of message name) PNone"

definition redact_frame :: "string \<Rightarrow> frame \<Rightarrow> frame" where
  "redact_frame api_key message =
     (case redact_secret api_key (PDict message) of PDict d \<Rightarrow> d | _ \<Rightarrow> [])"

definition assistant_failure :: "string \<Rightarrow> frame \<Rightarrow> sandbox_error" where
  "assistant_failure api_key completed =
     (let detail = sanitize (py_str (coalesce_to (map_of completed ''errorMessage'') (PStr []))) api_key
      in AgentProcessError (case provider_error detail of
           Some m \<Rightarrow> m
         | None \<Rightarrow> ''Pi assistant failed'' @ (if detail = [] then [] else '': '' @ detail)))"

definition translate_event :: "string \<Rightarrow> frame \<Rightarrow> unit agent_op" where
  "translate_event api_key raw =
     (let message = redact_frame api_key raw; kind = map_of message ''type'' in
      if kind = Some (PStr ''message_end'')
      then andThen (lift_sum (mapping_field message ''message'')) (\<lambda>completed.
             if map_of completed ''role'' \<noteq> Some (PStr ''assistant'') then ret ()
             else if map_of completed ''stopReason'' = Some (PStr ''error'')
             then raise (assistant_failure api_key completed)
             else andThen (lift_sum (assistant_text completed)) (\<lambda>text.
                  emit EK_MESSAGE [(''role'', PStr ''assistant''), (''text'', PStr text)]))
      else if kind = Some (PStr ''tool_execution_start'')
      then andThen (lift_sum (string_field message ''toolCallId'')) (\<lambda>tool_call_id.
           andThen (lift_sum (string_field message ''toolName'')) (\<lambda>tool.
             emit EK_ACTION [(''tool_call_id'', PStr tool_call_id), (''tool'', PStr tool),
               (''args'', field_or_none message ''args'')]))
      else if kind = Some (PStr ''tool_execution_end'')
      then (case map_of message ''isError'' of
              Some (PBool is_error) \<Rightarrow>
                andThen (lift_sum (string_field message ''toolCallId'')) (\<lambda>tool_call_id.
                andThen (lift_sum (string_field message ''toolName'')) (\<lambda>tool.
                  emit EK_OBSERVATION [(''tool_call_id'', PStr tool_call_id), (''tool'', PStr tool),
                    (''result'', field_or_none message ''result''), (''is_error'', PBool is_error)]))
            | _ \<Rightarrow> raise (AgentProtocolError ''Pi tool result has invalid isError''))
      else ret ())"

section \<open>Control commands\<close>

definition route_control_response :: "frame \<Rightarrow> bool agent_op" where
  "route_control_response response s =
     (case map_of response ''id'' of
        Some (PStr i) \<Rightarrow>
          (case map_of (pa_pending s) i of
             None \<Rightarrow> (Inr False, s)
           | Some None \<Rightarrow> (Inr True, s\<lparr>pa_pending := dict_put i (Some response) (pa_pending s)\<rparr>)
           | Some (Some _) \<Rightarrow> (Inr True, s))
      | _ \<Rightarrow> (Inr False, s))"

definition control_response :: "frame \<Rightarrow> string \<Rightarrow> sandbox_error + bool \<times> string option" where
  "control_response response command =
     (if map_of response ''command'' \<noteq> Some (PStr command)
      then Inl (AgentProtocolError (''Pi returned a different command for '' @ command))
      else if map_of response ''success'' = Some (PBool True) then Inr (True, None)
      else Inr (False, Some (''Pi rejected '' @ command)))"

definition pop_pending :: "string \<Rightarrow> PiRpcAgent \<Rightarrow> PiRpcAgent" where
  "pop_pending i s = s\<lparr>pa_pending := dict_pop i (pa_pending s)\<rparr>"

text \<open>\<open>_send\<close>: whether stdin exists and whether the write succeeds.\<close>

definition send_command :: "bool \<Rightarrow> bool \<Rightarrow> unit agent_op" where
  "send_command has_stdin writable =
     (if \<not> has_stdin then raise (AgentProcessError ''Pi stdin is unavailable'')
      else if \<not> writable then raise (AgentProcessError ''Pi exited before accepting the command'')
      else ret ())"

text \<open>
  \<open>steer\<close> up to the wait for its answer, and from there: the response that arrived in the waiter, or none within the
  timeout.
\<close>

definition steer_begin :: "string \<Rightarrow> bool \<Rightarrow> bool \<Rightarrow> bool \<Rightarrow> unit agent_op" where
  "steer_begin i exited has_stdin writable =
     andThen (reading (\<lambda>s. pa_active s \<and> pa_process s)) (\<lambda>running.
       if \<not> running \<or> exited then raise (AgentControlError ''Pi is no longer accepting steering messages'')
       else (\<lambda>s. let s1 = s\<lparr>pa_pending := dict_put i None (pa_pending s)\<rparr> in
               case send_command has_stdin writable s1 of
                 (Inl e, s2) \<Rightarrow> (Inl e, pop_pending i s2)
               | (Inr _, s2) \<Rightarrow> (Inr (), s2)))"

definition steer_end :: "string \<Rightarrow> (bool \<times> string option) agent_op" where
  "steer_end i s =
     (let s' = pop_pending i s in
      case map_of (pa_pending s) i of
        Some (Some response) \<Rightarrow> (control_response response ''steer'', s')
      | _ \<Rightarrow> (Inl (AgentProcessError ''Pi steering acknowledgement was lost; delivery is unknown''), s'))"

text \<open>Effects on the process group.\<close>

datatype proc_call = Send_abort | Close_stdin | Wait_grace | Signal_term | Signal_kill | Wait_exit

record proc_env =
  pv_exited :: bool
  pv_exited_later :: bool
  pv_wait1 :: bool
  pv_wait2 :: bool
  pv_group_gone :: bool

definition stop_process :: "proc_env \<Rightarrow> bool \<Rightarrow> proc_call list" where
  "stop_process pe abort =
     (if \<not> pv_exited pe \<and> abort then [Send_abort] else []) @ [Close_stdin] @
     (if pv_exited_later pe then []
      else if pv_wait1 pe then [Wait_grace]
      else [Wait_grace, Signal_term] @ (if pv_wait2 pe then [Wait_grace] else [Wait_grace, Signal_kill, Wait_exit]))"

definition terminate_process_tree :: "proc_env \<Rightarrow> proc_call list" where
  "terminate_process_tree pe =
     (if pv_exited pe then [] else [Wait_grace]) @ [Signal_term] @
     (if pv_group_gone pe then [] else [Signal_kill]) @
     (if pv_exited_later pe then [] else [Wait_exit])"

definition cancel_begin :: "string \<Rightarrow> bool \<Rightarrow> bool agent_op" where
  "cancel_begin i exited s =
     (if \<not> pa_active s \<or> \<not> pa_process s then (Inl (AgentControlError ''Pi has no active process to cancel''), s)
      else (let s1 = s\<lparr>pa_cancel_requested := True\<rparr>
            in if exited then (Inr False, s1)
               else (Inr True, s1\<lparr>pa_pending := dict_put i None (pa_pending s1)\<rparr>)))"

text \<open>The rest of \<open>cancel\<close>: whatever the abort command came to, the process tree is terminated.\<close>

definition cancel_end :: "string \<Rightarrow> proc_env \<Rightarrow> proc_call list agent_op" where
  "cancel_end i pe s = (Inr (Close_stdin # terminate_process_tree pe), pop_pending i s)"

section \<open>The consumer\<close>

text \<open>
  What the consumer meets: an item of the queue, the deadline, and what other threads do meanwhile, namely a
  request for cancellation and a control command that starts or stops waiting for its answer.
\<close>

datatype agent_input = Message item | Deadline | Cancel_request | Await string | Forget string

record consume_env =
  ce_api_key :: string
  ce_request_id :: string
  ce_timeout_text :: string
  ce_return_code :: "int option"
  ce_stderr :: string

definition timeout_error :: "consume_env \<Rightarrow> sandbox_error" where
  "timeout_error env = AgentTimeoutError (''Pi did not settle within '' @ ce_timeout_text env @ '' seconds'')"

definition exit_error :: "consume_env \<Rightarrow> sandbox_error" where
  "exit_error env =
     (let detail = sanitize (utf8_replace (ce_stderr env)) (ce_api_key env);
          message = ''Pi exited before agent_settled (exit code '' @
            (case ce_return_code env of None \<Rightarrow> ''None'' | Some c \<Rightarrow> show_int c) @ '')'';
          message = (if detail = [] then message else message @ '': '' @ detail)
      in AgentProcessError (coalesce_to (provider_error detail) message))"

definition response_error :: "string \<Rightarrow> frame \<Rightarrow> string" where
  "response_error api_key response =
     (case map_of response ''error'' of
        Some (PStr raw) \<Rightarrow> (let detail = sanitize raw api_key in if detail = [] then [] else '': '' @ detail)
      | _ \<Rightarrow> [])"

definition prompt_response :: "consume_env \<Rightarrow> frame \<Rightarrow> sandbox_error + bool" where
  "prompt_response env d =
     (if map_of d ''command'' \<noteq> Some (PStr ''prompt'')
      then Inl (AgentProtocolError ''Pi returned the prompt id for a different command'')
      else if map_of d ''success'' \<noteq> Some (PBool True)
      then (let detail = response_error (ce_api_key env) d
            in Inl (AgentPromptError (coalesce_to (provider_error detail) (''Pi rejected the prompt'' @ detail))))
      else Inr True)"

text \<open>One turn of the loop: \<open>None\<close> when the agent settled, otherwise whether the prompt is accepted by now.\<close>

definition consume_frame :: "consume_env \<Rightarrow> bool \<Rightarrow> frame \<Rightarrow> bool option agent_op" where
  "consume_frame env accepted d =
     (let kind = map_of d ''type'' in
      andThen (if kind = Some (PStr ''response'') then route_control_response d else ret False) (\<lambda>routed.
        if routed then ret (Some accepted)
        else if kind = Some (PStr ''response'') \<and> map_of d ''id'' = Some (PStr (ce_request_id env))
        then andThen (lift_sum (prompt_response env d)) (\<lambda>ok. ret (Some ok))
        else if kind = Some (PStr ''agent_settled'')
        then (\<lambda>s. let s1 = mark_settling s in
               if pa_cancel_requested s1 then (Inl AgentCancelledError, s1)
               else if \<not> accepted
               then (Inl (AgentProtocolError ''Pi settled before accepting the correlated prompt''), s1)
               else (Inr None, s1))
        else andThen (translate_event (ce_api_key env) d) (\<lambda>_. ret (Some accepted))))"

definition consume_item :: "consume_env \<Rightarrow> bool \<Rightarrow> item \<Rightarrow> bool option agent_op" where
  "consume_item env accepted it =
     (case it of
        Eof \<Rightarrow> andThen (reading pa_cancel_requested) (\<lambda>c. raise (if c then AgentCancelledError else exit_error env))
      | Protocol_failure m \<Rightarrow> raise (AgentProtocolError m)
      | Frame d \<Rightarrow> consume_frame env accepted d)"

fun consume :: "consume_env \<Rightarrow> bool \<Rightarrow> agent_input list \<Rightarrow> unit agent_op" where
  "consume env accepted [] = raise (timeout_error env)"
| "consume env accepted (Deadline # _) = raise (timeout_error env)"
| "consume env accepted (Cancel_request # xs) =
     andThen (\<lambda>s. (Inr (), s\<lparr>pa_cancel_requested := True\<rparr>)) (\<lambda>_. consume env accepted xs)"
| "consume env accepted (Await i # xs) =
     andThen (\<lambda>s. (Inr (), s\<lparr>pa_pending := dict_put i None (pa_pending s)\<rparr>)) (\<lambda>_. consume env accepted xs)"
| "consume env accepted (Forget i # xs) =
     andThen (\<lambda>s. (Inr (), pop_pending i s)) (\<lambda>_. consume env accepted xs)"
| "consume env accepted (Message it # xs) =
     andThen (consume_item env accepted it) (\<lambda>r. case r of
         None \<Rightarrow> ret ()
       | Some accepted' \<Rightarrow> consume env accepted' xs)"

section \<open>One turn\<close>

record run_env =
  rn_pi_found :: bool
  rn_api_key :: "string option"
  rn_sessions :: bool
  rn_session_dir :: string
  rn_model :: string
  rn_spawned :: bool
  rn_has_stdin :: bool
  rn_writable :: bool
  rn_consume :: "string \<Rightarrow> consume_env"
  rn_inputs :: "agent_input list"
  rn_proc :: proc_env

definition preflight :: "run_env \<Rightarrow> sandbox_error + string" where
  "preflight rn =
     (if \<not> rn_pi_found rn then Inl (AgentStartupError ''Pi executable was not found on PATH'')
      else case rn_api_key rn of
        None \<Rightarrow> Inl (AgentStartupError ''OPENROUTER_API_KEY is required for Pi'')
      | Some k \<Rightarrow> if k = [] then Inl (AgentStartupError ''OPENROUTER_API_KEY is required for Pi'') else Inr k)"

definition pi_command :: "run_env \<Rightarrow> string list" where
  "pi_command rn =
     [''pi'', ''--mode'', ''rpc'', ''--session-dir'', rn_session_dir rn, ''--no-approve'',
      ''--provider'', ''openrouter'', ''--model'', rn_model rn] @ (if rn_sessions rn then [''--continue''] else [])"

text \<open>The turn once its process runs, with what was done to the process at the end.\<close>

definition run_turn :: "run_env \<Rightarrow> string \<Rightarrow> unit agent_op" where
  "run_turn rn api_key =
     andThen (send_command (rn_has_stdin rn) (rn_writable rn)) (\<lambda>_.
       consume ((rn_consume rn api_key)\<lparr>ce_api_key := api_key\<rparr>) False (rn_inputs rn))"

definition is_timeout :: "sandbox_error + 'a \<Rightarrow> bool" where
  "is_timeout r = (case r of Inl (AgentError code _) \<Rightarrow> code = ''agent_timeout_error'' | _ \<Rightarrow> False)"

definition run_pi :: "run_env \<Rightarrow> PiRpcAgent \<Rightarrow> ((sandbox_error + unit) \<times> PiRpcAgent) \<times> proc_call list" where
  "run_pi rn s =
     (case preflight rn of
        Inl e \<Rightarrow> ((Inl e, s), [])
      | Inr api_key \<Rightarrow>
          if \<not> rn_spawned rn then ((Inl (AgentStartupError ''Pi RPC process could not be started''), s), [])
          else if pa_active s
          then ((Inl (AgentControlError ''Pi backend already owns an active process''), s), [Signal_kill, Wait_exit])
          else (let (r, s1) = run_turn rn api_key (s\<lparr>pa_process := True, pa_active := True, pa_cancel_requested := False\<rparr>)
                in ((r, (mark_settling s1)\<lparr>pa_process := False\<rparr>), stop_process (rn_proc rn) (is_timeout r))))"

end
