(* ===== verification/Pi_Agent_Props.thy ===== *)
theory Pi_Agent_Props
  imports Pi_Agent
begin

text \<open>
  What the Pi backend guarantees: framing that does not depend on how the bytes arrive, the life of one turn, and the
  redaction of the events it emits, with the two gaps of that redaction.
\<close>

section \<open>Framing\<close>

text \<open>The reference: the lines of the whole stream, decoded in order up to the first bad one.\<close>

function split_nl :: "string \<Rightarrow> string list \<times> string" where
  "split_nl s =
     (if CHR 0x0A \<notin> set s then ([], s)
      else (let (ls, r) = split_nl (tl (dropWhile (\<lambda>c. c \<noteq> CHR 0x0A) s)) in (takeWhile (\<lambda>c. c \<noteq> CHR 0x0A) s # ls, r)))"
  by pat_completeness auto
termination
proof (relation "measure length")
  fix s :: string
  assume "\<not> CHR 0x0A \<notin> set s"
  moreover have "length (dropWhile (\<lambda>c. c \<noteq> CHR 0x0A) s) \<le> length s" by (rule length_dropWhile_le)
  ultimately have "length (tl (dropWhile (\<lambda>c. c \<noteq> CHR 0x0A) s)) < length s" by (cases s) auto
  then show "(tl (dropWhile (\<lambda>c. c \<noteq> CHR 0x0A) s), s) \<in> measure length" by simp
qed simp

declare split_nl.simps [simp del]

fun decode_lines :: "(string \<Rightarrow> pyval option) \<Rightarrow> string list \<Rightarrow> item list \<Rightarrow> item list" where
  "decode_lines loads [] tail = tail"
| "decode_lines loads (l # ls) tail = (case decode_record loads (strip_cr l) of
     Inl e \<Rightarrow> [Protocol_failure e] | Inr d \<Rightarrow> Frame d # decode_lines loads ls tail)"

definition reference_items :: "(string \<Rightarrow> pyval option) \<Rightarrow> string \<Rightarrow> item list" where
  "reference_items loads data =
     (let (ls, rest) = split_nl data
      in decode_lines loads ls (if rest \<noteq> [] then [Protocol_failure ''Pi emitted an unterminated JSONL record''] else []) @ [Eof])"

definition lines_fit :: "string \<Rightarrow> bool" where
  "lines_fit data \<longleftrightarrow> (case split_nl data of (ls, rest) \<Rightarrow>
     list_all (\<lambda>l. length l \<le> STDOUT_RECORD_LIMIT) ls \<and> length rest \<le> STDOUT_RECORD_LIMIT)"

lemma split_nl_rest: "split_nl s = (ls, r) \<Longrightarrow> CHR 0x0A \<notin> set r"
proof (induction s arbitrary: ls r rule: split_nl.induct)
  case (1 s)
  show ?case
  proof (cases "CHR 0x0A \<in> set s")
    case True
    then show ?thesis using 1 by (auto simp: split_nl.simps [of s] Let_def split: prod.splits)
  qed (use 1 in \<open>simp add: split_nl.simps [of s]\<close>)
qed

lemma decode_lines_append:
  "decode_lines loads (ls @ ms) tail = decode_lines loads ls (decode_lines loads ms tail)"
  by (induction ls) (auto split: sum.splits)

lemma dropWhile_nl: "CHR 0x0A \<in> set s \<Longrightarrow> dropWhile (\<lambda>c. c \<noteq> CHR 0x0A) s \<noteq> []"
  by (auto simp: dropWhile_eq_Nil_conv)

lemma split_nl_append:
  "split_nl (a @ b) = (let (ls, r) = split_nl a; (ms, t) = split_nl (r @ b) in (ls @ ms, t))"
proof (induction a rule: split_nl.induct)
  case (1 a)
  show ?case
  proof (cases "CHR 0x0A \<in> set a")
    case True
    have tw: "takeWhile (\<lambda>c. c \<noteq> CHR 0x0A) (a @ b) = takeWhile (\<lambda>c. c \<noteq> CHR 0x0A) a"
      "tl (dropWhile (\<lambda>c. c \<noteq> CHR 0x0A) (a @ b)) = tl (dropWhile (\<lambda>c. c \<noteq> CHR 0x0A) a) @ b"
      using True dropWhile_nl [OF True] by (auto simp: takeWhile_append1 dropWhile_append1)
    have ih: "split_nl (tl (dropWhile (\<lambda>c. c \<noteq> CHR 0x0A) a) @ b) =
        (let (ls, r) = split_nl (tl (dropWhile (\<lambda>c. c \<noteq> CHR 0x0A) a)); (ms, t) = split_nl (r @ b) in (ls @ ms, t))"
      using 1 True by simp
    show ?thesis
      using True by (subst (1 2) split_nl.simps) (simp add: tw ih Let_def split: prod.splits)
  qed (simp add: split_nl.simps [of a] split: prod.splits)
qed

lemma drain_buffer_lines:
  assumes "split_nl buffer = (ls, rest)" "length rest \<le> STDOUT_RECORD_LIMIT" "drain_buffer loads buffer = (ds, r)"
  shows "map Frame ds @ (case r of Inl e \<Rightarrow> [Protocol_failure e] | Inr x \<Rightarrow> K x) = decode_lines loads ls (K rest)"
  using assms
proof (induction loads buffer arbitrary: ls ds r rule: drain_buffer.induct)
  case (1 loads buffer)
  show ?case
  proof (cases "CHR 0x0A \<in> set buffer")
    case False
    then have "ls = []" "rest = buffer" using 1(2) by (simp_all add: split_nl.simps [of buffer])
    moreover have "ds = []" "r = Inr buffer"
      using False 1(3,4) \<open>rest = buffer\<close> by (simp_all add: drain_buffer.simps [of loads buffer])
    ultimately show ?thesis by simp
  next
    case True
    let ?rec = "takeWhile (\<lambda>c. c \<noteq> CHR 0x0A) buffer" and ?rest = "tl (dropWhile (\<lambda>c. c \<noteq> CHR 0x0A) buffer)"
    obtain ls' where ls: "ls = ?rec # ls'" "split_nl ?rest = (ls', rest)"
      using 1(2) True by (auto simp: split_nl.simps [of buffer] Let_def split: prod.splits)
    show ?thesis
    proof (cases "decode_record loads (strip_cr ?rec)")
      case (Inl e)
      then show ?thesis using 1(4) True ls by (auto simp: drain_buffer.simps [of loads buffer])
    next
      case (Inr d)
      obtain ds' where ds: "drain_buffer loads ?rest = (ds', r)" "ds = d # ds'"
        using 1(4) True Inr by (auto simp: drain_buffer.simps [of loads buffer] Let_def split: prod.splits)
      have "map Frame ds' @ (case r of Inl e \<Rightarrow> [Protocol_failure e] | Inr x \<Rightarrow> K x) = decode_lines loads ls' (K rest)"
        using 1(1) [of ?rec ?rest d ls' ds' r] True Inr ls(2) 1(3) ds(1) by simp
      then show ?thesis using ls(1) ds(2) Inr by simp
    qed
  qed
qed

lemma lines_fit_prefix:
  assumes "lines_fit (a @ b)" "split_nl a = (ls, r)"
  shows "length r \<le> STDOUT_RECORD_LIMIT \<and> lines_fit (r @ b)"
proof -
  obtain ms t where m: "split_nl (r @ b) = (ms, t)" by fastforce
  have fit: "list_all (\<lambda>l. length l \<le> STDOUT_RECORD_LIMIT) ms" "length t \<le> STDOUT_RECORD_LIMIT"
    using assms(1) unfolding lines_fit_def split_nl_append [of a b] assms(2) Let_def by (simp_all add: m)
  have r: "CHR 0x0A \<notin> set r" using split_nl_rest [OF assms(2)] .
  have "length r \<le> STDOUT_RECORD_LIMIT"
  proof (cases "CHR 0x0A \<in> set (r @ b)")
    case False
    then show ?thesis using m fit(2) by (auto simp: split_nl.simps [of "r @ b"])
  next
    case True
    have "takeWhile (\<lambda>c. c \<noteq> CHR 0x0A) (r @ b) = r @ takeWhile (\<lambda>c. c \<noteq> CHR 0x0A) b"
      by (rule takeWhile_append2) (use r in auto)
    then show ?thesis using m fit(1) True by (auto simp: split_nl.simps [of "r @ b"] Let_def split: prod.splits)
  qed
  then show ?thesis using fit m by (simp add: lines_fit_def)
qed

lemma read_chunks_lines:
  assumes "lines_fit (buffer @ concat chunks)" "CHR 0x0A \<notin> set buffer" "split_nl (buffer @ concat chunks) = (ls, rest)"
  shows "read_chunks loads buffer chunks False =
     decode_lines loads ls (if rest \<noteq> [] then [Protocol_failure ''Pi emitted an unterminated JSONL record''] else [])"
  using assms
proof (induction chunks arbitrary: buffer ls)
  case Nil
  then show ?case by (auto simp: split_nl.simps [of buffer])
next
  case (Cons chunk chunks)
  let ?T = "if rest \<noteq> [] then [Protocol_failure ''Pi emitted an unterminated JSONL record''] else []"
  obtain ls1 r1 where s1: "split_nl (buffer @ chunk) = (ls1, r1)" by fastforce
  obtain ms where s2: "split_nl (r1 @ concat chunks) = (ms, rest)" "ls = ls1 @ ms"
    using Cons.prems(3) split_nl_append [of "buffer @ chunk" "concat chunks"] s1 by (auto simp: Let_def split: prod.splits)
  have fit: "length r1 \<le> STDOUT_RECORD_LIMIT" "lines_fit (r1 @ concat chunks)"
    using lines_fit_prefix [OF _ s1, of "concat chunks"] Cons.prems(1) by simp_all
  obtain ds r where d: "drain_buffer loads (buffer @ chunk) = (ds, r)" by fastforce
  have "read_chunks loads buffer (chunk # chunks) False =
      decode_lines loads ls1 (read_chunks loads r1 chunks False)"
    using drain_buffer_lines [OF s1 fit(1) d, of "\<lambda>x. read_chunks loads x chunks False"] d by simp
  also have "read_chunks loads r1 chunks False = decode_lines loads ms ?T"
    using Cons.IH [OF fit(2) split_nl_rest [OF s1] s2(1)] .
  finally show ?case using s2(2) by (simp add: decode_lines_append)
qed

text \<open>
  C29: Framing does not depend on how the bytes arrive.  As long as no record exceeds the limit, the items that reach the
  consumer are those of the whole stream cut at its newlines and decoded in order: the same for every division of the
  stream into chunks, with one failure for the first malformed record or for a record that is not terminated.
\<close>

theorem framing_chunk_independent:
  assumes "lines_fit (concat chunks)"
  shows "read_stdout loads (Some chunks) False = reference_items loads (concat chunks)"
  using read_chunks_lines [of "[]" chunks _ _ loads] assms
  by (cases "split_nl (concat chunks)") (simp add: read_stdout_def reference_items_def)

definition sample_loads :: "string \<Rightarrow> pyval option" where
  "sample_loads s = (if s = ''{}'' then Some (PDict []) else None)"

theorem framing_chunk_independent_witness:
  "read_stdout sample_loads (Some [''{'', ''}'' @ nl @ ''{'', ''}'' @ nl, ''x'']) False =
   [Frame [], Frame [], Protocol_failure ''Pi emitted an unterminated JSONL record'', Eof]"
proof -
  have split: "split_nl (concat [''{'', ''}'' @ nl @ ''{'', ''}'' @ nl, ''x'']) = ([''{}'', ''{}''], ''x'')" by code_simp
  then have "lines_fit (concat [''{'', ''}'' @ nl @ ''{'', ''}'' @ nl, ''x''])"
    by (simp add: lines_fit_def STDOUT_RECORD_LIMIT_def)
  from framing_chunk_independent [OF this, of sample_loads] show ?thesis
    unfolding reference_items_def split by (rule trans) code_simp
qed

section \<open>Redaction of events\<close>

text \<open>
  An event is clean of a secret when none of its values contains it; a message may consist of blocks that are each clean
  of it.
\<close>

definition clean_value :: "string \<Rightarrow> pyval \<Rightarrow> bool" where
  "clean_value key v \<longleftrightarrow> list_all (\<lambda>t. \<not> sublist key t) (pv_texts v)"

definition clean_event :: "string \<Rightarrow> EventKind \<times> frame \<Rightarrow> bool" where
  "clean_event key e \<longleftrightarrow>
     (if fst e = EK_MESSAGE
      then (\<exists>parts. snd e = [(''role'', PStr ''assistant''), (''text'', PStr (concat parts))] \<and>
              list_all (\<lambda>t. \<not> sublist key t) parts)
      else list_all (\<lambda>(k, v). clean_value key v) (snd e))"

definition cleanly :: "string \<Rightarrow> PiRpcAgent \<Rightarrow> PiRpcAgent \<Rightarrow> bool" where
  "cleanly key s s' \<longleftrightarrow> (\<exists>es. pa_emitted s' = pa_emitted s @ es \<and> list_all (clean_event key) es)"

interpretation clean: kept_relation "cleanly key" for key
proof
  show "cleanly key s s" for s by (simp add: cleanly_def)
  show "cleanly key s s''" if "cleanly key s s'" "cleanly key s' s''" for s s' s''
    using that unfolding cleanly_def by (metis append_assoc list_all_append)
qed

lemma redact_frame_clean:
  assumes "plain_secret key" "map_of (redact_frame key d) name = Some v"
  shows "clean_value key v"
proof -
  obtain d' where d': "redact_secret key (PDict d) = PDict d'" by simp
  then have "map_of d' name = Some v" using assms(2) by (simp add: redact_frame_def)
  then have sub: "set (pv_texts v) \<subseteq> set (pv_texts (redact_secret key (PDict d)))"
    unfolding d' by (rule entry_texts)
  have "\<not> sublist key t" if "t \<in> set (pv_texts v)" for t
  proof -
    have "t \<in> set (pv_texts (redact_secret key (PDict d)))" using sub that by blast
    then obtain s0 where "t = replace_str key REDACTED s0" using pv_texts_redact by blast
    then show ?thesis using redacted_absent [OF assms(1)] by simp
  qed
  then show ?thesis by (simp add: clean_value_def list_all_iff)
qed

lemma clean_sub: "clean_value key (PDict d) \<Longrightarrow> map_of d name = Some v \<Longrightarrow> clean_value key v"
  using entry_texts [of d name v] by (auto simp: clean_value_def list_all_iff)

lemma clean_text_blocks:
  "list_all (clean_value key) vs \<Longrightarrow> text_blocks vs = Inr parts \<Longrightarrow> list_all (\<lambda>t. \<not> sublist key t) parts"
proof (induction vs arbitrary: parts rule: text_blocks.induct)
  case (2 block rest)
  then show ?case
    by (auto simp: sum_bind_def clean_value_def dest!: entry_texts split: if_splits option.splits pyval.splits sum.splits)
      (auto simp: list_all_iff)
qed auto

lemma clean_assistant_text:
  assumes "clean_value key (PDict d)" "assistant_text d = Inr text"
  shows "\<exists>parts. text = concat parts \<and> list_all (\<lambda>t. \<not> sublist key t) parts"
proof -
  consider "map_of d ''content'' = Some (PStr text)"
    | vs parts where "map_of d ''content'' = Some (PList vs)" "text_blocks vs = Inr parts" "text = concat parts"
    using assms(2) by (auto simp: assistant_text_def sum_bind_def split: option.splits pyval.splits sum.splits)
  then show ?thesis
  proof cases
    case 1
    then show ?thesis using clean_sub [OF assms(1) 1] by (intro exI [of _ "[text]"]) (simp add: clean_value_def)
  next
    case 2
    have "clean_value key (PList vs)" using clean_sub [OF assms(1) 2(1)] .
    then have "list_all (clean_value key) vs" by (auto simp: clean_value_def list_all_iff)
    then show ?thesis using clean_text_blocks 2(2,3) by blast
  qed
qed

lemma clean_emit: "clean_event key (k, p) \<Longrightarrow> keeps (cleanly key) (emit k p)"
  by (simp add: keeps_def cleanly_def emit_def)

lemma clean_same: "(\<And>s. pa_emitted (snd (m s)) = pa_emitted s) \<Longrightarrow> keeps (cleanly key) m"
  by (simp add: keeps_def cleanly_def)

lemma clean_string:
  "plain_secret key \<Longrightarrow> string_field (redact_frame key d) n = Inr t \<Longrightarrow> clean_value key (PStr t)"
  by (auto simp: string_field_def dest!: redact_frame_clean split: option.splits pyval.splits)

lemma clean_field: "plain_secret key \<Longrightarrow> clean_value key (field_or_none (redact_frame key d) n)"
  by (cases "map_of (redact_frame key d) n") (auto simp: field_or_none_def dest: redact_frame_clean, simp add: clean_value_def)

lemma clean_lift:
  "(\<And>x. y = Inr x \<Longrightarrow> keeps (cleanly key) (k x)) \<Longrightarrow> keeps (cleanly key) (andThen (lift_sum y) k)"
  by (cases y) (simp_all add: keeps_def andThen_def lift_sum_apply clean.kept_refl)

lemma clean_translate:
  assumes "plain_secret key"
  shows "keeps (cleanly key) (translate_event key d)"
proof -
  let ?m = "redact_frame key d"
  have message: "keeps (cleanly key) (andThen (lift_sum (mapping_field ?m ''message'')) (\<lambda>completed.
      if map_of completed ''role'' \<noteq> Some (PStr ''assistant'') then ret ()
      else if map_of completed ''stopReason'' = Some (PStr ''error'') then raise (assistant_failure key completed)
      else andThen (lift_sum (assistant_text completed)) (\<lambda>text.
           emit EK_MESSAGE [(''role'', PStr ''assistant''), (''text'', PStr text)])))"
  proof (rule clean_lift)
    fix completed
    assume "mapping_field ?m ''message'' = Inr completed"
    then have c: "clean_value key (PDict completed)"
      using redact_frame_clean [OF assms] by (auto simp: mapping_field_def split: option.splits pyval.splits)
    have "clean_event key (EK_MESSAGE, [(''role'', PStr ''assistant''), (''text'', PStr t)])"
      if "assistant_text completed = Inr t" for t
      using clean_assistant_text [OF c that] by (auto simp: clean_event_def)
    then show "keeps (cleanly key) (if map_of completed ''role'' \<noteq> Some (PStr ''assistant'') then ret ()
      else if map_of completed ''stopReason'' = Some (PStr ''error'') then raise (assistant_failure key completed)
      else andThen (lift_sum (assistant_text completed)) (\<lambda>text.
           emit EK_MESSAGE [(''role'', PStr ''assistant''), (''text'', PStr text)]))"
      by (auto intro!: clean.keeps_rules clean_lift clean_emit)
  qed
  show ?thesis unfolding translate_event_def Let_def
    using message clean_string [OF assms] clean_field [OF assms]
    by (auto intro!: clean.keeps_rules clean_lift clean_emit simp: clean_event_def clean_value_def
        split: option.splits pyval.splits)
qed

lemma clean_consume_frame:
  assumes "plain_secret (ce_api_key env)"
  shows "keeps (cleanly (ce_api_key env)) (consume_frame env acc d)"
proof -
  have route: "keeps (cleanly (ce_api_key env)) (route_control_response d)"
    by (rule clean_same) (auto simp: route_control_response_def split: option.splits pyval.splits)
  have settle: "keeps (cleanly (ce_api_key env)) (\<lambda>s. let s1 = mark_settling s in
               if pa_cancel_requested s1 then (Inl AgentCancelledError, s1)
               else if \<not> acc
               then (Inl (AgentProtocolError ''Pi settled before accepting the correlated prompt''), s1)
               else (Inr None, s1))"
    by (rule clean_same) (simp add: Let_def mark_settling_def)
  show ?thesis unfolding consume_frame_def Let_def
    using settle [unfolded Let_def] by (auto intro!: clean.keeps_rules route clean_translate assms)
qed

lemma clean_consume: "plain_secret (ce_api_key env) \<Longrightarrow> keeps (cleanly (ce_api_key env)) (consume env acc xs)"
proof (induction env acc xs rule: consume.induct)
  case (6 env acc it xs)
  have "keeps (cleanly (ce_api_key env)) (consume_item env acc it)"
    unfolding consume_item_def
    by (auto intro!: clean.keeps_rules clean_consume_frame 6 split: item.splits)
  then show ?case using 6 by (auto intro!: clean.keeps_rules split: option.splits)
qed (simp_all add: clean.keeps_raise clean.keeps_andThen [OF clean_same] pop_pending_def)


definition sample_consume :: consume_env where
  "sample_consume = \<lparr>ce_api_key = ''sk-1'', ce_request_id = ''p1'', ce_timeout_text = ''600.0'', ce_return_code = None, ce_stderr = []\<rparr>"

definition sample_inputs :: "agent_input list" where
  "sample_inputs =
     [Message (Frame [(''type'', PStr ''response''), (''id'', PStr ''p1''), (''command'', PStr ''prompt''), (''success'', PBool True)]),
      Message (Frame [(''type'', PStr ''tool_execution_start''), (''toolCallId'', PStr ''c''), (''toolName'', PStr ''bash''),
        (''args'', PDict [(''cmd'', PStr ''echo sk-1'')])]),
      Message (Frame [(''type'', PStr ''agent_settled'')])]"

definition sample_agent :: PiRpcAgent where
  "sample_agent = new_agent\<lparr>pa_process := True, pa_active := True\<rparr>"


text \<open>The key of the joined text: two blocks that are clean of it can put it together.\<close>

lemma assistant_text_rejoins_secret:
  "pa_emitted (snd (translate_event ''sk-1'' [(''type'', PStr ''message_end''), (''message'', PDict [(''role'', PStr ''assistant''),
      (''content'', PList [PDict [(''type'', PStr ''text''), (''text'', PStr ''sk'')],
         PDict [(''type'', PStr ''text''), (''text'', PStr ''-1'')]])])] new_agent)) =
   [(EK_MESSAGE, [(''role'', PStr ''assistant''), (''text'', PStr ''sk-1'')])]"
  by code_simp

text \<open>The other credential of the process, its GitHub token, is emitted as it is.\<close>

lemma github_token_emitted:
  "map_of (pi_process_env [] (Some ''ghs_1'')) ''GH_TOKEN'' = Some ''ghs_1'' \<and>
   pa_emitted (snd (translate_event ''sk-1'' [(''type'', PStr ''tool_execution_end''), (''toolCallId'', PStr ''c''),
      (''toolName'', PStr ''bash''), (''isError'', PBool False), (''result'', PStr ''GH_TOKEN=ghs_1'')] new_agent)) =
   [(EK_OBSERVATION, [(''tool_call_id'', PStr ''c''), (''tool'', PStr ''bash''), (''result'', PStr ''GH_TOKEN=ghs_1''),
      (''is_error'', PBool False)])]"
  by code_simp

section \<open>The life of a turn\<close>

text \<open>The settling listener is owed exactly one call for as long as the turn is active.\<close>

definition owes_listener :: "PiRpcAgent \<Rightarrow> PiRpcAgent \<Rightarrow> bool" where
  "owes_listener s s' \<longleftrightarrow>
     pa_listener_calls s' + (if pa_active s' then 1 else 0) = pa_listener_calls s + (if pa_active s then 1 else 0)"

interpretation owes: kept_relation owes_listener
  by unfold_locales (simp_all add: owes_listener_def)

lemma owes_same:
  "(\<And>s. pa_active (snd (m s)) = pa_active s \<and> pa_listener_calls (snd (m s)) = pa_listener_calls s) \<Longrightarrow> keeps owes_listener m"
  by (simp add: keeps_def owes_listener_def)

lemma mark_settling_owes: "owes_listener s (mark_settling s) \<and> \<not> pa_active (mark_settling s)"
  by (simp add: owes_listener_def mark_settling_def)

lemma owes_consume_item: "keeps owes_listener (consume_item env acc it)"
proof -
  have emit: "keeps owes_listener (emit k p)" for k p by (rule owes_same) (simp add: emit_def)
  have route: "keeps owes_listener (route_control_response d)" for d
    by (rule owes_same) (auto simp: route_control_response_def split: option.splits pyval.splits)
  have translate: "keeps owes_listener (translate_event key d)" for key d
    unfolding translate_event_def Let_def
    by (auto intro!: owes.keeps_rules emit split: option.splits pyval.splits)
  have settle: "keeps owes_listener (\<lambda>s. let s1 = mark_settling s in
               if pa_cancel_requested s1 then (Inl AgentCancelledError, s1)
               else if \<not> acc
               then (Inl (AgentProtocolError ''Pi settled before accepting the correlated prompt''), s1)
               else (Inr None, s1))"
    using mark_settling_owes by (simp add: keeps_def Let_def)
  show ?thesis unfolding consume_item_def consume_frame_def Let_def
    using settle [unfolded Let_def] by (auto intro!: owes.keeps_rules route translate split: item.splits)
qed

lemma owes_consume: "keeps owes_listener (consume env acc xs)"
proof (induction env acc xs rule: consume.induct)
  case (6 env acc it xs)
  then show ?case by (auto intro!: owes.keeps_rules owes_consume_item split: option.splits)
qed (simp_all add: owes.keeps_raise owes.keeps_andThen [OF owes_same] pop_pending_def)

text \<open>What the consumer must have seen when it returns normally.\<close>

definition prompt_accepted :: "string \<Rightarrow> agent_input \<Rightarrow> bool" where
  "prompt_accepted i x \<longleftrightarrow> (\<exists>d. x = Message (Frame d) \<and> map_of d ''type'' = Some (PStr ''response'') \<and>
     map_of d ''id'' = Some (PStr i) \<and> map_of d ''command'' = Some (PStr ''prompt'') \<and> map_of d ''success'' = Some (PBool True))"

definition settled_in :: "string \<Rightarrow> bool \<Rightarrow> agent_input list \<Rightarrow> bool" where
  "settled_in i acc xs \<longleftrightarrow> (\<exists>before d after. xs = before @ Message (Frame d) # after \<and>
     map_of d ''type'' = Some (PStr ''agent_settled'') \<and> (acc \<or> list_ex (prompt_accepted i) before) \<and>
     Cancel_request \<notin> set before \<and> Deadline \<notin> set before \<and> Message Eof \<notin> set before)"

lemma settled_in_Cons:
  assumes "settled_in i acc' xs" "x \<notin> {Cancel_request, Deadline, Message Eof}" "acc' \<Longrightarrow> acc \<or> prompt_accepted i x"
  shows "settled_in i acc (x # xs)"
proof -
  obtain before d after where "xs = before @ Message (Frame d) # after"
     "map_of d ''type'' = Some (PStr ''agent_settled'')" "acc' \<or> list_ex (prompt_accepted i) before"
     "Cancel_request \<notin> set before" "Deadline \<notin> set before" "Message Eof \<notin> set before"
    using assms(1) unfolding settled_in_def by blast
  then show ?thesis unfolding settled_in_def
    using assms(2,3) by (intro exI [of _ "x # before"] exI [of _ d] exI [of _ after]) auto
qed

lemma consume_frame_Inr:
  assumes "consume_frame env acc d s = (Inr r, s')"
  shows "case r of
      None \<Rightarrow> map_of d ''type'' = Some (PStr ''agent_settled'') \<and> acc \<and> \<not> pa_cancel_requested s
    | Some acc' \<Rightarrow> (acc' \<longrightarrow> acc \<or> prompt_accepted (ce_request_id env) (Message (Frame d))) \<and>
        pa_cancel_requested s' = pa_cancel_requested s"
proof -
  have translate: "pa_cancel_requested s2 = pa_cancel_requested s1" if "translate_event k f s1 = (x, s2)" for k f x s1 s2
    using that unfolding translate_event_def Let_def
    by (auto simp: andThen_def lift_sum_apply ret_def raise_def emit_def
        split: if_splits option.splits pyval.splits sum.splits prod.splits)
  show ?thesis using assms unfolding consume_frame_def
    by (auto simp: Let_def andThen_def lift_sum_apply ret_def route_control_response_def mark_settling_def prompt_response_def
        prompt_accepted_def split: if_splits option.splits pyval.splits sum.splits prod.splits dest: translate)
qed

lemma consume_settled:
  "consume env acc xs s = (Inr (), s') \<Longrightarrow> settled_in (ce_request_id env) acc xs \<and> \<not> pa_cancel_requested s"
proof (induction env acc xs arbitrary: s rule: consume.induct)
  case (6 env acc it xs)
  obtain d where it: "it = Frame d"
    using 6(2) by (cases it) (auto simp: consume_item_def andThen_def raise_def reading_def)
  obtain r s1 where r: "consume_frame env acc d s = (Inr r, s1)"
    and rest: "(case r of None \<Rightarrow> ret () | Some acc' \<Rightarrow> consume env acc' xs) s1 = (Inr (), s')"
    using 6(2) by (auto simp: it consume_item_def andThen_def split: sum.splits prod.splits)
  show ?case
  proof (cases r)
    case None
    then have "map_of d ''type'' = Some (PStr ''agent_settled'')" "acc" "\<not> pa_cancel_requested s"
      using consume_frame_Inr [OF r] by simp_all
    moreover have "Message it # xs = [] @ Message (Frame d) # xs" by (simp add: it)
    ultimately show ?thesis unfolding settled_in_def by (metis empty_iff empty_set)
  next
    case (Some acc')
    have "settled_in (ce_request_id env) acc' xs \<and> \<not> pa_cancel_requested s1" using 6(1) rest by (simp add: Some)
    then show ?thesis using consume_frame_Inr [OF r] by (auto simp: Some it intro: settled_in_Cons)
  qed
next
  case (3 env acc xs)
  have "consume env acc xs (s\<lparr>pa_cancel_requested := True\<rparr>) = (Inr (), s')" using 3(2) by (simp add: andThen_def)
  from 3(1) [OF this] show ?case by simp
next
  case (4 env acc i xs)
  have "consume env acc xs (s\<lparr>pa_pending := dict_put i None (pa_pending s)\<rparr>) = (Inr (), s')"
    using 4(2) by (simp add: andThen_def)
  from 4(1) [OF this] show ?case by (auto intro: settled_in_Cons)
next
  case (5 env acc i xs)
  have "consume env acc xs (pop_pending i s) = (Inr (), s')" using 5(2) by (simp add: andThen_def)
  from 5(1) [OF this] show ?case by (auto simp: pop_pending_def intro: settled_in_Cons)
qed (simp_all add: raise_def)

text \<open>
  C31: The life of a turn.  A turn whose process was started from an idle backend leaves it idle and without a process,
  calls the settling listener exactly once and closes the process's standard input whatever happened; it sends an abort
  command only after a timeout.  It succeeds only if Pi answered the prompt command with success and then reported that it
  settled, before the deadline, the end of its output and any request for cancellation.
\<close>

theorem pi_turn_outcome:
  assumes "preflight rn = Inr key" "rn_spawned rn" "\<not> pa_active s" "run_pi rn s = ((r, s'), calls)"
  shows "\<not> pa_active s' \<and> \<not> pa_process s' \<and> pa_listener_calls s' = Suc (pa_listener_calls s) \<and>
    Close_stdin \<in> set calls \<and> (Send_abort \<in> set calls \<longrightarrow> is_timeout r) \<and>
    (r = Inr () \<longrightarrow> settled_in (ce_request_id (rn_consume rn key)) False (rn_inputs rn))"
proof -
  let ?s = "s\<lparr>pa_process := True, pa_active := True, pa_cancel_requested := False\<rparr>"
  obtain s1 where turn: "run_turn rn key ?s = (r, s1)" and s': "s' = (mark_settling s1)\<lparr>pa_process := False\<rparr>"
    and calls: "calls = stop_process (rn_proc rn) (is_timeout r)"
    using assms by (auto simp: run_pi_def split: prod.splits)
  have "keeps owes_listener (run_turn rn key)"
    unfolding run_turn_def send_command_def by (auto intro!: owes.keeps_rules owes_consume)
  from keepsD [OF this, of ?s] have "owes_listener ?s s1" using turn by simp
  then have "owes_listener ?s (mark_settling s1)" using mark_settling_owes owes.kept_trans by blast
  moreover have "settled_in (ce_request_id (rn_consume rn key)) False (rn_inputs rn)" if "r = Inr ()"
    using turn that consume_settled unfolding run_turn_def
    by (fastforce simp: andThen_def send_command_def ret_def raise_def split: if_splits)
  ultimately show ?thesis using mark_settling_owes [of s1]
    by (auto simp: s' calls owes_listener_def stop_process_def)
qed

definition sample_run :: run_env where
  "sample_run = \<lparr>rn_pi_found = True, rn_api_key = Some ''sk-1'', rn_sessions = False, rn_session_dir = ''/pi'', rn_model = ''m'',
     rn_spawned = True, rn_has_stdin = True, rn_writable = True, rn_consume = (\<lambda>_. sample_consume), rn_inputs = sample_inputs,
     rn_proc = \<lparr>pv_exited = False, pv_exited_later = False, pv_wait1 = False, pv_wait2 = True, pv_group_gone = True\<rparr>\<rparr>"

theorem pi_turn_outcome_witness:
  "\<exists>s' calls. run_pi sample_run new_agent = ((Inr (), s'), calls) \<and> pa_listener_calls s' = 1 \<and> \<not> pa_process s' \<and>
     Signal_term \<in> set calls \<and> Send_abort \<notin> set calls \<and> settled_in ''p1'' False sample_inputs"
proof -
  obtain r s' calls where c: "run_pi sample_run new_agent = ((r, s'), calls)" by (metis prod.collapse)
  have "fst (fst (run_pi sample_run new_agent)) = Inr ()" "Signal_term \<in> set (snd (run_pi sample_run new_agent))"
    by code_simp+
  then have r: "r = Inr ()" "Signal_term \<in> set calls" using c by simp_all
  have "preflight sample_run = Inr ''sk-1''" "rn_spawned sample_run" "\<not> pa_active new_agent"
    "ce_request_id (rn_consume sample_run ''sk-1'') = ''p1''" "rn_inputs sample_run = sample_inputs"
    by (simp_all add: preflight_def sample_run_def new_agent_def sample_consume_def)
  from pi_turn_outcome [OF this(1-3) c] this(4,5) r show ?thesis
    using c by (auto simp: new_agent_def is_timeout_def)
qed

end
