(* ===== verification/Identity.thy ===== *)
theory Identity
  imports Checkpoints Github
begin

text \<open>
  \<open>backend/gg/runtime/local_sessions.py\<close>, \<open>web_auth.py\<close> and \<open>task_auth.py\<close>: the users and sessions of the web
  interface and who may act on a task.  The tables are those of migrations 5 to 8; they share the revision counter and the
  checkpoint coordinator with the ledger.  SHA-256 is an argument; owner identifiers are the canonical texts of UUIDs, on which
  \<open>str(UUID(...))\<close> is the identity.  An \<open>await\<close> is a record of what happens meanwhile: what other coroutines
  do before and after the attempt of the checkpoint, its outcome, and the clock afterwards.  The column \<open>se_written\<close>
  is a ghost: the revision of the transaction that inserted the session.
\<close>

section \<open>Tables\<close>

record user_row =
  us_id :: string
  us_google_sub :: string
  us_email :: string

record session_row =
  se_token_hash :: string
  se_owner_id :: string
  se_expires_at :: int
  se_revoked :: bool
  se_written :: int

datatype flow_status = FL_PENDING | FL_CLAIMED | FL_COMPLETED | FL_FAILED

record google_flow_row =
  gf_state :: string
  gf_browser_hash :: string
  gf_nonce :: string
  gf_verifier :: string
  gf_return_to :: string
  gf_expires_at :: int
  gf_status :: flow_status
  gf_session_hash :: "string option"
  gf_completion_revision :: "int option"

record credential_row =
  oc_owner_id :: string
  oc_ciphertext :: "string option"
  oc_mask :: "string option"
  oc_version :: int

datatype connection_status = CS_CONNECTED | CS_PENDING | CS_REVOKED

record connection_row =
  gc_owner_id :: string
  gc_github_user_id :: int
  gc_login :: string
  gc_token_ciphertext :: "string option"
  gc_status :: connection_status

datatype installation_status = IS_ACTIVE | IS_REMOVED | IS_SUSPENDED

record installation_row =
  gi_owner_id :: string
  gi_installation_id :: int
  gi_account_login :: string
  gi_account_type :: string
  gi_status :: installation_status

record oauth_flow_row =
  of_state_hash :: string
  of_owner_id :: string
  of_session_id :: string
  of_expires_at :: int

record identity_db = metadata +
  local_users :: "user_row list"
  local_sessions :: "session_row list"
  google_flows :: "google_flow_row list"
  openrouter_credentials :: "credential_row list"
  github_connections :: "connection_row list"
  github_installations :: "installation_row list"
  github_oauth_flows :: "oauth_flow_row list"
  github_webhook_deliveries :: "string list"

definition empty_identity_db :: identity_db where
  "empty_identity_db = \<lparr>revision = 0, local_users = [], local_sessions = [], google_flows = [], openrouter_credentials = [],
     github_connections = [], github_installations = [], github_oauth_flows = [], github_webhook_deliveries = []\<rparr>"

section \<open>State and errors\<close>

text \<open>
  \<open>wb_identity_revisions\<close> is \<open>_identity_revisions\<close>: per owner the sessions whose insertion may not be durable
  yet.  \<open>wb_exchanges\<close> is a ghost that lists the login flows whose code was sent to Google.
\<close>

record web =
  wb_db :: identity_db
  wb_checkpoints :: coordinator
  wb_identity_revisions :: "(string \<times> (string \<times> int) list) list"
  wb_exchanges :: "(string \<times> int) list"

datatype web_error =
    HTTPException int string
  | Db error
  | Value_error string
  | Uncaught string
  | Waiting
  | GitHubUnavailable
  | GitHubUnauthorized
  | GitHubPending
  | InvalidToken

type_synonym 'a web_op = "(web, web_error, 'a) io"

record await =
  aw_before :: "web \<Rightarrow> web"
  aw_attempt :: Checkpoints.attempt
  aw_after :: "web \<Rightarrow> web"
  aw_now :: int

record web_env =
  we_token_hash :: "string \<Rightarrow> string"
  we_startup_revision :: int

text \<open>
  \<open>db.write()\<close> around a body that may also touch the process's memory: only the database is rolled back.  The
  revision of the commit comes with the result.
\<close>

definition web_write :: "'a web_op \<Rightarrow> ('a \<times> int) web_op" where
  "web_write body w =
     (case body w of
        (Inl e, w1) \<Rightarrow> (Inl e, w1\<lparr>wb_db := wb_db w\<rparr>)
      | (Inr x, w1) \<Rightarrow>
          (case db_write (\<lambda>_. Inr (x, wb_db w1)) (wb_db w) of
             (Inl e, d) \<Rightarrow> (Inl (Db e), w1\<lparr>wb_db := d\<rparr>)
           | (Inr y, d) \<Rightarrow> (Inr (y, int (revision d)), w1\<lparr>wb_db := d\<rparr>)))"

definition durable :: "await \<Rightarrow> int \<Rightarrow> unit web_op" where
  "durable aw target w =
     (let w1 = aw_before aw w; c = (wb_checkpoints w1)\<lparr>db_revision := int (revision (wb_db w1))\<rparr>
      in case ensure_durable [aw_attempt aw] target c of
           Some (Inr _, c') \<Rightarrow> (Inr (), aw_after aw (w1\<lparr>wb_checkpoints := c'\<rparr>))
         | Some (Inl _, c') \<Rightarrow> (Inl (HTTPException 503 ''state persistence unavailable''), aw_after aw (w1\<lparr>wb_checkpoints := c'\<rparr>))
         | None \<Rightarrow> (Inl Waiting, aw_after aw w1))"

text \<open>A statement of a transaction body on the database.\<close>

definition on_db :: "(identity_db \<Rightarrow> web_error + 'a \<times> identity_db) \<Rightarrow> 'a web_op" where
  "on_db f w = (case f (wb_db w) of Inl e \<Rightarrow> (Inl e, w) | Inr (x, d) \<Rightarrow> (Inr x, w\<lparr>wb_db := d\<rparr>))"

section \<open>Sessions\<close>

definition SESSION_SECONDS :: int where
  "SESSION_SECONDS = 7 * 24 * 60 * 60"

definition upsert_user :: "string \<Rightarrow> string \<Rightarrow> string \<Rightarrow> identity_db \<Rightarrow> web_error + string \<times> identity_db" where
  "upsert_user new_id sub email d =
     (case fetchone (\<lambda>u. us_google_sub u = sub) (local_users d) of
        Some u \<Rightarrow> Inr (us_id u, d\<lparr>local_users := sql_update (\<lambda>v. us_google_sub v = sub) (us_email_update (\<lambda>_. email)) (local_users d)\<rparr>)
      | None \<Rightarrow>
          if exists_row (\<lambda>u. us_id u = new_id) (local_users d)
          then Inl (Db (IntegrityError ''UNIQUE constraint failed: local_users.id''))
          else Inr (new_id, d\<lparr>local_users := local_users d @ [\<lparr>us_id = new_id, us_google_sub = sub, us_email = email\<rparr>]\<rparr>))"

definition insert_session_row :: "string \<Rightarrow> string \<Rightarrow> int \<Rightarrow> identity_db \<Rightarrow> web_error + int \<times> identity_db" where
  "insert_session_row h owner expires d =
     (if exists_row (\<lambda>s. se_token_hash s = h) (local_sessions d)
      then Inl (Db (IntegrityError ''UNIQUE constraint failed: local_sessions.token_hash''))
      else Inr (int (revision d) + 1, d\<lparr>local_sessions := local_sessions d @
             [\<lparr>se_token_hash = h, se_owner_id = owner, se_expires_at = expires, se_revoked = False,
               se_written = int (revision d) + 1\<rparr>]\<rparr>))"

definition remember_candidate :: "string \<Rightarrow> string \<Rightarrow> int \<Rightarrow> unit web_op" where
  "remember_candidate owner h r w =
     (Inr (), w\<lparr>wb_identity_revisions :=
        dict_put owner (dict_put h r (coalesce_to (map_of (wb_identity_revisions w) owner) [])) (wb_identity_revisions w)\<rparr>)"

definition insert_session :: "web_env \<Rightarrow> int \<Rightarrow> string \<Rightarrow> string \<Rightarrow> string \<Rightarrow> string \<Rightarrow> string web_op" where
  "insert_session we now new_id sub email token =
     (if sub = [] \<or> email = [] then raise (Value_error ''Google identity is required'')
      else andThen (on_db (upsert_user new_id sub email)) (\<lambda>owner.
           andThen (on_db (insert_session_row (we_token_hash we token) owner (now + SESSION_SECONDS))) (\<lambda>rev.
           andThen (remember_candidate owner (we_token_hash we token) rev) (\<lambda>_. ret owner))))"

definition create_session :: "web_env \<Rightarrow> int \<Rightarrow> await \<Rightarrow> string \<Rightarrow> string \<Rightarrow> string \<Rightarrow> string \<Rightarrow> string web_op" where
  "create_session we now aw new_id token sub email =
     andThen (web_write (insert_session we now new_id sub email token)) (\<lambda>(_, rev).
     andThen (durable aw rev) (\<lambda>_. ret token))"

text \<open>The row of the query in \<open>user\<close>: a live session joined with its user.\<close>

definition session_row_of :: "web_env \<Rightarrow> int \<Rightarrow> string \<Rightarrow> identity_db \<Rightarrow> (session_row \<times> user_row) option" where
  "session_row_of we now token d =
     fetchone (\<lambda>(s, u). se_token_hash s = we_token_hash we token \<and> \<not> se_revoked s \<and> now < se_expires_at s)
       (concat (map (\<lambda>s. map (\<lambda>u. (s, u)) (filter (\<lambda>u. us_id u = se_owner_id s) (local_users d))) (local_sessions d)))"

definition still_pending :: "web \<Rightarrow> string \<Rightarrow> (string \<times> int) list" where
  "still_pending w owner =
     filter (\<lambda>(h, c). confirmed_revision (wb_checkpoints w) < c \<and>
         exists_row (\<lambda>s. se_token_hash s = h) (local_sessions (wb_db w)))
       (coalesce_to (map_of (wb_identity_revisions w) owner) [])"

definition forget_settled :: "string \<Rightarrow> web \<Rightarrow> web" where
  "forget_settled owner w =
     (case map_of (wb_identity_revisions w) owner of
        None \<Rightarrow> w
      | Some _ \<Rightarrow> w\<lparr>wb_identity_revisions := dict_put owner (still_pending w owner) (wb_identity_revisions w)\<rparr>)"

definition needed_revision :: "web_env \<Rightarrow> web \<Rightarrow> string \<Rightarrow> int" where
  "needed_revision we w owner = fold (\<lambda>(_, c) r. max r c) (still_pending w owner) (we_startup_revision we)"

fun session_user :: "web_env \<Rightarrow> int \<Rightarrow> await list \<Rightarrow> string \<Rightarrow> (string \<times> string) web_op" where
  "session_user we now aws token w =
     (case session_row_of we now token (wb_db w) of
        None \<Rightarrow> (Inl (HTTPException 401 ''session expired or absent''), w)
      | Some (s, u) \<Rightarrow>
          (let rev = needed_revision we w (us_id u); w1 = forget_settled (us_id u) w
           in if rev \<le> confirmed_revision (wb_checkpoints w1) then (Inr (us_id u, us_email u), w1)
              else case aws of
                [] \<Rightarrow> (Inl Waiting, w1)
              | aw # aws' \<Rightarrow> andThen (durable aw rev) (\<lambda>_. session_user we (aw_now aw) aws' token) w1))"

declare session_user.simps [simp del]

definition revoke_session :: "web_env \<Rightarrow> await \<Rightarrow> string \<Rightarrow> unit web_op" where
  "revoke_session we aw token =
     andThen (web_write (on_db (\<lambda>d. Inr ((), d\<lparr>local_sessions :=
         sql_update (\<lambda>s. se_token_hash s = we_token_hash we token) (se_revoked_update (\<lambda>_. True)) (local_sessions d)\<rparr>)))) (\<lambda>(_, rev).
     durable aw rev)"

section \<open>Web requests\<close>

text \<open>
  \<open>urlsplit\<close> drops leading control characters and spaces and every tab and line break; a text that then starts with
  two slashes has a network location, which it may refuse (\<open>bad_netloc\<close>).  A text that starts with one slash has
  neither scheme nor network location.
\<close>

definition url_clean :: "string \<Rightarrow> string" where
  "url_clean s = filter (\<lambda>c. c \<notin> {CHR 0x09, CHR 0x0A, CHR 0x0D}) (dropWhile (\<lambda>c. (of_char c :: nat) \<le> 32) s)"

definition starts :: "string \<Rightarrow> string \<Rightarrow> bool" where
  "starts p s \<longleftrightarrow> take (length p) s = p"

definition url_fragment :: "string \<Rightarrow> string" where
  "url_fragment s = tl (dropWhile (\<lambda>c. c \<noteq> CHR ''#'') s)"

definition safe_return_path :: "(string \<Rightarrow> bool) \<Rightarrow> string \<Rightarrow> web_error + string" where
  "safe_return_path bad_netloc value =
     (if starts ''//'' (url_clean value) \<and> bad_netloc (takeWhile (\<lambda>c. c \<notin> set ''/?#'') (drop 2 (url_clean value)))
      then Inl (Value_error ''urlsplit'')
      else if \<not> starts ''/'' value \<or> starts ''//'' value \<or> CHR 0x5C \<in> set value \<or>
        list_ex (\<lambda>c. (of_char c :: nat) < 32) value \<or> url_fragment (url_clean value) \<noteq> []
      then Inl (HTTPException 400 ''invalid return path'')
      else Inr value)"

text \<open>\<open>urlencode\<close> of a list of fields, and the answer to an HTTP request: none, or a status and the JSON value of the body.\<close>

definition quote_plus :: "string \<Rightarrow> string" where
  "quote_plus s = concat (map (\<lambda>c. if c = CHR '' '' then ''+'' else if unreserved c \<and> c \<noteq> CHR ''/'' then [c]
     else [CHR ''%'', ''0123456789ABCDEF'' ! (of_char c div 16), ''0123456789ABCDEF'' ! (of_char c mod 16)]) s)"

fun urlencode :: "(string \<times> string) list \<Rightarrow> string" where
  "urlencode [] = []"
| "urlencode [(k, v)] = quote_plus k @ ''='' @ quote_plus v"
| "urlencode ((k, v) # fs) = quote_plus k @ ''='' @ quote_plus v @ ''&'' @ urlencode fs"

datatype http_reply = No_reply | Reply int "pyval option"

record web_settings =
  st_api_key :: string
  st_wpp_api_token :: "string option"
  st_wpp_owner_id :: "string option"
  st_web_origin :: "string option"

record web_request =
  rq_method :: string
  rq_authorization :: "string option"
  rq_x_api_key :: "string option"
  rq_origin :: "string option"
  rq_session_cookie :: string

definition require_origin :: "web_settings \<Rightarrow> web_request \<Rightarrow> unit web_op" where
  "require_origin st rq =
     (if rq_origin rq \<noteq> st_web_origin st then raise (HTTPException 403 ''invalid origin'') else ret ())"

definition sqlite_503 :: "string \<Rightarrow> 'a web_op \<Rightarrow> 'a web_op" where
  "sqlite_503 detail m = catch m (\<lambda>e. raise (case e of Db (IntegrityError _) \<Rightarrow> HTTPException 503 detail | _ \<Rightarrow> e))"

text \<open>The user with the identifier of the session.\<close>

definition authenticated_web_user :: "web_env \<Rightarrow> int \<Rightarrow> await list \<Rightarrow> string \<Rightarrow> (string \<times> string \<times> string) web_op" where
  "authenticated_web_user we now aws cookie =
     sqlite_503 ''session store unavailable'' (andThen (session_user we now aws cookie) (\<lambda>(i, email).
       ret (i, email, we_token_hash we cookie)))"

section \<open>Task access\<close>

definition ascii_text :: "string \<Rightarrow> bool" where
  "ascii_text s \<longleftrightarrow> list_all (\<lambda>c. (of_char c :: nat) < 128) s"

text \<open>\<open>secrets.compare_digest\<close> of two texts: only ASCII is accepted.\<close>

definition compare_digest :: "string \<Rightarrow> string \<Rightarrow> bool web_op" where
  "compare_digest a b = (if ascii_text a \<and> ascii_text b then ret (a = b) else raise (Uncaught ''TypeError''))"

definition header_lower :: "string \<Rightarrow> string" where
  "header_lower s = map (\<lambda>c. if 65 \<le> (of_char c :: nat) \<and> (of_char c :: nat) \<le> 90 then char_of (of_char c + 32 :: nat) else c) s"

definition bearer_owner :: "web_settings \<Rightarrow> web_request \<Rightarrow> string option web_op" where
  "bearer_owner st rq =
     (let header = coalesce_to (rq_authorization rq) [];
          scheme = takeWhile (\<lambda>c. c \<noteq> CHR '' '') header; rest = dropWhile (\<lambda>c. c \<noteq> CHR '' '') header; token = tl rest;
          refuse = raise (HTTPException 401 ''invalid WPP authorization'')
      in if rq_x_api_key rq \<noteq> None \<or> header_lower scheme \<noteq> ''bearer'' \<or> rest = [] \<or> \<not> ascii_text token \<or>
           \<not> truthy (st_wpp_api_token st)
         then refuse
         else andThen (compare_digest token (coalesce_to (st_wpp_api_token st) [])) (\<lambda>ok.
              if \<not> ok then refuse else ret (st_wpp_owner_id st)))"

definition operator_key :: "web_settings \<Rightarrow> string \<Rightarrow> string option web_op" where
  "operator_key st supplied =
     andThen (compare_digest supplied (st_api_key st)) (\<lambda>ok.
       if \<not> ok then raise (HTTPException 401 ''Unauthorized'') else ret None)"

text \<open>\<open>task_access\<close>: the owner the request acts for, \<open>None\<close> for the operator.\<close>

definition task_access :: "web_env \<Rightarrow> web_settings \<Rightarrow> int \<Rightarrow> await list \<Rightarrow> web_request \<Rightarrow> string option web_op" where
  "task_access we st now aws rq =
     (if rq_authorization rq \<noteq> None
      then (if rq_x_api_key rq \<noteq> None then raise (HTTPException 401 ''ambiguous authentication'')
            else bearer_owner st rq)
      else case rq_x_api_key rq of
        Some supplied \<Rightarrow> operator_key st supplied
      | None \<Rightarrow>
          if rq_session_cookie rq = [] then raise (HTTPException 401 ''Unauthorized'')
          else andThen (if rq_method rq \<notin> {''GET'', ''HEAD'', ''OPTIONS''} then require_origin st rq else ret ()) (\<lambda>_.
               andThen (authenticated_web_user we now aws (rq_session_cookie rq)) (\<lambda>(i, _, _). ret (Some i))))"

definition socket_owner :: "web_env \<Rightarrow> web_settings \<Rightarrow> int \<Rightarrow> await list \<Rightarrow> web_request \<Rightarrow> string option web_op" where
  "socket_owner we st now aws rq =
     (if rq_authorization rq \<noteq> None
      then (if rq_x_api_key rq \<noteq> None then raise (HTTPException 401 ''ambiguous authentication'')
            else bearer_owner st rq)
      else case rq_x_api_key rq of
        Some supplied \<Rightarrow> operator_key st supplied
      | None \<Rightarrow>
          if rq_session_cookie rq = [] \<or> rq_origin rq \<noteq> st_web_origin st then raise (HTTPException 401 ''Unauthorized'')
          else andThen (authenticated_web_user we now aws (rq_session_cookie rq)) (\<lambda>(i, _, _). ret (Some i)))"

definition operator_only :: "string option \<Rightarrow> unit web_op" where
  "operator_only owner = (if owner \<noteq> None then raise (HTTPException 403 ''Forbidden'') else ret ())"

end
