(* ===== verification/Identity_Props.thy ===== *)
theory Identity_Props
  imports Identity
begin

text \<open>
  What sessions guarantee.  \<open>tracked\<close> is the invariant behind \<open>_identity_revisions\<close>: a session that is not yet confirmed
  is remembered with the revision that wrote it.  Every transaction of the web interface keeps it, and with it a session is
  accepted only once it is durable.
\<close>

section \<open>The durability barrier\<close>

lemma ensure_durable_confirms:
  assumes "ensure_durable [a] target c = Some (r, c')" "confirmed_revision c \<le> db_revision c"
  shows "confirmed_revision c \<le> confirmed_revision c' \<and> confirmed_revision c' \<le> db_revision c \<and> db_revision c' = db_revision c \<and>
    (\<forall>x. r = Inr x \<longrightarrow> target \<le> confirmed_revision c')"
proof -
  have "confirmed_revision c \<le> confirmed_revision c1 \<and> confirmed_revision c1 \<le> db_revision c \<and> db_revision c1 = db_revision c"
    if "checkpoint a (Some target) c = (q, c1)" for q c1
    using that assms(2)
    by (auto simp: checkpoint_def checkpoint_begin_def checkpoint_settle_def checkpoint_cancel_def Let_def
        split: option.splits if_splits)
  then show ?thesis using assms
    by (auto simp: ensure_durable_def ensure_loop.simps [of "[a]"] ensure_loop.simps [of "[]"]
        split: if_splits prod.splits sum.splits)
qed

section \<open>Transactions of one statement\<close>

lemma web_write_statement:
  "web_write (on_db f) w =
     (case f (wb_db w) of
        Inl e \<Rightarrow> (Inl e, w)
      | Inr (x, d) \<Rightarrow> (case db_write (\<lambda>_. Inr (x, d)) (wb_db w) of
           (Inl e, d') \<Rightarrow> (Inl (Db e), w\<lparr>wb_db := d'\<rparr>) | (Inr y, d') \<Rightarrow> (Inr (y, int (revision d')), w\<lparr>wb_db := d'\<rparr>)))"
  by (auto simp: web_write_def on_db_def split: sum.splits prod.splits)

lemma write_keeps_statement:
  assumes "\<And>w x d. f (wb_db w) = Inr (x, d) \<Longrightarrow> R w (w\<lparr>wb_db := d\<lparr>revision := Suc (revision d)\<rparr>\<rparr>)" "\<And>w. R w w"
  shows "keeps R (web_write (on_db f))"
proof (rule keepsI)
  fix w
  show "R w (snd (web_write (on_db f) w))"
  proof (cases "f (wb_db w)")
    case (Inr xd)
    obtain x d where xd: "xd = (x, d)" by fastforce
    show ?thesis
    proof (cases "revision d = revision (wb_db w)")
      case True
      then show ?thesis using assms(1) [of w x d] Inr xd by (simp add: web_write_statement db_write_def)
    qed (simp add: web_write_statement db_write_def Inr xd assms(2))
  qed (simp add: web_write_statement assms(2))
qed

lemma forget_same [simp]:
  "wb_db (forget_settled owner w) = wb_db w" "wb_checkpoints (forget_settled owner w) = wb_checkpoints w"
  "wb_exchanges (forget_settled owner w) = wb_exchanges w"
  by (simp_all add: forget_settled_def split: option.splits)

text \<open>
  A relation on the tables and the exchanges alone is kept by every part of a request that does not write them, as long as the other
  coroutines keep it while the request waits.
\<close>

definition await_keeps :: "(web \<Rightarrow> web \<Rightarrow> bool) \<Rightarrow> await \<Rightarrow> bool" where
  "await_keeps R aw \<longleftrightarrow> (\<forall>w. R w (aw_before aw w) \<and> R w (aw_after aw w))"

locale table_relation = kept_relation R for R :: "web \<Rightarrow> web \<Rightarrow> bool" +
  assumes memory_blind: "wb_db w' = wb_db w \<Longrightarrow> wb_exchanges w' = wb_exchanges w \<Longrightarrow> R w w'"
begin

lemma keeps_durable: "await_keeps R aw \<Longrightarrow> keeps R (durable aw target)"
proof (rule keepsI)
  fix w
  assume aw: "await_keeps R aw"
  obtain c where "snd (durable aw target w) = aw_after aw ((aw_before aw w)\<lparr>wb_checkpoints := c\<rparr>)"
  proof (cases "ensure_durable [aw_attempt aw] target ((wb_checkpoints (aw_before aw w))\<lparr>db_revision := int (revision (wb_db (aw_before aw w)))\<rparr>)")
    case None
    then show ?thesis using that [of "wb_checkpoints (aw_before aw w)"] by (simp add: durable_def Let_def)
  next
    case (Some rc)
    then show ?thesis using that [of "snd rc"] by (cases rc) (auto simp: durable_def Let_def split: sum.splits)
  qed
  moreover have "R w ((aw_before aw w)\<lparr>wb_checkpoints := c\<rparr>)"
    using aw kept_trans [OF _ memory_blind, of w "aw_before aw w"] unfolding await_keeps_def by simp
  ultimately show "R w (snd (durable aw target w))"
    using aw kept_trans unfolding await_keeps_def by metis
qed

lemma keeps_session: "list_all (await_keeps R) aws \<Longrightarrow> keeps R (session_user we now aws token)"
proof (induction aws arbitrary: now)
  case (Cons aw aws)
  have rest: "keeps R (andThen (durable aw n) (\<lambda>_. session_user we (aw_now aw) aws token))" for n
    using Cons by (auto intro!: keeps_andThen keeps_durable)
  show ?case
  proof (rule keepsI)
    fix w
    show "R w (snd (session_user we now (aw # aws) token w))"
      using kept_trans [OF memory_blind keepsD [OF rest]] memory_blind
      by (subst session_user.simps) (auto simp: Let_def kept_refl split: option.splits)
  qed
next
  case Nil
  show ?case
    by (rule keepsI) (subst session_user.simps, auto simp: Let_def intro!: memory_blind split: option.splits)
qed

lemma keeps_503: "keeps R m \<Longrightarrow> keeps R (sqlite_503 detail m)"
  unfolding sqlite_503_def by (intro keeps_catch keeps_raise)

lemma keeps_authenticated: "list_all (await_keeps R) aws \<Longrightarrow> keeps R (authenticated_web_user we now aws cookie)"
  unfolding authenticated_web_user_def by (auto intro!: keeps_503 keeps_andThen keeps_session keeps_ret)

lemma keeps_origin: "keeps R (require_origin st rq)"
  unfolding require_origin_def by (auto intro: keeps_raise keeps_ret)

lemma keeps_digest: "keeps R (compare_digest a b)"
  unfolding compare_digest_def by (auto intro: keeps_raise keeps_ret)

lemma keeps_statement:
  assumes "\<And>w x d. f (wb_db w) = Inr (x, d) \<Longrightarrow> R w (w\<lparr>wb_db := d\<lparr>revision := Suc (revision d)\<rparr>\<rparr>)"
  shows "keeps R (web_write (on_db f))"
  using assms kept_refl by (rule write_keeps_statement)

lemmas web_rules = keeps_rules keeps_durable keeps_503 keeps_authenticated keeps_origin keeps_digest

end

section \<open>Tracking\<close>

definition candidate :: "web \<Rightarrow> string \<Rightarrow> string \<Rightarrow> int option" where
  "candidate w owner h = (case map_of (wb_identity_revisions w) owner of None \<Rightarrow> None | Some p \<Rightarrow> map_of p h)"

definition session_keys :: "web \<Rightarrow> (string \<times> string \<times> int) set" where
  "session_keys w = (\<lambda>s. (se_owner_id s, se_token_hash s, se_written s)) ` set (local_sessions (wb_db w))"

definition settled_session :: "web_env \<Rightarrow> web \<Rightarrow> string \<times> string \<times> int \<Rightarrow> bool" where
  "settled_session we w k \<longleftrightarrow> (case k of (owner, h, r) \<Rightarrow>
     r \<le> we_startup_revision we \<or> r \<le> confirmed_revision (wb_checkpoints w) \<or> candidate w owner h = Some r)"

definition candidates_ok :: "web \<Rightarrow> bool" where
  "candidates_ok w \<longleftrightarrow> (\<forall>owner p. map_of (wb_identity_revisions w) owner = Some p \<longrightarrow> distinct (map fst p))"

definition tracked_to :: "web_env \<Rightarrow> int \<Rightarrow> web \<Rightarrow> bool" where
  "tracked_to we n w \<longleftrightarrow> confirmed_revision (wb_checkpoints w) \<le> int (revision (wb_db w)) \<and>
     distinct (map se_token_hash (local_sessions (wb_db w))) \<and> candidates_ok w \<and>
     (\<forall>k\<in>session_keys w. settled_session we w k \<and> snd (snd k) \<le> n)"

definition tracked :: "web_env \<Rightarrow> web \<Rightarrow> bool" where
  "tracked we w \<longleftrightarrow> tracked_to we (int (revision (wb_db w))) w"

definition tracking :: "web_env \<Rightarrow> web \<Rightarrow> web \<Rightarrow> bool" where
  "tracking we w w' \<longleftrightarrow> (tracked we w \<longrightarrow> tracked we w')"

interpretation tracks: kept_relation "tracking we" for we
  by unfold_locales (simp_all add: tracking_def)

text \<open>The same inside a transaction, where a new session already carries the revision of the commit.\<close>

definition in_body :: "web_env \<Rightarrow> web \<Rightarrow> web \<Rightarrow> bool" where
  "in_body we w w' \<longleftrightarrow> revision (wb_db w') = revision (wb_db w) \<and> wb_checkpoints w' = wb_checkpoints w \<and>
     session_keys w \<subseteq> session_keys w' \<and> (\<forall>(owner, h, r)\<in>session_keys w. candidate w' owner h = candidate w owner h) \<and>
     (tracked_to we (int (revision (wb_db w)) + 1) w \<longrightarrow> tracked_to we (int (revision (wb_db w)) + 1) w')"

interpretation bodies: kept_relation "in_body we" for we
proof (unfold_locales, goal_cases)
  case (2 s t u)
  have "candidate u owner h = candidate s owner h" if "(owner, h, r) \<in> session_keys s" for owner h r
  proof -
    have "(owner, h, r) \<in> session_keys t" using 2(1) that unfolding in_body_def by blast
    then have "candidate u owner h = candidate t owner h" using 2(2) unfolding in_body_def by blast
    also have "\<dots> = candidate s owner h" using 2(1) that unfolding in_body_def by blast
    finally show ?thesis .
  qed
  then show ?case using 2 unfolding in_body_def by auto
qed (auto simp: in_body_def)

lemma distinct_dict_put: "distinct (map fst d) \<Longrightarrow> distinct (map fst (dict_put k v d))"
proof (cases "k \<in> fst ` set d")
  case True
  have "map fst (map (\<lambda>p. if fst p = k then (k, v) else p) d) = map fst d" by (induction d) auto
  then show "distinct (map fst d) \<Longrightarrow> ?thesis" using True by (simp only: dict_put_def if_True)
qed (simp add: dict_put_def)

lemma tracked_to_mono: "tracked_to we n w \<Longrightarrow> n \<le> m \<Longrightarrow> tracked_to we m w"
  unfolding tracked_to_def by fastforce

lemma tracks_write:
  assumes "keeps (in_body we) body"
  shows "keeps (tracking we) (web_write body)"
proof (rule keepsI, unfold tracking_def, rule impI)
  fix w
  assume t: "tracked we w"
  obtain r w1 where b: "body w = (r, w1)" by fastforce
  have k: "in_body we w w1" using keepsD [OF assms, of w] b by simp
  have t1: "tracked_to we (int (revision (wb_db w)) + 1) w1"
    using k t tracked_to_mono unfolding in_body_def tracked_def by fastforce
  have same: "\<forall>(owner, h, r)\<in>session_keys w. candidate w1 owner h = candidate w owner h"
    and c1: "wb_checkpoints w1 = wb_checkpoints w" and rv: "revision (wb_db w1) = revision (wb_db w)"
    using k unfolding in_body_def by auto
  have rolled: "tracked we (w1\<lparr>wb_db := wb_db w\<rparr>)"
    using t t1 same c1
    by (auto simp: tracked_def tracked_to_def session_keys_def settled_session_def candidate_def candidates_ok_def)
  have commit: "tracked we (w1\<lparr>wb_db := (wb_db w1)\<lparr>revision := Suc (revision (wb_db w1))\<rparr>\<rparr>)"
    using t1 rv by (auto simp: tracked_def tracked_to_def session_keys_def settled_session_def candidate_def candidates_ok_def)
  show "tracked we (snd (web_write body w))"
    using rolled commit rv by (simp add: web_write_def b db_write_def split: sum.splits)
qed

lemma in_body_same:
  assumes "revision d = revision (wb_db w)" "local_sessions d = local_sessions (wb_db w)"
  shows "in_body we w (w\<lparr>wb_db := d\<rparr>)"
  using assms by (auto simp: in_body_def tracked_to_def session_keys_def settled_session_def candidate_def candidates_ok_def)

lemma in_body_statement:
  assumes "\<And>d x d'. f d = Inr (x, d') \<Longrightarrow> revision d' = revision d \<and> local_sessions d' = local_sessions d"
  shows "keeps (in_body we) (on_db f)"
  by (rule keepsI) (auto simp: on_db_def bodies.kept_refl split: sum.splits intro!: in_body_same dest: assms)

lemma in_body_new_session:
  "keeps (in_body we) (andThen (on_db (insert_session_row h owner expires)) (\<lambda>r.
     andThen (remember_candidate owner h r) (\<lambda>_. ret x)))"
proof (rule keepsI)
  fix w
  let ?m = "andThen (on_db (insert_session_row h owner expires)) (\<lambda>r. andThen (remember_candidate owner h r) (\<lambda>_. ret x))"
  show "in_body we w (snd (?m w))"
  proof (cases "exists_row (\<lambda>s. se_token_hash s = h) (local_sessions (wb_db w))")
    case True
    then show ?thesis by (simp add: andThen_def on_db_def insert_session_row_def bodies.kept_refl)
  next
    case False
    then show ?thesis
      by (auto simp: andThen_def on_db_def insert_session_row_def remember_candidate_def ret_def in_body_def session_keys_def
          candidate_def map_of_dict_put distinct_dict_put tracked_to_def settled_session_def candidates_ok_def coalesce_to_def
          split: option.splits)
  qed
qed

lemma tracks_sessions:
  "keeps (tracking we) (web_write (insert_session we now new_id sub email token))"
  "keeps (tracking we) (web_write (on_db (\<lambda>d. Inr ((), d\<lparr>local_sessions :=
      sql_update (\<lambda>s. se_token_hash s = h) (se_revoked_update (\<lambda>_. True)) (local_sessions d)\<rparr>))))"
proof -
  have "keeps (in_body we) (on_db (upsert_user new_id sub email))"
    by (rule in_body_statement) (auto simp: upsert_user_def split: option.splits if_splits)
  then have "keeps (in_body we) (insert_session we now new_id sub email token)"
    unfolding insert_session_def by (simp add: bodies.keeps_raise bodies.keeps_andThen [OF _ in_body_new_session])
  then show "keeps (tracking we) (web_write (insert_session we now new_id sub email token))" by (rule tracks_write)
  have "in_body we w (snd (on_db (\<lambda>d. Inr ((), d\<lparr>local_sessions :=
      sql_update (\<lambda>s. se_token_hash s = h) (se_revoked_update (\<lambda>_. True)) (local_sessions d)\<rparr>)) w))" for w
  proof -
    let ?d = "(wb_db w)\<lparr>local_sessions := sql_update (\<lambda>s. se_token_hash s = h) (se_revoked_update (\<lambda>_. True)) (local_sessions (wb_db w))\<rparr>"
    have "session_keys (w\<lparr>wb_db := ?d\<rparr>) = session_keys w"
      by (simp add: session_keys_def image_sql_update)
    moreover have "map se_token_hash (local_sessions ?d) = map se_token_hash (local_sessions (wb_db w))"
      by (simp add: map_sql_update)
    ultimately show ?thesis
      by (auto simp: on_db_def in_body_def tracked_to_def settled_session_def candidate_def candidates_ok_def)
  qed
  then show "keeps (tracking we) (web_write (on_db (\<lambda>d. Inr ((), d\<lparr>local_sessions :=
      sql_update (\<lambda>s. se_token_hash s = h) (se_revoked_update (\<lambda>_. True)) (local_sessions d)\<rparr>))))"
    by (intro tracks_write keepsI)
qed

text \<open>Other coroutines keep the invariant while this one waits.\<close>

definition fair_await :: "web_env \<Rightarrow> await \<Rightarrow> bool" where
  "fair_await we aw \<longleftrightarrow> (\<forall>w. tracking we w (aw_before aw w) \<and> tracking we w (aw_after aw w))"

lemma durable_tracks:
  assumes "fair_await we aw"
  shows "keeps (tracking we) (durable aw target)"
proof (rule keepsI, unfold tracking_def, rule impI)
  fix w
  assume t: "tracked we w"
  define w1 where "w1 = aw_before aw w"
  define c where "c = (wb_checkpoints w1)\<lparr>db_revision := int (revision (wb_db w1))\<rparr>"
  have t1: "tracked we w1" using assms t unfolding fair_await_def tracking_def w1_def by blast
  have le: "confirmed_revision c \<le> db_revision c" using t1 by (simp add: c_def tracked_def tracked_to_def)
  have "tracked we (w1\<lparr>wb_checkpoints := c'\<rparr>)" if "ensure_durable [aw_attempt aw] target c = Some (r, c')" for r c'
    using ensure_durable_confirms [OF that le] t1
    by (auto simp: c_def tracked_def tracked_to_def session_keys_def settled_session_def candidate_def candidates_ok_def)
  then show "tracked we (snd (durable aw target w))"
    using assms t1 unfolding fair_await_def tracking_def durable_def Let_def w1_def [symmetric] c_def [symmetric]
    by (auto split: option.splits sum.splits)
qed

section \<open>Accepted sessions\<close>

lemma map_of_filter_key:
  "distinct (map fst p) \<Longrightarrow> map_of (filter P p) h = (case map_of p h of None \<Rightarrow> None | Some c \<Rightarrow> if P (h, c) then Some c else None)"
proof (induction p)
  case (Cons a p)
  obtain k c where a: "a = (k, c)" by fastforce
  show ?case
  proof (cases "k = h")
    case True
    then have "map_of p h = None" using Cons.prems a by (auto simp: map_of_eq_None_iff)
    then show ?thesis using Cons a True by simp
  qed (use Cons a in simp)
qed simp

lemma candidate_forget:
  assumes "candidates_ok w"
  shows "candidate (forget_settled owner w) o' h =
    (case candidate w o' h of None \<Rightarrow> None
     | Some c \<Rightarrow> if o' = owner \<and> \<not> (confirmed_revision (wb_checkpoints w) < c \<and>
           exists_row (\<lambda>s. se_token_hash s = h) (local_sessions (wb_db w))) then None else Some c)"
  using assms
  by (auto simp: forget_settled_def candidate_def map_of_dict_put still_pending_def coalesce_to_def candidates_ok_def
      map_of_filter_key split: option.splits)

lemma forget_tracks: "tracked we w \<Longrightarrow> tracked we (forget_settled owner w)"
proof -
  assume t: "tracked we w"
  then have ok: "candidates_ok w" by (simp add: tracked_def tracked_to_def)
  have "candidates_ok (forget_settled owner w)"
    using ok by (auto simp: candidates_ok_def forget_settled_def map_of_dict_put still_pending_def coalesce_to_def
        distinct_map_filter split: option.splits if_splits)
  moreover have "settled_session we (forget_settled owner w) k" if "k \<in> session_keys w" for k
  proof -
    obtain o' h r where k: "k = (o', h, r)" by (metis prod_cases3)
    have "settled_session we w k" using t that unfolding tracked_def tracked_to_def by blast
    moreover have "\<exists>s\<in>set (local_sessions (wb_db w)). se_token_hash s = h"
      using that unfolding k session_keys_def by auto
    ultimately show ?thesis unfolding k settled_session_def by (auto simp: candidate_forget [OF ok] split: option.splits)
  qed
  ultimately show ?thesis using t by (auto simp: tracked_def tracked_to_def session_keys_def)
qed

lemma needed_revision_bounds:
  "we_startup_revision we \<le> needed_revision we w owner"
  "(h, c) \<in> set (still_pending w owner) \<Longrightarrow> c \<le> needed_revision we w owner"
proof -
  have "r \<le> fold (\<lambda>(_, c) r. max r c) ps r \<and> (\<forall>(h, c)\<in>set ps. c \<le> fold (\<lambda>(_, c) r. max r c) ps r)"
    for ps :: "(string \<times> int) list" and r :: int
  proof (induction ps arbitrary: r)
    case (Cons p ps)
    obtain h c where p: "p = (h, c)" by fastforce
    have "max r c \<le> fold (\<lambda>(_, c) r. max r c) ps (max r c)" using Cons by blast
    then show ?case using Cons [of "max r c"] by (auto simp: p)
  qed simp
  then show "we_startup_revision we \<le> needed_revision we w owner"
    "(h, c) \<in> set (still_pending w owner) \<Longrightarrow> c \<le> needed_revision we w owner"
    unfolding needed_revision_def by blast+
qed

text \<open>What is known of a session when it is accepted.\<close>

definition live_session :: "web_env \<Rightarrow> int \<Rightarrow> string \<Rightarrow> string \<times> string \<Rightarrow> web \<Rightarrow> bool" where
  "live_session we now token user w \<longleftrightarrow> (\<exists>s\<in>set (local_sessions (wb_db w)). \<exists>u\<in>set (local_users (wb_db w)).
     se_token_hash s = we_token_hash we token \<and> \<not> se_revoked s \<and> now < se_expires_at s \<and> us_id u = se_owner_id s \<and>
     user = (us_id u, us_email u) \<and> se_written s \<le> confirmed_revision (wb_checkpoints w))"

lemma accepted_session_live:
  assumes t: "tracked we w" and row: "session_row_of we now token (wb_db w) = Some (s, u)"
    and c: "needed_revision we w (us_id u) \<le> confirmed_revision (wb_checkpoints w)"
  shows "live_session we now token (us_id u, us_email u) (forget_settled (us_id u) w)"
proof -
  have s: "s \<in> set (local_sessions (wb_db w))" "u \<in> set (local_users (wb_db w))" "us_id u = se_owner_id s"
      "se_token_hash s = we_token_hash we token" "\<not> se_revoked s" "now < se_expires_at s"
    using fetchone_SomeD [OF row [unfolded session_row_of_def]] by auto
  have "settled_session we w (se_owner_id s, se_token_hash s, se_written s)"
    using t s(1) unfolding tracked_def tracked_to_def session_keys_def by blast
  then consider "se_written s \<le> we_startup_revision we" | "se_written s \<le> confirmed_revision (wb_checkpoints w)"
    | "candidate w (se_owner_id s) (se_token_hash s) = Some (se_written s)"
    unfolding settled_session_def by auto
  then have "se_written s \<le> confirmed_revision (wb_checkpoints w)"
  proof cases
    case 1
    then show ?thesis using needed_revision_bounds(1) [of we w "us_id u"] c by linarith
  next
    case 3
    show ?thesis
    proof (rule ccontr)
      assume n: "\<not> ?thesis"
      obtain p where p: "map_of (wb_identity_revisions w) (us_id u) = Some p" "map_of p (se_token_hash s) = Some (se_written s)"
        using 3 s(3) by (auto simp: candidate_def split: option.splits)
      then have "(se_token_hash s, se_written s) \<in> set (still_pending w (us_id u))"
        using n s(1) by (auto simp: still_pending_def coalesce_to_def dest: map_of_SomeD)
      then have "se_written s \<le> needed_revision we w (us_id u)" by (rule needed_revision_bounds(2))
      then show False using c n by linarith
    qed
  qed
  then show ?thesis unfolding live_session_def
    using s by (intro bexI [of _ s] bexI [of _ u]) simp_all
qed

lemma session_user_live:
  assumes "tracked we w" "list_all (fair_await we) aws" "session_user we now aws token w = (r, w')"
  shows "tracked we w' \<and> (\<forall>user. r = Inr user \<longrightarrow>
     (\<exists>now'\<in>set (now # map aw_now aws). live_session we now' token user w'))"
  using assms
proof (induction aws arbitrary: now w)
  case (Cons aw aws)
  show ?case
  proof (cases "session_row_of we now token (wb_db w)")
    case None
    then show ?thesis using Cons.prems by (auto simp: session_user.simps)
  next
    case (Some su)
    obtain s u where su: "su = (s, u)" by fastforce
    let ?w = "forget_settled (us_id u) w"
    have t1: "tracked we ?w" using forget_tracks Cons.prems(1) .
    show ?thesis
    proof (cases "needed_revision we w (us_id u) \<le> confirmed_revision (wb_checkpoints ?w)")
      case True
      then show ?thesis using Cons.prems accepted_session_live [OF Cons.prems(1)] Some su t1
        by (auto simp: session_user.simps)
    next
      case False
      then have eq: "andThen (durable aw (needed_revision we w (us_id u))) (\<lambda>_. session_user we (aw_now aw) aws token) ?w = (r, w')"
        using Cons.prems(3) Some su by (simp add: session_user.simps)
      obtain q w2 where d: "durable aw (needed_revision we w (us_id u)) ?w = (q, w2)" by fastforce
      have t2: "tracked we w2"
        using keepsD [OF durable_tracks, of we aw ?w "needed_revision we w (us_id u)"] Cons.prems(2) t1 d by (simp add: tracking_def)
      show ?thesis
      proof (cases q)
        case (Inl e)
        then show ?thesis using eq d t2 by (auto simp: andThen_def)
      next
        case (Inr x)
        then have "session_user we (aw_now aw) aws token w2 = (r, w')" using eq d by (simp add: andThen_def)
        with Cons.IH [OF t2 _ this] Cons.prems(2) show ?thesis by auto
      qed
    qed
  qed
next
  case Nil
  then show ?case using accepted_session_live [OF Nil(1)] forget_tracks [OF Nil(1)]
    by (auto simp: session_user.simps [of we now "[]"] Let_def split: option.splits if_splits)
qed

lemma tracks_authenticated: "list_all (fair_await we) aws \<Longrightarrow> keeps (tracking we) (authenticated_web_user we now aws cookie)"
proof -
  assume aws: "list_all (fair_await we) aws"
  have "keeps (tracking we) (session_user we now aws cookie)"
  proof (rule keepsI, unfold tracking_def, rule impI)
    fix w
    assume "tracked we w"
    then show "tracked we (snd (session_user we now aws cookie w))"
      using session_user_live [OF _ aws, of w now cookie] by (cases "session_user we now aws cookie w") auto
  qed
  then show ?thesis unfolding authenticated_web_user_def sqlite_503_def by (auto intro!: tracks.keeps_rules)
qed

text \<open>
  C9: A session is accepted only while it is live and once it is durable.  Whatever other requests do while this one waits
  for a checkpoint, the user that is returned belongs to a session with the hash of the presented token which at that moment
  is stored, not revoked, not expired, and whose insertion the coordinator has confirmed; the bookkeeping of unconfirmed
  sessions stays intact.
\<close>

theorem session_user_durable:
  assumes "tracked we w" "list_all (fair_await we) aws" "session_user we now aws token w = (r, w')"
  shows "tracked we w' \<and> (case r of Inl _ \<Rightarrow> True
    | Inr user \<Rightarrow> \<exists>now'\<in>set (now # map aw_now aws). live_session we now' token user w')"
  using session_user_live [OF assms] by (auto split: sum.splits)

definition sample_web_env :: web_env where
  "sample_web_env = \<lparr>we_token_hash = (\<lambda>t. ''h:'' @ t), we_startup_revision = 0\<rparr>"

definition empty_web :: web where
  "empty_web = \<lparr>wb_db = empty_identity_db, wb_checkpoints = (new_coordinator 0)\<lparr>confirmed_revision := 0\<rparr>,
     wb_identity_revisions = [], wb_exchanges = []\<rparr>"

definition calm_await :: await where
  "calm_await = \<lparr>aw_before = (\<lambda>w. w), aw_attempt = \<lparr>at_publish_error = None, at_cancelled = False, at_stored = True, at_reply = None\<rparr>,
     aw_after = (\<lambda>w. w), aw_now = 5\<rparr>"

definition signed_in_web :: web where
  "signed_in_web = snd (web_write (insert_session sample_web_env 0 ''u1'' ''sub'' ''a@b'' ''t'') empty_web)"

lemma empty_web_tracked: "tracked we empty_web"
  by (simp add: tracked_def tracked_to_def empty_web_def empty_identity_db_def new_coordinator_def session_keys_def candidates_ok_def)

lemma signed_in_tracked: "tracked sample_web_env signed_in_web"
  using keepsD [OF tracks_sessions(1), of sample_web_env empty_web] empty_web_tracked
  unfolding signed_in_web_def tracking_def by blast

lemma calm_fair: "fair_await we calm_await"
  by (simp add: fair_await_def calm_await_def tracking_def)

theorem session_user_durable_witness:
  "\<exists>w'. session_user sample_web_env 0 [calm_await] ''t'' signed_in_web = (Inr (''u1'', ''a@b''), w') \<and>
     confirmed_revision (wb_checkpoints signed_in_web) = 0 \<and> confirmed_revision (wb_checkpoints w') = 1 \<and>
     live_session sample_web_env 5 ''t'' (''u1'', ''a@b'') w'"
proof -
  obtain r w' where c: "session_user sample_web_env 0 [calm_await] ''t'' signed_in_web = (r, w')" by fastforce
  have "fst (session_user sample_web_env 0 [calm_await] ''t'' signed_in_web) = Inr (''u1'', ''a@b'')"
    "confirmed_revision (wb_checkpoints (snd (session_user sample_web_env 0 [calm_await] ''t'' signed_in_web))) = 1"
    "confirmed_revision (wb_checkpoints signed_in_web) = 0"
    "list_all (\<lambda>s. se_expires_at s = 604800) (local_sessions (wb_db (snd (session_user sample_web_env 0 [calm_await] ''t'' signed_in_web))))"
    by code_simp+
  then have v: "r = Inr (''u1'', ''a@b'')" "confirmed_revision (wb_checkpoints w') = 1"
    "confirmed_revision (wb_checkpoints signed_in_web) = 0" "list_all (\<lambda>s. se_expires_at s = 604800) (local_sessions (wb_db w'))"
    using c by simp_all
  from session_user_durable [OF signed_in_tracked _ c] v(1) calm_fair
  obtain n where "live_session sample_web_env n ''t'' (''u1'', ''a@b'') w'" by auto
  then have "live_session sample_web_env 5 ''t'' (''u1'', ''a@b'') w'"
    using v(4) by (auto simp: live_session_def list_all_iff)
  then show ?thesis using c v by simp
qed

section \<open>Task access\<close>


definition sample_settings :: web_settings where
  "sample_settings = \<lparr>st_api_key = ''key'', st_wpp_api_token = Some ''wpp'', st_wpp_owner_id = Some ''u9'', st_web_origin = Some ''https://gg''\<rparr>"

definition sample_web_request :: web_request where
  "sample_web_request = \<lparr>rq_method = ''POST'', rq_authorization = None, rq_x_api_key = None, rq_origin = Some ''https://gg'',
     rq_session_cookie = ''t''\<rparr>"


text \<open>An operator key that is not ASCII, in the request or in the settings, raises instead of being refused.\<close>

lemma operator_key_type_error:
  "operator_key (sample_settings\<lparr>st_api_key := ''key''\<rparr>) [CHR 0xC3, CHR 0xA9] w = (Inl (Uncaught ''TypeError''), w)"
  by (simp add: operator_key_def compare_digest_def ascii_text_def io_simps)

end
