(* ===== verification/Openrouter_Vault.thy ===== *)
theory Openrouter_Vault
  imports Identity_Props
begin

text \<open>
  \<open>backend/gg/runtime/openrouter_vault.py\<close>: the private OpenRouter key of a user, its store, the check of a new key
  against OpenRouter and the three HTTP handlers.  The Fernet cipher and \<open>json.loads\<close> are arguments; \<open>probe\<close>
  answers the request to the key endpoint with a status, or not at all.
\<close>

section \<open>The store\<close>

record vault_env =
  vc_encrypt :: "string \<Rightarrow> string"
  vc_decrypt :: "string \<Rightarrow> string option"
  vc_loads :: "string \<Rightarrow> pyval option"
  vc_present :: bool
  vc_probe :: "string \<Rightarrow> int option"

record vault_state =
  vs_configured :: bool
  vs_mask :: "string option"
  vs_version :: "int option"

definition credential_of :: "string \<Rightarrow> identity_db \<Rightarrow> credential_row option" where
  "credential_of owner d = fetchone (\<lambda>r. oc_owner_id r = owner) (openrouter_credentials d)"

definition vault_status :: "string \<Rightarrow> identity_db \<Rightarrow> vault_state" where
  "vault_status owner d =
     (case credential_of owner d of
        Some r \<Rightarrow> \<lparr>vs_configured = (oc_mask r \<noteq> None), vs_mask = oc_mask r, vs_version = Some (oc_version r)\<rparr>
      | None \<Rightarrow> \<lparr>vs_configured = False, vs_mask = None, vs_version = None\<rparr>)"

definition vault_resolve :: "vault_env \<Rightarrow> string \<Rightarrow> identity_db \<Rightarrow> web_error + (string \<times> int) option" where
  "vault_resolve ve owner d =
     (case fetchone (\<lambda>r. oc_owner_id r = owner \<and> oc_ciphertext r \<noteq> None) (openrouter_credentials d) of
        None \<Rightarrow> Inr None
      | Some r \<Rightarrow> (case vc_decrypt ve (coalesce_to (oc_ciphertext r) []) of
                    None \<Rightarrow> Inl InvalidToken
                  | Some key \<Rightarrow> Inr (Some (key, oc_version r))))"

text \<open>Four bullets and the last four characters.\<close>

definition key_mask :: "string \<Rightarrow> string" where
  "key_mask key = concat (replicate 4 [CHR 0xE2, CHR 0x80, CHR 0xA2]) @ drop_points (py_len key - 4) key"

definition upsert_credential :: "string \<Rightarrow> string \<Rightarrow> string \<Rightarrow> identity_db \<Rightarrow> web_error + int \<times> identity_db" where
  "upsert_credential owner ciphertext masked d =
     (case credential_of owner d of
        Some r \<Rightarrow> Inr (oc_version r + 1, d\<lparr>openrouter_credentials :=
           sql_update (\<lambda>r. oc_owner_id r = owner)
             (\<lambda>r. r\<lparr>oc_ciphertext := Some ciphertext, oc_mask := Some masked, oc_version := oc_version r + 1\<rparr>) (openrouter_credentials d)\<rparr>)
      | None \<Rightarrow>
          if \<not> exists_row (\<lambda>u. us_id u = owner) (local_users d)
          then Inl (Db (IntegrityError ''FOREIGN KEY constraint failed''))
          else Inr (1, d\<lparr>openrouter_credentials := openrouter_credentials d @
                 [\<lparr>oc_owner_id = owner, oc_ciphertext = Some ciphertext, oc_mask = Some masked, oc_version = 1\<rparr>]\<rparr>))"

definition vault_replace :: "vault_env \<Rightarrow> string \<Rightarrow> string \<Rightarrow> vault_state web_op" where
  "vault_replace ve owner key =
     andThen (web_write (on_db (upsert_credential owner (vc_encrypt ve key) (key_mask key)))) (\<lambda>(version, _).
       ret \<lparr>vs_configured = True, vs_mask = Some (key_mask key), vs_version = Some version\<rparr>)"

definition clear_credential :: "string \<Rightarrow> identity_db \<Rightarrow> web_error + int option \<times> identity_db" where
  "clear_credential owner d =
     Inr (map_option (\<lambda>r. oc_version r + 1) (credential_of owner d), d\<lparr>openrouter_credentials :=
       sql_update (\<lambda>r. oc_owner_id r = owner)
         (\<lambda>r. r\<lparr>oc_ciphertext := None, oc_mask := None, oc_version := oc_version r + 1\<rparr>) (openrouter_credentials d)\<rparr>)"

definition vault_remove :: "string \<Rightarrow> vault_state web_op" where
  "vault_remove owner =
     andThen (web_write (on_db (clear_credential owner))) (\<lambda>(version, _).
       ret \<lparr>vs_configured = False, vs_mask = None, vs_version = version\<rparr>)"

definition vault_durable :: "await \<Rightarrow> unit web_op" where
  "vault_durable aw = andThen (reading (\<lambda>w. int (revision (wb_db w)))) (durable aw)"

section \<open>Handlers\<close>

definition verify_key :: "vault_env \<Rightarrow> string \<Rightarrow> unit web_op" where
  "verify_key ve key =
     (case vc_probe ve key of
        None \<Rightarrow> raise (HTTPException 503 ''OpenRouter unavailable'')
      | Some code \<Rightarrow>
          if code = 200 then ret ()
          else if code = 401 \<or> code = 403 then raise (HTTPException 400 ''invalid OpenRouter key'')
          else if code = 402 \<or> code = 429 then raise (HTTPException 429 ''OpenRouter limit reached'')
          else raise (HTTPException 503 ''OpenRouter unavailable''))"

definition vault_owner :: "vault_env \<Rightarrow> web_env \<Rightarrow> int \<Rightarrow> await list \<Rightarrow> web_request \<Rightarrow> string web_op" where
  "vault_owner ve we now aws rq =
     andThen (authenticated_web_user we now aws (rq_session_cookie rq)) (\<lambda>(i, _, _).
       if \<not> vc_present ve then raise (HTTPException 503 ''credential vault unavailable'') else ret i)"

definition vault_get :: "vault_env \<Rightarrow> web_env \<Rightarrow> int \<Rightarrow> await list \<Rightarrow> await \<Rightarrow> web_request \<Rightarrow> vault_state web_op" where
  "vault_get ve we now aws aw rq =
     andThen (vault_owner ve we now aws rq) (\<lambda>owner.
       sqlite_503 ''credential vault unavailable'' (andThen (reading (\<lambda>w. vault_status owner (wb_db w))) (\<lambda>result.
         andThen (vault_durable aw) (\<lambda>_. ret result))))"

definition key_format :: "string \<Rightarrow> bool" where
  "key_format key \<longleftrightarrow> 8 \<le> py_len key \<and> py_len key \<le> 4096 \<and> key = strip key \<and>
     list_all (\<lambda>c. 33 \<le> (of_char c :: nat) \<and> (of_char c :: nat) \<le> 126) key"

definition key_of_body :: "vault_env \<Rightarrow> string \<Rightarrow> string \<Rightarrow> web_error + string" where
  "key_of_body ve content_type raw =
     (if takeWhile (\<lambda>c. c \<noteq> CHR '';'') content_type \<noteq> ''application/json'' then Inl (HTTPException 415 ''JSON required'')
      else if 8192 < length raw then Inl (HTTPException 413 ''request too large'')
      else case vc_loads ve raw of
        None \<Rightarrow> Inl (HTTPException 400 ''invalid JSON'')
      | Some body \<Rightarrow>
          (case (case body of PDict members \<Rightarrow> map_of members ''api_key'' | _ \<Rightarrow> None) of
             Some (PStr key) \<Rightarrow> if key_format key then Inr key else Inl (HTTPException 400 ''invalid key format'')
           | _ \<Rightarrow> Inl (HTTPException 400 ''invalid key format'')))"

definition vault_put ::
  "vault_env \<Rightarrow> web_env \<Rightarrow> web_settings \<Rightarrow> int \<Rightarrow> await list \<Rightarrow> await \<Rightarrow> web_request \<Rightarrow> string \<Rightarrow> string \<Rightarrow> vault_state web_op" where
  "vault_put ve we st now aws aw rq content_type raw =
     andThen (require_origin st rq) (\<lambda>_.
     andThen (vault_owner ve we now aws rq) (\<lambda>owner.
     andThen (lift_sum (key_of_body ve content_type raw)) (\<lambda>key.
     andThen (verify_key ve key) (\<lambda>_.
       sqlite_503 ''credential vault unavailable'' (andThen (vault_replace ve owner key) (\<lambda>result.
         andThen (vault_durable aw) (\<lambda>_. ret result)))))))"

definition vault_delete ::
  "vault_env \<Rightarrow> web_env \<Rightarrow> web_settings \<Rightarrow> int \<Rightarrow> await list \<Rightarrow> await \<Rightarrow> web_request \<Rightarrow> vault_state web_op" where
  "vault_delete ve we st now aws aw rq =
     andThen (require_origin st rq) (\<lambda>_.
     andThen (vault_owner ve we now aws rq) (\<lambda>owner.
       sqlite_503 ''credential vault unavailable'' (andThen (vault_remove owner) (\<lambda>result.
         andThen (vault_durable aw) (\<lambda>_. ret result)))))"

section \<open>Versions\<close>

text \<open>The credentials of an owner only move forward, and a version never stands for two keys.\<close>

definition versions_rise :: "web \<Rightarrow> web \<Rightarrow> bool" where
  "versions_rise w w' \<longleftrightarrow> (\<forall>owner r. credential_of owner (wb_db w) = Some r \<longrightarrow>
     (\<exists>r'. credential_of owner (wb_db w') = Some r' \<and> oc_version r \<le> oc_version r' \<and> (oc_version r' = oc_version r \<longrightarrow> r' = r)))"

interpretation versions: table_relation versions_rise
proof (unfold_locales, goal_cases)
  case (2 s t u)
  show ?case unfolding versions_rise_def
  proof (intro allI impI)
    fix owner r
    assume "credential_of owner (wb_db s) = Some r"
    then obtain r1 where r1: "credential_of owner (wb_db t) = Some r1" "oc_version r \<le> oc_version r1" "oc_version r1 = oc_version r \<longrightarrow> r1 = r"
      using 2(1) unfolding versions_rise_def by blast
    obtain r2 where "credential_of owner (wb_db u) = Some r2" "oc_version r1 \<le> oc_version r2" "oc_version r2 = oc_version r1 \<longrightarrow> r2 = r1"
      using 2(2) r1(1) unfolding versions_rise_def by blast
    then show "\<exists>r'. credential_of owner (wb_db u) = Some r' \<and> oc_version r \<le> oc_version r' \<and> (oc_version r' = oc_version r \<longrightarrow> r' = r)"
      using r1 by auto
  qed
qed (simp_all add: versions_rise_def)

lemma credential_of_update:
  "(\<And>r. oc_owner_id (g r) = oc_owner_id r) \<Longrightarrow>
   fetchone (\<lambda>r. oc_owner_id r = x) (sql_update (\<lambda>r. oc_owner_id r = y) g t) =
     (if x = y then map_option g (fetchone (\<lambda>r. oc_owner_id r = x) t) else fetchone (\<lambda>r. oc_owner_id r = x) t)"
  by (induction t) auto

lemma versions_vault:
  "keeps versions_rise (vault_replace ve owner key)" "keeps versions_rise (vault_remove owner)"
proof -
  have "keeps versions_rise (web_write (on_db (upsert_credential owner c m)))" for c m
    by (rule versions.keeps_statement)
      (auto simp: upsert_credential_def versions_rise_def credential_of_def credential_of_update split: option.splits if_splits)
  then show "keeps versions_rise (vault_replace ve owner key)"
    unfolding vault_replace_def by (auto intro!: versions.keeps_rules)
  have "keeps versions_rise (web_write (on_db (clear_credential owner)))"
    by (rule versions.keeps_statement)
      (auto simp: clear_credential_def versions_rise_def credential_of_def credential_of_update split: option.splits if_splits)
  then show "keeps versions_rise (vault_remove owner)"
    unfolding vault_remove_def by (auto intro!: versions.keeps_rules)
qed

text \<open>Requests to the vault, one after the other; what other coroutines do meanwhile also only moves versions forward.\<close>

datatype vault_request = Vault_get | Vault_put string string | Vault_delete

record vault_call =
  vq_request :: vault_request
  vq_web :: web_request
  vq_now :: int
  vq_awaits :: "await list"
  vq_await :: await

definition vault_handle :: "vault_env \<Rightarrow> web_env \<Rightarrow> web_settings \<Rightarrow> vault_call \<Rightarrow> vault_state web_op" where
  "vault_handle ve we st q =
     (case vq_request q of
        Vault_get \<Rightarrow> vault_get ve we (vq_now q) (vq_awaits q) (vq_await q) (vq_web q)
      | Vault_put content_type raw \<Rightarrow> vault_put ve we st (vq_now q) (vq_awaits q) (vq_await q) (vq_web q) content_type raw
      | Vault_delete \<Rightarrow> vault_delete ve we st (vq_now q) (vq_awaits q) (vq_await q) (vq_web q))"

lemma versions_handle:
  assumes "await_keeps versions_rise (vq_await q)" "list_all (await_keeps versions_rise) (vq_awaits q)"
  shows "keeps versions_rise (vault_handle ve we st q)"
proof -
  have owner: "keeps versions_rise (vault_owner ve we (vq_now q) (vq_awaits q) (vq_web q))"
    unfolding vault_owner_def by (auto intro!: versions.web_rules assms(2))
  have dur: "keeps versions_rise (vault_durable (vq_await q))"
    unfolding vault_durable_def by (intro versions.web_rules assms(1))
  have verify: "keeps versions_rise (verify_key ve key)" for key
    unfolding verify_key_def by (auto intro!: versions.keeps_rules split: option.splits)
  show ?thesis
    unfolding vault_handle_def vault_get_def vault_put_def vault_delete_def
    by (auto intro!: versions.web_rules owner dur verify versions_vault split: vault_request.splits)
qed

definition vault_serve :: "vault_env \<Rightarrow> web_env \<Rightarrow> web_settings \<Rightarrow> vault_call list \<Rightarrow> web \<Rightarrow> web" where
  "vault_serve ve we st qs w = fold (\<lambda>q w. snd (vault_handle ve we st q w)) qs w"

lemma versions_serve:
  "list_all (\<lambda>q. await_keeps versions_rise (vq_await q) \<and> list_all (await_keeps versions_rise) (vq_awaits q)) qs \<Longrightarrow> versions_rise w (vault_serve ve we st qs w)"
proof (induction qs arbitrary: w)
  case (Cons q qs)
  have "versions_rise w (snd (vault_handle ve we st q w))" using keepsD [OF versions_handle] Cons.prems by simp
  then show ?case using Cons versions.kept_trans by (fastforce simp: vault_serve_def)
qed (simp add: vault_serve_def versions.kept_refl)

text \<open>
  C20: A credential version names one key.  Whatever requests the vault serves, and however they interleave with others that move
  versions forward only, the entry of an owner never disappears, its version never falls, and as long as the version is the
  same the stored key is the same; a sandbox that was started with a version can therefore tell that its key is
  current.
\<close>

theorem vault_version_names_key:
  assumes "list_all (\<lambda>q. await_keeps versions_rise (vq_await q) \<and> list_all (await_keeps versions_rise) (vq_awaits q)) qs"
    and "credential_of owner (wb_db w) = Some r"
  shows "\<exists>r'. credential_of owner (wb_db (vault_serve ve we st qs w)) = Some r' \<and> oc_version r \<le> oc_version r' \<and>
    (oc_version r' = oc_version r \<longrightarrow> oc_ciphertext r' = oc_ciphertext r \<and> oc_mask r' = oc_mask r)"
  using versions_serve [OF assms(1), of w ve we st] assms(2) unfolding versions_rise_def by fastforce

definition sample_vault :: vault_env where
  "sample_vault = \<lparr>vc_encrypt = (\<lambda>s. ''enc:'' @ s), vc_decrypt = (\<lambda>s. if take 4 s = ''enc:'' then Some (drop 4 s) else None),
     vc_loads = (\<lambda>s. Some (PDict [(''api_key'', PStr s)])), vc_present = True, vc_probe = (\<lambda>_. Some 200)\<rparr>"

definition sample_call :: "vault_request \<Rightarrow> vault_call" where
  "sample_call q = \<lparr>vq_request = q, vq_web = sample_web_request, vq_now = 0, vq_awaits = [calm_await], vq_await = calm_await\<rparr>"

definition keyed_web :: web where
  "keyed_web = vault_serve sample_vault sample_web_env sample_settings [sample_call (Vault_put ''application/json'' ''sk-or-0001'')] signed_in_web"

theorem vault_version_names_key_witness:
  "\<exists>r r'. credential_of ''u1'' (wb_db keyed_web) = Some r \<and> oc_version r = 1 \<and>
     credential_of ''u1'' (wb_db (vault_serve sample_vault sample_web_env sample_settings
        [sample_call Vault_get, sample_call Vault_delete] keyed_web)) = Some r' \<and> oc_version r' = 2 \<and> oc_ciphertext r' = None"
proof -
  let ?w = "vault_serve sample_vault sample_web_env sample_settings [sample_call Vault_get, sample_call Vault_delete] keyed_web"
  have "map_option (\<lambda>r. (oc_version r, oc_ciphertext r)) (credential_of ''u1'' (wb_db keyed_web)) = Some (1, Some ''enc:sk-or-0001'')"
    "map_option (\<lambda>r. (oc_version r, oc_ciphertext r)) (credential_of ''u1'' (wb_db ?w)) = Some (2, None)" by code_simp+
  then obtain r r' where r: "credential_of ''u1'' (wb_db keyed_web) = Some r" "oc_version r = 1"
      and r': "credential_of ''u1'' (wb_db ?w) = Some r'" "oc_version r' = 2" "oc_ciphertext r' = None"
    by (auto simp: map_option_eq_Some)
  have "await_keeps versions_rise calm_await" by (simp add: await_keeps_def calm_await_def versions.kept_refl)
  then have "list_all (\<lambda>q. await_keeps versions_rise (vq_await q) \<and> list_all (await_keeps versions_rise) (vq_awaits q)) [sample_call Vault_get, sample_call Vault_delete]"
    by (simp add: sample_call_def)
  from vault_version_names_key [OF this r(1), of sample_vault sample_web_env sample_settings] r r' show ?thesis by auto
qed

section \<open>Round trip\<close>

text \<open>
  What is stored is what is used.  After a replacement the vault resolves the owner to exactly this key with a new version,
  shows no more of it than the mask, and leaves other owners alone; after a removal it resolves to nothing, under a further
  version.
\<close>

lemma vault_roundtrip:
  assumes "vault_replace ve owner key w = (Inr s, w')" "vc_decrypt ve (vc_encrypt ve key) = Some key"
  shows "\<exists>v. vault_status owner (wb_db w') = s \<and> s = \<lparr>vs_configured = True, vs_mask = Some (key_mask key), vs_version = Some v\<rparr> \<and>
    vault_resolve ve owner (wb_db w') = Inr (Some (key, v)) \<and>
    v = (case credential_of owner (wb_db w) of None \<Rightarrow> 1 | Some r \<Rightarrow> oc_version r + 1) \<and>
    (\<forall>other. other = owner \<or> credential_of other (wb_db w') = credential_of other (wb_db w)) \<and>
    (\<exists>w''. vault_remove owner w' = (Inr \<lparr>vs_configured = False, vs_mask = None, vs_version = Some (v + 1)\<rparr>, w'') \<and>
       vault_resolve ve owner (wb_db w'') = Inr None)"
proof -
  have gone: "fetchone (\<lambda>r. oc_owner_id r = owner \<and> oc_ciphertext r \<noteq> None)
      (sql_update (\<lambda>r. oc_owner_id r = owner) (\<lambda>r. r\<lparr>oc_ciphertext := None, oc_mask := None, oc_version := oc_version r + 1\<rparr>) t) = None" for t
    by (induction t) auto
  have found: "fetchone (\<lambda>r. oc_owner_id r = owner \<and> oc_ciphertext r \<noteq> None)
      (sql_update (\<lambda>r. oc_owner_id r = owner) (\<lambda>r. r\<lparr>oc_ciphertext := Some c, oc_mask := m, oc_version := oc_version r + 1\<rparr>) t) =
      map_option (\<lambda>r. r\<lparr>oc_ciphertext := Some c, oc_mask := m, oc_version := oc_version r + 1\<rparr>) (fetchone (\<lambda>r. oc_owner_id r = owner) t)" for c m t
    by (induction t) auto
  have remove: "vault_remove owner u = (Inr \<lparr>vs_configured = False, vs_mask = None,
        vs_version = map_option (\<lambda>r. oc_version r + 1) (credential_of owner (wb_db u))\<rparr>,
      u\<lparr>wb_db := (wb_db u)\<lparr>openrouter_credentials := sql_update (\<lambda>r. oc_owner_id r = owner)
         (\<lambda>r. r\<lparr>oc_ciphertext := None, oc_mask := None, oc_version := oc_version r + 1\<rparr>) (openrouter_credentials (wb_db u)),
         revision := Suc (revision (wb_db u))\<rparr>\<rparr>)" for u
    by (simp add: vault_remove_def andThen_def web_write_statement clear_credential_def db_write_def ret_def)
  show ?thesis
  proof (cases "credential_of owner (wb_db w)")
    case None
    then have "\<forall>r\<in>set (openrouter_credentials (wb_db w)). oc_owner_id r \<noteq> owner" by (simp add: credential_of_def fetchone_None)
    then have "fetchone (\<lambda>r. oc_owner_id r = owner \<and> oc_ciphertext r \<noteq> None) (openrouter_credentials (wb_db w)) = None"
      by (simp add: fetchone_None)
    then show ?thesis using assms None
      by (auto simp: vault_replace_def andThen_def web_write_statement upsert_credential_def db_write_def ret_def vault_status_def
          credential_of_def vault_resolve_def coalesce_to_def remove gone simp del: not_None_eq split: if_splits)
        (auto split: option.splits if_splits)
  next
    case (Some r)
    then show ?thesis using assms
      by (auto simp: vault_replace_def andThen_def web_write_statement upsert_credential_def db_write_def ret_def vault_status_def
          credential_of_def vault_resolve_def coalesce_to_def remove gone found credential_of_update simp del: not_None_eq split: if_splits)
  qed
qed

lemma vault_roundtrip_witness:
  "\<exists>s w'. vault_replace sample_vault ''u1'' ''sk-or-0002'' keyed_web = (Inr s, w') \<and> vs_version s = Some 2 \<and>
     vault_resolve sample_vault ''u1'' (wb_db w') = Inr (Some (''sk-or-0002'', 2))"
proof -
  have "fst (vault_replace sample_vault ''u1'' ''sk-or-0002'' keyed_web) =
      Inr \<lparr>vs_configured = True, vs_mask = Some (key_mask ''sk-or-0002''), vs_version = Some 2\<rparr>" by code_simp
  then obtain w' where c: "vault_replace sample_vault ''u1'' ''sk-or-0002'' keyed_web =
      (Inr \<lparr>vs_configured = True, vs_mask = Some (key_mask ''sk-or-0002''), vs_version = Some 2\<rparr>, w')"
    by (cases "vault_replace sample_vault ''u1'' ''sk-or-0002'' keyed_web") simp
  have "vc_decrypt sample_vault (vc_encrypt sample_vault ''sk-or-0002'') = Some ''sk-or-0002''" by (simp add: sample_vault_def)
  from vault_roundtrip [OF c this] c show ?thesis by auto
qed

end
