(* ===== verification/Github_Connection.thy ===== *)
theory Github_Connection
  imports Identity_Props
begin

text \<open>
  \<open>backend/gg/runtime/github_connection.py\<close>: the link between a signed-in user and a GitHub account.  The OAuth client, the
  store of connections, installations, one-use login flows and webhook deliveries, and the five HTTP handlers.  GitHub answers
  requests through \<open>gx_exchange\<close> and \<open>gx_get\<close>; Fernet, HMAC, JSON, UUID parsing and the random values are
  arguments.  The flow cookie is the sealed JSON object that \<open>gx_open_flow\<close> opens, within its time to live.
\<close>

section \<open>The OAuth client\<close>

record github_env =
  gx_client_id :: string
  gx_configured :: bool
  gx_webhook_configured :: bool
  gx_callback_origin :: string
  gx_challenge :: "string \<Rightarrow> string"
  gx_exchange :: "string \<Rightarrow> string \<Rightarrow> http_reply"
  gx_get :: "string \<Rightarrow> int option \<Rightarrow> string \<Rightarrow> http_reply"
  gx_encrypt :: "string \<Rightarrow> string"
  gx_decrypt :: "string \<Rightarrow> string option"
  gx_open_flow :: "string \<Rightarrow> pyval option"
  gx_signature :: "string \<Rightarrow> string"
  gx_uuid :: "string \<Rightarrow> string option"
  gx_loads :: "string \<Rightarrow> pyval option"

definition callback_url :: "github_env \<Rightarrow> string" where
  "callback_url ge = gx_callback_origin ge @ ''/auth/github/callback''"

definition authorize_url :: "github_env \<Rightarrow> string \<Rightarrow> string \<Rightarrow> string" where
  "authorize_url ge state verifier =
     ''https://github.com/login/oauth/authorize?'' @ urlencode
       [(''client_id'', gx_client_id ge), (''redirect_uri'', callback_url ge), (''state'', state),
        (''code_challenge'', gx_challenge ge verifier), (''code_challenge_method'', ''S256''), (''prompt'', ''select_account'')]"

text \<open>\<open>raise_for_status\<close> and \<open>json\<close>, whose failures become \<open>GitHubUnavailable\<close>.\<close>

definition reply_json :: "http_reply \<Rightarrow> web_error + pyval" where
  "reply_json reply =
     (case reply of
        Reply code (Some v) \<Rightarrow> if 200 \<le> code \<and> code \<le> 299 then Inr v else Inl GitHubUnavailable
      | _ \<Rightarrow> Inl GitHubUnavailable)"

definition exchange_code :: "github_env \<Rightarrow> string \<Rightarrow> string \<Rightarrow> web_error + string" where
  "exchange_code ge code verifier =
     sum_bind (reply_json (gx_exchange ge code verifier)) (\<lambda>payload.
       case payload of
         PDict members \<Rightarrow>
           (case map_of members ''access_token'' of
              Some (PStr token) \<Rightarrow>
                if py_bool (coalesce_to (map_of members ''error'') PNone) \<or> token = [] then Inl GitHubUnauthorized else Inr token
            | _ \<Rightarrow> Inl GitHubUnauthorized)
       | _ \<Rightarrow> Inl (Uncaught ''AttributeError''))"

definition github_get :: "github_env \<Rightarrow> string \<Rightarrow> int option \<Rightarrow> string \<Rightarrow> web_error + (string \<times> pyval) list" where
  "github_get ge path page token =
     (let reply = gx_get ge path page token in
      case reply of
        Reply code _ \<Rightarrow>
          if code = 401 then Inl GitHubUnauthorized
          else if code = 403 then Inl GitHubPending
          else sum_bind (reply_json reply) (\<lambda>v. case v of PDict members \<Rightarrow> Inr members | _ \<Rightarrow> Inl GitHubUnavailable)
      | No_reply \<Rightarrow> Inl GitHubUnavailable)"

record installation =
  in_id :: int
  in_account_login :: string
  in_account_type :: string

fun read_installations :: "pyval list \<Rightarrow> web_error + installation list" where
  "read_installations [] = Inr []"
| "read_installations (PDict item # rest) =
     (case map_of item ''id'' of
        Some (PInt i) \<Rightarrow>
          if i \<le> 0 then Inl GitHubUnavailable
          else if map_of item ''suspended_at'' \<notin> {None, Some PNone} then read_installations rest
          else (case map_of item ''account'' of
                  Some (PDict account) \<Rightarrow>
                    (case map_of account ''login'' of
                       Some (PStr login) \<Rightarrow>
                         sum_bind (read_installations rest) (\<lambda>found.
                           Inr (\<lparr>in_id = i, in_account_login = login,
                                 in_account_type = py_str (coalesce_to (map_of account ''type'') (PStr []))\<rparr> # found))
                     | _ \<Rightarrow> Inl GitHubUnavailable)
                | _ \<Rightarrow> Inl GitHubUnavailable)
      | _ \<Rightarrow> Inl GitHubUnavailable)"
| "read_installations (_ # rest) = Inl GitHubUnavailable"

text \<open>The pages still to be read are the first argument; more than ten fail closed.\<close>

fun installation_pages :: "nat \<Rightarrow> github_env \<Rightarrow> string \<Rightarrow> installation list \<Rightarrow> web_error + installation list" where
  "installation_pages 0 ge token found = Inl GitHubUnavailable"
| "installation_pages (Suc n) ge token found =
     (case github_get ge ''/user/installations'' (Some (10 - int n)) token of
        Inl GitHubPending \<Rightarrow> Inr []
      | Inl e \<Rightarrow> Inl e
      | Inr payload \<Rightarrow>
          (case map_of payload ''installations'' of
             Some (PList items) \<Rightarrow>
               sum_bind (read_installations items) (\<lambda>more.
                 if length items < 100 then Inr (found @ more) else installation_pages n ge token (found @ more))
           | _ \<Rightarrow> Inl GitHubUnavailable))"

definition identity_and_installations :: "github_env \<Rightarrow> string \<Rightarrow> web_error + int \<times> string \<times> installation list" where
  "identity_and_installations ge token =
     sum_bind (github_get ge ''/user'' None token) (\<lambda>user.
       case (map_of user ''id'', map_of user ''login'') of
         (Some (PInt i), Some (PStr login)) \<Rightarrow>
           if i \<le> 0 \<or> login = [] then Inl GitHubUnavailable
           else sum_bind (installation_pages 10 ge token []) (\<lambda>found. Inr (i, login, found))
       | _ \<Rightarrow> Inl GitHubUnavailable)"

section \<open>The store\<close>

definition FLOW_SECONDS :: int where
  "FLOW_SECONDS = 600"

definition session_live :: "string \<Rightarrow> string \<Rightarrow> int \<Rightarrow> identity_db \<Rightarrow> bool" where
  "session_live session_id owner now d \<longleftrightarrow>
     exists_row (\<lambda>s. se_token_hash s = session_id \<and> se_owner_id s = owner \<and> \<not> se_revoked s \<and> now < se_expires_at s) (local_sessions d)"

definition begin_flow :: "web_env \<Rightarrow> int \<Rightarrow> string \<Rightarrow> string \<Rightarrow> string \<Rightarrow> identity_db \<Rightarrow> web_error + unit \<times> identity_db" where
  "begin_flow we now owner session_id state d =
     (if \<not> session_live session_id owner now d then Inl (HTTPException 401 ''session expired or absent'')
      else if exists_row (\<lambda>f. of_state_hash f = we_token_hash we state) (github_oauth_flows d)
      then Inl (Db (IntegrityError ''UNIQUE constraint failed: github_oauth_flows.state_hash''))
      else Inr ((), d\<lparr>github_oauth_flows := github_oauth_flows d @
             [\<lparr>of_state_hash = we_token_hash we state, of_owner_id = owner, of_session_id = session_id,
               of_expires_at = now + FLOW_SECONDS\<rparr>]\<rparr>))"

definition flow_open :: "web_env \<Rightarrow> int \<Rightarrow> string \<Rightarrow> string \<Rightarrow> string \<Rightarrow> identity_db \<Rightarrow> oauth_flow_row \<Rightarrow> bool" where
  "flow_open we now owner session_id state d f \<longleftrightarrow>
     of_state_hash f = we_token_hash we state \<and> of_owner_id f = owner \<and> of_session_id f = session_id \<and> now < of_expires_at f \<and>
     session_live (of_session_id f) (of_owner_id f) now d"

definition consume_flow :: "web_env \<Rightarrow> int \<Rightarrow> string \<Rightarrow> string \<Rightarrow> string \<Rightarrow> identity_db \<Rightarrow> web_error + bool \<times> identity_db" where
  "consume_flow we now owner session_id state d =
     Inr (exists_row (flow_open we now owner session_id state d) (github_oauth_flows d),
          d\<lparr>github_oauth_flows := sql_delete (flow_open we now owner session_id state d) (github_oauth_flows d)\<rparr>)"

definition put_installation :: "string \<Rightarrow> installation \<Rightarrow> installation_row list \<Rightarrow> installation_row list" where
  "put_installation owner i rows =
     (if exists_row (\<lambda>r. gi_owner_id r = owner \<and> gi_installation_id r = in_id i) rows
      then sql_update (\<lambda>r. gi_owner_id r = owner \<and> gi_installation_id r = in_id i)
             (\<lambda>r. r\<lparr>gi_account_login := in_account_login i, gi_account_type := in_account_type i, gi_status := IS_ACTIVE\<rparr>) rows
      else rows @ [\<lparr>gi_owner_id = owner, gi_installation_id = in_id i, gi_account_login = in_account_login i,
                    gi_account_type = in_account_type i, gi_status = IS_ACTIVE\<rparr>])"

definition replace_installations :: "string \<Rightarrow> installation list \<Rightarrow> installation_row list \<Rightarrow> installation_row list" where
  "replace_installations owner found rows =
     fold (put_installation owner) found (sql_update (\<lambda>r. gi_owner_id r = owner) (gi_status_update (\<lambda>_. IS_REMOVED)) rows)"

definition link_status :: "installation list \<Rightarrow> connection_status" where
  "link_status found = (if found \<noteq> [] then CS_CONNECTED else CS_PENDING)"

definition connect_account ::
  "github_env \<Rightarrow> string \<Rightarrow> int \<Rightarrow> string \<Rightarrow> string \<Rightarrow> installation list \<Rightarrow> identity_db \<Rightarrow> web_error + unit \<times> identity_db" where
  "connect_account ge owner github_id login token found d =
     (if \<not> exists_row (\<lambda>u. us_id u = owner) (local_users d) then Inl (Db (IntegrityError ''FOREIGN KEY constraint failed''))
      else if github_id \<le> 0 then Inl (Db (IntegrityError ''CHECK constraint failed: github_user_id > 0''))
      else if exists_row (\<lambda>c. gc_github_user_id c = github_id \<and> gc_owner_id c \<noteq> owner) (github_connections d)
      then Inl (Db (IntegrityError ''UNIQUE constraint failed: github_connections.github_user_id''))
      else Inr ((), d\<lparr>github_connections :=
             (if exists_row (\<lambda>c. gc_owner_id c = owner) (github_connections d)
              then sql_update (\<lambda>c. gc_owner_id c = owner) (\<lambda>c. c\<lparr>gc_github_user_id := github_id, gc_login := login,
                     gc_token_ciphertext := Some (gx_encrypt ge token), gc_status := link_status found\<rparr>) (github_connections d)
              else github_connections d @ [\<lparr>gc_owner_id = owner, gc_github_user_id = github_id, gc_login = login,
                     gc_token_ciphertext = Some (gx_encrypt ge token), gc_status = link_status found\<rparr>]),
             github_installations := replace_installations owner found (github_installations d)\<rparr>))"

definition current_connection ::
  "github_env \<Rightarrow> string \<Rightarrow> identity_db \<Rightarrow> web_error + (int \<times> string \<times> string option \<times> connection_status) option" where
  "current_connection ge owner d =
     (case fetchone (\<lambda>c. gc_owner_id c = owner) (github_connections d) of
        None \<Rightarrow> Inr None
      | Some c \<Rightarrow>
          (if truthy (gc_token_ciphertext c)
           then (case gx_decrypt ge (coalesce_to (gc_token_ciphertext c) []) of
                   None \<Rightarrow> Inl InvalidToken
                 | Some token \<Rightarrow> Inr (Some (gc_github_user_id c, gc_login c, Some token, gc_status c)))
           else Inr (Some (gc_github_user_id c, gc_login c, None, gc_status c))))"

text \<open>The body of a status response.\<close>

record link_state =
  ls_status :: string
  ls_login :: "string option"
  ls_installations :: "installation list"

definition status_text :: "connection_status \<Rightarrow> string" where
  "status_text s = (case s of CS_CONNECTED \<Rightarrow> ''connected'' | CS_PENDING \<Rightarrow> ''pending'' | CS_REVOKED \<Rightarrow> ''revoked'')"

definition refresh_connection :: "string \<Rightarrow> int \<Rightarrow> installation list \<Rightarrow> identity_db \<Rightarrow> web_error + link_state \<times> identity_db" where
  "refresh_connection owner github_id found d =
     (let gone = \<lparr>ls_status = ''revoked'', ls_login = None, ls_installations = []\<rparr> in
      case fetchone (\<lambda>c. gc_owner_id c = owner) (github_connections d) of
        None \<Rightarrow> Inr (gone, d)
      | Some c \<Rightarrow>
          if gc_github_user_id c \<noteq> github_id \<or> gc_status c = CS_REVOKED then Inr (gone, d)
          else Inr (\<lparr>ls_status = status_text (link_status found), ls_login = Some (gc_login c), ls_installations = found\<rparr>,
                 d\<lparr>github_installations := replace_installations owner found (github_installations d),
                   github_connections := sql_update (\<lambda>c. gc_owner_id c = owner) (gc_status_update (\<lambda>_. link_status found)) (github_connections d)\<rparr>))"

definition revoke_rows :: "(connection_row \<Rightarrow> bool) \<Rightarrow> identity_db \<Rightarrow> identity_db" where
  "revoke_rows P d =
     d\<lparr>github_installations := sql_update (\<lambda>r. exists_row (\<lambda>c. P c \<and> gc_owner_id c = gi_owner_id r) (github_connections d))
          (gi_status_update (\<lambda>_. IS_REMOVED)) (github_installations d),
       github_connections := sql_update P (\<lambda>c. c\<lparr>gc_status := CS_REVOKED, gc_token_ciphertext := None\<rparr>) (github_connections d)\<rparr>"

text \<open>\<open>mark_revoked\<close> changes the installations of the owner also when there is no connection; such rows do not exist.\<close>

definition mark_revoked :: "string \<Rightarrow> identity_db \<Rightarrow> web_error + unit \<times> identity_db" where
  "mark_revoked owner d =
     Inr ((), d\<lparr>github_connections := sql_update (\<lambda>c. gc_owner_id c = owner)
                  (\<lambda>c. c\<lparr>gc_status := CS_REVOKED, gc_token_ciphertext := None\<rparr>) (github_connections d),
                github_installations := sql_update (\<lambda>r. gi_owner_id r = owner) (gi_status_update (\<lambda>_. IS_REMOVED)) (github_installations d)\<rparr>)"

definition disconnect_account :: "string \<Rightarrow> identity_db \<Rightarrow> web_error + unit \<times> identity_db" where
  "disconnect_account owner d =
     Inr ((), d\<lparr>github_connections := sql_delete (\<lambda>c. gc_owner_id c = owner) (github_connections d),
                github_installations := (if exists_row (\<lambda>c. gc_owner_id c = owner) (github_connections d)
                  then sql_delete (\<lambda>r. gi_owner_id r = owner) (github_installations d) else github_installations d),
                github_oauth_flows := sql_delete (\<lambda>f. of_owner_id f = owner) (github_oauth_flows d)\<rparr>)"

definition drop_installation :: "installation_status \<Rightarrow> int option \<Rightarrow> identity_db \<Rightarrow> identity_db" where
  "drop_installation st installation_id d =
     (let rows = sql_update (\<lambda>r. Some (gi_installation_id r) = installation_id) (gi_status_update (\<lambda>_. st)) (github_installations d) in
      d\<lparr>github_installations := rows,
        github_connections := sql_update (\<lambda>c. gc_status c = CS_CONNECTED \<and>
            \<not> exists_row (\<lambda>r. gi_owner_id r = gc_owner_id c \<and> gi_status r = IS_ACTIVE) rows)
          (gc_status_update (\<lambda>_. CS_PENDING)) (github_connections d)\<rparr>)"

definition apply_webhook ::
  "string \<Rightarrow> string \<Rightarrow> pyval \<Rightarrow> int option \<Rightarrow> int option \<Rightarrow> identity_db \<Rightarrow> web_error + bool \<times> identity_db" where
  "apply_webhook delivery event action installation_id github_id d =
     (if delivery \<in> set (github_webhook_deliveries d) then Inr (False, d)
      else (let d1 = d\<lparr>github_webhook_deliveries := github_webhook_deliveries d @ [delivery]\<rparr>;
                d2 = (if event = ''installation'' \<and> action \<in> {PStr ''deleted'', PStr ''suspend''}
                      then drop_installation (if action = PStr ''deleted'' then IS_REMOVED else IS_SUSPENDED) installation_id d1 else d1);
                d3 = (if event = ''github_app_authorization'' \<and> action = PStr ''revoked''
                      then revoke_rows (\<lambda>c. Some (gc_github_user_id c) = github_id) d2 else d2)
            in Inr (True, d3)))"

section \<open>Handlers\<close>

definition unavailable :: web_error where
  "unavailable = HTTPException 503 ''GitHub connection unavailable''"

definition current_durable :: "await \<Rightarrow> unit web_op" where
  "current_durable aw = andThen (reading (\<lambda>w. int (revision (wb_db w)))) (durable aw)"

definition connection_owner :: "github_env \<Rightarrow> web_env \<Rightarrow> int \<Rightarrow> await list \<Rightarrow> web_request \<Rightarrow> (string \<times> string \<times> string) web_op" where
  "connection_owner ge we now aws rq =
     (if \<not> gx_configured ge then raise unavailable else authenticated_web_user we now aws (rq_session_cookie rq))"

text \<open>The redirect to GitHub and the content of the flow cookie; \<open>later\<close> is the clock once the user is known.\<close>

definition github_start ::
  "github_env \<Rightarrow> web_env \<Rightarrow> int \<Rightarrow> int \<Rightarrow> await list \<Rightarrow> await \<Rightarrow> web_request \<Rightarrow> string \<Rightarrow> string \<Rightarrow> (string \<times> pyval) web_op" where
  "github_start ge we now later aws aw rq state verifier =
     andThen (connection_owner ge we now aws rq) (\<lambda>(owner, _, session_id).
     andThen (sqlite_503 ''GitHub connection unavailable'' (web_write (on_db (begin_flow we later owner session_id state)))) (\<lambda>_.
     andThen (current_durable aw) (\<lambda>_.
       ret (authorize_url ge state verifier,
         PDict [(''state'', PStr state), (''verifier'', PStr verifier), (''owner'', PStr owner), (''session'', PStr session_id)]))))"

record callback_query =
  cq_flow_cookie :: string
  cq_state :: string
  cq_error :: "string option"
  cq_code :: string

definition invalid_callback :: web_error where
  "invalid_callback = HTTPException 400 ''invalid GitHub callback''"

text \<open>The guard of the callback: the verifier of the flow that the cookie, the query and the session agree on.\<close>

definition check_flow :: "github_env \<Rightarrow> callback_query \<Rightarrow> string \<Rightarrow> string \<Rightarrow> (string \<times> pyval) list web_op" where
  "check_flow ge q owner session_id =
     (case gx_open_flow ge (cq_flow_cookie q) of
        Some (PDict flow) \<Rightarrow>
          if flow = [] \<or> cq_state q = [] then raise invalid_callback
          else andThen (compare_digest (cq_state q) (py_str (coalesce_to (map_of flow ''state'') (PStr [])))) (\<lambda>same.
               if \<not> same \<or> map_of flow ''owner'' \<noteq> Some (PStr owner) \<or> map_of flow ''session'' \<noteq> Some (PStr session_id)
               then raise invalid_callback else ret flow)
      | Some v \<Rightarrow> if py_bool v \<and> cq_state q \<noteq> [] then raise (Uncaught ''AttributeError'') else raise invalid_callback
      | None \<Rightarrow> raise invalid_callback)"

definition link_errors :: "'a web_op \<Rightarrow> 'a web_op" where
  "link_errors m = catch m (\<lambda>e. raise (case e of
       GitHubUnauthorized \<Rightarrow> HTTPException 400 ''GitHub authorization denied''
     | GitHubPending \<Rightarrow> HTTPException 400 ''GitHub authorization denied''
     | GitHubUnavailable \<Rightarrow> HTTPException 503 ''GitHub unavailable''
     | Db (IntegrityError _) \<Rightarrow> HTTPException 409 ''GitHub account already linked''
     | _ \<Rightarrow> e))"

definition link_account :: "github_env \<Rightarrow> string \<Rightarrow> string \<Rightarrow> (string \<times> pyval) list \<Rightarrow> unit web_op" where
  "link_account ge owner code flow =
     link_errors (andThen (lift_sum (case map_of flow ''verifier'' of
         None \<Rightarrow> Inl (Uncaught ''KeyError'') | Some v \<Rightarrow> exchange_code ge code (py_str v))) (\<lambda>token.
       andThen (lift_sum (identity_and_installations ge token)) (\<lambda>(github_id, login, found).
       andThen (web_write (on_db (connect_account ge owner github_id login token found))) (\<lambda>_. ret ()))))"

datatype callback_result = Cancelled | Connected

text \<open>What follows once the flow was looked up and removed.\<close>

definition finish_callback :: "github_env \<Rightarrow> await \<Rightarrow> callback_query \<Rightarrow> string \<Rightarrow> (string \<times> pyval) list \<Rightarrow> bool \<Rightarrow> callback_result web_op" where
  "finish_callback ge aw q owner flow consumed =
     (if \<not> consumed then raise invalid_callback
      else if truthy (cq_error q) then ret Cancelled
      else if cq_code q = [] \<or> 2048 < int (py_len (cq_code q)) then raise invalid_callback
      else andThen (link_account ge owner (cq_code q) flow) (\<lambda>_.
           andThen (current_durable aw) (\<lambda>_. ret Connected)))"

definition github_callback ::
  "github_env \<Rightarrow> web_env \<Rightarrow> int \<Rightarrow> int \<Rightarrow> await list \<Rightarrow> await \<Rightarrow> await \<Rightarrow> web_request \<Rightarrow> callback_query \<Rightarrow> callback_result web_op" where
  "github_callback ge we now later aws aw1 aw2 rq q =
     andThen (connection_owner ge we now aws rq) (\<lambda>(owner, _, session_id).
     andThen (check_flow ge q owner session_id) (\<lambda>flow.
     andThen (sqlite_503 ''GitHub connection unavailable'' (web_write (on_db (consume_flow we later owner session_id (cq_state q))))) (\<lambda>(consumed, _).
     andThen (current_durable aw1) (\<lambda>_. finish_callback ge aw2 q owner flow consumed))))"

definition disconnected :: link_state where
  "disconnected = \<lparr>ls_status = ''disconnected'', ls_login = None, ls_installations = []\<rparr>"

definition status_errors :: "'a web_op \<Rightarrow> 'a web_op" where
  "status_errors m = catch m (\<lambda>e. raise (case e of
       GitHubUnavailable \<Rightarrow> HTTPException 503 ''GitHub unavailable'' | Db (IntegrityError _) \<Rightarrow> unavailable | _ \<Rightarrow> e))"

definition drop_link :: "string \<Rightarrow> await \<Rightarrow> string \<Rightarrow> link_state web_op" where
  "drop_link owner aw login =
     andThen (web_write (on_db (mark_revoked owner))) (\<lambda>_.
     andThen (current_durable aw) (\<lambda>_.
       ret \<lparr>ls_status = ''revoked'', ls_login = Some login, ls_installations = []\<rparr>))"

definition github_status :: "github_env \<Rightarrow> web_env \<Rightarrow> int \<Rightarrow> await list \<Rightarrow> await \<Rightarrow> await \<Rightarrow> web_request \<Rightarrow> link_state web_op" where
  "github_status ge we now aws aw1 aw2 rq =
     andThen (connection_owner ge we now aws rq) (\<lambda>(owner, _, _).
       status_errors (andThen (current_durable aw1) (\<lambda>_.
         andThen (\<lambda>w. (current_connection ge owner (wb_db w), w)) (\<lambda>current.
           case current of
             None \<Rightarrow> ret disconnected
           | Some (github_id, login, token, status) \<Rightarrow>
               (if status = CS_REVOKED \<or> token = None
                then ret \<lparr>ls_status = ''revoked'', ls_login = Some login, ls_installations = []\<rparr>
                else case identity_and_installations ge (coalesce_to token []) of
                  Inl e \<Rightarrow> if e \<in> {GitHubUnauthorized, GitHubPending} then drop_link owner aw2 login else raise e
                | Inr (verified_id, _, found) \<Rightarrow>
                    if verified_id \<noteq> github_id then drop_link owner aw2 login
                    else andThen (web_write (on_db (refresh_connection owner github_id found))) (\<lambda>(result, _).
                         andThen (current_durable aw2) (\<lambda>_. ret result)))))))"

definition github_disconnect ::
  "github_env \<Rightarrow> web_env \<Rightarrow> web_settings \<Rightarrow> int \<Rightarrow> await list \<Rightarrow> await \<Rightarrow> web_request \<Rightarrow> link_state web_op" where
  "github_disconnect ge we st now aws aw rq =
     andThen (require_origin st rq) (\<lambda>_.
     andThen (connection_owner ge we now aws rq) (\<lambda>(owner, _, _).
     andThen (sqlite_503 ''GitHub connection unavailable'' (web_write (on_db (disconnect_account owner)))) (\<lambda>_.
     andThen (current_durable aw) (\<lambda>_. ret disconnected))))"

record webhook_request =
  wh_body :: string
  wh_signature :: string
  wh_delivery :: string
  wh_event :: string

definition positive_id :: "pyval option \<Rightarrow> int option" where
  "positive_id v =
     (case v of
        Some (PDict members) \<Rightarrow> (case map_of members ''id'' of Some (PInt i) \<Rightarrow> if i \<le> 0 then None else Some i | _ \<Rightarrow> None)
      | _ \<Rightarrow> None)"

definition github_webhook :: "github_env \<Rightarrow> await \<Rightarrow> webhook_request \<Rightarrow> bool web_op" where
  "github_webhook ge aw q =
     (let invalid = raise (HTTPException 400 ''invalid webhook'') in
      if \<not> gx_webhook_configured ge then raise (HTTPException 503 ''webhook unavailable'')
      else if 1024 * 1024 < int (length (wh_body q)) then raise (HTTPException 413 ''webhook too large'')
      else andThen (compare_digest (wh_signature q) (''sha256='' @ gx_signature ge (wh_body q))) (\<lambda>genuine.
        if \<not> genuine then raise (HTTPException 401 ''invalid webhook signature'')
        else case (gx_uuid ge (wh_delivery q), gx_loads ge (wh_body q)) of
          (Some delivery, Some (PDict payload)) \<Rightarrow>
            (let action = coalesce_to (map_of payload ''action'') (PStr []);
                 installation_id = positive_id (map_of payload ''installation'');
                 github_id = positive_id (map_of payload ''sender'')
             in if wh_event q = ''installation'' \<and> action \<in> {PStr ''deleted'', PStr ''suspend''} \<and> installation_id = None then invalid
                else if wh_event q = ''github_app_authorization'' \<and> action = PStr ''revoked'' \<and> github_id = None then invalid
                else andThen (sqlite_503 ''webhook unavailable''
                       (web_write (on_db (apply_webhook delivery (wh_event q) action installation_id github_id)))) (\<lambda>(applied, _).
                     andThen (current_durable aw) (\<lambda>_. ret applied)))
        | _ \<Rightarrow> invalid))"

end
