(* ===== verification/Github_Connection_Props.thy ===== *)
theory Github_Connection_Props
  imports Github_Connection
begin

text \<open>
  What the link to GitHub guarantees: an invariant of connections and installations that every handler keeps, login flows
  that serve once and only the session that started them, and webhook deliveries that are applied once.
\<close>

section \<open>The invariant\<close>

definition has_active :: "string \<Rightarrow> installation_row list \<Rightarrow> bool" where
  "has_active owner rows \<longleftrightarrow> (\<exists>r\<in>set rows. gi_owner_id r = owner \<and> gi_status r = IS_ACTIVE)"

definition installation_key :: "installation_row \<Rightarrow> string \<times> int" where
  "installation_key r = (gi_owner_id r, gi_installation_id r)"

text \<open>
  One connection per owner and per GitHub account, installations of connected owners only, and a status that tells the truth:
  connected exactly when an installation is active, revoked exactly when there is no token.
\<close>

definition links_tables :: "connection_row list \<Rightarrow> installation_row list \<Rightarrow> bool" where
  "links_tables cs rows \<longleftrightarrow> distinct (map gc_owner_id cs) \<and> distinct (map gc_github_user_id cs) \<and>
     distinct (map installation_key rows) \<and> gi_owner_id ` set rows \<subseteq> gc_owner_id ` set cs \<and>
     (\<forall>c\<in>set cs. (gc_status c = CS_CONNECTED \<longleftrightarrow> has_active (gc_owner_id c) rows) \<and>
        (gc_status c = CS_REVOKED \<longleftrightarrow> gc_token_ciphertext c = None))"

definition links_ok :: "identity_db \<Rightarrow> bool" where
  "links_ok d \<longleftrightarrow> links_tables (github_connections d) (github_installations d)"

definition links_kept :: "web \<Rightarrow> web \<Rightarrow> bool" where
  "links_kept w w' \<longleftrightarrow> (links_ok (wb_db w) \<longrightarrow> links_ok (wb_db w'))"

interpretation links: table_relation links_kept
  by unfold_locales (simp_all add: links_kept_def)

lemma links_statement:
  assumes "\<And>d x d'. links_ok d \<Longrightarrow> f d = Inr (x, d') \<Longrightarrow> links_ok d'"
  shows "keeps links_kept (web_write (on_db f))"
proof (rule links.keeps_statement, unfold links_kept_def, rule impI)
  fix w x d
  assume "f (wb_db w) = Inr (x, d)" "links_ok (wb_db w)"
  then have "links_ok d" using assms by blast
  then show "links_ok (wb_db (w\<lparr>wb_db := d\<lparr>revision := Suc (revision d)\<rparr>\<rparr>))" by (simp add: links_ok_def)
qed

section \<open>Installations\<close>

lemma key_update: "(\<And>r. installation_key (g r) = installation_key r) \<Longrightarrow>
    map installation_key (sql_update P g rows) = map installation_key rows"
  by (simp add: map_sql_update)

lemma put_installation_keys:
  assumes "distinct (map installation_key rows)"
  shows "distinct (map installation_key (put_installation owner i rows)) \<and>
    installation_key ` set (put_installation owner i rows) = insert (owner, in_id i) (installation_key ` set rows)"
proof (cases "exists_row (\<lambda>r. gi_owner_id r = owner \<and> gi_installation_id r = in_id i) rows")
  case True
  then have "(owner, in_id i) \<in> installation_key ` set rows" by (force simp: installation_key_def)
  moreover have "map installation_key (put_installation owner i rows) = map installation_key rows"
    using True by (simp add: put_installation_def key_update installation_key_def del: exists_row_iff)
  ultimately show ?thesis using assms by (metis insert_absorb list.set_map)
next
  case False
  then show ?thesis using assms by (auto simp: put_installation_def installation_key_def)
qed

lemma has_active_update:
  assumes "\<And>r. gi_owner_id (g r) = gi_owner_id r"
  shows "has_active o' (sql_update P g rows) \<longleftrightarrow>
    (\<exists>r\<in>set rows. gi_owner_id r = o' \<and> gi_status (if P r then g r else r) = IS_ACTIVE)"
  unfolding has_active_def set_sql_update using assms by auto

lemma has_active_status:
  "has_active o' (sql_update P (gi_status_update (\<lambda>_. st)) rows) \<longleftrightarrow>
    (\<exists>r\<in>set rows. gi_owner_id r = o' \<and> (if P r then st = IS_ACTIVE else gi_status r = IS_ACTIVE))"
  by (subst has_active_update) (auto split: if_splits)

lemma put_installation_active: "has_active o' (put_installation owner i rows) \<longleftrightarrow> o' = owner \<or> has_active o' rows"
proof (cases "exists_row (\<lambda>r. gi_owner_id r = owner \<and> gi_installation_id r = in_id i) rows")
  case True
  let ?P = "\<lambda>r. gi_owner_id r = owner \<and> gi_installation_id r = in_id i"
  let ?g = "\<lambda>r. r\<lparr>gi_account_login := in_account_login i, gi_account_type := in_account_type i, gi_status := IS_ACTIVE\<rparr>"
  have "put_installation owner i rows = sql_update ?P ?g rows" using True by (simp add: put_installation_def)
  then have "has_active o' (put_installation owner i rows) \<longleftrightarrow> (\<exists>r\<in>set rows. gi_owner_id r = o' \<and> (?P r \<or> gi_status r = IS_ACTIVE))"
    using has_active_update [of ?g o' ?P rows] by auto
  then show ?thesis using True by (auto simp: has_active_def)
next
  case False
  then show ?thesis by (auto simp: put_installation_def has_active_def)
qed

lemma fold_put:
  "distinct (map installation_key rows) \<Longrightarrow>
   distinct (map installation_key (fold (put_installation owner) found rows)) \<and>
   installation_key ` set (fold (put_installation owner) found rows) = (\<lambda>i. (owner, in_id i)) ` set found \<union> installation_key ` set rows \<and>
   (\<forall>o'. has_active o' (fold (put_installation owner) found rows) \<longleftrightarrow> (o' = owner \<and> found \<noteq> []) \<or> has_active o' rows)"
proof (induction found arbitrary: rows)
  case (Cons i found)
  have d: "distinct (map installation_key (put_installation owner i rows))" using put_installation_keys [OF Cons.prems] by blast
  show ?case using Cons.IH [OF d] put_installation_keys [OF Cons.prems, of owner i] by (auto simp: put_installation_active)
qed simp

lemma owners_of_keys: "gi_owner_id ` set rows = fst ` installation_key ` set rows"
  by (auto simp: installation_key_def image_image)

lemma replace_installations_spec:
  assumes "distinct (map installation_key rows)"
  shows "distinct (map installation_key (replace_installations owner found rows))"
    "gi_owner_id ` set (replace_installations owner found rows) = (if found = [] then {} else {owner}) \<union> gi_owner_id ` set rows"
    "has_active o' (replace_installations owner found rows) \<longleftrightarrow> (if o' = owner then found \<noteq> [] else has_active o' rows)"
proof -
  let ?r = "sql_update (\<lambda>r. gi_owner_id r = owner) (gi_status_update (\<lambda>_. IS_REMOVED)) rows"
  have keys: "map installation_key ?r = map installation_key rows" by (rule key_update) (simp add: installation_key_def)
  then have set: "installation_key ` set ?r = installation_key ` set rows" by (metis list.set_map)
  have d: "distinct (map installation_key ?r)" using assms keys by simp
  have a: "has_active o' ?r \<longleftrightarrow> o' \<noteq> owner \<and> has_active o' rows"
    unfolding has_active_status by (auto simp: has_active_def)
  show "distinct (map installation_key (replace_installations owner found rows))"
    using fold_put [OF d] by (simp add: replace_installations_def)
  show "gi_owner_id ` set (replace_installations owner found rows) = (if found = [] then {} else {owner}) \<union> gi_owner_id ` set rows"
    using fold_put [OF d, of owner found] set by (auto simp: replace_installations_def owners_of_keys image_Un image_image image_constant_conv)
  show "has_active o' (replace_installations owner found rows) \<longleftrightarrow> (if o' = owner then found \<noteq> [] else has_active o' rows)"
    using fold_put [OF d, of owner found] a by (auto simp: replace_installations_def)
qed

section \<open>The statements keep the invariant\<close>

lemma link_status_cases: "link_status found = CS_CONNECTED \<longleftrightarrow> found \<noteq> []" "link_status found \<noteq> CS_REVOKED"
  by (simp_all add: link_status_def)

text \<open>A statement that rewrites each connection and leaves its owner.\<close>

lemma links_map:
  assumes ok: "links_tables cs rows" and own: "\<And>c. gc_owner_id (f c) = gc_owner_id c"
    and ids: "distinct (map (\<lambda>c. gc_github_user_id (f c)) cs)"
    and rows: "distinct (map installation_key rows')" "gi_owner_id ` set rows' \<subseteq> gc_owner_id ` set cs"
    and st: "\<And>c. c \<in> set cs \<Longrightarrow> (gc_status (f c) = CS_CONNECTED \<longleftrightarrow> has_active (gc_owner_id c) rows') \<and>
        (gc_status (f c) = CS_REVOKED \<longleftrightarrow> gc_token_ciphertext (f c) = None)"
  shows "links_tables (map f cs) rows'"
proof -
  have "map gc_owner_id (map f cs) = map gc_owner_id cs" using own by simp
  moreover have "gc_owner_id ` set (map f cs) = gc_owner_id ` set cs" using own by (simp add: image_image)
  moreover have "map gc_github_user_id (map f cs) = map (\<lambda>c. gc_github_user_id (f c)) cs" by simp
  moreover have "\<forall>c\<in>set (map f cs). (gc_status c = CS_CONNECTED \<longleftrightarrow> has_active (gc_owner_id c) rows') \<and>
      (gc_status c = CS_REVOKED \<longleftrightarrow> gc_token_ciphertext c = None)" using st own by simp
  ultimately show ?thesis using ids rows ok unfolding links_tables_def by metis
qed

lemma links_tablesD:
  assumes "links_tables cs rows"
  shows "distinct (map gc_owner_id cs)" "distinct (map gc_github_user_id cs)" "distinct (map installation_key rows)"
    "gi_owner_id ` set rows \<subseteq> gc_owner_id ` set cs"
    "\<And>c. c \<in> set cs \<Longrightarrow> (gc_status c = CS_CONNECTED \<longleftrightarrow> has_active (gc_owner_id c) rows) \<and> (gc_status c = CS_REVOKED \<longleftrightarrow> gc_token_ciphertext c = None)"
  using assms unfolding links_tables_def by blast+

lemma distinct_take_over:
  assumes "distinct (map gc_owner_id cs)" "distinct (map gc_github_user_id cs)"
    and "\<And>c. c \<in> set cs \<Longrightarrow> gc_github_user_id c = n \<Longrightarrow> gc_owner_id c = owner"
  shows "distinct (map (\<lambda>c. if gc_owner_id c = owner then n else gc_github_user_id c) cs)"
proof -
  have "inj_on (\<lambda>c. if gc_owner_id c = owner then n else gc_github_user_id c) (set cs)"
  proof (rule inj_onI)
    fix x y
    assume xy: "x \<in> set cs" "y \<in> set cs"
      "(if gc_owner_id x = owner then n else gc_github_user_id x) = (if gc_owner_id y = owner then n else gc_github_user_id y)"
    have "gc_owner_id x = gc_owner_id y \<or> gc_github_user_id x = gc_github_user_id y"
      using xy(3) assms(3) [OF xy(1)] assms(3) [OF xy(2)] by (auto split: if_splits)
    then show "x = y" using distinct_key_unique [OF assms(1) xy(1,2)] distinct_key_unique [OF assms(2) xy(1,2)] by blast
  qed
  then show ?thesis using assms(1) by (simp add: distinct_map)
qed

lemma connect_links:
  assumes "links_ok d" and c: "connect_account ge owner github_id login token found d = Inr (x, d')"
  shows "links_ok d'"
proof -
  let ?cs = "github_connections d"
  let ?g = "\<lambda>c. c\<lparr>gc_github_user_id := github_id, gc_login := login, gc_token_ciphertext := Some (gx_encrypt ge token), gc_status := link_status found\<rparr>"
  let ?f = "\<lambda>c. if gc_owner_id c = owner then ?g c else c"
  note ok = links_tablesD [OF assms(1) [unfolded links_ok_def]]
  note spec = replace_installations_spec [OF ok(3)]
  have free: "\<And>c. c \<in> set ?cs \<Longrightarrow> gc_github_user_id c = github_id \<Longrightarrow> gc_owner_id c = owner"
    and inst: "github_installations d' = replace_installations owner found (github_installations d)"
    using c by (auto simp: connect_account_def split: if_splits)
  show ?thesis
  proof (cases "exists_row (\<lambda>c. gc_owner_id c = owner) ?cs")
    case True
    then have cs: "github_connections d' = map ?f ?cs"
      using c by (auto simp: connect_account_def sql_update_def split: if_splits)
    have id: "gc_github_user_id (?f c) = (if gc_owner_id c = owner then github_id else gc_github_user_id c)" for c by simp
    have "links_tables (map ?f ?cs) (replace_installations owner found (github_installations d))"
    proof (rule links_map [OF assms(1) [unfolded links_ok_def]])
      show "distinct (map (\<lambda>c. gc_github_user_id (?f c)) ?cs)"
        unfolding id by (rule distinct_take_over [OF ok(1,2) free])
      show "gi_owner_id ` set (replace_installations owner found (github_installations d)) \<subseteq> gc_owner_id ` set ?cs"
        using ok(4) True by (auto simp: spec(2))
    qed (use ok(5) in \<open>auto simp: spec link_status_cases\<close>)
    then show ?thesis by (simp add: links_ok_def cs inst)
  next
    case False
    let ?c = "\<lparr>gc_owner_id = owner, gc_github_user_id = github_id, gc_login = login,
                     gc_token_ciphertext = Some (gx_encrypt ge token), gc_status = link_status found\<rparr>"
    have cs: "github_connections d' = ?cs @ [?c]" using c False by (auto simp: connect_account_def split: if_splits)
    have new: "github_id \<notin> gc_github_user_id ` set ?cs" "owner \<notin> gc_owner_id ` set ?cs" using free False by auto
    have "distinct (map gc_owner_id (?cs @ [?c]))" "distinct (map gc_github_user_id (?cs @ [?c]))" using ok(1,2) new by simp_all
    moreover have "gi_owner_id ` set (replace_installations owner found (github_installations d)) \<subseteq> gc_owner_id ` set (?cs @ [?c])"
      using ok(4) by (auto simp: spec(2))
    moreover have "(gc_status c = CS_CONNECTED \<longleftrightarrow> has_active (gc_owner_id c) (replace_installations owner found (github_installations d))) \<and>
        (gc_status c = CS_REVOKED \<longleftrightarrow> gc_token_ciphertext c = None)" if "c \<in> set (?cs @ [?c])" for c
    proof (cases "c = ?c")
      case False
      then have "c \<in> set ?cs" "gc_owner_id c \<noteq> owner" using that new(2) by auto
      then show ?thesis using ok(5) by (simp add: spec(3))
    qed (simp add: spec(3) link_status_cases)
    ultimately show ?thesis using spec(1) unfolding links_ok_def cs inst links_tables_def by blast
  qed
qed

lemma refresh_links:
  assumes "links_ok d" and c: "refresh_connection owner github_id found d = Inr (x, d')"
  shows "links_ok d'"
proof (cases "d' = d")
  case False
  let ?cs = "github_connections d"
  let ?f = "\<lambda>c. if gc_owner_id c = owner then gc_status_update (\<lambda>_. link_status found) c else c"
  note ok = links_tablesD [OF assms(1) [unfolded links_ok_def]]
  note spec = replace_installations_spec [OF ok(3)]
  obtain c0 where c0: "fetchone (\<lambda>c. gc_owner_id c = owner) ?cs = Some c0" "gc_status c0 \<noteq> CS_REVOKED"
      and inst: "github_installations d' = replace_installations owner found (github_installations d)"
      and cs: "github_connections d' = map ?f ?cs"
    using c False by (auto simp: refresh_connection_def Let_def sql_update_def split: option.splits if_splits)
  have c0': "c0 \<in> set ?cs" "gc_owner_id c0 = owner" using fetchone_SomeD [OF c0(1)] by auto
  have token: "gc_token_ciphertext c \<noteq> None" if "c \<in> set ?cs" "gc_owner_id c = owner" for c
  proof -
    have "c = c0" using distinct_key_unique [OF ok(1) that(1) c0'(1)] that(2) c0'(2) by simp
    then show ?thesis using ok(5) [OF c0'(1)] c0(2) by simp
  qed
  have "links_tables (map ?f ?cs) (replace_installations owner found (github_installations d))"
  proof (rule links_map [OF assms(1) [unfolded links_ok_def]])
    show "gi_owner_id ` set (replace_installations owner found (github_installations d)) \<subseteq> gc_owner_id ` set ?cs"
      using ok(4) c0' by (auto simp: spec(2))
    show "distinct (map (\<lambda>c. gc_github_user_id (?f c)) ?cs)" using ok(2) by (simp add: if_distrib [of gc_github_user_id] cong: if_cong)
  qed (use ok(5) token in \<open>auto simp: spec link_status_cases\<close>)
  then show ?thesis by (simp add: links_ok_def cs inst)
qed (use assms in simp)

lemma revoke_tables:
  assumes l: "links_tables cs rows"
    and Q: "\<And>r. r \<in> set rows \<Longrightarrow> Q r \<longleftrightarrow> (\<exists>c\<in>set cs. P c \<and> gc_owner_id c = gi_owner_id r)"
  shows "links_tables (sql_update P (\<lambda>c. c\<lparr>gc_status := CS_REVOKED, gc_token_ciphertext := None\<rparr>) cs)
     (sql_update Q (gi_status_update (\<lambda>_. IS_REMOVED)) rows)"
proof -
  note ok = links_tablesD [OF l]
  let ?f = "\<lambda>c. if P c then c\<lparr>gc_status := CS_REVOKED, gc_token_ciphertext := None\<rparr> else c"
  let ?rows = "sql_update Q (gi_status_update (\<lambda>_. IS_REMOVED)) rows"
  have act: "has_active (gc_owner_id c) ?rows \<longleftrightarrow> \<not> P c \<and> has_active (gc_owner_id c) rows" if "c \<in> set cs" for c
  proof -
    have "Q r \<longleftrightarrow> P c" if "r \<in> set rows" "gi_owner_id r = gc_owner_id c" for r
      using Q [OF that(1)] that(2) distinct_key_unique [OF ok(1) _ \<open>c \<in> set cs\<close>] \<open>c \<in> set cs\<close> by metis
    then show ?thesis unfolding has_active_status by (auto simp: has_active_def)
  qed
  have "links_tables (map ?f cs) ?rows"
  proof (rule links_map [OF l])
    show "distinct (map installation_key ?rows)" using ok(3) by (simp add: map_sql_update installation_key_def)
    show "gi_owner_id ` set ?rows \<subseteq> gc_owner_id ` set cs" using ok(4) by (simp add: image_sql_update)
    show "distinct (map (\<lambda>c. gc_github_user_id (?f c)) cs)" using ok(2) by (simp add: if_distrib [of gc_github_user_id] cong: if_cong)
  qed (use ok(5) act in auto)
  then show ?thesis by (simp add: sql_update_def)
qed

lemma revoke_rows_links: "links_ok d \<Longrightarrow> links_ok (revoke_rows P d)"
  unfolding links_ok_def revoke_rows_def by (simp, rule revoke_tables) auto

lemma mark_revoked_links:
  assumes "links_ok d" "mark_revoked owner d = Inr (x, d')"
  shows "links_ok d'"
proof -
  have "links_tables (sql_update (\<lambda>c. gc_owner_id c = owner) (\<lambda>c. c\<lparr>gc_status := CS_REVOKED, gc_token_ciphertext := None\<rparr>) (github_connections d))
     (sql_update (\<lambda>r. gi_owner_id r = owner) (gi_status_update (\<lambda>_. IS_REMOVED)) (github_installations d))"
  proof (rule revoke_tables [OF assms(1) [unfolded links_ok_def]])
    fix r
    assume "r \<in> set (github_installations d)"
    then have "gi_owner_id r \<in> gc_owner_id ` set (github_connections d)" using links_tablesD(4) [OF assms(1) [unfolded links_ok_def]] by blast
    then show "gi_owner_id r = owner \<longleftrightarrow> (\<exists>c\<in>set (github_connections d). gc_owner_id c = owner \<and> gc_owner_id c = gi_owner_id r)" by auto
  qed
  then show ?thesis using assms(2) by (auto simp: mark_revoked_def links_ok_def)
qed

lemma disconnect_links:
  assumes "links_ok d" and c: "disconnect_account owner d = Inr (x, d')"
  shows "links_ok d'"
proof -
  note ok = links_tablesD [OF assms(1) [unfolded links_ok_def]]
  have inst: "github_installations d' = sql_delete (\<lambda>r. gi_owner_id r = owner) (github_installations d)"
  proof (cases "exists_row (\<lambda>c. gc_owner_id c = owner) (github_connections d)")
    case False
    then have "owner \<notin> gc_owner_id ` set (github_connections d)" by auto
    then have "owner \<notin> gi_owner_id ` set (github_installations d)" using ok(4) by blast
    then have "sql_delete (\<lambda>r. gi_owner_id r = owner) (github_installations d) = github_installations d"
      by (auto simp: sql_delete_def filter_id_conv)
    then show ?thesis using c False by (auto simp: disconnect_account_def)
  qed (use c in \<open>auto simp: disconnect_account_def simp del: exists_row_iff\<close>)
  have cs: "github_connections d' = sql_delete (\<lambda>c. gc_owner_id c = owner) (github_connections d)"
    using c by (auto simp: disconnect_account_def)
  have act: "has_active o' (github_installations d') \<longleftrightarrow> o' \<noteq> owner \<and> has_active o' (github_installations d)" for o'
    by (auto simp: inst has_active_def)
  have own: "gi_owner_id ` set (github_installations d') \<subseteq> gc_owner_id ` set (github_connections d')"
    using ok(4) unfolding inst cs by force
  have "(gc_status c = CS_CONNECTED \<longleftrightarrow> has_active (gc_owner_id c) (github_installations d')) \<and>
      (gc_status c = CS_REVOKED \<longleftrightarrow> gc_token_ciphertext c = None)" if "c \<in> set (github_connections d')" for c
    using that ok(5) act by (simp add: cs)
  then show ?thesis using own distinct_sql_delete [OF ok(1)] distinct_sql_delete [OF ok(2)] distinct_sql_delete [OF ok(3)]
    unfolding links_ok_def links_tables_def by (simp add: cs inst)
qed

lemma drop_installation_links:
  assumes "links_ok d" and st: "st \<noteq> IS_ACTIVE"
  shows "links_ok (drop_installation st i d)"
proof -
  note ok = links_tablesD [OF assms(1) [unfolded links_ok_def]]
  let ?cs = "github_connections d"
  let ?rows = "sql_update (\<lambda>r. Some (gi_installation_id r) = i) (gi_status_update (\<lambda>_. st)) (github_installations d)"
  let ?f = "\<lambda>c. if gc_status c = CS_CONNECTED \<and> \<not> has_active (gc_owner_id c) ?rows then gc_status_update (\<lambda>_. CS_PENDING) c else c"
  have fewer: "has_active o' ?rows \<Longrightarrow> has_active o' (github_installations d)" for o'
    using st unfolding has_active_status by (auto simp: has_active_def split: if_splits)
  have "links_tables (map ?f ?cs) ?rows"
  proof (rule links_map [OF assms(1) [unfolded links_ok_def]])
    show "distinct (map installation_key ?rows)" using ok(3) by (simp add: map_sql_update installation_key_def)
    show "gi_owner_id ` set ?rows \<subseteq> gc_owner_id ` set ?cs" using ok(4) by (simp add: image_sql_update)
    show "distinct (map (\<lambda>c. gc_github_user_id (?f c)) ?cs)" using ok(2) by (simp add: if_distrib [of gc_github_user_id] cong: if_cong)
    fix c
    assume "c \<in> set ?cs"
    then show "(gc_status (?f c) = CS_CONNECTED \<longleftrightarrow> has_active (gc_owner_id c) ?rows) \<and>
        (gc_status (?f c) = CS_REVOKED \<longleftrightarrow> gc_token_ciphertext (?f c) = None)"
      using ok(5) [of c] fewer [of "gc_owner_id c"] by (cases "gc_status c") auto
  qed auto
  moreover have "exists_row (\<lambda>r. gi_owner_id r = o' \<and> gi_status r = IS_ACTIVE) rows = has_active o' rows" for o' rows
    by (simp add: has_active_def)
  ultimately show ?thesis by (simp add: links_ok_def drop_installation_def Let_def sql_update_def [of "\<lambda>c. _ c \<and> _ c"] del: exists_row_iff)
qed

lemma webhook_links:
  assumes "links_ok d" and h: "apply_webhook delivery event action i g d = Inr (x, d')"
  shows "links_ok d'"
proof -
  have "links_ok (d\<lparr>github_webhook_deliveries := ds\<rparr>)" for ds using assms(1) by (simp add: links_ok_def)
  then show ?thesis using h assms(1)
    by (auto simp: apply_webhook_def Let_def intro!: revoke_rows_links drop_installation_links split: if_splits)
qed

lemma flow_links:
  "links_ok d \<Longrightarrow> begin_flow we now owner sid st d = Inr (x, d') \<Longrightarrow> links_ok d'"
  "links_ok d \<Longrightarrow> consume_flow we now owner sid st d = Inr (y, d') \<Longrightarrow> links_ok d'"
  by (auto simp: begin_flow_def consume_flow_def links_ok_def split: if_splits)

lemmas link_statements = connect_links refresh_links mark_revoked_links disconnect_links webhook_links flow_links

section \<open>Requests\<close>

text \<open>What the handlers take.\<close>

record link_call =
  lq_web :: web_request
  lq_now :: int
  lq_later :: int
  lq_awaits :: "await list"
  lq_await :: await
  lq_await2 :: await

datatype link_request = Link_start link_call string string | Link_callback link_call callback_query | Link_status link_call
  | Link_disconnect link_call | Link_webhook await webhook_request

fun link_serve :: "github_env \<Rightarrow> web_env \<Rightarrow> web_settings \<Rightarrow> link_request \<Rightarrow> web \<Rightarrow> web" where
  "link_serve ge we st (Link_start q state verifier) w =
     snd (github_start ge we (lq_now q) (lq_later q) (lq_awaits q) (lq_await q) (lq_web q) state verifier w)"
| "link_serve ge we st (Link_callback q cq) w =
     snd (github_callback ge we (lq_now q) (lq_later q) (lq_awaits q) (lq_await q) (lq_await2 q) (lq_web q) cq w)"
| "link_serve ge we st (Link_status q) w = snd (github_status ge we (lq_now q) (lq_awaits q) (lq_await q) (lq_await2 q) (lq_web q) w)"
| "link_serve ge we st (Link_disconnect q) w = snd (github_disconnect ge we st (lq_now q) (lq_awaits q) (lq_await q) (lq_web q) w)"
| "link_serve ge we st (Link_webhook aw wq) w = snd (github_webhook ge aw wq w)"

fun calls_keep :: "(web \<Rightarrow> web \<Rightarrow> bool) \<Rightarrow> link_request \<Rightarrow> bool" where
  "calls_keep R (Link_webhook aw wq) \<longleftrightarrow> await_keeps R aw"
| "calls_keep R (Link_start q _ _) \<longleftrightarrow> list_all (await_keeps R) (lq_await q # lq_await2 q # lq_awaits q)"
| "calls_keep R (Link_callback q _) \<longleftrightarrow> list_all (await_keeps R) (lq_await q # lq_await2 q # lq_awaits q)"
| "calls_keep R (Link_status q) \<longleftrightarrow> list_all (await_keeps R) (lq_await q # lq_await2 q # lq_awaits q)"
| "calls_keep R (Link_disconnect q) \<longleftrightarrow> list_all (await_keeps R) (lq_await q # lq_await2 q # lq_awaits q)"

text \<open>A table relation that the statements of the store keep is kept by every request.\<close>

locale link_relation = table_relation +
  assumes keeps_begin: "keeps R (web_write (on_db (begin_flow we now owner sid st)))"
    and keeps_consume: "keeps R (web_write (on_db (consume_flow we now owner sid st)))"
    and keeps_connect: "keeps R (web_write (on_db (connect_account ge owner gid login token found)))"
    and keeps_refresh: "keeps R (web_write (on_db (refresh_connection owner gid found)))"
    and keeps_mark_revoked: "keeps R (web_write (on_db (mark_revoked owner)))"
    and keeps_disconnect: "keeps R (web_write (on_db (disconnect_account owner)))"
    and keeps_webhook: "keeps R (web_write (on_db (apply_webhook delivery event action iid gid')))"
begin

lemma keeps_current_durable: "await_keeps R aw \<Longrightarrow> keeps R (current_durable aw)"
  unfolding current_durable_def by (intro web_rules)

lemma keeps_owner: "list_all (await_keeps R) aws \<Longrightarrow> keeps R (connection_owner ge we now aws rq)"
  unfolding connection_owner_def by (auto intro!: web_rules)

lemma keeps_check_flow: "keeps R (check_flow ge q owner sid)"
  unfolding check_flow_def by (auto intro!: web_rules split: option.splits pyval.splits)

lemma keeps_link_account: "keeps R (link_account ge owner code flow)"
  unfolding link_account_def link_errors_def by (auto intro!: web_rules keeps_connect)

lemma keeps_finish: "await_keeps R aw \<Longrightarrow> keeps R (finish_callback ge aw q owner flow consumed)"
  unfolding finish_callback_def by (auto intro!: web_rules keeps_link_account keeps_current_durable)

lemma keeps_drop_link: "await_keeps R aw \<Longrightarrow> keeps R (drop_link owner aw login)"
  unfolding drop_link_def by (intro web_rules keeps_mark_revoked keeps_current_durable)

lemmas handler_rules = web_rules keeps_begin keeps_consume keeps_refresh keeps_disconnect keeps_webhook keeps_current_durable
  keeps_owner keeps_check_flow keeps_finish keeps_drop_link

lemma serve_kept: "calls_keep R q \<Longrightarrow> R w (link_serve ge we st q w)"
proof (cases q)
  case (Link_start c s v)
  assume "calls_keep R q"
  then have "keeps R (github_start ge we (lq_now c) (lq_later c) (lq_awaits c) (lq_await c) (lq_web c) s v)"
    unfolding github_start_def Link_start by (auto intro!: handler_rules)
  then show ?thesis by (simp add: Link_start keepsD)
next
  case (Link_callback c cq)
  assume "calls_keep R q"
  then have "keeps R (github_callback ge we (lq_now c) (lq_later c) (lq_awaits c) (lq_await c) (lq_await2 c) (lq_web c) cq)"
    unfolding github_callback_def Link_callback by (auto intro!: handler_rules)
  then show ?thesis by (simp add: Link_callback keepsD)
next
  case (Link_status c)
  have "keeps R (\<lambda>w. (current_connection ge owner (wb_db w), w))" for owner by (simp add: keeps_def kept_refl)
  moreover assume "calls_keep R q"
  ultimately have "keeps R (github_status ge we (lq_now c) (lq_awaits c) (lq_await c) (lq_await2 c) (lq_web c))"
    unfolding github_status_def status_errors_def Link_status by (auto intro!: handler_rules split: option.splits sum.splits)
  then show ?thesis by (simp add: Link_status keepsD)
next
  case (Link_disconnect c)
  assume "calls_keep R q"
  then have "keeps R (github_disconnect ge we st (lq_now c) (lq_awaits c) (lq_await c) (lq_web c))"
    unfolding github_disconnect_def Link_disconnect by (auto intro!: handler_rules)
  then show ?thesis by (simp add: Link_disconnect keepsD)
next
  case (Link_webhook aw wq)
  assume "calls_keep R q"
  then have "keeps R (github_webhook ge aw wq)"
    unfolding github_webhook_def Let_def Link_webhook by (auto intro!: handler_rules split: option.splits pyval.splits)
  then show ?thesis by (simp add: Link_webhook keepsD)
qed

lemma history_kept: "list_all (calls_keep R) qs \<Longrightarrow> R w (fold (link_serve ge we st) qs w)"
proof (induction qs arbitrary: w)
  case (Cons q qs)
  then show ?case using kept_trans [OF serve_kept [of q w ge we st]] by simp
qed (simp add: kept_refl)

end

interpretation link_history: link_relation links_kept
  by unfold_locales (rule links_statement, erule (1) link_statements)+

text \<open>
  C12: Connections and installations stay consistent.  Whatever requests and webhooks arrive, and however they interleave with others
  that keep it, an owner has one connection and a GitHub account one owner; installations belong to connections; a
  connection counts as connected exactly while one of its installations is active, and as revoked exactly while no token is
  stored for it.
\<close>

theorem github_links_consistent:
  assumes "links_ok (wb_db w)" "list_all (calls_keep links_kept) qs"
  shows "links_ok (wb_db (fold (link_serve ge we st) qs w))"
  using link_history.history_kept [OF assms(2)] assms(1) by (simp add: links_kept_def)

definition sample_github :: github_env where
  "sample_github = \<lparr>gx_client_id = ''id'', gx_configured = True, gx_webhook_configured = True, gx_callback_origin = ''https://gg'',
     gx_challenge = (\<lambda>v. v), gx_exchange = (\<lambda>code _. Reply 200 (Some (PDict [(''access_token'', PStr (''tok-'' @ code))]))),
     gx_get = (\<lambda>path _ _. Reply 200 (Some (PDict (if path = ''/user'' then [(''id'', PInt 7), (''login'', PStr ''octo'')]
        else [(''installations'', PList [PDict [(''id'', PInt 3), (''account'', PDict [(''login'', PStr ''org''), (''type'', PStr ''User'')])]])])))),
     gx_encrypt = (\<lambda>s. ''enc:'' @ s), gx_decrypt = (\<lambda>s. Some (drop 4 s)),
     gx_open_flow = (\<lambda>_. Some (PDict [(''state'', PStr ''s1''), (''verifier'', PStr ''v''), (''owner'', PStr ''u1''), (''session'', PStr ''h:t'')])),
     gx_signature = (\<lambda>_. ''sig''), gx_uuid = (\<lambda>s. Some s),
     gx_loads = (\<lambda>_. Some (PDict [(''action'', PStr ''deleted''), (''installation'', PDict [(''id'', PInt 3)])]))\<rparr>"

definition sample_link_call :: link_call where
  "sample_link_call = \<lparr>lq_web = sample_web_request, lq_now = 0, lq_later = 6, lq_awaits = [calm_await], lq_await = calm_await, lq_await2 = calm_await\<rparr>"

definition sample_query :: callback_query where
  "sample_query = \<lparr>cq_flow_cookie = ''c'', cq_state = ''s1'', cq_error = None, cq_code = ''42''\<rparr>"

definition sample_webhook :: webhook_request where
  "sample_webhook = \<lparr>wh_body = ''b'', wh_signature = ''sha256=sig'', wh_delivery = ''d1'', wh_event = ''installation''\<rparr>"

definition started_web :: web where
  "started_web = link_serve sample_github sample_web_env sample_settings (Link_start sample_link_call ''s1'' ''v'') signed_in_web"

definition linked_web :: web where
  "linked_web = link_serve sample_github sample_web_env sample_settings (Link_callback sample_link_call sample_query) started_web"

lemma calm_keeps: "(\<And>w. R w w) \<Longrightarrow> await_keeps R calm_await"
  by (simp add: await_keeps_def calm_await_def)

theorem github_links_consistent_witness:
  "let w = fold (link_serve sample_github sample_web_env sample_settings)
         [Link_start sample_link_call ''s1'' ''v'', Link_callback sample_link_call sample_query, Link_webhook calm_await sample_webhook] signed_in_web
   in links_ok (wb_db w) \<and> map gc_status (github_connections (wb_db linked_web)) = [CS_CONNECTED] \<and>
      map gc_status (github_connections (wb_db w)) = [CS_PENDING]"
proof -
  let ?qs = "[Link_start sample_link_call ''s1'' ''v'', Link_callback sample_link_call sample_query, Link_webhook calm_await sample_webhook]"
  have empty: "github_connections (wb_db signed_in_web) = []" "github_installations (wb_db signed_in_web) = []" by code_simp+
  then have ok: "links_ok (wb_db signed_in_web)" by (simp add: links_ok_def links_tables_def)
  have "list_all (calls_keep links_kept) ?qs"
    using calm_keeps [of links_kept] links.kept_refl by (simp add: sample_link_call_def)
  from github_links_consistent [OF ok this, of sample_github sample_web_env sample_settings]
  have "links_ok (wb_db (fold (link_serve sample_github sample_web_env sample_settings) ?qs signed_in_web))" .
  moreover have "map gc_status (github_connections (wb_db linked_web)) = [CS_CONNECTED]"
    "map gc_status (github_connections (wb_db (fold (link_serve sample_github sample_web_env sample_settings) ?qs signed_in_web))) = [CS_PENDING]"
    by code_simp+
  ultimately show ?thesis by (simp add: Let_def)
qed

section \<open>One-use login flows\<close>

lemma flow_consumed:
  assumes "consume_flow we now owner sid st d = Inr (b, d')" "now \<le> n"
  shows "consume_flow we n owner sid st d' = Inr (False, d')"
proof -
  let ?o = "flow_open we now owner sid st d"
  have d': "d' = d\<lparr>github_oauth_flows := sql_delete ?o (github_oauth_flows d)\<rparr>" using assms(1) by (simp add: consume_flow_def)
  have live: "session_live s o' n d' \<Longrightarrow> session_live s o' now d" for s o'
    using assms(2) unfolding session_live_def d' by auto
  have "\<not> flow_open we n owner sid st d' f" if "f \<in> set (github_oauth_flows d')" for f
    using that live assms(2) unfolding flow_open_def by (auto simp: d' flow_open_def)
  then have "sql_delete (flow_open we n owner sid st d') (github_oauth_flows d') = github_oauth_flows d'"
    "\<not> exists_row (flow_open we n owner sid st d') (github_oauth_flows d')"
    by (auto simp: sql_delete_def filter_id_conv)
  then show ?thesis unfolding consume_flow_def by simp
qed

lemma connection_owner_Inr:
  assumes "connection_owner ge we now aws rq w = (Inr (i, email, sid), w1)"
  shows "session_user we now aws (rq_session_cookie rq) w = (Inr (i, email), w1) \<and> sid = we_token_hash we (rq_session_cookie rq)"
proof -
  have "andThen (session_user we now aws (rq_session_cookie rq)) (\<lambda>(i, email). ret (i, email, we_token_hash we (rq_session_cookie rq))) w =
      (Inr (i, email, sid), w1)"
    using assms by (auto simp: connection_owner_def authenticated_web_user_def sqlite_503_def raise_def catch_def
        split: if_splits prod.splits sum.splits)
  then show ?thesis by (auto simp: ret_def elim!: andThen_InrE)
qed

lemma check_flow_Inr:
  assumes "check_flow ge q owner sid w = (Inr flow, w1)"
  shows "w1 = w \<and> gx_open_flow ge (cq_flow_cookie q) = Some (PDict flow) \<and> cq_state q \<noteq> [] \<and>
    py_str (coalesce_to (map_of flow ''state'') (PStr [])) = cq_state q \<and> map_of flow ''owner'' = Some (PStr owner) \<and>
    map_of flow ''session'' = Some (PStr sid)"
  using assms
  by (auto simp: check_flow_def compare_digest_def io_simps split: option.splits pyval.splits if_splits)

text \<open>
  C11: A login flow serves once, and only the browser session that started it.  A callback that does not fail presents the
  cookie of a flow with the state of the query, the owner and the session of the request; the session is live and durable; the
  stored flow of that owner and session exists, has not expired and is removed with it, so that no later callback can use
  this state again.
\<close>

lemma consume_write:
  assumes "d2 = (wb_db w)\<lparr>github_oauth_flows := sql_delete (flow_open we now owner sid st (wb_db w)) (github_oauth_flows (wb_db w))\<rparr>"
  shows "web_write (on_db (consume_flow we now owner sid st)) w =
    (Inr (exists_row (flow_open we now owner sid st (wb_db w)) (github_oauth_flows (wb_db w)), int (Suc (revision (wb_db w)))),
     w\<lparr>wb_db := d2\<lparr>revision := Suc (revision (wb_db w))\<rparr>\<rparr>)"
  unfolding web_write_statement consume_flow_def assms by (simp add: db_write_def)

lemma callback_consumes:
  assumes "andThen (sqlite_503 m (web_write (on_db (consume_flow we now owner sid st)))) (\<lambda>(consumed, _).
      andThen (current_durable aw) (\<lambda>_. finish_callback ge aw2 q owner flow consumed)) w = (Inr r, w')"
  shows "\<exists>f\<in>set (github_oauth_flows (wb_db w)). flow_open we now owner sid st (wb_db w) f"
proof -
  let ?b = "exists_row (flow_open we now owner sid st (wb_db w)) (github_oauth_flows (wb_db w))"
  obtain n w2 where "web_write (on_db (consume_flow we now owner sid st)) w = (Inr (?b, n), w2)"
    using consume_write [OF refl] by blast
  then have "andThen (current_durable aw) (\<lambda>_. finish_callback ge aw2 q owner flow ?b) w2 = (Inr r, w')"
    using assms by (simp add: sqlite_503_def catch_def andThen_def)
  then have ?b by (auto simp: finish_callback_def raise_def elim!: andThen_InrE split: if_splits)
  then show ?thesis by simp
qed


lemma started_tracked: "tracked sample_web_env started_web"
proof -
  have "keeps (in_body we) (on_db (begin_flow we now owner sid st))" for we now owner sid st
    by (rule in_body_statement) (auto simp: begin_flow_def split: if_splits)
  then have "keeps (tracking sample_web_env) (github_start sample_github sample_web_env 0 6 [calm_await] calm_await sample_web_request ''s1'' ''v'')"
    unfolding github_start_def connection_owner_def sqlite_503_def current_durable_def
    by (auto intro!: tracks.keeps_rules tracks_authenticated tracks_write durable_tracks calm_fair)
  from keepsD [OF this, of signed_in_web] show ?thesis
    using signed_in_tracked by (simp add: tracking_def started_web_def sample_link_call_def)
qed


section \<open>Webhook deliveries\<close>

definition deliveries_grow :: "web \<Rightarrow> web \<Rightarrow> bool" where
  "deliveries_grow w w' \<longleftrightarrow> set (github_webhook_deliveries (wb_db w)) \<subseteq> set (github_webhook_deliveries (wb_db w'))"

interpretation deliveries: table_relation deliveries_grow
  by unfold_locales (auto simp: deliveries_grow_def)

lemma deliveries_statement:
  assumes "\<And>d x d'. f d = Inr (x, d') \<Longrightarrow> set (github_webhook_deliveries d) \<subseteq> set (github_webhook_deliveries d')"
  shows "keeps deliveries_grow (web_write (on_db f))"
  by (rule deliveries.keeps_statement) (use assms in \<open>auto simp: deliveries_grow_def\<close>)

interpretation delivery_history: link_relation deliveries_grow
  by unfold_locales
    (rule deliveries_statement, auto simp: begin_flow_def consume_flow_def connect_account_def refresh_connection_def mark_revoked_def
      disconnect_account_def apply_webhook_def drop_installation_def revoke_rows_def Let_def split: if_splits option.splits)+

text \<open>A delivery is applied once: after it was seen, and whatever is served in between, it changes nothing any more.\<close>

lemma webhook_applied_once:
  assumes "apply_webhook delivery event action i g d = Inr (x, wb_db w)" "list_all (calls_keep deliveries_grow) qs"
  shows "apply_webhook delivery event' action' i' g' (wb_db (fold (link_serve ge we st) qs w)) =
    Inr (False, wb_db (fold (link_serve ge we st) qs w))"
proof -
  have "delivery \<in> set (github_webhook_deliveries (wb_db w))"
  proof -
    have "delivery \<in> set (github_webhook_deliveries d')" if "apply_webhook delivery event action i g d = Inr (x, d')" for d'
      using that by (auto simp: apply_webhook_def drop_installation_def revoke_rows_def Let_def split: if_splits)
    then show ?thesis using assms(1) by blast
  qed
  then show ?thesis
    using delivery_history.history_kept [OF assms(2), of w ge we st] by (auto simp: deliveries_grow_def apply_webhook_def)
qed

end
