(* ===== verification/Google_Login.thy ===== *)
theory Google_Login
  imports Identity_Props
begin

text \<open>
  \<open>backend/gg/runtime/google_auth.py\<close>: sign-in with Google by code and PKCE.  The key cache is \<open>key_cache\<close>, with the
  monotonic clock in microseconds; \<open>jwt.decode\<close>, the import of the key set, SHA-256, HMAC and the HTTP answers are
  arguments.  The lock of the callback is held across its awaits; the claim of a flow is what keeps two callbacks apart
  nevertheless, so the model lets other requests run at each of them.
\<close>

section \<open>Signing keys and claims\<close>

datatype decoded = Unknown_key | Undecodable | Claims "(string \<times> pyval) list"

record google_env =
  go_client_id :: string
  go_configured :: bool
  go_origin :: string
  go_challenge :: "string \<Rightarrow> string"
  go_bad_netloc :: "string \<Rightarrow> bool"
  go_token :: "string \<Rightarrow> string \<Rightarrow> http_reply"
  go_jwks :: "bool \<Rightarrow> http_reply"
  go_import :: "pyval \<Rightarrow> pyval option"
  go_decode :: "pyval \<Rightarrow> string \<Rightarrow> decoded"
  go_session_token :: "string \<Rightarrow> string \<Rightarrow> string"
  go_monotonic :: int
  go_clock :: int

record key_cache =
  kc_keys :: "pyval option"
  kc_keys_at :: int
  kc_unknown_refresh_at :: int

definition new_cache :: key_cache where
  "new_cache = \<lparr>kc_keys = None, kc_keys_at = 0, kc_unknown_refresh_at = 0\<rparr>"

definition signing_keys :: "google_env \<Rightarrow> bool \<Rightarrow> key_cache \<Rightarrow> (web_error + pyval) \<times> key_cache" where
  "signing_keys go refresh c =
     (if kc_keys c = None \<or> 600 * 1000000 \<le> go_monotonic go - kc_keys_at c \<or>
         (refresh \<and> 10 * 1000000 \<le> go_monotonic go - kc_unknown_refresh_at c)
      then (let c1 = (if refresh then c\<lparr>kc_unknown_refresh_at := go_monotonic go\<rparr> else c) in
            case go_jwks go refresh of
              Reply code (Some body) \<Rightarrow>
                if code < 200 \<or> 299 < code then (Inl (Uncaught ''HTTPStatusError''), c1)
                else (case go_import go body of
                        None \<Rightarrow> (Inl (Uncaught ''KeySet''), c1)
                      | Some keys \<Rightarrow> (Inr keys, c1\<lparr>kc_keys := Some keys, kc_keys_at := go_monotonic go\<rparr>))
            | _ \<Rightarrow> (Inl (Uncaught ''HTTPError''), c1))
      else (Inr (coalesce_to (kc_keys c) PNone), c))"

definition audience_ok :: "string \<Rightarrow> (string \<times> pyval) list \<Rightarrow> bool" where
  "audience_ok client_id claims \<longleftrightarrow>
     (case map_of claims ''aud'' of
        Some (PStr a) \<Rightarrow> a = client_id
      | Some (PList as) \<Rightarrow> PStr client_id \<in> set as \<and> (length as \<le> 1 \<or> map_of claims ''azp'' = Some (PStr client_id))
      | _ \<Rightarrow> False) \<and>
     (case map_of claims ''azp'' of None \<Rightarrow> True | Some v \<Rightarrow> v = PStr client_id)"

text \<open>The claims of an identity token that are accepted, with the subject and the address.\<close>

definition accepted_claims :: "string \<Rightarrow> int \<Rightarrow> string \<Rightarrow> (string \<times> pyval) list \<Rightarrow> (string \<times> string) option" where
  "accepted_claims client_id now nonce claims =
     (case (map_of claims ''exp'', map_of claims ''nonce'', map_of claims ''sub'', map_of claims ''email'') of
        (Some (PInt expiry), Some (PStr n), Some (PStr sub), Some (PStr email)) \<Rightarrow>
          if map_of claims ''iss'' \<in> {Some (PStr ''https://accounts.google.com''), Some (PStr ''accounts.google.com'')} \<and>
            audience_ok client_id claims \<and> now < expiry \<and> ascii_text n \<and> ascii_text nonce \<and> n = nonce \<and>
            map_of claims ''email_verified'' = Some (PBool True) \<and> sub \<noteq> [] \<and> email \<noteq> []
          then Some (sub, email) else None
      | _ \<Rightarrow> None)"

definition decode_token :: "google_env \<Rightarrow> string \<Rightarrow> key_cache \<Rightarrow> (web_error + (string \<times> pyval) list) \<times> key_cache" where
  "decode_token go id_token c =
     (case signing_keys go False c of
        (Inl e, c1) \<Rightarrow> (Inl e, c1)
      | (Inr keys, c1) \<Rightarrow>
          (case go_decode go keys id_token of
             Claims claims \<Rightarrow> (Inr claims, c1)
           | Undecodable \<Rightarrow> (Inl (Uncaught ''JoseError''), c1)
           | Unknown_key \<Rightarrow>
               (case signing_keys go True c1 of
                  (Inl e, c2) \<Rightarrow> (Inl e, c2)
                | (Inr keys2, c2) \<Rightarrow>
                    (case go_decode go keys2 id_token of
                       Claims claims \<Rightarrow> (Inr claims, c2)
                     | _ \<Rightarrow> (Inl (Uncaught ''JoseError''), c2)))))"

definition verified_user :: "google_env \<Rightarrow> string \<Rightarrow> string \<Rightarrow> key_cache \<Rightarrow> (web_error + string \<times> string) \<times> key_cache" where
  "verified_user go id_token nonce c =
     (case decode_token go id_token c of
        (Inl e, c1) \<Rightarrow> (Inl e, c1)
      | (Inr claims, c1) \<Rightarrow>
          (case accepted_claims (go_client_id go) (go_clock go) nonce claims of
             Some user \<Rightarrow> (Inr user, c1)
           | None \<Rightarrow> (Inl (Value_error ''invalid Google identity claims''), c1)))"

section \<open>Flows\<close>

record google =
  gg_web :: web
  gg_cache :: key_cache

type_synonym 'a google_op = "(google, web_error, 'a) io"

definition on_web :: "'a web_op \<Rightarrow> 'a google_op" where
  "on_web m g = (fst (m (gg_web g)), g\<lparr>gg_web := snd (m (gg_web g))\<rparr>)"

definition GOOGLE_FLOW_SECONDS :: int where
  "GOOGLE_FLOW_SECONDS = 600"

definition google_callback_url :: "google_env \<Rightarrow> string" where
  "google_callback_url go = go_origin go @ ''/auth/google/callback''"

definition authorization_url :: "google_env \<Rightarrow> string \<Rightarrow> string \<Rightarrow> string \<Rightarrow> string" where
  "authorization_url go state verifier nonce =
     ''https://accounts.google.com/o/oauth2/v2/auth?'' @ urlencode
       [(''client_id'', go_client_id go), (''redirect_uri'', google_callback_url go), (''response_type'', ''code''),
        (''scope'', ''openid email''), (''state'', state), (''nonce'', nonce),
        (''code_challenge'', go_challenge go verifier), (''code_challenge_method'', ''S256'')]"

definition check_configured :: "google_env \<Rightarrow> unit web_op" where
  "check_configured go = (if \<not> go_configured go then raise (HTTPException 503 ''web login is not configured'') else ret ())"

definition insert_flow ::
  "web_env \<Rightarrow> int \<Rightarrow> string \<Rightarrow> string \<Rightarrow> string \<Rightarrow> string \<Rightarrow> string \<Rightarrow> identity_db \<Rightarrow> web_error + unit \<times> identity_db" where
  "insert_flow we now state browser nonce verifier return_to d =
     (if exists_row (\<lambda>f. gf_state f = state) (google_flows d)
      then Inl (Db (IntegrityError ''UNIQUE constraint failed: google_flows.state''))
      else Inr ((), d\<lparr>google_flows := google_flows d @
             [\<lparr>gf_state = state, gf_browser_hash = we_token_hash we browser, gf_nonce = nonce, gf_verifier = verifier,
               gf_return_to = return_to, gf_expires_at = now + GOOGLE_FLOW_SECONDS, gf_status = FL_PENDING,
               gf_session_hash = None, gf_completion_revision = None\<rparr>]\<rparr>))"

text \<open>The random values of a new flow: state, browser secret, nonce and verifier.\<close>

definition google_start ::
  "google_env \<Rightarrow> web_env \<Rightarrow> int \<Rightarrow> await \<Rightarrow> string \<times> string \<times> string \<times> string \<Rightarrow> string \<Rightarrow> (string \<times> string) web_op" where
  "google_start go we now aw fresh return_to =
     (case fresh of (state, browser, nonce, verifier) \<Rightarrow>
        andThen (check_configured go) (\<lambda>_.
        andThen (lift_sum (safe_return_path (go_bad_netloc go) return_to)) (\<lambda>path.
        andThen (web_write (on_db (insert_flow we now state browser nonce verifier path))) (\<lambda>(_, n).
        andThen (durable aw n) (\<lambda>_. ret (authorization_url go state verifier nonce, browser))))))"

definition claim_flow :: "string \<Rightarrow> identity_db \<Rightarrow> web_error + nat \<times> identity_db" where
  "claim_flow state d =
     Inr (rowcount (\<lambda>f. gf_state f = state \<and> gf_status f = FL_PENDING) (google_flows d),
          d\<lparr>google_flows := sql_update (\<lambda>f. gf_state f = state \<and> gf_status f = FL_PENDING) (gf_status_update (\<lambda>_. FL_CLAIMED)) (google_flows d)\<rparr>)"

text \<open>
  The request to the token endpoint, which the ghost \<open>wb_exchanges\<close> records with the revision confirmed by then, and the
  verification of its answer; every exception means that there is no user.
\<close>

definition exchange_user :: "google_env \<Rightarrow> google_flow_row \<Rightarrow> string \<Rightarrow> (string \<times> string) option google_op" where
  "exchange_user go flow code g =
     (let w = gg_web g;
          g1 = g\<lparr>gg_web := w\<lparr>wb_exchanges := wb_exchanges w @ [(gf_state flow, confirmed_revision (wb_checkpoints w))]\<rparr>\<rparr>
      in case go_token go code (gf_verifier flow) of
           Reply status (Some (PDict body)) \<Rightarrow>
             if status < 200 \<or> 299 < status then (Inr None, g1)
             else (case map_of body ''id_token'' of
                     Some (PStr id_token) \<Rightarrow>
                       (case verified_user go id_token (gf_nonce flow) (gg_cache g1) of
                          (Inl _, c) \<Rightarrow> (Inr None, g1\<lparr>gg_cache := c\<rparr>)
                        | (Inr user, c) \<Rightarrow> (Inr (Some user), g1\<lparr>gg_cache := c\<rparr>))
                   | _ \<Rightarrow> (Inr None, g1))
         | _ \<Rightarrow> (Inr None, g1))"

definition complete_flow :: "web_env \<Rightarrow> string \<Rightarrow> string option \<Rightarrow> identity_db \<Rightarrow> web_error + unit \<times> identity_db" where
  "complete_flow we state token d =
     Inr ((), d\<lparr>google_flows := sql_update (\<lambda>f. gf_state f = state) (\<lambda>f. f\<lparr>
         gf_status := (if token \<noteq> None then FL_COMPLETED else FL_FAILED), gf_session_hash := map_option (we_token_hash we) token,
         gf_completion_revision := Some (int (revision d) + 1), gf_verifier := []\<rparr>) (google_flows d)\<rparr>)"

definition finish_login :: "web_env \<Rightarrow> int \<Rightarrow> string \<Rightarrow> string \<Rightarrow> string \<Rightarrow> (string \<times> string) option \<Rightarrow> unit web_op" where
  "finish_login we now new_id state token user =
     (case user of
        None \<Rightarrow> on_db (complete_flow we state None)
      | Some (sub, email) \<Rightarrow>
          andThen (insert_session we now new_id sub email token) (\<lambda>_. on_db (complete_flow we state (Some token))))"

definition invalid_login :: "string \<Rightarrow> web_error" where
  "invalid_login m = HTTPException 400 m"

definition flow_valid :: "web_env \<Rightarrow> int \<Rightarrow> string \<Rightarrow> google_flow_row \<Rightarrow> bool" where
  "flow_valid we now browser flow \<longleftrightarrow>
     browser \<noteq> [] \<and> gf_browser_hash flow = we_token_hash we browser \<and> now < gf_expires_at flow"

text \<open>A completed flow gives its session again as long as the completion is not confirmed.\<close>

definition repeat_login :: "web_env \<Rightarrow> int \<Rightarrow> await \<Rightarrow> await list \<Rightarrow> google_flow_row \<Rightarrow> string \<Rightarrow> (string \<times> string option) web_op" where
  "repeat_login we later aw aws flow token =
     andThen (reading (\<lambda>w. confirmed_revision (wb_checkpoints w))) (\<lambda>confirmed.
       let completed = coalesce_to (gf_completion_revision flow) 0 in
       if completed \<le> confirmed \<or> completed \<le> we_startup_revision we then raise (invalid_login ''login already consumed'')
       else andThen (durable aw completed) (\<lambda>_.
            andThen (session_user we later aws token) (\<lambda>_. ret (gf_return_to flow, Some token))))"

definition current_revision_durable :: "await \<Rightarrow> unit web_op" where
  "current_revision_durable aw = andThen (reading (\<lambda>w. int (revision (wb_db w)))) (durable aw)"

record callback_args =
  ca_state :: string
  ca_browser :: string
  ca_code :: "string option"
  ca_error :: "string option"
  ca_new_id :: string
  ca_now :: int
  ca_later :: int
  ca_await1 :: await
  ca_await2 :: await
  ca_awaits :: "await list"

text \<open>A pending flow: the claim, the exchange behind it, and the completion.\<close>

definition run_exchange :: "google_env \<Rightarrow> callback_args \<Rightarrow> google_flow_row \<Rightarrow> (string \<times> string) option google_op" where
  "run_exchange go q flow =
     (if truthy (ca_code q) \<and> \<not> truthy (ca_error q) then exchange_user go flow (coalesce_to (ca_code q) []) else ret None)"

definition login_result :: "callback_args \<Rightarrow> google_flow_row \<Rightarrow> string \<Rightarrow> (string \<times> string) option \<Rightarrow> string \<times> string option" where
  "login_result q flow token user =
     (case user of
        None \<Rightarrow> (if truthy (ca_error q) then ''/?auth=cancelled'' else ''/?auth=failed'', None)
      | Some _ \<Rightarrow> (gf_return_to flow, Some token))"

definition first_login :: "google_env \<Rightarrow> web_env \<Rightarrow> callback_args \<Rightarrow> google_flow_row \<Rightarrow> string \<Rightarrow> (string \<times> string option) google_op" where
  "first_login go we q flow token =
     andThen (on_web (web_write (on_db (claim_flow (ca_state q))))) (\<lambda>(claimed, n).
       if claimed = 0 then raise (invalid_login ''login already consumed'')
       else andThen (on_web (durable (ca_await1 q) n)) (\<lambda>_.
            andThen (run_exchange go q flow) (\<lambda>user.
            andThen (on_web (web_write (finish_login we (ca_later q) (ca_new_id q) (ca_state q) token user))) (\<lambda>(_, n2).
            andThen (on_web (durable (ca_await2 q) n2)) (\<lambda>_. ret (login_result q flow token user))))))"

definition continue_login :: "google_env \<Rightarrow> web_env \<Rightarrow> callback_args \<Rightarrow> google_flow_row \<Rightarrow> (string \<times> string option) google_op" where
  "continue_login go we q flow =
     (let token = go_session_token go (ca_browser q) (ca_state q) in
      case gf_status flow of
        FL_COMPLETED \<Rightarrow> on_web (repeat_login we (ca_later q) (ca_await1 q) (ca_awaits q) flow token)
      | FL_PENDING \<Rightarrow> first_login go we q flow token
      | _ \<Rightarrow> on_web (andThen (current_revision_durable (ca_await1 q)) (\<lambda>_.
               raise (invalid_login ''login already consumed; start again''))))"

definition google_callback :: "google_env \<Rightarrow> web_env \<Rightarrow> callback_args \<Rightarrow> (string \<times> string option) google_op" where
  "google_callback go we q =
     andThen (on_web (check_configured go)) (\<lambda>_.
     andThen (reading (\<lambda>g. fetchone (\<lambda>f. gf_state f = ca_state q) (google_flows (wb_db (gg_web g))))) (\<lambda>row.
       case row of
         None \<Rightarrow> raise (invalid_login ''invalid or expired login'')
       | Some flow \<Rightarrow>
           if \<not> flow_valid we (ca_now q) (ca_browser q) flow then raise (invalid_login ''invalid or expired login'')
           else continue_login go we q flow))"

section \<open>Handlers\<close>

definition start_route ::
  "google_env \<Rightarrow> web_env \<Rightarrow> int \<Rightarrow> await \<Rightarrow> string \<times> string \<times> string \<times> string \<Rightarrow> string \<Rightarrow> (string \<times> string) web_op" where
  "start_route go we now aw fresh return_to = sqlite_503 ''session store unavailable'' (google_start go we now aw fresh return_to)"

definition callback_route :: "google_env \<Rightarrow> web_env \<Rightarrow> callback_args \<Rightarrow> (string \<times> string option) google_op" where
  "callback_route go we q = catch (google_callback go we q) (\<lambda>e. raise (case e of
     Db (IntegrityError _) \<Rightarrow> HTTPException 503 ''session store unavailable'' | _ \<Rightarrow> e))"

definition session_route :: "google_env \<Rightarrow> web_env \<Rightarrow> int \<Rightarrow> await list \<Rightarrow> string \<Rightarrow> (string \<times> string) web_op" where
  "session_route go we now aws cookie =
     andThen (check_configured go) (\<lambda>_. sqlite_503 ''session store unavailable'' (session_user we now aws cookie))"

definition logout_route :: "google_env \<Rightarrow> web_env \<Rightarrow> web_settings \<Rightarrow> await \<Rightarrow> web_request \<Rightarrow> bool web_op" where
  "logout_route go we st aw rq =
     andThen (check_configured go) (\<lambda>_.
     andThen (require_origin st rq) (\<lambda>_.
     andThen (sqlite_503 ''session store unavailable'' (revoke_session we aw (rq_session_cookie rq))) (\<lambda>_. ret True)))"

end
