(* ===== verification/Google_Login_Props.thy ===== *)
theory Google_Login_Props
  imports Google_Login
begin

text \<open>
  What a sign-in guarantees.  \<open>flows_once\<close> is the invariant of the flows: a state names one flow, and a code was sent to
  Google only for a flow that is no longer pending, and once.  Every handler keeps it, whatever other requests do at its
  awaits, and a session comes out of a callback only for the browser that started the flow.
\<close>

section \<open>Flows are exchanged once\<close>

definition flow_claimed :: "string \<Rightarrow> web \<Rightarrow> bool" where
  "flow_claimed s w \<longleftrightarrow> exists_row (\<lambda>f. gf_state f = s \<and> gf_status f \<noteq> FL_PENDING) (google_flows (wb_db w))"

definition flow_exchanged :: "string \<Rightarrow> web \<Rightarrow> bool" where
  "flow_exchanged s w \<longleftrightarrow> s \<in> fst ` set (wb_exchanges w)"

definition flows_once :: "web \<Rightarrow> bool" where
  "flows_once w \<longleftrightarrow> distinct (map gf_state (google_flows (wb_db w))) \<and> distinct (map fst (wb_exchanges w)) \<and>
     (\<forall>s. flow_exchanged s w \<longrightarrow> flow_claimed s w)"

definition flows_kept :: "web \<Rightarrow> web \<Rightarrow> bool" where
  "flows_kept w w' \<longleftrightarrow> (flows_once w \<longrightarrow> flows_once w' \<and>
     (\<forall>s. flow_claimed s w \<longrightarrow> flow_claimed s w' \<and> (flow_exchanged s w' \<longrightarrow> flow_exchanged s w)))"

lemma flows_kept_same:
  "google_flows (wb_db w') = google_flows (wb_db w) \<Longrightarrow> wb_exchanges w' = wb_exchanges w \<Longrightarrow> flows_kept w w'"
  by (simp add: flows_kept_def flows_once_def flow_claimed_def flow_exchanged_def)

interpretation flows: table_relation flows_kept
proof (unfold_locales, goal_cases)
  case (2 s t u)
  then show ?case unfolding flows_kept_def by blast
next
  case (3 w' w)
  then show ?case by (intro flows_kept_same) simp_all
qed (simp add: flows_kept_def)

text \<open>A transaction that leaves the exchanges alone and only moves flows out of \<open>pending\<close> or adds new ones.\<close>

lemma flows_kept_tables:
  assumes "wb_exchanges w' = wb_exchanges w"
    and "distinct (map gf_state (google_flows (wb_db w))) \<Longrightarrow> distinct (map gf_state (google_flows (wb_db w')))"
    and "\<And>s. flow_claimed s w \<Longrightarrow> flow_claimed s w'"
  shows "flows_kept w w'"
  using assms by (auto simp: flows_kept_def flows_once_def flow_exchanged_def)

lemma flow_claimed_iff:
  "flow_claimed s w \<longleftrightarrow> (\<exists>f\<in>set (google_flows (wb_db w)). gf_state f = s \<and> gf_status f \<noteq> FL_PENDING)"
  by (simp add: flow_claimed_def)

lemma keeps_insert_flow: "keeps flows_kept (web_write (on_db (insert_flow we now state browser nonce verifier path)))"
proof (rule flows.keeps_statement)
  fix w :: web and x d
  assume "insert_flow we now state browser nonce verifier path (wb_db w) = Inr (x, d)"
  then obtain f where new: "gf_state f \<notin> gf_state ` set (google_flows (wb_db w))"
    and d: "google_flows d = google_flows (wb_db w) @ [f]"
    by (fastforce simp: insert_flow_def split: if_splits)
  show "flows_kept w (w\<lparr>wb_db := d\<lparr>revision := Suc (revision d)\<rparr>\<rparr>)"
    by (rule flows_kept_tables) (use new d in \<open>auto simp: flow_claimed_iff\<close>)
qed

lemma keeps_google_start:
  assumes "await_keeps flows_kept aw"
  shows "keeps flows_kept (start_route go we now aw fresh return_to)"
proof -
  have "keeps flows_kept (check_configured go)"
    by (simp add: check_configured_def flows.keeps_raise flows.keeps_ret)
  then have "keeps flows_kept (google_start go we now aw fresh return_to)"
    unfolding google_start_def
    by (auto split: prod.splits intro!: flows.keeps_andThen flows.keeps_lift_sum keeps_insert_flow flows.keeps_durable [OF assms]
        flows.keeps_ret)
  then show ?thesis unfolding start_route_def by (rule flows.keeps_503)
qed

lemma claimed_update:
  assumes "\<And>f. P f \<Longrightarrow> gf_state (g f) = gf_state f" "\<And>f. P f \<Longrightarrow> gf_status (g f) \<noteq> FL_PENDING"
  shows "\<exists>f\<in>set fs. gf_state f = s \<and> gf_status f \<noteq> FL_PENDING \<Longrightarrow>
    \<exists>f\<in>set (sql_update P g fs). gf_state f = s \<and> gf_status f \<noteq> FL_PENDING"
proof -
  assume "\<exists>f\<in>set fs. gf_state f = s \<and> gf_status f \<noteq> FL_PENDING"
  then obtain f where f: "f \<in> set fs" "gf_state f = s" "gf_status f \<noteq> FL_PENDING" by blast
  then have "(if P f then g f else f) \<in> set (sql_update P g fs)" by (auto simp: sql_update_def)
  moreover have "gf_state (if P f then g f else f) = s \<and> gf_status (if P f then g f else f) \<noteq> FL_PENDING"
    using f assms by simp
  ultimately show ?thesis by blast
qed

lemma states_update:
  assumes "\<And>f. P f \<Longrightarrow> gf_state (g f) = gf_state f"
  shows "map gf_state (sql_update P g fs) = map gf_state fs"
  using assms by (induction fs) (auto simp: sql_update_def)

lemma flows_kept_update:
  assumes "google_flows (wb_db w') = sql_update P g (google_flows (wb_db w))" "wb_exchanges w' = wb_exchanges w"
    and "\<And>f. P f \<Longrightarrow> gf_state (g f) = gf_state f" "\<And>f. P f \<Longrightarrow> gf_status (g f) \<noteq> FL_PENDING"
  shows "flows_kept w w'"
proof (rule flows_kept_tables)
  show "flow_claimed s w \<Longrightarrow> flow_claimed s w'" for s
    unfolding flow_claimed_iff assms(1) by (rule claimed_update) (use assms(3,4) in auto)
qed (use assms(1,2) states_update [of P g, OF assms(3)] in simp_all)

lemma keeps_claim: "keeps flows_kept (web_write (on_db (claim_flow s)))"
  by (rule flows.keeps_statement)
    (rule flows_kept_update [where g = "gf_status_update (\<lambda>_. FL_CLAIMED)" and P = "\<lambda>f. gf_state f = s \<and> gf_status f = FL_PENDING"];
     auto simp: claim_flow_def)

text \<open>The completion runs in a transaction that may also insert a session.\<close>

lemma web_write_flows:
  assumes "\<And>x w1. body w = (Inr x, w1) \<Longrightarrow> flows_kept w w1" "\<And>r w1. body w = (r, w1) \<Longrightarrow> wb_exchanges w1 = wb_exchanges w"
  shows "flows_kept w (snd (web_write body w))"
proof -
  obtain r w1 where b: "body w = (r, w1)" by fastforce
  have undone: "flows_kept w (w1\<lparr>wb_db := wb_db w\<rparr>)" by (rule flows_kept_same) (use assms(2) [OF b] in simp_all)
  show ?thesis
  proof (cases r)
    case (Inr x)
    have "flows_kept w (w1\<lparr>wb_db := (wb_db w1)\<lparr>revision := n\<rparr>\<rparr>)" for n
      using assms(1) b Inr flows.kept_trans flows_kept_same [of "w1\<lparr>wb_db := (wb_db w1)\<lparr>revision := n\<rparr>\<rparr>" w1] by simp
    then show ?thesis using undone b Inr by (simp add: web_write_def db_write_def)
  qed (simp add: web_write_def b undone)
qed

lemma complete_kept: "flows_kept w (snd (on_db (complete_flow we s token) w))"
proof (rule flows_kept_update)
  show "google_flows (wb_db (snd (on_db (complete_flow we s token) w))) = sql_update (\<lambda>f. gf_state f = s) (\<lambda>f. f\<lparr>
      gf_status := (if token \<noteq> None then FL_COMPLETED else FL_FAILED), gf_session_hash := map_option (we_token_hash we) token,
      gf_completion_revision := Some (int (revision (wb_db w)) + 1), gf_verifier := []\<rparr>) (google_flows (wb_db w))"
    by (simp add: on_db_def complete_flow_def)
qed (simp_all add: on_db_def complete_flow_def)

lemma insert_session_tables:
  "google_flows (wb_db (snd (insert_session we now new_id sub email token w))) = google_flows (wb_db w) \<and>
   wb_exchanges (snd (insert_session we now new_id sub email token w)) = wb_exchanges w"
  by (auto simp: insert_session_def raise_def andThen_def on_db_def remember_candidate_def ret_def upsert_user_def
      insert_session_row_def split: sum.splits option.splits)

lemma finish_kept: "flows_kept w (snd (web_write (finish_login we now new_id s token user) w))"
proof (rule web_write_flows)
  have m: "keeps (\<lambda>w w'. wb_exchanges w' = wb_exchanges w) (on_db f)" for f :: "identity_db \<Rightarrow> web_error + 'a \<times> identity_db"
    by (rule keepsI) (auto simp: on_db_def split: sum.splits)
  fix r w1
  assume f: "finish_login we now new_id s token user w = (r, w1)"
  show "wb_exchanges w1 = wb_exchanges w"
    using f insert_session_tables [of we now new_id _ _ token w]
    by (auto simp: finish_login_def andThen_def on_db_def complete_flow_def split: option.splits sum.splits prod.splits) (metis snd_conv)+
next
  fix x w1
  assume f: "finish_login we now new_id s token user w = (Inr x, w1)"
  show "flows_kept w w1"
  proof (cases user)
    case None
    then show ?thesis using complete_kept [of w we s None] f by (simp add: finish_login_def)
  next
    case (Some u)
    obtain sub email where u: "user = Some (sub, email)" using Some by fastforce
    define w2 where "w2 = snd (insert_session we now new_id sub email token w)"
    have "flows_kept w w2" by (rule flows_kept_same) (simp_all add: w2_def insert_session_tables)
    moreover have "flows_kept w2 w1"
      using f complete_kept [of w2 we s "Some token"] unfolding u finish_login_def
      by (auto simp: w2_def elim!: andThen_InrE)
    ultimately show ?thesis by (rule flows.kept_trans)
  qed
qed

section \<open>Callbacks\<close>

definition flows_in :: "google \<Rightarrow> google \<Rightarrow> bool" where
  "flows_in g g' \<longleftrightarrow> flows_kept (gg_web g) (gg_web g')"

interpretation logins: kept_relation flows_in
proof (unfold_locales, goal_cases)
  case (2 s t u)
  then show ?case unfolding flows_in_def by (rule flows.kept_trans)
qed (simp add: flows_in_def flows.kept_refl)

lemma keeps_on_web: "keeps flows_kept m \<Longrightarrow> keeps flows_in (on_web m)"
  by (rule keepsI) (simp add: flows_in_def on_web_def keepsD)

lemma exchange_web:
  "gg_web (snd (exchange_user go flow code g)) =
     (gg_web g)\<lparr>wb_exchanges := wb_exchanges (gg_web g) @ [(gf_state flow, confirmed_revision (wb_checkpoints (gg_web g)))]\<rparr>"
  by (auto simp: exchange_user_def Let_def split: http_reply.splits option.splits pyval.splits sum.splits prod.splits)

lemma run_exchange_web:
  "\<exists>added. wb_exchanges (gg_web (snd (run_exchange go q flow g))) = wb_exchanges (gg_web g) @ added \<and>
     wb_db (gg_web (snd (run_exchange go q flow g))) = wb_db (gg_web g) \<and> map fst added \<in> {[], [gf_state flow]}"
  by (auto simp: run_exchange_def ret_def exchange_web)

text \<open>Between the claim and the exchange other requests may run; none of them exchanges the claimed flow.\<close>

lemma exchange_kept:
  assumes "flows_once w \<Longrightarrow> flow_claimed (gf_state flow) (gg_web g) \<and> \<not> flow_exchanged (gf_state flow) (gg_web g)"
    and "flows_once w \<Longrightarrow> \<not> flow_claimed (gf_state flow) w"
    and "flows_kept w (gg_web g)"
  shows "flows_kept w (gg_web (snd (run_exchange go q flow g)))"
proof -
  let ?w = "gg_web (snd (run_exchange go q flow g))"
  obtain added where ex: "wb_exchanges ?w = wb_exchanges (gg_web g) @ added" and db: "wb_db ?w = wb_db (gg_web g)"
    and one: "map fst added \<in> {[], [gf_state flow]}"
    using run_exchange_web by metis
  have claimed: "flow_claimed s ?w \<longleftrightarrow> flow_claimed s (gg_web g)" for s by (simp add: flow_claimed_def db)
  have exchanged: "flow_exchanged s ?w \<Longrightarrow> s = gf_state flow \<or> flow_exchanged s (gg_web g)" for s
    using one by (auto simp: flow_exchanged_def ex)
  show ?thesis
  proof (unfold flows_kept_def, intro impI)
    assume o: "flows_once w"
    note a = assms(1) [OF o] and b = assms(2) [OF o]
    have k: "flows_once (gg_web g)"
      "\<And>s. flow_claimed s w \<Longrightarrow> flow_claimed s (gg_web g) \<and> (flow_exchanged s (gg_web g) \<longrightarrow> flow_exchanged s w)"
      using assms(3) o unfolding flows_kept_def by auto
    have "distinct (map fst (wb_exchanges ?w))"
      using k(1) one conjunct2 [OF a] unfolding ex flows_once_def flow_exchanged_def by (auto simp del: set_map simp: image_set)
    then have "flows_once ?w" using k(1) a claimed exchanged unfolding flows_once_def db by metis
    then show "flows_once ?w \<and> (\<forall>s. flow_claimed s w \<longrightarrow> flow_claimed s ?w \<and> (flow_exchanged s ?w \<longrightarrow> flow_exchanged s w))"
      using k(2) b claimed exchanged by metis
  qed
qed

lemma pending_unclaimed:
  assumes "flows_once w" "flow \<in> set (google_flows (wb_db w))" "gf_status flow = FL_PENDING"
  shows "\<not> flow_claimed (gf_state flow) w" "\<not> flow_exchanged (gf_state flow) w"
proof -
  show "\<not> flow_claimed (gf_state flow) w"
    using assms unfolding flows_once_def flow_claimed_iff by (metis distinct_map inj_on_eq_iff)
  then show "\<not> flow_exchanged (gf_state flow) w" using assms(1) unfolding flows_once_def by blast
qed

lemma claim_claims:
  assumes "flow \<in> set (google_flows (wb_db w))" "gf_status flow = FL_PENDING" "gf_state flow = s"
  shows "flow_claimed s (snd (web_write (on_db (claim_flow s)) w))" "wb_exchanges (snd (web_write (on_db (claim_flow s)) w)) = wb_exchanges w"
proof -
  have "\<exists>f\<in>set (sql_update (\<lambda>f. gf_state f = s \<and> gf_status f = FL_PENDING) (gf_status_update (\<lambda>_. FL_CLAIMED))
      (google_flows (wb_db w))). gf_state f = s \<and> gf_status f \<noteq> FL_PENDING"
    using assms by (intro bexI [of _ "flow\<lparr>gf_status := FL_CLAIMED\<rparr>"]) (auto simp: set_sql_update)
  then show "flow_claimed s (snd (web_write (on_db (claim_flow s)) w))"
    "wb_exchanges (snd (web_write (on_db (claim_flow s)) w)) = wb_exchanges w"
    by (simp_all add: web_write_statement claim_flow_def db_write_def flow_claimed_iff del: set_sql_update)
qed

lemma first_login_kept:
  assumes "await_keeps flows_kept (ca_await1 q)" "await_keeps flows_kept (ca_await2 q)"
    and "flow \<in> set (google_flows (wb_db (gg_web g)))" "gf_status flow = FL_PENDING" "gf_state flow = ca_state q"
  shows "flows_in g (snd (first_login go we q flow token g))"
proof -
  let ?claim = "web_write (on_db (claim_flow (ca_state q)))"
  define g1 where "g1 = g\<lparr>gg_web := snd (?claim (gg_web g))\<rparr>"
  define rest where "rest = (\<lambda>user. andThen (on_web (web_write (finish_login we (ca_later q) (ca_new_id q) (ca_state q) token user)))
    (\<lambda>(_, n2). andThen (on_web (durable (ca_await2 q) n2)) (\<lambda>_. ret (login_result q flow token user))))"
  have rest: "keeps flows_in (rest user)" for user
    unfolding rest_def
    by (auto intro!: logins.keeps_andThen keeps_on_web keepsI [of flows_kept] finish_kept logins.keeps_ret flows.keeps_durable assms
        split: prod.splits)
  have one: "flows_kept (gg_web g) (gg_web g1)" using keepsD [OF keeps_claim] by (simp add: g1_def)
  have claimed: "flow_claimed (ca_state q) (gg_web g1)" "wb_exchanges (gg_web g1) = wb_exchanges (gg_web g)"
    using claim_claims [OF assms(3-5)] by (simp_all add: g1_def)
  have two: "flows_kept (gg_web g) (gg_web g2) \<and> (flows_once (gg_web g) \<longrightarrow> flow_claimed (gf_state flow) (gg_web g2) \<and>
      \<not> flow_exchanged (gf_state flow) (gg_web g2))" if "flows_kept (gg_web g1) (gg_web g2)" for g2
    using flows.kept_trans [OF one that] that one claimed pending_unclaimed [OF _ assms(3,4)] assms(5)
    unfolding flows_kept_def flow_exchanged_def by metis
  have after: "flows_in g (snd (andThen (run_exchange go q flow) rest g2))" if "flows_kept (gg_web g1) (gg_web g2)" for g2
  proof -
    have "flows_in g (snd (run_exchange go q flow g2))"
      unfolding flows_in_def by (rule exchange_kept) (use two [OF that] pending_unclaimed [OF _ assms(3,4)] in auto)
    then show ?thesis using logins.kept_trans keepsD [OF rest] by (auto simp: andThen_def split: sum.splits prod.splits)
  qed
  have "flows_in g (snd (andThen (on_web (durable (ca_await1 q) n)) (\<lambda>_. andThen (run_exchange go q flow) rest) g1))" for n
  proof -
    obtain r g2 where d: "on_web (durable (ca_await1 q) n) g1 = (r, g2)" by fastforce
    have k: "flows_kept (gg_web g1) (gg_web g2)"
      using keepsD [OF keeps_on_web [OF flows.keeps_durable [OF assms(1)]], of g1] unfolding flows_in_def by (metis d snd_conv)
    show ?thesis
    proof (cases r)
      case (Inl e)
      then show ?thesis using two [OF k] d by (subst andThen_def) (simp add: flows_in_def)
    next
      case (Inr u)
      then show ?thesis using after [OF k] d by (subst andThen_def) simp
    qed
  qed
  moreover have "first_login go we q flow token g = (case ?claim (gg_web g) of (Inl e, w) \<Rightarrow> (Inl e, g1) | (Inr (claimed, n), w) \<Rightarrow>
      (if claimed = 0 then raise (invalid_login ''login already consumed'')
       else andThen (on_web (durable (ca_await1 q) n)) (\<lambda>_. andThen (run_exchange go q flow) rest)) g1)"
    unfolding first_login_def rest_def g1_def by (simp add: andThen_def on_web_def split: sum.splits prod.splits)
  ultimately show ?thesis using one by (auto simp: flows_in_def raise_def split: sum.splits prod.splits)
qed

definition login_awaits_keep :: "callback_args \<Rightarrow> bool" where
  "login_awaits_keep q \<longleftrightarrow> await_keeps flows_kept (ca_await1 q) \<and> await_keeps flows_kept (ca_await2 q) \<and>
     list_all (await_keeps flows_kept) (ca_awaits q)"

lemma keeps_repeat_login:
  assumes "await_keeps flows_kept aw" "list_all (await_keeps flows_kept) aws"
  shows "keeps flows_kept (repeat_login we later aw aws flow token)"
  unfolding repeat_login_def Let_def
  by (auto intro!: flows.keeps_andThen flows.keeps_reading flows.keeps_raise flows.keeps_ret flows.keeps_durable flows.keeps_session assms)

lemma keeps_google_callback:
  assumes "login_awaits_keep q"
  shows "keeps flows_in (callback_route go we q)"
proof -
  note aw = assms [unfolded login_awaits_keep_def]
  have c: "keeps flows_kept (check_configured go)"
    by (simp add: check_configured_def flows.keeps_raise flows.keeps_ret)
  have spent: "keeps flows_kept (andThen (current_revision_durable (ca_await1 q)) (\<lambda>_. raise e))" for e
    unfolding current_revision_durable_def
    by (intro flows.keeps_andThen flows.keeps_reading flows.keeps_raise flows.keeps_durable) (use aw in simp_all)
  have "flows_in g (snd (google_callback go we q g))" for g
  proof (cases "fetchone (\<lambda>f. gf_state f = ca_state q) (google_flows (wb_db (gg_web g)))")
    case None
    then show ?thesis
      by (auto simp: google_callback_def andThen_def on_web_def check_configured_def reading_def raise_def ret_def logins.kept_refl)
  next
    case (Some flow)
    have row: "flow \<in> set (google_flows (wb_db (gg_web g)))" "gf_state flow = ca_state q" using fetchone_SomeD [OF Some] by auto
    define token where "token = go_session_token go (ca_browser q) (ca_state q)"
    have "flows_in g (snd (first_login go we q flow token g))" if "gf_status flow = FL_PENDING"
      by (rule first_login_kept) (use aw row that in auto)
    moreover have "flows_in g (snd (on_web (repeat_login we (ca_later q) (ca_await1 q) (ca_awaits q) flow token) g))"
      by (rule keepsD [OF keeps_on_web [OF keeps_repeat_login]]) (use aw in auto)
    moreover have "flows_in g (snd (on_web (andThen (current_revision_durable (ca_await1 q)) (\<lambda>_. raise e)) g))" for e
      by (rule keepsD [OF keeps_on_web [OF spent]])
    ultimately have "flows_in g (snd (continue_login go we q flow g))"
      unfolding continue_login_def Let_def token_def [symmetric] by (cases "gf_status flow") simp_all
    then show ?thesis using Some
      by (auto simp: google_callback_def andThen_def on_web_def check_configured_def reading_def raise_def ret_def logins.kept_refl)
  qed
  then show ?thesis unfolding callback_route_def by (intro logins.keeps_catch logins.keeps_raise keepsI)
qed

section \<open>Histories\<close>

datatype login_request =
    Start_login google_env web_env int await "string \<times> string \<times> string \<times> string" string
  | Login_callback google_env web_env callback_args
  | Read_session google_env web_env int "await list" string
  | Logout google_env web_env web_settings await web_request

fun serve_login :: "login_request \<Rightarrow> google \<Rightarrow> google" where
  "serve_login (Start_login go we now aw fresh path) g = snd (on_web (start_route go we now aw fresh path) g)"
| "serve_login (Login_callback go we q) g = snd (callback_route go we q g)"
| "serve_login (Read_session go we now aws cookie) g = snd (on_web (session_route go we now aws cookie) g)"
| "serve_login (Logout go we st aw rq) g = snd (on_web (logout_route go we st aw rq) g)"

fun request_fair :: "login_request \<Rightarrow> bool" where
  "request_fair (Start_login go we now aw fresh path) = await_keeps flows_kept aw"
| "request_fair (Login_callback go we q) = login_awaits_keep q"
| "request_fair (Read_session go we now aws cookie) = list_all (await_keeps flows_kept) aws"
| "request_fair (Logout go we st aw rq) = await_keeps flows_kept aw"

definition new_google :: google where
  "new_google = \<lparr>gg_web = empty_web, gg_cache = new_cache\<rparr>"

lemma keeps_revoke: "await_keeps flows_kept aw \<Longrightarrow> keeps flows_kept (revoke_session we aw token)"
  unfolding revoke_session_def
  by (auto intro!: flows.keeps_andThen flows.keeps_statement flows.keeps_durable flows_kept_same split: prod.splits)

lemma serve_login_kept: "request_fair r \<Longrightarrow> flows_in g (serve_login r g)"
proof (cases r)
  case (Read_session go we now aws cookie)
  have "keeps flows_kept (check_configured go)"
    by (simp add: check_configured_def flows.keeps_raise flows.keeps_ret)
  then show "request_fair r \<Longrightarrow> ?thesis"
    unfolding Read_session serve_login.simps request_fair.simps session_route_def
    by (intro keepsD [OF keeps_on_web] flows.keeps_andThen flows.keeps_503 flows.keeps_session)
next
  case (Logout go we st aw rq)
  have "keeps flows_kept (check_configured go)"
    by (simp add: check_configured_def flows.keeps_raise flows.keeps_ret)
  then show "request_fair r \<Longrightarrow> ?thesis"
    unfolding Logout serve_login.simps request_fair.simps logout_route_def
    by (intro keepsD [OF keeps_on_web] flows.keeps_andThen flows.keeps_503 flows.keeps_origin keeps_revoke flows.keeps_ret)
qed (auto intro: keepsD [OF keeps_on_web] keeps_google_start keepsD [OF keeps_google_callback])

lemma serve_logins_kept: "list_all request_fair rs \<Longrightarrow> flows_in g (fold serve_login rs g)"
  by (induction rs arbitrary: g) (auto simp: logins.kept_refl intro: logins.kept_trans serve_login_kept)

text \<open>
  C14: The code of a sign-in is sent to Google at most once.  In every history of sign-ins, callbacks, session reads and logouts,
  with other requests at every await, each flow is exchanged at most once, and never again once it left the state
  \<open>pending\<close>; so a repeated or concurrent callback cannot spend Google's one-use code a second time.
\<close>

theorem google_flow_once:
  assumes "list_all request_fair rs"
  shows "distinct (map fst (wb_exchanges (gg_web (fold serve_login rs new_google)))) \<and>
    (\<forall>(state, _)\<in>set (wb_exchanges (gg_web (fold serve_login rs new_google))).
       \<forall>flow\<in>set (google_flows (wb_db (gg_web (fold serve_login rs new_google)))). gf_state flow = state \<longrightarrow> gf_status flow \<noteq> FL_PENDING)"
proof -
  let ?w = "gg_web (fold serve_login rs new_google)"
  have "flows_once (gg_web new_google)"
    by (simp add: new_google_def flows_once_def flow_exchanged_def empty_web_def empty_identity_db_def)
  then have o: "flows_once ?w"
    using serve_logins_kept [OF assms, of new_google] unfolding flows_in_def flows_kept_def by blast
  have "gf_status flow \<noteq> FL_PENDING"
    if "(gf_state flow, c) \<in> set (wb_exchanges ?w)" "flow \<in> set (google_flows (wb_db ?w))" for flow c
    using pending_unclaimed(2) [OF o that(2)] that(1) unfolding flow_exchanged_def by force
  then show ?thesis using o unfolding flows_once_def by blast
qed

definition sample_google_env :: google_env where
  "sample_google_env = \<lparr>go_client_id = ''cid'', go_configured = True, go_origin = ''https://gg'', go_challenge = (\<lambda>v. ''c-'' @ v),
     go_bad_netloc = (\<lambda>_. False),
     go_token = (\<lambda>code verifier. if code = ''code'' \<and> verifier = ''v'' then Reply 200 (Some (PDict [(''id_token'', PStr ''jwt'')])) else Reply 400 None),
     go_jwks = (\<lambda>_. Reply 200 (Some (PStr ''keys''))), go_import = Some,
     go_decode = (\<lambda>_ _. Claims [(''iss'', PStr ''https://accounts.google.com''), (''aud'', PStr ''cid''), (''exp'', PInt 100),
       (''nonce'', PStr ''n''), (''email_verified'', PBool True), (''sub'', PStr ''sub''), (''email'', PStr ''a@b'')]),
     go_session_token = (\<lambda>browser state. browser @ ''-'' @ state), go_monotonic = 5, go_clock = 5\<rparr>"

definition sample_callback :: callback_args where
  "sample_callback = \<lparr>ca_state = ''s'', ca_browser = ''b'', ca_code = Some ''code'', ca_error = None, ca_new_id = ''u1'', ca_now = 5,
     ca_later = 6, ca_await1 = calm_await, ca_await2 = calm_await, ca_awaits = [calm_await]\<rparr>"

definition sample_start :: login_request where
  "sample_start = Start_login sample_google_env sample_web_env 0 calm_await (''s'', ''b'', ''n'', ''v'') ''/tasks''"

lemma calm_keeps_flows: "await_keeps flows_kept calm_await"
  by (simp add: await_keeps_def calm_await_def flows.kept_refl)

theorem google_flow_once_witness:
  "let g = fold serve_login [sample_start, Login_callback sample_google_env sample_web_env sample_callback,
       Login_callback sample_google_env sample_web_env sample_callback] new_google
   in distinct (map fst (wb_exchanges (gg_web g))) \<and> wb_exchanges (gg_web g) = [(''s'', 2)]"
proof -
  let ?rs = "[sample_start, Login_callback sample_google_env sample_web_env sample_callback,
       Login_callback sample_google_env sample_web_env sample_callback]"
  have "list_all request_fair ?rs"
    by (simp add: sample_start_def sample_callback_def login_awaits_keep_def calm_keeps_flows)
  moreover have "wb_exchanges (gg_web (fold serve_login ?rs new_google)) = [(''s'', 2)]" by code_simp
  ultimately show ?thesis using google_flow_once [of ?rs] unfolding Let_def by blast
qed

section \<open>Who signs in\<close>

definition google_identity :: "google_env \<Rightarrow> google_flow_row \<Rightarrow> string \<Rightarrow> string \<times> string \<Rightarrow> bool" where
  "google_identity go flow code user \<longleftrightarrow>
     (\<exists>status body id_token keys claims. go_token go code (gf_verifier flow) = Reply status (Some (PDict body)) \<and>
        200 \<le> status \<and> status \<le> 299 \<and> map_of body ''id_token'' = Some (PStr id_token) \<and>
        go_decode go keys id_token = Claims claims \<and>
        accepted_claims (go_client_id go) (go_clock go) (gf_nonce flow) claims = Some user)"

lemma decode_token_claims: "decode_token go id_token c = (Inr claims, c') \<Longrightarrow> \<exists>keys. go_decode go keys id_token = Claims claims"
  by (auto simp: decode_token_def split: prod.splits sum.splits decoded.splits)

lemma verified_user_claims:
  "verified_user go id_token nonce c = (Inr user, c') \<Longrightarrow>
     \<exists>keys claims. go_decode go keys id_token = Claims claims \<and> accepted_claims (go_client_id go) (go_clock go) nonce claims = Some user"
  by (fastforce simp: verified_user_def dest: decode_token_claims split: prod.splits sum.splits option.splits)

lemma exchange_user_identity:
  "exchange_user go flow code g = (Inr (Some user), g') \<Longrightarrow> google_identity go flow code user"
  unfolding google_identity_def exchange_user_def Let_def
  by (auto dest!: verified_user_claims split: http_reply.splits option.splits pyval.splits sum.splits prod.splits if_splits)

lemma run_exchange_identity:
  assumes "run_exchange go q flow g = (Inr (Some user), g')"
  shows "\<exists>code. ca_code q = Some code \<and> \<not> truthy (ca_error q) \<and> google_identity go flow code user"
  using assms exchange_user_identity
  by (cases "ca_code q") (auto simp: run_exchange_def ret_def coalesce_to_def split: if_splits)

lemma first_login_identity:
  assumes "first_login go we q flow token g = (Inr (path, Some t), g')"
  shows "path = gf_return_to flow \<and> t = token \<and>
    (\<exists>code user. ca_code q = Some code \<and> \<not> truthy (ca_error q) \<and> google_identity go flow code user)"
proof -
  have shape: "\<exists>user. r = login_result q flow token user \<and> (\<exists>g1 g2. run_exchange go q flow g1 = (Inr user, g2))"
    if run: "first_login go we q flow token g = (Inr r, g')" for r
  proof -
    let ?finish = "\<lambda>user. andThen (on_web (web_write (finish_login we (ca_later q) (ca_new_id q) (ca_state q) token user)))
      (\<lambda>(_, n2). andThen (on_web (durable (ca_await2 q) n2)) (\<lambda>_. ret (login_result q flow token user)))"
    obtain cn g0 where "on_web (web_write (on_db (claim_flow (ca_state q)))) g = (Inr cn, g0)" and cn: "(case cn of (claimed, n) \<Rightarrow> if claimed = 0 then raise (invalid_login ''login already consumed'')
        else andThen (on_web (durable (ca_await1 q) n)) (\<lambda>_. andThen (run_exchange go q flow) ?finish)) g0 = (Inr r, g')"
      using run unfolding first_login_def by (rule andThen_InrE)
    obtain n where "andThen (on_web (durable (ca_await1 q) n)) (\<lambda>_. andThen (run_exchange go q flow) ?finish) g0 = (Inr r, g')"
      using cn by (cases cn) (simp add: raise_def split: if_splits)
    then obtain u g1 where "on_web (durable (ca_await1 q) n) g0 = (Inr u, g1)" "andThen (run_exchange go q flow) ?finish g1 = (Inr r, g')"
      by (rule andThen_InrE)
    note this(2)
    then obtain user g2 where "run_exchange go q flow g1 = (Inr user, g2)" "?finish user g2 = (Inr r, g')" by (rule andThen_InrE)
    moreover from this(2) have "r = login_result q flow token user" by (auto simp: ret_def elim!: andThen_InrE)
    ultimately show ?thesis by blast
  qed
  from shape [OF assms] obtain user g1 g2 where u: "(path, Some t) = login_result q flow token user"
    "run_exchange go q flow g1 = (Inr user, g2)" by blast
  then obtain u' where "user = Some u'" "path = gf_return_to flow" "t = token"
    by (auto simp: login_result_def split: option.splits)
  then show ?thesis using run_exchange_identity u(2) by blast
qed

lemma repeat_login_result:
  assumes "repeat_login we later aw aws flow token w = (Inr (path, t), w')"
  shows "path = gf_return_to flow \<and> t = Some token \<and>
    max (confirmed_revision (wb_checkpoints w)) (we_startup_revision we) < coalesce_to (gf_completion_revision flow) 0"
  using assms unfolding repeat_login_def Let_def
  by (auto simp: andThen_reading raise_def ret_def elim!: andThen_InrE split: if_splits)

lemma continue_login_result:
  assumes "continue_login go we q flow g = (Inr (path, Some token), g')"
  shows "path = gf_return_to flow \<and> token = go_session_token go (ca_browser q) (ca_state q) \<and>
    (gf_status flow = FL_PENDING \<and> \<not> truthy (ca_error q) \<and>
       (\<exists>code user. ca_code q = Some code \<and> google_identity go flow code user) \<or>
     gf_status flow = FL_COMPLETED \<and>
       max (confirmed_revision (wb_checkpoints (gg_web g))) (we_startup_revision we) < coalesce_to (gf_completion_revision flow) 0)"
proof -
  define t where "t = go_session_token go (ca_browser q) (ca_state q)"
  have spent: "fst (andThen m (\<lambda>_. raise e) w) \<noteq> Inr x" for m :: "unit web_op" and e w and x :: "string \<times> string option"
    by (simp add: andThen_def raise_def split: prod.splits sum.splits)
  have "gf_status flow = FL_PENDING \<and> first_login go we q flow t g = (Inr (path, Some token), g') \<or>
      gf_status flow = FL_COMPLETED \<and>
        (\<exists>w'. repeat_login we (ca_later q) (ca_await1 q) (ca_awaits q) flow t (gg_web g) = (Inr (path, Some token), w'))"
    using assms spent unfolding continue_login_def Let_def t_def [symmetric]
    by (cases "gf_status flow") (auto simp: on_web_def prod_eq_iff)
  then show ?thesis
    using first_login_identity [of go we q flow t g path token g']
      repeat_login_result [of we "ca_later q" "ca_await1 q" "ca_awaits q" flow t "gg_web g" path "Some token"]
    unfolding t_def by blast
qed

text \<open>
  C13: A callback signs a browser in only with what the sign-in was started for.  The session belongs to a flow of this state
  that has not expired and was started from the same browser; the redirect goes to the path stored with it; and the flow is
  either pending, with an identity token of Google whose claims are accepted for this application and the flow's nonce and no
  error reported, or completed in this process without being confirmed yet.
\<close>

theorem google_callback_bound:
  assumes "google_callback go we q g = (Inr (path, Some token), g')"
  shows "\<exists>flow\<in>set (google_flows (wb_db (gg_web g))).
    gf_state flow = ca_state q \<and> ca_browser q \<noteq> [] \<and> gf_browser_hash flow = we_token_hash we (ca_browser q) \<and>
    ca_now q < gf_expires_at flow \<and> path = gf_return_to flow \<and> token = go_session_token go (ca_browser q) (ca_state q) \<and>
    (gf_status flow = FL_PENDING \<and> \<not> truthy (ca_error q) \<and>
       (\<exists>code user. ca_code q = Some code \<and> google_identity go flow code user) \<or>
     gf_status flow = FL_COMPLETED \<and>
       max (confirmed_revision (wb_checkpoints (gg_web g))) (we_startup_revision we) < coalesce_to (gf_completion_revision flow) 0)"
proof -
  have "on_web (check_configured go) g = (Inr (), g)"
    using assms unfolding google_callback_def
    by (auto simp: check_configured_def on_web_def raise_def ret_def andThen_def split: if_splits)
  then obtain flow where row: "fetchone (\<lambda>f. gf_state f = ca_state q) (google_flows (wb_db (gg_web g))) = Some flow"
    and ok: "flow_valid we (ca_now q) (ca_browser q) flow"
    and run: "continue_login go we q flow g = (Inr (path, Some token), g')"
    using assms unfolding google_callback_def
    by (auto simp: andThen_Inr andThen_reading raise_def split: option.splits if_splits)
  show ?thesis
    using fetchone_SomeD [OF row] ok continue_login_result [OF run] unfolding flow_valid_def by blast
qed

theorem google_callback_bound_witness:
  "\<exists>g'. google_callback sample_google_env sample_web_env sample_callback (serve_login sample_start new_google) =
       (Inr (''/tasks'', Some ''b-s''), g') \<and>
     (\<exists>flow\<in>set (google_flows (wb_db (gg_web (serve_login sample_start new_google)))).
        gf_state flow = ''s'' \<and> gf_browser_hash flow = we_token_hash sample_web_env ''b'')"
proof -
  obtain r g' where c: "google_callback sample_google_env sample_web_env sample_callback (serve_login sample_start new_google) = (r, g')"
    by fastforce
  have "fst (google_callback sample_google_env sample_web_env sample_callback (serve_login sample_start new_google)) =
      Inr (''/tasks'', Some ''b-s'')" by code_simp
  then have r: "r = Inr (''/tasks'', Some ''b-s'')" using c by simp
  show ?thesis
    using google_callback_bound [OF c [unfolded r]] c r by (auto simp: sample_callback_def)
qed

end
