(* ===== verification/Repository_Access.thy ===== *)
theory Repository_Access
  imports Github_Connection
begin

text \<open>
  \<open>backend/gg/runtime/repository_authorization.py\<close>: the repositories that a user and an installation of the app may both
  write, and the short-lived credential for one of them.  The requests to GitHub run one after another; the state is the list
  of requests with their answers, on which GitHub and the other writers of the database may depend arbitrarily
  (\<open>rx_answer\<close>, \<open>rx_db\<close>).  \<open>str.lower\<close>, the signature, the encoding of a token segment and
  \<open>fromisoformat\<close>, with times in microseconds, are arguments.
\<close>

section \<open>Requests\<close>

datatype access_error = RepositoryAccessError string | Python_exception string

record api_request =
  ar_method :: string
  ar_path :: string
  ar_token :: string
  ar_page :: "int option"
  ar_json :: "pyval option"

type_synonym exchanges = "(api_request \<times> http_reply) list"

type_synonym 'a access_op = "(exchanges, access_error, 'a) io"

record access_env =
  rx_answer :: "exchanges \<Rightarrow> api_request \<Rightarrow> http_reply"
  rx_db :: "exchanges \<Rightarrow> identity_db"
  rx_github :: github_env
  rx_client_id :: string
  rx_private_key :: "string option"
  rx_lower :: "string \<Rightarrow> string"
  rx_segment :: "(string \<times> pyval) list \<Rightarrow> string"
  rx_sign :: "string \<Rightarrow> string \<Rightarrow> string option"
  rx_instant :: "string \<Rightarrow> int option"
  rx_time :: int
  rx_now :: int

record AuthorizedRepository =
  ap_id :: int
  ap_full_name :: string
  ap_private :: bool
  ap_default_branch :: string
  ap_installation_id :: int

record InstallationCredential =
  ic_token :: string
  ic_expires_at :: int
  ic_repository :: AuthorizedRepository
  ic_base_sha :: string

definition access_unavailable :: access_error where
  "access_unavailable = RepositoryAccessError ''GitHub access unavailable''"

definition good_reply :: "http_reply \<Rightarrow> pyval option" where
  "good_reply reply = (case reply of Reply code v \<Rightarrow> if 200 \<le> code \<and> code \<le> 299 then v else None | No_reply \<Rightarrow> None)"

definition api_call :: "access_env \<Rightarrow> api_request \<Rightarrow> pyval access_op" where
  "api_call rx rq tr =
     (case good_reply (rx_answer rx tr rq) of None \<Rightarrow> Inl access_unavailable | Some v \<Rightarrow> Inr v, tr @ [(rq, rx_answer rx tr rq)])"

definition api_get :: "access_env \<Rightarrow> string \<Rightarrow> string \<Rightarrow> int option \<Rightarrow> pyval access_op" where
  "api_get rx path token page = api_call rx \<lparr>ar_method = ''GET'', ar_path = path, ar_token = token, ar_page = page, ar_json = None\<rparr>"

text \<open>\<open>value.get(key)\<close>, \<open>value or {}\<close> and the comparison of a value with an integer.\<close>

fun py_member :: "pyval \<Rightarrow> string \<Rightarrow> access_error + pyval" where
  "py_member (PDict d) key = Inr (coalesce_to (map_of d key) PNone)"
| "py_member _ key = Inl (Python_exception ''AttributeError'')"

definition or_empty :: "pyval \<Rightarrow> pyval" where
  "or_empty v = (if py_bool v then v else PDict [])"

fun equals_int :: "pyval \<Rightarrow> int \<Rightarrow> bool" where
  "equals_int (PInt j) i = (j = i)"
| "equals_int (PBool b) i = (of_bool b = i)"
| "equals_int _ i = False"

definition user_token :: "access_env \<Rightarrow> string \<Rightarrow> string access_op" where
  "user_token rx owner =
     andThen (reading (\<lambda>tr. current_connection (rx_github rx) owner (rx_db rx tr))) (\<lambda>current.
       case current of
         Inl _ \<Rightarrow> raise (Python_exception ''InvalidToken'')
       | Inr (Some (github_id, _, Some token, status)) \<Rightarrow>
           if status = CS_REVOKED then raise (RepositoryAccessError ''GitHub account must be connected'')
           else andThen (api_get rx ''/user'' token None) (\<lambda>identity.
                andThen (lift_sum (py_member identity ''id'')) (\<lambda>v.
                  if equals_int v github_id then ret token
                  else raise (RepositoryAccessError ''GitHub account changed; reconnect'')))
       | Inr _ \<Rightarrow> raise (RepositoryAccessError ''GitHub account must be connected''))"

section \<open>Repositories\<close>

definition put_repository :: "AuthorizedRepository \<Rightarrow> AuthorizedRepository list \<Rightarrow> AuthorizedRepository list" where
  "put_repository r rs =
     (if ap_id r \<in> ap_id ` set rs then map (\<lambda>q. if ap_id q = ap_id r then r else q) rs else rs @ [r])"

text \<open>One repository of a page: \<open>None\<close> when the user may not push to it.\<close>

definition read_repository :: "int \<Rightarrow> pyval \<Rightarrow> access_error + AuthorizedRepository option" where
  "read_repository installation_id v =
     sum_bind (py_member v ''permissions'') (\<lambda>p.
     sum_bind (py_member v ''id'') (\<lambda>i.
     sum_bind (py_member v ''full_name'') (\<lambda>name.
     sum_bind (py_member (or_empty p) ''push'') (\<lambda>push.
     sum_bind (py_member (or_empty p) ''admin'') (\<lambda>admin.
       if \<not> (py_bool push \<or> py_bool admin) then Inr None
       else (case (i, name) of
               (PInt n, PStr full_name) \<Rightarrow>
                 sum_bind (py_member v ''private'') (\<lambda>priv.
                 sum_bind (py_member v ''default_branch'') (\<lambda>branch.
                   Inr (Some \<lparr>ap_id = n, ap_full_name = full_name, ap_private = py_bool priv,
                          ap_default_branch = (if py_bool branch then py_str branch else []),
                          ap_installation_id = installation_id\<rparr>)))
             | _ \<Rightarrow> Inl (RepositoryAccessError ''invalid GitHub repository response'')))))))"

fun read_repositories :: "int \<Rightarrow> pyval list \<Rightarrow> AuthorizedRepository list \<Rightarrow> access_error + AuthorizedRepository list" where
  "read_repositories installation_id [] found = Inr found"
| "read_repositories installation_id (v # vs) found =
     sum_bind (read_repository installation_id v) (\<lambda>r.
       read_repositories installation_id vs (case r of None \<Rightarrow> found | Some r \<Rightarrow> put_repository r found))"

definition repositories_path :: "int \<Rightarrow> string" where
  "repositories_path installation_id = ''/user/installations/'' @ show_int installation_id @ ''/repositories''"

text \<open>Ten pages at most; the first argument counts the ones that are left.\<close>

fun repository_pages :: "nat \<Rightarrow> access_env \<Rightarrow> string \<Rightarrow> int \<Rightarrow> AuthorizedRepository list \<Rightarrow> AuthorizedRepository list access_op" where
  "repository_pages 0 rx token installation_id found = raise (RepositoryAccessError ''GitHub repository list exceeds limit'')"
| "repository_pages (Suc n) rx token installation_id found =
     andThen (api_get rx (repositories_path installation_id) token (Some (10 - int n))) (\<lambda>payload.
     andThen (lift_sum (py_member payload ''repositories'')) (\<lambda>v.
       case v of
         PList repos \<Rightarrow>
           andThen (lift_sum (read_repositories installation_id repos found)) (\<lambda>more.
             if length repos < 100 then ret more else repository_pages n rx token installation_id more)
       | _ \<Rightarrow> raise (RepositoryAccessError ''invalid GitHub repository response'')))"

text \<open>The identifier of an installation that is not suspended and may write contents and pull requests.\<close>

definition usable_installation :: "pyval \<Rightarrow> access_error + int option" where
  "usable_installation v =
     sum_bind (py_member v ''suspended_at'') (\<lambda>suspended.
       if suspended \<noteq> PNone then Inr None
       else sum_bind (py_member v ''id'') (\<lambda>i.
            sum_bind (py_member v ''permissions'') (\<lambda>p.
              case i of
                PInt n \<Rightarrow>
                  sum_bind (py_member (or_empty p) ''contents'') (\<lambda>contents.
                    if contents \<noteq> PStr ''write'' then Inr None
                    else sum_bind (py_member (or_empty p) ''pull_requests'') (\<lambda>pulls.
                           Inr (if pulls = PStr ''write'' then Some n else None)))
              | _ \<Rightarrow> Inr None)))"

fun visit_installations :: "access_env \<Rightarrow> string \<Rightarrow> pyval list \<Rightarrow> AuthorizedRepository list \<Rightarrow> AuthorizedRepository list access_op" where
  "visit_installations rx token [] found = ret found"
| "visit_installations rx token (v # vs) found =
     andThen (lift_sum (usable_installation v)) (\<lambda>usable.
       case usable of
         None \<Rightarrow> visit_installations rx token vs found
       | Some n \<Rightarrow> andThen (repository_pages 10 rx token n found) (visit_installations rx token vs))"

fun access_pages :: "nat \<Rightarrow> access_env \<Rightarrow> string \<Rightarrow> AuthorizedRepository list \<Rightarrow> AuthorizedRepository list access_op" where
  "access_pages 0 rx token found = raise (RepositoryAccessError ''GitHub installation list exceeds limit'')"
| "access_pages (Suc n) rx token found =
     andThen (api_get rx ''/user/installations'' token (Some (10 - int n))) (\<lambda>payload.
     andThen (lift_sum (py_member payload ''installations'')) (\<lambda>v.
       case v of
         PList installations \<Rightarrow>
           andThen (visit_installations rx token installations found) (\<lambda>more.
             if length installations < 100 then ret (order_by (\<lambda>r. rx_lower rx (ap_full_name r)) more)
             else access_pages n rx token more)
       | _ \<Rightarrow> raise (RepositoryAccessError ''invalid GitHub installation response'')))"

definition list_repositories :: "access_env \<Rightarrow> string \<Rightarrow> AuthorizedRepository list access_op" where
  "list_repositories rx owner = andThen (user_token rx owner) (\<lambda>token. access_pages 10 rx token [])"

definition find_repository :: "access_env \<Rightarrow> string \<Rightarrow> string \<Rightarrow> AuthorizedRepository access_op" where
  "find_repository rx owner repository =
     andThen (list_repositories rx owner) (\<lambda>rs.
       case fetchone (\<lambda>r. rx_lower rx (ap_full_name r) = rx_lower rx repository) rs of
         None \<Rightarrow> raise (RepositoryAccessError ''repository is not authorized'')
       | Some r \<Rightarrow> ret r)"

section \<open>Branches\<close>

fun read_branches :: "pyval list \<Rightarrow> access_error + (string \<times> string) list" where
  "read_branches [] = Inr []"
| "read_branches (v # vs) =
     sum_bind (py_member v ''name'') (\<lambda>name.
     sum_bind (py_member v ''commit'') (\<lambda>commit.
     sum_bind (py_member (or_empty commit) ''sha'') (\<lambda>sha.
       case (name, sha) of
         (PStr n, PStr s) \<Rightarrow> sum_bind (read_branches vs) (\<lambda>rest. Inr ((n, s) # rest))
       | _ \<Rightarrow> Inl (RepositoryAccessError ''invalid GitHub branch response''))))"

fun branch_pages :: "nat \<Rightarrow> access_env \<Rightarrow> string \<Rightarrow> string \<Rightarrow> (string \<times> string) list \<Rightarrow> (string \<times> string) list access_op" where
  "branch_pages 0 rx path token found = raise (RepositoryAccessError ''GitHub branch list exceeds limit'')"
| "branch_pages (Suc n) rx path token found =
     andThen (api_get rx (''/repos/'' @ path @ ''/branches'') token (Some (10 - int n))) (\<lambda>payload.
       case payload of
         PList items \<Rightarrow>
           andThen (lift_sum (read_branches items)) (\<lambda>more.
             if length items < 100 then ret (found @ more) else branch_pages n rx path token (found @ more))
       | _ \<Rightarrow> raise (RepositoryAccessError ''invalid GitHub branch response''))"

definition repository_branches :: "access_env \<Rightarrow> string \<Rightarrow> string \<Rightarrow> (string \<times> string) list access_op" where
  "repository_branches rx owner repository =
     andThen (find_repository rx owner repository) (\<lambda>authorized.
     andThen (user_token rx owner) (\<lambda>token. branch_pages 10 rx (quote_path (ap_full_name authorized)) token []))"

definition quote_segment :: "string \<Rightarrow> string" where
  "quote_segment s = concat (map (\<lambda>c. if unreserved c \<and> c \<noteq> CHR ''/'' then [c]
     else [CHR ''%'', ''0123456789ABCDEF'' ! (of_char c div 16), ''0123456789ABCDEF'' ! (of_char c mod 16)]) s)"

definition commit_sha :: "string \<Rightarrow> bool" where
  "commit_sha s \<longleftrightarrow> length s = 40 \<and> list_all (\<lambda>c. c \<in> set ''0123456789abcdef'') s"

definition resolve_branch :: "access_env \<Rightarrow> string \<Rightarrow> string \<Rightarrow> string \<Rightarrow> (AuthorizedRepository \<times> string) access_op" where
  "resolve_branch rx owner repository base_ref =
     andThen (find_repository rx owner repository) (\<lambda>item.
     andThen (user_token rx owner) (\<lambda>token.
     andThen (catch (api_get rx (''/repos/'' @ quote_path (ap_full_name item) @ ''/branches/'' @ quote_segment base_ref) token None)
                (\<lambda>_. raise (RepositoryAccessError ''branch is not available''))) (\<lambda>payload.
     andThen (lift_sum (py_member payload ''commit'')) (\<lambda>commit.
     andThen (lift_sum (py_member (or_empty commit) ''sha'')) (\<lambda>v.
       case v of
         PStr sha \<Rightarrow> if commit_sha sha then ret (item, sha) else raise (RepositoryAccessError ''invalid GitHub branch SHA'')
       | _ \<Rightarrow> raise (RepositoryAccessError ''invalid GitHub branch SHA''))))))"

section \<open>Credentials\<close>

definition app_jwt :: "access_env \<Rightarrow> access_error + string" where
  "app_jwt rx =
     (if \<not> truthy (rx_private_key rx) then Inl (RepositoryAccessError ''GitHub App private key is not configured'')
      else (let message = rx_segment rx [(''alg'', PStr ''RS256''), (''typ'', PStr ''JWT'')] @ ''.'' @
                  rx_segment rx [(''iat'', PInt (rx_time rx - 60)), (''exp'', PInt (rx_time rx + 540)), (''iss'', PStr (rx_client_id rx))]
            in case rx_sign rx (coalesce_to (rx_private_key rx) []) message of
                 None \<Rightarrow> Inl (RepositoryAccessError ''invalid GitHub App private key'')
               | Some signature \<Rightarrow> Inr (message @ ''.'' @ signature)))"

definition token_request :: "AuthorizedRepository \<Rightarrow> string \<Rightarrow> api_request" where
  "token_request item jwt =
     \<lparr>ar_method = ''POST'', ar_path = ''/app/installations/'' @ show_int (ap_installation_id item) @ ''/access_tokens'',
      ar_token = jwt, ar_page = None,
      ar_json = Some (PDict [(''repository_ids'', PList [PInt (ap_id item)]),
        (''permissions'', PDict [(''contents'', PStr ''write''), (''pull_requests'', PStr ''write'')])])\<rparr>"

definition token_expiry :: "access_env \<Rightarrow> pyval \<Rightarrow> access_error + int" where
  "token_expiry rx payload =
     (let bad = Inl (RepositoryAccessError ''invalid installation token response'') in
      case payload of
        PDict d \<Rightarrow>
          (case map_of d ''expires_at'' of
             Some (PStr s) \<Rightarrow> (case rx_instant rx (replace_str ''Z'' ''+00:00'' s) of None \<Rightarrow> bad | Some t \<Rightarrow> Inr t)
           | _ \<Rightarrow> bad)
      | _ \<Rightarrow> bad)"

text \<open>The list of repositories of a token names the one that was asked for and no other.\<close>

definition only_repository :: "pyval \<Rightarrow> int \<Rightarrow> access_error + bool" where
  "only_repository repos i =
     (case repos of
        PList rs \<Rightarrow>
          (case rs of
             [r] \<Rightarrow> sum_bind (py_member r ''id'') (\<lambda>v. Inr (equals_int v i))
           | _ \<Rightarrow> Inr False)
      | PDict d \<Rightarrow> if length d \<noteq> 1 then Inr False else Inl (Python_exception ''KeyError'')
      | PStr s \<Rightarrow> if length s \<noteq> 1 then Inr False else Inl (Python_exception ''AttributeError'')
      | _ \<Rightarrow> Inl (Python_exception ''TypeError''))"

definition restricted_token :: "pyval \<Rightarrow> pyval \<Rightarrow> int \<Rightarrow> access_error + string" where
  "restricted_token token repos i =
     (let bad = Inl (RepositoryAccessError ''installation token was not restricted to repository'') in
      case token of
        PStr t \<Rightarrow> if t = [] then bad else sum_bind (only_repository repos i) (\<lambda>ok. if ok then Inr t else bad)
      | _ \<Rightarrow> bad)"

definition or_nothing :: "pyval \<Rightarrow> pyval" where
  "or_nothing v = (if py_bool v then v else PList [])"

definition installation_credential :: "access_env \<Rightarrow> string \<Rightarrow> string \<Rightarrow> string \<Rightarrow> InstallationCredential access_op" where
  "installation_credential rx owner repository base_ref =
     andThen (resolve_branch rx owner repository base_ref) (\<lambda>(item, sha).
     andThen (lift_sum (app_jwt rx)) (\<lambda>jwt.
     andThen (api_call rx (token_request item jwt)) (\<lambda>payload.
     andThen (lift_sum (py_member payload ''token'')) (\<lambda>token.
     andThen (lift_sum (token_expiry rx payload)) (\<lambda>expires_at.
     andThen (lift_sum (py_member payload ''repositories'')) (\<lambda>repos.
     andThen (lift_sum (restricted_token token (or_nothing repos) (ap_id item))) (\<lambda>t.
       if expires_at - rx_now rx < 50 * 60 * 1000000 then raise (RepositoryAccessError ''installation token expires too soon'')
       else ret \<lparr>ic_token = t, ic_expires_at = expires_at, ic_repository = item, ic_base_sha = sha\<rparr>)))))))"

end
