(* ===== verification/Repository_Access_Props.thy ===== *)
theory Repository_Access_Props
  imports Repository_Access
begin

text \<open>
  What an installation credential guarantees.  Everything the decision rests on was answered by GitHub within the same call:
  \<open>reported\<close> reads it off the list of requests and answers.
\<close>

section \<open>What GitHub reported\<close>

definition answered :: "exchanges \<Rightarrow> string \<Rightarrow> string \<Rightarrow> pyval \<Rightarrow> bool" where
  "answered tr path token v \<longleftrightarrow>
     (\<exists>page reply. (\<lparr>ar_method = ''GET'', ar_path = path, ar_token = token, ar_page = page, ar_json = None\<rparr>, reply) \<in> set tr \<and>
        good_reply reply = Some v)"

definition listed_in :: "exchanges \<Rightarrow> string \<Rightarrow> string \<Rightarrow> string \<Rightarrow> pyval \<Rightarrow> bool" where
  "listed_in tr path token key item \<longleftrightarrow>
     (\<exists>d items. answered tr path token (PDict d) \<and> map_of d key = Some (PList items) \<and> item \<in> set items)"

definition reported :: "exchanges \<Rightarrow> string \<Rightarrow> AuthorizedRepository \<Rightarrow> bool" where
  "reported tr token r \<longleftrightarrow>
     (\<exists>v. listed_in tr ''/user/installations'' token ''installations'' v \<and> usable_installation v = Inr (Some (ap_installation_id r))) \<and>
     (\<exists>v. listed_in tr (repositories_path (ap_installation_id r)) token ''repositories'' v \<and>
        read_repository (ap_installation_id r) v = Inr (Some r))"

text \<open>What the two readers accept, on the values themselves.\<close>

lemma usable_installation_fields:
  assumes "usable_installation v = Inr (Some n)"
  shows "\<exists>d. v = PDict d \<and> coalesce_to (map_of d ''suspended_at'') PNone = PNone \<and> map_of d ''id'' = Some (PInt n) \<and>
    (\<exists>p. map_of d ''permissions'' = Some (PDict p) \<and> map_of p ''contents'' = Some (PStr ''write'') \<and>
       map_of p ''pull_requests'' = Some (PStr ''write''))"
proof (cases v)
  case (PDict d)
  then show ?thesis using assms
    by (auto simp: usable_installation_def sum_bind_def or_empty_def coalesce_to_def split: if_splits option.splits pyval.splits sum.splits
        elim!: py_member.elims)
qed (use assms in \<open>auto simp: usable_installation_def sum_bind_def\<close>)

lemma read_repository_fields:
  assumes "read_repository i v = Inr (Some r)"
  shows "\<exists>d. v = PDict d \<and> map_of d ''id'' = Some (PInt (ap_id r)) \<and> map_of d ''full_name'' = Some (PStr (ap_full_name r)) \<and>
    ap_installation_id r = i \<and>
    (\<exists>p k a. map_of d ''permissions'' = Some (PDict p) \<and> k \<in> {''push'', ''admin''} \<and> map_of p k = Some a \<and> py_bool a)"
proof (cases v)
  case (PDict d)
  obtain p where p: "coalesce_to (map_of d ''permissions'') PNone = p" by simp
  obtain push admin where pa: "py_member (or_empty p) ''push'' = Inr push" "py_member (or_empty p) ''admin'' = Inr admin" "py_bool push \<or> py_bool admin"
    using assms p unfolding PDict read_repository_def
    by (cases "py_member (or_empty p) ''push''"; cases "py_member (or_empty p) ''admin''") (auto simp: sum_bind_def split: if_splits)
  have "\<exists>q k a. map_of d ''permissions'' = Some (PDict q) \<and> k \<in> {''push'', ''admin''} \<and> map_of q k = Some a \<and> py_bool a"
  proof -
    obtain q where q: "or_empty p = PDict q" using pa(1) by (cases "or_empty p") auto
    have "\<exists>k a. k \<in> {''push'', ''admin''} \<and> map_of q k = Some a \<and> py_bool a"
      using pa unfolding q by (auto simp: coalesce_to_def split: option.splits)
    moreover from this have "p = PDict q" using q unfolding or_empty_def by (auto split: if_splits)
    ultimately show ?thesis using p by (auto simp: coalesce_to_def split: option.splits)
  qed
  moreover have "map_of d ''id'' = Some (PInt (ap_id r)) \<and> map_of d ''full_name'' = Some (PStr (ap_full_name r)) \<and> ap_installation_id r = i"
    using assms pa p unfolding PDict read_repository_def
    by (auto simp: sum_bind_def coalesce_to_def split: if_splits pyval.splits option.splits)
  ultimately show ?thesis using PDict by blast
qed (use assms in \<open>auto simp: read_repository_def sum_bind_def\<close>)

section \<open>The listing\<close>

definition grows :: "exchanges \<Rightarrow> exchanges \<Rightarrow> bool" where
  "grows tr tr' \<longleftrightarrow> set tr \<subseteq> set tr'"

interpretation grown: kept_relation grows
  by unfold_locales (auto simp: grows_def)

lemma grows_api [simp]: "keeps grows (api_call rx rq)" "keeps grows (api_get rx path token page)"
  unfolding api_get_def by (auto intro!: keepsI simp: api_call_def grows_def)

lemma grows_pages: "keeps grows (repository_pages n rx token i found)"
  by (induction n arbitrary: found)
    (auto intro!: grown.keeps_andThen grown.keeps_lift_sum grown.keeps_raise grown.keeps_ret split: pyval.splits)

lemma grows_visit: "keeps grows (visit_installations rx token vs found)"
  by (induction vs arbitrary: found)
    (auto intro!: grown.keeps_andThen grown.keeps_lift_sum grown.keeps_ret grows_pages split: option.splits)

lemma answered_mono: "grows tr tr' \<Longrightarrow> answered tr path token v \<Longrightarrow> answered tr' path token v"
  unfolding answered_def grows_def by blast

lemma listed_mono: "grows tr tr' \<Longrightarrow> listed_in tr path token key v \<Longrightarrow> listed_in tr' path token key v"
  unfolding listed_in_def using answered_mono by blast

lemma reported_mono: "grows tr tr' \<Longrightarrow> reported tr token r \<Longrightarrow> reported tr' token r"
  unfolding reported_def using listed_mono by blast

lemma api_get_Inr: "api_get rx path token page tr = (Inr v, tr') \<Longrightarrow> answered tr' path token v"
  unfolding api_get_def api_call_def answered_def by (auto split: option.splits intro!: exI [of _ page])

lemma read_repositories_from:
  assumes "read_repositories i vs found = Inr out" "r \<in> set out"
  shows "r \<in> set found \<or> (\<exists>v\<in>set vs. read_repository i v = Inr (Some r))"
  using assms
proof (induction vs arbitrary: found)
  case (Cons v vs)
  obtain o' where o: "read_repository i v = Inr o'" "read_repositories i vs (case o' of None \<Rightarrow> found | Some q \<Rightarrow> put_repository q found) = Inr out"
    using Cons.prems(1) by (cases "read_repository i v") (auto simp: sum_bind_def)
  from Cons.IH [OF o(2) Cons.prems(2)] show ?case using o(1)
    by (auto simp: put_repository_def split: option.splits if_splits)
qed simp

lemma member_Inr: "py_member v key = Inr x \<Longrightarrow> x \<noteq> PNone \<Longrightarrow> \<exists>d. v = PDict d \<and> map_of d key = Some x"
  by (cases v) (auto simp: coalesce_to_def split: option.splits)

lemma repository_pages_from:
  assumes "repository_pages n rx token i found tr = (Inr out, tr')" "r \<in> set out"
  shows "r \<in> set found \<or> (\<exists>v. listed_in tr' (repositories_path i) token ''repositories'' v \<and> read_repository i v = Inr (Some r))"
  using assms
proof (induction n arbitrary: found tr)
  case (Suc n)
  obtain payload tr1 v where one: "api_get rx (repositories_path i) token (Some (10 - int n)) tr = (Inr payload, tr1)"
    and v: "py_member payload ''repositories'' = Inr v"
    and rest: "(case v of PList repos \<Rightarrow> andThen (lift_sum (read_repositories i repos found)) (\<lambda>out.
         if length repos < 100 then ret out else repository_pages n rx token i out)
       | _ \<Rightarrow> raise (RepositoryAccessError ''invalid GitHub repository response'')) tr1 = (Inr out, tr')"
    using Suc.prems(1) unfolding repository_pages.simps by (auto simp: lift_sum_apply elim!: andThen_InrE)
  obtain repos where l: "v = PList repos" using rest by (cases v) (auto simp: raise_def)
  obtain m where m: "read_repositories i repos found = Inr m"
    and cont: "(if length repos < 100 then ret m else repository_pages n rx token i m) tr1 = (Inr out, tr')"
    using rest unfolding l by (auto simp: lift_sum_apply elim!: andThen_InrE)
  have g: "grows tr1 tr'"
    using keepsD [OF grows_pages [of n rx token i m], of tr1] cont by (auto simp: ret_def grown.kept_refl split: if_splits)
  have "listed_in tr' (repositories_path i) token ''repositories'' x" if "x \<in> set repos" for x
    using answered_mono [OF g api_get_Inr [OF one]] member_Inr [OF v] that unfolding l listed_in_def by auto
  moreover have "r \<in> set m \<or> (\<exists>v. listed_in tr' (repositories_path i) token ''repositories'' v \<and> read_repository i v = Inr (Some r))"
    using cont Suc.IH Suc.prems(2) by (auto simp: ret_def split: if_splits)
  ultimately show ?case using read_repositories_from [OF m] by blast
qed (simp add: raise_def)

lemma visit_installations_from:
  assumes "visit_installations rx token vs found tr = (Inr out, tr')" "r \<in> set out"
  shows "r \<in> set found \<or> (\<exists>v\<in>set vs. usable_installation v = Inr (Some (ap_installation_id r))) \<and>
    (\<exists>x. listed_in tr' (repositories_path (ap_installation_id r)) token ''repositories'' x \<and>
       read_repository (ap_installation_id r) x = Inr (Some r))"
  using assms
proof (induction vs arbitrary: found tr)
  case (Cons v vs)
  obtain u where u: "usable_installation v = Inr u"
    and rest: "(case u of None \<Rightarrow> visit_installations rx token vs found
       | Some n \<Rightarrow> andThen (repository_pages 10 rx token n found) (visit_installations rx token vs)) tr = (Inr out, tr')"
    using Cons.prems(1) unfolding visit_installations.simps by (auto simp: lift_sum_apply elim!: andThen_InrE)
  show ?case
  proof (cases u)
    case None
    then show ?thesis using Cons.IH [of found tr] Cons.prems(2) rest by auto
  next
    case (Some n)
    then obtain m tr1 where m: "repository_pages 10 rx token n found tr = (Inr m, tr1)"
      and more: "visit_installations rx token vs m tr1 = (Inr out, tr')"
      using rest by (auto elim!: andThen_InrE)
    have g: "grows tr1 tr'" using keepsD [OF grows_visit [of rx token vs m], of tr1] more by simp
    have "r \<in> set found \<or> ap_installation_id r = n \<and> (\<exists>x. listed_in tr' (repositories_path n) token ''repositories'' x \<and>
        read_repository n x = Inr (Some r))" if "r \<in> set m"
      using repository_pages_from [OF m that] listed_mono [OF g] read_repository_fields by blast
    then show ?thesis using Cons.IH [OF more Cons.prems(2)] u Some by auto
  qed
qed (simp add: ret_def)

lemma access_pages_from:
  assumes "access_pages n rx token found tr = (Inr out, tr')" "\<And>r. r \<in> set found \<Longrightarrow> reported tr token r" "r \<in> set out"
  shows "reported tr' token r"
  using assms
proof (induction n arbitrary: found tr)
  case (Suc n)
  obtain payload tr1 v where one: "api_get rx ''/user/installations'' token (Some (10 - int n)) tr = (Inr payload, tr1)"
    and v: "py_member payload ''installations'' = Inr v"
    and rest: "(case v of PList vs \<Rightarrow> andThen (visit_installations rx token vs found) (\<lambda>rs.
         if length vs < 100 then ret (order_by (\<lambda>r. rx_lower rx (ap_full_name r)) rs) else access_pages n rx token rs)
       | _ \<Rightarrow> raise (RepositoryAccessError ''invalid GitHub installation response'')) tr1 = (Inr out, tr')"
    using Suc.prems(1) unfolding access_pages.simps by (auto simp: lift_sum_apply elim!: andThen_InrE)
  obtain vs where l: "v = PList vs" using rest by (cases v) (auto simp: raise_def)
  obtain m tr2 where m: "visit_installations rx token vs found tr1 = (Inr m, tr2)"
    and cont: "(if length vs < 100 then ret (order_by (\<lambda>r. rx_lower rx (ap_full_name r)) m) else access_pages n rx token m) tr2 = (Inr out, tr')"
    using rest unfolding l by (auto elim!: andThen_InrE)
  have g1: "grows tr tr1" using keepsD [OF grows_api(2) [of rx "''/user/installations''" token "Some (10 - int n)"], of tr] one by simp
  have g2: "grows tr1 tr2" using keepsD [OF grows_visit [of rx token vs found], of tr1] m by simp
  have inst: "listed_in tr2 ''/user/installations'' token ''installations'' x" if "x \<in> set vs" for x
    using answered_mono [OF g2 api_get_Inr [OF one]] member_Inr [OF v] that unfolding l listed_in_def by auto
  have rep: "reported tr2 token r" if "r \<in> set m" for r
    using visit_installations_from [OF m that] inst Suc.prems(2) reported_mono [OF grown.kept_trans [OF g1 g2]]
    unfolding reported_def by blast
  show ?case
  proof (cases "length vs < 100")
    case True
    then show ?thesis using cont rep Suc.prems(3) by (auto simp: ret_def order_by_def)
  next
    case False
    then show ?thesis using Suc.IH [of m tr2] rep cont Suc.prems(3) by simp
  qed
qed (simp add: raise_def)

section \<open>The credential\<close>

text \<open>The connected account of the owner, confirmed by GitHub in this call.\<close>

definition confirmed_account :: "access_env \<Rightarrow> string \<Rightarrow> exchanges \<Rightarrow> string \<Rightarrow> bool" where
  "confirmed_account rx owner tr token \<longleftrightarrow>
     (\<exists>before github_id login status d i.
        current_connection (rx_github rx) owner (rx_db rx before) = Inr (Some (github_id, login, Some token, status)) \<and>
        status \<noteq> CS_REVOKED \<and> answered tr ''/user'' token (PDict d) \<and> map_of d ''id'' = Some i \<and> equals_int i github_id)"

lemma confirmed_mono: "grows tr tr' \<Longrightarrow> confirmed_account rx owner tr token \<Longrightarrow> confirmed_account rx owner tr' token"
  unfolding confirmed_account_def using answered_mono by blast

lemma user_token_Inr:
  assumes "user_token rx owner tr = (Inr token, tr')"
  shows "confirmed_account rx owner tr' token"
proof -
  obtain github_id login status identity v tr1 where c:
      "current_connection (rx_github rx) owner (rx_db rx tr) = Inr (Some (github_id, login, Some token, status))" "status \<noteq> CS_REVOKED"
    and run: "api_get rx ''/user'' token None tr = (Inr identity, tr1)" "lift_sum (py_member identity ''id'') tr1 = (Inr v, tr')"
      "equals_int v github_id"
    using assms unfolding user_token_def andThen_reading
    by (auto simp: raise_def ret_def elim!: andThen_InrE split: sum.splits option.splits prod.splits if_splits)
  have "answered tr' ''/user'' token identity" "py_member identity ''id'' = Inr v" "v \<noteq> PNone"
    using run api_get_Inr by (auto simp: lift_sum_apply)
  then show ?thesis using c run(3) member_Inr unfolding confirmed_account_def by blast
qed

lemma grows_user_token: "keeps grows (user_token rx owner)"
  unfolding user_token_def
  by (auto intro!: grown.keeps_andThen grown.keeps_reading grown.keeps_lift_sum grown.keeps_raise grown.keeps_ret
      split: sum.splits option.splits prod.splits)

lemma grows_access_pages: "keeps grows (access_pages n rx token found)"
  by (induction n arbitrary: found)
    (auto intro!: grown.keeps_andThen grown.keeps_lift_sum grown.keeps_raise grown.keeps_ret grows_visit split: pyval.splits)

lemma find_repository_Inr:
  assumes "find_repository rx owner repository tr = (Inr r, tr')"
  shows "rx_lower rx (ap_full_name r) = rx_lower rx repository \<and> (\<exists>token. confirmed_account rx owner tr' token \<and> reported tr' token r)"
proof -
  obtain token tr1 rs where t: "user_token rx owner tr = (Inr token, tr1)" and p: "access_pages 10 rx token [] tr1 = (Inr rs, tr')"
    and f: "fetchone (\<lambda>r. rx_lower rx (ap_full_name r) = rx_lower rx repository) rs = Some r"
    using assms unfolding find_repository_def list_repositories_def
    by (auto simp: raise_def ret_def elim!: andThen_InrE split: option.splits)
  have "grows tr1 tr'" using keepsD [OF grows_access_pages [of 10 rx token "[]"], of tr1] p by simp
  then have "confirmed_account rx owner tr' token" using confirmed_mono user_token_Inr [OF t] by blast
  then show ?thesis using access_pages_from [OF p] fetchone_SomeD [OF f] by auto
qed

lemma resolve_branch_Inr:
  assumes "resolve_branch rx owner repository base_ref tr = (Inr (r, sha), tr')"
  shows "rx_lower rx (ap_full_name r) = rx_lower rx repository \<and> commit_sha sha \<and>
    (\<exists>token. confirmed_account rx owner tr' token \<and> reported tr' token r)"
proof -
  define rest where "rest = (\<lambda>item :: AuthorizedRepository. andThen (user_token rx owner) (\<lambda>token.
     andThen (catch (api_get rx (''/repos/'' @ quote_path (ap_full_name item) @ ''/branches/'' @ quote_segment base_ref) token None)
                (\<lambda>_. raise (RepositoryAccessError ''branch is not available''))) (\<lambda>payload.
     andThen (lift_sum (py_member payload ''commit'')) (\<lambda>commit.
     andThen (lift_sum (py_member (or_empty commit) ''sha'')) (\<lambda>v.
       case v of
         PStr sha \<Rightarrow> if commit_sha sha then ret (item, sha) else raise (RepositoryAccessError ''invalid GitHub branch SHA'')
       | _ \<Rightarrow> raise (RepositoryAccessError ''invalid GitHub branch SHA''))))))"
  obtain item tr1 where f: "find_repository rx owner repository tr = (Inr item, tr1)" and run: "rest item tr1 = (Inr (r, sha), tr')"
    using assms unfolding resolve_branch_def rest_def by (rule andThen_InrE)
  have "keeps grows (rest item)"
    unfolding rest_def
    by (auto intro!: grown.keeps_andThen grown.keeps_catch grown.keeps_lift_sum grown.keeps_raise grown.keeps_ret grows_user_token
        split: pyval.splits)
  then have g: "grows tr1 tr'" using keepsD run by (metis snd_conv)
  have "item = r \<and> commit_sha sha"
    using run unfolding rest_def by (auto simp: raise_def ret_def elim!: andThen_InrE split: pyval.splits if_splits)
  then show ?thesis using find_repository_Inr [OF f] confirmed_mono [OF g] reported_mono [OF g] by blast
qed

lemma restricted_token_Inr:
  assumes "restricted_token token (or_nothing repos) i = Inr t"
  shows "token = PStr t \<and> t \<noteq> [] \<and> (\<exists>d v. repos = PList [PDict d] \<and> map_of d ''id'' = Some v \<and> equals_int v i)"
proof -
  obtain r where "token = PStr t" "t \<noteq> []" "or_nothing repos = PList [r]" and m: "sum_bind (py_member r ''id'') (\<lambda>v. Inr (equals_int v i)) = Inr True"
    using assms by (auto simp: restricted_token_def only_repository_def sum_bind_def Let_def
        split: pyval.splits if_splits list.splits sum.splits)
  moreover from m obtain v where "py_member r ''id'' = Inr v" "equals_int v i" by (auto simp: sum_bind_def split: sum.splits)
  moreover from this(2) have "v \<noteq> PNone" by auto
  ultimately show ?thesis using member_Inr [of r "''id''" v] by (auto simp: or_nothing_def split: if_splits)
qed

text \<open>
  C15: An installation credential is narrowed to the repository that was asked for.  It is given out only when, within the
  same call, GitHub confirmed the connected account of the owner, listed the repository under an installation that is not
  suspended and may write contents and pull requests, with push or administrator access of the user; the token was requested
  for that repository alone and GitHub's answer names that repository alone; it is valid for at least fifty minutes, and the base
  is a commit identifier.
\<close>

theorem repository_credential_restricted:
  assumes "installation_credential rx owner repository base_ref [] = (Inr credential, tr)"
  shows "(\<exists>token. confirmed_account rx owner tr token \<and> reported tr token (ic_repository credential)) \<and>
    rx_lower rx (ap_full_name (ic_repository credential)) = rx_lower rx repository \<and> commit_sha (ic_base_sha credential) \<and>
    rx_now rx + 50 * 60 * 1000000 \<le> ic_expires_at credential \<and> ic_token credential \<noteq> [] \<and>
    (\<exists>jwt reply d x v. last tr = (token_request (ic_repository credential) jwt, reply) \<and> good_reply reply = Some (PDict d) \<and>
       map_of d ''token'' = Some (PStr (ic_token credential)) \<and> map_of d ''repositories'' = Some (PList [PDict x]) \<and>
       map_of x ''id'' = Some v \<and> equals_int v (ap_id (ic_repository credential)))"
proof -
  obtain item sha tr1 jwt payload token expires_at repos t
    where r: "resolve_branch rx owner repository base_ref [] = (Inr (item, sha), tr1)"
      and call: "api_call rx (token_request item jwt) tr1 = (Inr payload, tr)"
      and m: "py_member payload ''token'' = Inr token" "py_member payload ''repositories'' = Inr repos"
      and t: "restricted_token token (or_nothing repos) (ap_id item) = Inr t"
      and e: "\<not> expires_at - rx_now rx < 50 * 60 * 1000000"
      and c: "credential = \<lparr>ic_token = t, ic_expires_at = expires_at, ic_repository = item, ic_base_sha = sha\<rparr>"
    using assms unfolding installation_credential_def
    by (auto simp: lift_sum_apply raise_def ret_def elim!: andThen_InrE split: if_splits prod.splits)
  note tok = restricted_token_Inr [OF t]
  have tr: "tr = tr1 @ [(token_request item jwt, rx_answer rx tr1 (token_request item jwt))]"
    and good: "good_reply (rx_answer rx tr1 (token_request item jwt)) = Some payload"
    using call by (auto simp: api_call_def split: option.splits)
  have g: "grows tr1 tr" by (auto simp: tr grows_def)
  obtain d where d: "payload = PDict d" "map_of d ''token'' = Some (PStr t)" "map_of d ''repositories'' = Some repos"
    using m tok by (cases payload) (auto simp: coalesce_to_def split: option.splits)
  have "\<exists>x v. repos = PList [PDict x] \<and> map_of x ''id'' = Some v \<and> equals_int v (ap_id item)" using tok by blast
  moreover have "\<exists>token. confirmed_account rx owner tr token \<and> reported tr token item"
    using resolve_branch_Inr [OF r] confirmed_mono [OF g] reported_mono [OF g] by blast
  ultimately show ?thesis using resolve_branch_Inr [OF r] tok e d good unfolding c tr by auto
qed

definition sample_access_env :: access_env where
  "sample_access_env = \<lparr>
     rx_answer = (\<lambda>_ rq.
       if ar_path rq = ''/user'' then Reply 200 (Some (PDict [(''id'', PInt 7)]))
       else if ar_path rq = ''/user/installations'' then Reply 200 (Some (PDict [(''installations'', PList [
         PDict [(''id'', PInt 3), (''permissions'', PDict [(''contents'', PStr ''write''), (''pull_requests'', PStr ''write'')])]])]))
       else if ar_path rq = ''/user/installations/3/repositories'' then Reply 200 (Some (PDict [(''repositories'', PList [
         PDict [(''id'', PInt 9), (''full_name'', PStr ''o/r''), (''permissions'', PDict [(''push'', PBool True)])]])]))
       else if ar_path rq = ''/repos/o/r/branches/main'' then Reply 200 (Some (PDict [(''commit'', PDict [(''sha'', PStr (replicate 40 (CHR ''a'')))])]))
       else if ar_path rq = ''/app/installations/3/access_tokens'' then Reply 201 (Some (PDict [(''token'', PStr ''tok''),
         (''expires_at'', PStr ''T''), (''repositories'', PList [PDict [(''id'', PInt 9)]])]))
       else No_reply),
     rx_db = (\<lambda>_. empty_identity_db\<lparr>github_connections := [\<lparr>gc_owner_id = ''u1'', gc_github_user_id = 7, gc_login = ''o'',
       gc_token_ciphertext = Some ''user-token'', gc_status = CS_CONNECTED\<rparr>]\<rparr>),
     rx_github = \<lparr>gx_client_id = ''cid'', gx_configured = True, gx_webhook_configured = True, gx_callback_origin = ''https://gg'',
       gx_challenge = (\<lambda>v. v), gx_exchange = (\<lambda>_ _. No_reply), gx_get = (\<lambda>_ _ _. No_reply), gx_encrypt = (\<lambda>s. s), gx_decrypt = Some,
       gx_open_flow = (\<lambda>_. None), gx_signature = (\<lambda>s. s), gx_uuid = Some, gx_loads = (\<lambda>_. None)\<rparr>,
     rx_client_id = ''cid'', rx_private_key = Some ''pem'', rx_lower = (\<lambda>s. s), rx_segment = (\<lambda>_. ''segment''),
     rx_sign = (\<lambda>_ _. Some ''signature''), rx_instant = (\<lambda>_. Some 3600000000), rx_time = 0, rx_now = 0\<rparr>"

theorem repository_credential_restricted_witness:
  "\<exists>c tr. installation_credential sample_access_env ''u1'' ''o/r'' ''main'' [] = (Inr c, tr) \<and> ic_token c = ''tok'' \<and>
     ap_id (ic_repository c) = 9 \<and> (\<exists>token. confirmed_account sample_access_env ''u1'' tr token \<and> reported tr token (ic_repository c))"
proof -
  obtain x tr where c: "installation_credential sample_access_env ''u1'' ''o/r'' ''main'' [] = (x, tr)" by fastforce
  have "(case fst (installation_credential sample_access_env ''u1'' ''o/r'' ''main'' []) of
      Inl _ \<Rightarrow> False | Inr c \<Rightarrow> ic_token c = ''tok'' \<and> ap_id (ic_repository c) = 9)" by code_simp
  then obtain k where k: "x = Inr k" "ic_token k = ''tok''" "ap_id (ic_repository k) = 9" using c by (auto split: sum.splits)
  show ?thesis using repository_credential_restricted [OF c [unfolded k(1)]] c k by blast
qed

end
