(* ===== verification/Task_Routes.thy ===== *)
theory Task_Routes
  imports Scheduler Repository_Access
begin

text \<open>
  \<open>backend/gg/runtime/task_routes.py\<close> with the dependency \<open>task_access\<close> and the middleware
  \<open>persistence_barrier\<close> of \<open>app.py\<close>: the HTTP interface of the control plane.  A handler gets the owner that
  \<open>task_access\<close> found and works on the state of the scheduler, which holds manager, ledger and provider.
  \<open>Unhandled\<close> is an exception no handler of the application catches (an answer 500).
\<close>

section \<open>Errors\<close>

datatype route_error = HTTP_error int string | Unhandled error

type_synonym ('p, 'a) route_op = "('p scheduler, route_error, 'a) io"

fun is_RuntimeError :: "error \<Rightarrow> bool" where
  "is_RuntimeError (RuntimeError _) = True"
| "is_RuntimeError (PublicationIdentityError _) = True"
| "is_RuntimeError (SupervisionIdentityError _) = True"
| "is_RuntimeError (TaskControlError _) = True"
| "is_RuntimeError (StoragePressureError _) = True"
| "is_RuntimeError e = is_ModalLifecycleError e"

fun route_text :: "'p scheduler_env \<Rightarrow> error \<Rightarrow> string" where
  "route_text env (TaskValidationError m) = m"
| "route_text env (TaskControlError m) = m"
| "route_text env (StoragePressureError m) = m"
| "route_text env e = so_text env e"

text \<open>Without a clause of the handler: the durability barrier raises 503 itself, and so does the handler of \<open>sqlite3.Error\<close>.\<close>

fun other_error :: "error \<Rightarrow> route_error" where
  "other_error PersistenceUnavailable = HTTP_error 503 ''state persistence unavailable''"
| "other_error (IntegrityError _) = HTTP_error 503 ''state persistence unavailable''"
| "other_error e = Unhandled e"

definition handling :: "(error \<Rightarrow> route_error) \<Rightarrow> ('p, 'a) sched_op \<Rightarrow> ('p, 'a) route_op" where
  "handling h m s = (case m s of (Inl e, s') \<Rightarrow> (Inl (h e), s') | (Inr x, s') \<Rightarrow> (Inr x, s'))"

definition not_found :: route_error where
  "not_found = HTTP_error 404 ''Not Found''"

definition submit_error :: "'p scheduler_env \<Rightarrow> error \<Rightarrow> route_error" where
  "submit_error env e =
     (case e of
        TaskConflictError _ \<Rightarrow> HTTP_error 409 (route_text env e)
      | TaskValidationError _ \<Rightarrow> HTTP_error 422 (route_text env e)
      | StoragePressureError _ \<Rightarrow> HTTP_error 503 (route_text env e)
      | _ \<Rightarrow> other_error e)"

definition retry_error :: "'p scheduler_env \<Rightarrow> error \<Rightarrow> route_error" where
  "retry_error env e =
     (case e of
        TaskConflictError _ \<Rightarrow> HTTP_error 409 (route_text env e)
      | TaskControlError _ \<Rightarrow> HTTP_error 409 (route_text env e)
      | TaskValidationError _ \<Rightarrow> HTTP_error 422 (route_text env e)
      | _ \<Rightarrow> other_error e)"

definition control_error :: "'p scheduler_env \<Rightarrow> int \<Rightarrow> error \<Rightarrow> route_error" where
  "control_error env code e = (case e of TaskControlError m \<Rightarrow> HTTP_error code m | _ \<Rightarrow> other_error e)"

definition message_error :: "'p scheduler_env \<Rightarrow> error \<Rightarrow> route_error" where
  "message_error env e = (if is_RuntimeError e then HTTP_error 409 (route_text env e) else other_error e)"

section \<open>Handlers of tasks\<close>

definition so_durable :: "'p scheduler_env \<Rightarrow> ('p, unit) route_op" where
  "so_durable env = handling other_error (on_manager (Supervision.durable (so_manager env)))"

definition wake_scheduler :: "('p, unit) route_op" where
  "wake_scheduler = handling other_error scheduler_wake"

text \<open>A new task is answered with 201 and wakes the scheduler, a known one with 200.\<close>

definition admitted :: "'p scheduler_env \<Rightarrow> TaskRecord \<times> bool \<Rightarrow> ('p, int \<times> TaskRecord) route_op" where
  "admitted env = (\<lambda>(record, created).
     andThen (so_durable env) (\<lambda>_.
       if created then andThen wake_scheduler (\<lambda>_. ret (201, record)) else ret (200, record)))"

definition post_task :: "'p scheduler_env \<Rightarrow> string \<Rightarrow> string option \<Rightarrow> CreateTaskRequest \<Rightarrow> ('p, int \<times> TaskRecord) route_op" where
  "post_task env fresh_id owner body =
     andThen (handling (submit_error env) (s_ledger (submit_task (so_service env) fresh_id (so_now env) body owner))) (admitted env)"

definition post_retry ::
  "'p scheduler_env \<Rightarrow> string \<Rightarrow> string option \<Rightarrow> string \<Rightarrow> RetryTaskRequest \<Rightarrow> ('p, int \<times> TaskRecord) route_op" where
  "post_retry env fresh_id owner task_id body =
     andThen (handling (retry_error env) (s_ledger (retry_task (so_service env) fresh_id (so_now env) task_id body owner))) (admitted env)"

definition require_task :: "string option \<Rightarrow> string \<Rightarrow> ('p, TaskRecord) route_op" where
  "require_task owner task_id =
     andThen (reading (\<lambda>s. get_task task_id owner (sd_db s))) (\<lambda>record.
       case record of None \<Rightarrow> raise not_found | Some r \<Rightarrow> ret r)"

definition get_events :: "string option \<Rightarrow> string \<Rightarrow> nat \<Rightarrow> ('p, TaskEventCopy list) route_op" where
  "get_events owner task_id after =
     andThen (require_task owner task_id) (\<lambda>_. reading (\<lambda>s. list_event_copies task_id after (sd_db s)))"

definition post_message :: "'p scheduler_env \<Rightarrow> string option \<Rightarrow> string \<Rightarrow> string \<Rightarrow> string \<Rightarrow> ('p, MessageReceipt) route_op" where
  "post_message env owner task_id message_id content =
     andThen (require_task owner task_id) (\<lambda>_.
     andThen (handling (message_error env) (on_manager (send_task_message (so_manager env) task_id message_id content))) (\<lambda>receipt.
     andThen wake_scheduler (\<lambda>_. ret receipt)))"

definition get_receipt :: "string option \<Rightarrow> string \<Rightarrow> string \<Rightarrow> ('p, MessageReceipt) route_op" where
  "get_receipt owner task_id message_id =
     andThen (require_task owner task_id) (\<lambda>_.
     andThen (reading (\<lambda>s. get_task_message_receipt task_id message_id (sd_db s))) (\<lambda>receipt.
       case receipt of None \<Rightarrow> raise not_found | Some r \<Rightarrow> ret r))"

definition post_cancel :: "'p scheduler_env \<Rightarrow> string option \<Rightarrow> string \<Rightarrow> ('p, TaskRecord) route_op" where
  "post_cancel env owner task_id =
     andThen (handling (control_error env 409) (s_ledger (cancel_task (so_now env) task_id owner))) (\<lambda>record.
     andThen (so_durable env) (\<lambda>_.
     andThen wake_scheduler (\<lambda>_. ret record)))"

definition get_result :: "'p scheduler_env \<Rightarrow> string option \<Rightarrow> string \<Rightarrow> ('p, TaskResultRecord) route_op" where
  "get_result env owner task_id =
     andThen (reading (\<lambda>s. result_task task_id owner (sd_db s))) (\<lambda>r.
       case r of Inl e \<Rightarrow> raise (control_error env 404 e) | Inr x \<Rightarrow> ret x)"

definition get_dispatch_status :: "'p scheduler_env \<Rightarrow> string option \<Rightarrow> ('p, DispatchStatus) route_op" where
  "get_dispatch_status env owner =
     (if owner \<noteq> None then raise (HTTP_error 403 ''Forbidden'') else reading (scheduler_status env))"

text \<open>One request to the router, with the status of the answer.\<close>

datatype task_request =
    Post_task CreateTaskRequest
  | List_tasks
  | Get_task string
  | Get_events string nat
  | Post_message string string string
  | Get_receipt string string
  | Post_cancel string
  | Get_result string
  | Post_retry string RetryTaskRequest
  | Get_status
  | Get_models

datatype task_answer =
    Record TaskRecord
  | Records "TaskRecord list"
  | Event_copies "TaskEventCopy list"
  | Receipt MessageReceipt
  | Result TaskResultRecord
  | Status DispatchStatus
  | Models string "string list"

definition answer :: "('a \<Rightarrow> task_answer) \<Rightarrow> ('p, 'a) route_op \<Rightarrow> ('p, int \<times> task_answer) route_op" where
  "answer f m = andThen m (\<lambda>x. ret (200, f x))"

fun serve_task :: "'p scheduler_env \<Rightarrow> string \<Rightarrow> string option \<Rightarrow> task_request \<Rightarrow> ('p, int \<times> task_answer) route_op" where
  "serve_task env fresh_id owner (Post_task body) = andThen (post_task env fresh_id owner body) (\<lambda>(code, r). ret (code, Record r))"
| "serve_task env fresh_id owner List_tasks = answer Records (reading (\<lambda>s. list_tasks owner (sd_db s)))"
| "serve_task env fresh_id owner (Get_task i) = answer Record (require_task owner i)"
| "serve_task env fresh_id owner (Get_events i after) = answer Event_copies (get_events owner i after)"
| "serve_task env fresh_id owner (Post_message i m content) = answer Receipt (post_message env owner i m content)"
| "serve_task env fresh_id owner (Get_receipt i m) = answer Receipt (get_receipt owner i m)"
| "serve_task env fresh_id owner (Post_cancel i) = answer Record (post_cancel env owner i)"
| "serve_task env fresh_id owner (Get_result i) = answer Result (get_result env owner i)"
| "serve_task env fresh_id owner (Post_retry i body) = andThen (post_retry env fresh_id owner i body) (\<lambda>(code, r). ret (code, Record r))"
| "serve_task env fresh_id owner Get_status = answer Status (get_dispatch_status env owner)"
| "serve_task env fresh_id owner Get_models = ret (200, Models DEFAULT_PI_MODEL PI_MODEL_CATALOG)"

section \<open>Repositories\<close>

definition repository_owner :: "access_env option \<Rightarrow> string option \<Rightarrow> route_error + access_env \<times> string" where
  "repository_owner authorization owner =
     (case owner of
        None \<Rightarrow> Inl (HTTP_error 403 ''browser account required'')
      | Some u \<Rightarrow> (case authorization of
                     None \<Rightarrow> Inl (HTTP_error 503 ''GitHub repository authorization unavailable'')
                   | Some rx \<Rightarrow> Inr (rx, u)))"

definition access_result :: "(access_error + 'a) \<times> exchanges \<Rightarrow> route_error + 'a" where
  "access_result r =
     (case fst r of
        Inl (access_error.RepositoryAccessError m) \<Rightarrow> Inl (HTTP_error 403 m)
      | Inl (Python_exception m) \<Rightarrow> Inl (Unhandled (ProviderError m))
      | Inr x \<Rightarrow> Inr x)"

definition get_repositories :: "access_env option \<Rightarrow> string option \<Rightarrow> route_error + AuthorizedRepository list" where
  "get_repositories authorization owner =
     sum_bind (repository_owner authorization owner) (\<lambda>(rx, u). access_result (list_repositories rx u []))"

definition get_repository_branches :: "access_env option \<Rightarrow> string option \<Rightarrow> string \<Rightarrow> route_error + (string \<times> string) list" where
  "get_repository_branches authorization owner repository =
     sum_bind (repository_owner authorization owner) (\<lambda>(rx, u). access_result (repository_branches rx u repository []))"

section \<open>The event stream\<close>

text \<open>
  The socket subscribes, replays the stored copies and then takes the copies from its queue, skipping what it has sent.
  \<open>opening\<close> is what runs before the first send; \<open>stream_sent\<close> what goes over the socket when \<open>live\<close> comes out
  of the queue.
\<close>

definition open_stream :: "string option \<Rightarrow> string \<Rightarrow> nat \<Rightarrow> ('p, nat \<times> TaskEventCopy list) route_op" where
  "open_stream owner task_id after =
     andThen (reading (\<lambda>s. get_task task_id owner (sd_db s))) (\<lambda>task.
       if task = None then raise (HTTP_error 1008 ''policy violation'')
       else andThen (handling other_error (on_manager (subscribe_events task_id))) (\<lambda>q.
            andThen (reading (\<lambda>s. list_event_copies task_id after (sd_db s))) (\<lambda>replay. ret (q, replay))))"

fun stream_live :: "nat \<Rightarrow> TaskEventCopy list \<Rightarrow> TaskEventCopy list" where
  "stream_live after [] = []"
| "stream_live after (c # cs) = (if tc_cursor c \<le> after then stream_live after cs else c # stream_live (tc_cursor c) cs)"

definition stream_sent :: "nat \<Rightarrow> TaskEventCopy list \<Rightarrow> TaskEventCopy list \<Rightarrow> TaskEventCopy list" where
  "stream_sent after replay live = replay @ stream_live (if replay = [] then after else tc_cursor (last replay)) live"

definition close_stream :: "string \<Rightarrow> nat \<Rightarrow> ('p, unit) route_op" where
  "close_stream task_id q = handling other_error (on_manager (unsubscribe_events task_id q))"

section \<open>The persistence barrier\<close>

text \<open>
  The middleware around every request, over the state \<open>'s\<close> of the application: \<open>barrier\<close> is
  \<open>durable(checkpoints, checkpoints.db.revision)\<close>, \<open>call_next\<close> the rest of the application, which answers with a
  status and a body.
\<close>

record http_request =
  hr_method :: string
  hr_path :: string

definition hex_or_dash :: "char \<Rightarrow> bool" where
  "hex_or_dash c \<longleftrightarrow> c \<in> set ''0123456789abcdefABCDEF-''"

definition task_read_path :: "string \<Rightarrow> bool" where
  "task_read_path p \<longleftrightarrow> take 7 p = ''/tasks/'' \<and> length p \<ge> 43 \<and> list_all hex_or_dash (take 36 (drop 7 p)) \<and>
     drop 43 p \<in> {[], ''/events'', ''/result''}"

definition exempt_request :: "http_request \<Rightarrow> bool" where
  "exempt_request rq \<longleftrightarrow> hr_path rq \<in> {''/health'', ''/ready''}"

definition read_only_request :: "http_request \<Rightarrow> bool" where
  "read_only_request rq \<longleftrightarrow> hr_method rq \<in> {''GET'', ''HEAD''} \<and>
     (hr_path rq \<in> {''/auth/session'', ''/tasks''} \<or> task_read_path (hr_path rq))"

definition ends_with :: "string \<Rightarrow> string \<Rightarrow> bool" where
  "ends_with p s \<longleftrightarrow> drop (length s - length p) s = p \<and> length p \<le> length s"

definition admission_request :: "http_request \<Rightarrow> bool" where
  "admission_request rq \<longleftrightarrow> hr_method rq = ''POST'' \<and> (hr_path rq = ''/tasks'' \<or> ends_with ''/retry'' (hr_path rq))"

definition admission_blocked :: "DispatchStatus \<Rightarrow> bool" where
  "admission_blocked d \<longleftrightarrow> \<not> ds_reconciled d \<or> list_ex (\<lambda>c. dc_phase c = RP_UNRESOLVED_CREATION) (ds_conditions d)"

text \<open>\<open>Inr\<close> with a status: \<open>None\<close> stands for the body of one of the middleware's own answers.\<close>

type_synonym ('s, 'b) app_op = "('s, route_error, int \<times> 'b option) io"

definition own_answer :: "int \<Rightarrow> ('s, 'b) app_op" where
  "own_answer code = ret (code, None)"

definition barrier_or_503 :: "('s, route_error, unit) io \<Rightarrow> ('s, 'b) app_op \<Rightarrow> ('s, 'b) app_op" where
  "barrier_or_503 barrier k =
     andThen (attempt barrier) (\<lambda>r.
       case r of
         Inl (HTTP_error _ _) \<Rightarrow> own_answer 503
       | Inl e \<Rightarrow> raise e
       | Inr _ \<Rightarrow> k)"

definition persistence_barrier ::
  "bool \<Rightarrow> ('s \<Rightarrow> DispatchStatus) \<Rightarrow> ('s, route_error, unit) io \<Rightarrow> http_request \<Rightarrow> ('s, 'b) app_op \<Rightarrow> ('s, 'b) app_op" where
  "persistence_barrier recovering dispatch barrier rq call_next =
     (if \<not> exempt_request rq \<and> recovering then own_answer 503
      else (if exempt_request rq \<or> read_only_request rq then (\<lambda>k. k) else barrier_or_503 barrier)
        (andThen (reading (\<lambda>s. admission_request rq \<and> admission_blocked (dispatch s))) (\<lambda>blocked.
           if blocked then own_answer 503
           else andThen call_next (\<lambda>(code, body).
                  if \<not> exempt_request rq \<and> \<not> read_only_request rq \<and> code < 400
                  then barrier_or_503 barrier (ret (code, body)) else ret (code, body)))))"

text \<open>An \<open>HTTPException\<close> of a handler is an answer by the time the middleware sees it.  The whole of a request to the tasks.\<close>

definition respond :: "('s, route_error, int \<times> 'b) io \<Rightarrow> ('s, 'b) app_op" where
  "respond m s =
     (case m s of
        (Inl (HTTP_error code _), s') \<Rightarrow> (Inr (code, None), s')
      | (Inl e, s') \<Rightarrow> (Inl e, s')
      | (Inr (code, body), s') \<Rightarrow> (Inr (code, Some body), s'))"

fun request_line :: "task_request \<Rightarrow> http_request" where
  "request_line (Post_task body) = \<lparr>hr_method = ''POST'', hr_path = ''/tasks''\<rparr>"
| "request_line List_tasks = \<lparr>hr_method = ''GET'', hr_path = ''/tasks''\<rparr>"
| "request_line (Get_task i) = \<lparr>hr_method = ''GET'', hr_path = ''/tasks/'' @ i\<rparr>"
| "request_line (Get_events i after) = \<lparr>hr_method = ''GET'', hr_path = ''/tasks/'' @ i @ ''/events''\<rparr>"
| "request_line (Post_message i m content) = \<lparr>hr_method = ''POST'', hr_path = ''/tasks/'' @ i @ ''/messages''\<rparr>"
| "request_line (Get_receipt i m) = \<lparr>hr_method = ''GET'', hr_path = ''/tasks/'' @ i @ ''/messages/'' @ m\<rparr>"
| "request_line (Post_cancel i) = \<lparr>hr_method = ''POST'', hr_path = ''/tasks/'' @ i @ ''/cancel''\<rparr>"
| "request_line (Get_result i) = \<lparr>hr_method = ''GET'', hr_path = ''/tasks/'' @ i @ ''/result''\<rparr>"
| "request_line (Post_retry i body) = \<lparr>hr_method = ''POST'', hr_path = ''/tasks/'' @ i @ ''/retry''\<rparr>"
| "request_line Get_status = \<lparr>hr_method = ''GET'', hr_path = ''/tasks/dispatch/status''\<rparr>"
| "request_line Get_models = \<lparr>hr_method = ''GET'', hr_path = ''/tasks/models''\<rparr>"

definition serve_http ::
  "'p scheduler_env \<Rightarrow> bool \<Rightarrow> string \<Rightarrow> string option \<Rightarrow> task_request \<Rightarrow> ('p scheduler, task_answer) app_op" where
  "serve_http env recovering fresh_id owner rq =
     persistence_barrier recovering (scheduler_status env) (so_durable env) (request_line rq) (respond (serve_task env fresh_id owner rq))"

end
