(* ===== verification/Task_Routes_Props.thy ===== *)
theory Task_Routes_Props
  imports Task_Routes Scheduler_Props
begin

text \<open>
  What the HTTP interface guarantees: tasks of one owner are out of reach for another, an acknowledged change is durable, and an
  event stream is complete and free of repetitions.
\<close>

section \<open>Operations on one task\<close>

text \<open>\<open>touching I\<close>: rows of tasks outside \<open>I\<close> are as before in every table that a request writes, and all other tables are unchanged.\<close>

definition other_tables :: "database \<Rightarrow> _" where
  "other_tables d = (task_reservations d, sandbox_creations d, publication_intents d, task_event_counters d,
     task_event_identities d, task_event_copies d, task_results d, retention_tombstones d, task_idempotency d,
     task_event_source_cursors d)"

definition task_view :: "string \<Rightarrow> database \<Rightarrow> task_row list \<times> SupervisionRecord list \<times> receipt_row list" where
  "task_view i d = (filter (\<lambda>r. t_id r = i) (tasks d), filter (\<lambda>r. sv_task_id r = i) (task_supervisions d),
     filter (\<lambda>r. mm_task_id r = i) (task_message_receipts d))"

definition touching :: "string set \<Rightarrow> database \<Rightarrow> database \<Rightarrow> bool" where
  "touching I d d' \<longleftrightarrow> other_tables d' = other_tables d \<and> (\<forall>j. j \<notin> I \<longrightarrow> task_view j d' = task_view j d)"

interpretation touches: transactional_relation "touching I" for I
  by unfold_locales (auto simp: touching_def other_tables_def task_view_def)

lemma filter_update_other:
  assumes "\<And>r. P r \<Longrightarrow> key r = i" "\<And>r. key (f r) = key r" "j \<noteq> i"
  shows "filter (\<lambda>r. key r = j) (sql_update P f xs) = filter (\<lambda>r. key r = j) xs"
  using assms by (induction xs) (auto simp: sql_update_def)

lemma touching_tasks:
  assumes "\<And>r. P r \<Longrightarrow> t_id r = i" "\<And>r. t_id (f r) = t_id r"
  shows "touching {i} d (d\<lparr>tasks := sql_update P f (tasks d)\<rparr>)"
  using assms by (simp add: touching_def other_tables_def task_view_def filter_update_other [where i = i])

lemma touching_supervisions:
  assumes "\<And>r. P r \<Longrightarrow> sv_task_id r = i" "\<And>r. sv_task_id (f r) = sv_task_id r"
  shows "touching {i} d (d\<lparr>task_supervisions := sql_update P f (task_supervisions d)\<rparr>)"
  using assms by (simp add: touching_def other_tables_def task_view_def filter_update_other [where i = i])

lemma touching_receipts:
  assumes "\<And>r. P r \<Longrightarrow> mm_task_id r = i" "\<And>r. mm_task_id (f r) = mm_task_id r"
  shows "touching {i} d (d\<lparr>task_message_receipts := sql_update P f (task_message_receipts d)\<rparr>)"
  using assms by (simp add: touching_def other_tables_def task_view_def filter_update_other [where i = i])

named_theorems touch_rules \<open>the methods of the ledger that touch one task\<close>

lemma record_base_sha_touches [touch_rules]: "keeps (touching {i}) (record_base_sha now i sha)"
  unfolding record_base_sha_def
  by (rule touches.keeps_db_write) (auto simp: Let_def split: if_splits option.splits intro!: touching_tasks)

lemma cancel_queued_touches [touch_rules]: "keeps (touching {i}) (cancel_queued_task now i)"
  unfolding cancel_queued_task_def
  by (rule touches.keeps_db_write)
    (auto simp: Let_def touches.kept_refl split: if_splits option.splits intro!: touching_tasks)

lemma update_supervision_touches [touch_rules]: "keeps (touching {i}) (update_supervision now i x k c b t)"
  unfolding update_supervision_def
  by (rule touches.keeps_db_write)
    (auto simp: Let_def split: if_splits option.splits intro!: touching_supervisions)

lemma request_cancel_touches [touch_rules]: "keeps (touching {i}) (request_task_cancel now i)"
  unfolding request_task_cancel_def
  by (auto intro!: touches.keeps_andThen touches.keeps_reading touches.keeps_ret update_supervision_touches split: option.splits)

lemma save_receipt_touches [touch_rules]: "keeps (touching {i}) (save_task_message_receipt i r)"
proof -
  have new: "touching {i} d (d\<lparr>task_message_receipts := task_message_receipts d @ [\<lparr>mm_task_id = i, mm_receipt = r\<rparr>]\<rparr>)" for d
    by (simp add: touching_def other_tables_def task_view_def)
  show ?thesis
    unfolding save_task_message_receipt_def
    by (rule touches.keeps_db_write)
      (auto simp: Let_def new split: if_splits option.splits intro!: touching_receipts)
qed

lemma workspace_touches [touch_rules]:
  "keeps (touching {i}) (touch_workspace now later i)" "keeps (touching {i}) (queue_workspace_message now i)"
  "keeps (touching {i}) (expire_workspace i)"
  unfolding touch_workspace_def queue_workspace_message_def expire_workspace_def
  by (rule touches.keeps_db_write, auto intro!: touching_tasks)+

lemma cancel_task_touches: "keeps (touching {i}) (cancel_task now i u)"
  unfolding cancel_task_def
  by (auto intro!: touches.keeps_andThen touches.keeps_reading touches.keeps_ret touches.keeps_raise touch_rules split: option.splits)

section \<open>Submission\<close>

lemma db_write_result: "fst (db_write f d) = Inr x \<Longrightarrow> \<exists>d'. f d = Inr (x, d')"
  by (auto simp: db_write_def split: sum.splits prod.splits if_splits)

lemma submit_result:
  assumes "fst (submit fresh now key repository prompt base_ref retry_of model owner d) = Inr (record, created)"
  shows "tr_owner_id record = owner" "created \<Longrightarrow> fresh \<notin> t_id ` set (tasks d)"
  using db_write_result [OF assms [unfolded submit_def]]
  by (auto simp: Let_def row_to_record_def record_from_tombstone_def new_task_record_def insert_task_def new_task_row_def
      dest!: fetchone_SomeD split: option.splits sum.splits if_splits)

lemma submit_touches:
  assumes "submit fresh now key repository prompt base_ref retry_of model owner d = (x, d')"
  shows "touching (if fresh \<in> t_id ` set (tasks d) then {} else {fresh}) d d'"
    and "x = Inr (record, created) \<Longrightarrow> tr_owner_id record = owner \<and> (created \<longrightarrow> tr_id record = fresh \<and>
      fresh \<notin> t_id ` set (tasks d) \<and> (\<forall>r\<in>set (tasks d'). t_id r = fresh \<longrightarrow> t_owner_id r = owner))"
proof -
  have new: "touching {fresh} d (d\<lparr>task_seq := n, tasks := tasks d @ [new_task_row fresh a b c e f g h k l], revision := m\<rparr>)"
    for n a b c e f g h k l m
    by (simp add: touching_def other_tables_def task_view_def new_task_row_def)
  show "touching (if fresh \<in> t_id ` set (tasks d) then {} else {fresh}) d d'"
    by (rule submit_cases [of fresh now key repository prompt base_ref retry_of model owner d])
      (use assms new submit_result(2) [of fresh now key repository prompt base_ref retry_of model owner d]
        touches.revision_blind touches.kept_refl in auto)
  show "tr_owner_id record = owner \<and> (created \<longrightarrow> tr_id record = fresh \<and>
      fresh \<notin> t_id ` set (tasks d) \<and> (\<forall>r\<in>set (tasks d'). t_id r = fresh \<longrightarrow> t_owner_id r = owner))" if "x = Inr (record, created)"
    by (rule submit_cases [of fresh now key repository prompt base_ref retry_of model owner d])
      (use assms that submit_result [of fresh now key repository prompt base_ref retry_of model owner d "record" created] in
        \<open>auto simp: new_task_record_def new_task_row_def\<close>)
qed

lemma record_base_sha_owner:
  assumes "record_base_sha now i sha d = (Inr rec, d')" "\<forall>r\<in>set (tasks d). t_id r = i \<longrightarrow> t_owner_id r = owner"
  shows "tr_owner_id rec = owner"
proof -
  have "fst (record_base_sha now i sha d) = Inr rec" using assms(1) by simp
  from db_write_result [OF this [unfolded record_base_sha_def]]
  obtain row where row: "fetchone (\<lambda>r. t_id r = i) (sql_update (\<lambda>r. t_id r = i) (\<lambda>r. r\<lparr>t_base_sha := sha, t_updated_at := now\<rparr>) (tasks d)) = Some row"
    and rec: "rec = row_to_record row None"
    by (auto simp: Let_def split: if_splits option.splits)
  obtain r where "r \<in> set (tasks d)" "row = (if t_id r = i then r\<lparr>t_base_sha := sha, t_updated_at := now\<rparr> else r)" "t_id row = i"
    using fetchone_SomeD [OF row] unfolding sql_update_def set_map image_iff by blast
  then have "t_owner_id row = owner" using assms(2) by (cases "t_id r = i") auto
  then show ?thesis by (simp add: rec row_to_record_def)
qed

lemma settle_touches:
  assumes "settle_submission now r sha (rec, created) d = (x, d')" "tr_owner_id rec = owner"
    and "created \<Longrightarrow> tr_id rec = fresh \<and> (\<forall>r\<in>set (tasks d). t_id r = fresh \<longrightarrow> t_owner_id r = owner)"
  shows "touching (if created then {fresh} else {}) d d' \<and> (\<forall>rec' c. x = Inr (rec', c) \<longrightarrow> tr_owner_id rec' = owner)"
proof (cases "created \<and> sha \<noteq> None")
  case True
  then have b: "andThen (record_base_sha now fresh sha) (\<lambda>updated. ret (updated, created)) d = (x, d')"
    using assms by (simp add: settle_submission_def)
  have "touching {fresh} d (snd (record_base_sha now fresh sha d))" by (rule keepsD [OF record_base_sha_touches])
  moreover have "d' = snd (record_base_sha now fresh sha d)"
    using b by (auto simp: andThen_def ret_def split: prod.splits sum.splits)
  moreover have "tr_owner_id rec' = owner" if x: "x = Inr (rec', c)" for rec' c
  proof -
    have "record_base_sha now fresh sha d = (Inr rec', d')" using b x by (auto simp: ret_def elim!: andThen_InrE)
    then show ?thesis using record_base_sha_owner assms(3) True by blast
  qed
  ultimately show ?thesis using True by auto
next
  case False
  then show ?thesis using assms(1,2) touches.kept_refl
    by (auto simp: settle_submission_def raise_def ret_def split: if_splits)
qed

text \<open>A submission touches at most the task it creates, whose identifier no row had.\<close>

lemma submit_task_touches:
  assumes "submit_task env fresh now r owner d = (x, d')"
  shows "touching (if fresh \<in> t_id ` set (tasks d) then {} else {fresh}) d d' \<and>
    (\<forall>record created. x = Inr (record, created) \<longrightarrow> tr_owner_id record = owner)"
proof (cases "d' = d \<and> (\<exists>e. x = Inl e)")
  case False
  let ?m = "submit fresh now (ct_idempotency_key r) (ct_repository r) (ct_prompt r) (ct_base_ref r) (ct_retry_of r) (ct_model r) owner"
  from False obtain sha where run: "andThen ?m (settle_submission now r sha) d = (x, d')"
    using assms unfolding submit_task_def
    by (auto simp: andThen_reading raise_def split: option.splits sum.splits if_splits)
  obtain y d1 where s: "?m d = (y, d1)" by fastforce
  note f = submit_touches [OF s]
  show ?thesis
  proof (cases y)
    case (Inl e)
    then show ?thesis using run s f(1) by (auto simp: andThen_def)
  next
    case (Inr rc)
    obtain rec c where rc: "rc = (rec, c)" by fastforce
    note own = f(2) [OF Inr [unfolded rc]]
    have "settle_submission now r sha (rec, c) d1 = (x, d')" using run s Inr rc by (simp add: andThen_def)
    then have t: "touching (if c then {fresh} else {}) d1 d' \<and> (\<forall>rec' c. x = Inr (rec', c) \<longrightarrow> tr_owner_id rec' = owner)"
      by (rule settle_touches) (use own in auto)
    moreover have "touching (if fresh \<in> t_id ` set (tasks d) then {} else {fresh}) d1 d'"
      using t own by (auto simp: touching_def)
    ultimately show ?thesis using f(1) touches.kept_trans by blast
  qed
qed (auto simp: touches.kept_refl)

section \<open>Handlers\<close>

definition sched_touching :: "string set \<Rightarrow> 'p scheduler \<Rightarrow> 'p scheduler \<Rightarrow> bool" where
  "sched_touching I s s' \<longleftrightarrow> touching I (sd_db s) (sd_db s')"

interpretation served: kept_relation "sched_touching I" for I
  by unfold_locales (auto simp: sched_touching_def intro: touches.kept_refl touches.kept_trans)

lemma handling_state [simp]: "snd (handling h m s) = snd (m s)"
  by (simp add: handling_def split: prod.splits sum.splits)

lemma handling_Inr: "handling h m s = (Inr x, s') \<longleftrightarrow> m s = (Inr x, s')"
  by (auto simp: handling_def split: prod.splits sum.splits)

lemma keeps_handling: "keeps R m \<Longrightarrow> keeps R (handling h m)"
  unfolding keeps_def by simp

lemma so_durable_db [simp]: "sd_db (snd (so_durable env s)) = sd_db s"
  by (simp add: so_durable_def on_manager_def Supervision.durable_def on_world_def durable_barrier_def split_beta Let_def
      split: sum.splits)

lemma touching_quiet: "keeps (sched_touching I) (so_durable env)" "keeps (sched_touching I) wake_scheduler"
  by (auto intro!: keepsI simp: sched_touching_def touches.kept_refl wake_scheduler_def scheduler_wake_def s_modify_def)

lemma touching_ledger: "keeps (touching I) m \<Longrightarrow> keeps (sched_touching I) (s_ledger m)"
  unfolding keeps_def sched_touching_def by (simp add: s_ledger_db)

lemma touching_admitted: "keeps (sched_touching I) (admitted env rc)"
  by (cases rc) (auto simp: admitted_def intro!: served.keeps_andThen touching_quiet served.keeps_ret)

definition mg_touching :: "string set \<Rightarrow> 'p manager \<Rightarrow> 'p manager \<Rightarrow> bool" where
  "mg_touching I s s' \<longleftrightarrow> touching I (mg_db s) (mg_db s')"

interpretation managed: kept_relation "mg_touching I" for I
  by unfold_locales (auto simp: mg_touching_def intro: touches.kept_refl touches.kept_trans)

lemma mg_touching_ledger: "keeps (touching I) m \<Longrightarrow> keeps (mg_touching I) (ledger_call m)"
  unfolding keeps_def mg_touching_def by (simp add: ledger_call_db)

lemma mg_touching_quiet:
  "keeps (mg_touching I) (Supervision.durable env)" "keeps (mg_touching I) (ensure_supervised i)"
  "keeps (mg_touching I) (on_world (delete_workspace life i))" "keeps (mg_touching I) (ledger_read f)"
  "keeps (mg_touching I) (authorize_message env t)"
proof -
  show "keeps (mg_touching I) (authorize_message env t)"
    unfolding authorize_message_def
    by (auto intro!: managed.keeps_ret managed.keeps_raise split: option.splits sum.splits)
qed (auto intro!: keepsI simp: mg_touching_def touches.kept_refl Supervision.durable_def on_world_def durable_barrier_def
      ensure_supervised_def delete_workspace_def andThen_def on_provider_def lift_sum_def ledger_read_def reading_def raise_def ret_def split_beta Let_def
      split: sum.splits)

lemma touching_read:
  assumes "\<And>s. mg_touching I s (snd (k (f (mg_db s)) s))"
  shows "keeps (mg_touching I) (andThen (ledger_read f) k)"
  using assms by (intro keepsI) (simp add: ledger_read_def andThen_reading)

lemma get_task_Some: "get_task i u d = Some t \<Longrightarrow> tr_id t = i \<and> (\<exists>r\<in>set (tasks d). t_id r = i \<and> tr_owner_id t = t_owner_id r \<and> (u = None \<or> t_owner_id r = u))"
  by (auto simp: get_task_def row_to_record_def dest!: fetchone_SomeD split: option.splits)

lemma send_message_touches: "keeps (mg_touching {i}) (send_task_message env i m content)"
proof -
  have e: "keeps (mg_touching {i}) (expire_sleeping_locked env t)" if "tr_id t = i" for t
    unfolding expire_sleeping_locked_def Let_def that
    by (auto intro!: managed.keeps_andThen managed.keeps_ret mg_touching_quiet mg_touching_ledger touch_rules)
  have a: "keeps (mg_touching {i}) (accept_message env i r)" for r
    unfolding accept_message_def
    by (auto intro!: managed.keeps_andThen managed.keeps_ret managed.keeps_raise mg_touching_quiet mg_touching_ledger touch_rules
        split: option.splits)
  define known where "known = (\<lambda>t. andThen (expire_sleeping_locked env t) (\<lambda>_.
      andThen (ledger_read (get_task_message_receipt i m)) (\<lambda>existing.
        case existing of
          Some r \<Rightarrow> if mr_content r \<noteq> content then raise (RuntimeError ''message id already belongs to another message'')
                    else andThen (Supervision.durable env) (\<lambda>_. ret r)
        | None \<Rightarrow> accept_message env i \<lparr>mr_id = m, mr_content = content, mr_status = MD_ACCEPTED, mr_detail = None,
                      mr_created_at = me_now env, mr_updated_at = me_now env\<rparr>)))"
  have k: "keeps (mg_touching {i}) (known t)" if "tr_id t = i" for t
    unfolding known_def
    by (auto intro!: managed.keeps_andThen managed.keeps_ret managed.keeps_raise mg_touching_quiet e that a split: option.splits)
  have "keeps (mg_touching {i}) (andThen (ledger_read (get_task i None)) (\<lambda>again. case again of None \<Rightarrow> raise AttributeError
      | Some task \<Rightarrow> if is_terminal (tr_state task) then raise (RuntimeError ''task is not accepting messages'') else known task))"
    by (rule touching_read)
      (auto simp: raise_def managed.kept_refl intro!: keepsD [OF k] dest: get_task_Some split: option.splits)
  then show ?thesis
    unfolding send_task_message_def known_def
    by (auto intro!: managed.keeps_andThen managed.keeps_raise mg_touching_quiet split: option.splits)
qed

section \<open>Owners\<close>

definition owned :: "string \<Rightarrow> database \<Rightarrow> string \<Rightarrow> bool" where
  "owned u d i \<longleftrightarrow> exists_row (\<lambda>r. t_id r = i \<and> t_owner_id r = Some u) (tasks d)"

definition confined :: "string \<Rightarrow> database \<Rightarrow> database \<Rightarrow> bool" where
  "confined u d d' \<longleftrightarrow> (\<exists>I. touching I d d' \<and> (\<forall>r\<in>set (tasks d). t_id r \<in> I \<longrightarrow> t_owner_id r = Some u))"

lemma owned_unique: "ledger_inv d \<Longrightarrow> owned u d i \<Longrightarrow> r \<in> set (tasks d) \<Longrightarrow> t_id r = i \<Longrightarrow> t_owner_id r = Some u"
  unfolding owned_def using task_identity_unique by auto

lemma get_task_owned: "get_task i (Some u) d = Some t \<Longrightarrow> owned u d i \<and> tr_owner_id t = Some u" "get_task i (Some u) d \<noteq> None \<longleftrightarrow> owned u d i"
  by (auto simp: owned_def get_task_def row_to_record_def fetchone_None dest!: fetchone_SomeD)

lemma confined_same: "touching {} d d' \<Longrightarrow> confined u d d'"
  unfolding confined_def by blast

lemma confined_owned: "ledger_inv d \<Longrightarrow> owned u d i \<Longrightarrow> touching {i} d d' \<Longrightarrow> confined u d d'"
  unfolding confined_def using owned_unique by blast

lemma confined_new: "touching (if i \<in> t_id ` set (tasks d) then {} else {i}) d d' \<Longrightarrow> confined u d d'"
  unfolding confined_def by (intro exI [of _ "if i \<in> t_id ` set (tasks d) then {} else {i}"]) auto

lemma frame_owner:
  assumes "frame d d'" "r \<in> set (tasks d')"
  shows "\<exists>q\<in>set (tasks d). t_id q = t_id r \<and> t_owner_id q = t_owner_id r"
proof -
  have "task_ident r \<in> set (map task_ident (tasks d))" using assms unfolding frame_def by (metis image_eqI list.set_map)
  then show ?thesis by (auto simp: task_ident_def)
qed

lemma cancel_queued_row:
  assumes "cancel_queued_task now i d = (Inr (Some rec), d')"
  shows "\<exists>row\<in>set (tasks d) \<union> set (tasks d'). t_id row = i \<and> tr_owner_id rec = t_owner_id row"
proof -
  obtain d1 where f: "(case fetchone (\<lambda>r. t_id r = i) (tasks d) of None \<Rightarrow> Inr (None, d)
      | Some row \<Rightarrow> if t_state row \<noteq> TS_QUEUED then Inr (Some (row_to_record row None), d)
         else (let d' = d\<lparr>tasks := sql_update (\<lambda>r. t_id r = i) (\<lambda>r. r\<lparr>t_state := TS_CANCELLED,
                 t_outcome_detail := Some ''cancelled_before_allocation'', t_updated_at := now\<rparr>) (tasks d)\<rparr>
               in case fetchone (\<lambda>r. t_id r = i) (tasks d') of None \<Rightarrow> Inl AssertionError
                  | Some updated \<Rightarrow> Inr (Some (row_to_record updated None), d'))) = Inr (Some rec, d1)"
    and d': "tasks d' = tasks d1"
    using assms unfolding cancel_queued_task_def db_write_def by (auto split: sum.splits prod.splits if_splits)
  then show ?thesis
    by (auto simp: Let_def row_to_record_def dest!: fetchone_SomeD split: option.splits if_splits)
qed

lemma cancel_task_owner:
  assumes inv: "ledger_inv d" and c: "cancel_task now i (Some u) d = (Inr rec, d')"
  shows "owned u d i \<and> tr_owner_id rec = Some u"
proof -
  obtain t where t: "get_task i (Some u) d = Some t"
    using c by (auto simp: cancel_task_def andThen_reading raise_def split: option.splits)
  note own = get_task_owned(1) [OF t]
  have same: "t_owner_id row = Some u" if "frame d d1" "row \<in> set (tasks d) \<union> set (tasks d1)" "t_id row = i" for row d1
    using that frame_owner owned_unique [OF inv] own by (metis UnE)
  have q: "tr_owner_id rec = Some u" if "cancel_queued_task now i d = (Inr (Some rec), d1)" for d1
    using cancel_queued_row [OF that] same keepsD [OF cancel_queued_task_frame [of now i], of d] that by (metis snd_conv)
  have r: "tr_owner_id rec = Some u" if "request_task_cancel now i d = (x, d1)" "get_task i None d1 = Some rec" for x d1
    using get_task_Some [OF that(2)] same keepsD [OF request_task_cancel_frame [of now i], of d] that(1) by (metis UnI2 snd_conv)
  have "tr_owner_id rec = Some u"
    using c t own q r unfolding cancel_task_def
    by (auto simp: andThen_reading raise_def ret_def reading_def elim!: andThen_InrE split: option.splits if_splits)
  then show ?thesis using own by simp
qed

lemma require_task_state: "require_task owner i s = (case get_task i owner (sd_db s) of None \<Rightarrow> (Inl not_found, s) | Some t \<Rightarrow> (Inr t, s))"
  by (simp add: require_task_def andThen_reading raise_def ret_def split: option.splits)

text \<open>The task a request names.\<close>

fun request_task :: "task_request \<Rightarrow> string option" where
  "request_task (Get_task i) = Some i"
| "request_task (Get_events i after) = Some i"
| "request_task (Post_message i m content) = Some i"
| "request_task (Get_receipt i m) = Some i"
| "request_task (Post_cancel i) = Some i"
| "request_task (Get_result i) = Some i"
| "request_task (Post_retry i body) = Some i"
| "request_task _ = None"

fun answer_owned :: "string \<Rightarrow> task_answer \<Rightarrow> bool" where
  "answer_owned u (Record r) = (tr_owner_id r = Some u)"
| "answer_owned u (Records rs) = list_all (\<lambda>r. tr_owner_id r = Some u) rs"
| "answer_owned u (Status st) = False"
| "answer_owned u _ = True"

lemma answer_state [simp]: "snd (answer f m s) = snd (m s)"
  by (simp add: answer_def andThen_def ret_def split: prod.splits sum.splits)

lemma answer_InrE:
  assumes "answer f m s = (Inr (code, a), s')"
  obtains x where "a = f x" "m s = (Inr x, s')"
  using assms by (auto simp: answer_def ret_def elim!: andThen_InrE)

lemma coded_state [simp]: "snd (andThen m (\<lambda>(code, r). ret (code, f r)) s) = snd (m s)"
  by (simp add: andThen_def ret_def split: prod.splits sum.splits)

text \<open>What a request writes.\<close>

lemma served_andThen:
  assumes "sched_touching I s (snd (m s))" "\<And>x. keeps (sched_touching I) (k x)"
  shows "sched_touching I s (snd (andThen m k s))"
proof -
  obtain r s1 where m: "m s = (r, s1)" by fastforce
  show ?thesis
  proof (cases r)
    case (Inl e)
    then show ?thesis using assms(1) m by (simp add: andThen_def)
  next
    case (Inr x)
    then show ?thesis using served.kept_trans [OF _ keepsD [OF assms(2)]] assms(1) m by (simp add: andThen_def)
  qed
qed

lemma post_task_confined: "confined u (sd_db s) (sd_db (snd (post_task env fresh (Some u) body s)))"
proof (rule confined_new [of fresh])
  let ?I = "if fresh \<in> t_id ` set (tasks (sd_db s)) then {} else {fresh}"
  let ?m = "handling (submit_error env) (s_ledger (submit_task (so_service env) fresh (so_now env) body (Some u)))"
  have one: "sched_touching ?I s (snd (?m s))"
    unfolding sched_touching_def handling_state s_ledger_db
    using submit_task_touches [of "so_service env" fresh "so_now env" body "Some u" "sd_db s"] by (metis prod.collapse)
  then have "sched_touching ?I s (snd (andThen ?m (admitted env) s))"
    by (rule served_andThen) (rule touching_admitted)
  then show "touching ?I (sd_db s) (sd_db (snd (post_task env fresh (Some u) body s)))"
    by (simp only: post_task_def sched_touching_def)
qed

lemma retry_task_touches:
  "touching (if fresh \<in> t_id ` set (tasks d) then {} else {fresh}) d (snd (retry_task env fresh now i body owner d)) \<and>
   (\<forall>record created. fst (retry_task env fresh now i body owner d) = Inr (record, created) \<longrightarrow>
      tr_owner_id record = owner \<and> get_task i owner d \<noteq> None)"
proof (cases "get_task i owner d")
  case None
  then show ?thesis by (simp add: retry_task_def andThen_reading raise_def touches.kept_refl)
next
  case (Some t)
  show ?thesis
  proof (cases "retry_request t i body")
    case (Inl e)
    then show ?thesis using Some by (simp add: retry_task_def andThen_reading raise_def touches.kept_refl)
  next
    case (Inr create)
    obtain x d' where e: "submit_task env fresh now create owner d = (x, d')" by fastforce
    have "retry_task env fresh now i body owner d = (x, d')" using Some Inr e by (simp add: retry_task_def andThen_reading)
    then show ?thesis using submit_task_touches [OF e] Some by simp
  qed
qed

lemma post_retry_confined: "confined u (sd_db s) (sd_db (snd (post_retry env fresh (Some u) i body s)))"
proof (rule confined_new [of fresh])
  let ?I = "if fresh \<in> t_id ` set (tasks (sd_db s)) then {} else {fresh}"
  let ?m = "handling (retry_error env) (s_ledger (retry_task (so_service env) fresh (so_now env) i body (Some u)))"
  have one: "sched_touching ?I s (snd (?m s))"
    unfolding sched_touching_def handling_state s_ledger_db using retry_task_touches by blast
  then have "sched_touching ?I s (snd (andThen ?m (admitted env) s))"
    by (rule served_andThen) (rule touching_admitted)
  then show "touching ?I (sd_db s) (sd_db (snd (post_retry env fresh (Some u) i body s)))"
    by (simp only: post_retry_def sched_touching_def)
qed

lemma post_cancel_confined:
  assumes "ledger_inv (sd_db s)"
  shows "confined u (sd_db s) (sd_db (snd (post_cancel env (Some u) i s)))"
proof (cases "owned u (sd_db s) i")
  case True
  have "keeps (sched_touching {i}) (post_cancel env (Some u) i)"
    unfolding post_cancel_def
    by (intro served.keeps_andThen keeps_handling touching_ledger cancel_task_touches touching_quiet served.keeps_ret)
  from keepsD [OF this, of s] have "touching {i} (sd_db s) (sd_db (snd (post_cancel env (Some u) i s)))" by (simp only: sched_touching_def)
  then show ?thesis by (rule confined_owned [OF assms True])
next
  case False
  then have "cancel_task (so_now env) i (Some u) (sd_db s) = (Inl (TaskControlError (''unknown task '' @ i)), sd_db s)"
    using get_task_owned(2) by (auto simp: cancel_task_def andThen_reading raise_def split: option.splits)
  then have "sd_db (snd (post_cancel env (Some u) i s)) = sd_db s"
    by (simp add: post_cancel_def andThen_def handling_def s_ledger_def on_manager_def ledger_call_def on_world_def on_ledger_def split_beta Let_def)
  then show ?thesis using confined_same touches.kept_refl by simp
qed

lemma post_message_confined:
  assumes "ledger_inv (sd_db s)"
  shows "confined u (sd_db s) (sd_db (snd (post_message env (Some u) i m content s)))"
proof (cases "get_task i (Some u) (sd_db s)")
  case (Some t)
  have "keeps (sched_touching {i}) (on_manager (send_task_message (so_manager env) i m content))"
    using keepsD [OF send_message_touches] unfolding sched_touching_def mg_touching_def
    by (intro keepsI) (simp add: on_manager_def split_beta Let_def)
  then have "keeps (sched_touching {i}) (post_message env (Some u) i m content)"
    unfolding post_message_def require_task_def
    by (auto intro!: served.keeps_andThen keeps_handling served.keeps_reading served.keeps_ret served.keeps_raise touching_quiet
        split: option.splits)
  from keepsD [OF this, of s] have "touching {i} (sd_db s) (sd_db (snd (post_message env (Some u) i m content s)))"
    by (simp only: sched_touching_def)
  then show ?thesis using confined_owned [OF assms] get_task_owned(1) [OF Some] by blast
next
  case None
  then show ?thesis
    by (simp add: post_message_def andThen_def require_task_state confined_same touches.kept_refl)
qed

lemma reading_state [simp]: "snd (reading f s) = s" and ret_state [simp]: "snd (ret x s) = s"
  by (simp_all add: reading_def ret_def)

lemma serve_confined:
  assumes "ledger_inv (sd_db s)"
  shows "confined u (sd_db s) (sd_db (snd (serve_task env fresh (Some u) rq s)))"
proof -
  have r: "snd (require_task (Some u) i s) = s" for i by (simp add: require_task_state split: option.splits)
  have e: "snd (get_events (Some u) i after s) = s" for i after
    by (simp add: get_events_def andThen_def require_task_state reading_def split: option.splits)
  have c: "snd (get_receipt (Some u) i m s) = s" for i m
    by (simp add: get_receipt_def andThen_def require_task_state reading_def raise_def ret_def split: option.splits)
  have g: "snd (get_result env (Some u) i s) = s" for i
    by (simp add: get_result_def andThen_reading raise_def ret_def split: sum.splits)
  have st: "snd (get_dispatch_status env (Some u) s) = s" by (simp add: get_dispatch_status_def raise_def)
  have same: "confined u (sd_db s) (sd_db s)" by (rule confined_same) (rule touches.kept_refl)
  show ?thesis
    using post_task_confined post_retry_confined post_cancel_confined [OF assms] post_message_confined [OF assms]
    by (cases rq) (simp_all only: serve_task.simps answer_state coded_state reading_state r e c g st same ret_state)
qed

text \<open>What a request reveals.\<close>

lemma admitted_record: "admitted env (rec, created) s = (Inr (code, rec'), s') \<Longrightarrow> rec' = rec"
  by (auto simp: admitted_def ret_def elim!: andThen_InrE split: if_splits)

lemma s_ledger_Inr: "handling h (s_ledger m) s = (Inr x, s') \<Longrightarrow> m (sd_db s) = (Inr x, sd_db s')"
  unfolding handling_Inr by (rule s_ledger_eq)

lemma post_task_record:
  assumes "post_task env fresh (Some u) body s = (Inr (code, rec), s')"
  shows "tr_owner_id rec = Some u"
proof -
  obtain rc s1 where m: "handling (submit_error env) (s_ledger (submit_task (so_service env) fresh (so_now env) body (Some u))) s = (Inr rc, s1)"
    and a: "admitted env rc s1 = (Inr (code, rec), s')"
    using assms unfolding post_task_def by (rule andThen_InrE)
  obtain rec0 c where rc: "rc = (rec0, c)" by fastforce
  have "rec = rec0" using a unfolding rc by (rule admitted_record)
  then show ?thesis using conjunct2 [OF submit_task_touches [OF s_ledger_Inr [OF m]]] rc by simp
qed

lemma post_retry_record:
  assumes "post_retry env fresh (Some u) i body s = (Inr (code, rec), s')"
  shows "tr_owner_id rec = Some u \<and> owned u (sd_db s) i"
proof -
  obtain rc s1 where m: "handling (retry_error env) (s_ledger (retry_task (so_service env) fresh (so_now env) i body (Some u))) s = (Inr rc, s1)"
    and a: "admitted env rc s1 = (Inr (code, rec), s')"
    using assms unfolding post_retry_def by (rule andThen_InrE)
  obtain rec0 c where rc: "rc = (rec0, c)" by fastforce
  have "fst (retry_task (so_service env) fresh (so_now env) i body (Some u) (sd_db s)) = Inr (rec0, c)"
    using s_ledger_Inr [OF m] rc by simp
  then have "tr_owner_id rec0 = Some u \<and> get_task i (Some u) (sd_db s) \<noteq> None" using retry_task_touches by blast
  moreover have "rec = rec0" using a unfolding rc by (rule admitted_record)
  ultimately show ?thesis using get_task_owned(2) by blast
qed

lemma post_cancel_record:
  assumes "ledger_inv (sd_db s)" "post_cancel env (Some u) i s = (Inr rec, s')"
  shows "tr_owner_id rec = Some u \<and> owned u (sd_db s) i"
proof -
  obtain rec0 s1 where m: "handling (control_error env 409) (s_ledger (cancel_task (so_now env) i (Some u))) s = (Inr rec0, s1)"
    and rest: "andThen (so_durable env) (\<lambda>_. andThen wake_scheduler (\<lambda>_. ret rec0)) s1 = (Inr rec, s')"
    using assms(2) unfolding post_cancel_def by (rule andThen_InrE)
  have "rec = rec0" using rest by (auto simp: ret_def elim!: andThen_InrE)
  then show ?thesis using cancel_task_owner [OF assms(1) s_ledger_Inr [OF m]] by simp
qed

lemma require_task_Inr: "andThen (require_task (Some u) i) k s = (Inr x, s') \<Longrightarrow> owned u (sd_db s) i"
  using get_task_owned(1) by (auto simp: require_task_state elim!: andThen_InrE split: option.splits)

lemma list_owned: "list_all (\<lambda>r. tr_owner_id r = Some u) (list_tasks (Some u) d)"
  by (auto simp: list_tasks_def list_all_iff order_by_def row_to_record_def)

lemma serve_reveals:
  assumes "ledger_inv (sd_db s)" "serve_task env fresh (Some u) rq s = (Inr (code, a), s')"
  shows "answer_owned u a \<and> (\<forall>i. request_task rq = Some i \<longrightarrow> owned u (sd_db s) i)"
proof (cases rq)
  case (Post_task body)
  then show ?thesis using assms(2) post_task_record by (auto simp: ret_def elim!: andThen_InrE)
next
  case (Post_retry i body)
  then show ?thesis using assms(2) by (auto simp: ret_def elim!: andThen_InrE dest!: post_retry_record)
next
  case (Post_cancel i)
  obtain x where "a = Record x" "post_cancel env (Some u) i s = (Inr x, s')"
    using assms(2) [unfolded Post_cancel serve_task.simps] by (rule answer_InrE)
  then show ?thesis using post_cancel_record [OF assms(1)] Post_cancel by auto
next
  case List_tasks
  then have "a = Records (list_tasks (Some u) (sd_db s))"
    using assms(2) by (auto simp: answer_def reading_def andThen_def ret_def)
  then show ?thesis using list_owned List_tasks by simp
next
  case (Get_task i)
  obtain x where "a = Record x" "require_task (Some u) i s = (Inr x, s')"
    using assms(2) [unfolded Get_task serve_task.simps] by (rule answer_InrE)
  then show ?thesis using get_task_owned(1) [of i u "sd_db s" x] Get_task by (simp add: require_task_state split: option.splits)
next
  case (Get_events i after)
  obtain x where "a = Event_copies x" "get_events (Some u) i after s = (Inr x, s')"
    using assms(2) [unfolded Get_events serve_task.simps] by (rule answer_InrE)
  then show ?thesis using require_task_Inr Get_events unfolding get_events_def by simp
next
  case (Get_receipt i m)
  obtain x where "a = Receipt x" "get_receipt (Some u) i m s = (Inr x, s')"
    using assms(2) [unfolded Get_receipt serve_task.simps] by (rule answer_InrE)
  then show ?thesis using require_task_Inr Get_receipt unfolding get_receipt_def by simp
next
  case (Post_message i m content)
  obtain x where "a = Receipt x" "post_message env (Some u) i m content s = (Inr x, s')"
    using assms(2) [unfolded Post_message serve_task.simps] by (rule answer_InrE)
  then show ?thesis using require_task_Inr Post_message unfolding post_message_def by simp
next
  case (Get_result i)
  obtain x where x: "a = Result x" "get_result env (Some u) i s = (Inr x, s')"
    using assms(2) [unfolded Get_result serve_task.simps] by (rule answer_InrE)
  then have "get_task i (Some u) (sd_db s) \<noteq> None"
    by (auto simp: get_result_def andThen_reading result_task_def raise_def split: option.splits)
  then show ?thesis using x Get_result get_task_owned(2) by simp
next
  case Get_status
  obtain x where "a = Status x" "get_dispatch_status env (Some u) s = (Inr x, s')"
    using assms(2) [unfolded Get_status serve_task.simps] by (rule answer_InrE)
  then show ?thesis by (simp add: get_dispatch_status_def raise_def)
next
  case Get_models
  then show ?thesis using assms(2) by (auto simp: ret_def)
qed

text \<open>
  C16: Owners are isolated.  Whatever a request of the task interface does on behalf of one owner, the row, the supervision and
  the messages of every task of another owner, or of the operator, are exactly as before, and no table of events, results,
  reservations, sandboxes or publications changes.  A request that names a task succeeds only if the task is the owner's, and every
  record in an answer is the owner's; the dispatch status is never shown to an owner.
\<close>

theorem routes_isolate_owners:
  assumes "ledger_inv (sd_db s)" "serve_task env fresh (Some u) rq s = (result, s')"
    and "r \<in> set (tasks (sd_db s))" "t_owner_id r \<noteq> Some u"
  shows "task_view (t_id r) (sd_db s') = task_view (t_id r) (sd_db s) \<and> other_tables (sd_db s') = other_tables (sd_db s) \<and>
    (case result of Inl _ \<Rightarrow> True
     | Inr (code, a) \<Rightarrow> answer_owned u a \<and> (\<forall>i. request_task rq = Some i \<longrightarrow> owned u (sd_db s) i))"
proof -
  obtain I where "touching I (sd_db s) (sd_db s')" "\<forall>r\<in>set (tasks (sd_db s)). t_id r \<in> I \<longrightarrow> t_owner_id r = Some u"
    using serve_confined [OF assms(1), of u env fresh rq] assms(2) unfolding confined_def by auto
  then have "task_view (t_id r) (sd_db s') = task_view (t_id r) (sd_db s) \<and> other_tables (sd_db s') = other_tables (sd_db s)"
    using assms(3,4) unfolding touching_def by blast
  then show ?thesis using serve_reveals [OF assms(1)] assms(2) by (auto split: sum.splits)
qed

theorem routes_isolate_owners_witness:
  "\<exists>s'. serve_task sample_scheduler_env ''t9'' (Some ''u1'') (Post_cancel ''t1'') (put_db sample_submitted sample_scheduler) =
       (Inl (HTTP_error 409 ''unknown task t1''), s') \<and> task_view ''t1'' (sd_db s') = task_view ''t1'' sample_submitted"
proof -
  let ?s = "put_db sample_submitted sample_scheduler" and ?t = "hd (tasks sample_submitted)"
  have db: "sd_db ?s = sample_submitted" by (simp add: put_db_def)
  obtain x s' where c: "serve_task sample_scheduler_env ''t9'' (Some ''u1'') (Post_cancel ''t1'') ?s = (x, s')" by fastforce
  have "cancel_task now ''t1'' (Some ''u1'') sample_submitted = (Inl (TaskControlError ''unknown task t1''), sample_submitted)" for now
    by (simp add: cancel_task_def andThen_reading raise_def get_task_def sample_submitted_eq new_task_row_def)
  then have "fst (post_cancel sample_scheduler_env (Some ''u1'') ''t1'' ?s) = Inl (HTTP_error 409 ''unknown task t1'')"
    by (simp add: post_cancel_def andThen_def handling_def control_error_def s_ledger_def on_manager_def ledger_call_def on_world_def
        on_ledger_def db split_beta Let_def)
  then have x: "x = Inl (HTTP_error 409 ''unknown task t1'')"
    using c by (auto simp: answer_def andThen_def split: prod.splits)
  have t: "?t \<in> set (tasks (sd_db ?s))" "t_id ?t = ''t1''" "t_owner_id ?t \<noteq> Some ''u1''"
    by (simp_all add: put_db_def sample_submitted_eq new_task_row_def)
  have inv: "ledger_inv (sd_db ?s)" using sample_inv(1) by (simp add: db)
  from routes_isolate_owners [OF inv c t(1,3)] c x t(2) show ?thesis by (simp add: db)
qed

section \<open>The persistence barrier\<close>

text \<open>
  C17: What is acknowledged is durable.  When the application answers a request that may write with a status below 400, the last
  thing that happened is a confirmed checkpoint at the revision the database then has, whatever the handler did before; while the
  process recovers, and when the checkpoint fails, the answer is 503.
\<close>

theorem acknowledged_is_durable:
  fixes call_next :: "('p scheduler, 'b) app_op"
  assumes "persistence_barrier recovering dispatch (so_durable env) rq call_next s = (Inr (code, body), s')"
    and "\<not> exempt_request rq" "\<not> read_only_request rq" "code < 400"
  shows "\<not> recovering \<and> w_trace (mg_world (sd_manager s')) \<noteq> [] \<and>
    last (w_trace (mg_world (sd_manager s'))) = Durable (revision (sd_db s'))"
proof -
  have durable: "last (w_trace (mg_world (sd_manager s2))) = Durable (revision (sd_db s2)) \<and> w_trace (mg_world (sd_manager s2)) \<noteq> []"
    if "so_durable env s1 = (Inr (), s2)" for s1 s2
    using that unfolding so_durable_def handling_Inr
    by (auto simp: on_manager_def Supervision.durable_def on_world_def durable_barrier_def split_beta Let_def split: sum.splits)
  have barrier: "c = 503 \<or> fst (so_durable env s1) = Inr () \<and> k (snd (so_durable env s1)) = (Inr (c, b), s2)"
    if "barrier_or_503 (so_durable env) k s1 = (Inr (c, b), s2)" for k s1 s2 and c :: int and b :: "'b option"
    using that unfolding barrier_or_503_def
    by (auto simp: attempt_def own_answer_def ret_def raise_def andThen_def split: prod.splits sum.splits route_error.splits)
  have rec: "\<not> recovering" using assms by (auto simp: persistence_barrier_def own_answer_def ret_def)
  define inner where "inner = (\<lambda>(code, body :: 'b option). if \<not> exempt_request rq \<and> \<not> read_only_request rq \<and> code < 400 then barrier_or_503 (so_durable env) (ret (code, body)) else ret (code, body))"
  define next_op where "next_op = andThen (reading (\<lambda>s. admission_request rq \<and> admission_blocked (dispatch s))) (\<lambda>blocked.
      if blocked then own_answer 503 else andThen call_next inner)"
  have "persistence_barrier recovering dispatch (so_durable env) rq call_next = barrier_or_503 (so_durable env) next_op"
    unfolding persistence_barrier_def next_op_def inner_def using assms(2,3) rec by simp
  then have "next_op (snd (so_durable env s)) = (Inr (code, body), s')" using barrier assms(1,4) by fastforce
  then obtain s2 where "andThen call_next inner s2 = (Inr (code, body), s')"
    using assms(4) by (auto simp: next_op_def andThen_reading own_answer_def ret_def split: if_splits)
  then obtain c b s3 where "inner (c, b) s3 = (Inr (code, body), s')" by (auto elim!: andThen_InrE)
  then have "fst (so_durable env s3) = Inr () \<and> s' = snd (so_durable env s3)"
    using assms(2-4) barrier [of "ret (c, b)" s3 code body s'] by (auto simp: inner_def ret_def split: if_splits)
  then show ?thesis using rec durable [of s3 s'] by (cases "so_durable env s3") auto
qed

lemma barrier_passes: "fst (barrier s) = Inr () \<Longrightarrow> barrier_or_503 barrier k s = k (snd (barrier s))"
  by (cases "barrier s") (simp add: barrier_or_503_def attempt_def andThen_def)

lemma barrier_serves:
  assumes "\<And>s. fst (barrier s) = Inr ()" "\<not> exempt_request rq" "\<not> read_only_request rq" "\<not> admission_request rq"
    and "call_next (snd (barrier s)) = (Inr (200, body), s')"
  shows "fst (persistence_barrier False dispatch barrier rq (call_next :: ('b, 'a) app_op) s) = Inr (200, body)"
proof -
  have "andThen call_next k (snd (barrier s)) = k (200, body) s'" for k :: "int \<times> 'a option \<Rightarrow> ('b, 'a) app_op"
    using assms(5) by (simp add: andThen_def)
  then show ?thesis using assms(1-4) by (simp add: persistence_barrier_def barrier_passes andThen_reading ret_def)
qed

theorem acknowledged_is_durable_witness:
  "\<exists>r s'. serve_http sample_scheduler_env False ''t9'' None (Post_cancel ''t1'') (put_db sample_submitted sample_scheduler) =
       (Inr (200, Some r), s') \<and> last (w_trace (mg_world (sd_manager s'))) = Durable (revision (sd_db s'))"
proof -
  let ?s = "put_db sample_submitted sample_scheduler" and ?rq = "Post_cancel ''t1''"
  obtain x s' where c: "serve_http sample_scheduler_env False ''t9'' None ?rq ?s = (x, s')" by fastforce
  have durable: "fst (so_durable sample_scheduler_env s) = Inr ()" for s
    by (simp add: so_durable_def handling_def on_manager_def Supervision.durable_def on_world_def durable_barrier_def
        sample_scheduler_env_def sample_manager_env_def sample_life_env_def split_beta Let_def)
  have db: "sd_db (snd (so_durable sample_scheduler_env ?s)) = sample_submitted" by (simp add: put_db_def)
  let ?t = "hd (tasks sample_submitted)"
  have "?t \<in> set (tasks sample_submitted)" "t_id ?t = ''t1''" "t_state ?t = TS_QUEUED" by (simp_all add: sample_submitted_eq new_task_row_def)
  with cancel_task_by_state [OF sample_inv(1), of ?t None "so_now sample_scheduler_env"]
  obtain rec d where "cancel_task (so_now sample_scheduler_env) ''t1'' None sample_submitted = (Inr rec, d)"
    by (auto split: prod.splits sum.splits)
  then have "fst (post_cancel sample_scheduler_env None ''t1'' (snd (so_durable sample_scheduler_env ?s))) = Inr rec"
    using durable
    by (simp add: post_cancel_def andThen_def handling_def s_ledger_def on_manager_def ledger_call_def on_world_def
        on_ledger_def db [simplified] wake_scheduler_def scheduler_wake_def s_modify_def ret_def split_beta Let_def split: sum.splits)
  then obtain s2 where "post_cancel sample_scheduler_env None ''t1'' (snd (so_durable sample_scheduler_env ?s)) = (Inr rec, s2)"
    by (metis prod.collapse)
  then have m: "respond (serve_task sample_scheduler_env ''t9'' None ?rq) (snd (so_durable sample_scheduler_env ?s)) = (Inr (200, Some (Record rec)), s2)"
    by (simp add: respond_def answer_def andThen_def ret_def)
  have line: "\<not> exempt_request (request_line ?rq)" "\<not> read_only_request (request_line ?rq)" "\<not> admission_request (request_line ?rq)"
    by code_simp+
  have "fst (serve_http sample_scheduler_env False ''t9'' None ?rq ?s) = Inr (200, Some (Record rec))"
    unfolding serve_http_def by (rule barrier_serves) (use durable line m in simp_all)
  then have x: "x = Inr (200, Some (Record rec))" using c by simp
  from acknowledged_is_durable [OF c [unfolded x serve_http_def] line(1,2)] c x show ?thesis by auto
qed

section \<open>The event stream\<close>

lemma stream_live_sorted:
  "sorted_wrt (<) (map tc_cursor cs) \<Longrightarrow> stream_live a cs = filter (\<lambda>c. a < tc_cursor c) cs"
proof (induction cs arbitrary: a)
  case (Cons c cs)
  have "filter (\<lambda>x. tc_cursor c < tc_cursor x) cs = cs" using Cons.prems by (intro filter_True) auto
  moreover have "filter (\<lambda>x. a < tc_cursor x) cs = cs" if "a < tc_cursor c"
    using Cons.prems that by (intro filter_True) force
  ultimately show ?case using Cons by simp
qed simp

lemma sorted_last: "sorted xs \<Longrightarrow> x \<in> set xs \<Longrightarrow> x \<le> last xs" for x :: "'a :: linorder"
  by (induction xs) auto

lemma sorted_split:
  "sorted_wrt (<) (map f xs) \<Longrightarrow> filter (\<lambda>x. f x \<le> n) xs @ filter (\<lambda>x. n < f x) xs = xs" for n :: "'a :: linorder"
proof (induction xs)
  case (Cons x xs)
  show ?case
  proof (cases "f x \<le> n")
    case False
    then have "\<forall>y\<in>set xs. n < f y" using Cons.prems by force
    then have "filter (\<lambda>y. f y \<le> n) xs = []" "filter (\<lambda>y. n < f y) xs = xs" by (auto simp: filter_empty_conv not_le intro: filter_True)
    then show ?thesis using False by simp
  qed (use Cons in simp)
qed simp

lemma copies_sorted: "ledger_inv d \<Longrightarrow> sorted_wrt (<) (map tc_cursor (list_event_copies i a d))"
proof -
  assume "ledger_inv d"
  moreover have "map tc_cursor (list_event_copies i a d) = map fst (list_task_events i a d)"
    by (simp add: list_event_copies_def comp_def split_beta)
  ultimately show ?thesis using list_task_events_resume [of d i a 0] by simp
qed


definition sample_copied :: database where
  "sample_copied = snd (copy_task_event_page (\<lambda>_. 1) (\<lambda>_. ''f'') 9 ''t1'' ''c'' [sample_event 1, sample_event 3] None sample_reserved)"


section \<open>An unhandled error\<close>

text \<open>Storage pressure refuses a submission with 503; the same refusal of a retry has no handler and ends in 500.\<close>

lemma retry_pressure_unhandled:
  "submit_error env (StoragePressureError m) = HTTP_error 503 m"
  "retry_error env (StoragePressureError m) = Unhandled (StoragePressureError m)"
  by (simp_all add: submit_error_def retry_error_def)

end
