(* ===== verification/Configuration.thy ===== *)
theory Configuration
  imports Scheduler Identity Complex_Main
begin

text \<open>
  \<open>backend/gg/runtime/config.py\<close>: the settings of the runtime, read from the environment and validated.  The fields of
  \<open>RuntimeSettings\<close> are kept in four groups in the order of their declaration.  Fernet, UUID and \<open>float\<close> parsing and
  the network locations that \<open>urlsplit\<close> refuses are arguments, and so is whether a bound of pydantic admits NaN.  An error names what was refused.
\<close>

section \<open>Numbers\<close>

datatype pyfloat = Nan | Infinite bool | Finite rat

fun float_less :: "pyfloat \<Rightarrow> pyfloat \<Rightarrow> bool" where
  "float_less (Finite a) (Finite b) = (a < b)"
| "float_less (Finite a) (Infinite positive) = positive"
| "float_less (Infinite positive) (Finite b) = (\<not> positive)"
| "float_less (Infinite p) (Infinite q) = (\<not> p \<and> q)"
| "float_less _ _ = False"

definition float_le :: "pyfloat \<Rightarrow> pyfloat \<Rightarrow> bool" where
  "float_le a b \<longleftrightarrow> float_less a b \<or> (a = b \<and> a \<noteq> Nan)"

text \<open>A bound of a float field of pydantic; whether it admits NaN is an argument.\<close>

definition positive_field :: "bool \<Rightarrow> pyfloat \<Rightarrow> bool" where
  "positive_field nan_ok x \<longleftrightarrow> (if x = Nan then nan_ok else float_less (Finite 0) x)"

definition unit_field :: "bool \<Rightarrow> pyfloat \<Rightarrow> bool" where
  "unit_field nan_ok x \<longleftrightarrow> (if x = Nan then nan_ok else float_le (Finite 0) x \<and> float_le x (Finite 1))"

section \<open>Locations\<close>

record url_parts =
  ur_scheme :: string
  ur_netloc :: string
  ur_path :: string
  ur_query :: string
  ur_fragment :: string

definition ascii_alpha :: "char \<Rightarrow> bool" where
  "ascii_alpha c \<longleftrightarrow> (let n = of_char c :: nat in (65 \<le> n \<and> n \<le> 90) \<or> (97 \<le> n \<and> n \<le> 122))"

definition scheme_char :: "char \<Rightarrow> bool" where
  "scheme_char c \<longleftrightarrow> ascii_alpha c \<or> digit_char c \<or> c \<in> set ''+-.''"

text \<open>The text before the first \<open>c\<close> and, if there is one, the text after it.\<close>

definition cut :: "char \<Rightarrow> string \<Rightarrow> string \<times> string option" where
  "cut c s = (takeWhile (\<lambda>x. x \<noteq> c) s, if c \<in> set s then Some (tl (dropWhile (\<lambda>x. x \<noteq> c) s)) else None)"

definition url_scheme :: "string \<Rightarrow> string \<times> string" where
  "url_scheme u =
     (case cut (CHR '':'') u of
        (scheme, Some rest) \<Rightarrow>
          if scheme \<noteq> [] \<and> ascii_alpha (hd scheme) \<and> list_all scheme_char scheme then (header_lower scheme, rest) else ([], u)
      | _ \<Rightarrow> ([], u))"

definition urlsplit :: "(string \<Rightarrow> bool) \<Rightarrow> string \<Rightarrow> url_parts option" where
  "urlsplit bad_netloc value =
     (let (scheme, u) = url_scheme (url_clean value);
          netloc = (if starts ''//'' u then takeWhile (\<lambda>c. c \<notin> set ''/?#'') (drop 2 u) else []);
          rest = (if starts ''//'' u then dropWhile (\<lambda>c. c \<notin> set ''/?#'') (drop 2 u) else u);
          (before, fragment) = cut (CHR ''#'') rest; (path, query) = cut (CHR ''?'') before
      in if starts ''//'' u \<and> bad_netloc netloc then None
         else Some \<lparr>ur_scheme = scheme, ur_netloc = netloc, ur_path = path, ur_query = coalesce_to query [],
                ur_fragment = coalesce_to fragment []\<rparr>)"

text \<open>\<open>rpartition('@')\<close> of the network location, and the properties \<open>hostname\<close>, \<open>username\<close> and \<open>password\<close>.\<close>

definition host_info :: "string \<Rightarrow> string" where
  "host_info netloc = rev (takeWhile (\<lambda>c. c \<noteq> CHR ''@'') (rev netloc))"

definition user_info :: "string \<Rightarrow> string option" where
  "user_info netloc = (if CHR ''@'' \<in> set netloc then Some (rev (tl (dropWhile (\<lambda>c. c \<noteq> CHR ''@'') (rev netloc)))) else None)"

definition url_hostname :: "url_parts \<Rightarrow> string option" where
  "url_hostname p =
     (let info = host_info (ur_netloc p);
          host = (case cut (CHR ''['') info of (_, Some bracketed) \<Rightarrow> fst (cut (CHR '']'') bracketed) | _ \<Rightarrow> fst (cut (CHR '':'') info))
      in if host = [] then None
         else (case cut (CHR ''%'') host of
                 (name, Some zone) \<Rightarrow> Some (header_lower name @ ''%'' @ zone)
               | (name, None) \<Rightarrow> Some (header_lower name)))"

definition url_has_user :: "url_parts \<Rightarrow> bool" where
  "url_has_user p \<longleftrightarrow> (case user_info (ur_netloc p) of None \<Rightarrow> False | Some u \<Rightarrow> fst (cut (CHR '':'') u) \<noteq> [])"

definition url_has_password :: "url_parts \<Rightarrow> bool" where
  "url_has_password p \<longleftrightarrow>
     (case user_info (ur_netloc p) of None \<Rightarrow> False | Some u \<Rightarrow> truthy (snd (cut (CHR '':'') u)))"

definition loopback :: "string option \<Rightarrow> bool" where
  "loopback host \<longleftrightarrow> host \<in> {Some ''localhost'', Some ''127.0.0.1''}"

definition web_url_ok :: "(string \<Rightarrow> bool) \<Rightarrow> string \<Rightarrow> bool" where
  "web_url_ok bad_netloc value \<longleftrightarrow>
     (case urlsplit bad_netloc value of
        None \<Rightarrow> False
      | Some p \<Rightarrow> url_hostname p \<noteq> None \<and> \<not> url_has_user p \<and> \<not> url_has_password p \<and> ur_path p = [] \<and> ur_query p = [] \<and>
          ur_fragment p = [] \<and> ur_scheme p \<in> {''https'', ''http''} \<and> (ur_scheme p = ''http'' \<longrightarrow> loopback (url_hostname p)))"

section \<open>Settings\<close>

record access_settings =
  cf_api_key :: string
  cf_wpp_api_token :: "string option"
  cf_wpp_owner_id :: "string option"
  cf_google_client_id :: "string option"
  cf_google_client_secret :: "string option"
  cf_web_cookie_key :: "string option"
  cf_openrouter_vault_key :: "string option"
  cf_web_origin :: "string option"
  cf_web_dist_path :: "string option"
  cf_web_cookie_secure :: bool
  cf_cors_origins :: "string list"
  cf_host :: string
  cf_port :: int

record github_settings =
  cg_clone_token :: "string option"
  cg_app_client_id :: "string option"
  cg_app_client_secret :: "string option"
  cg_app_private_key :: "string option"
  cg_webhook_secret :: "string option"
  cg_connection_key :: "string option"
  cg_openrouter_api_key :: "string option"
  cg_max_prompt_chars :: int
  cg_max_base_ref_chars :: int
  cg_max_idempotency_key_chars :: int

record modal_settings =
  cm_environment :: "string option"
  cm_app_name :: string
  cm_deployment :: string
  cm_image_name :: string
  cm_cpu_request :: pyfloat
  cm_cpu_limit :: pyfloat
  cm_memory_request_mib :: int
  cm_memory_limit_mib :: int
  cm_startup_timeout_seconds :: int
  cm_provider_timeout_seconds :: int

record dispatch_settings =
  cd_task_capacity :: int
  cd_dispatch_poll_seconds :: pyfloat
  cd_task_dispatch_enabled :: bool
  cd_logfire_enabled :: bool
  cd_logfire_environment :: string
  cd_logfire_sample_rate :: pyfloat
  cd_logfire_relay_url :: "string option"
  cd_dispatch_lock_path :: "string option"
  cd_task_evidence_dir :: "string option"
  cd_terminal_retention_days :: int
  cd_tombstone_retention_days :: int
  cd_max_log_evidence_bytes :: int
  cd_max_artifact_bytes :: int
  cd_max_total_evidence_bytes :: int
  cd_min_free_disk_bytes :: int

record settings =
  cs_access :: access_settings
  cs_github :: github_settings
  cs_modal :: modal_settings
  cs_dispatch :: dispatch_settings

datatype config_error =
    Missing_api_key
  | Padded_api_key
  | Bad_integer string
  | Port_out_of_range int
  | Bad_number string
  | Bad_boolean string
  | Invalid_fields "string list"
  | Unpaired_binding
  | Bad_service_token
  | Shared_service_token
  | Bad_fernet_key string
  | Insecure_cookies

record config_env =
  cx_getenv :: "string \<Rightarrow> string option"
  cx_uuid :: "string \<Rightarrow> string option"
  cx_fernet :: "string \<Rightarrow> bool"
  cx_float :: "string \<Rightarrow> pyfloat option"
  cx_bad_netloc :: "string \<Rightarrow> bool"
  cx_nan_bounded :: bool

section \<open>Validation\<close>

definition padded :: "string \<Rightarrow> bool" where
  "padded s \<longleftrightarrow> s \<noteq> strip s"

text \<open>The names of the fields that do not validate; a bound that refers to another field applies only if that one is valid.\<close>

definition access_errors :: "config_env \<Rightarrow> access_settings \<Rightarrow> string list" where
  "access_errors cx s =
     (if cf_api_key s = [] \<or> padded (cf_api_key s) then [''api_key''] else []) @
     (case cf_wpp_owner_id s of Some u \<Rightarrow> if cx_uuid cx u = None then [''wpp_owner_id''] else [] | None \<Rightarrow> []) @
     (case cf_web_origin s of Some o' \<Rightarrow> if \<not> web_url_ok (cx_bad_netloc cx) o' then [''web_origin''] else [] | None \<Rightarrow> []) @
     (if \<not> (1 \<le> cf_port s \<and> cf_port s \<le> 65535) then [''port''] else [])"

definition github_errors :: "github_settings \<Rightarrow> string list" where
  "github_errors s =
     (if cg_max_prompt_chars s < 1 then [''max_prompt_chars''] else []) @
     (if cg_max_base_ref_chars s < 1 then [''max_base_ref_chars''] else []) @
     (if cg_max_idempotency_key_chars s < 1 then [''max_idempotency_key_chars''] else [])"

definition bad_name :: "string \<Rightarrow> bool" where
  "bad_name s \<longleftrightarrow> blank s \<or> padded s"

definition modal_errors :: "bool \<Rightarrow> modal_settings \<Rightarrow> string list" where
  "modal_errors nan_ok s =
     (let cpu_ok = positive_field nan_ok (cm_cpu_request s); memory_ok = (1 \<le> cm_memory_request_mib s) in
      (if bad_name (cm_app_name s) then [''modal_app_name''] else []) @
      (if bad_name (cm_deployment s) then [''modal_deployment''] else []) @
      (if bad_name (cm_image_name s) then [''modal_image_name''] else []) @
      (if \<not> cpu_ok then [''modal_cpu_request''] else []) @
      (if \<not> positive_field nan_ok (cm_cpu_limit s) \<or> (cpu_ok \<and> float_less (cm_cpu_limit s) (cm_cpu_request s)) then [''modal_cpu_limit''] else []) @
      (if \<not> memory_ok then [''modal_memory_request_mib''] else []) @
      (if cm_memory_limit_mib s < 1 \<or> (memory_ok \<and> cm_memory_limit_mib s < cm_memory_request_mib s)
       then [''modal_memory_limit_mib''] else []) @
      (if cm_startup_timeout_seconds s < 1 then [''modal_startup_timeout_seconds''] else []) @
      (if \<not> (1 \<le> cm_provider_timeout_seconds s \<and> cm_provider_timeout_seconds s \<le> 24 * 60 * 60)
       then [''modal_provider_timeout_seconds''] else []))"

definition blank_option :: "string option \<Rightarrow> bool" where
  "blank_option v \<longleftrightarrow> (case v of None \<Rightarrow> False | Some s \<Rightarrow> blank s)"

definition dispatch_errors :: "bool \<Rightarrow> dispatch_settings \<Rightarrow> string list" where
  "dispatch_errors nan_ok s =
     (let terminal_ok = (1 \<le> cd_terminal_retention_days s) in
      (if \<not> (1 \<le> cd_task_capacity s \<and> cd_task_capacity s \<le> 10) then [''task_capacity''] else []) @
      (if \<not> positive_field nan_ok (cd_dispatch_poll_seconds s) then [''dispatch_poll_seconds''] else []) @
      (if \<not> unit_field nan_ok (cd_logfire_sample_rate s) then [''logfire_sample_rate''] else []) @
      (if blank_option (cd_dispatch_lock_path s) then [''dispatch_lock_path''] else []) @
      (if blank_option (cd_task_evidence_dir s) then [''task_evidence_dir''] else []) @
      (if \<not> terminal_ok then [''terminal_retention_days''] else []) @
      (if cd_tombstone_retention_days s < 1 \<or> (terminal_ok \<and> cd_tombstone_retention_days s < cd_terminal_retention_days s)
       then [''tombstone_retention_days''] else []) @
      (if cd_max_log_evidence_bytes s < 1024 then [''max_log_evidence_bytes''] else []) @
      (if cd_max_artifact_bytes s < 1024 then [''max_artifact_bytes''] else []) @
      (if cd_max_total_evidence_bytes s < 1024 then [''max_total_evidence_bytes''] else []) @
      (if cd_min_free_disk_bytes s < 0 then [''min_free_disk_bytes''] else []))"

definition wpp_binding :: "access_settings \<Rightarrow> config_error + unit" where
  "wpp_binding s =
     (if (cf_wpp_api_token s = None) \<noteq> (cf_wpp_owner_id s = None) then Inl Unpaired_binding
      else (case cf_wpp_api_token s of
              None \<Rightarrow> Inr ()
            | Some token \<Rightarrow>
                if token = [] \<or> padded token \<or> list_ex (\<lambda>c. (of_char c :: nat) < 33 \<or> 126 < (of_char c :: nat)) token
                then Inl Bad_service_token
                else if token = cf_api_key s then Inl Shared_service_token else Inr ()))"

definition fernet_key :: "config_env \<Rightarrow> string \<Rightarrow> string option \<Rightarrow> config_error + unit" where
  "fernet_key cx name key =
     (case key of None \<Rightarrow> Inr () | Some k \<Rightarrow> if cx_fernet cx k then Inr () else Inl (Bad_fernet_key name))"

definition web_cookie_settings :: "config_env \<Rightarrow> settings \<Rightarrow> config_error + unit" where
  "web_cookie_settings cx s =
     sum_bind (fernet_key cx ''web_cookie_key'' (cf_web_cookie_key (cs_access s))) (\<lambda>_.
     sum_bind (fernet_key cx ''openrouter_vault_key'' (cf_openrouter_vault_key (cs_access s))) (\<lambda>_.
     sum_bind (fernet_key cx ''github_connection_key'' (cg_connection_key (cs_github s))) (\<lambda>_.
       if \<not> cf_web_cookie_secure (cs_access s) \<and> truthy (cf_web_origin (cs_access s)) \<and>
          \<not> loopback (case urlsplit (cx_bad_netloc cx) (coalesce_to (cf_web_origin (cs_access s)) []) of
                        None \<Rightarrow> None | Some p \<Rightarrow> url_hostname p)
       then Inl Insecure_cookies else Inr ())))"

definition runtime_settings :: "config_env \<Rightarrow> settings \<Rightarrow> config_error + settings" where
  "runtime_settings cx s =
     (let bad = access_errors cx (cs_access s) @ github_errors (cs_github s) @ modal_errors (cx_nan_bounded cx) (cs_modal s) @ 
           dispatch_errors (cx_nan_bounded cx) (cs_dispatch s);
          owner = (case cf_wpp_owner_id (cs_access s) of None \<Rightarrow> None | Some u \<Rightarrow> cx_uuid cx u);
          s' = s\<lparr>cs_access := (cs_access s)\<lparr>cf_wpp_owner_id := owner\<rparr>\<rparr>
      in if bad \<noteq> [] then Inl (Invalid_fields bad)
         else sum_bind (wpp_binding (cs_access s')) (\<lambda>_.
              sum_bind (web_cookie_settings cx s') (\<lambda>_. Inr s')))"

section \<open>Reading the environment\<close>

definition parse_int :: "string option \<Rightarrow> int \<Rightarrow> config_error + int" where
  "parse_int raw dflt =
     (if \<not> truthy raw then Inr dflt
      else case int_text (coalesce_to raw []) of Inl _ \<Rightarrow> Inl (Bad_integer (coalesce_to raw [])) | Inr n \<Rightarrow> Inr n)"

definition parse_port :: "string option \<Rightarrow> config_error + int" where
  "parse_port raw =
     sum_bind (parse_int raw 8001) (\<lambda>n. if 1 \<le> n \<and> n \<le> 65535 then Inr n else Inl (Port_out_of_range n))"

definition optional_secret :: "string option \<Rightarrow> string option" where
  "optional_secret raw = (case raw of None \<Rightarrow> None | Some s \<Rightarrow> if strip s = [] then None else Some (strip s))"

definition to_float :: "config_env \<Rightarrow> string \<Rightarrow> config_error + pyfloat" where
  "to_float cx s = (case cx_float cx s of None \<Rightarrow> Inl (Bad_number s) | Some x \<Rightarrow> Inr x)"

definition parse_float :: "config_env \<Rightarrow> string option \<Rightarrow> pyfloat \<Rightarrow> config_error + pyfloat" where
  "parse_float cx raw dflt = (if \<not> truthy raw then Inr dflt else to_float cx (coalesce_to raw []))"

definition parse_bool :: "string option \<Rightarrow> bool \<Rightarrow> config_error + bool" where
  "parse_bool raw dflt =
     (if \<not> truthy raw then Inr dflt
      else (let s = header_lower (strip (coalesce_to raw [])) in
            if s \<in> {''1'', ''true'', ''yes'', ''on''} then Inr True
            else if s \<in> {''0'', ''false'', ''no'', ''off''} then Inr False
            else Inl (Bad_boolean (coalesce_to raw []))))"

fun split_comma :: "string \<Rightarrow> string list" where
  "split_comma [] = [[]]"
| "split_comma (c # s) =
     (if c = CHR '','' then [] # split_comma s
      else case split_comma s of [] \<Rightarrow> [[c]] | piece # pieces \<Rightarrow> (c # piece) # pieces)"

definition read_access :: "config_env \<Rightarrow> string \<Rightarrow> config_error + access_settings" where
  "read_access cx api_key =
     (let env = cx_getenv cx; secret = (\<lambda>name. optional_secret (env name)) in
      sum_bind (parse_bool (env ''GG_WEB_COOKIE_SECURE'') True) (\<lambda>cookie_secure.
      sum_bind (parse_port (env ''GG_RUNTIME_PORT'')) (\<lambda>port.
      Inr \<lparr>cf_api_key = api_key, cf_wpp_api_token = env ''GG_WPP_API_TOKEN'', cf_wpp_owner_id = env ''GG_WPP_OWNER_ID'',
        cf_google_client_id = secret ''GG_GOOGLE_CLIENT_ID'', cf_google_client_secret = secret ''GG_GOOGLE_CLIENT_SECRET'',
        cf_web_cookie_key = secret ''GG_WEB_COOKIE_KEY'', cf_openrouter_vault_key = secret ''GG_OPENROUTER_VAULT_KEY'',
        cf_web_origin = secret ''GG_WEB_ORIGIN'', cf_web_dist_path = secret ''GG_WEB_DIST_PATH'',
        cf_web_cookie_secure = cookie_secure,
        cf_cors_origins = filter (\<lambda>piece. piece \<noteq> []) (map strip (split_comma (coalesce_to (env ''GG_RUNTIME_CORS_ORIGINS'') []))),
        cf_host = coalesce_to (env ''GG_RUNTIME_HOST'') ''127.0.0.1'', cf_port = port\<rparr>)))"

definition read_github :: "config_env \<Rightarrow> config_error + github_settings" where
  "read_github cx =
     (let env = cx_getenv cx; secret = (\<lambda>name. optional_secret (env name)) in
      sum_bind (parse_int (env ''GG_MAX_PROMPT_CHARS'') 16000) (\<lambda>prompt_chars.
      sum_bind (parse_int (env ''GG_MAX_BASE_REF_CHARS'') 200) (\<lambda>ref_chars.
      sum_bind (parse_int (env ''GG_MAX_IDEMPOTENCY_KEY_CHARS'') 256) (\<lambda>key_chars.
      Inr \<lparr>cg_clone_token = secret ''GG_GITHUB_CLONE_TOKEN'', cg_app_client_id = secret ''GG_GITHUB_APP_CLIENT_ID'',
        cg_app_client_secret = secret ''GG_GITHUB_APP_CLIENT_SECRET'', cg_app_private_key = secret ''GG_GITHUB_APP_PRIVATE_KEY'',
        cg_webhook_secret = secret ''GG_GITHUB_WEBHOOK_SECRET'', cg_connection_key = secret ''GG_GITHUB_CONNECTION_KEY'',
        cg_openrouter_api_key = secret ''OPENROUTER_API_KEY'', cg_max_prompt_chars = prompt_chars,
        cg_max_base_ref_chars = ref_chars, cg_max_idempotency_key_chars = key_chars\<rparr>))))"

definition read_modal :: "config_env \<Rightarrow> config_error + modal_settings" where
  "read_modal cx =
     (let env = cx_getenv cx in
      sum_bind (to_float cx (coalesce_to (env ''GG_MODAL_CPU_REQUEST'') ''2.0'')) (\<lambda>cpu_request.
      sum_bind (to_float cx (coalesce_to (env ''GG_MODAL_CPU_LIMIT'') ''2.0'')) (\<lambda>cpu_limit.
      sum_bind (parse_int (env ''GG_MODAL_MEMORY_REQUEST_MIB'') 4096) (\<lambda>memory_request.
      sum_bind (parse_int (env ''GG_MODAL_MEMORY_LIMIT_MIB'') 4096) (\<lambda>memory_limit.
      sum_bind (parse_int (env ''GG_MODAL_STARTUP_TIMEOUT_SECONDS'') (5 * 60)) (\<lambda>startup.
      sum_bind (parse_int (env ''GG_MODAL_PROVIDER_TIMEOUT_SECONDS'') (70 * 60)) (\<lambda>provider.
      Inr \<lparr>cm_environment = optional_secret (env ''GG_MODAL_ENVIRONMENT''),
        cm_app_name = coalesce_to (env ''GG_MODAL_APP_NAME'') ''gg-agent-sandboxes'',
        cm_deployment = coalesce_to (env ''GG_MODAL_DEPLOYMENT'') ''gg-production'',
        cm_image_name = coalesce_to (env ''GG_MODAL_IMAGE_NAME'') ''gg-agent-server:2026-10-08-sqlite-v1'',
        cm_cpu_request = cpu_request, cm_cpu_limit = cpu_limit, cm_memory_request_mib = memory_request,
        cm_memory_limit_mib = memory_limit, cm_startup_timeout_seconds = startup,
        cm_provider_timeout_seconds = provider\<rparr>)))))))"

definition read_dispatch :: "config_env \<Rightarrow> config_error + dispatch_settings" where
  "read_dispatch cx =
     (let env = cx_getenv cx in
      sum_bind (parse_int (env ''GG_TASK_CAPACITY'') 10) (\<lambda>capacity.
      sum_bind (parse_float cx (env ''GG_DISPATCH_POLL_SECONDS'') (Finite 1)) (\<lambda>poll.
      sum_bind (parse_bool (env ''GG_TASK_DISPATCH_ENABLED'') False) (\<lambda>dispatch.
      sum_bind (parse_bool (env ''GG_LOGFIRE_ENABLED'') False) (\<lambda>logfire.
      sum_bind (parse_float cx (env ''GG_LOGFIRE_SAMPLE_RATE'') (Finite 1)) (\<lambda>sample_rate.
      sum_bind (parse_int (env ''GG_TERMINAL_RETENTION_DAYS'') 7) (\<lambda>terminal.
      sum_bind (parse_int (env ''GG_TOMBSTONE_RETENTION_DAYS'') 90) (\<lambda>tombstone.
      sum_bind (parse_int (env ''GG_MAX_LOG_EVIDENCE_BYTES'') (10 * 1024 * 1024)) (\<lambda>log_bytes.
      sum_bind (parse_int (env ''GG_MAX_ARTIFACT_BYTES'') (25 * 1024 * 1024)) (\<lambda>artifact_bytes.
      sum_bind (parse_int (env ''GG_MAX_TOTAL_EVIDENCE_BYTES'') (5 * 1024 * 1024 * 1024)) (\<lambda>total_bytes.
      sum_bind (parse_int (env ''GG_MIN_FREE_DISK_BYTES'') (1024 * 1024 * 1024)) (\<lambda>min_free.
      Inr \<lparr>cd_task_capacity = capacity, cd_dispatch_poll_seconds = poll, cd_task_dispatch_enabled = dispatch,
        cd_logfire_enabled = logfire, cd_logfire_environment = coalesce_to (env ''GG_LOGFIRE_ENVIRONMENT'') ''local'',
        cd_logfire_sample_rate = sample_rate, cd_logfire_relay_url = optional_secret (env ''GG_LOGFIRE_RELAY_URL''),
        cd_dispatch_lock_path = env ''GG_DISPATCH_LOCK_PATH'', cd_task_evidence_dir = env ''GG_TASK_EVIDENCE_DIR'',
        cd_terminal_retention_days = terminal, cd_tombstone_retention_days = tombstone,
        cd_max_log_evidence_bytes = log_bytes, cd_max_artifact_bytes = artifact_bytes,
        cd_max_total_evidence_bytes = total_bytes, cd_min_free_disk_bytes = min_free\<rparr>))))))))))))"

definition load_settings :: "config_env \<Rightarrow> config_error + settings" where
  "load_settings cx =
     (case cx_getenv cx ''GG_RUNTIME_API_KEY'' of
        None \<Rightarrow> Inl Missing_api_key
      | Some api_key \<Rightarrow>
          if blank api_key then Inl Missing_api_key
          else if padded api_key then Inl Padded_api_key
          else sum_bind (read_access cx api_key) (\<lambda>access.
               sum_bind (read_github cx) (\<lambda>github.
               sum_bind (read_modal cx) (\<lambda>modal.
               sum_bind (read_dispatch cx) (\<lambda>dispatch.
                 runtime_settings cx \<lparr>cs_access = access, cs_github = github, cs_modal = modal, cs_dispatch = dispatch\<rparr>)))))"

section \<open>What a loaded configuration satisfies\<close>

definition web_settings_of :: "settings \<Rightarrow> web_settings" where
  "web_settings_of s =
     \<lparr>st_api_key = cf_api_key (cs_access s), st_wpp_api_token = cf_wpp_api_token (cs_access s),
      st_wpp_owner_id = cf_wpp_owner_id (cs_access s), st_web_origin = cf_web_origin (cs_access s)\<rparr>"

lemma sum_bind_InrE:
  assumes "sum_bind r k = Inr y"
  obtains x where "r = Inr x" and "k x = Inr y"
  using assms by (cases r) (auto simp: sum_bind_def)

lemma load_settings_validated:
  assumes "load_settings cx = Inr s"
  obtains s0 where "runtime_settings cx s0 = Inr s"
  using assms by (auto simp: load_settings_def split: option.splits if_splits elim!: sum_bind_InrE)

lemma runtime_settings_fields:
  assumes "runtime_settings cx s0 = Inr s"
  shows "cs_github s = cs_github s0" "cs_modal s = cs_modal s0" "cs_dispatch s = cs_dispatch s0"
    and "cf_api_key (cs_access s) = cf_api_key (cs_access s0)" "cf_web_origin (cs_access s) = cf_web_origin (cs_access s0)"
    and "access_errors cx (cs_access s0) = []" "github_errors (cs_github s0) = []"
    and "modal_errors (cx_nan_bounded cx) (cs_modal s0) = []" "dispatch_errors (cx_nan_bounded cx) (cs_dispatch s0) = []"
    and "wpp_binding (cs_access s) = Inr ()" "web_cookie_settings cx s = Inr ()"
  using assms by (auto simp: runtime_settings_def Let_def split: if_splits elim!: sum_bind_InrE)

lemma wpp_binding_ok:
  assumes "wpp_binding a = Inr ()"
  shows "cf_wpp_api_token a = None \<longleftrightarrow> cf_wpp_owner_id a = None"
    and "cf_wpp_api_token a = Some token \<Longrightarrow> token \<noteq> [] \<and> ascii_text token \<and> token \<noteq> cf_api_key a"
  using assms by (auto simp: wpp_binding_def ascii_text_def list_ex_iff list_all_iff not_less split: if_splits option.splits)

lemma bearer_owner_total:
  assumes "wpp_binding a = Inr ()" and "st_wpp_api_token st = cf_wpp_api_token a" and "st_wpp_owner_id st = cf_wpp_owner_id a"
  shows "case bearer_owner st rq w of
           (Inl e, w') \<Rightarrow> e = HTTPException 401 ''invalid WPP authorization'' \<and> w' = w
         | (Inr owner, w') \<Rightarrow> owner \<noteq> None \<and> w' = w"
proof (cases "cf_wpp_api_token a")
  case None
  then show ?thesis using assms by (auto simp: bearer_owner_def Let_def truthy_def io_simps)
next
  case (Some token)
  then obtain owner where "cf_wpp_owner_id a = Some owner" using wpp_binding_ok(1) [OF assms(1)] by auto
  moreover have "ascii_text token" using wpp_binding_ok(2) [OF assms(1) Some] by simp
  ultimately show ?thesis using assms Some
    by (auto simp: bearer_owner_def Let_def truthy_def coalesce_to_def compare_digest_def io_simps)
qed

lemma web_url_nonempty: "\<not> web_url_ok bad_netloc []"
  by (simp add: web_url_ok_def urlsplit_def url_clean_def url_scheme_def cut_def starts_def url_hostname_def host_info_def Let_def)

text \<open>
  C19: settings that load are of the type the rest of the runtime relies on: the scheduler accepts the capacity; a request
  with a service token is answered 401 or acts for the configured owner, never with the rights of the operator and never
  with another exception, and the operator's key is not that token; tombstones outlive terminal tasks; the port, the
  limits of a sandbox and the sizes of the evidence are in their ranges; and the cookies of a web origin are secure or the
  origin is a loopback address.
\<close>

theorem loaded_settings_serve:
  assumes "load_settings cx = Inr s"
  shows "(so_capacity env = cd_task_capacity (cs_dispatch s) \<longrightarrow> (\<exists>sch. new_scheduler env m = Inr sch)) \<and>
    (case bearer_owner (web_settings_of s) rq w of
       (Inl e, w') \<Rightarrow> e = HTTPException 401 ''invalid WPP authorization'' \<and> w' = w
     | (Inr owner, w') \<Rightarrow> owner \<noteq> None \<and> w' = w) \<and>
    cf_api_key (cs_access s) \<noteq> [] \<and> cf_wpp_api_token (cs_access s) \<noteq> Some (cf_api_key (cs_access s)) \<and>
    1 \<le> cf_port (cs_access s) \<and> cf_port (cs_access s) \<le> 65535 \<and>
    1 \<le> cd_terminal_retention_days (cs_dispatch s) \<and>
    cd_terminal_retention_days (cs_dispatch s) \<le> cd_tombstone_retention_days (cs_dispatch s) \<and>
    1024 \<le> cd_max_artifact_bytes (cs_dispatch s) \<and> 1024 \<le> cd_max_log_evidence_bytes (cs_dispatch s) \<and>
    1024 \<le> cd_max_total_evidence_bytes (cs_dispatch s) \<and>
    1 \<le> cm_memory_request_mib (cs_modal s) \<and> cm_memory_request_mib (cs_modal s) \<le> cm_memory_limit_mib (cs_modal s) \<and>
    \<not> float_less (cm_cpu_limit (cs_modal s)) (cm_cpu_request (cs_modal s)) \<and>
    (\<forall>origin. cf_web_origin (cs_access s) = Some origin \<longrightarrow>
       web_url_ok (cx_bad_netloc cx) origin \<and>
       (cf_web_cookie_secure (cs_access s) \<or>
        (\<exists>p. urlsplit (cx_bad_netloc cx) origin = Some p \<and> loopback (url_hostname p))))"
proof -
  obtain s0 where r: "runtime_settings cx s0 = Inr s" using load_settings_validated [OF assms] .
  note f = runtime_settings_fields [OF r]
  have port: "1 \<le> cf_port (cs_access s) \<and> cf_port (cs_access s) \<le> 65535"
    using f(6) r by (auto simp: access_errors_def runtime_settings_def Let_def split: if_splits elim!: sum_bind_InrE)
  have key: "cf_api_key (cs_access s) \<noteq> []" using f(4,6) by (auto simp: access_errors_def split: if_splits)
  have token: "cf_wpp_api_token (cs_access s) \<noteq> Some (cf_api_key (cs_access s))"
    using wpp_binding_ok(2) [OF f(10)] by blast
  have bearer: "case bearer_owner (web_settings_of s) rq w of
       (Inl e, w') \<Rightarrow> e = HTTPException 401 ''invalid WPP authorization'' \<and> w' = w
     | (Inr owner, w') \<Rightarrow> owner \<noteq> None \<and> w' = w"
    by (rule bearer_owner_total [OF f(10)]) (simp_all add: web_settings_of_def)
  have web: "web_url_ok (cx_bad_netloc cx) origin \<and> (cf_web_cookie_secure (cs_access s) \<or>
        (\<exists>p. urlsplit (cx_bad_netloc cx) origin = Some p \<and> loopback (url_hostname p)))"
    if o: "cf_web_origin (cs_access s) = Some origin" for origin
  proof -
    have ok: "web_url_ok (cx_bad_netloc cx) origin"
      using f(5,6) o by (auto simp: access_errors_def split: if_splits option.splits)
    then obtain p where p: "urlsplit (cx_bad_netloc cx) origin = Some p" and host: "url_hostname p \<noteq> None"
      by (auto simp: web_url_ok_def split: option.splits)
    have "origin \<noteq> []" using ok web_url_nonempty by blast
    then show ?thesis using ok p f(11) o
      by (auto simp: web_cookie_settings_def truthy_def coalesce_to_def split: if_splits elim!: sum_bind_InrE)
  qed
  have sizes: "1 \<le> cd_task_capacity (cs_dispatch s) \<and> cd_task_capacity (cs_dispatch s) \<le> 10 \<and>
    1 \<le> cd_terminal_retention_days (cs_dispatch s) \<and>
    cd_terminal_retention_days (cs_dispatch s) \<le> cd_tombstone_retention_days (cs_dispatch s) \<and>
    1024 \<le> cd_max_artifact_bytes (cs_dispatch s) \<and> 1024 \<le> cd_max_log_evidence_bytes (cs_dispatch s) \<and>
    1024 \<le> cd_max_total_evidence_bytes (cs_dispatch s)"
    using f(9) unfolding f(3) by (auto simp: dispatch_errors_def Let_def split: if_splits)
  have sandbox: "1 \<le> cm_memory_request_mib (cs_modal s) \<and> cm_memory_request_mib (cs_modal s) \<le> cm_memory_limit_mib (cs_modal s) \<and>
    \<not> float_less (cm_cpu_limit (cs_modal s)) (cm_cpu_request (cs_modal s))"
    using f(8) unfolding f(2) by (auto simp: modal_errors_def Let_def split: if_splits)
  from port key token bearer web sizes sandbox show ?thesis by (simp add: new_scheduler_def)
qed

definition sample_config :: config_env where
  "sample_config =
     \<lparr>cx_getenv = map_of [(''GG_RUNTIME_API_KEY'', ''k1''), (''GG_WPP_API_TOKEN'', ''t1''), (''GG_WPP_OWNER_ID'', ''u9''),
        (''GG_WEB_ORIGIN'', ''https://gg''), (''GG_TASK_CAPACITY'', ''3'')],
      cx_uuid = Some, cx_fernet = (\<lambda>_. True), cx_float = (\<lambda>t. if t = ''2.0'' then Some (Finite 2) else None),
      cx_bad_netloc = (\<lambda>_. False), cx_nan_bounded = False\<rparr>"

definition loaded :: "config_env \<Rightarrow> settings option" where
  "loaded cx = (case load_settings cx of Inl _ \<Rightarrow> None | Inr s \<Rightarrow> Some s)"

lemma sample_config_loads:
  "loaded sample_config \<noteq> None" "map_option (\<lambda>s. cd_task_capacity (cs_dispatch s)) (loaded sample_config) = Some 3"
  by code_simp+

definition sample_bearer :: web_request where
  "sample_bearer = \<lparr>rq_method = ''GET'', rq_authorization = Some ''Bearer t1'', rq_x_api_key = None, rq_origin = None,
     rq_session_cookie = []\<rparr>"

theorem loaded_settings_serve_witness:
  "\<exists>s. load_settings sample_config = Inr s \<and> cd_task_capacity (cs_dispatch s) = 3 \<and>
     cd_terminal_retention_days (cs_dispatch s) \<le> cd_tombstone_retention_days (cs_dispatch s) \<and>
     cf_wpp_api_token (cs_access s) \<noteq> Some (cf_api_key (cs_access s))"
proof -
  obtain s where s: "load_settings sample_config = Inr s" and three: "cd_task_capacity (cs_dispatch s) = 3"
    using sample_config_loads by (auto simp: loaded_def split: sum.splits)
  from loaded_settings_serve [OF s] s three show ?thesis by blast
qed

text \<open>
  The operator's key is not restricted to ASCII as the service token is: with a key that has another character every request
  that presents a key ends with the \<open>TypeError\<close> of \<open>compare_digest\<close>.
\<close>

definition accented_config :: config_env where
  "accented_config = sample_config\<lparr>cx_getenv := map_of [(''GG_RUNTIME_API_KEY'', [CHR 0xE9])]\<rparr>"

lemma accented_key_loads: "map_option (\<lambda>s. cf_api_key (cs_access s)) (loaded accented_config) = Some [CHR 0xE9]"
  by code_simp

lemma accented_key_locks_out:
  "\<exists>s. load_settings accented_config = Inr s \<and>
     (\<forall>supplied w. operator_key (web_settings_of s) supplied w = (Inl (Uncaught ''TypeError''), w))"
proof -
  obtain s where s: "load_settings accented_config = Inr s" and key: "cf_api_key (cs_access s) = [CHR 0xE9]"
    using accented_key_loads by (auto simp: loaded_def split: sum.splits)
  have "operator_key (web_settings_of s) supplied w = (Inl (Uncaught ''TypeError''), w)" for supplied w
    by (simp add: operator_key_def web_settings_of_def key compare_digest_def ascii_text_def io_simps)
  with s show ?thesis by blast
qed

end
