(* ===== verification/Spec2Isabelle.thy ===== *)
theory Spec2Isabelle
  imports Task_Service Checkpoints Execution_Service Lifecycle_Props Control_Findings One_Pull_Request Pi_Publication_Props Pi_Agent_Props
    Openrouter_Vault Github_Connection_Props Google_Login_Props Repository_Access_Props Task_Routes_Props Configuration
begin

text \<open>
  Verification library of the gg agent server.

  \<^bold>\<open>The program.\<close>  A control plane (\<open>src/backend/gg/runtime\<close>) accepts coding tasks, keeps them in a SQLite
  ledger, gives each admitted task one Modal sandbox, supervises it and archives its result.  Inside the sandbox a server
  (\<open>src/sandboxes/gg/server\<close>) runs the task: it prepares a git checkout, drives the Pi agent over a JSON-lines
  protocol, records the conversation in an event log and publishes one draft pull request.  Both sides share the data model
  of \<open>src/packages/gg-sdk\<close>.  The parts meet at these places: API and scheduler call the ledger; the scheduler
  reserves tasks, creates sandboxes through the lifecycle and hands them to the supervision manager; the manager talks
  HTTP to the sandbox server, copies its events and its result into the ledger and releases the reservation; every external
  effect waits for the checkpoint coordinator to confirm the revision that records the intent.

  \<^bold>\<open>How code becomes definitions.\<close>  A method is a function from a state to a result and a state
  (\<open>io\<close> in \<open>Prelude\<close>): \<open>Inl\<close> is the exception raised, \<open>Inr\<close> the value returned.  \<open>andThen\<close>,
  \<open>catch\<close>, \<open>try_finally\<close>, \<open>attempt\<close> and \<open>for_each\<close> are sequencing, \<open>except\<close>,
  \<open>finally\<close> and loops.  A write transaction is \<open>db_write\<close> of \<open>Sqlite_Db\<close>: a body that raises is rolled back,
  one that returns advances the revision.  Tables are lists of records in insertion order; primary keys, uniqueness and foreign
  keys that the code runs into raise \<open>IntegrityError\<close>.  Texts are their UTF-8 bytes; where the code counts
  characters the definitions count code points (\<open>Py_Text\<close>, \<open>Sandbox_Evidence\<close>).  Clocks, random identifiers,
  HTTP, the Modal SDK, git, subprocesses, JSON parsing, ciphers and digests are arguments: fields of an environment record
  that answer a call with a value or an exception.  Coroutines are modelled at the granularity of their calls: an operation runs
  to its end, except where interleaving is what matters, namely the step relations named below.

  \<^bold>\<open>Theories and sources.\<close>

  \<^item> \<open>Prelude\<close>, \<open>Py_Text\<close>: collections, tables, the method monad, the locales \<open>kept_relation\<close> and
    \<open>invariant_system\<close>; the string functions of Python that the code uses.
  \<^item> \<open>Sdk_Models\<close>: the models of \<open>gg/sdk/domain.py\<close>, \<open>tasks.py\<close>, \<open>task_execution.py\<close>,
    \<open>publication.py\<close> and \<open>task_supervision.py\<close>.
  \<^item> \<open>Sqlite_Db\<close>: \<open>sqlite_db.py\<close>; the locale \<open>transactional_relation\<close>.
  \<^item> \<open>Evidence\<close>: \<open>storage.py\<close>, cutting evidence to its byte budget.
  \<^item> \<open>Ledger\<close>: \<open>ledger.py\<close>, every method.  \<open>Ledger_Inv\<close> and \<open>Retention\<close> hold the integrity invariant
    and its preservation, \<open>Ledger_Steps\<close> the step relation \<open>ledger_step\<close> and what every history keeps,
    \<open>Ledger_Intents\<close> the locale \<open>durable_intent\<close> and its three interpretations (sandbox creation, publication,
    supervision), \<open>Ledger_Events\<close> and \<open>Ledger_Props\<close> the behaviour of the methods.
  \<^item> \<open>Task_Service\<close>: \<open>task_service.py\<close>.  \<open>Checkpoints\<close>: \<open>checkpoints.py\<close>, with the step relation of
    interleaved coroutines.
  \<^item> \<open>Lifecycle\<close>, \<open>Lifecycle_Props\<close>: \<open>modal_sandbox.py\<close>.
  \<^item> \<open>Supervision\<close>, \<open>Supervision_Props\<close>, \<open>Event_Sync\<close>, \<open>Finalization\<close>:
    \<open>task_supervision/manager.py\<close> and \<open>task_supervisor_client.py\<close>.
  \<^item> \<open>Scheduler\<close>, \<open>Scheduler_Props\<close>: \<open>scheduler.py\<close> and the control plane as a whole;
    \<open>Control_Findings\<close>: two behaviours it does not intend.
  \<^item> \<open>Github\<close>, \<open>Draft_Publisher\<close>, \<open>Draft_Publisher_Props\<close>, \<open>One_Pull_Request\<close>: \<open>github.py\<close> and
    \<open>publication.py\<close>, the last against a GitHub that stores pull requests.
  \<^item> \<open>Identity\<close>, \<open>Identity_Props\<close>: \<open>local_sessions.py\<close>, \<open>web_auth.py\<close>, \<open>task_auth.py\<close>; the locale
    \<open>table_relation\<close> for relations on the identity tables.
  \<^item> \<open>Openrouter_Vault\<close>: \<open>openrouter_vault.py\<close>.
  \<^item> \<open>Github_Connection\<close>, \<open>Github_Connection_Props\<close>: \<open>github_connection.py\<close>; the locale \<open>link_relation\<close> names
    the statements of its store.
  \<^item> \<open>Google_Login\<close>, \<open>Google_Login_Props\<close>: \<open>google_auth.py\<close>.
  \<^item> \<open>Repository_Access\<close>, \<open>Repository_Access_Props\<close>: \<open>repository_authorization.py\<close>.
  \<^item> \<open>Task_Routes\<close>, \<open>Task_Routes_Props\<close>: \<open>task_routes.py\<close> and the middleware \<open>persistence_barrier\<close> of \<open>app.py\<close>.
  \<^item> \<open>Configuration\<close>: \<open>config.py\<close>.
  \<^item> \<open>Event_Log\<close>, \<open>Conversation\<close>, \<open>Conversation_Service\<close>: \<open>agent/event_log.py\<close>,
    \<open>sqlite_state.py\<close>, \<open>agent/local_conversation.py\<close>, \<open>conversation_service.py\<close>, \<open>pubsub.py\<close>.
  \<^item> \<open>Sandbox_Evidence\<close>: \<open>task_supervisor/commands.py\<close>, \<open>git_prep.py\<close>, \<open>secret_redaction.py\<close>.
  \<^item> \<open>Execution_Store\<close>, \<open>Execution_Service\<close>: \<open>task_supervisor/store.py\<close> and \<open>service.py\<close>.
  \<^item> \<open>Pi_Publication\<close>, \<open>Pi_Publication_Props\<close>: \<open>task_supervisor/pi_publication.py\<close>.
  \<^item> \<open>Pi_Agent\<close>, \<open>Pi_Agent_Props\<close>: \<open>agent/pi_agent.py\<close>.

  \<^bold>\<open>Interfaces.\<close>  Most safety arguments have one shape: an operation keeps a relation between the states before and
  after it because each call it makes keeps it.  \<open>kept_relation\<close> proves that once for all combinators;
  \<open>transactional_relation\<close> extends it to transactions, \<open>lifecycle_relation\<close>, \<open>phase_relation\<close>,
  \<open>reservation_relation\<close>, \<open>supervision_relation\<close> and \<open>scheduler_relation\<close> name the ledger methods that the
  lifecycle, the manager and the scheduler call and carry the relation through all their operations.  They are interpreted with the
  reachability relation of the ledger (so every run of the control plane is a history of ledger methods and inherits the ledger
  invariant), with \<open>no_requeue\<close>, with \<open>frame\<close> and with \<open>same_slots\<close>.  On the sandbox side the kept relations
  are those of the conversation, the execution store, the pipeline, the publication command and the Pi backend.
  \<open>invariant_system\<close> is interpreted on \<open>ledger_step\<close>, \<open>coordinator_step\<close>, \<open>conv_step\<close> and
  \<open>store_step\<close>.

  \<^bold>\<open>What the properties show.\<close>  For the ledger: integrity and capacity in every reachable state, permanence of
  idempotency keys, first-come reservation, exactly-once event copies, terminal states that stay, confined retention.  For
  durability: a confirmed revision is on the volume under every interleaving, the barrier tells the truth, and sandboxes, pushes
  and pull requests happen only behind it.  For the control plane: it refines the ledger, ends its loops, releases a reservation only
  when the sandbox is known to be gone, copies every event and settles every finalization.  For publication: at most one pull request
  per task also after lost answers, never a forced push nor one to the base branch.  For the sandbox: one execution per start
  key, recovery and pipelines that settle, contiguous logs, the status table, bounded and redacted evidence, framing that does
  not depend on chunks, and the life of an agent turn.

  \<^bold>\<open>Bounds and fuel.\<close>  Loops over data are structural or have a termination proof.  Loops that wait for the outside
  take a list of what happens: \<open>ensure_loop\<close> a list of checkpoint attempts (one is enough, as shown), \<open>supervise\<close>
  one environment per round, \<open>consume\<close> the inputs the consumer meets (the list ending stands for the deadline).
  \<open>sync_pages\<close> has \<open>me_pages\<close> rounds, and \<open>Event_Sync\<close> shows that one more than the pages of the log is enough;
  \<open>me_attempts\<close> is the number of manifest requests that fit into the clean-up budget.  The admission loop and the
  workspace sweep take the number of queued tasks and of tasks, which are proved to suffice.  Listings of pull requests read at
  most three pages, as the code does.

  \<^bold>\<open>Not modelled.\<close>  The HTTP and WebSocket routes, application start-up, configuration and readiness (glue over
  the operations modelled here); logging and traces; image building and the Modal SDK; schema migrations and file locks of
  SQLite (the schema appears as the tables and constraints); the static web server, the command-line tools and the HTTP
  client of the SDK.  Exceptions of the operating system inside SQLite (a full disk, a lock timeout) are not raised by the model.
  Sign-in, GitHub connections, the credential vault and repository authorization appear only as parameters of the operations that use them.
\<close>

end
